(* ===== verification/Prelude.thy ===== *)
theory Prelude
  imports Main "HOL-Library.Char_ord" "HOL-Library.List_Lexorder" "HOL-Library.Multiset"
begin

text \<open>
  What every component shares: the names of Rust's \<open>Result\<close> (a sum with the error on the
  left), the \<open>?\<close> operator as \<open>and_then\<close>, and the ordered collections of the Rust standard
  library.  A \<open>BTreeMap\<close> is an association list, kept sorted by its insertion; a
  \<open>BTreeSet\<close> is a sorted list without repetitions.  The locale \<open>keyed_map\<close> states the
  contract of a map that the components rely on and proves the facts about bulk insertion
  once; it is interpreted on the association lists.
\<close>

named_theorems result_simps \<open>case analysis of fallible computations\<close>
named_theorems map_simps \<open>lookup, keys and entries of ordered maps\<close>

section \<open>Fallible computations\<close>

abbreviation Err :: "'e \<Rightarrow> 'e + 'a" where "Err \<equiv> Inl"
abbreviation Ok :: "'a \<Rightarrow> 'e + 'a" where "Ok \<equiv> Inr"

definition and_then :: "'e + 'a \<Rightarrow> ('a \<Rightarrow> 'e + 'b) \<Rightarrow> 'e + 'b" where
  "and_then m f = (case m of Inl e \<Rightarrow> Inl e | Inr x \<Rightarrow> f x)"

definition ensure :: "bool \<Rightarrow> 'e \<Rightarrow> 'e + unit" where
  "ensure b e = (if b then Inr () else Inl e)"

definition ok_or :: "'a option \<Rightarrow> 'e \<Rightarrow> 'e + 'a" where
  "ok_or m e = (case m of None \<Rightarrow> Inl e | Some x \<Rightarrow> Inr x)"

definition map_err :: "('e \<Rightarrow> 'f) \<Rightarrow> 'e + 'a \<Rightarrow> 'f + 'a" where
  "map_err f m = (case m of Inl e \<Rightarrow> Inl (f e) | Inr x \<Rightarrow> Inr x)"

definition is_ok :: "'e + 'a \<Rightarrow> bool" where
  "is_ok m = (case m of Inl _ \<Rightarrow> False | Inr _ \<Rightarrow> True)"

lemma and_then_Inl [simp]: "and_then (Inl e) f = Inl e"
  by (simp add: and_then_def)

lemma and_then_Inr [simp]: "and_then (Inr x) f = f x"
  by (simp add: and_then_def)

lemma is_ok_simps [simp]: "is_ok (Inr x)" "\<not> is_ok (Inl e)"
  by (simp_all add: is_ok_def)

lemma is_ok_iff: "is_ok m \<longleftrightarrow> (\<exists>x. m = Inr x)"
  by (cases m) auto

lemma and_then_eq_Inr [result_simps]:
  "and_then m f = Inr y \<longleftrightarrow> (\<exists>x. m = Inr x \<and> f x = Inr y)"
  by (cases m) auto

lemma and_then_eq_Inl [result_simps]:
  "and_then m f = Inl e \<longleftrightarrow> m = Inl e \<or> (\<exists>x. m = Inr x \<and> f x = Inl e)"
  by (cases m) auto

lemma map_err_eq_Inr [simp, result_simps]: "map_err f m = Inr x \<longleftrightarrow> m = Inr x"
  by (simp add: map_err_def split: sum.splits)

lemma map_err_simps [simp]: "map_err f (Inl e) = Inl (f e)" "map_err f (Inr x) = Inr x"
  by (simp_all add: map_err_def)

lemma ensure_eq_Inr [simp, result_simps]: "ensure b e = Inr u \<longleftrightarrow> b"
  by (simp add: ensure_def)

lemma ensure_eq_Inl [simp, result_simps]: "ensure b e = Inl e' \<longleftrightarrow> \<not> b \<and> e = e'"
  by (simp add: ensure_def)

lemma ensure_simps [simp]: "ensure True e = Inr ()" "ensure False e = Inl e"
  by (simp_all add: ensure_def)

lemma ok_or_eq_Inr [simp, result_simps]: "ok_or m e = Inr x \<longleftrightarrow> m = Some x"
  by (simp add: ok_or_def split: option.splits)

lemma ok_or_eq_Inl [simp, result_simps]: "ok_or m e = Inl e' \<longleftrightarrow> m = None \<and> e = e'"
  by (simp add: ok_or_def split: option.splits)

lemma ok_or_simps [simp]: "ok_or (Some x) e = Inr x" "ok_or None e = Inl e"
  by (simp_all add: ok_or_def)

text \<open>A loop whose body may return early: the first error ends it.\<close>

fun try_fold :: "('a \<Rightarrow> 's \<Rightarrow> 'e + 's) \<Rightarrow> 'a list \<Rightarrow> 's \<Rightarrow> 'e + 's" where
  "try_fold f [] s = Inr s"
| "try_fold f (x # xs) s = and_then (f x s) (try_fold f xs)"

lemma try_fold_append:
  "try_fold f (xs @ ys) s = and_then (try_fold f xs s) (try_fold f ys)"
  by (induction xs arbitrary: s) (auto simp: and_then_def split: sum.splits)

lemma try_fold_invariant:
  assumes "\<And>x s s'. x \<in> set xs \<Longrightarrow> P s \<Longrightarrow> f x s = Inr s' \<Longrightarrow> P s'"
    and "P s" and "try_fold f xs s = Inr s'"
  shows "P s'"
  using assms
proof (induction xs arbitrary: s)
  case (Cons x xs)
  from Cons.prems(3) obtain t where t: "f x s = Inr t" "try_fold f xs t = Inr s'"
    by (auto simp: result_simps)
  have "P t"
    using Cons.prems(1)[of x s t] Cons.prems(2) t(1) by simp
  then show ?case
    using Cons.IH Cons.prems(1) t(2) by (metis list.set_intros(2))
qed simp

lemma try_fold_Cons_Inr [result_simps]:
  "try_fold f (x # xs) s = Inr t \<longleftrightarrow> (\<exists>u. f x s = Inr u \<and> try_fold f xs u = Inr t)"
  by (simp add: and_then_eq_Inr)

text \<open>A loop of checks without a state.\<close>

lemma try_fold_checks:
  "(\<exists>u. try_fold (\<lambda>x _. g x) xs () = Inr u) \<longleftrightarrow> (\<forall>x \<in> set xs. g x = Inr ())"
  by (induction xs) (auto simp: and_then_eq_Inr)

section \<open>Ordered maps\<close>

type_synonym ('k, 'v) btree = "('k \<times> 'v) list"

fun bt_insert :: "'k::linorder \<Rightarrow> 'v \<Rightarrow> ('k, 'v) btree \<Rightarrow> ('k, 'v) btree" where
  "bt_insert k v [] = [(k, v)]"
| "bt_insert k v ((k', v') # m) =
     (if k = k' then (k, v) # m
      else if k < k' then (k, v) # (k', v') # m
      else (k', v') # bt_insert k v m)"

abbreviation bt_get :: "('k, 'v) btree \<Rightarrow> 'k \<Rightarrow> 'v option" where
  "bt_get \<equiv> map_of"

definition bt_keys :: "('k, 'v) btree \<Rightarrow> 'k list" where
  "bt_keys m = map fst m"

text \<open>Iteration visits every key with the value it has.\<close>

definition bt_iter :: "('k, 'v) btree \<Rightarrow> ('k \<times> 'v) list" where
  "bt_iter m = map (\<lambda>k. (k, the (bt_get m k))) (bt_keys m)"

definition bt_values :: "('k, 'v) btree \<Rightarrow> 'v list" where
  "bt_values m = map snd (bt_iter m)"

definition bt_wf :: "('k::linorder, 'v) btree \<Rightarrow> bool" where
  "bt_wf m \<longleftrightarrow> sorted_wrt (<) (map fst m)"

definition bt_remove :: "'k \<Rightarrow> ('k, 'v) btree \<Rightarrow> ('k, 'v) btree" where
  "bt_remove k m = filter (\<lambda>e. fst e \<noteq> k) m"

definition bt_of_list :: "('k::linorder \<times> 'v) list \<Rightarrow> ('k, 'v) btree" where
  "bt_of_list es = fold (\<lambda>(k, v). bt_insert k v) es []"

lemma bt_get_insert [simp, map_simps]: "bt_get (bt_insert k v m) = (bt_get m)(k \<mapsto> v)"
  by (induction k v m rule: bt_insert.induct) auto

lemma set_keys_insert [map_simps]: "fst ` set (bt_insert k v m) = insert k (fst ` set m)"
  by (induction k v m rule: bt_insert.induct) auto

lemma bt_wf_Nil [simp]: "bt_wf []"
  by (simp add: bt_wf_def)

lemma bt_wf_insert [simp, intro]: "bt_wf m \<Longrightarrow> bt_wf (bt_insert k v m)"
proof (induction k v m rule: bt_insert.induct)
  case (2 k v k' v' m)
  have keys: "fst ` set (bt_insert k v m) = insert k (fst ` set m)"
    by (simp add: set_keys_insert)
  show ?case
  proof (cases "k = k' \<or> k < k'")
    case True
    with "2.prems" show ?thesis by (auto simp: bt_wf_def)
  next
    case False
    with "2.prems" "2.IH" keys show ?thesis by (auto simp: bt_wf_def)
  qed
qed (simp add: bt_wf_def)

lemma bt_wf_distinct: "bt_wf m \<Longrightarrow> distinct (map fst m)"
  by (simp add: bt_wf_def strict_sorted_iff)

lemma bt_iter_id [simp]: "bt_wf m \<Longrightarrow> bt_iter m = m"
  by (auto simp: bt_iter_def bt_keys_def o_def intro!: map_idI dest: bt_wf_distinct)

lemma set_bt_iter: "set (bt_iter m) = {(k, v). bt_get m k = Some v}"
  by (auto simp: bt_iter_def bt_keys_def image_iff)
     (metis domIff dom_map_of_conv_image_fst imageI fst_conv option.collapse,
      metis fst_conv map_of_SomeD option.sel)

lemma set_bt_values: "set (bt_values m) = ran (bt_get m)"
  by (auto simp: bt_values_def set_bt_iter ran_def image_iff)

lemma set_bt_keys: "set (bt_keys m) = dom (bt_get m)"
  by (simp add: bt_keys_def dom_map_of_conv_image_fst)

lemma bt_keys_insert_dom: "bt_wf m \<Longrightarrow> k \<in> dom (bt_get m) \<Longrightarrow> bt_keys (bt_insert k v m) = bt_keys m"
proof (induction k v m rule: bt_insert.induct)
  case (2 k v k' v' m)
  have "k' < k" if "k \<noteq> k'"
    using 2(2,3) that by (fastforce simp: bt_wf_def dest!: map_of_SomeD split: if_splits)
  with 2 show ?case
    by (auto simp: bt_wf_def bt_keys_def domIff split: if_splits)
qed simp

lemma bt_ext:
  assumes "bt_wf m" "bt_wf m'" "bt_get m = bt_get m'"
  shows "m = m'"
proof -
  have "set (map fst m) = set (map fst m')"
    using assms(3) by (metis dom_map_of_conv_image_fst set_map)
  then have "map fst m = map fst m'"
    using assms(1,2) unfolding bt_wf_def by (metis sorted_list_of_set_unique strict_sorted_equal)
  then have "bt_iter m = bt_iter m'"
    using assms(3) by (simp add: bt_iter_def bt_keys_def)
  then show ?thesis
    using assms(1,2) by simp
qed

lemma bt_wf_remove [simp]: "bt_wf m \<Longrightarrow> bt_wf (bt_remove k m)"
  by (induction m) (auto simp: bt_wf_def bt_remove_def)

lemma bt_get_remove [simp, map_simps]: "bt_get (bt_remove k m) = (bt_get m)(k := None)"
  by (induction m) (auto simp: bt_remove_def fun_eq_iff)

section \<open>The contract of a keyed map\<close>

lemma map_of_rev: "distinct (map fst es) \<Longrightarrow> map_of (rev es) = map_of es"
  by (rule map_of_eqI) (auto simp: rev_map [symmetric] map_of_eq_None_iff)

locale keyed_map =
  fixes look :: "'m \<Rightarrow> 'k \<Rightarrow> 'v option"
    and ins :: "'k \<Rightarrow> 'v \<Rightarrow> 'm \<Rightarrow> 'm"
    and inv :: "'m \<Rightarrow> bool"
  assumes look_ins: "look (ins k v m) = (look m)(k \<mapsto> v)"
    and inv_ins: "inv m \<Longrightarrow> inv (ins k v m)"
begin

definition ins_all :: "('k \<times> 'v) list \<Rightarrow> 'm \<Rightarrow> 'm" where
  "ins_all es m = fold (\<lambda>(k, v). ins k v) es m"

lemma inv_ins_all: "inv m \<Longrightarrow> inv (ins_all es m)"
  by (induction es arbitrary: m) (auto simp: ins_all_def inv_ins)

lemma look_ins_all: "look (ins_all es m) = look m ++ map_of (rev es)"
  by (induction es arbitrary: m) (auto simp: ins_all_def look_ins)

lemma look_ins_all_distinct:
  "distinct (map fst es) \<Longrightarrow> look (ins_all es m) = look m ++ map_of es"
  by (simp add: look_ins_all map_of_rev)

lemma dom_ins_all [map_simps]: "dom (look (ins_all es m)) = dom (look m) \<union> fst ` set es"
  by (auto simp: look_ins_all dom_map_of_conv_image_fst)

end

interpretation bt: keyed_map bt_get bt_insert bt_wf
  by unfold_locales simp_all

end
