(* ===== verification/Json_Value.thy ===== *)
theory Json_Value
  imports Rust_Str "HOL-Library.Word"
begin

text \<open>
  The value type of the \<open>serde_json\<close> interface: its public constructors and the accessors the
  components call, each total with the documented result on the wrong kind of value.  An object
  is a map with ordered keys.  A float is kept as the 64 bits of its representation.
  Serialisation and parsing are library code and appear in the components as parameters.
\<close>

datatype jnum = PosInt "64 word" | NegInt "64 word" | Float "64 word"

datatype json =
    JNull
  | JBool bool
  | JNum jnum
  | JStr string
  | JArr "json list"
  | JObj "(string \<times> json) list"

fun as_str :: "json \<Rightarrow> string option" where
  "as_str (JStr s) = Some s"
| "as_str _ = None"

fun as_bool :: "json \<Rightarrow> bool option" where
  "as_bool (JBool b) = Some b"
| "as_bool _ = None"

fun as_u64 :: "json \<Rightarrow> 64 word option" where
  "as_u64 (JNum (PosInt n)) = Some n"
| "as_u64 _ = None"

fun as_array :: "json \<Rightarrow> json list option" where
  "as_array (JArr xs) = Some xs"
| "as_array _ = None"

fun as_object :: "json \<Rightarrow> (string \<times> json) list option" where
  "as_object (JObj o') = Some o'"
| "as_object _ = None"

definition is_null :: "json \<Rightarrow> bool" where
  "is_null v \<longleftrightarrow> v = JNull"

text \<open>\<open>Value::get\<close>, the index operator (\<open>Null\<close> where there is no such key), and \<open>pointer\<close>.\<close>

fun jget :: "json \<Rightarrow> string \<Rightarrow> json option" where
  "jget (JObj o') k = bt_get o' k"
| "jget _ k = None"

definition jidx :: "json \<Rightarrow> string \<Rightarrow> json" where
  "jidx v k = (case jget v k of None \<Rightarrow> JNull | Some x \<Rightarrow> x)"

fun jptr :: "json \<Rightarrow> string list \<Rightarrow> json option" where
  "jptr v [] = Some v"
| "jptr v (k # ks) = (case jget v k of None \<Rightarrow> None | Some x \<Rightarrow> jptr x ks)"

text \<open>The \<open>json!\<close> macro on an object literal, and the conversions it applies to its values.\<close>

definition jobj :: "(string \<times> json) list \<Rightarrow> json" where
  "jobj es = JObj (bt_of_list es)"

definition ju64 :: "64 word \<Rightarrow> json" where
  "ju64 n = JNum (PosInt n)"

definition jopt_str :: "string option \<Rightarrow> json" where
  "jopt_str x = (case x of None \<Rightarrow> JNull | Some s \<Rightarrow> JStr s)"

definition jopt :: "json option \<Rightarrow> json" where
  "jopt x = (case x of None \<Rightarrow> JNull | Some v \<Rightarrow> v)"

lemma bt_of_list_wf [simp]: "bt_wf (bt_of_list es)"
  using bt.inv_ins_all [of "[]" es] by (simp add: bt_of_list_def bt.ins_all_def)

lemma bt_get_of_list: "distinct (map fst es) \<Longrightarrow> bt_get (bt_of_list es) = map_of es"
  using bt.look_ins_all_distinct [of es "[]"]
  by (simp add: bt_of_list_def bt.ins_all_def map_add_def fun_eq_iff split: option.splits)

lemma jget_jobj: "distinct (map fst es) \<Longrightarrow> jget (jobj es) k = map_of es k"
  by (simp add: jobj_def bt_get_of_list)

lemma jidx_jobj:
  "distinct (map fst es) \<Longrightarrow> jidx (jobj es) k = (case map_of es k of None \<Rightarrow> JNull | Some x \<Rightarrow> x)"
  by (simp add: jidx_def jget_jobj)

lemma as_u64_ju64 [simp]: "as_u64 (ju64 n) = Some n"
  by (simp add: ju64_def)

lemma as_str_eq: "as_str v = Some s \<longleftrightarrow> v = JStr s"
  by (cases v) auto

lemma as_array_eq: "as_array v = Some s \<longleftrightarrow> v = JArr s"
  by (cases v) auto

lemma as_u64_eq: "as_u64 v = Some n \<longleftrightarrow> v = ju64 n"
  by (cases v rule: as_u64.cases) (auto simp: ju64_def)

lemma as_object_eq: "as_object v = Some s \<longleftrightarrow> v = JObj s"
  by (cases v) auto

lemma jidx_as_str: "as_str (jidx v k) = Some s \<longleftrightarrow> jget v k = Some (JStr s)"
  by (auto simp: jidx_def as_str_eq split: option.splits)

end
