(* ===== verification/Sha256.thy ===== *)
theory Sha256
  imports Json_Value
begin

text \<open>
  The hash the program is built on (crates/code-intel-cli/src/content_contract/sha256.rs): the
  streaming hasher with its state, partial block, fill count and length counter, and the
  one-shot copy that authority.rs carries.  The locale \<open>streaming_hash\<close> states what the callers
  of a streaming hasher rely on; it is interpreted on the model of the hasher, and the facts
  about chunk boundaries, framing and the agreement of the two copies follow from it.
\<close>

unbundle bit_operations_syntax

type_synonym u8 = "8 word"
type_synonym u32 = "32 word"
type_synonym u64 = "64 word"

section \<open>The compression function\<close>

definition sha_init :: "u32 list" where
  "sha_init =
     [1779033703, 3144134277, 1013904242, 2773480762, 1359893119,
      2600822924, 528734635, 1541459225]"

text \<open>The round constants of the code, written in decimal.\<close>

definition sha_K :: "u32 list" where
  "sha_K =
     [1116352408, 1899447441, 3049323471, 3921009573, 961987163, 1508970993,
      2453635748, 2870763221, 3624381080, 310598401, 607225278, 1426881987,
      1925078388, 2162078206, 2614888103, 3248222580, 3835390401, 4022224774,
      264347078, 604807628, 770255983, 1249150122, 1555081692, 1996064986,
      2554220882, 2821834349, 2952996808, 3210313671, 3336571891, 3584528711,
      113926993, 338241895, 666307205, 773529912, 1294757372, 1396182291,
      1695183700, 1986661051, 2177026350, 2456956037, 2730485921, 2820302411,
      3259730800, 3345764771, 3516065817, 3600352804, 4094571909, 275423344,
      430227734, 506948616, 659060556, 883997877, 958139571, 1322822218,
      1537002063, 1747873779, 1955562222, 2024104815, 2227730452, 2361852424,
      2428436474, 2756734187, 3204031479, 3329325298]"

definition from_be_bytes :: "u8 \<Rightarrow> u8 \<Rightarrow> u8 \<Rightarrow> u8 \<Rightarrow> u32" where
  "from_be_bytes b0 b1 b2 b3 =
     push_bit 24 (ucast b0) OR push_bit 16 (ucast b1) OR push_bit 8 (ucast b2) OR ucast b3"

fun be_words :: "u8 list \<Rightarrow> u32 list" where
  "be_words (b0 # b1 # b2 # b3 # bs) = from_be_bytes b0 b1 b2 b3 # be_words bs"
| "be_words _ = []"

definition to_be_bytes64 :: "u64 \<Rightarrow> u8 list" where
  "to_be_bytes64 n = map (\<lambda>i. ucast (drop_bit (8 * (7 - i)) n)) [0..<8]"

definition schedule_step :: "nat \<Rightarrow> u32 list \<Rightarrow> u32 list" where
  "schedule_step i w =
     (let s0 = word_rotr 7 (w ! (i - 15)) XOR word_rotr 18 (w ! (i - 15)) XOR drop_bit 3 (w ! (i - 15));
          s1 = word_rotr 17 (w ! (i - 2)) XOR word_rotr 19 (w ! (i - 2)) XOR drop_bit 10 (w ! (i - 2))
      in w[i := w ! (i - 16) + s0 + w ! (i - 7) + s1])"

definition schedule :: "u8 list \<Rightarrow> u32 list" where
  "schedule chunk = fold schedule_step [16..<64] (be_words chunk @ replicate 48 0)"

fun sha_round :: "u32 list \<Rightarrow> nat \<Rightarrow> u32 list \<Rightarrow> u32 list" where
  "sha_round w i [a, b, c, d, e, f, g, hh] =
     (let s1 = word_rotr 6 e XOR word_rotr 11 e XOR word_rotr 25 e;
          ch = (e AND f) XOR (NOT e AND g);
          t1 = hh + s1 + ch + sha_K ! i + w ! i;
          s0 = word_rotr 2 a XOR word_rotr 13 a XOR word_rotr 22 a;
          maj = (a AND b) XOR (a AND c) XOR (b AND c);
          t2 = s0 + maj
      in [t1 + t2, a, b, c, d + t1, e, f, g])"
| "sha_round w i v = v"

definition compress :: "u32 list \<Rightarrow> u8 list \<Rightarrow> u32 list" where
  "compress st chunk = map2 (+) st (fold (sha_round (schedule chunk)) [0..<64] st)"

definition hex_digit :: "nat \<Rightarrow> char" where
  "hex_digit n = (if n < 10 then char_of (48 + n) else char_of (87 + n))"

text \<open>\<open>format!("{value:08x}")\<close>: eight lower-case digits, the most significant first.\<close>

definition hex8 :: "u32 \<Rightarrow> string" where
  "hex8 v = map (\<lambda>i. hex_digit (unat (drop_bit (4 * (7 - i)) v AND 15))) [0..<8]"

definition digest_of :: "u32 list \<Rightarrow> string" where
  "digest_of st = concat (map hex8 st)"

section \<open>The streaming hasher\<close>

record sha256 =
  sh_state :: "u32 list"
  sh_block :: "u8 list"
  sh_filled :: nat
  sh_length :: u64

definition sha_new :: sha256 where
  "sha_new = \<lparr>sh_state = sha_init, sh_block = replicate 64 0, sh_filled = 0, sh_length = 0\<rparr>"

function chunks64 :: "u8 list \<Rightarrow> u8 list list" where
  "chunks64 bs = (if length bs < 64 then [] else take 64 bs # chunks64 (drop 64 bs))"
  by pat_completeness auto
termination
  by (relation "measure length") auto

declare chunks64.simps [simp del]

definition remainder64 :: "u8 list \<Rightarrow> u8 list" where
  "remainder64 bs = drop (64 * (length bs div 64)) bs"

text \<open>The part of \<open>update\<close> after a pending partial block has been completed.\<close>

definition sha_absorb :: "sha256 \<Rightarrow> u8 list \<Rightarrow> sha256" where
  "sha_absorb s bs =
     (let rest = remainder64 bs
      in s\<lparr>sh_state := foldl compress (sh_state s) (chunks64 bs),
           sh_block := rest @ drop (length rest) (sh_block s),
           sh_filled := length rest\<rparr>)"

definition sha_update :: "sha256 \<Rightarrow> u8 list \<Rightarrow> sha256" where
  "sha_update s0 bs =
     (let s = s0\<lparr>sh_length := sh_length s0 + of_nat (length bs)\<rparr>
      in if sh_filled s > 0
         then (let n = min (64 - sh_filled s) (length bs);
                   blk = take (sh_filled s) (sh_block s) @ take n bs @ drop (sh_filled s + n) (sh_block s);
                   s' = s\<lparr>sh_block := blk, sh_filled := sh_filled s + n\<rparr>;
                   bs' = drop n bs
               in if sh_filled s' < 64 then s'
                  else sha_absorb (s'\<lparr>sh_state := compress (sh_state s') (sh_block s'), sh_filled := 0\<rparr>) bs')
         else sha_absorb s bs)"

definition sha_update_framed :: "sha256 \<Rightarrow> u8 list \<Rightarrow> sha256" where
  "sha_update_framed s bs = sha_update (sha_update s (to_be_bytes64 (of_nat (length bs)))) bs"

definition sha_finish :: "sha256 \<Rightarrow> string" where
  "sha_finish s =
     (let bits = sh_length s * 8;
          blk = (sh_block s)[sh_filled s := 0x80];
          blk = take (sh_filled s + 1) blk @ replicate (64 - (sh_filled s + 1)) 0;
          (st, blk) = (if sh_filled s \<ge> 56 then (compress (sh_state s) blk, replicate 64 0)
                       else (sh_state s, blk));
          blk = take 56 blk @ to_be_bytes64 bits
      in digest_of (compress st blk))"

definition sha256_hex :: "u8 list \<Rightarrow> string" where
  "sha256_hex bs = sha_finish (sha_update sha_new bs)"

section \<open>The one-shot copy of authority.rs\<close>

function pad_to_56 :: "u8 list \<Rightarrow> u8 list" where
  "pad_to_56 d = (if length d mod 64 \<noteq> 56 then pad_to_56 (d @ [0]) else d)"
  by pat_completeness auto
termination
  by (relation "measure (\<lambda>d. if length d mod 64 \<le> 56 then 56 - length d mod 64
                            else 120 - length d mod 64)")
     (auto simp: mod_Suc)

declare pad_to_56.simps [simp del]

definition oneshot_sha256_hex :: "u8 list \<Rightarrow> string" where
  "oneshot_sha256_hex bs =
     (let bits = (of_nat (length bs) :: u64) * 8;
          d = pad_to_56 (bs @ [0x80]) @ to_be_bytes64 bits
      in digest_of (foldl compress sha_init (chunks64 d)))"

section \<open>What callers rely on\<close>

locale streaming_hash =
  fixes new :: 's
    and update :: "'s \<Rightarrow> 'b list \<Rightarrow> 's"
    and finish :: "'s \<Rightarrow> 'd"
    and absorbed :: "'s \<Rightarrow> 'b list \<Rightarrow> bool"
    and hash :: "'b list \<Rightarrow> 'd"
  assumes absorbed_new: "absorbed new []"
    and absorbed_update: "absorbed s m \<Longrightarrow> absorbed (update s bs) (m @ bs)"
    and absorbed_finish: "absorbed s m \<Longrightarrow> finish s = hash m"
begin

lemma absorbed_pieces: "absorbed s m \<Longrightarrow> absorbed (foldl update s ps) (m @ concat ps)"
proof (induction ps arbitrary: s m)
  case (Cons p ps)
  show ?case
    using Cons.IH [OF absorbed_update [OF Cons.prems]] by simp
qed simp

lemma finish_pieces: "finish (foldl update new ps) = hash (concat ps)"
  using absorbed_finish [OF absorbed_pieces [OF absorbed_new]] by simp

lemma finish_one: "finish (update new m) = hash m"
  using finish_pieces [of "[m]"] by simp

lemma finish_split:
  "absorbed s m \<Longrightarrow> finish (update (update s a) b) = finish (update s (a @ b))"
  using absorbed_update absorbed_finish by (metis append_assoc)

end

section \<open>The hasher meets the contract\<close>

lemma chunks64_short [simp]: "length bs < 64 \<Longrightarrow> chunks64 bs = []"
  by (simp add: chunks64.simps)

lemma chunks64_block: "length b = 64 \<Longrightarrow> chunks64 (b @ r) = b # chunks64 r"
  by (simp add: chunks64.simps [of "b @ r"])

lemma remainder64_short [simp]: "length bs < 64 \<Longrightarrow> remainder64 bs = bs"
  by (simp add: remainder64_def)

lemma remainder64_block: "length b = 64 \<Longrightarrow> remainder64 (b @ r) = remainder64 r"
  by (simp add: remainder64_def div_add_self1)

lemma length_remainder64 [simp]: "length (remainder64 bs) = length bs mod 64"
  by (simp add: remainder64_def minus_mult_div_eq_mod)

lemma append_chunks:
  "chunks64 (a @ b) = chunks64 a @ chunks64 (remainder64 a @ b) \<and>
   remainder64 (a @ b) = remainder64 (remainder64 a @ b)"
proof (induction a rule: chunks64.induct)
  case (1 a)
  show ?case
  proof (cases "length a < 64")
    case False
    define h where "h = take 64 a"
    define t where "t = drop 64 a"
    have a: "a = h @ t" "length h = 64"
      using False by (simp_all add: h_def t_def)
    show ?thesis
      using "1.IH" [OF False] a by (simp add: t_def [symmetric] chunks64_block remainder64_block)
  qed simp
qed

lemmas chunks64_append = append_chunks [THEN conjunct1]
  and remainder64_append = append_chunks [THEN conjunct2]

lemma mod_add_small: "m mod 64 + k < 64 \<Longrightarrow> (m + k) mod 64 = m mod 64 + k" for m k :: nat
  by (metis mod_add_left_eq mod_less)

definition sha_absorbed :: "sha256 \<Rightarrow> u8 list \<Rightarrow> bool" where
  "sha_absorbed s m \<longleftrightarrow>
     sh_state s = foldl compress sha_init (chunks64 m) \<and>
     sh_filled s = length m mod 64 \<and>
     length (sh_block s) = 64 \<and>
     take (sh_filled s) (sh_block s) = remainder64 m \<and>
     sh_length s = of_nat (length m)"

lemma sha_absorbed_new: "sha_absorbed sha_new []"
  by (simp add: sha_absorbed_def sha_new_def)

lemma sha_absorb_correct:
  assumes "sh_state s = foldl compress sha_init (chunks64 m)" "remainder64 m = []"
    and "length (sh_block s) = 64" "sh_length s = of_nat (length (m @ bs))"
  shows "sha_absorbed (sha_absorb s bs) (m @ bs)"
proof -
  have m: "length m mod 64 = 0"
    using assms(2) by (metis length_remainder64 list.size(3))
  have "length (remainder64 bs) \<le> 64"
    by simp
  moreover have "length (m @ bs) mod 64 = length bs mod 64"
    using m by (simp add: mod_add_eq [symmetric])
  ultimately show ?thesis
    using assms by (simp add: sha_absorbed_def sha_absorb_def chunks64_append [of m] remainder64_append [of m] Let_def)
qed

lemma sha_absorbed_update:
  assumes "sha_absorbed s m"
  shows "sha_absorbed (sha_update s bs) (m @ bs)"
proof -
  let ?f = "sh_filled s" and ?r = "remainder64 m"
  from assms have f: "?f = length ?r" and f64: "?f < 64" and blk: "length (sh_block s) = 64"
    and r: "take ?f (sh_block s) = ?r"
    and st: "sh_state s = foldl compress sha_init (chunks64 m)"
    and len: "sh_length s + of_nat (length bs) = of_nat (length (m @ bs))"
    by (auto simp: sha_absorbed_def)
  consider (empty) "?f = 0" | (short) "?f > 0" "?f + length bs < 64"
    | (long) "?f > 0" "64 \<le> ?f + length bs" by linarith
  then show ?thesis
  proof cases
    case empty
    then have "?r = []" using f by (metis length_0_conv)
    with empty st blk len show ?thesis
      by (simp add: sha_update_def Let_def sha_absorb_correct)
  next
    case short
    let ?l = "length bs"
    have upd: "sha_update s bs = s\<lparr>sh_length := sh_length s + of_nat ?l,
        sh_block := ?r @ bs @ drop (?f + ?l) (sh_block s), sh_filled := ?f + ?l\<rparr>"
      using short r by (simp add: sha_update_def Let_def)
    have small: "length (?r @ bs) < 64"
      using short f by (simp only: length_append)
    have chunks: "chunks64 (m @ bs) = chunks64 m" and rest: "remainder64 (m @ bs) = ?r @ bs"
      using chunks64_append [of m bs] remainder64_append [of m bs] chunks64_short [OF small]
        remainder64_short [OF small] by (simp_all only: append_Nil2)
    have "sh_filled (sha_update s bs) = length (m @ bs) mod 64"
      using short f mod_add_small [of "length m" ?l] by (simp add: upd)
    moreover have "take (?f + ?l) (?r @ bs @ drop (?f + ?l) (sh_block s)) = ?r @ bs"
      using f by simp
    moreover have "length (?r @ bs @ drop (?f + ?l) (sh_block s)) = 64"
      using f blk short(2) by simp
    ultimately show ?thesis
      unfolding sha_absorbed_def chunks rest using st len by (simp add: upd)
  next
    case long
    define n where "n = 64 - ?f"
    define b1 where "b1 = take n bs"
    define b2 where "b2 = drop n bs"
    have bs: "bs = b1 @ b2" and n: "min (64 - ?f) (length bs) = n" and b1: "length b1 = n"
      using long f64 by (auto simp: b1_def b2_def n_def)
    have full: "length (?r @ b1) = 64"
      using f f64 b1 n_def by simp
    have chunks: "chunks64 (m @ b1) = chunks64 m @ [?r @ b1]" "remainder64 (m @ b1) = []"
      using full chunks64_block [OF full, of "[]"] remainder64_block [OF full, of "[]"]
      by (simp_all add: chunks64_append [of m] remainder64_append [of m])
    have fn: "?f + n = 64" using f64 by (simp add: n_def)
    have upd: "sha_update s bs =
        sha_absorb (s\<lparr>sh_length := sh_length s + of_nat (length bs), sh_block := ?r @ b1,
                     sh_state := compress (sh_state s) (?r @ b1), sh_filled := 0\<rparr>) b2"
      unfolding sha_update_def Let_def
      using long(1) by (simp add: n fn r blk b1_def [symmetric] b2_def [symmetric])
    have "sha_absorbed (sha_update s bs) ((m @ b1) @ b2)"
      unfolding upd
      by (rule sha_absorb_correct)
         (use chunks st full len bs in \<open>simp_all add: add_ac\<close>)
    then show ?thesis by (simp only: bs append_assoc)
  qed
qed

definition pad_len :: "nat \<Rightarrow> nat" where
  "pad_len r = (if r \<le> 56 then 56 - r else 120 - r)"

lemma pad_len_Suc: "n mod 64 \<noteq> 56 \<Longrightarrow> pad_len (n mod 64) = Suc (pad_len (Suc n mod 64))"
proof -
  assume n: "n mod 64 \<noteq> 56"
  have "n mod 64 < 64" by simp
  moreover have "Suc n mod 64 = (if n mod 64 = 63 then 0 else Suc (n mod 64))"
    by (simp add: mod_Suc)
  ultimately show ?thesis
    using n by (auto simp: pad_len_def)
qed

lemma pad_to_56_eq: "pad_to_56 d = d @ replicate (pad_len (length d mod 64)) 0"
proof (induction d rule: pad_to_56.induct)
  case (1 d)
  show ?case
  proof (cases "length d mod 64 = 56")
    case True
    then show ?thesis by (simp add: pad_to_56.simps [of d] pad_len_def)
  next
    case False
    then show ?thesis
      using "1.IH" pad_len_Suc [OF False] by (simp add: pad_to_56.simps [of d])
  qed
qed

lemma sha_absorbed_finish:
  assumes "sha_absorbed s m"
  shows "sha_finish s = oneshot_sha256_hex m"
proof -
  let ?r = "remainder64 m" and ?f = "length m mod 64" and ?bits = "to_be_bytes64 (of_nat (length m) * 8)"
  define k where "k = pad_len (Suc (length m) mod 64)"
  have f64: "?f < 64" by simp
  have fl: "sh_filled s = ?f" and st: "sh_state s = foldl compress sha_init (chunks64 m)"
    and r: "take ?f (sh_block s) = ?r" and blk: "length (sh_block s) = 64"
    and len: "sh_length s = of_nat (length m)"
    using assms by (auto simp: sha_absorbed_def)
  have head: "take (Suc ?f) ((sh_block s)[?f := 0x80]) = ?r @ [0x80]"
  proof -
    have "?f < length ((sh_block s)[?f := 0x80])"
      using blk f64 by simp
    then show ?thesis
      using r by (simp only: take_Suc_conv_app_nth take_update_cancel [OF order_refl]
          nth_list_update_eq length_list_update)
  qed
  have bits: "length ?bits = 8" by (simp add: to_be_bytes64_def)
  have one: "oneshot_sha256_hex m =
      digest_of (foldl compress (sh_state s) (chunks64 (?r @ 0x80 # replicate k 0 @ ?bits)))"
    by (simp add: oneshot_sha256_hex_def Let_def pad_to_56_eq k_def st chunks64_append [of m])
  show ?thesis
  proof (cases "?f < 56")
    case True
    then have k: "k = 55 - ?f" by (simp add: k_def mod_Suc pad_len_def)
    have "chunks64 (?r @ 0x80 # replicate k 0 @ ?bits) = [?r @ 0x80 # replicate (55 - ?f) 0 @ ?bits]"
      using chunks64_block [of "?r @ 0x80 # replicate k 0 @ ?bits" "[]"] True bits k by simp
    moreover have "take 56 ((?r @ [0x80]) @ replicate (63 - ?f) 0) = ?r @ 0x80 # replicate (55 - ?f) 0"
    proof -
      have "56 - ?f = Suc (55 - ?f)" "min (55 - ?f) (63 - ?f) = 55 - ?f"
        using True by simp_all
      then show ?thesis by simp
    qed
    moreover have "sha_finish s =
        digest_of (compress (sh_state s) (take 56 ((?r @ [0x80]) @ replicate (63 - ?f) 0) @ ?bits))"
      using True by (simp add: sha_finish_def Let_def fl len head del: take_append)
    ultimately show ?thesis
      by (simp only: one foldl.simps append_Cons append_assoc append_Nil)
  next
    case False
    then have "k = (63 - ?f) + 56" using f64 by (auto simp: k_def mod_Suc pad_len_def)
    then have zeros: "replicate k (0::u8) = replicate (63 - ?f) 0 @ replicate 56 0"
      by (simp only: replicate_add)
    have "chunks64 (?r @ 0x80 # replicate k 0 @ ?bits)
        = [?r @ 0x80 # replicate (63 - ?f) 0, replicate 56 0 @ ?bits]"
      using chunks64_block [of "?r @ 0x80 # replicate (63 - ?f) 0" "replicate 56 0 @ ?bits"]
        chunks64_block [of "replicate 56 0 @ ?bits" "[]"] f64 bits
      by (simp add: zeros)
    then show ?thesis
      using False head by (simp add: one sha_finish_def Let_def fl len)
  qed
qed

interpretation sha: streaming_hash sha_new sha_update sha_finish sha_absorbed oneshot_sha256_hex
  by unfold_locales (rule sha_absorbed_new, rule sha_absorbed_update, assumption,
      rule sha_absorbed_finish)

section \<open>Length-framed records\<close>

definition frame :: "u8 list \<Rightarrow> u8 list" where
  "frame bs = to_be_bytes64 (of_nat (length bs)) @ bs"

lemma length_to_be_bytes64 [simp]: "length (to_be_bytes64 n) = 8"
  by (simp add: to_be_bytes64_def)

lemma to_be_bytes64_inj: "to_be_bytes64 m = to_be_bytes64 n \<Longrightarrow> m = n"
proof (rule bit_word_eqI)
  fix i assume eq: "to_be_bytes64 m = to_be_bytes64 n" and i: "i < LENGTH(64)"
  let ?k = "7 - i div 8"
  have k: "?k < 8" "8 * (7 - ?k) = 8 * (i div 8)" "i mod 8 < 8"
    using i by auto
  have "(ucast (drop_bit (8 * (i div 8)) m) :: u8) = ucast (drop_bit (8 * (i div 8)) n)"
    using arg_cong [OF eq, of "\<lambda>bs. bs ! ?k"] k by (simp add: to_be_bytes64_def)
  then have "bit (ucast (drop_bit (8 * (i div 8)) m) :: u8) (i mod 8)
           = bit (ucast (drop_bit (8 * (i div 8)) n) :: u8) (i mod 8)"
    by simp
  moreover have "8 * (i div 8) + i mod 8 = i"
    by simp
  ultimately show "bit m i = bit n i"
    using k(3) by (simp add: bit_ucast_iff bit_drop_bit_eq)
qed

lemma frame_neq_Nil [simp]: "frame bs \<noteq> []"
  by (metis Nil_is_append_conv frame_def length_to_be_bytes64 list.size(3) zero_neq_numeral)

lemma frames_inj:
  assumes "\<forall>r \<in> set rs \<union> set rs'. length r < 2 ^ 64"
    and "concat (map frame rs) = concat (map frame rs')"
  shows "rs = rs'"
  using assms
proof (induction rs arbitrary: rs')
  case Nil
  then show ?case by (cases rs') auto
next
  case (Cons r rs)
  have "rs' \<noteq> []"
    using Cons.prems(2) by (metis append_is_Nil_conv concat.simps frame_neq_Nil list.simps(8,9))
  then obtain r' rs'' where rs': "rs' = r' # rs''"
    by (cases rs') simp_all
  have "to_be_bytes64 (of_nat (length r)) = to_be_bytes64 (of_nat (length r'))"
    and tails: "r @ concat (map frame rs) = r' @ concat (map frame rs'')"
    using Cons.prems(2) unfolding rs'
    by (simp_all add: frame_def [of r] frame_def [of r'] append_eq_append_conv)
  then have "(of_nat (length r) :: u64) = of_nat (length r')"
    by (blast dest: to_be_bytes64_inj)
  then have "unat (of_nat (length r) :: u64) = unat (of_nat (length r') :: u64)"
    by (rule arg_cong)
  then have "length r mod 2 ^ 64 = length r' mod 2 ^ 64"
    by (simp add: unat_of_nat)
  then have "length r = length r'"
    using Cons.prems(1) by (simp add: rs')
  then show ?case
    using tails Cons.IH [of rs''] Cons.prems(1) by (simp add: rs')
qed

lemma update_framed_eq: "sha_update_framed s bs = foldl sha_update s [to_be_bytes64 (of_nat (length bs)), bs]"
  by (simp add: sha_update_framed_def)

lemma foldl_framed:
  "foldl sha_update_framed s rs =
   foldl sha_update s (concat (map (\<lambda>r. [to_be_bytes64 (of_nat (length r)), r]) rs))"
  by (induction rs arbitrary: s) (simp_all add: update_framed_eq)

section \<open>Properties\<close>

text \<open>C28: hashing a message in pieces gives the digest of the whole message, wherever the
  piece boundaries fall.\<close>

theorem sha_piece_boundaries:
  "sha_finish (foldl sha_update sha_new pieces) = sha256_hex (concat pieces)"
  unfolding sha256_hex_def by (simp only: sha.finish_pieces sha.finish_one)

text \<open>The one-shot hash that authority.rs carries agrees with the streaming hasher on every
  message.\<close>

theorem oneshot_sha256_agrees: "oneshot_sha256_hex m = sha256_hex m"
  unfolding sha256_hex_def by (simp only: sha.finish_one)

text \<open>The digest of a sequence of length-framed records is the digest of their frames laid
  end to end, and that byte sequence determines the records: two sequences of records (each
  shorter than 2 to the 64 bytes) that feed the hasher the same bytes are equal.\<close>

theorem sha_framing_injective:
  "sha_finish (foldl sha_update_framed sha_new rs) = sha256_hex (concat (map frame rs)) \<and>
   ((\<forall>r \<in> set rs \<union> set rs'. length r < 2 ^ 64) \<longrightarrow>
    concat (map frame rs) = concat (map frame rs') \<longrightarrow> rs = rs')"
proof -
  have "concat (concat (map (\<lambda>r. [to_be_bytes64 (of_nat (length r)), r]) rs)) = concat (map frame rs)"
    by (induction rs) (simp_all add: frame_def)
  then show ?thesis
    using frames_inj [of rs rs']
    by (simp add: foldl_framed sha.finish_pieces sha256_hex_def sha.finish_one)
qed

theorem sha_framing_injective_witness:
  "[[1::u8], [2, 3]] = [[1], [2, 3]]"
  by (rule sha_framing_injective [of "[[1], [2, 3]]" "[[1], [2, 3]]", THEN conjunct2, rule_format])
     auto

end
