(* ===== verification/Content_Contract.thy ===== *)
theory Content_Contract
  imports Sha256
begin

text \<open>
  The shape checks shared by every consumer of artifacts
  (crates/code-intel-cli/src/content_contract.rs): digests, run identities, exact object keys
  and the shape of an Artifact Ref.
\<close>

section \<open>Digests and identities\<close>

definition is_digest :: "string \<Rightarrow> bool" where
  "is_digest v \<longleftrightarrow> length v = 64 \<and> list_all (\<lambda>b. is_ascii_digit b \<or> CHR ''a'' \<le> b \<and> b \<le> CHR ''f'') v"

definition is_run_identity :: "string \<Rightarrow> bool" where
  "is_run_identity value =
     (case strip_prefix value ''dag-v1:'' of
        None \<Rightarrow> False
      | Some tail \<Rightarrow>
          tail \<noteq> [] \<and> length tail mod 2 = 0 \<and>
          list_all (\<lambda>b. is_ascii_digit b \<or> CHR ''a'' \<le> b \<and> b \<le> CHR ''f'') tail)"

section \<open>Object shapes\<close>

definition require_exact_keys :: "(string \<times> json) list \<Rightarrow> string list \<Rightarrow> string \<Rightarrow> string + unit" where
  "require_exact_keys o' keys name =
     (if set (bt_keys o') = set keys then Ok ()
      else Err (name @ '' fields differ from v1 schema''))"

definition nonempty_str :: "json option \<Rightarrow> bool" where
  "nonempty_str v = (case v of None \<Rightarrow> False | Some x \<Rightarrow>
     (case as_str x of None \<Rightarrow> False | Some s \<Rightarrow> s \<noteq> []))"

definition digest_value :: "json \<Rightarrow> bool" where
  "digest_value v = (case as_str v of None \<Rightarrow> False | Some s \<Rightarrow> is_digest s)"

definition validate_artifact_ref_shape :: "json \<Rightarrow> string + unit" where
  "validate_artifact_ref_shape value =
     and_then (ok_or (as_object value) ''input Artifact Ref must be an object'') (\<lambda>o'.
     and_then (require_exact_keys o'
       [''schema'', ''artifactSchema'', ''type'', ''path'', ''sha256'', ''consumedSnapshotIdentity'']
       ''input Artifact Ref'') (\<lambda>_.
     and_then (ensure (jidx value ''schema'' = JStr ''code-intel-artifact-ref.v1'')
       ''input Artifact Ref schema is invalid'') (\<lambda>_.
     and_then (try_fold (\<lambda>key _. ensure (nonempty_str (bt_get o' key))
         (''input Artifact Ref '' @ key @ '' is invalid''))
       [''artifactSchema'', ''type'', ''path''] ()) (\<lambda>_.
     and_then (ensure (digest_value (jidx value ''sha256''))
       ''input Artifact Ref sha256 is invalid'') (\<lambda>_.
     ensure (is_null (jidx value ''consumedSnapshotIdentity'')
             \<or> digest_value (jidx value ''consumedSnapshotIdentity''))
       ''input Artifact Ref consumedSnapshotIdentity is invalid'')))))"

section \<open>Digests produced by the hasher are well formed\<close>

lemma hex_digit_lower: "n < 16 \<Longrightarrow> is_lower_hex (hex_digit n)"
proof -
  have "\<forall>n \<in> set [0..<16]. is_lower_hex (hex_digit n)"
    by code_simp
  then show "n < 16 \<Longrightarrow> is_lower_hex (hex_digit n)" by simp
qed

lemma nibble_bound: "unat (v AND 15 :: u32) < 16"
proof -
  have "v AND 15 = take_bit 4 v"
    by (simp add: take_bit_eq_mask mask_eq_exp_minus_1)
  then show ?thesis
    using unsigned_take_bit_eq [of 4 v, where 'a = nat] take_bit_nat_less_exp [of 4 "unat v"] by simp
qed

lemma hex8_lower: "list_all is_lower_hex (hex8 v)" "length (hex8 v) = 8"
  by (simp_all add: hex8_def list_all_iff hex_digit_lower nibble_bound)

lemma length_sha_round [simp]: "length (sha_round w i st) = length st"
  by (induction w i st rule: sha_round.induct) (auto simp: Let_def)

lemma length_compress [simp]: "length (compress st b) = length st"
proof -
  have "length (fold (sha_round w) is st) = length st" for w "is"
    by (induction "is" arbitrary: st) simp_all
  then show ?thesis by (simp add: compress_def)
qed

lemma length_foldl_compress [simp]: "length (foldl compress st bs) = length st"
  by (induction bs arbitrary: st) simp_all

lemma digest_of_shape:
  "list_all is_lower_hex (digest_of st) \<and> length (digest_of st) = 8 * length st"
  by (induction st) (simp_all add: digest_of_def hex8_lower)

lemma is_digest_iff: "is_digest v \<longleftrightarrow> length v = 64 \<and> list_all is_lower_hex v"
  by (simp add: is_digest_def is_lower_hex_def list_all_iff)

lemma sha256_hex_digest: "is_digest (sha256_hex m)"
proof -
  have "length (sha_init :: u32 list) = 8" by (simp add: sha_init_def)
  then show ?thesis
    using digest_of_shape
    by (simp add: is_digest_iff oneshot_sha256_hex_def Let_def sha256_hex_def sha.finish_one)
qed

section \<open>Properties\<close>

text \<open>C40: every digest the hasher produces passes the digest check of the artifact contracts, and
  prefixed with the DAG scheme it is a well-formed run identity.\<close>

theorem sha256_hex_is_digest:
  "is_digest (sha256_hex m) \<and> is_run_identity (''dag-v1:'' @ sha256_hex m)"
proof -
  have "sha256_hex m \<noteq> []" "length (sha256_hex m) mod 2 = 0"
    using sha256_hex_digest [of m] by (auto simp: is_digest_def)
  moreover have "strip_prefix (''dag-v1:'' @ sha256_hex m) ''dag-v1:'' = Some (sha256_hex m)"
    by (rule strip_prefix_append)
  ultimately show ?thesis
    using sha256_hex_digest [of m] by (simp only: is_run_identity_def is_digest_def) simp
qed

end
