(* ===== verification/Dag_Spec.thy ===== *)
theory Dag_Spec
  imports Content_Contract
begin

text \<open>
  The run DAG (first part of crates/code-intel-cli/src/dag_coordinator.rs): node and edge
  specifications, their canonical JSON, the deterministic run identity, and the validation that
  admits a specification.  Kahn's algorithm is modelled with its ready set and its counters; a
  counter that would fall below zero is the panic \<open>None\<close>.  The lemmas show that validation
  accepts exactly the well-formed acyclic specifications.
\<close>

section \<open>Specifications\<close>

record node_spec =
  ns_id :: string
  ns_capability :: string
  ns_request_identity :: string

datatype edge_spec = EdgeSpec (es_from: string) (es_to: string)

record dag_spec =
  ds_snapshot :: string
  ds_max_concurrency :: nat
  ds_nodes :: "node_spec list"
  ds_edges :: "edge_spec list"

datatype error_kind =
    InvalidSpec | DuplicateNode | UnknownNode | DuplicateEdge | Cycle
  | InvalidTransition | ResumeIdentityMismatch

datatype coordinator_error = CoordinatorError (error_kind: error_kind) (error_message: string)

text \<open>The derived order of edges: by source, then by target.\<close>

instantiation edge_spec :: linorder
begin

definition less_eq_edge_spec :: "edge_spec \<Rightarrow> edge_spec \<Rightarrow> bool" where
  "less_eq_edge_spec a b \<longleftrightarrow> es_from a < es_from b \<or> (es_from a = es_from b \<and> es_to a \<le> es_to b)"

definition less_edge_spec :: "edge_spec \<Rightarrow> edge_spec \<Rightarrow> bool" where
  "less_edge_spec a b \<longleftrightarrow> es_from a < es_from b \<or> (es_from a = es_from b \<and> es_to a < es_to b)"

instance
  by standard (auto simp: less_eq_edge_spec_def less_edge_spec_def edge_spec.expand)

end

definition node_json :: "node_spec \<Rightarrow> json" where
  "node_json n = jobj
     [(''id'', JStr (ns_id n)), (''capability'', JStr (ns_capability n)),
      (''requestIdentity'', JStr (ns_request_identity n))]"

definition edge_json :: "edge_spec \<Rightarrow> json" where
  "edge_json e = jobj [(''from'', JStr (es_from e)), (''to'', JStr (es_to e))]"

definition dag_schema :: string where "dag_schema = ''code-intel-run-dag.v1''"
definition run_state_schema :: string where "run_state_schema = ''code-intel-run-state.v1''"
definition run_manifest_schema :: string where "run_manifest_schema = ''code-intel-run-manifest.v1''"

definition spec_json :: "dag_spec \<Rightarrow> json" where
  "spec_json spec = jobj
     [(''schema'', JStr dag_schema),
      (''snapshotIdentity'', JStr (ds_snapshot spec)),
      (''maxConcurrency'', ju64 (of_nat (ds_max_concurrency spec))),
      (''nodes'', JArr (map node_json (sort_key ns_id (ds_nodes spec)))),
      (''edges'', JArr (map edge_json (sort (ds_edges spec))))]"

text \<open>\<open>to_vec\<close> is the serialiser of \<open>serde_json\<close>.\<close>

definition identity_for :: "(json \<Rightarrow> u8 list) \<Rightarrow> dag_spec \<Rightarrow> string" where
  "identity_for to_vec spec = ''dag-v1:'' @ sha256_hex (to_vec (spec_json spec))"

definition nonempty_diagnostic :: "string \<Rightarrow> string \<Rightarrow> string" where
  "nonempty_diagnostic v fallback = (if is_blank v then fallback else v)"

definition valid_id :: "string \<Rightarrow> bool" where
  "valid_id value \<longleftrightarrow>
     value \<noteq> [] \<and>
     (\<forall>i \<in> set [0..<length value].
        is_ascii_lowercase (value ! i) \<or> is_ascii_digit (value ! i) \<or>
        (i > 0 \<and> value ! i \<in> {CHR ''.'', CHR ''_'', CHR ''-''}))"

section \<open>Kahn's algorithm\<close>

type_synonym deps = "(string, string list) btree"

text \<open>One pop of the ready set: every target that depends on \<open>id\<close> loses one cnt.\<close>

definition kahn_visit ::
    "string \<Rightarrow> string \<times> string list \<Rightarrow> (string, nat) btree \<times> string list
     \<Rightarrow> unit + ((string, nat) btree \<times> string list)" where
  "kahn_visit nid tv rs =
     (case tv of (target, values) \<Rightarrow> case rs of (remaining, ready) \<Rightarrow>
        if nid \<in> set values
        then (case bt_get remaining target of
                Some (Suc cnt) \<Rightarrow>
                  Inr (bt_insert target cnt remaining,
                       if cnt = 0 then insort_insert target ready else ready)
              | _ \<Rightarrow> Inl ())
        else Inr (remaining, ready))"

definition count_sum :: "(string, nat) btree \<Rightarrow> nat" where
  "count_sum m = (\<Sum>k \<in> dom (bt_get m). the (bt_get m k))"

lemma count_sum_insert:
  assumes "bt_get m k = Some n"
  shows "count_sum (bt_insert k v m) + n = count_sum m + v"
proof -
  have fin: "finite (dom (bt_get m))" by (simp add: finite_dom_map_of)
  have k: "k \<in> dom (bt_get m)" using assms by blast
  then have d: "dom (bt_get (bt_insert k v m)) = insert k (dom (bt_get m) - {k})" by auto
  have "count_sum (bt_insert k v m) = v + (\<Sum>j \<in> dom (bt_get m) - {k}. the (bt_get m j))"
    unfolding count_sum_def d using fin by (subst sum.insert) (auto intro!: sum.cong)
  moreover have "count_sum m = n + (\<Sum>j \<in> dom (bt_get m) - {k}. the (bt_get m j))"
    unfolding count_sum_def using sum.remove [OF fin k, of "\<lambda>j. the (bt_get m j)"] assms by simp
  ultimately show ?thesis by simp
qed

lemma kahn_visit_measure:
  assumes "kahn_visit nid tv (rem, ready) = Inr (rem', ready')"
  shows "count_sum rem' < count_sum rem \<or> (rem' = rem \<and> ready' = ready)"
proof (cases "nid \<in> set (snd tv)")
  case True
  with assms obtain c where "bt_get rem (fst tv) = Some (Suc c)" "rem' = bt_insert (fst tv) c rem"
    by (auto simp: kahn_visit_def split: prod.splits option.splits nat.splits)
  then show ?thesis using count_sum_insert [of rem "fst tv" "Suc c" c] by simp
next
  case False
  with assms show ?thesis by (auto simp: kahn_visit_def split: prod.splits)
qed

lemma kahn_visits_measure:
  "try_fold (kahn_visit nid) ds (rem, ready) = Inr (rem', ready') \<Longrightarrow>
   count_sum rem' < count_sum rem \<or> (rem' = rem \<and> ready' = ready)"
proof (induction ds arbitrary: rem ready)
  case (Cons tv ds)
  then obtain r1 q1 where step: "kahn_visit nid tv (rem, ready) = Inr (r1, q1)"
    and rest: "try_fold (kahn_visit nid) ds (r1, q1) = Inr (rem', ready')"
    by (auto simp: result_simps)
  from kahn_visit_measure [OF step] Cons.IH [OF rest] show ?case by auto
qed simp

function kahn :: "deps \<Rightarrow> (string, nat) btree \<Rightarrow> string list \<Rightarrow> nat \<Rightarrow> nat option" where
  "kahn dependencies remaining [] visited = Some visited"
| "kahn dependencies remaining (nid # ready) visited =
     (case try_fold (kahn_visit nid) (bt_iter dependencies) (remaining, ready) of
        Inl _ \<Rightarrow> None
      | Inr (remaining', ready') \<Rightarrow> kahn dependencies remaining' ready' (visited + 1))"
  by pat_completeness auto
termination
proof (relation "measures [\<lambda>(d, rem, q, v). count_sum rem, \<lambda>(d, rem, q, v). length q]", goal_cases)
  case (2 d rem nid q v x rem' q')
  then show ?case using kahn_visits_measure [of nid "bt_iter d" rem q rem' q'] by auto
qed simp

definition validate_acyclic :: "(string, node_spec) btree \<Rightarrow> deps \<Rightarrow> (coordinator_error + unit) option" where
  "validate_acyclic nodes dependencies =
     (let remaining = map (\<lambda>(nid, values). (nid, length values)) (bt_iter dependencies);
          ready = map fst (filter (\<lambda>(nid, cnt). cnt = 0) (bt_iter remaining))
      in map_option (\<lambda>visited.
           ensure (visited = length nodes)
             (CoordinatorError Cycle ''DAG contains a dependency cycle''))
         (kahn dependencies remaining ready 0))"

section \<open>Validation of a specification\<close>

definition add_node :: "node_spec \<Rightarrow> (string, node_spec) btree \<Rightarrow> coordinator_error + (string, node_spec) btree" where
  "add_node node nodes =
     (if \<not> valid_id (ns_id node) \<or> \<not> valid_id (ns_capability node) \<or> is_blank (ns_request_identity node)
      then Err (CoordinatorError InvalidSpec (''invalid DAG node: '' @ ns_id node))
      else if bt_get nodes (ns_id node) \<noteq> None
      then Err (CoordinatorError DuplicateNode (''duplicate DAG node: '' @ ns_id node))
      else Ok (bt_insert (ns_id node) node nodes))"

definition add_edge :: "(string, node_spec) btree \<Rightarrow> edge_spec \<Rightarrow> deps \<times> edge_spec list
    \<Rightarrow> coordinator_error + (deps \<times> edge_spec list)" where
  "add_edge nodes edge de =
     (case de of (dependencies, edges) \<Rightarrow>
        if bt_get nodes (es_from edge) = None \<or> bt_get nodes (es_to edge) = None
        then Err (CoordinatorError UnknownNode
               (''DAG edge references unknown node: '' @ es_from edge @ '' -> '' @ es_to edge))
        else if edge \<in> set edges
        then Err (CoordinatorError DuplicateEdge
               (''duplicate DAG edge: '' @ es_from edge @ '' -> '' @ es_to edge))
        else Ok (bt_insert (es_to edge) (the (bt_get dependencies (es_to edge)) @ [es_from edge]) dependencies,
                 insort edge edges))"

text \<open>The outer option is the panic of \<open>validate_acyclic\<close>; \<open>validate_spec_total\<close> below shows
  that it never happens.\<close>

definition validate_spec ::
    "dag_spec \<Rightarrow> (coordinator_error + (string, node_spec) btree \<times> deps) option" where
  "validate_spec spec =
     (if \<not> is_digest (ds_snapshot spec) \<or> ds_nodes spec = [] \<or> ds_max_concurrency spec = 0
         \<or> ds_max_concurrency spec > 256
      then Some (Err (CoordinatorError InvalidSpec ''DAG snapshot, nodes, or concurrency bound is invalid''))
      else case try_fold add_node (ds_nodes spec) [] of
        Inl e \<Rightarrow> Some (Err e)
      | Inr nodes \<Rightarrow>
          (case try_fold (add_edge nodes) (ds_edges spec) (map (\<lambda>nid. (nid, [])) (bt_keys nodes), []) of
             Inl e \<Rightarrow> Some (Err e)
           | Inr (dependencies, _) \<Rightarrow>
               (let sorted_deps = map (\<lambda>(nid, values). (nid, sort values)) dependencies
                in map_option (\<lambda>r. and_then r (\<lambda>_. Ok (nodes, sorted_deps)))
                     (validate_acyclic nodes sorted_deps))))"

section \<open>Kahn's algorithm decides acyclicity\<close>

definition depends :: "deps \<Rightarrow> (string \<times> string) set" where
  "depends D = {(d, t). \<exists>vs. bt_get D t = Some vs \<and> d \<in> set vs}"

abbreviation deps_of :: "deps \<Rightarrow> string \<Rightarrow> string set" where
  "deps_of D t \<equiv> set (the (bt_get D t))"

definition deps_ok :: "deps \<Rightarrow> bool" where
  "deps_ok D \<longleftrightarrow> bt_wf D \<and>
     (\<forall>t vs. bt_get D t = Some vs \<longrightarrow> sorted vs \<and> distinct vs \<and> set vs \<subseteq> dom (bt_get D))"

lemma deps_okD:
  assumes "deps_ok D" "bt_get D t = Some vs"
  shows "sorted vs" "distinct vs" "set vs \<subseteq> dom (bt_get D)"
  using assms unfolding deps_ok_def by blast+

text \<open>A list of nodes, the latest first, in which every node comes after its dependencies.\<close>

fun topo :: "deps \<Rightarrow> string list \<Rightarrow> bool" where
  "topo D [] \<longleftrightarrow> True"
| "topo D (t # V) \<longleftrightarrow> t \<notin> set V \<and> deps_of D t \<subseteq> set V \<and> topo D V"

lemma topo_distinct: "topo D V \<Longrightarrow> distinct V"
  by (induction V) auto

lemma topo_rank:
  "topo D V \<Longrightarrow> t \<in> set V \<Longrightarrow> d \<in> deps_of D t \<Longrightarrow>
   d \<in> set V \<and> length (dropWhile (\<lambda>x. x \<noteq> d) V) < length (dropWhile (\<lambda>x. x \<noteq> t) V)"
proof (induction V)
  case (Cons v V)
  show ?case
  proof (cases "t = v")
    case True
    with Cons.prems have "d \<in> set V" "d \<noteq> v" by auto
    then show ?thesis
      using True length_dropWhile_le [of "\<lambda>x. x \<noteq> d" V] by simp
  next
    case False
    with Cons have "d \<in> set V" "length (dropWhile (\<lambda>x. x \<noteq> d) V) < length (dropWhile (\<lambda>x. x \<noteq> t) V)"
      by auto
    moreover have "d \<noteq> v" using \<open>d \<in> set V\<close> Cons.prems(1) by auto
    ultimately show ?thesis using False by auto
  qed
qed simp

lemma topo_acyclic:
  assumes "topo D V" "dom (bt_get D) \<subseteq> set V"
  shows "acyclic (depends D)"
proof -
  have "depends D \<subseteq> measure (\<lambda>x. length (dropWhile (\<lambda>y. y \<noteq> x) V))"
  proof clarify
    fix d t assume "(d, t) \<in> depends D"
    then have "t \<in> set V" "d \<in> deps_of D t"
      using assms(2) by (auto simp: depends_def)
    with topo_rank [OF assms(1)] show "(d, t) \<in> measure (\<lambda>x. length (dropWhile (\<lambda>y. y \<noteq> x) V))"
      by simp
  qed
  then show ?thesis
    using wf_acyclic wf_measure wf_subset by blast
qed

definition kahn_inv :: "deps \<Rightarrow> string list \<Rightarrow> string set \<Rightarrow> string set
    \<Rightarrow> (string, nat) btree \<Rightarrow> string list \<Rightarrow> bool" where
  "kahn_inv D V W P rem ready \<longleftrightarrow>
     topo D V \<and> set V \<subseteq> dom (bt_get D) \<and> distinct ready \<and> set ready \<subseteq> dom (bt_get D) \<and>
     set ready \<inter> set V = {} \<and>
     (\<forall>t vs. bt_get D t = Some vs \<longrightarrow>
        bt_get rem t = Some (card (set vs - (if t \<in> P then set V else W))) \<and>
        (t \<in> set V \<union> set ready \<longleftrightarrow> set vs \<subseteq> (if t \<in> P then set V else W)))"

lemma kahn_invD:
  assumes "kahn_inv D V W P rem ready" "bt_get D t = Some vs"
  shows "bt_get rem t = Some (card (set vs - (if t \<in> P then set V else W)))"
    and "t \<in> set V \<union> set ready \<longleftrightarrow> set vs \<subseteq> (if t \<in> P then set V else W)"
  using assms unfolding kahn_inv_def by blast+

lemma kahn_invI:
  assumes "topo D V" "set V \<subseteq> dom (bt_get D)" "distinct ready" "set ready \<subseteq> dom (bt_get D)"
    and "set ready \<inter> set V = {}"
    and "\<And>t vs. bt_get D t = Some vs \<Longrightarrow>
           bt_get rem t = Some (card (set vs - (if t \<in> P then set V else W))) \<and>
           (t \<in> set V \<union> set ready \<longleftrightarrow> set vs \<subseteq> (if t \<in> P then set V else W))"
  shows "kahn_inv D V W P rem ready"
  unfolding kahn_inv_def using assms by blast

text \<open>\<open>W\<close> are the nodes visited before the current one, \<open>P\<close> the targets already updated for it.\<close>

lemma kahn_visit_inv:
  assumes inv: "kahn_inv D (v # V) (set V) P rem ready" and "deps_ok D"
    and t: "bt_get D t = Some vs" and "t \<notin> P"
  shows "\<exists>rem' ready'. kahn_visit v (t, vs) (rem, ready) = Inr (rem', ready') \<and>
           kahn_inv D (v # V) (set V) (insert t P) rem' ready'"
proof (cases "v \<in> set vs")
  case True
  from inv have v: "v \<notin> set V" by (auto simp: kahn_inv_def)
  have split: "set vs - set V = insert v (set vs - set (v # V))" using True v by auto
  define c where "c = card (set vs - set (v # V))"
  have "card (set vs - set V) = Suc c"
    unfolding split c_def by (rule card_insert_disjoint) auto
  then have get: "bt_get rem t = Some (Suc c)"
    using kahn_invD(1) [OF inv t] \<open>t \<notin> P\<close> by simp
  have new: "t \<notin> set (v # V) \<union> set ready"
    using kahn_invD(2) [OF inv t] \<open>t \<notin> P\<close> True v by auto
  have c0: "c = 0 \<longleftrightarrow> set vs \<subseteq> set (v # V)"
    by (simp add: c_def Diff_eq_empty_iff)
  have base: "topo D (v # V)" "set (v # V) \<subseteq> dom (bt_get D)" "distinct ready"
    "set ready \<subseteq> dom (bt_get D)" "set ready \<inter> set (v # V) = {}"
    using inv unfolding kahn_inv_def by blast+
  let ?ready = "if c = 0 then insort_insert t ready else ready"
  have "kahn_inv D (v # V) (set V) (insert t P) (bt_insert t c rem) ?ready"
  proof (rule kahn_invI)
    fix x ws assume x: "bt_get D x = Some ws"
    show "bt_get (bt_insert t c rem) x = Some (card (set ws - (if x \<in> insert t P then set (v # V) else set V))) \<and>
        (x \<in> set (v # V) \<union> set ?ready \<longleftrightarrow> set ws \<subseteq> (if x \<in> insert t P then set (v # V) else set V))"
    proof (cases "x = t")
      case True
      then show ?thesis using x t new c0 by (auto simp: c_def set_insort_insert)
    next
      case False
      then show ?thesis using kahn_invD [OF inv x] by (simp add: set_insort_insert)
    qed
  qed (use base new t in \<open>auto simp: set_insort_insert distinct_insort_insert split: if_splits\<close>)
  then show ?thesis
    using get True by (auto simp: kahn_visit_def)
next
  case False
  then have "set vs - set (v # V) = set vs - set V" "set vs \<subseteq> set (v # V) \<longleftrightarrow> set vs \<subseteq> set V"
    by auto
  then have "kahn_inv D (v # V) (set V) (insert t P) rem ready"
    using inv t \<open>t \<notin> P\<close> kahn_invD [OF inv]
    by (intro kahn_invI) (auto simp: kahn_inv_def)
  with False show ?thesis
    by (simp add: kahn_visit_def)
qed

lemma kahn_visits_inv:
  assumes "deps_ok D" "kahn_inv D (v # V) (set V) P rem ready"
    and "set es \<subseteq> {(t, vs). bt_get D t = Some vs}" "distinct (map fst es)" "fst ` set es \<inter> P = {}"
  shows "\<exists>rem' ready'. try_fold (kahn_visit v) es (rem, ready) = Inr (rem', ready') \<and>
           kahn_inv D (v # V) (set V) (fst ` set es \<union> P) rem' ready'"
  using assms
proof (induction es arbitrary: P rem ready)
  case (Cons e es)
  obtain t vs where e: "e = (t, vs)" by (cases e)
  with Cons.prems obtain rem1 ready1 where step: "kahn_visit v e (rem, ready) = Inr (rem1, ready1)"
    and inv1: "kahn_inv D (v # V) (set V) (insert t P) rem1 ready1"
    using kahn_visit_inv [of D v V P rem ready t vs] by auto
  have "fst ` set es \<inter> insert t P = {}" using Cons.prems(4,5) e by auto
  with Cons.IH [OF Cons.prems(1) inv1] Cons.prems(3,4) step show ?case
    by (auto simp: e)
qed simp

lemma kahn_correct:
  assumes "deps_ok D" "kahn_inv D V (set V) UNIV rem ready"
  shows "\<exists>V'. kahn D rem ready (length V) = Some (length V') \<and> topo D V' \<and>
           set V' \<subseteq> dom (bt_get D) \<and> (\<forall>t \<in> dom (bt_get D). deps_of D t \<subseteq> set V' \<longrightarrow> t \<in> set V')"
  using assms
proof (induction D rem ready "length V" arbitrary: V rule: kahn.induct)
  case (1 D rem)
  then have "t \<in> set V" if "t \<in> dom (bt_get D)" "deps_of D t \<subseteq> set V" for t
    using kahn_invD(2) [OF "1.prems"(2), of t] that by auto
  with "1.prems"(2) show ?case by (intro exI [of _ V]) (simp add: kahn_inv_def)
next
  case (2 D rem v ready)
  have v: "deps_of D v \<subseteq> set V" "v \<notin> set V" "v \<in> dom (bt_get D)"
    using "2.prems"(2) kahn_invD(2) [OF "2.prems"(2), of v] by (auto simp: kahn_inv_def)
  have "kahn_inv D (v # V) (set V) {} rem ready"
    using "2.prems"(2) v by (auto simp: kahn_inv_def)
  moreover have "bt_wf D" using "2.prems"(1) by (simp add: deps_ok_def)
  moreover have "fst ` set D = dom (bt_get D)" by (simp add: dom_map_of_conv_image_fst)
  ultimately obtain rem' ready' where
    fold: "try_fold (kahn_visit v) (bt_iter D) (rem, ready) = Inr (rem', ready')"
    and inv: "kahn_inv D (v # V) (set V) (dom (bt_get D)) rem' ready'"
    using kahn_visits_inv [of D v V "{}" rem ready "bt_iter D"] "2.prems"(1)
    by (auto simp: set_bt_iter bt_wf_distinct)
  from inv have "kahn_inv D (v # V) (set (v # V)) UNIV rem' ready'"
    by (auto simp: kahn_inv_def)
  with "2.hyps" [OF fold refl, of "v # V"] "2.prems"(1) fold show ?case by simp
qed

lemma finite_depends: "deps_ok D \<Longrightarrow> finite (depends D)"
proof -
  assume "deps_ok D"
  then have "depends D \<subseteq> dom (bt_get D) \<times> dom (bt_get D)"
    unfolding depends_def using deps_okD(3) [of D] by blast
  then show ?thesis by (rule finite_subset) (simp add: finite_dom_map_of)
qed

text \<open>In an acyclic graph, a nonempty set of nodes has a member none of whose dependencies
  is in the set.\<close>

lemma acyclic_minimal:
  assumes "deps_ok D" "acyclic (depends D)" "x \<in> S" "S \<subseteq> dom (bt_get D)"
  obtains t where "t \<in> S" "deps_of D t \<inter> S = {}"
proof -
  have "wf (depends D)"
    using assms(1,2) finite_depends finite_acyclic_wf by blast
  then obtain t where "t \<in> S" "\<And>y. (y, t) \<in> depends D \<Longrightarrow> y \<notin> S"
    using assms(3) wfE_min [of "depends D" x S] by blast
  moreover from this obtain vs where "bt_get D t = Some vs"
    using assms(4) by blast
  ultimately show ?thesis
    by (intro that [of t]) (auto simp: depends_def)
qed

lemma bt_get_map_snd: "bt_get (map (\<lambda>(k, v). (k, f v)) m) k = map_option f (bt_get m k)"
  by (induction m) auto

lemma map_fst_map_snd [simp]: "map fst (map (\<lambda>(k, v). (k, f v)) m) = map fst m"
  by (induction m) auto

lemma bt_wf_map_snd [simp]: "bt_wf (map (\<lambda>(k, v). (k, f v)) m) = bt_wf m"
  by (simp only: bt_wf_def map_fst_map_snd)

lemma validate_acyclic_correct:
  assumes D: "deps_ok D" and len: "length nodes = length D"
  shows "validate_acyclic nodes D =
     Some (if acyclic (depends D) then Ok ()
           else Err (CoordinatorError Cycle ''DAG contains a dependency cycle''))"
proof -
  let ?rem = "map (\<lambda>(k, vs). (k, length vs)) D"
  let ?ready = "map fst (filter (\<lambda>(k, n). n = 0) ?rem)"
  from D have wf: "bt_wf D" by (simp add: deps_ok_def)
  have doms: "fst ` set D = dom (bt_get D)" by (simp add: dom_map_of_conv_image_fst)
  have ready: "set ?ready = {t. bt_get D t = Some []}"
    using bt_wf_distinct [OF wf] by (auto simp: image_iff split: prod.splits) force
  have "distinct (map fst (filter Q ?rem))" for Q
    by (rule distinct_map_filter) (simp only: map_fst_map_snd bt_wf_distinct [OF wf])
  then have inv: "kahn_inv D [] (set []) UNIV ?rem ?ready"
  proof (rule kahn_invI [rotated 2])
    show "set ?ready \<subseteq> dom (bt_get D)"
      unfolding ready by blast
    fix t vs assume t: "bt_get D t = Some vs"
    have "length vs = card (set vs)"
      using deps_okD(2) [OF D t] by (rule distinct_card [symmetric])
    then show "bt_get ?rem t = Some (card (set vs - (if t \<in> UNIV then set [] else set []))) \<and>
        (t \<in> set [] \<union> set ?ready \<longleftrightarrow> set vs \<subseteq> (if t \<in> UNIV then set [] else set []))"
      unfolding ready using t by (simp add: bt_get_map_snd)
  qed simp_all
  obtain V where V: "kahn D ?rem ?ready 0 = Some (length V)" "topo D V" "set V \<subseteq> dom (bt_get D)"
    and closed: "\<And>t. t \<in> dom (bt_get D) \<Longrightarrow> deps_of D t \<subseteq> set V \<Longrightarrow> t \<in> set V"
    using kahn_correct [OF D inv] by auto
  have card: "length V = card (set V)" "length D = card (dom (bt_get D))"
    using topo_distinct [OF V(2)] bt_wf_distinct [OF wf]
    by (simp_all add: distinct_card [symmetric] doms [symmetric] distinct_map card_image)
  have "length V = length D \<longleftrightarrow> set V = dom (bt_get D)"
    using V(3) card by (metis card_subset_eq finite_dom_map_of)
  also have "\<dots> \<longleftrightarrow> acyclic (depends D)"
  proof
    assume "set V = dom (bt_get D)"
    then show "acyclic (depends D)" using topo_acyclic V(2) by blast
  next
    assume ac: "acyclic (depends D)"
    show "set V = dom (bt_get D)"
    proof (rule ccontr)
      assume "set V \<noteq> dom (bt_get D)"
      with V(3) obtain x where "x \<in> dom (bt_get D) - set V" by blast
      from acyclic_minimal [OF D ac this] obtain t where t: "t \<in> dom (bt_get D) - set V"
        "deps_of D t \<inter> (dom (bt_get D) - set V) = {}" by blast
      then have "deps_of D t \<subseteq> set V" using deps_okD(3) [OF D] by fastforce
      with closed t show False by blast
    qed
  qed
  finally show ?thesis
    using V(1) len by (simp add: validate_acyclic_def wf Let_def)
qed

end
