(* ===== verification/Dag_Validate.thy ===== *)
theory Dag_Validate
  imports Dag_Spec
begin

text \<open>
  What \<open>validate_spec\<close> admits: it never panics, it accepts exactly the specifications that are
  well formed in the sense of \<open>spec_wf\<close>, and the dependency table it returns lists, sorted and
  without repetition, the sources of the edges into each node.
\<close>

definition node_ok :: "node_spec \<Rightarrow> bool" where
  "node_ok n \<longleftrightarrow> valid_id (ns_id n) \<and> valid_id (ns_capability n) \<and> \<not> is_blank (ns_request_identity n)"

definition spec_ids :: "dag_spec \<Rightarrow> string set" where
  "spec_ids spec = ns_id ` set (ds_nodes spec)"

definition edge_rel :: "dag_spec \<Rightarrow> (string \<times> string) set" where
  "edge_rel spec = {(es_from e, es_to e) |e. e \<in> set (ds_edges spec)}"

definition spec_wf :: "dag_spec \<Rightarrow> bool" where
  "spec_wf spec \<longleftrightarrow>
     is_digest (ds_snapshot spec) \<and> ds_nodes spec \<noteq> [] \<and>
     0 < ds_max_concurrency spec \<and> ds_max_concurrency spec \<le> 256 \<and>
     (\<forall>n \<in> set (ds_nodes spec). node_ok n) \<and> distinct (map ns_id (ds_nodes spec)) \<and>
     distinct (ds_edges spec) \<and> edge_rel spec \<subseteq> spec_ids spec \<times> spec_ids spec \<and>
     acyclic (edge_rel spec)"

lemma bt_get_map_keys: "bt_get (map (\<lambda>k. (k, f k)) ks) t = (if t \<in> set ks then Some (f t) else None)"
  by (induction ks) auto

section \<open>Nodes\<close>

lemma add_node_Ok:
  "add_node n m = Inr m' \<longleftrightarrow> node_ok n \<and> bt_get m (ns_id n) = None \<and> m' = bt_insert (ns_id n) n m"
  by (auto simp: add_node_def node_ok_def)

lemma add_nodes_Ok:
  "try_fold add_node ns m = Inr m' \<longleftrightarrow>
     (\<forall>n \<in> set ns. node_ok n) \<and> distinct (map ns_id ns) \<and> ns_id ` set ns \<inter> dom (bt_get m) = {} \<and>
     m' = bt.ins_all (map (\<lambda>n. (ns_id n, n)) ns) m"
  by (induction ns arbitrary: m)
     (auto simp: result_simps add_node_Ok bt.ins_all_def domIff)

lemma node_table:
  assumes "try_fold add_node ns [] = Inr m"
  shows "bt_wf m" "dom (bt_get m) = ns_id ` set ns"
    "n \<in> set ns \<Longrightarrow> bt_get m (ns_id n) = Some n"
proof -
  from assms have m: "m = bt.ins_all (map (\<lambda>n. (ns_id n, n)) ns) []" and d: "distinct (map ns_id ns)"
    by (simp_all add: add_nodes_Ok)
  show "bt_wf m" unfolding m by (rule bt.inv_ins_all) simp
  show "dom (bt_get m) = ns_id ` set ns"
    unfolding m bt.dom_ins_all by (simp add: image_image)
  show "bt_get m (ns_id n) = Some n" if "n \<in> set ns"
    unfolding m using that d
    by (subst bt.look_ins_all_distinct) (auto simp: o_def distinct_map image_iff)
qed

section \<open>Edges\<close>

definition edge_ok :: "(string, node_spec) btree \<Rightarrow> edge_spec \<Rightarrow> bool" where
  "edge_ok nodes e \<longleftrightarrow> es_from e \<in> dom (bt_get nodes) \<and> es_to e \<in> dom (bt_get nodes)"

lemma add_edge_Ok:
  "add_edge nodes e (D, es) = Inr r \<longleftrightarrow>
     edge_ok nodes e \<and> e \<notin> set es \<and>
     r = (bt_insert (es_to e) (the (bt_get D (es_to e)) @ [es_from e]) D, insort e es)"
  by (auto simp: add_edge_def edge_ok_def domIff)

definition sources :: "edge_spec list \<Rightarrow> string \<Rightarrow> string list" where
  "sources es t = map es_from (filter (\<lambda>e. es_to e = t) es)"

lemma add_edges_Ok_D:
  assumes "try_fold (add_edge nodes) es (D, seen) = Inr (D', seen')" "bt_wf D"
    and "dom (bt_get D) = dom (bt_get nodes)"
  shows "(\<forall>e \<in> set es. edge_ok nodes e) \<and> distinct es \<and> set es \<inter> set seen = {} \<and> bt_wf D' \<and>
    dom (bt_get D') = dom (bt_get D) \<and>
    (\<forall>t vs. bt_get D t = Some vs \<longrightarrow> bt_get D' t = Some (vs @ sources es t))"
  using assms
proof (induction es arbitrary: D seen)
  case (Cons e es)
  let ?D = "bt_insert (es_to e) (the (bt_get D (es_to e)) @ [es_from e]) D"
  from Cons.prems(1) have e: "edge_ok nodes e" "e \<notin> set seen"
    and rest: "try_fold (add_edge nodes) es (?D, insort e seen) = Inr (D', seen')"
    by (auto simp: result_simps add_edge_Ok)
  have dom: "dom (bt_get ?D) = dom (bt_get D)"
    using e(1) Cons.prems(3) by (auto simp: edge_ok_def)
  have IH: "(\<forall>e \<in> set es. edge_ok nodes e) \<and> distinct es \<and> set es \<inter> set (insort e seen) = {} \<and> bt_wf D' \<and>
    dom (bt_get D') = dom (bt_get ?D) \<and>
    (\<forall>t vs. bt_get ?D t = Some vs \<longrightarrow> bt_get D' t = Some (vs @ sources es t))"
    by (rule Cons.IH [OF rest bt_wf_insert [OF Cons.prems(2)] trans [OF dom Cons.prems(3)]])
  have "bt_get D' t = Some (vs @ sources (e # es) t)" if "bt_get D t = Some vs" for t vs
    using IH that by (cases "es_to e = t") (auto simp: sources_def)
  with IH e dom show ?case by (auto simp: set_insort_key)
qed (simp add: sources_def)

lemma add_edges_Ok_I:
  assumes "\<forall>e \<in> set es. edge_ok nodes e" "distinct es" "set es \<inter> set seen = {}"
  shows "\<exists>r. try_fold (add_edge nodes) es (D, seen) = Inr r"
  using assms
proof (induction es arbitrary: D seen)
  case (Cons e es)
  let ?D = "bt_insert (es_to e) (the (bt_get D (es_to e)) @ [es_from e]) D"
  have "add_edge nodes e (D, seen) = Inr (?D, insort e seen)"
    using Cons.prems by (simp add: add_edge_Ok)
  moreover have "\<exists>r. try_fold (add_edge nodes) es (?D, insort e seen) = Inr r"
    using Cons.prems by (intro Cons.IH) (auto simp: set_insort_key)
  ultimately show ?case by simp
qed simp

lemma set_sources: "set (sources es t) = {s. EdgeSpec s t \<in> set es}"
proof -
  have "e \<in> set es \<Longrightarrow> EdgeSpec (es_from e) (es_to e) \<in> set es" for e by simp
  then show ?thesis by (force simp: sources_def image_iff)
qed

lemma distinct_sources: "distinct es \<Longrightarrow> distinct (sources es t)"
  by (induction es) (auto simp: sources_def, metis edge_spec.expand)

section \<open>The whole validation\<close>

definition dep_table :: "(string, node_spec) btree \<Rightarrow> edge_spec list \<Rightarrow> deps" where
  "dep_table nodes es = map (\<lambda>t. (t, sort (sources es t))) (bt_keys nodes)"

lemma bt_get_dep_table:
  "bt_get (dep_table nodes es) t =
     (if t \<in> dom (bt_get nodes) then Some (sort (sources es t)) else None)"
  by (simp add: dep_table_def bt_get_map_keys set_bt_keys [symmetric])

lemma bt_wf_dep_table: "bt_wf nodes \<Longrightarrow> bt_wf (dep_table nodes es)"
  by (simp add: dep_table_def bt_wf_def bt_keys_def o_def)

lemma length_dep_table [simp]: "length (dep_table nodes es) = length nodes"
  by (simp add: dep_table_def bt_keys_def)

lemma deps_ok_dep_table:
  assumes "bt_wf nodes" "distinct es" "\<forall>e \<in> set es. edge_ok nodes e"
  shows "deps_ok (dep_table nodes es)"
proof -
  have "dom (bt_get (dep_table nodes es)) = dom (bt_get nodes)"
    by (auto simp: bt_get_dep_table domIff split: if_splits)
  moreover have "set (sources es t) \<subseteq> dom (bt_get nodes)" for t
    using assms(3) by (auto simp: sources_def edge_ok_def)
  ultimately show ?thesis
    using assms by (auto simp: deps_ok_def bt_wf_dep_table bt_get_dep_table distinct_sources
        split: if_splits)
qed

lemma depends_dep_table:
  assumes "\<forall>e \<in> set es. edge_ok nodes e"
  shows "depends (dep_table nodes es) = {(es_from e, es_to e) |e. e \<in> set es}"
  using assms by (auto simp: depends_def bt_get_dep_table sources_def edge_ok_def split: if_splits)

lemma edges_table:
  assumes "try_fold (add_edge nodes) es (map (\<lambda>k. (k, [])) (bt_keys nodes), []) = Inr (D, seen)"
    and wf: "bt_wf nodes"
  shows "map (\<lambda>(k, vs). (k, sort vs)) D = dep_table nodes es"
    and "distinct es" "\<forall>e \<in> set es. edge_ok nodes e"
proof -
  let ?D0 = "map (\<lambda>k. (k, [])) (bt_keys nodes) :: deps"
  have D0: "bt_get ?D0 t = (if t \<in> dom (bt_get nodes) then Some [] else None)" for t
    by (simp add: bt_get_map_keys set_bt_keys [symmetric])
  have wf0: "bt_wf ?D0" using wf by (simp add: bt_wf_def bt_keys_def o_def)
  have dom0: "dom (bt_get ?D0) = dom (bt_get nodes)"
    by (auto simp: D0 domIff split: if_splits)
  note facts = add_edges_Ok_D [OF assms(1) wf0 dom0]
  then show "distinct es" "\<forall>e \<in> set es. edge_ok nodes e" by blast+
  have D: "bt_get D t = (if t \<in> dom (bt_get nodes) then Some (sources es t) else None)" for t
  proof (cases "t \<in> dom (bt_get nodes)")
    case True
    then have "bt_get ?D0 t = Some []" by (simp add: D0)
    with facts True show ?thesis by simp
  next
    case False
    with facts dom0 have "t \<notin> dom (bt_get D)" by simp
    with False show ?thesis by (simp add: domIff)
  qed
  show "map (\<lambda>(k, vs). (k, sort vs)) D = dep_table nodes es"
    by (rule bt_ext) (use facts wf in \<open>auto simp: bt_wf_dep_table bt_get_map_snd bt_get_dep_table D\<close>)
qed

lemma validate_spec_eq:
  assumes "try_fold add_node (ds_nodes spec) [] = Inr nodes"
    and "try_fold (add_edge nodes) (ds_edges spec) (map (\<lambda>k. (k, [])) (bt_keys nodes), []) = Inr r"
    and "is_digest (ds_snapshot spec)" "ds_nodes spec \<noteq> []"
    and "0 < ds_max_concurrency spec" "ds_max_concurrency spec \<le> 256"
  shows "validate_spec spec =
    Some (if acyclic (edge_rel spec) then Ok (nodes, dep_table nodes (ds_edges spec))
          else Err (CoordinatorError Cycle ''DAG contains a dependency cycle''))"
proof -
  obtain D seen where r: "r = (D, seen)" by (cases r)
  note wf = node_table(1) [OF assms(1)]
  note t = edges_table [OF assms(2) [unfolded r] wf]
  have "validate_acyclic nodes (dep_table nodes (ds_edges spec)) =
      Some (if acyclic (edge_rel spec) then Ok ()
            else Err (CoordinatorError Cycle ''DAG contains a dependency cycle''))"
    using validate_acyclic_correct [OF deps_ok_dep_table [OF wf t(2,3)]] t(3)
    by (simp add: depends_dep_table edge_rel_def)
  then show ?thesis
    using assms by (simp add: validate_spec_def r t(1) Let_def)
qed

lemma edge_rel_known:
  assumes "dom (bt_get nodes) = spec_ids spec"
  shows "(\<forall>e \<in> set (ds_edges spec). edge_ok nodes e) \<longleftrightarrow> edge_rel spec \<subseteq> spec_ids spec \<times> spec_ids spec"
  unfolding edge_ok_def edge_rel_def assms by blast

lemma validate_spec_cases:
  obtains (ok) nodes where
      "validate_spec spec = Some (Ok (nodes, dep_table nodes (ds_edges spec)))"
      "try_fold add_node (ds_nodes spec) [] = Inr nodes" "spec_wf spec"
  | (err) e where "validate_spec spec = Some (Err e)" "\<not> spec_wf spec"
proof -
  let ?head = "is_digest (ds_snapshot spec) \<and> ds_nodes spec \<noteq> [] \<and> 0 < ds_max_concurrency spec
    \<and> ds_max_concurrency spec \<le> 256"
  let ?nodes = "try_fold add_node (ds_nodes spec) []"
  let ?edges = "\<lambda>nodes. try_fold (add_edge nodes) (ds_edges spec) (map (\<lambda>k. (k, [])) (bt_keys nodes), [])"
  have "(\<exists>e. ?nodes = Inl e) \<or> (\<exists>n e. ?nodes = Inr n \<and> ?edges n = Inl e) \<or>
      (\<exists>n r. ?nodes = Inr n \<and> ?edges n = Inr r)"
  proof (cases ?nodes)
    case (Inr n)
    then show ?thesis by (cases "?edges n") auto
  qed simp
  then consider (head) "\<not> ?head" | (nodes) e where "?head" "?nodes = Inl e"
    | (edges) nodes e where "?head" "?nodes = Inr nodes" "?edges nodes = Inl e"
    | (all) nodes r where "?head" "?nodes = Inr nodes" "?edges nodes = Inr r"
    by blast
  then show thesis
  proof cases
    case head
    then have "validate_spec spec = Some (Err (CoordinatorError InvalidSpec
        ''DAG snapshot, nodes, or concurrency bound is invalid''))"
      by (auto simp: validate_spec_def)
    with head show thesis by (intro err) (auto simp: spec_wf_def)
  next
    case (nodes e)
    have "\<not> spec_wf spec"
    proof
      assume "spec_wf spec"
      then have "\<exists>m. ?nodes = Inr m" by (auto simp: add_nodes_Ok spec_wf_def)
      with nodes show False by simp
    qed
    with nodes show thesis by (intro err) (auto simp: validate_spec_def)
  next
    case (edges nodes e)
    have "\<not> spec_wf spec"
    proof
      assume wf: "spec_wf spec"
      have "\<forall>e \<in> set (ds_edges spec). edge_ok nodes e"
        using wf edge_rel_known [of nodes spec] node_table(2) [OF edges(2)]
        by (simp add: spec_wf_def spec_ids_def)
      with wf have "\<exists>r. ?edges nodes = Inr r"
        by (intro add_edges_Ok_I) (auto simp: spec_wf_def)
      with edges show False by simp
    qed
    with edges show thesis by (intro err) (auto simp: validate_spec_def)
  next
    case (all nodes r)
    obtain D seen where r: "r = (D, seen)" by (cases r)
    note t = edges_table [OF all(3) [unfolded r] node_table(1) [OF all(2)]]
    have "spec_wf spec \<longleftrightarrow> acyclic (edge_rel spec)"
      using all(1,2) t(2,3) edge_rel_known [of nodes spec] node_table(2) [OF all(2)]
      by (simp add: spec_wf_def add_nodes_Ok spec_ids_def)
    then show thesis
      using validate_spec_eq [OF all(2,3)] all(1,2) by (cases "acyclic (edge_rel spec)") (auto intro: ok err)
  qed
qed

section \<open>Properties\<close>

text \<open>C6: validation of a run DAG never panics, and it accepts a specification exactly when it is
  well formed: a digest as snapshot, at least one node, a concurrency between 1 and 256, valid and
  distinct node ids, distinct edges between known nodes, and no dependency cycle.\<close>

theorem validate_spec_accepts_iff:
  "validate_spec spec \<noteq> None \<and> ((\<exists>r. validate_spec spec = Some (Ok r)) \<longleftrightarrow> spec_wf spec)"
  by (cases spec rule: validate_spec_cases) auto

end
