(* ===== verification/Dag_Coordinator.thy ===== *)
theory Dag_Coordinator
  imports Dag_Validate
begin

text \<open>
  The coordinator of a run (crates/code-intel-cli/src/dag_coordinator.rs): node states and
  outcomes, the checkpoint and the manifest, and every operation of \<open>Coordinator\<close> as a function
  from a coordinator to a coordinator.  Where the code calls \<open>expect\<close> on the dependency table the
  model takes \<open>the\<close> of the lookup; the invariant \<open>coord_inv\<close> says that the table has every node, so
  the call cannot fail.
\<close>

section \<open>Artifacts, outcomes and node states\<close>

record artifact =
  a_schema :: string
  a_type :: string
  a_path :: string
  a_sha256 :: string
  a_snapshot :: string
  a_byte_size :: u64

definition artifact_valid :: "artifact \<Rightarrow> bool" where
  "artifact_valid a \<longleftrightarrow>
     \<not> (a_schema a = [] \<or> a_type a = [] \<or> a_path a = [] \<or>
        \<not> is_digest (a_sha256 a) \<or> \<not> is_digest (a_snapshot a))"

definition from_a03_fields ::
    "string \<Rightarrow> string \<Rightarrow> string \<Rightarrow> string \<Rightarrow> string \<Rightarrow> u64 \<Rightarrow> coordinator_error + artifact" where
  "from_a03_fields schema type path sha snapshot bytes =
     (let a = \<lparr>a_schema = schema, a_type = type, a_path = path, a_sha256 = sha,
               a_snapshot = snapshot, a_byte_size = bytes\<rparr>
      in and_then (ensure (artifact_valid a)
           (CoordinatorError InvalidSpec ''verified Artifact Ref fields are invalid'')) (\<lambda>_. Ok a))"

definition artifact_json :: "artifact \<Rightarrow> json" where
  "artifact_json a = jobj
     [(''schema'', JStr ''code-intel-artifact-ref.v1''), (''artifactSchema'', JStr (a_schema a)),
      (''type'', JStr (a_type a)), (''path'', JStr (a_path a)), (''sha256'', JStr (a_sha256 a)),
      (''consumedSnapshotIdentity'', JStr (a_snapshot a))]"

datatype verdict = Pass | Fail | Unknown | NotApplicable

fun verdict_str :: "verdict \<Rightarrow> string" where
  "verdict_str Pass = ''pass''"
| "verdict_str Fail = ''fail''"
| "verdict_str Unknown = ''unknown''"
| "verdict_str NotApplicable = ''not_applicable''"

datatype exec_failure = FContract | FUnavailable | FInternal | FIo

fun failure_str :: "exec_failure \<Rightarrow> string" where
  "failure_str FContract = ''contract''"
| "failure_str FUnavailable = ''unavailable''"
| "failure_str FInternal = ''internal''"
| "failure_str FIo = ''io''"

datatype node_outcome =
    OSuccess verdict "artifact list"
  | ODomainFail string "artifact list"
  | OTimeout string
  | OProcessFailure exec_failure string

definition outcome_success :: "verdict \<Rightarrow> artifact list \<Rightarrow> node_outcome" where
  "outcome_success v arts =
     (if v = Fail then ODomainFail ''executor returned a domain fail verdict'' arts
      else OSuccess v arts)"

datatype node_state =
    Pending
  | Running
  | Succeeded verdict "artifact list"
  | DomainFailed string "artifact list"
  | TimedOut string
  | ProcessFailed exec_failure string
  | DependencyBlocked "string list"
  | NotDispatched string
  | SkippedOversize string u64 u64

fun is_terminal_state :: "node_state \<Rightarrow> bool" where
  "is_terminal_state Pending = False"
| "is_terminal_state Running = False"
| "is_terminal_state _ = True"

fun blocks_dependents :: "node_state \<Rightarrow> bool" where
  "blocks_dependents (DomainFailed _ _) = True"
| "blocks_dependents (TimedOut _) = True"
| "blocks_dependents (ProcessFailed _ _) = True"
| "blocks_dependents (DependencyBlocked _) = True"
| "blocks_dependents (SkippedOversize _ _ _) = True"
| "blocks_dependents _ = False"

fun is_succeeded :: "node_state \<Rightarrow> bool" where
  "is_succeeded (Succeeded _ _) = True"
| "is_succeeded _ = False"

fun state_json :: "node_state \<Rightarrow> json" where
  "state_json Pending = jobj [(''status'', JStr ''pending'')]"
| "state_json Running = jobj [(''status'', JStr ''running'')]"
| "state_json (Succeeded v arts) = jobj
     [(''status'', JStr ''succeeded''), (''verdict'', JStr (verdict_str v)),
      (''artifacts'', JArr (map artifact_json arts))]"
| "state_json (DomainFailed d arts) = jobj
     [(''status'', JStr ''domain_failed''), (''verdict'', JStr ''fail''), (''diagnostic'', JStr d),
      (''artifacts'', JArr (map artifact_json arts))]"
| "state_json (TimedOut d) = jobj [(''status'', JStr ''timeout''), (''diagnostic'', JStr d)]"
| "state_json (ProcessFailed f d) = jobj
     [(''status'', JStr ''process_failed''), (''failure'', JStr (failure_str f)), (''diagnostic'', JStr d)]"
| "state_json (DependencyBlocked bs) = jobj
     [(''status'', JStr ''dependency_blocked''), (''blockedBy'', JArr (map JStr bs))]"
| "state_json (NotDispatched r) = jobj [(''status'', JStr ''not_dispatched''), (''reason'', JStr r)]"
| "state_json (SkippedOversize r actual limit) = jobj
     [(''status'', JStr ''skipped_oversize''), (''reason'', JStr r), (''actualBytes'', ju64 actual),
      (''byteLimit'', ju64 limit)]"

type_synonym states = "(string, node_state) btree"

record dispatch =
  d_node_id :: string
  d_capability :: string
  d_request_identity :: string
  d_inputs :: "artifact list"

record checkpoint =
  ck_schema :: string
  ck_run_identity :: string
  ck_nodes :: states

definition states_json :: "states \<Rightarrow> json" where
  "states_json m = jobj (map (\<lambda>(k, st). (k, state_json st)) (bt_iter m))"

definition checkpoint_json :: "checkpoint \<Rightarrow> json" where
  "checkpoint_json ck = jobj
     [(''schema'', JStr (ck_schema ck)), (''runIdentity'', JStr (ck_run_identity ck)),
      (''nodes'', states_json (ck_nodes ck))]"

datatype run_outcome =
    Completed | RDomainFailed | DomainUnknown | RTimeout | RProcessFailed | RFailed | Incomplete
  | BudgetStopped

fun outcome_str :: "run_outcome \<Rightarrow> string" where
  "outcome_str Completed = ''completed''"
| "outcome_str RDomainFailed = ''domain_failed''"
| "outcome_str DomainUnknown = ''domain_unknown''"
| "outcome_str RTimeout = ''timeout''"
| "outcome_str RProcessFailed = ''process_failed''"
| "outcome_str RFailed = ''failed''"
| "outcome_str Incomplete = ''incomplete''"
| "outcome_str BudgetStopped = ''budget_stopped''"

fun exit_code :: "run_outcome \<Rightarrow> int" where
  "exit_code Completed = 0"
| "exit_code RDomainFailed = 10"
| "exit_code DomainUnknown = 20"
| "exit_code RTimeout = 71"
| "exit_code RProcessFailed = 70"
| "exit_code RFailed = 70"
| "exit_code Incomplete = 70"
| "exit_code BudgetStopped = 76"

record manifest =
  mf_schema :: string
  mf_run_identity :: string
  mf_snapshot :: string
  mf_outcome :: run_outcome
  mf_nodes :: states

definition manifest_json :: "manifest \<Rightarrow> json" where
  "manifest_json m = jobj
     [(''schema'', JStr (mf_schema m)), (''runIdentity'', JStr (mf_run_identity m)),
      (''snapshotIdentity'', JStr (mf_snapshot m)), (''outcome'', JStr (outcome_str (mf_outcome m))),
      (''nodes'', states_json (mf_nodes m))]"

section \<open>The coordinator and the propagation of blocks\<close>

record coordinator =
  c_spec :: dag_spec
  c_run_identity :: string
  c_nodes :: "(string, node_spec) btree"
  c_deps :: deps
  c_states :: states

definition coordinator_new :: "(json \<Rightarrow> u8 list) \<Rightarrow> dag_spec \<Rightarrow> (coordinator_error + coordinator) option" where
  "coordinator_new to_vec spec =
     map_option (\<lambda>r. and_then r (\<lambda>(nodes, dependencies).
       Ok \<lparr>c_spec = spec, c_run_identity = identity_for to_vec spec, c_nodes = nodes,
           c_deps = dependencies, c_states = map (\<lambda>k. (k, Pending)) (bt_keys nodes)\<rparr>))
     (validate_spec spec)"

definition blocking :: "states \<Rightarrow> string list \<Rightarrow> string list" where
  "blocking st ds = filter (\<lambda>d. case bt_get st d of None \<Rightarrow> False | Some s \<Rightarrow> blocks_dependents s) ds"

definition newly_blocked :: "deps \<Rightarrow> states \<Rightarrow> (string \<times> string list) list" where
  "newly_blocked D st =
     filter (\<lambda>(k, blocked_by). blocked_by \<noteq> [])
       (map (\<lambda>(k, s). (k, blocking st (the (bt_get D k))))
         (filter (\<lambda>(k, s). s = Pending) (bt_iter st)))"

definition block_round :: "(string \<times> string list) list \<Rightarrow> states \<Rightarrow> states" where
  "block_round bs st = fold (\<lambda>(k, blocked_by). bt_insert k (DependencyBlocked blocked_by)) bs st"

definition pending_set :: "states \<Rightarrow> string set" where
  "pending_set st = {k. bt_get st k = Some Pending}"

lemma finite_pending_set [simp]: "finite (pending_set st)"
  by (rule finite_subset [of _ "dom (bt_get st)"]) (auto simp: pending_set_def finite_dom_map_of)

lemma newly_blocked_iff:
  "(k, b) \<in> set (newly_blocked D st) \<longleftrightarrow>
     bt_get st k = Some Pending \<and> b = blocking st (the (bt_get D k)) \<and> b \<noteq> []"
  by (auto simp: newly_blocked_def set_bt_iter image_iff)

lemma block_round_eq: "block_round bs st = bt.ins_all (map (\<lambda>(k, b). (k, DependencyBlocked b)) bs) st"
  by (induction bs arbitrary: st) (auto simp: block_round_def bt.ins_all_def)

lemma block_round_get:
  "(k \<notin> fst ` set bs \<and> bt_get (block_round bs st) k = bt_get st k) \<or>
   (\<exists>b. (k, b) \<in> set bs \<and> bt_get (block_round bs st) k = Some (DependencyBlocked b))"
proof -
  let ?es = "rev (map (\<lambda>(k, b). (k, DependencyBlocked b)) bs)"
  have get: "bt_get (block_round bs st) = bt_get st ++ map_of ?es"
    by (simp only: block_round_eq bt.look_ins_all)
  have keys: "fst ` set ?es = fst ` set bs" by force
  show ?thesis
  proof (cases "map_of ?es k")
    case None
    then have "k \<notin> fst ` set bs" unfolding map_of_eq_None_iff keys .
    with None get show ?thesis by (simp add: map_add_def)
  next
    case (Some s)
    then have "(k, s) \<in> set ?es" by (rule map_of_SomeD)
    with Some get show ?thesis by (auto simp: map_add_def)
  qed
qed

lemma block_round_pending:
  assumes "bs = newly_blocked D st" "bs \<noteq> []"
  shows "pending_set (block_round bs st) \<subset> pending_set st"
proof -
  obtain k b where k: "(k, b) \<in> set bs" using assms(2) by (cases bs) auto
  then have "k \<in> pending_set st"
    using assms(1) by (simp add: newly_blocked_iff pending_set_def)
  moreover have "k \<notin> pending_set (block_round bs st)"
    using k block_round_get [of k bs st] by (auto simp: pending_set_def image_iff)
  moreover have "pending_set (block_round bs st) \<subseteq> pending_set st"
  proof
    fix j assume "j \<in> pending_set (block_round bs st)"
    then show "j \<in> pending_set st"
      using block_round_get [of j bs st] by (auto simp: pending_set_def)
  qed
  ultimately show ?thesis by blast
qed

function propagate :: "deps \<Rightarrow> states \<Rightarrow> states" where
  "propagate D st =
     (let blocked = newly_blocked D st
      in if blocked = [] then st else propagate D (block_round blocked st))"
  by pat_completeness auto
termination
  by (relation "measure (\<lambda>(D, st). card (pending_set st))")
     (auto intro!: psubset_card_mono block_round_pending)

declare propagate.simps [simp del]

definition propagate_blocked :: "coordinator \<Rightarrow> coordinator" where
  "propagate_blocked c = c\<lparr>c_states := propagate (c_deps c) (c_states c)\<rparr>"

section \<open>Operations\<close>

definition deps_list :: "coordinator \<Rightarrow> string \<Rightarrow> string list" where
  "deps_list c k = the (bt_get (c_deps c) k)"

definition set_state :: "string \<Rightarrow> node_state \<Rightarrow> coordinator \<Rightarrow> coordinator" where
  "set_state k st c = c\<lparr>c_states := bt_insert k st (c_states c)\<rparr>"

definition not_running :: "string \<Rightarrow> coordinator_error" where
  "not_running k = CoordinatorError InvalidTransition (''node is not running: '' @ k)"

definition record_not_dispatched ::
    "coordinator \<Rightarrow> string \<Rightarrow> string \<Rightarrow> coordinator_error + coordinator" where
  "record_not_dispatched c k reason =
     (if bt_get (c_states c) k \<noteq> Some Running then Err (not_running k)
      else Ok (set_state k (NotDispatched (nonempty_diagnostic reason ''node was not dispatched'')) c))"

definition record_skipped_oversize ::
    "coordinator \<Rightarrow> string \<Rightarrow> string \<Rightarrow> u64 \<Rightarrow> u64 \<Rightarrow> coordinator_error + coordinator" where
  "record_skipped_oversize c k reason actual limit =
     (if bt_get (c_states c) k \<noteq> Some Running then Err (not_running k)
      else Ok (propagate_blocked (set_state k
             (SkippedOversize (nonempty_diagnostic reason ''node was skipped as oversize'') actual limit) c)))"

definition mark_pending_not_dispatched :: "coordinator \<Rightarrow> string \<Rightarrow> coordinator" where
  "mark_pending_not_dispatched c reason =
     (let r = nonempty_diagnostic reason ''node was not dispatched''
      in c\<lparr>c_states := map (\<lambda>(k, st). (k, if st = Pending then NotDispatched r else st)) (c_states c)\<rparr>)"

definition dependencies_succeeded :: "coordinator \<Rightarrow> string \<Rightarrow> bool" where
  "dependencies_succeeded c k =
     list_all (\<lambda>d. case bt_get (c_states c) d of None \<Rightarrow> False | Some s \<Rightarrow> is_succeeded s) (deps_list c k)"

definition running_count :: "coordinator \<Rightarrow> nat" where
  "running_count c = length (filter (\<lambda>st. st = Running) (bt_values (c_states c)))"

definition inputs_of :: "coordinator \<Rightarrow> string \<Rightarrow> artifact list" where
  "inputs_of c k = concat (map (\<lambda>d. case bt_get (c_states c) d of
       Some (Succeeded _ arts) \<Rightarrow> arts | _ \<Rightarrow> []) (deps_list c k))"

fun dispatch_all :: "coordinator \<Rightarrow> string list \<Rightarrow> coordinator \<times> dispatch list" where
  "dispatch_all c [] = (c, [])"
| "dispatch_all c (k # ks) =
     (let node = the (bt_get (c_nodes c) k);
          inputs = inputs_of c k;
          (c', ds) = dispatch_all (set_state k Running c) ks
      in (c', \<lparr>d_node_id = k, d_capability = ns_capability node,
               d_request_identity = ns_request_identity node, d_inputs = inputs\<rparr> # ds))"

definition ready_nodes :: "coordinator \<Rightarrow> string list" where
  "ready_nodes c =
     map fst (filter (\<lambda>(k, st). st = Pending \<and> dependencies_succeeded c k) (bt_iter (c_states c)))"

text \<open>The code wraps the batch in \<open>Ok\<close> on every path; subtraction on \<open>nat\<close> is its saturating one.\<close>

definition next_batch :: "coordinator \<Rightarrow> coordinator \<times> dispatch list" where
  "next_batch c0 =
     (let c = propagate_blocked c0;
          available = ds_max_concurrency (c_spec c) - running_count c
      in if available = 0 then (c, []) else dispatch_all c (take available (ready_nodes c)))"

definition foreign_artifact :: "coordinator \<Rightarrow> artifact list \<Rightarrow> bool" where
  "foreign_artifact c arts \<longleftrightarrow> list_ex (\<lambda>a. a_snapshot a \<noteq> ds_snapshot (c_spec c)) arts"

definition foreign_error :: "string \<Rightarrow> coordinator_error" where
  "foreign_error k =
     CoordinatorError InvalidTransition (''node returned Artifact Ref for another snapshot: '' @ k)"

definition outcome_state :: "coordinator \<Rightarrow> string \<Rightarrow> node_outcome \<Rightarrow> coordinator_error + node_state" where
  "outcome_state c k outcome =
     (case outcome of
        OSuccess v arts \<Rightarrow>
          if foreign_artifact c arts then Err (foreign_error k)
          else if v = Fail
          then Ok (DomainFailed ''executor returned a domain fail verdict'' arts)
          else Ok (Succeeded v arts)
      | ODomainFail diagnostic arts \<Rightarrow>
          if foreign_artifact c arts then Err (foreign_error k)
          else Ok (DomainFailed (nonempty_diagnostic diagnostic ''domain failure without diagnostic'') arts)
      | OTimeout diagnostic \<Rightarrow>
          Ok (TimedOut (nonempty_diagnostic diagnostic ''node execution timed out''))
      | OProcessFailure failure diagnostic \<Rightarrow>
          Ok (ProcessFailed failure (nonempty_diagnostic diagnostic ''process failure without diagnostic'')))"

definition record_outcome :: "coordinator \<Rightarrow> string \<Rightarrow> node_outcome \<Rightarrow> coordinator_error + coordinator" where
  "record_outcome c k outcome =
     (if bt_get (c_states c) k \<noteq> Some Running then Err (not_running k)
      else and_then (outcome_state c k outcome) (\<lambda>st. Ok (propagate_blocked (set_state k st c))))"

definition take_checkpoint :: "coordinator \<Rightarrow> checkpoint" where
  "take_checkpoint c =
     \<lparr>ck_schema = run_state_schema, ck_run_identity = c_run_identity c,
      ck_nodes = map (\<lambda>(k, st). (k, if st = Running then Pending else st)) (c_states c)\<rparr>"

definition is_terminal :: "coordinator \<Rightarrow> bool" where
  "is_terminal c \<longleftrightarrow> list_all is_terminal_state (bt_values (c_states c))"

definition final_outcome :: "coordinator \<Rightarrow> run_outcome" where
  "final_outcome c =
     (let vs = bt_values (c_states c) in
      if list_ex (\<lambda>st. case st of TimedOut _ \<Rightarrow> True | _ \<Rightarrow> False) vs then RTimeout
      else if list_ex (\<lambda>st. case st of ProcessFailed _ _ \<Rightarrow> True | _ \<Rightarrow> False) vs then RProcessFailed
      else if list_ex (\<lambda>st. case st of DomainFailed _ _ \<Rightarrow> True | _ \<Rightarrow> False) vs then RDomainFailed
      else if list_ex (\<lambda>st. case st of Succeeded Unknown _ \<Rightarrow> True | _ \<Rightarrow> False) vs then DomainUnknown
      else if is_terminal c then Completed else Incomplete)"

definition run_manifest :: "coordinator \<Rightarrow> manifest" where
  "run_manifest c =
     \<lparr>mf_schema = run_manifest_schema, mf_run_identity = c_run_identity c,
      mf_snapshot = ds_snapshot (c_spec c), mf_outcome = final_outcome c, mf_nodes = c_states c\<rparr>"

section \<open>Resuming from a checkpoint\<close>

definition resume_mismatch :: "string \<Rightarrow> coordinator_error" where
  "resume_mismatch m = CoordinatorError ResumeIdentityMismatch m"

fun is_finalized :: "node_state \<Rightarrow> bool" where
  "is_finalized (Succeeded _ _) = True"
| "is_finalized (DomainFailed _ _) = True"
| "is_finalized (TimedOut _) = True"
| "is_finalized (ProcessFailed _ _) = True"
| "is_finalized _ = False"

definition check_history :: "coordinator \<Rightarrow> states \<Rightarrow> string \<Rightarrow> node_state \<Rightarrow> coordinator_error + unit" where
  "check_history c ck k st =
     (let ds = deps_list c k in
      if is_finalized st \<and>
         \<not> list_all (\<lambda>d. case bt_get ck d of None \<Rightarrow> False | Some s \<Rightarrow> is_succeeded s) ds
      then Err (resume_mismatch (''checkpoint finalized node before its dependencies: '' @ k))
      else case st of
        DependencyBlocked blocked_by \<Rightarrow>
          (let expected = blocking ck ds in
           if expected = [] \<or> blocked_by \<noteq> expected
           then Err (resume_mismatch (''checkpoint has inconsistent dependency block history: '' @ k))
           else Ok ())
      | _ \<Rightarrow> Ok ())"

definition validate_checkpoint_history :: "coordinator \<Rightarrow> states \<Rightarrow> coordinator_error + unit" where
  "validate_checkpoint_history c ck = try_fold (\<lambda>(k, st) _. check_history c ck k st) (bt_iter ck) ()"

definition restore_state :: "coordinator \<Rightarrow> string \<Rightarrow> node_state \<Rightarrow> coordinator_error + node_state" where
  "restore_state c k st =
     (case st of
        Succeeded v arts \<Rightarrow>
          if v = Fail \<or> foreign_artifact c arts
          then Err (resume_mismatch (''checkpoint has invalid completed node: '' @ k))
          else Ok (Succeeded v arts)
      | DomainFailed diagnostic arts \<Rightarrow>
          if is_blank diagnostic \<or> foreign_artifact c arts
          then Err (resume_mismatch (''checkpoint has invalid domain-failed node: '' @ k))
          else Ok (DomainFailed diagnostic arts)
      | TimedOut diagnostic \<Rightarrow>
          if is_blank diagnostic
          then Err (resume_mismatch (''checkpoint has empty timeout diagnostic: '' @ k))
          else Ok (TimedOut diagnostic)
      | ProcessFailed failure diagnostic \<Rightarrow>
          if is_blank diagnostic
          then Err (resume_mismatch (''checkpoint has empty process diagnostic: '' @ k))
          else Ok (ProcessFailed failure diagnostic)
      | _ \<Rightarrow> Ok Pending)"

definition resume_from :: "coordinator \<Rightarrow> checkpoint \<Rightarrow> coordinator_error + coordinator" where
  "resume_from c ck =
     and_then (ensure (ck_schema ck = run_state_schema \<and> ck_run_identity ck = c_run_identity c)
       (resume_mismatch ''checkpoint does not match the deterministic DAG identity'')) (\<lambda>_.
     and_then (try_fold (\<lambda>k _. ensure (bt_get (c_nodes c) k \<noteq> None)
         (resume_mismatch (''checkpoint contains unknown node: '' @ k))) (bt_keys (ck_nodes ck)) ()) (\<lambda>_.
     and_then (validate_checkpoint_history c (ck_nodes ck)) (\<lambda>_.
     and_then (try_fold (\<lambda>(k, st) c. and_then (restore_state c k st) (\<lambda>st'. Ok (set_state k st' c)))
         (bt_iter (ck_nodes ck)) c) (\<lambda>c'.
     Ok (propagate_blocked c')))))"

definition coordinator_resume ::
    "(json \<Rightarrow> u8 list) \<Rightarrow> dag_spec \<Rightarrow> checkpoint \<Rightarrow> (coordinator_error + coordinator) option" where
  "coordinator_resume to_vec spec ck =
     map_option (\<lambda>r. and_then r (\<lambda>c. resume_from c ck)) (coordinator_new to_vec spec)"

end
