(* ===== verification/Dag_Lifecycle.thy ===== *)
theory Dag_Lifecycle
  imports Dag_Coordinator
begin

text \<open>
  The life of a run: the invariant of the coordinator, its preservation by every operation, the
  step relation and the reachable coordinators.  The invariant is stated on the lookup function
  of the state table, so a single lemma about updating one unfinished node carries every
  operation, the propagation of blocks included.
\<close>

section \<open>The invariant\<close>

fun artifacts_of :: "node_state \<Rightarrow> artifact list" where
  "artifacts_of (Succeeded _ arts) = arts"
| "artifacts_of (DomainFailed _ arts) = arts"
| "artifacts_of _ = []"

text \<open>States a node can only reach by having been dispatched and not refused for the budget.\<close>

fun started :: "node_state \<Rightarrow> bool" where
  "started Pending = False"
| "started (DependencyBlocked _) = False"
| "started (NotDispatched _) = False"
| "started _ = True"

text \<open>A failure always comes with a diagnostic.\<close>

fun diagnostic_ok :: "node_state \<Rightarrow> bool" where
  "diagnostic_ok (DomainFailed d _) \<longleftrightarrow> \<not> is_blank d"
| "diagnostic_ok (TimedOut d) \<longleftrightarrow> \<not> is_blank d"
| "diagnostic_ok (ProcessFailed _ d) \<longleftrightarrow> \<not> is_blank d"
| "diagnostic_ok _ \<longleftrightarrow> True"

lemma nonempty_diagnostic [simp]: "\<not> is_blank fallback \<Longrightarrow> \<not> is_blank (nonempty_diagnostic d fallback)"
  by (simp add: nonempty_diagnostic_def)

lemma fallback_diagnostics [simp]:
  "\<not> is_blank ''executor returned a domain fail verdict''" "\<not> is_blank ''domain failure without diagnostic''"
  "\<not> is_blank ''node execution timed out''" "\<not> is_blank ''process failure without diagnostic''"
  by code_simp+

definition blocks_in :: "(string \<Rightarrow> node_state option) \<Rightarrow> string \<Rightarrow> bool" where
  "blocks_in f d \<longleftrightarrow> (\<exists>s. f d = Some s \<and> blocks_dependents s)"

definition succeeded_in :: "(string \<Rightarrow> node_state option) \<Rightarrow> string \<Rightarrow> bool" where
  "succeeded_in f d \<longleftrightarrow> (\<exists>s. f d = Some s \<and> is_succeeded s)"

definition node_inv :: "deps \<Rightarrow> string \<Rightarrow> (string \<Rightarrow> node_state option) \<Rightarrow> string \<Rightarrow> node_state \<Rightarrow> bool" where
  "node_inv D snap f k s \<longleftrightarrow>
     (started s \<longrightarrow> (\<forall>d \<in> deps_of D k. succeeded_in f d)) \<and>
     (\<forall>bs. s = DependencyBlocked bs \<longrightarrow> bs \<noteq> [] \<and> (\<forall>d \<in> set bs. d \<in> deps_of D k \<and> blocks_in f d)) \<and>
     (\<forall>a \<in> set (artifacts_of s). a_snapshot a = snap) \<and>
     (\<forall>v arts. s = Succeeded v arts \<longrightarrow> v \<noteq> Fail) \<and> diagnostic_ok s"

definition states_inv :: "deps \<Rightarrow> string \<Rightarrow> (string \<Rightarrow> node_state option) \<Rightarrow> bool" where
  "states_inv D snap f \<longleftrightarrow> (\<forall>k s. f k = Some s \<longrightarrow> node_inv D snap f k s)"

text \<open>The tables a coordinator is built with, which no operation changes.\<close>

definition coord_tables :: "coordinator \<Rightarrow> bool" where
  "coord_tables c \<longleftrightarrow>
     try_fold add_node (ds_nodes (c_spec c)) [] = Inr (c_nodes c) \<and>
     c_deps c = dep_table (c_nodes c) (ds_edges (c_spec c))"

lemma coord_tables_upd [simp]:
  "coord_tables (c\<lparr>c_states := st\<rparr>) = coord_tables c" "coord_tables (set_state k s c) = coord_tables c"
  by (simp_all add: coord_tables_def set_state_def)

definition coord_inv :: "coordinator \<Rightarrow> bool" where
  "coord_inv c \<longleftrightarrow>
     spec_wf (c_spec c) \<and> coord_tables c \<and>
     bt_wf (c_states c) \<and> dom (bt_get (c_states c)) = spec_ids (c_spec c) \<and>
     states_inv (c_deps c) (ds_snapshot (c_spec c)) (bt_get (c_states c)) \<and>
     running_count c \<le> ds_max_concurrency (c_spec c)"

lemma coord_tablesD:
  assumes "coord_tables c" "spec_wf (c_spec c)"
  shows "bt_wf (c_nodes c)" "deps_ok (c_deps c)" "acyclic (depends (c_deps c))"
    "dom (bt_get (c_nodes c)) = spec_ids (c_spec c)" "dom (bt_get (c_deps c)) = spec_ids (c_spec c)"
    "depends (c_deps c) = edge_rel (c_spec c)"
    "n \<in> set (ds_nodes (c_spec c)) \<Longrightarrow> bt_get (c_nodes c) (ns_id n) = Some n"
proof -
  note nodes = node_table [of "ds_nodes (c_spec c)" "c_nodes c"]
  have t: "try_fold add_node (ds_nodes (c_spec c)) [] = Inr (c_nodes c)"
    and D: "c_deps c = dep_table (c_nodes c) (ds_edges (c_spec c))"
    using assms(1) by (simp_all add: coord_tables_def)
  show wf: "bt_wf (c_nodes c)" and dom: "dom (bt_get (c_nodes c)) = spec_ids (c_spec c)"
    using nodes(1,2) [OF t] by (simp_all add: spec_ids_def)
  show "n \<in> set (ds_nodes (c_spec c)) \<Longrightarrow> bt_get (c_nodes c) (ns_id n) = Some n"
    by (rule nodes(3) [OF t])
  have ok: "\<forall>e \<in> set (ds_edges (c_spec c)). edge_ok (c_nodes c) e"
    using edge_rel_known [OF dom] assms(2) by (simp add: spec_wf_def)
  show "deps_ok (c_deps c)"
    unfolding D using assms(2) wf ok by (intro deps_ok_dep_table) (simp_all add: spec_wf_def)
  show rel: "depends (c_deps c) = edge_rel (c_spec c)"
    unfolding D depends_dep_table [OF ok] edge_rel_def ..
  show "acyclic (depends (c_deps c))"
    unfolding rel using assms(2) by (simp add: spec_wf_def)
  show "dom (bt_get (c_deps c)) = spec_ids (c_spec c)"
    unfolding D dom [symmetric] by (auto simp: bt_get_dep_table domIff split: if_splits)
qed

lemma deps_of_edges:
  assumes "coord_inv c"
  shows "d \<in> deps_of (c_deps c) k \<and> k \<in> spec_ids (c_spec c) \<longleftrightarrow> (d, k) \<in> edge_rel (c_spec c)"
  using assms coord_tablesD(5,6) [of c] unfolding coord_inv_def depends_def by force

lemma node_inv_mono:
  assumes "node_inv D snap f k s" "\<And>d. succeeded_in f d \<Longrightarrow> succeeded_in g d"
    and "\<And>d. blocks_in f d \<Longrightarrow> blocks_in g d"
  shows "node_inv D snap g k s"
  using assms unfolding node_inv_def by blast

lemma unfinished_upd:
  assumes "f k = Some s0" "\<not> is_terminal_state s0"
  shows "succeeded_in f d \<Longrightarrow> succeeded_in (f(k \<mapsto> s)) d" "blocks_in f d \<Longrightarrow> blocks_in (f(k \<mapsto> s)) d"
  using assms by (cases s0; auto simp: succeeded_in_def blocks_in_def)+

lemma states_inv_upd:
  assumes "states_inv D snap f" "f k = Some s0" "\<not> is_terminal_state s0" "node_inv D snap f k s"
  shows "states_inv D snap (f(k \<mapsto> s))"
  unfolding states_inv_def
proof (intro allI impI)
  fix j t assume j: "(f(k \<mapsto> s)) j = Some t"
  then have "node_inv D snap f j t"
    using assms(1,4) by (auto simp: states_inv_def split: if_splits)
  then show "node_inv D snap (f(k \<mapsto> s)) j t"
    using unfinished_upd [of f k s0 _ s] assms(2,3) by (auto intro: node_inv_mono)
qed

section \<open>Propagation of blocks\<close>

lemma distinct_newly_blocked: "bt_wf st \<Longrightarrow> distinct (map fst (newly_blocked D st))"
proof -
  assume wf: "bt_wf st"
  have keys: "map fst (map (\<lambda>(k, s). (k, f k)) xs) = map fst xs" for f :: "string \<Rightarrow> string list" and xs :: states
    by (induction xs) auto
  show ?thesis
    unfolding newly_blocked_def
    by (intro distinct_map_filter) (simp only: keys bt_iter_id [OF wf], intro distinct_map_filter,
        rule bt_wf_distinct [OF wf])
qed

lemma block_round_Cons:
  "block_round ((k, b) # bs) st = block_round bs (bt_insert k (DependencyBlocked b) st)"
  by (simp add: block_round_def)

lemma blocking_iff: "d \<in> set (blocking st ds) \<longleftrightarrow> d \<in> set ds \<and> blocks_in (bt_get st) d"
  by (auto simp: blocking_def blocks_in_def split: option.splits)

lemma block_round_inv:
  assumes "states_inv D snap (bt_get st)" "distinct (map fst bs)"
    and "\<forall>(k, b) \<in> set bs. bt_get st k = Some Pending \<and> b \<noteq> [] \<and>
           (\<forall>d \<in> set b. d \<in> deps_of D k \<and> blocks_in (bt_get st) d)"
  shows "states_inv D snap (bt_get (block_round bs st))"
  using assms
proof (induction bs arbitrary: st)
  case (Cons x bs)
  obtain k b where x: "x = (k, b)" by (cases x)
  let ?st = "bt_insert k (DependencyBlocked b) st"
  from Cons.prems(3) have pend: "bt_get st k = Some Pending" by (auto simp: x)
  have "node_inv D snap (bt_get st) k (DependencyBlocked b)"
    using Cons.prems(3) by (simp add: x node_inv_def)
  then have a: "states_inv D snap (bt_get ?st)"
    using states_inv_upd [OF Cons.prems(1) pend] by simp
  have b: "\<forall>(j, b') \<in> set bs. bt_get ?st j = Some Pending \<and> b' \<noteq> [] \<and>
      (\<forall>d \<in> set b'. d \<in> deps_of D j \<and> blocks_in (bt_get ?st) d)"
  proof clarify
    fix j b' assume j: "(j, b') \<in> set bs"
    then have "j \<noteq> k" using Cons.prems(2) by (force simp: x)
    then show "bt_get ?st j = Some Pending \<and> b' \<noteq> [] \<and>
        (\<forall>d \<in> set b'. d \<in> deps_of D j \<and> blocks_in (bt_get ?st) d)"
      using Cons.prems(3) j unfinished_upd(2) [of "bt_get st" k Pending] pend by (auto simp: x)
  qed
  have "distinct (map fst bs)" using Cons.prems(2) by simp
  then have "states_inv D snap (bt_get (block_round bs ?st))"
    by (rule Cons.IH [OF a _ b])
  then show ?case by (simp add: x block_round_Cons)
qed (simp add: block_round_def)

text \<open>How one propagation changes the table: some pending nodes become blocked.\<close>

definition only_blocks :: "states \<Rightarrow> states \<Rightarrow> bool" where
  "only_blocks st st' \<longleftrightarrow>
     (bt_wf st \<longrightarrow> bt_wf st') \<and>
     (\<forall>k. bt_get st' k = bt_get st k \<or>
          (bt_get st k = Some Pending \<and> (\<exists>b. bt_get st' k = Some (DependencyBlocked b))))"

lemma only_blocks_refl [simp]: "only_blocks st st"
  by (simp add: only_blocks_def)

lemma only_blocks_trans: "only_blocks a b \<Longrightarrow> only_blocks b c \<Longrightarrow> only_blocks a c"
  unfolding only_blocks_def by (metis (no_types, lifting) node_state.distinct(11) option.inject)

lemma only_blocks_round: "only_blocks st (block_round (newly_blocked D st) st)"
proof -
  have "bt_wf st \<longrightarrow> bt_wf (block_round bs st)" for bs
    by (simp add: block_round_eq bt.inv_ins_all)
  moreover have "bt_get (block_round (newly_blocked D st) st) k = bt_get st k \<or>
      (bt_get st k = Some Pending \<and>
       (\<exists>b. bt_get (block_round (newly_blocked D st) st) k = Some (DependencyBlocked b)))" for k
    using block_round_get [of k "newly_blocked D st" st] newly_blocked_iff [of k _ D st] by blast
  ultimately show ?thesis by (simp add: only_blocks_def)
qed

lemma only_blocks_propagate: "only_blocks st (propagate D st)"
proof (induction D st rule: propagate.induct)
  case (1 D st)
  show ?case
  proof (cases "newly_blocked D st = []")
    case False
    have "propagate D st = propagate D (block_round (newly_blocked D st) st)"
      using False by (simp add: propagate.simps [of D st])
    with only_blocks_trans [OF only_blocks_round 1 [OF refl False]] show ?thesis by simp
  qed (simp add: propagate.simps [of D st])
qed

lemma propagate_inv:
  "states_inv D snap (bt_get st) \<Longrightarrow> bt_wf st \<Longrightarrow> states_inv D snap (bt_get (propagate D st))"
proof (induction D st rule: propagate.induct)
  case (1 D st)
  show ?case
  proof (cases "newly_blocked D st = []")
    case True
    with 1 show ?thesis by (simp add: propagate.simps [of D st])
  next
    case False
    have "states_inv D snap (bt_get (block_round (newly_blocked D st) st))"
      by (rule block_round_inv [OF "1.prems"(1) distinct_newly_blocked [OF "1.prems"(2)]])
         (auto simp: newly_blocked_iff blocking_iff)
    moreover have "bt_wf (block_round (newly_blocked D st) st)"
      using "1.prems"(2) only_blocks_round unfolding only_blocks_def by blast
    ultimately show ?thesis
      using "1.IH" [OF refl False] by (simp add: propagate.simps [of D st] False)
  qed
qed

lemma propagate_fixpoint: "newly_blocked D (propagate D st) = []"
proof (induction D st rule: propagate.induct)
  case (1 D st)
  then show ?case
    by (cases "newly_blocked D st = []") (simp_all add: propagate.simps [of D st] Let_def)
qed

lemma propagate_id: "newly_blocked D st = [] \<Longrightarrow> propagate D st = st"
  by (simp add: propagate.simps [of D st])

lemma propagated_pending:
  assumes "bt_get (propagate D st) k = Some Pending" "d \<in> deps_of D k"
  shows "\<not> blocks_in (bt_get (propagate D st)) d"
proof
  assume "blocks_in (bt_get (propagate D st)) d"
  with assms have "d \<in> set (blocking (propagate D st) (the (bt_get D k)))"
    by (simp add: blocking_iff)
  then have "(k, blocking (propagate D st) (the (bt_get D k))) \<in> set (newly_blocked D (propagate D st))"
    using assms(1) by (auto simp: newly_blocked_iff)
  then show False by (simp add: propagate_fixpoint)
qed

lemma only_blocks_dom: "only_blocks st st' \<Longrightarrow> dom (bt_get st') = dom (bt_get st)"
  unfolding only_blocks_def dom_def by (metis option.distinct(1))

section \<open>Operations keep the invariant\<close>

definition in_state :: "coordinator \<Rightarrow> node_state \<Rightarrow> string set" where
  "in_state c s = {k. bt_get (c_states c) k = Some s}"

lemma finite_in_state [simp]: "finite (in_state c s)"
  by (rule finite_subset [of _ "dom (bt_get (c_states c))"]) (auto simp: in_state_def finite_dom_map_of)

lemma running_count_card: "bt_wf (c_states c) \<Longrightarrow> running_count c = card (in_state c Running)"
proof -
  assume wf: "bt_wf (c_states c)"
  let ?f = "\<lambda>k. the (bt_get (c_states c) k)" and ?ks = "bt_keys (c_states c)"
  have "running_count c = length (filter (\<lambda>k. ?f k = Running) ?ks)"
    by (simp add: running_count_def bt_values_def bt_iter_def filter_map o_def)
  also have "\<dots> = card (set (filter (\<lambda>k. ?f k = Running) ?ks))"
    using bt_wf_distinct [OF wf] by (intro distinct_card [symmetric]) (simp add: bt_keys_def)
  also have "set (filter (\<lambda>k. ?f k = Running) ?ks) = in_state c Running"
    by (auto simp: set_bt_keys in_state_def)
  finally show ?thesis .
qed

lemma coord_inv_states:
  assumes "coord_inv c" "bt_wf st" "dom (bt_get st) = dom (bt_get (c_states c))"
    and "states_inv (c_deps c) (ds_snapshot (c_spec c)) (bt_get st)"
    and "{k. bt_get st k = Some Running} \<subseteq> in_state c Running"
  shows "coord_inv (c\<lparr>c_states := st\<rparr>)"
proof -
  let ?c = "c\<lparr>c_states := st\<rparr>"
  have "running_count ?c \<le> running_count c"
    using assms(1,2,5) by (simp add: running_count_card coord_inv_def in_state_def card_mono
        [OF finite_in_state [of c Running, unfolded in_state_def]])
  then show ?thesis
    using assms by (simp add: coord_inv_def)
qed

lemma only_blocks_get:
  assumes "only_blocks st st'" "bt_get st' k = Some s" "\<And>b. s \<noteq> DependencyBlocked b"
  shows "bt_get st k = Some s"
  using assms unfolding only_blocks_def by (metis option.inject)

lemma coord_inv_propagate: "coord_inv c \<Longrightarrow> coord_inv (propagate_blocked c)"
proof -
  assume c: "coord_inv c"
  note ob = only_blocks_propagate [of "c_states c" "c_deps c"]
  have wf: "bt_wf (c_states c)" using c by (simp add: coord_inv_def)
  show ?thesis
    unfolding propagate_blocked_def
  proof (rule coord_inv_states [OF c])
    show "bt_wf (propagate (c_deps c) (c_states c))"
      using ob wf by (simp add: only_blocks_def)
    show "dom (bt_get (propagate (c_deps c) (c_states c))) = dom (bt_get (c_states c))"
      by (rule only_blocks_dom [OF ob])
    show "states_inv (c_deps c) (ds_snapshot (c_spec c)) (bt_get (propagate (c_deps c) (c_states c)))"
      using c wf by (intro propagate_inv) (simp_all add: coord_inv_def)
    show "{k. bt_get (propagate (c_deps c) (c_states c)) k = Some Running} \<subseteq> in_state c Running"
      using only_blocks_get [OF ob] by (auto simp: in_state_def)
  qed
qed

lemma coord_inv_finish:
  assumes c: "coord_inv c" and k: "bt_get (c_states c) k = Some Running"
    and "node_inv (c_deps c) (ds_snapshot (c_spec c)) (bt_get (c_states c)) k s" "s \<noteq> Running"
  shows "coord_inv (set_state k s c)"
  unfolding set_state_def
proof (rule coord_inv_states [OF c])
  show "states_inv (c_deps c) (ds_snapshot (c_spec c)) (bt_get (bt_insert k s (c_states c)))"
    using c assms(3) states_inv_upd [of _ _ "bt_get (c_states c)" k Running s] k
    by (simp add: coord_inv_def)
qed (use c k \<open>s \<noteq> Running\<close> in \<open>auto simp: coord_inv_def in_state_def split: if_splits\<close>)

lemma running_inv:
  assumes "coord_inv c" "bt_get (c_states c) k = Some Running" "d \<in> deps_of (c_deps c) k"
  shows "succeeded_in (bt_get (c_states c)) d"
proof -
  have "node_inv (c_deps c) (ds_snapshot (c_spec c)) (bt_get (c_states c)) k Running"
    using assms(1,2) by (simp add: coord_inv_def states_inv_def)
  then show ?thesis using assms(3) by (simp add: node_inv_def)
qed

lemma outcome_state_Ok:
  assumes "outcome_state c k out = Inr s"
  shows "is_finalized s" "started s"
    "a \<in> set (artifacts_of s) \<Longrightarrow> a_snapshot a = ds_snapshot (c_spec c)"
    "s = Succeeded v arts \<Longrightarrow> v \<noteq> Fail" "diagnostic_ok s"
  using assms by (auto simp: outcome_state_def foreign_artifact_def list_ex_iff
      split: node_outcome.splits if_splits)

lemma coord_inv_record:
  assumes c: "coord_inv c" and r: "record_outcome c k out = Inr c'"
  shows "coord_inv c'"
proof -
  from r obtain s where k: "bt_get (c_states c) k = Some Running" and s: "outcome_state c k out = Inr s"
    and c': "c' = propagate_blocked (set_state k s c)"
    by (auto simp: record_outcome_def result_simps split: if_splits)
  have "node_inv (c_deps c) (ds_snapshot (c_spec c)) (bt_get (c_states c)) k s"
    using outcome_state_Ok [OF s] running_inv [OF c k] by (auto simp: node_inv_def)
  moreover have "s \<noteq> Running" using outcome_state_Ok(1) [OF s] by auto
  ultimately show ?thesis
    unfolding c' by (intro coord_inv_propagate coord_inv_finish [OF c k])
qed

lemma coord_inv_not_dispatched:
  "coord_inv c \<Longrightarrow> record_not_dispatched c k r = Inr c' \<Longrightarrow> coord_inv c'"
  by (auto simp: record_not_dispatched_def node_inv_def intro!: coord_inv_finish split: if_splits)

lemma coord_inv_skipped:
  "coord_inv c \<Longrightarrow> record_skipped_oversize c k r a l = Inr c' \<Longrightarrow> coord_inv c'"
  by (auto simp: record_skipped_oversize_def node_inv_def dest: running_inv
      intro!: coord_inv_propagate coord_inv_finish split: if_splits)

lemma coord_inv_mark: "coord_inv c \<Longrightarrow> coord_inv (mark_pending_not_dispatched c r)"
proof -
  assume c: "coord_inv c"
  define st where "st = map (\<lambda>(k, st). (k, if st = Pending then NotDispatched
      (nonempty_diagnostic r ''node was not dispatched'') else st)) (c_states c)"
  have get: "bt_get st k = map_option (\<lambda>s. if s = Pending then NotDispatched
      (nonempty_diagnostic r ''node was not dispatched'') else s) (bt_get (c_states c) k)" for k
    by (simp add: st_def bt_get_map_snd)
  have mono: "succeeded_in (bt_get (c_states c)) d \<Longrightarrow> succeeded_in (bt_get st) d"
    "blocks_in (bt_get (c_states c)) d \<Longrightarrow> blocks_in (bt_get st) d" for d
    unfolding succeeded_in_def blocks_in_def get by (force elim: is_succeeded.elims blocks_dependents.elims)+
  have "coord_inv (c\<lparr>c_states := st\<rparr>)"
  proof (rule coord_inv_states [OF c])
    show "states_inv (c_deps c) (ds_snapshot (c_spec c)) (bt_get st)"
      unfolding states_inv_def
    proof (intro allI impI)
      fix k s assume "bt_get st k = Some s"
      then obtain s0 where s0: "bt_get (c_states c) k = Some s0"
        "s = (if s0 = Pending then NotDispatched (nonempty_diagnostic r ''node was not dispatched'') else s0)"
        by (auto simp: get)
      then have "node_inv (c_deps c) (ds_snapshot (c_spec c)) (bt_get (c_states c)) k s"
        using c by (auto simp: coord_inv_def states_inv_def node_inv_def)
      then show "node_inv (c_deps c) (ds_snapshot (c_spec c)) (bt_get st) k s"
        using mono by (rule node_inv_mono)
    qed
    show "bt_wf st" using c by (simp add: st_def coord_inv_def)
  qed (auto simp: get in_state_def domIff split: if_splits)
  then show ?thesis by (simp add: mark_pending_not_dispatched_def st_def Let_def)
qed

section \<open>Dispatching\<close>

lemma dispatch_all_Cons [simp]:
  "fst (dispatch_all c (k # ks)) = fst (dispatch_all (set_state k Running c) ks)"
  "snd (dispatch_all c (k # ks)) =
     \<lparr>d_node_id = k, d_capability = ns_capability (the (bt_get (c_nodes c) k)),
      d_request_identity = ns_request_identity (the (bt_get (c_nodes c) k)), d_inputs = inputs_of c k\<rparr>
     # snd (dispatch_all (set_state k Running c) ks)"
  by (simp_all add: Let_def split: prod.split)

declare dispatch_all.simps(2) [simp del]

lemma set_state_fields [simp]:
  "c_spec (set_state k s c) = c_spec c" "c_nodes (set_state k s c) = c_nodes c"
  "c_deps (set_state k s c) = c_deps c" "c_run_identity (set_state k s c) = c_run_identity c"
  "c_states (set_state k s c) = bt_insert k s (c_states c)"
  by (simp_all add: set_state_def)

lemma dispatch_all_fields [simp]:
  "c_spec (fst (dispatch_all c ks)) = c_spec c" "c_nodes (fst (dispatch_all c ks)) = c_nodes c"
  "c_deps (fst (dispatch_all c ks)) = c_deps c"
  "c_run_identity (fst (dispatch_all c ks)) = c_run_identity c"
  by (induction ks arbitrary: c) simp_all

lemma dispatch_all_get:
  "bt_get (c_states (fst (dispatch_all c ks))) k =
     (if k \<in> set ks then Some Running else bt_get (c_states c) k)"
  by (induction ks arbitrary: c) auto

lemma dispatch_all_ids: "map d_node_id (snd (dispatch_all c ks)) = ks"
  by (induction ks arbitrary: c) simp_all

lemma coord_inv_dispatch:
  assumes "coord_inv c" "distinct ks" "length ks + running_count c \<le> ds_max_concurrency (c_spec c)"
    and "\<forall>k \<in> set ks. bt_get (c_states c) k = Some Pending \<and>
           (\<forall>d \<in> deps_of (c_deps c) k. succeeded_in (bt_get (c_states c)) d)"
  shows "coord_inv (fst (dispatch_all c ks))"
  using assms
proof (induction ks arbitrary: c)
  case (Cons k ks)
  let ?c = "set_state k Running c"
  from Cons.prems(4) have k: "bt_get (c_states c) k = Some Pending"
    and deps: "\<forall>d \<in> deps_of (c_deps c) k. succeeded_in (bt_get (c_states c)) d" by auto
  have wf: "bt_wf (c_states c)" "bt_wf (c_states ?c)"
    using Cons.prems(1) by (auto simp: coord_inv_def set_state_def)
  have "in_state ?c Running = insert k (in_state c Running)" "k \<notin> in_state c Running"
    using k by (auto simp: in_state_def set_state_def)
  then have count: "running_count ?c = Suc (running_count c)"
    using wf by (simp add: running_count_card)
  have inv: "states_inv (c_deps c) (ds_snapshot (c_spec c)) (bt_get (c_states ?c))"
    using Cons.prems(1) deps k states_inv_upd [of _ _ "bt_get (c_states c)" k Pending Running]
    by (simp add: coord_inv_def set_state_def node_inv_def)
  have "dom (bt_get (c_states ?c)) = dom (bt_get (c_states c))"
    using k by (auto simp: set_state_def)
  then have c: "coord_inv ?c"
    using Cons.prems(1,3) wf count inv by (simp add: coord_inv_def)
  have others: "\<forall>j \<in> set ks. bt_get (c_states ?c) j = Some Pending \<and>
      (\<forall>d \<in> deps_of (c_deps ?c) j. succeeded_in (bt_get (c_states ?c)) d)"
  proof (intro ballI conjI)
    fix j assume j: "j \<in> set ks"
    then show "bt_get (c_states ?c) j = Some Pending"
      using Cons.prems(2,4) by auto
    fix d assume "d \<in> deps_of (c_deps ?c) j"
    with j Cons.prems(4) have "succeeded_in (bt_get (c_states c)) d" by simp
    with unfinished_upd(1) [of "bt_get (c_states c)" k Pending d Running] k
    show "succeeded_in (bt_get (c_states ?c)) d" by (simp del: fun_upd_apply)
  qed
  have "coord_inv (fst (dispatch_all ?c ks))"
    by (rule Cons.IH [OF c _ _ others]) (use Cons.prems(2,3) count in simp_all)
  then show ?case by simp
qed simp

end
