(* ===== verification/Dag_Run.thy ===== *)
theory Dag_Run
  imports Dag_Lifecycle
begin

text \<open>
  Runs of a coordinator: the step relation with one rule per operation, the coordinators that
  can be reached from a new or a resumed one, what a batch contains, and the loop
  \<open>run_to_completion\<close>.  The locale \<open>scheduler\<close> is the contract between a work loop and the
  scheduler it drives: an unfinished scheduler hands out work, and recording the work makes it
  smaller.  Both loops over the coordinator rest on it.
\<close>

section \<open>New and resumed coordinators\<close>

lemma coordinator_new_Ok:
  assumes "coordinator_new to_vec spec = Some (Inr c)"
  obtains nodes where "spec_wf spec" "try_fold add_node (ds_nodes spec) [] = Inr nodes"
    "c = \<lparr>c_spec = spec, c_run_identity = identity_for to_vec spec, c_nodes = nodes,
          c_deps = dep_table nodes (ds_edges spec), c_states = map (\<lambda>k. (k, Pending)) (bt_keys nodes)\<rparr>"
  by (cases spec rule: validate_spec_cases) (use assms that in \<open>auto simp: coordinator_new_def\<close>)

lemma new_fields:
  assumes "coordinator_new to_vec spec = Some (Inr c)"
  shows "c_spec c = spec" "c_run_identity c = identity_for to_vec spec"
  using assms by (auto elim: coordinator_new_Ok)

lemma new_pending:
  assumes "coordinator_new to_vec spec = Some (Inr c)"
  shows "bt_get (c_states c) k = (if k \<in> spec_ids spec then Some Pending else None)"
proof -
  from assms obtain nodes where n: "try_fold add_node (ds_nodes spec) [] = Inr nodes"
    "c_states c = map (\<lambda>k. (k, Pending)) (bt_keys nodes)" by (auto elim: coordinator_new_Ok)
  with node_table(2) [OF n(1)] show ?thesis
    by (simp add: bt_get_map_keys set_bt_keys spec_ids_def)
qed

lemma coord_inv_new:
  assumes new: "coordinator_new to_vec spec = Some (Inr c)"
  shows "coord_inv c"
proof -
  from new obtain nodes where wf: "spec_wf spec" and n: "try_fold add_node (ds_nodes spec) [] = Inr nodes"
    and c: "c = \<lparr>c_spec = spec, c_run_identity = identity_for to_vec spec, c_nodes = nodes,
          c_deps = dep_table nodes (ds_edges spec), c_states = map (\<lambda>k. (k, Pending)) (bt_keys nodes)\<rparr>"
    by (rule coordinator_new_Ok)
  note get = new_pending [OF new]
  have tables: "coord_tables c" by (simp add: coord_tables_def c n)
  have states: "bt_wf (c_states c)"
    using node_table(1) [OF n] by (simp add: c bt_wf_def bt_keys_def o_def)
  have none: "in_state c Running = {}" by (auto simp: in_state_def get split: if_splits)
  have "states_inv D snap (bt_get (c_states c))" for D snap
    by (auto simp: states_inv_def node_inv_def get split: if_splits)
  moreover have "running_count c = 0" using running_count_card [OF states] none by simp
  moreover have "dom (bt_get (c_states c)) = spec_ids spec"
    by (auto simp: get domIff split: if_splits)
  ultimately show ?thesis
    using wf tables states by (simp add: coord_inv_def new_fields [OF new])
qed

lemma ready_node:
  assumes "coord_inv c"
  shows "k \<in> set (ready_nodes c) \<longleftrightarrow> bt_get (c_states c) k = Some Pending \<and>
    (\<forall>d \<in> deps_of (c_deps c) k. succeeded_in (bt_get (c_states c)) d)"
  by (auto simp: ready_nodes_def set_bt_iter dependencies_succeeded_def list_all_iff deps_list_def
      succeeded_in_def image_iff split: option.splits)

lemma distinct_ready: "coord_inv c \<Longrightarrow> distinct (ready_nodes c)"
  by (simp add: ready_nodes_def coord_inv_def distinct_map_filter bt_wf_distinct)

lemma propagate_blocked_fields [simp]:
  "c_spec (propagate_blocked c) = c_spec c" "c_nodes (propagate_blocked c) = c_nodes c"
  "c_deps (propagate_blocked c) = c_deps c" "c_run_identity (propagate_blocked c) = c_run_identity c"
  "c_states (propagate_blocked c) = propagate (c_deps c) (c_states c)"
  by (simp_all add: propagate_blocked_def)

lemma coord_inv_next_batch: "coord_inv c \<Longrightarrow> coord_inv (fst (next_batch c))"
proof -
  assume "coord_inv c"
  then have c: "coord_inv (propagate_blocked c)" by (rule coord_inv_propagate)
  let ?c = "propagate_blocked c"
  let ?n = "ds_max_concurrency (c_spec ?c) - running_count ?c"
  show ?thesis
  proof (cases "?n = 0")
    case False
    have "coord_inv (fst (dispatch_all ?c (take ?n (ready_nodes ?c))))"
      by (rule coord_inv_dispatch [OF c])
         (use False c distinct_ready [OF c] ready_node [OF c] in \<open>auto dest: in_set_takeD\<close>)
    with False show ?thesis by (simp add: next_batch_def Let_def)
  qed (use c in \<open>simp add: next_batch_def Let_def\<close>)
qed

lemma restore_state_spec:
  "c_spec c = c_spec c' \<Longrightarrow> restore_state c k st = restore_state c' k st"
  by (simp add: restore_state_def foreign_artifact_def split: node_state.split)

lemma restored_state:
  assumes "restore_state c k st = Inr st'"
  shows "st' = Pending \<or> (st' = st \<and> is_finalized st)"
    "a \<in> set (artifacts_of st') \<Longrightarrow> a_snapshot a = ds_snapshot (c_spec c)"
    "st' = Succeeded v arts \<Longrightarrow> v \<noteq> Fail"
    "is_succeeded st \<Longrightarrow> is_succeeded st'" "diagnostic_ok st'"
  using assms by (auto simp: restore_state_def foreign_artifact_def list_ex_iff
      split: node_state.splits if_splits)

text \<open>What the restoring loop leaves: every checkpointed node has its restored state.\<close>

definition restores :: "coordinator \<Rightarrow> states \<Rightarrow> coordinator \<Rightarrow> bool" where
  "restores c ck c' \<longleftrightarrow>
     (\<exists>st. c' = c\<lparr>c_states := st\<rparr> \<and> (bt_wf (c_states c) \<longrightarrow> bt_wf st)) \<and>
     (\<forall>k. k \<notin> fst ` set ck \<longrightarrow> bt_get (c_states c') k = bt_get (c_states c) k) \<and>
     (\<forall>(k, s) \<in> set ck. \<exists>s'. restore_state c k s = Inr s' \<and> bt_get (c_states c') k = Some s')"

lemma restore_loop:
  assumes "try_fold (\<lambda>(k, st) c. and_then (restore_state c k st) (\<lambda>st'. Ok (set_state k st' c))) ck c = Inr c'"
    and "distinct (map fst ck)"
  shows "restores c ck c'"
  using assms
proof (induction ck arbitrary: c)
  case (Cons x ck)
  obtain k s where x: "x = (k, s)" by (cases x)
  from Cons.prems(1) obtain s1 where s1: "restore_state c k s = Inr s1"
    and rest: "try_fold (\<lambda>(k, st) c. and_then (restore_state c k st) (\<lambda>st'. Ok (set_state k st' c))) ck
      (set_state k s1 c) = Inr c'" by (auto simp: x result_simps)
  have IH: "restores (set_state k s1 c) ck c'"
    by (rule Cons.IH [OF rest]) (use Cons.prems(2) in simp)
  have k: "k \<notin> fst ` set ck" using Cons.prems(2) by (simp add: x)
  have same: "restore_state (set_state k s1 c) j t = restore_state c j t" for j t
    by (rule restore_state_spec) simp
  show ?case
    unfolding restores_def
  proof (intro conjI allI impI)
    show "\<exists>st. c' = c\<lparr>c_states := st\<rparr> \<and> (bt_wf (c_states c) \<longrightarrow> bt_wf st)"
      using IH by (auto simp: restores_def set_state_def)
    show "bt_get (c_states c') j = bt_get (c_states c) j" if "j \<notin> fst ` set (x # ck)" for j
      using IH that by (auto simp: restores_def x)
    show "\<forall>(j, t) \<in> set (x # ck). \<exists>s'. restore_state c j t = Inr s' \<and> bt_get (c_states c') j = Some s'"
      using IH k s1 by (auto simp: restores_def x same)
  qed
qed (simp add: restores_def, metis coordinator.surjective coordinator.update_convs(5))

lemma history_deps:
  assumes "validate_checkpoint_history c ck = Inr ()" "bt_wf ck"
    and "(k, s) \<in> set ck" "is_finalized s" "d \<in> deps_of (c_deps c) k"
  shows "succeeded_in (bt_get ck) d"
proof -
  have "\<forall>(k, s) \<in> set xs. check_history c ck k s = Inr ()"
    if "try_fold (\<lambda>(k, st) _. check_history c ck k st) xs () = Inr ()" for xs
    using that by (induction xs) (auto simp: result_simps)
  then have "check_history c ck k s = Inr ()"
    using assms(1-3) by (auto simp: validate_checkpoint_history_def)
  then show ?thesis
    using assms(4,5) by (auto simp: check_history_def Let_def list_all_iff deps_list_def succeeded_in_def
        split: if_splits option.splits)
qed

lemma resume_from_Ok:
  assumes "resume_from c ck = Inr c'" "bt_wf (ck_nodes ck)"
  obtains c1 where "restores c (ck_nodes ck) c1" "c' = propagate_blocked c1"
    "validate_checkpoint_history c (ck_nodes ck) = Inr ()"
    "dom (bt_get (ck_nodes ck)) \<subseteq> dom (bt_get (c_nodes c))"
    "ck_run_identity ck = c_run_identity c"
proof -
  have keys: "set ks \<subseteq> dom (bt_get (c_nodes c))"
    if "try_fold (\<lambda>k _. ensure (bt_get (c_nodes c) k \<noteq> None) (f k)) ks () = Inr ()"
    for ks and f :: "string \<Rightarrow> coordinator_error"
    using that by (induction ks) (auto simp: result_simps)
  from assms(1) obtain c1 where
    known: "try_fold (\<lambda>k _. ensure (bt_get (c_nodes c) k \<noteq> None)
      (resume_mismatch (''checkpoint contains unknown node: '' @ k))) (bt_keys (ck_nodes ck)) () = Inr ()"
    and loop: "try_fold (\<lambda>(k, st) c. and_then (restore_state c k st) (\<lambda>st'. Ok (set_state k st' c)))
      (bt_iter (ck_nodes ck)) c = Inr c1"
    and rest: "c' = propagate_blocked c1" "validate_checkpoint_history c (ck_nodes ck) = Inr ()"
      "ck_run_identity ck = c_run_identity c"
    unfolding resume_from_def and_then_eq_Inr ensure_eq_Inr
    by (elim exE conjE) simp
  have "restores c (ck_nodes ck) c1"
    using loop assms(2) by (intro restore_loop bt_wf_distinct) simp_all
  from that [OF this rest(1,2) keys [OF known, unfolded set_bt_keys] rest(3)] show thesis .
qed

lemma resumed_states:
  assumes new: "coordinator_new to_vec spec = Some (Inr c)" and wf: "bt_wf (ck_nodes ck)"
    and r: "restores c (ck_nodes ck) c1" and h: "validate_checkpoint_history c (ck_nodes ck) = Inr ()"
    and k: "bt_get (c_states c1) k = Some s"
  shows "s = Pending \<or> is_finalized s" "node_inv (c_deps c) (ds_snapshot spec) (bt_get (c_states c1)) k s"
proof -
  have cases: "s = Pending \<or> (\<exists>t. (k, t) \<in> set (ck_nodes ck) \<and> restore_state c k t = Inr s)"
  proof (cases "k \<in> fst ` set (ck_nodes ck)")
    case True
    then obtain t where "(k, t) \<in> set (ck_nodes ck)" by auto
    with r k show ?thesis by (auto simp: restores_def)
  next
    case False
    with r k new_pending [OF new] show ?thesis by (auto simp: restores_def split: if_splits)
  qed
  then show fin: "s = Pending \<or> is_finalized s" using restored_state(1) by blast
  show "node_inv (c_deps c) (ds_snapshot spec) (bt_get (c_states c1)) k s"
  proof (cases "s = Pending")
    case False
    with cases obtain t where t: "(k, t) \<in> set (ck_nodes ck)" "restore_state c k t = Inr s" by blast
    note rs = restored_state [OF t(2)]
    have dep: "succeeded_in (bt_get (c_states c1)) d" if "d \<in> deps_of (c_deps c) k" for d
    proof -
      have "is_finalized t" using rs(1) False by blast
      with history_deps [OF h wf t(1)] that obtain u where u: "bt_get (ck_nodes ck) d = Some u" "is_succeeded u"
        by (auto simp: succeeded_in_def)
      then have "(d, u) \<in> set (ck_nodes ck)" by (simp add: map_of_SomeD)
      with r obtain u' where "restore_state c d u = Inr u'" "bt_get (c_states c1) d = Some u'"
        by (auto simp: restores_def)
      with restored_state(4) [of c d u u'] u show ?thesis by (auto simp: succeeded_in_def)
    qed
    moreover have "s \<noteq> DependencyBlocked bs" for bs using fin by auto
    ultimately show ?thesis
      using rs(2,3,5) new_fields(1) [OF new] by (simp add: node_inv_def)
  qed (simp add: node_inv_def)
qed

lemma coord_inv_resume:
  assumes new: "coordinator_new to_vec spec = Some (Inr c)" and wf: "bt_wf (ck_nodes ck)"
    and "resume_from c ck = Inr c'"
  shows "coord_inv c'"
proof -
  from resume_from_Ok [OF assms(3) wf] obtain c1 where r: "restores c (ck_nodes ck) c1"
    and c': "c' = propagate_blocked c1" and h: "validate_checkpoint_history c (ck_nodes ck) = Inr ()"
    and keys: "dom (bt_get (ck_nodes ck)) \<subseteq> dom (bt_get (c_nodes c))" by blast
  note c = coord_inv_new [OF new]
  note states = resumed_states [OF new wf r h]
  from r obtain st where c1: "c1 = c\<lparr>c_states := st\<rparr>" "bt_wf (c_states c) \<Longrightarrow> bt_wf st"
    by (auto simp: restores_def)
  have known: "dom (bt_get (ck_nodes ck)) \<subseteq> dom (bt_get (c_states c))"
    using keys coord_tablesD(4) [of c] c by (simp add: coord_inv_def)
  have "bt_get st k = None \<longleftrightarrow> bt_get (c_states c) k = None" for k
  proof (cases "k \<in> fst ` set (ck_nodes ck)")
    case True
    then obtain t where t: "(k, t) \<in> set (ck_nodes ck)" by auto
    then have "bt_get st k \<noteq> None" using r c1(1) by (auto simp: restores_def)
    moreover have "k \<in> dom (bt_get (c_states c))"
      using known True by (auto simp: dom_map_of_conv_image_fst)
    ultimately show ?thesis by auto
  next
    case False
    with r c1(1) show ?thesis by (auto simp: restores_def)
  qed
  then have dom: "dom (bt_get st) = dom (bt_get (c_states c))" by (simp add: dom_def)
  have "coord_inv c1"
    unfolding c1(1)
  proof (rule coord_inv_states [OF c _ dom])
    show "bt_wf st" using c1(2) c by (simp add: coord_inv_def)
    show "states_inv (c_deps c) (ds_snapshot (c_spec c)) (bt_get st)"
      using states(2) c1(1) new_fields(1) [OF new] by (auto simp: states_inv_def)
    show "{k. bt_get st k = Some Running} \<subseteq> in_state c Running"
      using states(1) c1(1) by fastforce
  qed
  then show ?thesis unfolding c' by (rule coord_inv_propagate)
qed

section \<open>Steps and reachable coordinators\<close>

inductive coord_step :: "coordinator \<Rightarrow> coordinator \<Rightarrow> bool" where
  step_batch: "coord_step c (fst (next_batch c))"
| step_record: "record_outcome c k out = Inr c' \<Longrightarrow> coord_step c c'"
| step_not_dispatched: "record_not_dispatched c k r = Inr c' \<Longrightarrow> coord_step c c'"
| step_skipped: "record_skipped_oversize c k r actual limit = Inr c' \<Longrightarrow> coord_step c c'"
| step_mark: "coord_step c (mark_pending_not_dispatched c r)"

inductive reachable :: "(json \<Rightarrow> u8 list) \<Rightarrow> coordinator \<Rightarrow> bool" for to_vec where
  reach_new: "coordinator_new to_vec spec = Some (Inr c) \<Longrightarrow> reachable to_vec c"
| reach_resume: "coordinator_resume to_vec spec ck = Some (Inr c) \<Longrightarrow> bt_wf (ck_nodes ck) \<Longrightarrow> reachable to_vec c"
| reach_step: "reachable to_vec c \<Longrightarrow> coord_step c c' \<Longrightarrow> reachable to_vec c'"

inductive_cases coord_stepE: "coord_step c c'"

lemma coord_inv_step: "coord_step c c' \<Longrightarrow> coord_inv c \<Longrightarrow> coord_inv c'"
  by (induction rule: coord_step.induct)
     (auto intro: coord_inv_next_batch coord_inv_record coord_inv_not_dispatched coord_inv_skipped coord_inv_mark)

lemma resume_Ok:
  assumes "coordinator_resume to_vec spec ck = Some (Inr c')"
  obtains c where "coordinator_new to_vec spec = Some (Inr c)" "resume_from c ck = Inr c'"
  using assms by (auto simp: coordinator_resume_def and_then_eq_Inr)

lemma reachable_inv: "reachable to_vec c \<Longrightarrow> coord_inv c"
proof (induction rule: reachable.induct)
  case (reach_resume spec ck c)
  from resume_Ok [OF this(1)] obtain c0 where "coordinator_new to_vec spec = Some (Inr c0)"
    "resume_from c0 ck = Inr c" .
  with reach_resume(2) show ?case by (simp add: coord_inv_resume [of to_vec spec c0 ck])
next
  case (reach_step c c')
  then show ?case by (simp add: coord_inv_step [of c])
qed (rule coord_inv_new)

lemma reachable_node_inv:
  "reachable to_vec c \<Longrightarrow> bt_get (c_states c) k = Some s \<Longrightarrow>
   node_inv (c_deps c) (ds_snapshot (c_spec c)) (bt_get (c_states c)) k s"
  using reachable_inv [of to_vec c] by (auto simp: coord_inv_def states_inv_def)

lemma step_fields:
  assumes "coord_step c c'"
  shows "c_spec c' = c_spec c" "c_nodes c' = c_nodes c" "c_deps c' = c_deps c"
    "c_run_identity c' = c_run_identity c"
  using assms
  by (cases; auto simp: next_batch_def record_outcome_def record_not_dispatched_def
      record_skipped_oversize_def mark_pending_not_dispatched_def Let_def result_simps split: if_splits)+

lemma reachable_identity:
  "reachable to_vec c \<Longrightarrow> c_run_identity c = identity_for to_vec (c_spec c)"
proof (induction rule: reachable.induct)
  case (reach_resume spec ck c)
  from resume_Ok [OF this(1)] obtain c0 where new: "coordinator_new to_vec spec = Some (Inr c0)"
    and "resume_from c0 ck = Inr c" .
  from resume_from_Ok [OF this(2) reach_resume(2)] obtain c1 where
    "restores c0 (ck_nodes ck) c1" "c = propagate_blocked c1" by blast
  then show ?case using new_fields [OF new] by (auto simp: restores_def)
qed (simp_all add: new_fields step_fields)

text \<open>No step changes a terminal node: only pending and running ones move.\<close>

lemma propagate_terminal:
  assumes "bt_get st k = Some s" "is_terminal_state s"
  shows "bt_get (propagate D st) k = Some s"
  using assms only_blocks_propagate [of st D] unfolding only_blocks_def
  by (metis is_terminal_state.simps(1) option.inject)

lemma step_terminal:
  assumes "coord_step c c'" "bt_get (c_states c) k = Some s" "is_terminal_state s"
  shows "bt_get (c_states c') k = Some s"
  using assms(1)
proof cases
  case step_batch
  let ?c = "propagate_blocked c"
  have p: "bt_get (c_states ?c) k = Some s" by (simp add: propagate_terminal assms)
  have "k \<notin> set (ready_nodes ?c)"
    using p assms(3) by (auto simp: ready_nodes_def set_bt_iter)
  then show ?thesis
    using p by (auto simp: step_batch next_batch_def Let_def dispatch_all_get dest: in_set_takeD)
next
  case (step_mark r)
  then show ?thesis using assms by (auto simp: mark_pending_not_dispatched_def bt_get_map_snd Let_def)
qed (use assms in \<open>auto simp: record_outcome_def record_not_dispatched_def record_skipped_oversize_def
      result_simps intro!: propagate_terminal split: if_splits\<close>)

section \<open>Progress\<close>

text \<open>Between two rounds of a work loop: blocks are propagated and nothing was refused.\<close>

definition live :: "coordinator \<Rightarrow> bool" where
  "live c \<longleftrightarrow> coord_inv c \<and> newly_blocked (c_deps c) (c_states c) = [] \<and>
     (\<forall>k s. bt_get (c_states c) k = Some s \<longrightarrow> (\<forall>r. s \<noteq> NotDispatched r))"

lemma live_inv: "live c \<Longrightarrow> coord_inv c"
  by (simp add: live_def)

lemma live_propagate: "live c \<Longrightarrow> propagate_blocked c = c"
  by (simp add: live_def propagate_blocked_def propagate_id)

lemma is_terminal_iff:
  "is_terminal c \<longleftrightarrow> (\<forall>k s. bt_get (c_states c) k = Some s \<longrightarrow> is_terminal_state s)"
  by (auto simp: is_terminal_def list_all_iff set_bt_values ran_def)

lemma live_ready:
  assumes c: "live c" and idle: "in_state c Running = {}" and unf: "\<not> is_terminal c"
  shows "ready_nodes c \<noteq> []"
proof -
  note inv = live_inv [OF c]
  have tables: "coord_tables c" "spec_wf (c_spec c)" using inv by (simp_all add: coord_inv_def)
  let ?S = "in_state c Pending"
  have dom: "dom (bt_get (c_states c)) = dom (bt_get (c_deps c))"
    using inv coord_tablesD(5) [OF tables] by (simp add: coord_inv_def)
  from unf obtain k s where s: "bt_get (c_states c) k = Some s" "\<not> is_terminal_state s"
    by (auto simp: is_terminal_iff)
  then have "k \<in> ?S" using idle by (cases s) (auto simp: in_state_def)
  moreover have "?S \<subseteq> dom (bt_get (c_deps c))" using dom by (auto simp: in_state_def)
  ultimately obtain t where t: "t \<in> ?S" "deps_of (c_deps c) t \<inter> ?S = {}"
    using acyclic_minimal [OF coord_tablesD(2,3) [OF tables]] by blast
  have "succeeded_in (bt_get (c_states c)) d" if d: "d \<in> deps_of (c_deps c) t" for d
  proof -
    have "t \<in> dom (bt_get (c_deps c))" using t(1) dom by (auto simp: in_state_def)
    then have "d \<in> dom (bt_get (c_deps c))"
      using d deps_okD(3) [OF coord_tablesD(2) [OF tables], of t] by auto
    then obtain u where u: "bt_get (c_states c) d = Some u" using dom by blast
    have "\<not> blocks_in (bt_get (c_states c)) d"
      using propagated_pending [of "c_deps c" "c_states c" t d] t(1) d c
      by (simp add: live_def propagate_id in_state_def)
    moreover have "u \<noteq> Pending" "u \<noteq> Running" "\<And>r. u \<noteq> NotDispatched r"
      using t(2) d idle c u by (auto simp: in_state_def live_def)
    ultimately show ?thesis
      using u by (cases u) (auto simp: succeeded_in_def blocks_in_def)
  qed
  then have "t \<in> set (ready_nodes c)" using t(1) ready_node [OF inv] by (simp add: in_state_def)
  then show ?thesis by auto
qed

text \<open>What a batch is: the first ready nodes, at most as many as the concurrency bound allows.\<close>

lemma next_batch_ids:
  "map d_node_id (snd (next_batch c)) =
     take (ds_max_concurrency (c_spec c) - running_count (propagate_blocked c)) (ready_nodes (propagate_blocked c))"
  by (simp add: next_batch_def Let_def dispatch_all_ids)

lemma next_batch_states:
  "bt_get (c_states (fst (next_batch c))) k =
     (if k \<in> d_node_id ` set (snd (next_batch c)) then Some Running
      else bt_get (c_states (propagate_blocked c)) k)"
proof -
  have "d_node_id ` set (snd (next_batch c)) = set (map d_node_id (snd (next_batch c)))" by simp
  also have "\<dots> = set (take (ds_max_concurrency (c_spec c) - running_count (propagate_blocked c))
      (ready_nodes (propagate_blocked c)))" unfolding next_batch_ids ..
  finally show ?thesis by (simp add: next_batch_def Let_def dispatch_all_get)
qed

lemma running_idle: "coord_inv c \<Longrightarrow> in_state c Running = {} \<Longrightarrow> running_count c = 0"
  by (simp add: running_count_card coord_inv_def)

lemma live_batch:
  assumes c: "live c" and idle: "in_state c Running = {}" and unf: "\<not> is_terminal c"
  shows "snd (next_batch c) \<noteq> []" "distinct (map d_node_id (snd (next_batch c)))"
    "live (fst (next_batch c))"
    "in_state (fst (next_batch c)) Running = d_node_id ` set (snd (next_batch c))"
proof -
  note inv = live_inv [OF c] and p = live_propagate [OF c]
  have n: "0 < ds_max_concurrency (c_spec c)" using inv by (simp add: coord_inv_def spec_wf_def)
  have ids: "map d_node_id (snd (next_batch c)) = take (ds_max_concurrency (c_spec c)) (ready_nodes c)"
    using running_idle [OF inv idle] by (simp add: next_batch_ids p)
  then show "snd (next_batch c) \<noteq> []"
    using n live_ready [OF c idle unf] by (metis list.simps(8) not_less_zero take_eq_Nil zero_less_iff_neq_zero)
  show "distinct (map d_node_id (snd (next_batch c)))"
    unfolding ids by (intro distinct_take distinct_ready inv)
  let ?f = "bt_get (c_states (fst (next_batch c)))"
  have get: "?f k = (if k \<in> d_node_id ` set (snd (next_batch c)) then Some Running else bt_get (c_states c) k)" for k
    by (simp add: next_batch_states p)
  have deps: "c_deps (fst (next_batch c)) = c_deps c" using step_fields(3) [OF step_batch] .
  have sub: "blocking (c_states (fst (next_batch c))) ds = blocking (c_states c) ds" for ds
  proof -
    have "k \<in> d_node_id ` set (snd (next_batch c)) \<Longrightarrow> bt_get (c_states c) k = Some Pending" for k
    proof -
      assume "k \<in> d_node_id ` set (snd (next_batch c))"
      then have "k \<in> set (map d_node_id (snd (next_batch c)))" by simp
      then have "k \<in> set (ready_nodes c)" unfolding ids by (rule in_set_takeD)
      then show ?thesis using ready_node [OF inv] by simp
    qed
    then show ?thesis unfolding blocking_def get by (intro filter_cong) auto
  qed
  have "newly_blocked (c_deps c) (c_states (fst (next_batch c))) = []"
  proof (rule ccontr)
    assume "newly_blocked (c_deps c) (c_states (fst (next_batch c))) \<noteq> []"
    then obtain k b where "(k, b) \<in> set (newly_blocked (c_deps c) (c_states (fst (next_batch c))))"
      by (metis list.set_intros(1) neq_Nil_conv surj_pair)
    then have "(k, b) \<in> set (newly_blocked (c_deps c) (c_states c))"
      by (auto simp: newly_blocked_iff sub get split: if_splits)
    then show False using c by (simp add: live_def)
  qed
  then show "live (fst (next_batch c))"
    using coord_inv_next_batch [OF inv] c by (auto simp: live_def deps get split: if_splits)
  show "in_state (fst (next_batch c)) Running = d_node_id ` set (snd (next_batch c))"
    using idle by (auto simp: in_state_def get split: if_splits)
qed

end
