(* ===== verification/Dag_Loop.thy ===== *)
theory Dag_Loop
  imports Dag_Run
begin

text \<open>
  The loop \<open>run_to_completion\<close>.  An executor is a parameter: a function from a dispatch to its
  outcome, \<open>None\<close> when the node's thread panics.  The locale \<open>work_loop\<close> is the contract between a
  loop and the state it drives: recording the result of a busy piece of work succeeds, frees that
  piece only and makes less remain to do.  It is interpreted on the coordinator here and on a
  coordinator with its budget in \<open>Budget_Dispatch\<close>.
\<close>

section \<open>The contract of a work loop\<close>

locale work_loop =
  fixes inv :: "'s \<Rightarrow> bool"
    and busy :: "'s \<Rightarrow> 'k set"
    and todo :: "'s \<Rightarrow> nat"
    and key :: "'r \<Rightarrow> 'k"
    and accepts :: "'s \<Rightarrow> 'r \<Rightarrow> bool"
    and recording :: "'r \<Rightarrow> 's \<Rightarrow> 'e + 's"
  assumes record_ok: "inv s \<Longrightarrow> key r \<in> busy s \<Longrightarrow> accepts s r \<Longrightarrow>
      \<exists>s'. recording r s = Inr s' \<and> inv s' \<and> busy s' = busy s - {key r}"
    and record_accepts: "recording r s = Inr s' \<Longrightarrow> accepts s r' \<Longrightarrow> accepts s' r'"
    and record_less: "recording r s = Inr s' \<Longrightarrow> todo s' < todo s"
begin

lemma record_all_le: "try_fold recording rs s = Inr s' \<Longrightarrow> todo s' + length rs \<le> todo s"
proof (induction rs arbitrary: s)
  case (Cons r rs)
  then obtain t where t: "recording r s = Inr t" "try_fold recording rs t = Inr s'"
    by (auto simp: result_simps)
  from record_less [OF t(1)] Cons.IH [OF t(2)] show ?case by simp
qed simp

lemma record_all_accepts:
  "try_fold recording rs s = Inr s' \<Longrightarrow> accepts s r \<Longrightarrow> accepts s' r"
proof (induction rs arbitrary: s)
  case (Cons r' rs)
  then obtain t where t: "recording r' s = Inr t" "try_fold recording rs t = Inr s'"
    by (auto simp: result_simps)
  from Cons.IH [OF t(2)] record_accepts [OF t(1) Cons.prems(2)] show ?case .
qed simp

lemma record_all:
  assumes "inv s" "busy s = key ` set rs" "distinct (map key rs)" "\<forall>r \<in> set rs. accepts s r"
  shows "\<exists>s'. try_fold recording rs s = Inr s' \<and> inv s' \<and> busy s' = {}"
  using assms
proof (induction rs arbitrary: s)
  case (Cons r rs)
  then obtain t where t: "recording r s = Inr t" "inv t" "busy t = busy s - {key r}"
    using record_ok [of s r] by auto
  have "busy t = key ` set rs" using t(3) Cons.prems(2,3) by auto
  moreover have "\<forall>r \<in> set rs. accepts t r" using Cons.prems(4) record_accepts [OF t(1)] by simp
  ultimately have "\<exists>s'. try_fold recording rs t = Inr s' \<and> inv s' \<and> busy s' = {}"
    using Cons.IH [OF t(2)] Cons.prems(3) by simp
  then show ?case using t(1) by simp
qed simp

end

section \<open>What remains to do\<close>

definition unfinished_nodes :: "coordinator \<Rightarrow> string set" where
  "unfinished_nodes c = {k. \<exists>s. bt_get (c_states c) k = Some s \<and> \<not> is_terminal_state s}"

definition unfinished :: "coordinator \<Rightarrow> nat" where
  "unfinished c = card (unfinished_nodes c)"

lemma finite_unfinished [simp]: "finite (unfinished_nodes c)"
  by (rule finite_subset [of _ "dom (bt_get (c_states c))"])
     (auto simp: unfinished_nodes_def finite_dom_map_of)

lemma dom_keep:
  "bt_get (c_states c) k = Some Running \<Longrightarrow>
   dom (bt_get (propagate D (bt_insert k s (c_states c)))) = dom (bt_get (c_states c))"
  by (subst only_blocks_dom [OF only_blocks_propagate]) auto

lemma step_dom: "coord_step c c' \<Longrightarrow> dom (bt_get (c_states c')) = dom (bt_get (c_states c))"
proof (induction rule: coord_step.induct)
  case (step_batch c)
  let ?c = "propagate_blocked c"
  have "dom (bt_get (c_states ?c)) = dom (bt_get (c_states c))"
    by (simp add: only_blocks_dom only_blocks_propagate)
  moreover have "d_node_id ` set (snd (next_batch c)) \<subseteq> dom (bt_get (c_states ?c))"
  proof
    fix k assume "k \<in> d_node_id ` set (snd (next_batch c))"
    then have "k \<in> set (map d_node_id (snd (next_batch c)))" by simp
    then have "k \<in> set (ready_nodes ?c)" unfolding next_batch_ids by (rule in_set_takeD)
    then show "k \<in> dom (bt_get (c_states ?c))" by (auto simp: ready_nodes_def set_bt_iter)
  qed
  moreover have "dom (bt_get (c_states (fst (next_batch c)))) =
      d_node_id ` set (snd (next_batch c)) \<union> dom (bt_get (c_states ?c))"
    by (auto simp: next_batch_states domIff split: if_splits)
  ultimately show ?case by (simp add: Un_absorb1)
next
  case (step_mark c r)
  then show ?case by (auto simp: mark_pending_not_dispatched_def Let_def bt_get_map_snd domIff)
next
  case (step_record c k out c')
  then obtain s where "bt_get (c_states c) k = Some Running" "c' = propagate_blocked (set_state k s c)"
    by (auto simp: record_outcome_def result_simps split: if_splits)
  then show ?case by (simp add: dom_keep)
next
  case (step_not_dispatched c k r c')
  then show ?case by (auto simp: record_not_dispatched_def split: if_splits)
next
  case (step_skipped c k r actual limit c')
  then obtain s where "bt_get (c_states c) k = Some Running" "c' = propagate_blocked (set_state k s c)"
    by (auto simp: record_skipped_oversize_def split: if_splits)
  then show ?case by (simp add: dom_keep)
qed

lemma step_unfinished: "coord_step c c' \<Longrightarrow> unfinished_nodes c' \<subseteq> unfinished_nodes c"
proof
  fix k assume s: "coord_step c c'" and "k \<in> unfinished_nodes c'"
  then obtain t where t: "bt_get (c_states c') k = Some t" "\<not> is_terminal_state t"
    by (auto simp: unfinished_nodes_def)
  then obtain u where u: "bt_get (c_states c) k = Some u" using step_dom [OF s] by blast
  have "\<not> is_terminal_state u" using step_terminal [OF s u] t by auto
  with u show "k \<in> unfinished_nodes c" by (auto simp: unfinished_nodes_def)
qed

lemma step_unfinished_le: "coord_step c c' \<Longrightarrow> unfinished c' \<le> unfinished c"
  by (simp add: unfinished_def card_mono step_unfinished)

lemma step_unfinished_less:
  assumes "coord_step c c'" "bt_get (c_states c) k = Some s" "\<not> is_terminal_state s"
    and "bt_get (c_states c') k = Some s'" "is_terminal_state s'"
  shows "unfinished c' < unfinished c"
proof -
  have "k \<in> unfinished_nodes c" "k \<notin> unfinished_nodes c'"
    using assms(2-5) by (auto simp: unfinished_nodes_def)
  then show ?thesis
    unfolding unfinished_def using step_unfinished [OF assms(1)] by (intro psubset_card_mono) auto
qed

lemma record_outcome_Ok:
  "record_outcome c k out = Inr c' \<longleftrightarrow> bt_get (c_states c) k = Some Running \<and>
     (\<exists>s. outcome_state c k out = Inr s \<and> c' = propagate_blocked (set_state k s c))"
  by (auto simp: record_outcome_def result_simps)

lemma is_finalized_terminal: "is_finalized s \<Longrightarrow> is_terminal_state s"
  by (cases s) auto

lemma record_unfinished:
  assumes "record_outcome c k out = Inr c'"
  shows "unfinished c' < unfinished c"
proof -
  from assms obtain s where s: "bt_get (c_states c) k = Some Running" "outcome_state c k out = Inr s"
    "c' = propagate_blocked (set_state k s c)" by (auto simp: record_outcome_Ok)
  have t: "is_terminal_state s" by (rule is_finalized_terminal [OF outcome_state_Ok(1) [OF s(2)]])
  show ?thesis
    by (rule step_unfinished_less [OF step_record [OF assms] s(1) _ _ t])
       (simp_all add: s(3) propagate_terminal t)
qed

section \<open>Recording on a live coordinator\<close>

text \<open>An outcome is acceptable when its artifacts belong to the snapshot of the run.\<close>

fun outcome_artifacts :: "node_outcome \<Rightarrow> artifact list" where
  "outcome_artifacts (OSuccess _ arts) = arts"
| "outcome_artifacts (ODomainFail _ arts) = arts"
| "outcome_artifacts _ = []"

definition acceptable :: "coordinator \<Rightarrow> node_outcome \<Rightarrow> bool" where
  "acceptable c out \<longleftrightarrow> (\<forall>a \<in> set (outcome_artifacts out). a_snapshot a = ds_snapshot (c_spec c))"

lemma acceptable_state: "acceptable c out \<Longrightarrow> \<exists>s. outcome_state c k out = Inr s"
  by (cases out) (auto simp: acceptable_def outcome_state_def foreign_artifact_def list_ex_iff)

lemma live_set_state:
  assumes "live c" "coord_inv (propagate_blocked (set_state k s c))" "\<And>r. s \<noteq> NotDispatched r"
  shows "live (propagate_blocked (set_state k s c))"
proof -
  have "bt_get (propagate (c_deps c) (bt_insert k s (c_states c))) j \<noteq> Some (NotDispatched r)" for j r
  proof
    assume "bt_get (propagate (c_deps c) (bt_insert k s (c_states c))) j = Some (NotDispatched r)"
    then have "bt_get (bt_insert k s (c_states c)) j = Some (NotDispatched r)"
      by (rule only_blocks_get [OF only_blocks_propagate]) simp
    with assms(1,3) show False by (auto simp: live_def split: if_splits)
  qed
  then show ?thesis
    using assms(2) by (auto simp: live_def propagate_fixpoint)
qed

lemma running_after:
  assumes "s \<noteq> Running"
  shows "in_state (propagate_blocked (set_state k s c)) Running = in_state c Running - {k}"
proof -
  let ?st = "bt_insert k s (c_states c)"
  have "bt_get (propagate D ?st) j = Some Running \<longleftrightarrow> bt_get ?st j = Some Running" for D j
  proof -
    have "bt_get (propagate D ?st) j = bt_get ?st j \<or> (bt_get ?st j = Some Pending \<and>
        (\<exists>b. bt_get (propagate D ?st) j = Some (DependencyBlocked b)))"
      using only_blocks_propagate [of ?st D] unfolding only_blocks_def by blast
    then show ?thesis by auto
  qed
  then show ?thesis using assms by (auto simp: in_state_def)
qed

lemma live_record:
  assumes "live c" "k \<in> in_state c Running" "acceptable c out"
  shows "\<exists>c'. record_outcome c k out = Inr c' \<and> live c' \<and> in_state c' Running = in_state c Running - {k}"
proof -
  obtain s where s: "outcome_state c k out = Inr s" using acceptable_state [OF assms(3)] by blast
  let ?c = "propagate_blocked (set_state k s c)"
  have r: "record_outcome c k out = Inr ?c"
    using assms(2) s by (simp add: record_outcome_Ok in_state_def)
  have "is_finalized s" by (rule outcome_state_Ok(1) [OF s])
  then have "s \<noteq> Running" "\<And>r. s \<noteq> NotDispatched r" by auto
  then show ?thesis
    using r live_set_state [OF assms(1) coord_inv_record [OF live_inv [OF assms(1)] r]] running_after by blast
qed

interpretation loop: work_loop live "\<lambda>c. in_state c Running" unfinished fst
    "\<lambda>c r. acceptable c (snd r)" "\<lambda>(k, out) c. record_outcome c k out"
proof (unfold_locales, goal_cases)
  case (1 c r)
  then show ?case using live_record [of c "fst r" "snd r"] by (simp add: case_prod_unfold)
next
  case (2 r c c' r')
  then have "c_spec c' = c_spec c"
    using step_fields(1) [OF step_record] by (auto simp: case_prod_unfold)
  with 2 show ?case by (simp add: acceptable_def)
next
  case (3 r c c')
  then show ?case by (auto simp: case_prod_unfold intro: record_unfinished)
qed

section \<open>Joining the threads of a batch\<close>

text \<open>
  A thread that panicked is \<open>None\<close>.  The first one becomes the error of the loop; collecting stops
  there, and a further panic, which nobody joined, is raised by the thread scope itself: that is
  the outer \<open>None\<close>.
\<close>

definition executor_panicked :: coordinator_error where
  "executor_panicked = CoordinatorError InvalidTransition ''node executor panicked''"

definition no_schedulable_work :: coordinator_error where
  "no_schedulable_work =
     CoordinatorError InvalidTransition ''DAG has unfinished nodes but no schedulable work''"

definition join_all :: "'a option list \<Rightarrow> (coordinator_error + 'a list) option" where
  "join_all rs =
     (case length (filter Option.is_none rs) of
        0 \<Rightarrow> Some (Ok (map the rs))
      | Suc 0 \<Rightarrow> Some (Err executor_panicked)
      | _ \<Rightarrow> None)"

lemma join_all_Ok: "join_all rs = Some (Inr xs) \<longleftrightarrow> rs = map Some xs"
proof
  assume "join_all rs = Some (Inr xs)"
  then have "length (filter Option.is_none rs) = 0" "xs = map the rs"
    by (auto simp: join_all_def split: nat.splits)
  then show "rs = map Some xs"
    by (auto simp: filter_empty_conv Option.is_none_def intro!: map_idI [symmetric])
qed (auto simp: join_all_def filter_empty_conv o_def)

type_synonym executor = "dispatch \<Rightarrow> node_outcome option"

definition execute_batch ::
    "executor \<Rightarrow> dispatch list \<Rightarrow> (coordinator_error + (string \<times> node_outcome) list) option" where
  "execute_batch exec batch = join_all (map (\<lambda>d. map_option (Pair (d_node_id d)) (exec d)) batch)"

lemma execute_batch_Ok:
  assumes "execute_batch exec batch = Some (Inr rs)"
  shows "map fst rs = map d_node_id batch" "\<forall>r \<in> set rs. \<exists>d \<in> set batch. exec d = Some (snd r)"
    "map (\<lambda>d. (d_node_id d, exec d)) batch = map (\<lambda>r. (fst r, Some (snd r))) rs"
proof -
  have eq: "map (\<lambda>d. map_option (Pair (d_node_id d)) (exec d)) batch = map Some rs"
    using assms by (simp add: execute_batch_def join_all_Ok)
  then show "map fst rs = map d_node_id batch"
    by (induction batch arbitrary: rs) (auto simp: Cons_eq_map_conv)
  show "map (\<lambda>d. (d_node_id d, exec d)) batch = map (\<lambda>r. (fst r, Some (snd r))) rs"
    using eq by (induction batch arbitrary: rs) (auto simp: Cons_eq_map_conv)
  show "\<forall>r \<in> set rs. \<exists>d \<in> set batch. exec d = Some (snd r)"
  proof
    fix r assume "r \<in> set rs"
    then have "Some r \<in> set (map (\<lambda>d. map_option (Pair (d_node_id d)) (exec d)) batch)"
      unfolding eq by simp
    then show "\<exists>d \<in> set batch. exec d = Some (snd r)" by (force simp: map_option_case split: option.splits)
  qed
qed

lemma execute_batch_total:
  assumes "\<forall>d \<in> set batch. exec d \<noteq> None"
  shows "\<exists>rs. execute_batch exec batch = Some (Inr rs)"
proof -
  have "map (\<lambda>d. map_option (Pair (d_node_id d)) (exec d)) batch =
      map Some (map (\<lambda>d. (d_node_id d, the (exec d))) batch)"
    using assms by auto
  then show ?thesis unfolding execute_batch_def by (metis join_all_Ok)
qed

section \<open>The loop\<close>

abbreviation record_all :: "(string \<times> node_outcome) list \<Rightarrow> coordinator \<Rightarrow> coordinator_error + coordinator" where
  "record_all \<equiv> try_fold (\<lambda>(k, out) c. record_outcome c k out)"

function run_to_completion :: "executor \<Rightarrow> coordinator \<Rightarrow> (coordinator_error + manifest) option" where
  "run_to_completion exec c =
     (if is_terminal c then Some (Ok (run_manifest c))
      else let (c1, batch) = next_batch c in
        if batch = [] then Some (Err no_schedulable_work)
        else case execute_batch exec batch of
          None \<Rightarrow> None
        | Some (Inl e) \<Rightarrow> Some (Err e)
        | Some (Inr results) \<Rightarrow>
            (case record_all (sort_key fst results) c1 of
               Inl e \<Rightarrow> Some (Err e)
             | Inr c2 \<Rightarrow> run_to_completion exec c2))"
  by pat_completeness auto
termination
proof (relation "measure (\<lambda>(exec, c). unfinished c)", goal_cases)
  case (2 exec c x c1 batch rr results c2)
  then have rs: "map fst results = map d_node_id batch" by (intro execute_batch_Ok) simp
  have "unfinished c2 + length (sort_key fst results) \<le> unfinished c1"
    by (rule loop.record_all_le) (rule 2)
  moreover have "length results = length batch" using arg_cong [OF rs, of length] by simp
  moreover have "unfinished c1 \<le> unfinished c"
    using step_unfinished_le [OF step_batch, of c] 2(2,3) by (metis fst_conv)
  ultimately show ?case using 2(4) by (cases batch) auto
qed simp

declare run_to_completion.simps [simp del]

end
