(* ===== verification/Dag_Results.thy ===== *)
theory Dag_Results
  imports Dag_Loop
begin

text \<open>
  What \<open>run_to_completion\<close> computes.  The states it ends in solve one equation per node: a node
  whose dependencies all succeeded has the outcome of the executor on the dispatch built from
  their artifacts, and any other node is blocked.  The dependencies being well founded, the
  equations have one solution, so the result of a run does not depend on how it was scheduled.
\<close>

section \<open>The dispatch of a node\<close>

definition dispatch_for :: "coordinator \<Rightarrow> string \<Rightarrow> dispatch" where
  "dispatch_for c k = \<lparr>d_node_id = k, d_capability = ns_capability (the (bt_get (c_nodes c) k)),
     d_request_identity = ns_request_identity (the (bt_get (c_nodes c) k)), d_inputs = inputs_of c k\<rparr>"

definition deps_done :: "coordinator \<Rightarrow> string \<Rightarrow> bool" where
  "deps_done c k \<longleftrightarrow> (\<forall>d \<in> deps_of (c_deps c) k. succeeded_in (bt_get (c_states c)) d)"

lemma inputs_of_cong:
  assumes "c_deps c' = c_deps c" "\<And>d. d \<in> deps_of (c_deps c) k \<Longrightarrow> bt_get (c_states c') d = bt_get (c_states c) d"
  shows "inputs_of c' k = inputs_of c k"
  using assms by (simp add: inputs_of_def deps_list_def cong: map_cong)

lemma dispatch_for_cong:
  assumes "c_deps c' = c_deps c" "c_nodes c' = c_nodes c"
    and "\<And>d. d \<in> deps_of (c_deps c) k \<Longrightarrow> bt_get (c_states c') d = bt_get (c_states c) d"
  shows "dispatch_for c' k = dispatch_for c k"
  using inputs_of_cong [OF assms(1,3)] assms(2) by (simp add: dispatch_for_def)

text \<open>Once the dependencies have succeeded they stay as they are, and so does the dispatch.\<close>

lemma deps_done_stable:
  assumes "coord_step c c'" "deps_done c k"
  shows "deps_done c' k" "dispatch_for c' k = dispatch_for c k"
proof -
  note f = step_fields [OF assms(1)]
  have eq: "bt_get (c_states c') d = bt_get (c_states c) d" if "d \<in> deps_of (c_deps c) k" for d
  proof -
    from that assms(2) obtain s where "bt_get (c_states c) d = Some s" "is_succeeded s"
      by (auto simp: deps_done_def succeeded_in_def)
    then show ?thesis using step_terminal [OF assms(1), of d s] by (cases s) auto
  qed
  with assms(2) show "deps_done c' k" by (simp add: deps_done_def f succeeded_in_def)
  show "dispatch_for c' k = dispatch_for c k" by (rule dispatch_for_cong [OF f(3,2) eq])
qed

lemma dispatch_all_for:
  assumes "\<forall>k \<in> set ks. bt_get (c_states c) k = Some Pending \<and> deps_done c k" "distinct ks"
  shows "snd (dispatch_all c ks) = map (dispatch_for c) ks"
  using assms
proof (induction ks arbitrary: c)
  case (Cons k ks)
  let ?c = "set_state k Running c"
  have k: "bt_get (c_states c) k = Some Pending" using Cons.prems(1) by simp
  have keep: "bt_get (c_states ?c) d = bt_get (c_states c) d" if "succeeded_in (bt_get (c_states c)) d" for d
    using that k by (auto simp: succeeded_in_def)
  have others: "deps_done ?c j \<and> dispatch_for ?c j = dispatch_for c j" if "j \<in> set ks" for j
  proof -
    have dn: "deps_done c j" using Cons.prems(1) that by simp
    from dn have "deps_done ?c j"
      using unfinished_upd(1) [of "bt_get (c_states c)" k Pending _ Running] k
      by (simp add: deps_done_def del: fun_upd_apply)
    moreover have "dispatch_for ?c j = dispatch_for c j"
      by (rule dispatch_for_cong) (use dn keep in \<open>simp_all add: deps_done_def del: set_state_fields(5)\<close>)
    ultimately show ?thesis ..
  qed
  have "snd (dispatch_all ?c ks) = map (dispatch_for ?c) ks"
    by (rule Cons.IH) (use Cons.prems others in auto)
  with others show ?case by (simp add: dispatch_for_def)
qed simp

lemma ready_done: "coord_inv c \<Longrightarrow> k \<in> set (ready_nodes c) \<Longrightarrow>
    bt_get (c_states c) k = Some Pending \<and> deps_done c k"
  by (simp add: ready_node deps_done_def)

lemma batch_dispatches:
  assumes "coord_inv c" "d \<in> set (snd (next_batch c))"
  shows "d = dispatch_for (fst (next_batch c)) (d_node_id d)" "deps_done (fst (next_batch c)) (d_node_id d)"
proof -
  let ?c = "propagate_blocked c"
  let ?ks = "take (ds_max_concurrency (c_spec c) - running_count ?c) (ready_nodes ?c)"
  note inv = coord_inv_propagate [OF assms(1)]
  have ks: "\<forall>k \<in> set ?ks. bt_get (c_states ?c) k = Some Pending \<and> deps_done ?c k"
    using ready_done [OF inv] by (blast dest: in_set_takeD)
  have batch: "next_batch c = dispatch_all ?c ?ks \<or> snd (next_batch c) = []"
    by (simp add: next_batch_def Let_def)
  then have n: "next_batch c = dispatch_all ?c ?ks" using assms(2) by auto
  then have d: "d \<in> dispatch_for ?c ` set ?ks"
    using assms(2) dispatch_all_for [OF ks distinct_take [OF distinct_ready [OF inv]]] by simp
  then have k: "d_node_id d \<in> set ?ks" "d = dispatch_for ?c (d_node_id d)"
    by (auto simp: dispatch_for_def)
  have keep: "bt_get (c_states (fst (next_batch c))) j = bt_get (c_states ?c) j"
    if "succeeded_in (bt_get (c_states ?c)) j" for j
    using that ks unfolding n dispatch_all_get by (auto simp: succeeded_in_def simp del: propagate_blocked_fields(5))
  have dn: "deps_done ?c (d_node_id d)" using ks k(1) by blast
  have "dispatch_for (fst (next_batch c)) (d_node_id d) = dispatch_for ?c (d_node_id d)"
    by (rule dispatch_for_cong)
       (use dn keep in \<open>simp_all add: deps_done_def step_fields [OF step_batch] del: propagate_blocked_fields(5)\<close>)
  with k(2) show "d = dispatch_for (fst (next_batch c)) (d_node_id d)" by simp
  show "deps_done (fst (next_batch c)) (d_node_id d)"
    using dn keep by (simp add: deps_done_def succeeded_in_def step_fields [OF step_batch] del: propagate_blocked_fields(5))
qed

section \<open>The equations of the nodes\<close>

definition solved :: "executor \<Rightarrow> coordinator \<Rightarrow> bool" where
  "solved exec c \<longleftrightarrow>
     (\<forall>k s. bt_get (c_states c) k = Some s \<longrightarrow> is_finalized s \<longrightarrow>
        (\<exists>out. exec (dispatch_for c k) = Some out \<and> outcome_state c k out = Inr s))"

lemma outcome_state_spec: "c_spec c' = c_spec c \<Longrightarrow> outcome_state c' k out = outcome_state c k out"
  by (simp add: outcome_state_def foreign_artifact_def split: node_outcome.split)

lemma finalized_done:
  assumes "coord_inv c" "bt_get (c_states c) k = Some s" "is_finalized s"
  shows "deps_done c k"
proof -
  have "node_inv (c_deps c) (ds_snapshot (c_spec c)) (bt_get (c_states c)) k s"
    using assms(1,2) by (simp add: coord_inv_def states_inv_def)
  then show ?thesis using assms(3) by (cases s) (auto simp: node_inv_def deps_done_def)
qed

lemma solved_step:
  assumes inv: "coord_inv c" and sol: "solved exec c" and step: "coord_step c c'"
    and new: "\<And>k s. bt_get (c_states c') k = Some s \<Longrightarrow> is_finalized s \<Longrightarrow>
       bt_get (c_states c) k = Some s \<or>
       (deps_done c k \<and> (\<exists>out. exec (dispatch_for c k) = Some out \<and> outcome_state c k out = Inr s))"
  shows "solved exec c'"
  unfolding solved_def
proof (intro allI impI)
  fix k s assume s: "bt_get (c_states c') k = Some s" "is_finalized s"
  note spec = step_fields(1) [OF step]
  have "deps_done c k \<and> (\<exists>out. exec (dispatch_for c k) = Some out \<and> outcome_state c k out = Inr s)"
    using new [OF s] sol s(2) finalized_done [OF inv] by (auto simp: solved_def)
  then show "\<exists>out. exec (dispatch_for c' k) = Some out \<and> outcome_state c' k out = Inr s"
    using deps_done_stable(2) [OF step] outcome_state_spec [OF spec] by auto
qed

lemma propagate_finalized:
  "bt_get (propagate D st) k = Some s \<Longrightarrow> is_finalized s \<Longrightarrow> bt_get st k = Some s"
  by (rule only_blocks_get [OF only_blocks_propagate]) auto

lemma solved_record:
  assumes "coord_inv c" "solved exec c" "deps_done c k" "exec (dispatch_for c k) = Some out"
    and r: "record_outcome c k out = Inr c'"
  shows "solved exec c'"
proof (rule solved_step [OF assms(1,2) step_record [OF r]])
  fix j s assume j: "bt_get (c_states c') j = Some s" "is_finalized s"
  from r obtain t where t: "outcome_state c k out = Inr t" "c' = propagate_blocked (set_state k t c)"
    by (auto simp: record_outcome_Ok)
  have "bt_get (bt_insert k t (c_states c)) j = Some s"
    by (rule propagate_finalized [of "c_deps c"]) (use j t(2) in simp_all)
  then show "bt_get (c_states c) j = Some s \<or>
      (deps_done c j \<and> (\<exists>out. exec (dispatch_for c j) = Some out \<and> outcome_state c j out = Inr s))"
    using assms(3,4) t(1) by (auto split: if_splits)
qed

lemma solved_batch: "coord_inv c \<Longrightarrow> solved exec c \<Longrightarrow> solved exec (fst (next_batch c))"
proof (rule solved_step [OF _ _ step_batch], assumption, assumption)
  fix k s assume k: "bt_get (c_states (fst (next_batch c))) k = Some s" "is_finalized s"
  have "bt_get (propagate (c_deps c) (c_states c)) k = Some s"
    using k by (auto simp: next_batch_states split: if_splits)
  then have "bt_get (c_states c) k = Some s" using k(2) by (rule propagate_finalized)
  then show "bt_get (c_states c) k = Some s \<or>
      (deps_done c k \<and> (\<exists>out. exec (dispatch_for c k) = Some out \<and> outcome_state c k out = Inr s))" ..
qed

lemma solved_records:
  assumes "coord_inv c" "solved exec c" "record_all rs c = Inr c'"
    and "\<forall>(k, out) \<in> set rs. deps_done c k \<and> exec (dispatch_for c k) = Some out"
  shows "solved exec c'"
  using assms
proof (induction rs arbitrary: c)
  case (Cons r rs)
  obtain k out where r: "r = (k, out)" by (cases r)
  from Cons.prems(3) obtain c1 where c1: "record_outcome c k out = Inr c1" "record_all rs c1 = Inr c'"
    by (auto simp: r result_simps)
  note step = step_record [OF c1(1)]
  show ?case
  proof (rule Cons.IH [OF _ _ c1(2)])
    show "coord_inv c1" by (rule coord_inv_record [OF Cons.prems(1) c1(1)])
    show "solved exec c1"
      by (rule solved_record [OF Cons.prems(1,2) _ _ c1(1)]) (use Cons.prems(4) r in auto)
    show "\<forall>(k, out) \<in> set rs. deps_done c1 k \<and> exec (dispatch_for c1 k) = Some out"
      using Cons.prems(4) deps_done_stable [OF step] by auto
  qed
qed simp

text \<open>Nothing was refused for its size: every terminal node is finished or blocked.\<close>

definition none_skipped :: "coordinator \<Rightarrow> bool" where
  "none_skipped c \<longleftrightarrow> (\<forall>k r a l. bt_get (c_states c) k \<noteq> Some (SkippedOversize r a l))"

lemma propagate_skipped:
  "bt_get (propagate D st) k = Some (SkippedOversize r a l) \<Longrightarrow> bt_get st k = Some (SkippedOversize r a l)"
  by (rule only_blocks_get [OF only_blocks_propagate]) auto

lemma none_skipped_batch: "none_skipped c \<Longrightarrow> none_skipped (fst (next_batch c))"
  by (auto simp: none_skipped_def next_batch_states dest: propagate_skipped split: if_splits)

lemma none_skipped_record:
  assumes "none_skipped c" "record_outcome c k out = Inr c'"
  shows "none_skipped c'"
  unfolding none_skipped_def
proof (intro allI notI)
  fix j r a l assume j: "bt_get (c_states c') j = Some (SkippedOversize r a l)"
  from assms(2) obtain t where t: "outcome_state c k out = Inr t" "c' = propagate_blocked (set_state k t c)"
    by (auto simp: record_outcome_Ok)
  have "bt_get (bt_insert k t (c_states c)) j = Some (SkippedOversize r a l)"
    by (rule propagate_skipped [of "c_deps c"]) (use j t(2) in simp)
  moreover have "is_finalized t" by (rule outcome_state_Ok(1) [OF t(1)])
  ultimately show False using assms(1) by (auto simp: none_skipped_def split: if_splits)
qed

lemma none_skipped_records: "record_all rs c = Inr c' \<Longrightarrow> none_skipped c \<Longrightarrow> none_skipped c'"
proof (induction rs arbitrary: c)
  case (Cons r rs)
  then show ?case by (cases r) (auto simp: result_simps intro: none_skipped_record)
qed simp

section \<open>The loop solves the equations\<close>

text \<open>An executor that never panics and returns artifacts of the snapshot of the run only.\<close>

definition well_behaved :: "executor \<Rightarrow> string \<Rightarrow> bool" where
  "well_behaved exec snap \<longleftrightarrow>
     (\<forall>d. \<exists>out. exec d = Some out \<and> (\<forall>a \<in> set (outcome_artifacts out). a_snapshot a = snap))"

lemma record_all_steps: "record_all rs c = Inr c' \<Longrightarrow> coord_step\<^sup>*\<^sup>* c c'"
proof (induction rs arbitrary: c)
  case (Cons r rs)
  obtain k out where r: "r = (k, out)" by (cases r)
  from Cons.prems obtain c1 where "record_outcome c k out = Inr c1" "record_all rs c1 = Inr c'"
    by (auto simp: r result_simps)
  then show ?case using Cons.IH step_record by (metis converse_rtranclp_into_rtranclp)
qed simp

lemma steps_fields:
  assumes "coord_step\<^sup>*\<^sup>* c c'"
  shows "c_spec c' = c_spec c" "c_nodes c' = c_nodes c" "c_deps c' = c_deps c"
    "c_run_identity c' = c_run_identity c"
  using assms by (induction rule: rtranclp_induct) (auto simp: step_fields)

lemma reachable_steps: "coord_step\<^sup>*\<^sup>* c c' \<Longrightarrow> reachable to_vec c \<Longrightarrow> reachable to_vec c'"
  by (induction rule: rtranclp_induct) (auto intro: reach_step)

definition idle :: "coordinator \<Rightarrow> bool" where
  "idle c \<longleftrightarrow> live c \<and> in_state c Running = {}"

lemma run_round:
  assumes c: "idle c" and unf: "\<not> is_terminal c" and wb: "well_behaved exec (ds_snapshot (c_spec c))"
  shows "\<exists>rs c2. execute_batch exec (snd (next_batch c)) = Some (Inr rs) \<and>
    record_all (sort_key fst rs) (fst (next_batch c)) = Inr c2 \<and> idle c2 \<and>
    (solved exec c \<longrightarrow> solved exec c2) \<and> (none_skipped c \<longrightarrow> none_skipped c2) \<and> coord_step\<^sup>*\<^sup>* c c2"
proof -
  let ?c1 = "fst (next_batch c)" and ?b = "snd (next_batch c)"
  have live: "live c" and none: "in_state c Running = {}" using c by (simp_all add: idle_def)
  note b = live_batch [OF live none unf] and step = step_batch [of c]
  obtain rs where rs: "execute_batch exec ?b = Some (Inr rs)"
    using execute_batch_total [of ?b exec] wb unfolding well_behaved_def by (metis option.distinct(1))
  note ex = execute_batch_Ok [OF rs]
  let ?rs = "sort_key fst rs"
  have keys: "fst ` set ?rs = d_node_id ` set ?b"
    using arg_cong [OF ex(1), of set] by simp
  have "mset (map fst ?rs) = mset (map fst rs)" by simp
  then have dist: "distinct (map fst ?rs)"
    using b(2) unfolding ex(1) [symmetric] by (metis mset_eq_imp_distinct_iff)
  have acc: "\<forall>r \<in> set ?rs. acceptable ?c1 (snd r)"
  proof
    fix r assume "r \<in> set ?rs"
    then obtain d where "exec d = Some (snd r)" using ex(2) by auto
    with wb show "acceptable ?c1 (snd r)"
      unfolding well_behaved_def acceptable_def step_fields(1) [OF step] by (metis option.inject)
  qed
  obtain c2 where c2: "record_all ?rs ?c1 = Inr c2" "live c2" "in_state c2 Running = {}"
    using loop.record_all [OF b(3) _ dist acc] b(4) keys by auto
  have todo: "\<forall>(k, out) \<in> set ?rs. deps_done ?c1 k \<and> exec (dispatch_for ?c1 k) = Some out"
  proof clarify
    fix k out assume r: "(k, out) \<in> set ?rs"
    have "(k, Some out) \<in> set (map (\<lambda>r. (fst r, Some (snd r))) rs)"
      using r by force
    then have "(k, Some out) \<in> set (map (\<lambda>d. (d_node_id d, exec d)) ?b)" unfolding ex(3) .
    then obtain d where d: "d \<in> set ?b" "d_node_id d = k" "exec d = Some out" by auto
    then show "deps_done ?c1 k \<and> exec (dispatch_for ?c1 k) = Some out"
      using batch_dispatches [OF live_inv [OF live] d(1)] by simp
  qed
  have "solved exec c \<longrightarrow> solved exec c2"
    using solved_records [OF coord_inv_next_batch [OF live_inv [OF live]] _ c2(1) todo]
      solved_batch [OF live_inv [OF live]] by blast
  moreover have "coord_step\<^sup>*\<^sup>* c c2"
    by (rule converse_rtranclp_into_rtranclp [OF step record_all_steps [OF c2(1)]])
  ultimately show ?thesis
    using rs c2 none_skipped_records [OF c2(1)] none_skipped_batch [of c] by (auto simp: idle_def)
qed

lemma run_solves:
  assumes "idle c" "well_behaved exec (ds_snapshot (c_spec c))"
  shows "\<exists>c'. run_to_completion exec c = Some (Ok (run_manifest c')) \<and> is_terminal c' \<and> idle c' \<and>
    (solved exec c \<longrightarrow> solved exec c') \<and> (none_skipped c \<longrightarrow> none_skipped c') \<and> coord_step\<^sup>*\<^sup>* c c'"
  using assms
proof (induction "unfinished c" arbitrary: c rule: less_induct)
  case less
  show ?case
  proof (cases "is_terminal c")
    case True
    then have "run_to_completion exec c = Some (Ok (run_manifest c))"
      by (simp add: run_to_completion.simps [of exec c])
    with True less.prems show ?thesis by blast
  next
    case False
    from run_round [OF less.prems(1) False less.prems(2)] obtain rs c2 where
      rs: "execute_batch exec (snd (next_batch c)) = Some (Inr rs)"
      and c2: "record_all (sort_key fst rs) (fst (next_batch c)) = Inr c2"
      "idle c2" "coord_step\<^sup>*\<^sup>* c c2" "solved exec c \<longrightarrow> solved exec c2"
      "none_skipped c \<longrightarrow> none_skipped c2" by blast
    have ne: "snd (next_batch c) \<noteq> []"
      using live_batch(1) False less.prems(1) by (simp add: idle_def)
    have run: "run_to_completion exec c = run_to_completion exec c2"
      using False ne rs c2(1) by (simp add: run_to_completion.simps [of exec c] case_prod_unfold Let_def)
    have "length (sort_key fst rs) = length (snd (next_batch c))"
      using arg_cong [OF execute_batch_Ok(1) [OF rs], of length] by simp
    then have "unfinished c2 < unfinished c"
      using loop.record_all_le [OF c2(1)] step_unfinished_le [OF step_batch, of c] ne
      by (cases "snd (next_batch c)") auto
    with less.hyps [OF this c2(2)] less.prems(2) steps_fields(1) [OF c2(3)]
    obtain c' where "run_to_completion exec c2 = Some (Ok (run_manifest c'))" "is_terminal c'" "idle c'"
      "solved exec c2 \<longrightarrow> solved exec c'" "none_skipped c2 \<longrightarrow> none_skipped c'" "coord_step\<^sup>*\<^sup>* c2 c'"
      by auto
    then show ?thesis using run c2(3-5) rtranclp_trans [of coord_step c c2 c'] by auto
  qed
qed

section \<open>One solution\<close>

text \<open>The same result up to the list of blocking dependencies, which depends on the moment.\<close>

fun same_result :: "node_state \<Rightarrow> node_state \<Rightarrow> bool" where
  "same_result (DependencyBlocked _) (DependencyBlocked _) = True"
| "same_result s t = (s = t)"

lemma same_result_succeeded: "same_result s t \<Longrightarrow> is_succeeded s \<Longrightarrow> s = t"
  by (cases s; cases t) auto

lemma same_result_blocked: "same_result s t \<Longrightarrow> is_succeeded s = is_succeeded t"
  by (cases s; cases t) auto

lemma succeeded_not_blocking: "is_succeeded s \<Longrightarrow> \<not> blocks_dependents s"
  by (cases s) auto

lemma finished_cases:
  assumes "idle c" "is_terminal c" "none_skipped c" "bt_get (c_states c) k = Some s"
  shows "(deps_done c k \<and> is_finalized s) \<or> (\<not> deps_done c k \<and> (\<exists>bs. s = DependencyBlocked bs))"
proof -
  have inv: "coord_inv c" using assms(1) by (simp add: idle_def live_inv)
  have nd: "s \<noteq> NotDispatched r" for r using assms(1,4) unfolding idle_def live_def by blast
  have skip: "s \<noteq> SkippedOversize r a l" for r a l using assms(3,4) unfolding none_skipped_def by blast
  have run: "is_terminal_state s" using assms(2,4) by (simp add: is_terminal_iff)
  then have "is_finalized s \<or> (\<exists>bs. s = DependencyBlocked bs)"
    using nd skip run by (cases s) auto
  then show ?thesis
  proof (elim disjE exE)
    fix bs assume bs: "s = DependencyBlocked bs"
    have "node_inv (c_deps c) (ds_snapshot (c_spec c)) (bt_get (c_states c)) k (DependencyBlocked bs)"
      using inv assms(4) bs by (simp add: coord_inv_def states_inv_def)
    then obtain d where d: "d \<in> deps_of (c_deps c) k" "blocks_in (bt_get (c_states c)) d"
      unfolding node_inv_def by (metis last_in_set)
    then have "\<not> succeeded_in (bt_get (c_states c)) d"
      by (auto simp: blocks_in_def succeeded_in_def dest: succeeded_not_blocking)
    with d(1) bs show ?thesis by (auto simp: deps_done_def)
  qed (use finalized_done [OF inv assms(4)] in blast)
qed

lemma unique_solution:
  assumes c: "idle c" "is_terminal c" "none_skipped c" "solved exec c"
    and c': "idle c'" "is_terminal c'" "none_skipped c'" "solved exec c'"
    and same: "c_nodes c' = c_nodes c" "c_deps c' = c_deps c" "ds_snapshot (c_spec c') = ds_snapshot (c_spec c)"
    and k: "bt_get (c_states c) k = Some s" "bt_get (c_states c') k = Some s'"
  shows "same_result s s'"
proof -
  have inv: "coord_inv c" "coord_inv c'" using c(1) c'(1) by (simp_all add: idle_def live_inv)
  then have tables: "coord_tables c" "spec_wf (c_spec c)" "coord_tables c'" "spec_wf (c_spec c')"
    by (simp_all add: coord_inv_def)
  have dom: "dom (bt_get (c_states c)) = dom (bt_get (c_deps c))" "dom (bt_get (c_states c')) = dom (bt_get (c_deps c))"
    using inv coord_tablesD(5) [OF tables(1,2)] coord_tablesD(5) [OF tables(3,4)] same(2)
    by (simp_all add: coord_inv_def)
  have "wf (depends (c_deps c))"
    using coord_tablesD(2,3) [OF tables(1,2)] finite_depends finite_acyclic_wf by blast
  then show ?thesis using k
  proof (induction k arbitrary: s s' rule: wf_induct_rule)
    case (less k)
    have dep: "\<exists>u u'. bt_get (c_states c) d = Some u \<and> bt_get (c_states c') d = Some u' \<and> same_result u u'"
      if "d \<in> deps_of (c_deps c) k" for d
    proof -
      have "k \<in> dom (bt_get (c_deps c))" using less.prems(1) dom(1) by blast
      then obtain vs where vs: "bt_get (c_deps c) k = Some vs" by blast
      then have "d \<in> dom (bt_get (c_deps c))"
        using deps_okD(3) [OF coord_tablesD(2) [OF tables(1,2)] vs] that by auto
      then obtain u u' where u: "bt_get (c_states c) d = Some u" "bt_get (c_states c') d = Some u'"
        using dom by blast
      have "(d, k) \<in> depends (c_deps c)" using vs that by (auto simp: depends_def)
      from less.IH [OF this u] u show ?thesis by blast
    qed
    have iff: "succeeded_in (bt_get (c_states c)) d \<longleftrightarrow> succeeded_in (bt_get (c_states c')) d"
      if "d \<in> deps_of (c_deps c) k" for d
      using dep [OF that] same_result_blocked by (auto simp: succeeded_in_def)
    then have done_iff: "deps_done c k \<longleftrightarrow> deps_done c' k" by (auto simp: deps_done_def same(2))
    note f = finished_cases [OF c(1-3) less.prems(1)] and f' = finished_cases [OF c'(1-3) less.prems(2)]
    show ?case
    proof (cases "deps_done c k")
      case True
      have eq: "bt_get (c_states c') d = bt_get (c_states c) d" if d: "d \<in> deps_of (c_deps c) k" for d
      proof -
        obtain u u' where u: "bt_get (c_states c) d = Some u" "bt_get (c_states c') d = Some u'"
          "same_result u u'" using dep [OF d] by blast
        then have "is_succeeded u" using True d by (auto simp: deps_done_def succeeded_in_def)
        with same_result_succeeded [OF u(3)] u show ?thesis by simp
      qed
      have "dispatch_for c' k = dispatch_for c k" by (rule dispatch_for_cong [OF same(2,1) eq])
      moreover have "outcome_state c' k out = outcome_state c k out" for out
        by (simp add: outcome_state_def foreign_artifact_def same(3) split: node_outcome.split)
      ultimately have "s = s'"
        using c(4) c'(4) less.prems True done_iff f f' unfolding solved_def
        by (metis Inr_inject option.inject)
      moreover have "same_result s s" by (cases s) auto
      ultimately show ?thesis by simp
    next
      case False
      then show ?thesis using f f' done_iff by auto
    qed
  qed
qed

end
