(* ===== verification/Dag_Properties.thy ===== *)
theory Dag_Properties
  imports Dag_Results
begin

text \<open>
  The properties of the run DAG: what every reachable coordinator guarantees, what a run computes,
  and what a resumed run keeps.  The concrete coordinators at the start serve the witnesses.
\<close>

section \<open>Concrete runs\<close>

definition demo_node :: "string \<Rightarrow> node_spec" where
  "demo_node k = \<lparr>ns_id = k, ns_capability = ''scan'', ns_request_identity = ''r''\<rparr>"

definition demo_spec :: "nat \<Rightarrow> dag_spec" where
  "demo_spec n = \<lparr>ds_snapshot = replicate 64 CHR ''a'', ds_max_concurrency = n,
     ds_nodes = [demo_node ''a'', demo_node ''b''], ds_edges = [EdgeSpec ''a'' ''b'']\<rparr>"

definition demo_vec :: "json \<Rightarrow> u8 list" where
  "demo_vec j = []"

definition demo_states :: "nat \<Rightarrow> states \<Rightarrow> coordinator" where
  "demo_states n st = \<lparr>c_spec = demo_spec n, c_run_identity = identity_for demo_vec (demo_spec n),
     c_nodes = [(''a'', demo_node ''a''), (''b'', demo_node ''b'')],
     c_deps = [(''a'', []), (''b'', [''a''])], c_states = st\<rparr>"

abbreviation demo_new :: "nat \<Rightarrow> coordinator" where
  "demo_new n \<equiv> demo_states n [(''a'', Pending), (''b'', Pending)]"

lemma demo_validate:
  "validate_spec (demo_spec 3) = Some (Ok ([(''a'', demo_node ''a''), (''b'', demo_node ''b'')], [(''a'', []), (''b'', [''a''])]))"
  "validate_spec (demo_spec 2) = Some (Ok ([(''a'', demo_node ''a''), (''b'', demo_node ''b'')], [(''a'', []), (''b'', [''a''])]))"
  by code_simp+

lemma demo_new: "coordinator_new demo_vec (demo_spec 3) = Some (Inr (demo_new 3))"
  "coordinator_new demo_vec (demo_spec 2) = Some (Inr (demo_new 2))"
  by (simp_all add: coordinator_new_def demo_validate demo_states_def bt_keys_def)

lemma demo_reachable: "reachable demo_vec (demo_new 3)" "reachable demo_vec (demo_new 2)"
  by (rule reach_new, rule demo_new)+

abbreviation demo_running :: coordinator where
  "demo_running \<equiv> demo_states 2 [(''a'', Running), (''b'', Pending)]"

definition demo_blocked :: states where
  "demo_blocked = [(''a'', TimedOut ''late''), (''b'', DependencyBlocked [''a''])]"

definition demo_finished :: states where
  "demo_finished = [(''a'', Succeeded Pass []), (''b'', Running)]"

lemma demo_batch: "next_batch (demo_new 2) = (demo_running,
    [\<lparr>d_node_id = ''a'', d_capability = ''scan'', d_request_identity = ''r'', d_inputs = []\<rparr>])"
  by (simp add: next_batch_def propagate_blocked_def demo_states_def propagate.simps newly_blocked_def
      bt_iter_def bt_keys_def blocking_def demo_spec_def running_count_def bt_values_def ready_nodes_def
      dependencies_succeeded_def deps_list_def dispatch_all.simps demo_node_def inputs_of_def set_state_def Let_def)

lemma demo_diagnostic: "\<not> is_blank ''late''"
  by code_simp

lemma demo_record: "record_outcome demo_running ''a'' (OTimeout ''late'') = Inr (demo_states 2 demo_blocked)"
  by (simp add: record_outcome_def outcome_state_def propagate_blocked_def demo_states_def propagate.simps
      newly_blocked_def bt_iter_def bt_keys_def blocking_def demo_blocked_def set_state_def Let_def
      nonempty_diagnostic_def demo_diagnostic
      block_round_def)

lemma demo_success: "record_outcome demo_running ''a'' (OSuccess Pass []) =
    Inr (demo_states 2 [(''a'', Succeeded Pass []), (''b'', Pending)])"
  by (simp add: record_outcome_def outcome_state_def propagate_blocked_def demo_states_def propagate.simps
      newly_blocked_def bt_iter_def bt_keys_def blocking_def set_state_def Let_def foreign_artifact_def)

lemma demo_second: "fst (next_batch (demo_states 2 [(''a'', Succeeded Pass []), (''b'', Pending)])) =
    demo_states 2 demo_finished"
  by (simp add: next_batch_def propagate_blocked_def demo_states_def propagate.simps newly_blocked_def
      bt_iter_def bt_keys_def blocking_def demo_spec_def running_count_def bt_values_def ready_nodes_def
      dependencies_succeeded_def deps_list_def dispatch_all.simps demo_node_def inputs_of_def set_state_def Let_def
      demo_finished_def)

lemma demo_runs: "reachable demo_vec demo_running" "reachable demo_vec (demo_states 2 demo_blocked)"
  "reachable demo_vec (demo_states 2 demo_finished)"
proof -
  show r: "reachable demo_vec demo_running"
    using reach_step [OF demo_reachable(2) step_batch] by (simp add: demo_batch)
  show "reachable demo_vec (demo_states 2 demo_blocked)"
    by (rule reach_step [OF r step_record [OF demo_record]])
  show "reachable demo_vec (demo_states 2 demo_finished)"
    using reach_step [OF reach_step [OF r step_record [OF demo_success]] step_batch]
    unfolding demo_second .
qed

section \<open>Reachable coordinators\<close>

lemma node_invD:
  assumes "reachable to_vec c" "bt_get (c_states c) k = Some s"
  shows "started s \<Longrightarrow> (d, k) \<in> edge_rel (c_spec c) \<Longrightarrow> succeeded_in (bt_get (c_states c)) d"
    "s = DependencyBlocked bs \<Longrightarrow> bs \<noteq> [] \<and> (\<forall>d \<in> set bs. (d, k) \<in> edge_rel (c_spec c) \<and> blocks_in (bt_get (c_states c)) d)"
proof -
  have inv: "coord_inv c" by (rule reachable_inv [OF assms(1)])
  then have "k \<in> spec_ids (c_spec c)" using assms(2) by (auto simp: coord_inv_def)
  note edges = deps_of_edges [OF inv, of _ k] and node = reachable_node_inv [OF assms]
  show "started s \<Longrightarrow> (d, k) \<in> edge_rel (c_spec c) \<Longrightarrow> succeeded_in (bt_get (c_states c)) d"
    using node edges unfolding node_inv_def by blast
  show "s = DependencyBlocked bs \<Longrightarrow> bs \<noteq> [] \<and> (\<forall>d \<in> set bs. (d, k) \<in> edge_rel (c_spec c) \<and> blocks_in (bt_get (c_states c)) d)"
    using node edges \<open>k \<in> spec_ids (c_spec c)\<close> unfolding node_inv_def by blast
qed

text \<open>C3: in every coordinator that can be reached, by any interleaving of batches, recorded
  outcomes, refusals and resumes, a node that was dispatched (running or finished, whatever the
  outcome) has all its dependencies succeeded.\<close>

theorem dispatched_after_dependencies:
  assumes "reachable to_vec c" "bt_get (c_states c) k = Some s" "started s"
    and "(d, k) \<in> edge_rel (c_spec c)"
  shows "\<exists>v arts. bt_get (c_states c) d = Some (Succeeded v arts) \<and> v \<noteq> Fail \<and>
    (\<forall>a \<in> set arts. a_snapshot a = ds_snapshot (c_spec c))"
proof -
  obtain t where t: "bt_get (c_states c) d = Some t" "is_succeeded t"
    using node_invD(1) [OF assms] by (auto simp: succeeded_in_def)
  with reachable_node_inv [OF assms(1) t(1)] show ?thesis
    by (cases t) (auto simp: node_inv_def)
qed

lemma dispatched_after_dependencies_witness:
  "\<exists>v arts. bt_get (c_states (demo_states 2 demo_finished)) ''a'' = Some (Succeeded v arts) \<and> v \<noteq> Fail \<and>
    (\<forall>a \<in> set arts. a_snapshot a = ds_snapshot (c_spec (demo_states 2 demo_finished)))"
  by (rule dispatched_after_dependencies [OF demo_runs(3), of "''b''" Running])
     (simp_all add: demo_states_def demo_finished_def edge_rel_def demo_spec_def)

text \<open>A reachable coordinator never has more nodes running than its concurrency bound, which
  is between 1 and 256.\<close>

theorem concurrency_bound:
  assumes "reachable to_vec c"
  shows "running_count c \<le> ds_max_concurrency (c_spec c) \<and> 0 < ds_max_concurrency (c_spec c) \<and>
    ds_max_concurrency (c_spec c) \<le> 256"
  using reachable_inv [OF assms] by (simp add: coord_inv_def spec_wf_def)

lemma concurrency_bound_witness:
  "running_count demo_running \<le> ds_max_concurrency (c_spec demo_running) \<and>
   0 < ds_max_concurrency (c_spec demo_running) \<and> ds_max_concurrency (c_spec demo_running) \<le> 256"
  by (rule concurrency_bound [OF demo_runs(1)])

lemma wf_edges: "coord_inv c \<Longrightarrow> wf (edge_rel (c_spec c))"
proof -
  assume "coord_inv c"
  then have "acyclic (edge_rel (c_spec c))" by (simp add: coord_inv_def spec_wf_def)
  moreover have "edge_rel (c_spec c) = (\<lambda>e. (es_from e, es_to e)) ` set (ds_edges (c_spec c))"
    by (auto simp: edge_rel_def)
  ultimately show ?thesis by (simp add: finite_acyclic_wf)
qed

lemma blocked_root:
  assumes c: "reachable to_vec c" and k: "bt_get (c_states c) k = Some (DependencyBlocked bs)"
  shows "\<exists>r s. (r, k) \<in> (edge_rel (c_spec c))\<^sup>+ \<and> bt_get (c_states c) r = Some s \<and> blocks_dependents s \<and>
    (\<forall>bs. s \<noteq> DependencyBlocked bs)"
proof -
  have "wf (edge_rel (c_spec c))" by (rule wf_edges [OF reachable_inv [OF c]])
  then show ?thesis using k
  proof (induction k arbitrary: bs rule: wf_induct_rule)
    case (less k)
    note b = node_invD(2) [OF c less.prems refl]
    then obtain d where "d \<in> set bs" by (meson last_in_set)
    with b obtain s where d: "(d, k) \<in> edge_rel (c_spec c)" "bt_get (c_states c) d = Some s" "blocks_dependents s"
      by (auto simp: blocks_in_def)
    show ?case
    proof (cases "\<exists>bs. s = DependencyBlocked bs")
      case True
      with less.IH [OF d(1)] d show ?thesis by (meson trancl.trancl_into_trancl)
    next
      case False
      with d show ?thesis by blast
    qed
  qed
qed

text \<open>A dependency-blocked node names at least one dependency, each of them an edge of the DAG
  whose source has failed, timed out, been refused for its size or been blocked; and following
  those edges leads to a root cause, a transitive dependency that is itself not merely blocked.\<close>

theorem blocked_root_cause:
  assumes "reachable to_vec c" "bt_get (c_states c) k = Some (DependencyBlocked bs)"
  shows "bs \<noteq> [] \<and> (\<forall>d \<in> set bs. (d, k) \<in> edge_rel (c_spec c) \<and> blocks_in (bt_get (c_states c)) d) \<and>
    (\<exists>r s. (r, k) \<in> (edge_rel (c_spec c))\<^sup>+ \<and> bt_get (c_states c) r = Some s \<and> blocks_dependents s \<and>
       (\<forall>bs. s \<noteq> DependencyBlocked bs))"
  using node_invD(2) [OF assms refl] blocked_root [OF assms] by blast

lemma blocked_root_cause_witness:
  "(''a'', ''b'') \<in> edge_rel (c_spec (demo_states 2 demo_blocked)) \<and>
   (\<exists>r s. (r, ''b'') \<in> (edge_rel (c_spec (demo_states 2 demo_blocked)))\<^sup>+ \<and>
      bt_get (c_states (demo_states 2 demo_blocked)) r = Some s \<and> blocks_dependents s \<and>
      (\<forall>bs. s \<noteq> DependencyBlocked bs))"
proof -
  have "bt_get (c_states (demo_states 2 demo_blocked)) ''b'' = Some (DependencyBlocked [''a''])"
    by (simp add: demo_states_def demo_blocked_def)
  from blocked_root_cause [OF demo_runs(2) this] show ?thesis by auto
qed

text \<open>No operation of the coordinator ever changes the state of a terminal node, nor the
  specification or the run identity, and none adds or drops a node.\<close>

theorem terminal_is_final:
  assumes "coord_step c c'"
  shows "c_spec c' = c_spec c \<and> c_run_identity c' = c_run_identity c \<and>
    dom (bt_get (c_states c')) = dom (bt_get (c_states c)) \<and>
    (\<forall>k s. bt_get (c_states c) k = Some s \<longrightarrow> is_terminal_state s \<longrightarrow> bt_get (c_states c') k = Some s)"
  using step_fields [OF assms] step_dom [OF assms] step_terminal [OF assms] by blast

lemma terminal_is_final_witness:
  "bt_get (c_states (mark_pending_not_dispatched (demo_states 2 demo_blocked) ''stop'')) ''a'' = Some (TimedOut ''late'')"
  using terminal_is_final [OF step_mark [of "demo_states 2 demo_blocked" "''stop''"]]
  by (simp add: demo_states_def demo_blocked_def)

section \<open>Batches\<close>

definition artifacts_in :: "(string \<Rightarrow> node_state option) \<Rightarrow> string \<Rightarrow> artifact list" where
  "artifacts_in f d = (case f d of Some (Succeeded v arts) \<Rightarrow> arts | _ \<Rightarrow> [])"

lemma deps_list_sources:
  assumes "coord_inv c" "k \<in> spec_ids (c_spec c)"
  shows "deps_list c k = sort (sources (ds_edges (c_spec c)) k)"
proof -
  have t: "coord_tables c" "spec_wf (c_spec c)" using assms(1) by (simp_all add: coord_inv_def)
  have "k \<in> dom (bt_get (c_nodes c))" using coord_tablesD(4) [OF t] assms(2) by simp
  with t(1) show ?thesis by (simp add: deps_list_def coord_tables_def bt_get_dep_table)
qed

lemma batch_pending:
  assumes "coord_inv c" "d \<in> set (snd (next_batch c))"
  shows "bt_get (c_states c) (d_node_id d) = Some Pending"
proof -
  have "d_node_id d \<in> set (map d_node_id (snd (next_batch c)))" using assms(2) by simp
  then have "d_node_id d \<in> set (ready_nodes (propagate_blocked c))"
    unfolding next_batch_ids by (rule in_set_takeD)
  with ready_done [OF coord_inv_propagate [OF assms(1)]]
  have "bt_get (propagate (c_deps c) (c_states c)) (d_node_id d) = Some Pending" by simp
  then show ?thesis by (rule only_blocks_get [OF only_blocks_propagate]) simp
qed

lemma batch_succeeded:
  assumes "bt_get (c_states (fst (next_batch c))) j = Some (Succeeded v arts)"
  shows "bt_get (c_states c) j = Some (Succeeded v arts)"
proof -
  have "bt_get (propagate (c_deps c) (c_states c)) j = Some (Succeeded v arts)"
    using assms by (simp add: next_batch_states split: if_splits)
  then show ?thesis by (rule only_blocks_get [OF only_blocks_propagate]) simp
qed

lemma batch_inputs:
  assumes "coord_inv c" "d \<in> set (snd (next_batch c))"
  shows "d_inputs d = concat (map (artifacts_in (bt_get (c_states c))) (sort (sources (ds_edges (c_spec c)) (d_node_id d))))"
proof -
  let ?c1 = "fst (next_batch c)" and ?k = "d_node_id d"
  note f = step_fields [OF step_batch, of c]
  have k: "?k \<in> spec_ids (c_spec c)"
    using batch_pending [OF assms] assms(1) by (auto simp: coord_inv_def)
  have same: "artifacts_in (bt_get (c_states ?c1)) j = artifacts_in (bt_get (c_states c)) j"
    if "j \<in> deps_of (c_deps c) ?k" for j
  proof -
    have "succeeded_in (bt_get (c_states ?c1)) j"
      using batch_dispatches(2) [OF assms] that by (simp add: deps_done_def f)
    then obtain v arts where s: "bt_get (c_states ?c1) j = Some (Succeeded v arts)"
      by (auto simp: succeeded_in_def elim: is_succeeded.elims)
    with batch_succeeded [OF s] show ?thesis by (simp add: artifacts_in_def)
  qed
  have "d_inputs d = inputs_of ?c1 ?k"
    using arg_cong [OF batch_dispatches(1) [OF assms], of d_inputs] by (simp add: dispatch_for_def)
  also have "\<dots> = concat (map (artifacts_in (bt_get (c_states ?c1))) (deps_list c ?k))"
    by (simp add: inputs_of_def deps_list_def f artifacts_in_def [abs_def])
  also have "\<dots> = concat (map (artifacts_in (bt_get (c_states c))) (deps_list c ?k))"
    using same by (simp add: deps_list_def cong: map_cong)
  finally show ?thesis by (simp add: deps_list_sources [OF assms(1) k])
qed

text \<open>Every dispatch of a batch is for a node that was pending and is now running; it carries
  the capability and request identity the specification gives the node, and as inputs the artifacts
  of its dependencies, in the order of their ids.\<close>

theorem batch_contents:
  assumes "reachable to_vec c" "d \<in> set (snd (next_batch c))"
  shows "bt_get (c_states c) (d_node_id d) = Some Pending \<and>
    bt_get (c_states (fst (next_batch c))) (d_node_id d) = Some Running \<and>
    (\<exists>n \<in> set (ds_nodes (c_spec c)). ns_id n = d_node_id d \<and> d_capability d = ns_capability n \<and>
       d_request_identity d = ns_request_identity n) \<and>
    d_inputs d = concat (map (artifacts_in (bt_get (c_states c))) (sort (sources (ds_edges (c_spec c)) (d_node_id d))))"
proof -
  note inv = reachable_inv [OF assms(1)]
  have t: "coord_tables c" "spec_wf (c_spec c)" using inv by (simp_all add: coord_inv_def)
  note p = batch_pending [OF inv assms(2)]
  have "d_node_id d \<in> spec_ids (c_spec c)" using p inv by (auto simp: coord_inv_def)
  then obtain n where n: "n \<in> set (ds_nodes (c_spec c))" "ns_id n = d_node_id d"
    by (auto simp: spec_ids_def)
  have "c_nodes (fst (next_batch c)) = c_nodes c" by (rule step_fields(2) [OF step_batch])
  then have "d_capability d = ns_capability n" "d_request_identity d = ns_request_identity n"
    using arg_cong [OF batch_dispatches(1) [OF inv assms(2)], of d_capability]
      arg_cong [OF batch_dispatches(1) [OF inv assms(2)], of d_request_identity]
      coord_tablesD(7) [OF t n(1)] n(2) by (simp_all add: dispatch_for_def)
  moreover have "bt_get (c_states (fst (next_batch c))) (d_node_id d) = Some Running"
    using assms(2) by (simp add: next_batch_states)
  ultimately show ?thesis using p n batch_inputs [OF inv assms(2)] by blast
qed

definition demo_dispatch :: dispatch where
  "demo_dispatch = \<lparr>d_node_id = ''a'', d_capability = ''scan'', d_request_identity = ''r'', d_inputs = []\<rparr>"

lemma batch_contents_witness:
  "bt_get (c_states (demo_new 2)) (d_node_id demo_dispatch) = Some Pending \<and>
    bt_get (c_states (fst (next_batch (demo_new 2)))) (d_node_id demo_dispatch) = Some Running \<and>
    (\<exists>n \<in> set (ds_nodes (c_spec (demo_new 2))). ns_id n = d_node_id demo_dispatch \<and>
       d_capability demo_dispatch = ns_capability n \<and>
       d_request_identity demo_dispatch = ns_request_identity n) \<and>
    d_inputs demo_dispatch = concat (map (artifacts_in (bt_get (c_states (demo_new 2))))
      (sort (sources (ds_edges (c_spec (demo_new 2))) (d_node_id demo_dispatch))))"
  by (rule batch_contents [OF demo_reachable(2)]) (simp add: demo_batch demo_dispatch_def)

section \<open>Complete runs\<close>

lemma new_coordinator:
  assumes "coordinator_new to_vec spec = Some (Inr c)"
  shows "idle c" "none_skipped c" "solved exec c"
proof -
  note get = new_pending [OF assms]
  have "blocking (c_states c) ds = []" for ds
    by (auto simp: blocking_def get split: option.splits if_splits intro!: filter_False)
  then have "newly_blocked (c_deps c) (c_states c) = []"
    by (auto simp: newly_blocked_def)
  then show "idle c"
    using coord_inv_new [OF assms] by (auto simp: idle_def live_def in_state_def get split: if_splits)
  show "none_skipped c" "solved exec c"
    by (auto simp: none_skipped_def solved_def get split: if_splits)
qed

lemma deps_done_edges:
  assumes "coord_inv c" "k \<in> spec_ids (c_spec c)"
  shows "deps_done c k \<longleftrightarrow> (\<forall>d. (d, k) \<in> edge_rel (c_spec c) \<longrightarrow> succeeded_in (bt_get (c_states c)) d)"
  using deps_of_edges [OF assms(1), of _ k] assms(2) by (auto simp: deps_done_def)

lemma run_result:
  assumes new: "coordinator_new to_vec spec = Some (Inr c)" and wb: "well_behaved exec (ds_snapshot spec)"
  obtains c' where "run_to_completion exec c = Some (Ok (run_manifest c'))" "is_terminal c'" "idle c'"
    "solved exec c'" "none_skipped c'" "coord_step\<^sup>*\<^sup>* c c'" "c_spec c' = spec" "reachable to_vec c'"
proof -
  from run_solves [of c exec] new_coordinator [OF new] wb new_fields(1) [OF new]
  obtain c' where c': "run_to_completion exec c = Some (Ok (run_manifest c'))" "is_terminal c'" "idle c'"
    "solved exec c'" "none_skipped c'" "coord_step\<^sup>*\<^sup>* c c'" by auto
  have "c_spec c' = spec" using steps_fields(1) [OF c'(6)] new_fields(1) [OF new] by simp
  moreover have "reachable to_vec c'" by (rule reachable_steps [OF c'(6) reach_new [OF new]])
  ultimately show thesis using that c' by blast
qed

text \<open>C1: a run always completes.  For every admitted specification and every executor that does
  not panic and returns artifacts of the run's snapshot, the loop of the coordinator terminates
  with a manifest, never with \<open>no schedulable work\<close>; the manifest has every node, a node is finished
  exactly when all its dependencies succeeded, and every other node is dependency-blocked.\<close>

theorem run_completes:
  assumes "coordinator_new to_vec spec = Some (Inr c)" "well_behaved exec (ds_snapshot spec)"
  shows "\<exists>m. run_to_completion exec c = Some (Ok m) \<and> dom (bt_get (mf_nodes m)) = spec_ids spec \<and>
    (\<forall>k s. bt_get (mf_nodes m) k = Some s \<longrightarrow>
       (if \<forall>d. (d, k) \<in> edge_rel spec \<longrightarrow> succeeded_in (bt_get (mf_nodes m)) d
        then is_finalized s else \<exists>bs. s = DependencyBlocked bs))"
proof -
  from run_result [OF assms] obtain c' where c': "run_to_completion exec c = Some (Ok (run_manifest c'))"
    "is_terminal c'" "idle c'" "none_skipped c'" "c_spec c' = spec" by blast
  have inv: "coord_inv c'" using c'(3) by (simp add: idle_def live_inv)
  then have dom: "dom (bt_get (c_states c')) = spec_ids spec" using c'(5) by (simp add: coord_inv_def)
  have "if \<forall>d. (d, k) \<in> edge_rel spec \<longrightarrow> succeeded_in (bt_get (c_states c')) d
      then is_finalized s else \<exists>bs. s = DependencyBlocked bs" if k: "bt_get (c_states c') k = Some s" for k s
  proof -
    have "k \<in> spec_ids (c_spec c')" using k dom c'(5) by auto
    from finished_cases [OF c'(3,2,4) k] deps_done_edges [OF inv this] c'(5) show ?thesis by auto
  qed
  then show ?thesis using c'(1) dom by (auto simp: run_manifest_def)
qed

definition demo_exec :: executor where
  "demo_exec d = Some (if d_node_id d = ''b'' then OTimeout ''late'' else OSuccess Pass [])"

lemma demo_exec_well: "well_behaved demo_exec snap"
  by (simp add: well_behaved_def demo_exec_def)

lemma run_completes_witness:
  "\<exists>m. run_to_completion demo_exec (demo_new 2) = Some (Ok m) \<and>
    dom (bt_get (mf_nodes m)) = spec_ids (demo_spec 2) \<and>
    (\<forall>k s. bt_get (mf_nodes m) k = Some s \<longrightarrow>
       (if \<forall>d. (d, k) \<in> edge_rel (demo_spec 2) \<longrightarrow> succeeded_in (bt_get (mf_nodes m)) d
        then is_finalized s else \<exists>bs. s = DependencyBlocked bs))"
  by (rule run_completes [OF demo_new(2) demo_exec_well])



end
