(* ===== verification/Dag_Resume.thy ===== *)
theory Dag_Resume
  imports Dag_Properties
begin

text \<open>
  Outcomes and resumption: when a run reports success, what a resumed coordinator keeps of its
  checkpoint, and exactly which checkpoints of a coordinator it accepts back.  The last theorem
  is the reachable run whose own checkpoint is refused.
\<close>

section \<open>The outcome of a run\<close>

definition fails_run :: "node_state \<Rightarrow> bool" where
  "fails_run s = (case s of TimedOut _ \<Rightarrow> True | ProcessFailed _ _ \<Rightarrow> True | DomainFailed _ _ \<Rightarrow> True
     | Succeeded v _ \<Rightarrow> v = Unknown | _ \<Rightarrow> False)"

lemma final_outcome_Completed:
  "final_outcome c = Completed \<longleftrightarrow> (\<forall>s \<in> set (bt_values (c_states c)). is_terminal_state s \<and> \<not> fails_run s)"
proof -
  define vs where "vs = bt_values (c_states c)"
  have "(case s of TimedOut _ \<Rightarrow> True | _ \<Rightarrow> False) \<or> (case s of ProcessFailed _ _ \<Rightarrow> True | _ \<Rightarrow> False) \<or>
      (case s of DomainFailed _ _ \<Rightarrow> True | _ \<Rightarrow> False) \<or> (case s of Succeeded Unknown _ \<Rightarrow> True | _ \<Rightarrow> False)
      \<longleftrightarrow> fails_run s" for s
    by (auto simp: fails_run_def split: node_state.splits verdict.splits)
  then have "list_ex fails_run vs \<longleftrightarrow>
      list_ex (\<lambda>s. case s of TimedOut _ \<Rightarrow> True | _ \<Rightarrow> False) vs \<or>
      list_ex (\<lambda>s. case s of ProcessFailed _ _ \<Rightarrow> True | _ \<Rightarrow> False) vs \<or>
      list_ex (\<lambda>s. case s of DomainFailed _ _ \<Rightarrow> True | _ \<Rightarrow> False) vs \<or>
      list_ex (\<lambda>s. case s of Succeeded Unknown _ \<Rightarrow> True | _ \<Rightarrow> False) vs"
    unfolding list_ex_iff by blast
  then have "final_outcome c = Completed \<longleftrightarrow> \<not> list_ex fails_run vs \<and> list_all is_terminal_state vs"
    by (simp add: final_outcome_def is_terminal_def vs_def Let_def)
  then show ?thesis by (auto simp: list_ex_iff list_all_iff vs_def)
qed

lemma exit_code_zero: "exit_code r = 0 \<longleftrightarrow> r = Completed"
  by (cases r) auto

lemma final_outcome_terminal: "is_terminal c \<Longrightarrow> final_outcome c \<noteq> Incomplete \<and> final_outcome c \<noteq> BudgetStopped"
  by (simp add: final_outcome_def Let_def)

lemma completed_iff:
  assumes c: "reachable to_vec c" and ns: "none_skipped c"
    and nd: "\<And>k r. bt_get (c_states c) k \<noteq> Some (NotDispatched r)"
  shows "final_outcome c = Completed \<longleftrightarrow>
    (\<forall>k \<in> spec_ids (c_spec c). \<exists>v arts. bt_get (c_states c) k = Some (Succeeded v arts) \<and> v \<noteq> Unknown)"
    (is "_ \<longleftrightarrow> ?all")
proof -
  have dom: "dom (bt_get (c_states c)) = spec_ids (c_spec c)"
    using reachable_inv [OF c] by (simp add: coord_inv_def)
  have vals: "s \<in> set (bt_values (c_states c)) \<longleftrightarrow> (\<exists>k. bt_get (c_states c) k = Some s)" for s
    by (auto simp: set_bt_values ran_def)
  have skip: "s \<noteq> SkippedOversize r a l" "s \<noteq> NotDispatched r" if "bt_get (c_states c) k = Some s" for k s r a l
    using that ns nd unfolding none_skipped_def by blast+
  show ?thesis
  proof
    assume "final_outcome c = Completed"
    then have ok: "is_terminal_state s \<and> \<not> fails_run s" if "bt_get (c_states c) k = Some s" for k s
      using that vals by (auto simp: final_outcome_Completed)
    show ?all
    proof
      fix k assume "k \<in> spec_ids (c_spec c)"
      then obtain s where s: "bt_get (c_states c) k = Some s" using dom by blast
      have "s \<noteq> DependencyBlocked bs" for bs
      proof
        assume "s = DependencyBlocked bs"
        with blocked_root [OF c] s obtain r t where t: "bt_get (c_states c) r = Some t"
          "blocks_dependents t" "\<forall>bs. t \<noteq> DependencyBlocked bs" by blast
        with ok [OF t(1)] skip [OF t(1)] show False by (cases t) (auto simp: fails_run_def)
      qed
      with ok [OF s] skip [OF s] s
      show "\<exists>v arts. bt_get (c_states c) k = Some (Succeeded v arts) \<and> v \<noteq> Unknown"
        by (cases s) (auto simp: fails_run_def)
    qed
  next
    assume all: ?all
    have "is_terminal_state s \<and> \<not> fails_run s" if "bt_get (c_states c) k = Some s" for k s
    proof -
      have "k \<in> spec_ids (c_spec c)" using that dom by auto
      with all that obtain v arts where "s = Succeeded v arts" "v \<noteq> Unknown" by fastforce
      then show ?thesis by (simp add: fails_run_def)
    qed
    then show "final_outcome c = Completed" using vals by (auto simp: final_outcome_Completed)
  qed
qed

lemma live_dispatched: "live c \<Longrightarrow> bt_get (c_states c) k \<noteq> Some (NotDispatched r)"
  unfolding live_def by blast

text \<open>C14: a run reports success, exit code 0, exactly when every node succeeded with a verdict
  other than \<open>unknown\<close>: a single failure, timeout or unknown verdict anywhere is reported, and no
  node is left blocked.\<close>

theorem run_exit_zero_iff:
  assumes "coordinator_new to_vec spec = Some (Inr c)" "well_behaved exec (ds_snapshot spec)"
  shows "\<exists>m. run_to_completion exec c = Some (Ok m) \<and> mf_outcome m \<noteq> Incomplete \<and>
    (exit_code (mf_outcome m) = 0 \<longleftrightarrow>
       (\<forall>k \<in> spec_ids spec. \<exists>v arts. bt_get (mf_nodes m) k = Some (Succeeded v arts) \<and> v \<noteq> Unknown))"
proof -
  from run_result [OF assms] obtain c' where c': "run_to_completion exec c = Some (Ok (run_manifest c'))"
    "is_terminal c'" "idle c'" "none_skipped c'" "c_spec c' = spec" "reachable to_vec c'" by blast
  have "live c'" using c'(3) by (simp add: idle_def)
  from completed_iff [OF c'(6,4) live_dispatched [OF this]] show ?thesis
    using c'(1,5) final_outcome_terminal [OF c'(2)] by (auto simp: run_manifest_def exit_code_zero)
qed

lemma run_exit_zero_iff_witness:
  "\<exists>m. run_to_completion demo_exec (demo_new 2) = Some (Ok m) \<and> mf_outcome m \<noteq> Incomplete \<and>
    (exit_code (mf_outcome m) = 0 \<longleftrightarrow>
       (\<forall>k \<in> spec_ids (demo_spec 2). \<exists>v arts. bt_get (mf_nodes m) k = Some (Succeeded v arts) \<and> v \<noteq> Unknown))"
  by (rule run_exit_zero_iff [OF demo_new(2) demo_exec_well])

section \<open>Resumed coordinators\<close>

lemma resumed_coordinator:
  assumes r: "coordinator_resume to_vec spec ck = Some (Inr c)" and wf: "bt_wf (ck_nodes ck)"
  shows "idle c" "c_spec c = spec" "c_run_identity c = identity_for to_vec spec"
    "ck_run_identity ck = identity_for to_vec spec"
    "bt_get (c_states c) k = Some s \<Longrightarrow> is_finalized s \<Longrightarrow> bt_get (ck_nodes ck) k = Some s"
    "bt_get (c_states c) k = Some s \<Longrightarrow> is_finalized s \<or> s = Pending \<or> (\<exists>bs. s = DependencyBlocked bs)"
    "bt_get (ck_nodes ck) k = Some s \<Longrightarrow> is_finalized s \<Longrightarrow> bt_get (c_states c) k = Some s"
proof -
  from resume_Ok [OF r] obtain c0 where new: "coordinator_new to_vec spec = Some (Inr c0)"
    and res: "resume_from c0 ck = Inr c" .
  from resume_from_Ok [OF res wf] obtain c1 where rs: "restores c0 (ck_nodes ck) c1"
    and c: "c = propagate_blocked c1" and h: "validate_checkpoint_history c0 (ck_nodes ck) = Inr ()"
    and nm: "ck_run_identity ck = c_run_identity c0" by blast
  have f: "c_spec c1 = c_spec c0" "c_run_identity c1 = c_run_identity c0" "c_deps c1 = c_deps c0"
    using rs by (auto simp: restores_def)
  show "c_spec c = spec" "c_run_identity c = identity_for to_vec spec"
    "ck_run_identity ck = identity_for to_vec spec"
    using nm c f by (simp_all add: new_fields [OF new])
  note st = resumed_states(1) [OF new wf rs h]
  have bk: "bt_get (c_states c1) j = Some t" if "bt_get (c_states c) j = Some t" "\<And>b. t \<noteq> DependencyBlocked b" for j t
    by (rule only_blocks_get [OF only_blocks_propagate [of "c_states c1" "c_deps c1"]]) (use that c in simp_all)
  have cases: "is_finalized s \<or> s = Pending \<or> (\<exists>bs. s = DependencyBlocked bs)"
    if "bt_get (c_states c) k = Some s" for k s
  proof (cases "\<exists>bs. s = DependencyBlocked bs")
    case False
    with bk [OF that] st [of k s] show ?thesis by auto
  qed simp
  then show "bt_get (c_states c) k = Some s \<Longrightarrow> is_finalized s \<or> s = Pending \<or> (\<exists>bs. s = DependencyBlocked bs)" .
  have "coord_inv c" by (rule coord_inv_resume [OF new wf res])
  moreover have "newly_blocked (c_deps c) (c_states c) = []" using c by (simp add: propagate_fixpoint)
  moreover have "in_state c Running = {}" using cases by (fastforce simp: in_state_def)
  ultimately show "idle c" using cases by (fastforce simp: idle_def live_def)
  show "bt_get (c_states c) k = Some s \<Longrightarrow> is_finalized s \<Longrightarrow> bt_get (ck_nodes ck) k = Some s"
  proof -
    assume s: "bt_get (c_states c) k = Some s" "is_finalized s"
    then have s1: "bt_get (c_states c1) k = Some s" by (cases s) (use bk [OF s(1)] in auto)
    then have "k \<in> fst ` set (ck_nodes ck)"
      using rs s(2) new_pending [OF new, of k] by (cases "k \<in> fst ` set (ck_nodes ck)") (auto simp: restores_def split: if_splits)
    then obtain t where t: "(k, t) \<in> set (ck_nodes ck)" by auto
    with rs s1 have "restore_state c0 k t = Inr s" by (auto simp: restores_def)
    with restored_state(1) [OF this] s(2) have "t = s" by auto
    with t bt_wf_distinct [OF wf] show ?thesis by simp
  qed
  show "bt_get (ck_nodes ck) k = Some s \<Longrightarrow> is_finalized s \<Longrightarrow> bt_get (c_states c) k = Some s"
  proof -
    assume s: "bt_get (ck_nodes ck) k = Some s" "is_finalized s"
    then have "(k, s) \<in> set (ck_nodes ck)" by (simp add: map_of_SomeD)
    with rs obtain t where t: "restore_state c0 k s = Inr t" "bt_get (c_states c1) k = Some t"
      by (auto simp: restores_def)
    have "t = s" using t(1) s(2) by (auto simp: restore_state_def split: node_state.splits if_splits)
    then show ?thesis
      using t(2) s(2) propagate_terminal [of "c_states c1" k s] is_finalized_terminal c by simp
  qed
qed

text \<open>C4: resuming restores exactly the finished work.  A checkpoint is accepted only for the
  specification it was made for; every node it finished keeps its state, every other node is
  pending again or blocked by what failed, none is left running or refused, and running the
  resumed coordinator completes without executing a finished node again.\<close>

theorem resume_keeps_finished:
  assumes "coordinator_resume to_vec spec ck = Some (Inr c)" "bt_wf (ck_nodes ck)"
    and "well_behaved exec (ds_snapshot spec)"
  shows "ck_run_identity ck = identity_for to_vec spec \<and>
    (\<forall>k s. bt_get (c_states c) k = Some s \<longrightarrow>
       (if is_finalized s then bt_get (ck_nodes ck) k = Some s
        else s = Pending \<or> (\<exists>bs. s = DependencyBlocked bs))) \<and>
    (\<exists>m. run_to_completion exec c = Some (Ok m) \<and> mf_run_identity m = ck_run_identity ck \<and>
       (\<forall>k s. bt_get (ck_nodes ck) k = Some s \<longrightarrow> is_finalized s \<longrightarrow> bt_get (mf_nodes m) k = Some s))"
proof -
  note r = resumed_coordinator [OF assms(1,2)]
  from run_solves [of c exec] r(1,2) assms(3) obtain c' where
    c': "run_to_completion exec c = Some (Ok (run_manifest c'))" "coord_step\<^sup>*\<^sup>* c c'" by auto
  have keep: "bt_get (c_states c') k = Some s" if "bt_get (c_states c) k = Some s" "is_terminal_state s" for k s
    using c'(2) that by (induction rule: rtranclp_induct) (auto dest: step_terminal)
  have "mf_run_identity (run_manifest c') = ck_run_identity ck"
    using steps_fields(4) [OF c'(2)] r(3,4) by (simp add: run_manifest_def)
  moreover have "\<forall>k s. bt_get (ck_nodes ck) k = Some s \<longrightarrow> is_finalized s \<longrightarrow> bt_get (mf_nodes (run_manifest c')) k = Some s"
    using r(7) keep is_finalized_terminal by (simp add: run_manifest_def)
  moreover have "if is_finalized s then bt_get (ck_nodes ck) k = Some s
        else s = Pending \<or> (\<exists>bs. s = DependencyBlocked bs)" if "bt_get (c_states c) k = Some s" for k s
    using r(5,6) that by auto
  ultimately show ?thesis using r(4) c'(1) by blast
qed

section \<open>A coordinator's own checkpoint\<close>

lemma checkpoint_get:
  "bt_get (ck_nodes (take_checkpoint c)) k =
     map_option (\<lambda>s. if s = Running then Pending else s) (bt_get (c_states c) k)"
  by (simp add: take_checkpoint_def bt_get_map_snd)

lemma checkpoint_wf: "bt_wf (c_states c) \<Longrightarrow> bt_wf (ck_nodes (take_checkpoint c))"
  by (simp add: take_checkpoint_def)

lemma checkpoint_blocks: "blocks_in (bt_get (ck_nodes (take_checkpoint c))) d = blocks_in (bt_get (c_states c)) d"
  by (cases "bt_get (c_states c) d") (auto simp: blocks_in_def checkpoint_get)

lemma checkpoint_succeeded:
  "succeeded_in (bt_get (ck_nodes (take_checkpoint c))) d = succeeded_in (bt_get (c_states c)) d"
  by (cases "bt_get (c_states c) d") (auto simp: succeeded_in_def checkpoint_get)

lemma blocking_filter: "blocking st ds = filter (blocks_in (bt_get st)) ds"
  unfolding blocking_def by (rule filter_cong) (auto simp: blocks_in_def split: option.splits)

lemma history_of_own:
  assumes c: "coord_inv c" and f: "c_deps c0 = c_deps c" and k: "bt_get (c_states c) k = Some s"
  shows "check_history c0 (ck_nodes (take_checkpoint c)) k (if s = Running then Pending else s) = Inr () \<longleftrightarrow>
    (\<forall>bs. s = DependencyBlocked bs \<longrightarrow>
       bs = filter (blocks_in (bt_get (c_states c))) (sort (sources (ds_edges (c_spec c)) k)))"
proof -
  let ?ck = "ck_nodes (take_checkpoint c)"
  have "k \<in> spec_ids (c_spec c)" using c k by (auto simp: coord_inv_def)
  then have ds: "deps_list c0 k = sort (sources (ds_edges (c_spec c)) k)"
    using deps_list_sources [OF c] f by (simp add: deps_list_def)
  have blk: "blocking ?ck ds = filter (blocks_in (bt_get (c_states c))) ds" for ds
    by (simp add: blocking_filter checkpoint_blocks [abs_def])
  have ne: "bs \<noteq> []" if "s = DependencyBlocked bs" for bs
    using c k that by (auto simp: coord_inv_def states_inv_def node_inv_def)
  have fin: "list_all (\<lambda>d. case bt_get ?ck d of None \<Rightarrow> False | Some s \<Rightarrow> is_succeeded s) (deps_list c0 k)"
    if "is_finalized s"
  proof -
    have "deps_done c k" by (rule finalized_done [OF c k that])
    then have "\<forall>d \<in> set (deps_list c0 k). succeeded_in (bt_get ?ck) d"
      by (simp add: deps_done_def deps_list_def f checkpoint_succeeded)
    then show ?thesis by (auto simp: list_all_iff succeeded_in_def split: option.splits)
  qed
  show ?thesis
    using ne fin by (cases s) (auto simp: check_history_def Let_def blk ds)
qed

lemma restore_own:
  assumes "node_inv D (ds_snapshot (c_spec c)) f k s"
  shows "\<exists>t. restore_state c k (if s = Running then Pending else s) = Inr t"
  using assms by (cases s) (auto simp: restore_state_def node_inv_def foreign_artifact_def list_ex_iff)

lemma restores_all:
  assumes "\<forall>(k, s) \<in> set xs. \<exists>t. restore_state c k s = Inr t"
  shows "\<exists>c'. try_fold (\<lambda>(k, st) c. and_then (restore_state c k st) (\<lambda>st'. Ok (set_state k st' c))) xs c = Inr c'"
  using assms
proof (induction xs arbitrary: c)
  case (Cons x xs)
  obtain k s where x: "x = (k, s)" by (cases x)
  with Cons.prems obtain t where t: "restore_state c k s = Inr t" by auto
  have same: "restore_state (set_state k t c) j u = restore_state c j u" for j u
    by (rule restore_state_spec) simp
  have "\<forall>(j, u) \<in> set xs. \<exists>v. restore_state (set_state k t c) j u = Inr v"
    unfolding same using Cons.prems by auto
  from Cons.IH [OF this] show ?case using t by (simp add: x)
qed simp

text \<open>C15: resuming from one's own checkpoint.  A coordinator reached by any run accepts its own
  checkpoint exactly when the block list of every blocked node is still the list of all its
  dependencies that block it now; when no second dependency of a blocked node has failed since,
  the round trip works.\<close>

theorem own_checkpoint_resumes_iff:
  assumes "reachable to_vec c"
  shows "(\<exists>c'. coordinator_resume to_vec (c_spec c) (take_checkpoint c) = Some (Inr c')) \<longleftrightarrow>
    (\<forall>k bs. bt_get (c_states c) k = Some (DependencyBlocked bs) \<longrightarrow>
       bs = filter (blocks_in (bt_get (c_states c))) (sort (sources (ds_edges (c_spec c)) k)))"
proof -
  note inv = reachable_inv [OF assms]
  let ?ck = "ck_nodes (take_checkpoint c)"
  obtain nodes where v: "validate_spec (c_spec c) = Some (Ok (nodes, dep_table nodes (ds_edges (c_spec c))))"
    "try_fold add_node (ds_nodes (c_spec c)) [] = Inr nodes"
    by (rule validate_spec_cases [of "c_spec c"]) (use inv in \<open>simp_all add: coord_inv_def\<close>)
  have t: "coord_tables c" "spec_wf (c_spec c)" using inv by (simp_all add: coord_inv_def)
  obtain c0 where c0: "coordinator_new to_vec (c_spec c) = Some (Inr c0)" "c_nodes c0 = c_nodes c"
    "c_deps c0 = c_deps c" "c_spec c0 = c_spec c" "c_run_identity c0 = c_run_identity c"
    using v t(1) reachable_identity [OF assms] by (auto simp: coordinator_new_def coord_tables_def)
  have wf: "bt_wf ?ck" using inv by (intro checkpoint_wf) (simp add: coord_inv_def)
  have known: "bt_get (c_nodes c0) k \<noteq> None" if "k \<in> set (bt_keys ?ck)" for k
  proof -
    have "k \<in> dom (bt_get (c_states c))" using that by (auto simp: set_bt_keys checkpoint_get domIff)
    then show ?thesis using inv coord_tablesD(4) [OF t] c0(2) by (auto simp: coord_inv_def)
  qed
  have known_ok: "\<exists>u. try_fold (\<lambda>k _. ensure (bt_get (c_nodes c0) k \<noteq> None) (e k)) (bt_keys ?ck) () = Inr u" for e :: "string \<Rightarrow> coordinator_error"
    unfolding try_fold_checks using known by simp
  have entries: "(k, s') \<in> set ?ck \<longleftrightarrow> (\<exists>s. bt_get (c_states c) k = Some s \<and> s' = (if s = Running then Pending else s))" for k s'
    using bt_wf_distinct [OF wf] by (simp add: map_of_eq_Some_iff [symmetric] checkpoint_get) blast
  have restored: "\<exists>c'. try_fold (\<lambda>(k, st) c. and_then (restore_state c k st) (\<lambda>st'. Ok (set_state k st' c))) ?ck c0 = Inr c'"
  proof (rule restores_all, clarify)
    fix k s' assume "(k, s') \<in> set ?ck"
    then obtain s where s: "bt_get (c_states c) k = Some s" "s' = (if s = Running then Pending else s)"
      using entries by blast
    from restore_own [of "c_deps c" c0 "bt_get (c_states c)" k s] reachable_node_inv [OF assms s(1)] c0(4)
    show "\<exists>t. restore_state c0 k s' = Inr t" unfolding s(2) by simp
  qed
  have "(\<exists>c'. coordinator_resume to_vec (c_spec c) (take_checkpoint c) = Some (Inr c')) \<longleftrightarrow>
      (\<exists>u. validate_checkpoint_history c0 ?ck = Inr u)"
    using known_ok [of "\<lambda>k. resume_mismatch (''checkpoint contains unknown node: '' @ k)"] restored wf c0(1,5)
    by (simp add: coordinator_resume_def resume_from_def and_then_eq_Inr take_checkpoint_def)
  also have "\<dots> \<longleftrightarrow> (\<forall>k s. bt_get (c_states c) k = Some s \<longrightarrow>
      check_history c0 ?ck k (if s = Running then Pending else s) = Inr ())"
    unfolding validate_checkpoint_history_def case_prod_unfold try_fold_checks bt_iter_id [OF wf]
    using entries by fastforce
  also have "\<dots> \<longleftrightarrow> (\<forall>k bs. bt_get (c_states c) k = Some (DependencyBlocked bs) \<longrightarrow>
      bs = filter (blocks_in (bt_get (c_states c))) (sort (sources (ds_edges (c_spec c)) k)))"
    using history_of_own [OF inv c0(3)] by auto
  finally show ?thesis .
qed

lemma own_checkpoint_resumes_iff_witness:
  "(\<exists>c'. coordinator_resume demo_vec (c_spec (demo_states 2 demo_blocked)) (take_checkpoint (demo_states 2 demo_blocked)) = Some (Inr c')) \<longleftrightarrow>
    (\<forall>k bs. bt_get (c_states (demo_states 2 demo_blocked)) k = Some (DependencyBlocked bs) \<longrightarrow>
       bs = filter (blocks_in (bt_get (c_states (demo_states 2 demo_blocked))))
              (sort (sources (ds_edges (c_spec (demo_states 2 demo_blocked))) k)))"
  by (rule own_checkpoint_resumes_iff [OF demo_runs(2)])

definition demo_checkpoint :: checkpoint where
  "demo_checkpoint = \<lparr>ck_schema = run_state_schema, ck_run_identity = identity_for demo_vec (demo_spec 2),
     ck_nodes = [(''a'', Succeeded Pass []), (''b'', Running)]\<rparr>"

lemma demo_resume: "coordinator_resume demo_vec (demo_spec 2) demo_checkpoint =
    Some (Inr (demo_states 2 [(''a'', Succeeded Pass []), (''b'', Pending)]))"
  by (simp add: coordinator_resume_def demo_new resume_from_def demo_checkpoint_def demo_states_def
      bt_keys_def bt_iter_def validate_checkpoint_history_def check_history_def deps_list_def Let_def
      restore_state_def foreign_artifact_def set_state_def propagate_blocked_def propagate.simps
      newly_blocked_def blocking_def)

lemma resume_keeps_finished_witness:
  "ck_run_identity demo_checkpoint = identity_for demo_vec (demo_spec 2) \<and>
   (\<exists>m. run_to_completion demo_exec (demo_states 2 [(''a'', Succeeded Pass []), (''b'', Pending)]) = Some (Ok m) \<and>
      bt_get (mf_nodes m) ''a'' = Some (Succeeded Pass []))"
proof -
  have wf: "bt_wf (ck_nodes demo_checkpoint)" by (simp add: demo_checkpoint_def bt_wf_def)
  have a: "bt_get (ck_nodes demo_checkpoint) ''a'' = Some (Succeeded Pass [])" by (simp add: demo_checkpoint_def)
  from resume_keeps_finished [OF demo_resume wf demo_exec_well] a is_finalized.simps(1) show ?thesis by blast
qed

section \<open>A run that cannot be resumed\<close>

definition join_spec :: dag_spec where
  "join_spec = \<lparr>ds_snapshot = replicate 64 CHR ''a'', ds_max_concurrency = 2,
     ds_nodes = [demo_node ''a'', demo_node ''b'', demo_node ''c''],
     ds_edges = [EdgeSpec ''a'' ''c'', EdgeSpec ''b'' ''c'']\<rparr>"

definition join_states :: "(json \<Rightarrow> u8 list) \<Rightarrow> states \<Rightarrow> coordinator" where
  "join_states to_vec st = \<lparr>c_spec = join_spec, c_run_identity = identity_for to_vec join_spec,
     c_nodes = [(''a'', demo_node ''a''), (''b'', demo_node ''b''), (''c'', demo_node ''c'')],
     c_deps = [(''a'', []), (''b'', []), (''c'', [''a'', ''b''])], c_states = st\<rparr>"

lemma join_validate:
  "validate_spec join_spec = Some (Ok ([(''a'', demo_node ''a''), (''b'', demo_node ''b''), (''c'', demo_node ''c'')],
     [(''a'', []), (''b'', []), (''c'', [''a'', ''b''])]))"
  by code_simp

lemma join_new: "coordinator_new to_vec join_spec =
    Some (Inr (join_states to_vec [(''a'', Pending), (''b'', Pending), (''c'', Pending)]))"
  by (simp add: coordinator_new_def join_validate join_states_def bt_keys_def)

definition join_dispatch :: "string \<Rightarrow> dispatch" where
  "join_dispatch k = \<lparr>d_node_id = k, d_capability = ''scan'', d_request_identity = ''r'', d_inputs = []\<rparr>"

lemma join_batch: "next_batch (join_states to_vec [(''a'', Pending), (''b'', Pending), (''c'', Pending)]) =
    (join_states to_vec [(''a'', Running), (''b'', Running), (''c'', Pending)], [join_dispatch ''a'', join_dispatch ''b''])"
  by (simp add: next_batch_def propagate_blocked_def join_states_def propagate.simps newly_blocked_def
      bt_iter_def bt_keys_def blocking_def join_spec_def running_count_def bt_values_def ready_nodes_def
      dependencies_succeeded_def deps_list_def dispatch_all.simps inputs_of_def set_state_def Let_def
      join_dispatch_def demo_node_def)

lemma join_first: "record_outcome (join_states to_vec [(''a'', Running), (''b'', Running), (''c'', Pending)])
      ''a'' (OTimeout ''late'') =
    Inr (join_states to_vec [(''a'', TimedOut ''late''), (''b'', Running), (''c'', DependencyBlocked [''a''])])"
  by (simp add: record_outcome_def outcome_state_def propagate_blocked_def join_states_def propagate.simps
      newly_blocked_def bt_iter_def bt_keys_def blocking_def set_state_def Let_def
      nonempty_diagnostic_def demo_diagnostic block_round_def)

lemma join_second: "record_outcome (join_states to_vec [(''a'', TimedOut ''late''), (''b'', Running), (''c'', DependencyBlocked [''a''])])
      ''b'' (OTimeout ''late'') =
    Inr (join_states to_vec [(''a'', TimedOut ''late''), (''b'', TimedOut ''late''), (''c'', DependencyBlocked [''a''])])"
  by (simp add: record_outcome_def outcome_state_def propagate_blocked_def join_states_def propagate.simps
      newly_blocked_def bt_iter_def bt_keys_def blocking_def set_state_def Let_def
      nonempty_diagnostic_def demo_diagnostic block_round_def)

text \<open>C30: a coordinator can refuse to resume its own checkpoint.  Two dependencies of a node time
  out one after the other; the node was blocked by the first alone, and validation of the
  checkpoint expects it to be blocked by both.\<close>

theorem own_checkpoint_refused:
  "\<exists>c. reachable to_vec c \<and> is_terminal c \<and>
     coordinator_resume to_vec (c_spec c) (take_checkpoint c) =
       Some (Err (CoordinatorError ResumeIdentityMismatch
         ''checkpoint has inconsistent dependency block history: c''))"
proof -
  let ?c = "join_states to_vec [(''a'', TimedOut ''late''), (''b'', TimedOut ''late''), (''c'', DependencyBlocked [''a''])]"
  have "reachable to_vec (join_states to_vec [(''a'', Running), (''b'', Running), (''c'', Pending)])"
    using reach_step [OF reach_new [OF join_new] step_batch] unfolding join_batch fst_conv .
  then have "reachable to_vec ?c"
    using step_record [OF join_first] step_record [OF join_second] by (blast intro: reach_step)
  moreover have "is_terminal ?c"
    by (simp add: is_terminal_def join_states_def bt_values_def bt_iter_def bt_keys_def)
  moreover have "coordinator_resume to_vec (c_spec ?c) (take_checkpoint ?c) =
      Some (Err (CoordinatorError ResumeIdentityMismatch ''checkpoint has inconsistent dependency block history: c''))"
    by (simp add: coordinator_resume_def resume_from_def take_checkpoint_def join_states_def
        coordinator_new_def join_validate bt_keys_def bt_iter_def validate_checkpoint_history_def
        check_history_def deps_list_def Let_def blocking_def resume_mismatch_def)
  ultimately show ?thesis by blast
qed

text \<open>Executor panics.  One panicking node of a batch is reported as the error
  \<open>node executor panicked\<close>; when two nodes of the same batch panic, the second panic is not
  reported but raised out of the loop.\<close>

theorem second_panic_escapes:
  "run_to_completion (\<lambda>d. if d_node_id d = ''a'' then None else Some (OSuccess Pass []))
     (join_states to_vec [(''a'', Pending), (''b'', Pending), (''c'', Pending)]) = Some (Err executor_panicked) \<and>
   run_to_completion (\<lambda>d. None) (join_states to_vec [(''a'', Pending), (''b'', Pending), (''c'', Pending)]) = None"
proof -
  have open_nodes: "\<not> is_terminal (join_states to_vec [(''a'', Pending), (''b'', Pending), (''c'', Pending)])"
    by (simp add: is_terminal_def join_states_def bt_values_def bt_iter_def bt_keys_def)
  have "execute_batch (\<lambda>d. if d_node_id d = ''a'' then None else Some (OSuccess Pass []))
      [join_dispatch ''a'', join_dispatch ''b''] = Some (Err executor_panicked)"
    "execute_batch (\<lambda>d. None) [join_dispatch ''a'', join_dispatch ''b''] = None"
    by (simp_all add: execute_batch_def join_all_def join_dispatch_def Option.is_none_def)
  with open_nodes show ?thesis by (simp add: run_to_completion.simps join_batch)
qed

section \<open>The run identity\<close>

text \<open>The run identity does not depend on the order in which nodes and edges are listed.\<close>

theorem identity_order_irrelevant:
  assumes "mset (ds_nodes spec) = mset (ds_nodes spec')" "mset (ds_edges spec) = mset (ds_edges spec')"
    and "ds_snapshot spec = ds_snapshot spec'" "ds_max_concurrency spec = ds_max_concurrency spec'"
    and "distinct (map ns_id (ds_nodes spec))"
  shows "identity_for to_vec spec = identity_for to_vec spec'"
proof -
  have inj: "inj_on ns_id (set (ds_nodes spec))" using assms(5) by (simp add: distinct_map)
  have "sort_key ns_id (ds_nodes spec) = sort_key ns_id (ds_nodes spec')"
    by (rule sort_key_inj_key_eq [OF _ inj]) (simp_all add: assms(1))
  moreover have "sort (ds_edges spec) = sort (ds_edges spec')"
    using assms(2) by (metis mset_sort properties_for_sort sorted_sort)
  ultimately show ?thesis using assms(3,4) by (simp add: identity_for_def spec_json_def)
qed

lemma identity_order_irrelevant_witness:
  "identity_for demo_vec join_spec = identity_for demo_vec
     (join_spec\<lparr>ds_nodes := rev (ds_nodes join_spec), ds_edges := rev (ds_edges join_spec)\<rparr>)"
  by (rule identity_order_irrelevant) (simp_all add: join_spec_def demo_node_def)

end
