(* ===== verification/Budget.thy ===== *)
theory Budget
  imports Dag_Resume
begin

text \<open>
  The budget of a run (crates/code-intel-cli/src/budget.rs) and the admission policy for large
  inputs (first part of budget_dispatch.rs).  Counters are 64-bit words, so an addition wraps as
  it does in a release build; \<open>exceeds\<close> multiplies in 128 bits.
\<close>

section \<open>The budget\<close>

record budget =
  b_wall_limit :: u64
  b_wall_consumed :: u64
  b_bytes_limit :: u64
  b_bytes_consumed :: u64
  b_estimable :: bool

definition default_wall_clock_seconds :: u64 where "default_wall_clock_seconds = 300"
definition default_bytes_budget :: u64 where "default_bytes_budget = 100 * 1024 * 1024"

definition budget_new :: "u64 \<Rightarrow> u64 \<Rightarrow> bool \<Rightarrow> budget" where
  "budget_new wall_clock_seconds bytes estimable =
     \<lparr>b_wall_limit = wall_clock_seconds, b_wall_consumed = 0, b_bytes_limit = bytes,
      b_bytes_consumed = 0, b_estimable = estimable\<rparr>"

definition with_defaults :: budget where
  "with_defaults =
     \<lparr>b_wall_limit = default_wall_clock_seconds, b_wall_consumed = 0,
      b_bytes_limit = default_bytes_budget, b_bytes_consumed = 0, b_estimable = True\<rparr>"

definition with_wall_clock :: "u64 \<Rightarrow> budget \<Rightarrow> budget" where
  "with_wall_clock seconds b = b\<lparr>b_wall_limit := seconds\<rparr>"

definition with_bytes :: "u64 \<Rightarrow> budget \<Rightarrow> budget" where
  "with_bytes bytes b = b\<lparr>b_bytes_limit := bytes\<rparr>"

definition non_estimable :: "budget \<Rightarrow> budget" where
  "non_estimable b = b\<lparr>b_estimable := False\<rparr>"

definition estimate_ok :: "budget \<Rightarrow> u64 \<Rightarrow> u64 \<Rightarrow> bool" where
  "estimate_ok b wall_clock_secs bytes =
     (if \<not> b_estimable b then False
      else let wall_ok = b_wall_consumed b + wall_clock_secs \<le> b_wall_limit b;
               bytes_ok = b_bytes_consumed b + bytes \<le> b_bytes_limit b
           in wall_ok \<and> bytes_ok)"

definition consume :: "u64 \<Rightarrow> u64 \<Rightarrow> budget \<Rightarrow> budget" where
  "consume wall_clock_secs bytes b =
     b\<lparr>b_wall_consumed := b_wall_consumed b + wall_clock_secs,
       b_bytes_consumed := b_bytes_consumed b + bytes\<rparr>"

definition exceeded :: "budget \<Rightarrow> bool" where
  "exceeded b \<longleftrightarrow> b_wall_consumed b > b_wall_limit b \<or> b_bytes_consumed b > b_bytes_limit b"

definition limits :: "budget \<Rightarrow> u64 \<times> u64" where
  "limits b = (b_wall_limit b, b_bytes_limit b)"

definition consumed :: "budget \<Rightarrow> u64 \<times> u64" where
  "consumed b = (b_wall_consumed b, b_bytes_consumed b)"

section \<open>The oversize policy\<close>

record dispatch_cost =
  dc_wall :: u64
  dc_bytes :: u64

record oversize_policy =
  op_threshold :: u8

definition oversize_policy_new :: "u8 \<Rightarrow> coordinator_error + oversize_policy" where
  "oversize_policy_new threshold_percent =
     (if 1 \<le> threshold_percent \<and> threshold_percent \<le> 100 then Ok \<lparr>op_threshold = threshold_percent\<rparr>
      else Err (CoordinatorError InvalidSpec
        (''oversize threshold must be between 1 and 100 (inclusive), got '' @ show_nat (unat threshold_percent))))"

definition oversize_policy_default :: oversize_policy where
  "oversize_policy_default = \<lparr>op_threshold = 80\<rparr>"

definition exceeds :: "oversize_policy \<Rightarrow> u64 \<Rightarrow> u64 \<Rightarrow> bool" where
  "exceeds p estimated_bytes byte_limit =
     (if byte_limit = 0 then False
      else (ucast estimated_bytes :: 128 word) * 100
             \<ge> (ucast (op_threshold p) :: 128 word) * (ucast byte_limit :: 128 word))"

section \<open>Facts\<close>

lemma unat_mult_128:
  fixes a b :: "128 word"
  assumes "unat a * unat b < 2 ^ 128"
  shows "unat (a * b) = unat a * unat b"
  using assms by (simp add: unat_word_ariths)

lemma unat_ucast_64: "unat (ucast (a :: u64) :: 128 word) = unat a"
  using unsigned_less [of a, where ?'a = nat] by (simp add: unsigned_ucast_eq take_bit_nat_eq_self_iff)

lemma unat_ucast_8: "unat (ucast (a :: u8) :: 128 word) = unat a"
  using unsigned_less [of a, where ?'a = nat] by (simp add: unsigned_ucast_eq take_bit_nat_eq_self_iff)

lemma exceeds_nat:
  "exceeds p estimated_bytes byte_limit \<longleftrightarrow>
     byte_limit \<noteq> 0 \<and> unat (op_threshold p) * unat byte_limit \<le> 100 * unat estimated_bytes"
proof -
  have a: "unat (ucast estimated_bytes * 100 :: 128 word) = unat estimated_bytes * 100"
    using unsigned_less [of estimated_bytes, where ?'a = nat]
    by (subst unat_mult_128) (simp_all add: unat_ucast_64)
  have "unat (op_threshold p) * unat byte_limit < 2 ^ 8 * 2 ^ 64"
    using unsigned_less [of "op_threshold p", where ?'a = nat] unsigned_less [of byte_limit, where ?'a = nat] by (intro mult_strict_mono) simp_all
  then have b: "unat (ucast (op_threshold p) * ucast byte_limit :: 128 word) = unat (op_threshold p) * unat byte_limit"
    by (subst unat_mult_128) (simp_all add: unat_ucast_64 unat_ucast_8)
  show ?thesis
    unfolding exceeds_def word_le_nat_alt a b by (simp add: mult.commute [of 100])
qed

lemma unat_add_64: "unat (a + b :: u64) = (unat a + unat b) mod 2 ^ 64"
  by (simp add: unat_word_ariths)

lemma no_wrap_add:
  fixes a b :: u64
  assumes "unat a + unat b < 2 ^ 64"
  shows "unat (a + b) = unat a + unat b"
  using assms by (simp add: unat_add_64)

text \<open>The size check is the exact arithmetic comparison: with no overflow for any threshold,
  estimate and limit, a dispatch is oversize when 100 times its estimate reaches the threshold
  times a non-zero limit; and the check is monotone in the estimate and antitone in the limit.\<close>

theorem exceeds_exact:
  "(exceeds p estimate limit \<longleftrightarrow>
      limit \<noteq> 0 \<and> unat (op_threshold p) * unat limit \<le> 100 * unat estimate) \<and>
   (exceeds p estimate limit \<longrightarrow> estimate \<le> estimate' \<longrightarrow> limit' \<noteq> 0 \<longrightarrow> limit' \<le> limit \<longrightarrow>
      exceeds p estimate' limit')"
proof -
  have "unat (op_threshold p) * unat limit' \<le> unat (op_threshold p) * unat limit" if "limit' \<le> limit"
    using that unfolding word_le_nat_alt by (rule mult_le_mono2)
  moreover have "100 * unat estimate \<le> 100 * unat estimate'" if "estimate \<le> estimate'"
    using that by (simp add: word_le_nat_alt)
  ultimately show ?thesis unfolding exceeds_nat by (meson order_trans)
qed

lemma exceeds_exact_witness:
  "exceeds oversize_policy_default 90 100 \<and> exceeds oversize_policy_default 95 99"
  using exceeds_exact [of oversize_policy_default 90 100 95 99] by (simp add: oversize_policy_default_def)

text \<open>What an approval means.  A budget approves a cost exactly when it is estimable and both
  sums, taken modulo 2 to the 64, stay within their limits; so, unless a sum overflows, an approved
  cost can be consumed without exceeding the budget.\<close>

theorem estimate_ok_sound:
  "(estimate_ok b w n \<longleftrightarrow> b_estimable b \<and>
      (unat (b_wall_consumed b) + unat w) mod 2 ^ 64 \<le> unat (b_wall_limit b) \<and>
      (unat (b_bytes_consumed b) + unat n) mod 2 ^ 64 \<le> unat (b_bytes_limit b)) \<and>
   (estimate_ok b w n \<longrightarrow> \<not> exceeded (consume w n b)) \<and>
   (estimate_ok b w n \<longrightarrow>
      unat (b_wall_consumed b) + unat w < 2 ^ 64 \<longrightarrow> unat (b_bytes_consumed b) + unat n < 2 ^ 64 \<longrightarrow>
      unat (b_wall_consumed b) + unat w \<le> unat (b_wall_limit b) \<and>
      unat (b_bytes_consumed b) + unat n \<le> unat (b_bytes_limit b))"
  by (auto simp: estimate_ok_def exceeded_def consume_def word_le_nat_alt word_less_nat_alt unat_add_64)

lemma estimate_ok_sound_witness:
  "estimate_ok with_defaults 1 5 \<and> \<not> exceeded (consume 1 5 with_defaults)"
  using estimate_ok_sound [of with_defaults 1 5]
  by (simp add: with_defaults_def default_wall_clock_seconds_def default_bytes_budget_def)

text \<open>An approval can be wrong: the addition wraps, so a budget that has consumed one byte of
  its hundred approves an estimate of nearly 2 to the 64 bytes.\<close>

theorem estimate_ok_wraps:
  "estimate_ok (consume 0 1 (budget_new 10 100 True)) 0 (- 1)"
  by (simp add: estimate_ok_def consume_def budget_new_def)

end
