(* ===== verification/Budget_Dispatch.thy ===== *)
theory Budget_Dispatch
  imports Budget
begin

text \<open>
  The work loop under a budget (crates/code-intel-cli/src/budget_dispatch.rs).  Before a batch is
  executed every dispatch of it is admitted, refused for its size, or, when the budget does not
  cover it, stops the run.  The executor is a parameter that also tells how many seconds a
  dispatch took.
\<close>

section \<open>Admission of a batch\<close>

definition oversize_reason :: "dispatch_cost \<Rightarrow> oversize_policy \<Rightarrow> u64 \<Rightarrow> string" where
  "oversize_reason cost policy byte_limit =
     ''estimated dispatch input size '' @ show_nat (unat (dc_bytes cost)) @ '' bytes exceeds '' @
     show_nat (unat (op_threshold policy)) @ ''% of the '' @ show_nat (unat byte_limit) @
     '' byte budget limit (actual bytes; pre-dispatch refusal)''"

definition refusal_reason :: "dispatch_cost \<Rightarrow> string" where
  "refusal_reason cost =
     ''estimated dispatch cost exceeds remaining budget: wallClockSeconds='' @ show_nat (unat (dc_wall cost)) @
     '', bytes='' @ show_nat (unat (dc_bytes cost))"

type_synonym estimator = "dispatch \<Rightarrow> dispatch_cost"

text \<open>The result: the coordinator, the accepted dispatches with their costs, and the node that
  stopped the run, if any.\<close>

fun admit :: "estimator \<Rightarrow> oversize_policy \<Rightarrow> u64 \<Rightarrow> dispatch list \<Rightarrow> coordinator \<Rightarrow> budget
    \<Rightarrow> (dispatch \<times> dispatch_cost) list
    \<Rightarrow> coordinator_error + (coordinator \<times> (dispatch \<times> dispatch_cost) list \<times> string option)" where
  "admit estimate policy byte_limit [] c projected accepted = Ok (c, accepted, None)"
| "admit estimate policy byte_limit (d # remaining) c projected accepted =
     (let cost = estimate d; node_id = d_node_id d in
      if exceeds policy (dc_bytes cost) byte_limit
      then and_then (record_skipped_oversize c node_id (oversize_reason cost policy byte_limit)
               (dc_bytes cost) byte_limit)
             (\<lambda>c. admit estimate policy byte_limit remaining c projected accepted)
      else if \<not> estimate_ok projected (dc_wall cost) (dc_bytes cost)
      then (let reason = refusal_reason cost in
            and_then (record_not_dispatched c node_id reason) (\<lambda>c.
            and_then (try_fold (\<lambda>p c. record_not_dispatched c (d_node_id p) reason) remaining c) (\<lambda>c.
            Ok (mark_pending_not_dispatched c reason, accepted, Some node_id))))
      else admit estimate policy byte_limit remaining c
             (consume (dc_wall cost) (dc_bytes cost) projected) (accepted @ [(d, cost)]))"

section \<open>Execution of the accepted dispatches\<close>

type_synonym timed_executor = "dispatch \<Rightarrow> (node_outcome \<times> u64) option"

type_synonym timed_result = "string \<times> dispatch_cost \<times> node_outcome \<times> u64"

definition execute_accepted ::
    "timed_executor \<Rightarrow> (dispatch \<times> dispatch_cost) list \<Rightarrow> (coordinator_error + timed_result list) option" where
  "execute_accepted exec accepted =
     join_all (map (\<lambda>(d, cost). map_option (\<lambda>(out, secs). (d_node_id d, cost, out, max secs 1)) (exec d)) accepted)"

definition record_timed :: "timed_result \<Rightarrow> coordinator \<times> budget \<Rightarrow> coordinator_error + (coordinator \<times> budget)" where
  "record_timed r cb =
     (case r of (node_id, cost, out, elapsed) \<Rightarrow> case cb of (c, b) \<Rightarrow>
        and_then (record_outcome c node_id out) (\<lambda>c. Ok (c, consume elapsed (dc_bytes cost) b)))"

lemma record_timed_Ok:
  "record_timed (k, cost, out, secs) (c, b) = Inr (c', b') \<longleftrightarrow>
     record_outcome c k out = Inr c' \<and> b' = consume secs (dc_bytes cost) b"
  by (auto simp: record_timed_def result_simps)

interpretation budget_loop: work_loop "\<lambda>cb. live (fst cb)" "\<lambda>cb. in_state (fst cb) Running"
    "\<lambda>cb. unfinished (fst cb)" fst "\<lambda>cb r. acceptable (fst cb) (fst (snd (snd r)))" record_timed
proof (unfold_locales, goal_cases)
  case (1 cb r)
  obtain c b k cost out secs where e: "cb = (c, b)" "r = (k, cost, out, secs)" by (metis prod_cases4 surj_pair)
  with 1 live_record [of c k out] show ?case by (fastforce simp: record_timed_def)
next
  case (2 r cb cb' r')
  obtain c b c' b' k cost out secs where e: "cb = (c, b)" "cb' = (c', b')" "r = (k, cost, out, secs)"
    by (metis prod_cases4 surj_pair)
  with 2 have "c_spec c' = c_spec c" using step_fields(1) [OF step_record] by (auto simp: record_timed_Ok)
  with 2(2) show ?case by (simp add: acceptable_def e)
next
  case (3 r cb cb')
  obtain c b c' b' k cost out secs where e: "cb = (c, b)" "cb' = (c', b')" "r = (k, cost, out, secs)"
    by (metis prod_cases4 surj_pair)
  with 3 show ?case by (auto simp: record_timed_Ok intro: record_unfinished)
qed

section \<open>The loop\<close>

lemma skipped_Ok:
  "record_skipped_oversize c k r a l = Inr c' \<longleftrightarrow> bt_get (c_states c) k = Some Running \<and>
     c' = propagate_blocked (set_state k
       (SkippedOversize (nonempty_diagnostic r ''node was skipped as oversize'') a l) c)"
  by (auto simp: record_skipped_oversize_def)

lemma skipped_unfinished:
  assumes "record_skipped_oversize c k r a l = Inr c'"
  shows "unfinished c' < unfinished c"
proof -
  let ?s = "SkippedOversize (nonempty_diagnostic r ''node was skipped as oversize'') a l"
  from assms have s: "bt_get (c_states c) k = Some Running" "c' = propagate_blocked (set_state k ?s c)"
    by (simp_all add: skipped_Ok)
  show ?thesis
    by (rule step_unfinished_less [OF step_skipped [OF assms] s(1), of ?s])
       (simp_all add: s(2) propagate_terminal)
qed

lemma admit_unfinished:
  "admit estimate policy limit ds c projected accepted = Inr (c', accepted', None) \<Longrightarrow>
   unfinished c' + length ds + length accepted \<le> unfinished c + length accepted'"
proof (induction ds arbitrary: c projected accepted)
  case (Cons d ds)
  show ?case
  proof (cases "exceeds policy (dc_bytes (estimate d)) limit")
    case True
    then obtain c1 where c1: "record_skipped_oversize c (d_node_id d) (oversize_reason (estimate d) policy limit)
        (dc_bytes (estimate d)) limit = Inr c1" "admit estimate policy limit ds c1 projected accepted = Inr (c', accepted', None)"
      using Cons.prems by (auto simp: Let_def result_simps)
    from skipped_unfinished [OF c1(1)] Cons.IH [OF c1(2)] show ?thesis by simp
  next
    case False
    then show ?thesis using Cons.prems Cons.IH
      by (force simp: Let_def result_simps split: if_splits)
  qed
qed simp

function budget_rounds :: "timed_executor \<Rightarrow> estimator \<Rightarrow> oversize_policy \<Rightarrow> coordinator \<Rightarrow> budget
    \<Rightarrow> (coordinator_error + (coordinator \<times> budget \<times> string option)) option" where
  "budget_rounds exec estimate policy c b =
     (if is_terminal c then Some (Ok (c, b, None))
      else let (c1, batch) = next_batch c in
        if batch = []
        then (if is_terminal c1 then Some (Ok (c1, b, None)) else Some (Err no_schedulable_work))
        else case admit estimate policy (snd (limits b)) batch c1 b [] of
          Inl e \<Rightarrow> Some (Err e)
        | Inr (c2, accepted, Some stopped_at) \<Rightarrow> Some (Ok (c2, b, Some stopped_at))
        | Inr (c2, accepted, None) \<Rightarrow>
            (case execute_accepted exec accepted of
               None \<Rightarrow> None
             | Some (Inl e) \<Rightarrow> Some (Err e)
             | Some (Inr results) \<Rightarrow>
                 (case try_fold record_timed (sort_key fst results) (c2, b) of
                    Inl e \<Rightarrow> Some (Err e)
                  | Inr (c3, b3) \<Rightarrow> budget_rounds exec estimate policy c3 b3)))"
  by pat_completeness auto
termination
proof (relation "measure (\<lambda>(exec, estimate, policy, c, b). unfinished c)", goal_cases)
  case (2 exec estimate policy c b x c1 batch y c2 z accepted st rr results cb c3 b3)
  then have rs: "map Some results = map (\<lambda>(d, cost). map_option (\<lambda>(out, secs). (d_node_id d, cost, out, max secs 1)) (exec d)) accepted"
    by (simp add: execute_accepted_def join_all_Ok)
  have "unfinished c3 + length (sort_key fst results) \<le> unfinished c2"
    using budget_loop.record_all_le [of "sort_key fst results" "(c2, b)" cb] 2 by (metis fst_conv)
  moreover have "length results = length accepted" using arg_cong [OF rs, of length] by simp
  moreover have "unfinished c2 + length batch \<le> unfinished c1 + length accepted"
    using admit_unfinished [of estimate policy _ batch c1 b "[]" c2 accepted] 2 by auto
  moreover have "unfinished c1 \<le> unfinished c"
    using step_unfinished_le [OF step_batch, of c] 2(2,3) by (metis fst_conv)
  ultimately show ?case using 2(4) by (cases batch) auto
qed simp

declare budget_rounds.simps [simp del]

section \<open>The manifest of a budgeted run\<close>

record budgeted_run =
  br_manifest :: manifest
  br_json :: json

definition executed_any :: "states \<Rightarrow> bool" where
  "executed_any nodes \<longleftrightarrow> list_ex (\<lambda>st. case st of Succeeded _ _ \<Rightarrow> True | DomainFailed _ _ \<Rightarrow> True
     | ProcessFailed _ _ \<Rightarrow> True | _ \<Rightarrow> False) (bt_values nodes)"

definition skipped_any :: "states \<Rightarrow> bool" where
  "skipped_any nodes \<longleftrightarrow> list_ex (\<lambda>st. case st of SkippedOversize _ _ _ \<Rightarrow> True | _ \<Rightarrow> False) (bt_values nodes)"

definition budget_outcome :: "string option \<Rightarrow> manifest \<Rightarrow> run_outcome" where
  "budget_outcome stopped_at m =
     (if stopped_at \<noteq> None
      then (if executed_any (mf_nodes m) then BudgetStopped else RFailed)
      else if mf_outcome m = Completed \<and> skipped_any (mf_nodes m)
      then (if executed_any (mf_nodes m) then BudgetStopped else RFailed)
      else mf_outcome m)"

definition oversize_skipped :: "states \<Rightarrow> (string \<times> u64 \<times> u64) list" where
  "oversize_skipped nodes = concat (map (\<lambda>(k, st). case st of
       SkippedOversize _ actual limit \<Rightarrow> [(k, actual, limit)] | _ \<Rightarrow> []) (bt_iter nodes))"

definition oversize_json :: "oversize_policy \<Rightarrow> states \<Rightarrow> json" where
  "oversize_json policy nodes = jobj
     [(''thresholdPercent'', ju64 (ucast (op_threshold policy))),
      (''skippedNodes'', JArr (map (\<lambda>(k, actual, limit). jobj
         [(''nodeId'', JStr k), (''actualBytes'', ju64 actual), (''byteLimit'', ju64 limit)])
         (oversize_skipped nodes)))]"

definition budget_json :: "oversize_policy \<Rightarrow> budget \<Rightarrow> string option \<Rightarrow> states \<Rightarrow> json" where
  "budget_json policy b stopped_at nodes = jobj
     [(''limits'', jobj [(''wallClockSeconds'', ju64 (fst (limits b))), (''bytes'', ju64 (snd (limits b)))]),
      (''consumed'', jobj [(''wallClockSeconds'', ju64 (fst (consumed b))), (''bytes'', ju64 (snd (consumed b)))]),
      (''exceeded'', JBool (stopped_at \<noteq> None \<or> exceeded b)),
      (''stoppedAt'', jopt_str stopped_at),
      (''oversize'', oversize_json policy nodes)]"

definition budgeted_json :: "oversize_policy \<Rightarrow> budget \<Rightarrow> string option \<Rightarrow> manifest \<Rightarrow> json" where
  "budgeted_json policy b stopped_at m =
     (case manifest_json m of
        JObj es \<Rightarrow> JObj (bt_insert ''budget'' (budget_json policy b stopped_at (mf_nodes m)) es)
      | j \<Rightarrow> j)"

definition finish_budgeted :: "oversize_policy \<Rightarrow> coordinator \<times> budget \<times> string option \<Rightarrow> budgeted_run" where
  "finish_budgeted policy r =
     (case r of (c, b, stopped_at) \<Rightarrow>
        let m0 = run_manifest c;
            m = m0\<lparr>mf_outcome := budget_outcome stopped_at m0\<rparr>
        in \<lparr>br_manifest = m, br_json = budgeted_json policy b stopped_at m\<rparr>)"

text \<open>\<open>run_to_completion_with_estimator_and_oversize_policy\<close> and the functions that call it.\<close>

definition run_budgeted :: "timed_executor \<Rightarrow> coordinator \<Rightarrow> budget \<Rightarrow> estimator \<Rightarrow> oversize_policy
    \<Rightarrow> (coordinator_error + budgeted_run) option" where
  "run_budgeted exec c b estimate policy =
     map_option (\<lambda>r. and_then r (\<lambda>t. Ok (finish_budgeted policy t))) (budget_rounds exec estimate policy c b)"

definition dispatch_json :: "dispatch \<Rightarrow> json" where
  "dispatch_json d = jobj
     [(''node'', JStr (d_node_id d)), (''capability'', JStr (d_capability d)),
      (''requestIdentity'', JStr (d_request_identity d)),
      (''inputs'', JArr (map artifact_json (d_inputs d)))]"

definition estimate_dispatch :: "(json \<Rightarrow> u8 list) \<Rightarrow> estimator" where
  "estimate_dispatch to_vec d =
     (let bytes = fold (\<lambda>a n. n + a_byte_size a) (d_inputs d) 0;
          bytes = (if bytes = 0 then of_nat (length (to_vec (dispatch_json d))) else bytes)
      in \<lparr>dc_wall = 1, dc_bytes = max bytes 1\<rparr>)"

definition run_with_estimator :: "timed_executor \<Rightarrow> coordinator \<Rightarrow> budget \<Rightarrow> estimator
    \<Rightarrow> (coordinator_error + budgeted_run) option" where
  "run_with_estimator exec c b estimate = run_budgeted exec c b estimate oversize_policy_default"

definition run_with_oversize_threshold :: "(json \<Rightarrow> u8 list) \<Rightarrow> timed_executor \<Rightarrow> coordinator \<Rightarrow> budget
    \<Rightarrow> oversize_policy \<Rightarrow> (coordinator_error + budgeted_run) option" where
  "run_with_oversize_threshold to_vec exec c b policy = run_budgeted exec c b (estimate_dispatch to_vec) policy"

definition run_with_budget :: "(json \<Rightarrow> u8 list) \<Rightarrow> timed_executor \<Rightarrow> coordinator \<Rightarrow> budget
    \<Rightarrow> (coordinator_error + budgeted_run) option" where
  "run_with_budget to_vec exec c b = run_with_estimator exec c b (estimate_dispatch to_vec)"

end
