(* ===== verification/Budget_Run.thy ===== *)
theory Budget_Run
  imports Budget_Dispatch
begin

text \<open>
  The properties of a budgeted run: it always ends with a manifest, what it executes was admitted,
  when it reports success, and the manifest of a stopped run that still has running nodes.
\<close>

section \<open>Admission on a live coordinator\<close>

lemma live_skipped:
  assumes "live c" "k \<in> in_state c Running"
  shows "\<exists>c'. record_skipped_oversize c k r a l = Inr c' \<and> live c' \<and>
    in_state c' Running = in_state c Running - {k} \<and> coord_step c c'"
proof -
  let ?s = "SkippedOversize (nonempty_diagnostic r ''node was skipped as oversize'') a l"
  let ?c = "propagate_blocked (set_state k ?s c)"
  have r: "record_skipped_oversize c k r a l = Inr ?c" using assms(2) by (simp add: skipped_Ok in_state_def)
  have "live ?c"
    by (rule live_set_state [OF assms(1) coord_inv_skipped [OF live_inv [OF assms(1)] r]]) simp
  then show ?thesis using r running_after [of ?s k c] step_skipped [OF r] by auto
qed

lemma not_dispatched_Ok:
  "record_not_dispatched c k r = Inr c' \<longleftrightarrow> bt_get (c_states c) k = Some Running \<and>
     c' = set_state k (NotDispatched (nonempty_diagnostic r ''node was not dispatched'')) c"
  by (auto simp: record_not_dispatched_def)

lemma others_running: "in_state c Running - {k} \<subseteq> in_state (set_state k s c) Running"
  by (auto simp: in_state_def)

lemma not_dispatched_all:
  assumes "distinct (map d_node_id ds)" "d_node_id ` set ds \<subseteq> in_state c Running"
  shows "\<exists>c'. try_fold (\<lambda>p c. record_not_dispatched c (d_node_id p) r) ds c = Inr c' \<and> coord_step\<^sup>*\<^sup>* c c'"
  using assms
proof (induction ds arbitrary: c)
  case (Cons d ds)
  let ?s = "NotDispatched (nonempty_diagnostic r ''node was not dispatched'')"
  let ?c = "set_state (d_node_id d) ?s c"
  have r: "record_not_dispatched c (d_node_id d) r = Inr ?c"
    using Cons.prems(2) by (simp add: not_dispatched_Ok in_state_def)
  have "d_node_id d \<notin> d_node_id ` set ds" using Cons.prems(1) by simp
  then have "d_node_id ` set ds \<subseteq> in_state c Running - {d_node_id d}"
    using Cons.prems(2) by (simp add: subset_Diff_insert)
  then have "d_node_id ` set ds \<subseteq> in_state ?c Running"
    using others_running by (rule order_trans)
  moreover have "distinct (map d_node_id ds)" using Cons.prems(1) by simp
  ultimately obtain c' where c': "try_fold (\<lambda>p c. record_not_dispatched c (d_node_id p) r) ds ?c = Inr c'"
    "coord_step\<^sup>*\<^sup>* ?c c'" using Cons.IH [of ?c] by blast
  have "coord_step\<^sup>*\<^sup>* c c'"
    by (rule converse_rtranclp_into_rtranclp [of coord_step, OF step_not_dispatched [OF r] c'(2)])
  then show ?case using r c'(1) by simp
qed simp

definition admitted :: "coordinator \<Rightarrow> (dispatch \<times> dispatch_cost) list \<Rightarrow> string option \<Rightarrow> bool" where
  "admitted c accepted stopped \<longleftrightarrow> stopped = None \<longrightarrow>
     live c \<and> in_state c Running = (d_node_id \<circ> fst) ` set accepted \<and> distinct (map (d_node_id \<circ> fst) accepted)"

lemma admit_live:
  assumes "live c" "in_state c Running = (d_node_id \<circ> fst) ` set accepted \<union> d_node_id ` set ds"
    and "distinct (map (d_node_id \<circ> fst) accepted @ map d_node_id ds)"
  shows "\<exists>c' accepted' stopped. admit estimate policy limit ds c projected accepted = Inr (c', accepted', stopped) \<and>
    admitted c' accepted' stopped \<and> coord_step\<^sup>*\<^sup>* c c'"
  using assms
proof (induction ds arbitrary: c projected accepted)
  case (Cons d ds)
  let ?cost = "estimate d" and ?k = "d_node_id d"
  have k: "?k \<in> in_state c Running" using Cons.prems(2) by simp
  show ?case
  proof (cases "exceeds policy (dc_bytes ?cost) limit")
    case True
    obtain c1 where c1: "record_skipped_oversize c ?k (oversize_reason ?cost policy limit) (dc_bytes ?cost) limit = Inr c1"
      "live c1" "in_state c1 Running = in_state c Running - {?k}" "coord_step c c1"
      using live_skipped [OF Cons.prems(1) k] by blast
    have "in_state c1 Running = (d_node_id \<circ> fst) ` set accepted \<union> d_node_id ` set ds"
      using c1(3) Cons.prems(2,3) by auto
    from Cons.IH [OF c1(2) this, of projected] Cons.prems(3) obtain c' accepted' stopped where
      "admit estimate policy limit ds c1 projected accepted = Inr (c', accepted', stopped)"
      "admitted c' accepted' stopped" "coord_step\<^sup>*\<^sup>* c1 c'" by auto
    then show ?thesis
      using c1(1) True converse_rtranclp_into_rtranclp [of coord_step, OF c1(4)] by (simp add: Let_def)
  next
    case small: False
    show ?thesis
    proof (cases "estimate_ok projected (dc_wall ?cost) (dc_bytes ?cost)")
      case True
      have "\<exists>c' accepted' stopped. admit estimate policy limit ds c
          (consume (dc_wall ?cost) (dc_bytes ?cost) projected) (accepted @ [(d, ?cost)]) = Inr (c', accepted', stopped) \<and>
          admitted c' accepted' stopped \<and> coord_step\<^sup>*\<^sup>* c c'"
        by (rule Cons.IH [OF Cons.prems(1)]) (use Cons.prems(2,3) in auto)
      then show ?thesis using small True by (simp add: Let_def)
    next
      case False
      let ?r = "refusal_reason ?cost"
      obtain c1 where c1: "record_not_dispatched c ?k ?r = Inr c1"
        "c1 = set_state ?k (NotDispatched (nonempty_diagnostic ?r ''node was not dispatched'')) c"
        using k by (simp add: not_dispatched_Ok in_state_def)
      have "d_node_id d \<notin> d_node_id ` set ds" using Cons.prems(3) by simp
      moreover have "d_node_id ` set ds \<subseteq> in_state c Running" using Cons.prems(2) by auto
      ultimately have "d_node_id ` set ds \<subseteq> in_state c Running - {?k}" by (simp add: subset_Diff_insert)
      then have "d_node_id ` set ds \<subseteq> in_state c1 Running"
        unfolding c1(2) using others_running by (rule order_trans)
      with not_dispatched_all [of ds c1 ?r] Cons.prems(3) obtain c2 where
        c2: "try_fold (\<lambda>p c. record_not_dispatched c (d_node_id p) ?r) ds c1 = Inr c2" "coord_step\<^sup>*\<^sup>* c1 c2" by auto
      have "coord_step\<^sup>*\<^sup>* c (mark_pending_not_dispatched c2 ?r)"
        by (rule rtranclp.rtrancl_into_rtrancl
            [of coord_step, OF converse_rtranclp_into_rtranclp [of coord_step, OF step_not_dispatched [OF c1(1)] c2(2)] step_mark])
      then show ?thesis using c1(1) c2(1) small False by (simp add: Let_def admitted_def)
    qed
  qed
qed (simp add: admitted_def)

section \<open>The rounds\<close>

lemma not_dispatched_steps:
  "try_fold (\<lambda>p c. record_not_dispatched c (d_node_id p) r) ds c = Inr c' \<Longrightarrow> coord_step\<^sup>*\<^sup>* c c'"
proof (induction ds arbitrary: c)
  case (Cons d ds)
  then obtain c1 where s: "record_not_dispatched c (d_node_id d) r = Inr c1"
    "try_fold (\<lambda>p c. record_not_dispatched c (d_node_id p) r) ds c1 = Inr c'" by (auto simp: and_then_eq_Inr)
  from converse_rtranclp_into_rtranclp [of coord_step, OF step_not_dispatched [OF s(1)] Cons.IH [OF s(2)]] show ?case .
qed simp

lemma steps_terminal:
  "coord_step\<^sup>*\<^sup>* c c' \<Longrightarrow> bt_get (c_states c) k = Some s \<Longrightarrow> is_terminal_state s \<Longrightarrow> bt_get (c_states c') k = Some s"
  by (induction rule: rtranclp_induct) (auto dest: step_terminal)

lemma admit_stopped:
  "admit estimate policy limit ds c projected accepted = Inr (c', accepted', Some k) \<Longrightarrow>
   \<exists>r. bt_get (c_states c') k = Some (NotDispatched r)"
proof (induction ds arbitrary: c projected accepted)
  case (Cons d ds)
  let ?cost = "estimate d" and ?r = "refusal_reason (estimate d)"
  show ?case
  proof (cases "exceeds policy (dc_bytes ?cost) limit \<or> estimate_ok projected (dc_wall ?cost) (dc_bytes ?cost)")
    case True
    then show ?thesis using Cons by (auto simp: Let_def and_then_eq_Inr split: if_splits)
  next
    case False
    then obtain c1 c2 where c: "record_not_dispatched c (d_node_id d) ?r = Inr c1"
      "try_fold (\<lambda>p c. record_not_dispatched c (d_node_id p) ?r) ds c1 = Inr c2"
      "c' = mark_pending_not_dispatched c2 ?r" "k = d_node_id d"
      using Cons.prems by (auto simp: Let_def and_then_eq_Inr)
    let ?s = "NotDispatched (nonempty_diagnostic ?r ''node was not dispatched'')"
    have "bt_get (c_states c1) k = Some ?s" using c(1,4) by (simp add: not_dispatched_Ok)
    moreover have "coord_step\<^sup>*\<^sup>* c1 c'"
      unfolding c(3) by (rule rtranclp.rtrancl_into_rtrancl [of coord_step, OF not_dispatched_steps [OF c(2)] step_mark])
    ultimately have "bt_get (c_states c') k = Some ?s" using steps_terminal by simp
    then show ?thesis by blast
  qed
qed simp

definition timed_well :: "timed_executor \<Rightarrow> string \<Rightarrow> bool" where
  "timed_well exec snap \<longleftrightarrow>
     (\<forall>d. \<exists>out secs. exec d = Some (out, secs) \<and> (\<forall>a \<in> set (outcome_artifacts out). a_snapshot a = snap))"

lemma execute_accepted_Ok:
  assumes "timed_well exec snap"
  shows "\<exists>rs. execute_accepted exec accepted = Some (Inr rs) \<and> map fst rs = map (d_node_id \<circ> fst) accepted \<and>
    (\<forall>r \<in> set rs. \<forall>a \<in> set (outcome_artifacts (fst (snd (snd r)))). a_snapshot a = snap)"
proof -
  let ?rs = "map (\<lambda>(d, cost). (d_node_id d, cost, fst (the (exec d)), max (snd (the (exec d))) 1)) accepted"
  have ex: "exec d = Some (fst (the (exec d)), snd (the (exec d)))"
    "\<forall>a \<in> set (outcome_artifacts (fst (the (exec d)))). a_snapshot a = snap" for d
    using assms unfolding timed_well_def by (metis fst_conv option.sel snd_conv)+
  have one: "map_option (\<lambda>(out, secs). (k, cost, out, max secs 1)) (exec d) =
      Some (k, cost, fst (the (exec d)), max (snd (the (exec d))) 1)" for d k and cost :: dispatch_cost
  proof -
    obtain out secs where "exec d = Some (out, secs)" using ex(1) [of d] by blast
    then show ?thesis by simp
  qed
  have "map (\<lambda>(d, cost). map_option (\<lambda>(out, secs). (d_node_id d, cost, out, max secs 1)) (exec d)) accepted = map Some ?rs"
    using one by (simp add: case_prod_unfold)
  then have "execute_accepted exec accepted = Some (Inr ?rs)"
    unfolding execute_accepted_def by (simp only: join_all_Ok)
  moreover have "map fst ?rs = map (d_node_id \<circ> fst) accepted" by auto
  moreover have "\<forall>r \<in> set ?rs. \<forall>a \<in> set (outcome_artifacts (fst (snd (snd r)))). a_snapshot a = snap"
    using ex(2) by auto
  ultimately show ?thesis by blast
qed

lemma record_timed_steps:
  "try_fold record_timed rs cb = Inr cb' \<Longrightarrow> coord_step\<^sup>*\<^sup>* (fst cb) (fst cb')"
proof (induction rs arbitrary: cb)
  case (Cons r rs)
  obtain c b k cost out secs where e: "cb = (c, b)" "r = (k, cost, out, secs)" by (metis prod_cases4 surj_pair)
  from Cons.prems obtain cb1 where r: "record_timed r cb = Inr cb1" "try_fold record_timed rs cb1 = Inr cb'"
    by (auto simp: and_then_eq_Inr)
  then obtain c1 b1 where s: "record_outcome c k out = Inr c1" "try_fold record_timed rs (c1, b1) = Inr cb'"
    by (cases cb1) (simp add: e record_timed_Ok)
  from converse_rtranclp_into_rtranclp [of coord_step, OF step_record [OF s(1)]] Cons.IH [OF s(2)] show ?case
    by (simp add: e)
qed simp

lemma budget_round:
  assumes c: "idle c" and unf: "\<not> is_terminal c" and wb: "timed_well exec (ds_snapshot (c_spec c))"
  obtains c2 accepted k where "admit estimate policy (snd (limits b)) (snd (next_batch c)) (fst (next_batch c)) b [] =
      Inr (c2, accepted, Some k)" "coord_step\<^sup>*\<^sup>* c c2"
  | c2 accepted rs c3 b3 where "admit estimate policy (snd (limits b)) (snd (next_batch c)) (fst (next_batch c)) b [] =
      Inr (c2, accepted, None)" "execute_accepted exec accepted = Some (Inr rs)"
      "try_fold record_timed (sort_key fst rs) (c2, b) = Inr (c3, b3)" "idle c3" "coord_step\<^sup>*\<^sup>* c c3"
      "unfinished c3 < unfinished c"
proof -
  let ?c1 = "fst (next_batch c)" and ?b = "snd (next_batch c)"
  have live: "live c" and none: "in_state c Running = {}" using c by (simp_all add: idle_def)
  note b = live_batch [OF live none unf] and step = step_batch [of c]
  obtain c2 accepted stopped where ad: "admit estimate policy (snd (limits b)) ?b ?c1 b [] = Inr (c2, accepted, stopped)"
    "admitted c2 accepted stopped" "coord_step\<^sup>*\<^sup>* ?c1 c2"
    using admit_live [OF b(3), of "[]" ?b estimate policy "snd (limits b)" b] b(2,4) by auto
  have steps: "coord_step\<^sup>*\<^sup>* c c2" by (rule converse_rtranclp_into_rtranclp [of coord_step, OF step ad(3)])
  show thesis
  proof (cases stopped)
    case (Some k)
    with ad(1) steps show ?thesis by (intro that(1)) simp_all
  next
    case None
    then have l2: "live c2" "in_state c2 Running = (d_node_id \<circ> fst) ` set accepted"
      "distinct (map (d_node_id \<circ> fst) accepted)" using ad(2) by (simp_all add: admitted_def)
    obtain rs where rs: "execute_accepted exec accepted = Some (Inr rs)" "map fst rs = map (d_node_id \<circ> fst) accepted"
      "\<forall>r \<in> set rs. \<forall>a \<in> set (outcome_artifacts (fst (snd (snd r)))). a_snapshot a = ds_snapshot (c_spec c)"
      using execute_accepted_Ok [OF wb] by blast
    let ?rs = "sort_key fst rs"
    have keys: "in_state c2 Running = fst ` set ?rs"
      using arg_cong [OF rs(2), of set] l2(2) by simp
    have "mset (map fst ?rs) = mset (map fst rs)" by simp
    then have dist: "distinct (map fst ?rs)"
      using l2(3) unfolding rs(2) [symmetric] by (metis mset_eq_imp_distinct_iff)
    have acc: "\<forall>r \<in> set ?rs. acceptable c2 (fst (snd (snd r)))"
      using rs(3) by (simp add: acceptable_def steps_fields(1) [OF steps])
    obtain c3 b3 where c3: "try_fold record_timed ?rs (c2, b) = Inr (c3, b3)" "live c3" "in_state c3 Running = {}"
      using budget_loop.record_all [of "(c2, b)" ?rs] l2(1) keys dist acc by auto
    have "length ?rs = length accepted" using arg_cong [OF rs(2), of length] by simp
    then have "unfinished c3 + length accepted \<le> unfinished c2"
      using budget_loop.record_all_le [OF c3(1)] by simp
    moreover have "unfinished c2 + length ?b \<le> unfinished ?c1 + length accepted"
      using admit_unfinished ad(1) None by fastforce
    ultimately have "unfinished c3 < unfinished c"
      using step_unfinished_le [OF step] b(1) by (cases ?b) auto
    moreover have "coord_step\<^sup>*\<^sup>* c c3" using steps record_timed_steps [OF c3(1)] by simp
    ultimately show ?thesis using that(2) ad(1) None rs(1) c3 by (simp add: idle_def)
  qed
qed

lemma budget_rounds_complete:
  assumes "idle c" "timed_well exec (ds_snapshot (c_spec c))"
  shows "\<exists>c' b' stopped. budget_rounds exec estimate policy c b = Some (Ok (c', b', stopped)) \<and>
    coord_step\<^sup>*\<^sup>* c c' \<and> (stopped = None \<longrightarrow> is_terminal c' \<and> idle c') \<and>
    (\<forall>k. stopped = Some k \<longrightarrow> (\<exists>r. bt_get (c_states c') k = Some (NotDispatched r)))"
  using assms
proof (induction "unfinished c" arbitrary: c b rule: less_induct)
  case less
  show ?case
  proof (cases "is_terminal c")
    case True
    with less.prems show ?thesis by (simp add: budget_rounds.simps [of exec estimate policy c b])
  next
    case False
    have ne: "snd (next_batch c) \<noteq> []"
      using live_batch(1) False less.prems(1) by (simp add: idle_def)
    note unfold = budget_rounds.simps [of exec estimate policy c b]
    show ?thesis
    proof (rule budget_round [OF less.prems(1) False less.prems(2), of estimate policy b])
      fix c2 accepted k
      assume ad: "admit estimate policy (snd (limits b)) (snd (next_batch c)) (fst (next_batch c)) b [] =
        Inr (c2, accepted, Some k)" and st: "coord_step\<^sup>*\<^sup>* c c2"
      then have "budget_rounds exec estimate policy c b = Some (Ok (c2, b, Some k))"
        using False ne by (simp add: unfold case_prod_unfold Let_def)
      with st admit_stopped [OF ad] show ?thesis by auto
    next
      fix c2 accepted rs c3 b3
      assume a: "admit estimate policy (snd (limits b)) (snd (next_batch c)) (fst (next_batch c)) b [] =
        Inr (c2, accepted, None)" "execute_accepted exec accepted = Some (Inr rs)"
        "try_fold record_timed (sort_key fst rs) (c2, b) = Inr (c3, b3)"
        and c3: "idle c3" "coord_step\<^sup>*\<^sup>* c c3" "unfinished c3 < unfinished c"
      have run: "budget_rounds exec estimate policy c b = budget_rounds exec estimate policy c3 b3"
        using False ne a by (simp add: unfold case_prod_unfold Let_def)
      have "timed_well exec (ds_snapshot (c_spec c3))"
        using less.prems(2) steps_fields(1) [OF c3(2)] by simp
      from less.hyps [OF c3(3,1) this, of b3] c3(2) show ?thesis
        unfolding run by (meson rtranclp_trans [of coord_step])
    qed
  qed
qed

section \<open>Properties\<close>


lemma in_values: "s \<in> set (bt_values m) \<longleftrightarrow> (\<exists>k. bt_get m k = Some s)"
  by (auto simp: set_bt_values ran_def)

lemma skipped_any_iff: "skipped_any (c_states c) \<longleftrightarrow> \<not> none_skipped c"
proof -
  have "skipped_any (c_states c) \<longleftrightarrow> (\<exists>k s. bt_get (c_states c) k = Some s \<and> (\<exists>r a l. s = SkippedOversize r a l))"
  proof -
    have "(case s of SkippedOversize _ _ _ \<Rightarrow> True | _ \<Rightarrow> False) \<longleftrightarrow> (\<exists>r a l. s = SkippedOversize r a l)" for s
      by (cases s) auto
    then show ?thesis unfolding skipped_any_def list_ex_iff using in_values [of _ "c_states c"] by metis
  qed
  then show ?thesis unfolding none_skipped_def by metis
qed

lemma exit_budget: "exit_code (budget_outcome stopped m) = 0 \<longleftrightarrow>
    stopped = None \<and> mf_outcome m = Completed \<and> \<not> skipped_any (mf_nodes m)"
  by (auto simp: budget_outcome_def exit_code_zero)

lemma budget_result:
  assumes new: "coordinator_new to_vec spec = Some (Inr c)" and wb: "timed_well exec (ds_snapshot spec)"
  obtains c' b' stopped where "run_budgeted exec c b estimate policy = Some (Ok (finish_budgeted policy (c', b', stopped)))"
    "reachable to_vec c'" "c_spec c' = spec" "stopped = None \<longrightarrow> is_terminal c' \<and> idle c'"
    "\<forall>k. stopped = Some k \<longrightarrow> (\<exists>r. bt_get (c_states c') k = Some (NotDispatched r))"
proof -
  have idle: "idle c" by (rule new_coordinator [OF new])
  have "timed_well exec (ds_snapshot (c_spec c))" using wb new_fields(1) [OF new] by simp
  from budget_rounds_complete [OF idle this, of estimate policy b] obtain c' b' stopped where
    r: "budget_rounds exec estimate policy c b = Some (Ok (c', b', stopped))" "coord_step\<^sup>*\<^sup>* c c'"
    "stopped = None \<longrightarrow> is_terminal c' \<and> idle c'"
    "\<forall>k. stopped = Some k \<longrightarrow> (\<exists>r. bt_get (c_states c') k = Some (NotDispatched r))" by blast
  have "run_budgeted exec c b estimate policy = Some (Ok (finish_budgeted policy (c', b', stopped)))"
    using r(1) by (simp add: run_budgeted_def)
  then show thesis
    using that reachable_steps [OF r(2) reach_new [OF new]] steps_fields(1) [OF r(2)] new_fields(1) [OF new] r(3,4)
    by metis
qed


definition demo_timed :: timed_executor where
  "demo_timed d = Some (OSuccess Pass [], 0)"

definition demo_estimate :: estimator where
  "demo_estimate d = \<lparr>dc_wall = 1, dc_bytes = 60\<rparr>"


lemma admit_accepted:
  assumes "admit estimate policy limit ds c projected accepted = Inr (c', accepted', stopped)"
    and "unat (b_bytes_consumed projected) + sum_list (map (\<lambda>d. unat (dc_bytes (estimate d))) ds) < 2 ^ 64"
  shows "\<exists>new. accepted' = accepted @ new \<and>
    (\<forall>(d, cost) \<in> set new. d \<in> set ds \<and> cost = estimate d \<and> \<not> exceeds policy (dc_bytes cost) limit) \<and>
    (new \<noteq> [] \<longrightarrow> b_estimable projected \<and> unat (b_bytes_consumed projected) +
       sum_list (map (\<lambda>(d, cost). unat (dc_bytes cost)) new) \<le> unat (b_bytes_limit projected))"
  using assms
proof (induction ds arbitrary: c projected accepted)
  case (Cons d ds)
  let ?cost = "estimate d"
  show ?case
  proof (cases "exceeds policy (dc_bytes ?cost) limit")
    case True
    then obtain c1 where "admit estimate policy limit ds c1 projected accepted = Inr (c', accepted', stopped)"
      using Cons.prems(1) by (auto simp: Let_def and_then_eq_Inr)
    from Cons.IH [OF this] Cons.prems(2) show ?thesis by auto
  next
    case small: False
    show ?thesis
    proof (cases "estimate_ok projected (dc_wall ?cost) (dc_bytes ?cost)")
      case False
      then have "accepted' = accepted" using Cons.prems(1) small by (auto simp: Let_def and_then_eq_Inr)
      then show ?thesis by simp
    next
      case True
      let ?p = "consume (dc_wall ?cost) (dc_bytes ?cost) projected"
      have add: "unat (b_bytes_consumed ?p) = unat (b_bytes_consumed projected) + unat (dc_bytes ?cost)"
        using Cons.prems(2) by (simp add: consume_def no_wrap_add)
      have ok: "unat (b_bytes_consumed ?p) \<le> unat (b_bytes_limit projected)" "b_estimable projected"
        using True by (auto simp: estimate_ok_def consume_def word_le_nat_alt Let_def split: if_splits)
      have "admit estimate policy limit ds c ?p (accepted @ [(d, ?cost)]) = Inr (c', accepted', stopped)"
        using Cons.prems(1) small True by (simp add: Let_def)
      moreover have "unat (b_bytes_consumed ?p) + sum_list (map (\<lambda>d. unat (dc_bytes (estimate d))) ds) < 2 ^ 64"
        using Cons.prems(2) add by simp
      ultimately obtain new where new: "accepted' = (accepted @ [(d, ?cost)]) @ new"
        "\<forall>(d, cost) \<in> set new. d \<in> set ds \<and> cost = estimate d \<and> \<not> exceeds policy (dc_bytes cost) limit"
        "new \<noteq> [] \<longrightarrow> b_estimable ?p \<and> unat (b_bytes_consumed ?p) +
           sum_list (map (\<lambda>(d, cost). unat (dc_bytes cost)) new) \<le> unat (b_bytes_limit ?p)"
        using Cons.IH by blast
      have lim: "b_bytes_limit ?p = b_bytes_limit projected" by (simp add: consume_def)
      have "unat (b_bytes_consumed projected) + sum_list (map (\<lambda>(d, cost). unat (dc_bytes cost)) ((d, ?cost) # new))
          \<le> unat (b_bytes_limit projected)"
        using new(3) add ok(1) lim by (cases new) auto
      then show ?thesis using new(1,2) small ok(2) by (intro exI [of _ "(d, ?cost) # new"]) auto
    qed
  qed
qed simp


lemma demo_admit: "admit demo_estimate oversize_policy_default 100 [demo_dispatch] demo_running with_defaults [] =
    Inr (demo_running, [(demo_dispatch, demo_estimate demo_dispatch)], None)"
  by (simp add: demo_estimate_def exceeds_nat oversize_policy_default_def estimate_ok_def with_defaults_def
      default_bytes_budget_def default_wall_clock_seconds_def consume_def Let_def)


abbreviation stopped_states :: "(json \<Rightarrow> u8 list) \<Rightarrow> coordinator" where
  "stopped_states to_vec \<equiv> (let r = nonempty_diagnostic (refusal_reason (demo_estimate (join_dispatch ''b''))) ''node was not dispatched'' in
     join_states to_vec [(''a'', Running), (''b'', NotDispatched r), (''c'', NotDispatched r)])"

lemma join_stopped:
  "run_budgeted exec (join_states to_vec [(''a'', Pending), (''b'', Pending), (''c'', Pending)])
     (budget_new 10 100 True) demo_estimate \<lparr>op_threshold = 100\<rparr> =
   Some (Ok (finish_budgeted \<lparr>op_threshold = 100\<rparr> (stopped_states to_vec, budget_new 10 100 True, Some ''b'')))"
proof -
  let ?r = "nonempty_diagnostic (refusal_reason (demo_estimate (join_dispatch ''b''))) ''node was not dispatched''"
  let ?c = "join_states to_vec [(''a'', Running), (''b'', NotDispatched ?r), (''c'', NotDispatched ?r)]"
  let ?b = "budget_new 10 100 True"
  have "admit demo_estimate \<lparr>op_threshold = 100\<rparr> 100 [join_dispatch ''a'', join_dispatch ''b'']
      (join_states to_vec [(''a'', Running), (''b'', Running), (''c'', Pending)]) ?b [] =
      Inr (?c, [(join_dispatch ''a'', demo_estimate (join_dispatch ''a''))], Some ''b'')"
    by (simp add: exceeds_nat demo_estimate_def estimate_ok_def budget_new_def consume_def Let_def
        record_not_dispatched_def join_states_def join_dispatch_def set_state_def mark_pending_not_dispatched_def)
  then have "budget_rounds exec demo_estimate \<lparr>op_threshold = 100\<rparr>
      (join_states to_vec [(''a'', Pending), (''b'', Pending), (''c'', Pending)]) ?b = Some (Ok (?c, ?b, Some ''b''))"
    by (simp add: budget_rounds.simps join_batch limits_def budget_new_def)
       (simp add: is_terminal_def join_states_def bt_values_def bt_iter_def bt_keys_def)
  then show ?thesis by (simp add: run_budgeted_def Let_def)
qed

text \<open>A run stopped by its budget can report nodes as running.  Two independent nodes are
  dispatched together; the first is accepted, the second stops the run, and the manifest of the
  finished run still says \<open>running\<close> for the first, which was never executed.\<close>

theorem stopped_run_leaves_running:
  "\<exists>r. run_budgeted exec (join_states to_vec [(''a'', Pending), (''b'', Pending), (''c'', Pending)])
        (budget_new 10 100 True) demo_estimate \<lparr>op_threshold = 100\<rparr> = Some (Ok r) \<and>
     bt_get (mf_nodes (br_manifest r)) ''a'' = Some Running \<and> mf_outcome (br_manifest r) = RFailed"
  unfolding join_stopped
  by (simp add: finish_budgeted_def run_manifest_def budget_outcome_def executed_any_def Let_def)
     (simp add: join_states_def bt_values_def bt_iter_def bt_keys_def)

end
