(* ===== verification/Authority.thy ===== *)
theory Authority
  imports Content_Contract
begin

text \<open>
  Authority transitions (crates/code-intel-cli/src/authority.rs): which source may turn which kind
  of artifact into which other, and which of these transitions need an approved authority event
  that nobody has used before.  A \<open>BTreeSet\<close> of strings is its sorted list.  The serialiser of
  \<open>serde_json\<close> is the parameter \<open>to_vec\<close>.
\<close>

section \<open>The policy\<close>

definition KINDS :: "string list" where
  "KINDS = [''observed_evidence'', ''engineering_fact'', ''derived_engineering_model'', ''proposal'',
     ''adoption_decision'', ''committed_engineering_plan'']"

definition ACTORS :: "string list" where
  "ACTORS = [''deterministic_pipeline'', ''human'', ''llm'', ''provider'', ''recommender'']"

definition TRUSTED_APPROVERS :: "(string \<times> string) list" where
  "TRUSTED_APPROVERS = [(''code-intel-maintainers'', ''repository_governance'')]"

definition ATTESTATION_SCHEME :: string where
  "ATTESTATION_SCHEME = ''repository-governed-sha256-v1''"

definition EDGES :: "(string \<times> string \<times> bool) list" where
  "EDGES =
     [(''observed_evidence'', ''engineering_fact'', False),
      (''observed_evidence'', ''proposal'', False),
      (''engineering_fact'', ''derived_engineering_model'', False),
      (''derived_engineering_model'', ''proposal'', False),
      (''proposal'', ''adoption_decision'', True),
      (''adoption_decision'', ''committed_engineering_plan'', True),
      (''proposal'', ''committed_engineering_plan'', True)]"

definition policy_document :: json where
  "policy_document = jobj
     [(''schema'', JStr ''code-intel-authority-transition-policy.v1''),
      (''artifactKinds'', JArr (map JStr KINDS)),
      (''actorKinds'', JArr (map JStr ACTORS)),
      (''edges'', JArr (map (\<lambda>(f, t, e). jobj
         [(''from'', JStr f), (''to'', JStr t), (''authorityEventRequired'', JBool e)]) EDGES)),
      (''restrictedActors'', jobj
         [(''llm'', JArr [JStr ''observed_evidence'', JStr ''proposal'']),
          (''provider'', JArr [JStr ''observed_evidence'', JStr ''proposal'']),
          (''recommender'', JArr [JStr ''observed_evidence'', JStr ''proposal''])]),
      (''trustedApprovers'', JArr (map (\<lambda>(i, r). jobj [(''id'', JStr i), (''role'', JStr r)]) TRUSTED_APPROVERS)),
      (''attestation'', jobj
         [(''scheme'', JStr ATTESTATION_SCHEME),
          (''meaning'', JStr ''content-bound repository sign-off, not cryptographic identity authentication'')]),
      (''rule'', JStr ''protected transitions are owned by an explicit approved authority event; source output alone has no commitment authority'')]"

section \<open>Shape checks\<close>

definition exact_fields :: "json \<Rightarrow> string list \<Rightarrow> string \<Rightarrow> string + unit" where
  "exact_fields v expected lbl =
     and_then (ok_or (as_object v) (lbl @ '' must be an object'')) (\<lambda>o'.
     ensure (set (bt_keys o') = set expected) (lbl @ '' fields are invalid''))"

definition nonempty_string :: "json \<Rightarrow> string option" where
  "nonempty_string v = (case as_str v of Some s \<Rightarrow> if s = [] then None else Some s | None \<Rightarrow> None)"

definition string_set :: "json \<Rightarrow> string \<Rightarrow> string + string list" where
  "string_set v lbl =
     and_then (ok_or (as_array v) (lbl @ '' must be an array'')) (\<lambda>values.
     try_fold (\<lambda>x result.
       and_then (ok_or (nonempty_string x) (lbl @ '' contains an invalid id'')) (\<lambda>item.
       and_then (ensure (item \<notin> set result) (lbl @ '' contains duplicate ids'')) (\<lambda>_.
       Ok (insort item result)))) values [])"

definition nonempty_field :: "json \<Rightarrow> string \<Rightarrow> string + unit" where
  "nonempty_field v lbl = ensure (nonempty_string v \<noteq> None) (lbl @ '' is invalid'')"

definition duplicates :: "string list \<Rightarrow> string list" where
  "duplicates values =
     (let counts = fold (\<lambda>v m. bt_insert v (case bt_get m v of None \<Rightarrow> 1 | Some n \<Rightarrow> n + 1) m) values []
      in map fst (filter (\<lambda>(v, n). n > (1 :: nat)) (bt_iter counts)))"

section \<open>Authority events\<close>

definition authority_event_digest :: "(json \<Rightarrow> u8 list) \<Rightarrow> json \<Rightarrow> string + string" where
  "authority_event_digest to_vec event =
     and_then (ok_or (as_array (jidx event ''evidenceIds'')) ''authority event evidenceIds must be an array'') (\<lambda>xs.
     and_then (try_fold (\<lambda>v acc. and_then (ok_or (as_str v) ''authority event evidenceIds contains an invalid id'')
         (\<lambda>s. Ok (acc @ [s]))) xs []) (\<lambda>evidence.
     Ok (oneshot_sha256_hex (to_vec (jobj
       [(''schema'', jidx event ''schema''), (''id'', jidx event ''id''), (''decision'', jidx event ''decision''),
        (''approver'', jidx event ''approver''), (''evidenceIds'', JArr (map JStr (sort evidence))),
        (''issuedAt'', jidx event ''issuedAt''), (''expiresAt'', jidx event ''expiresAt'')])))))"

definition validate_repository_attestation :: "(json \<Rightarrow> u8 list) \<Rightarrow> json \<Rightarrow> string + unit" where
  "validate_repository_attestation to_vec event =
     and_then (ok_or (as_str (jidx (jidx event ''approver'') ''id'')) ''approver id is invalid'') (\<lambda>approver_id.
     and_then (ok_or (as_str (jidx (jidx event ''approver'') ''role'')) ''approver role is invalid'') (\<lambda>approver_role.
     and_then (ensure ((approver_id, approver_role) \<in> set TRUSTED_APPROVERS)
       ''authority event approver is not trusted by repository policy'') (\<lambda>_.
     and_then (exact_fields (jidx event ''attestation'') [''scheme'', ''digest''] ''authority event attestation'') (\<lambda>_.
     and_then (ensure (jidx (jidx event ''attestation'') ''scheme'' = JStr ATTESTATION_SCHEME)
       ''authority event attestation scheme is invalid'') (\<lambda>_.
     and_then (ok_or (case as_str (jidx (jidx event ''attestation'') ''digest'') of
           Some d \<Rightarrow> if length d = 64 \<and> list_all is_lower_hex d then Some d else None
         | None \<Rightarrow> None) ''authority event attestation digest is invalid'') (\<lambda>digest.
     and_then (authority_event_digest to_vec event) (\<lambda>expected.
     ensure (digest = expected) ''authority event attestation content digest mismatch'')))))))"

definition validate_authority_event ::
    "(json \<Rightarrow> u8 list) \<Rightarrow> json \<Rightarrow> u64 \<Rightarrow> string list \<Rightarrow> string list \<Rightarrow> string list \<Rightarrow> string + string" where
  "validate_authority_event to_vec event evaluated_at known required_evidence used =
     (let base = [''schema'', ''id'', ''decision'', ''approver'', ''evidenceIds'', ''issuedAt'', ''expiresAt''];
          event_fields = (if jget event ''attestation'' \<noteq> None then base @ [''attestation''] else base) in
     and_then (exact_fields event event_fields ''authority event'') (\<lambda>_.
     and_then (ensure (jidx event ''schema'' = JStr ''code-intel-authority-event.v1''
         \<and> jidx event ''decision'' = JStr ''approved'') ''authority event must be explicitly approved'') (\<lambda>_.
     and_then (ok_or (nonempty_string (jidx event ''id'')) ''authority event id is invalid'') (\<lambda>id'.
     and_then (ensure (id' \<notin> set used) ''authority event replay is rejected'') (\<lambda>_.
     and_then (exact_fields (jidx event ''approver'') [''id'', ''role''] ''authority approver'') (\<lambda>_.
     and_then (nonempty_field (jidx (jidx event ''approver'') ''id'') ''approver id'') (\<lambda>_.
     and_then (nonempty_field (jidx (jidx event ''approver'') ''role'') ''approver role'') (\<lambda>_.
     and_then (string_set (jidx event ''evidenceIds'') ''authority event evidenceIds'') (\<lambda>event_evidence.
     and_then (ensure (event_evidence \<noteq> [] \<and> set event_evidence \<subseteq> set known
         \<and> set required_evidence \<subseteq> set event_evidence) ''authority event evidence is unknown or incomplete'') (\<lambda>_.
     and_then (ok_or (as_u64 (jidx event ''issuedAt'')) ''authority event issuedAt is invalid'') (\<lambda>issued.
     and_then (ok_or (as_u64 (jidx event ''expiresAt'')) ''authority event expiresAt is invalid'') (\<lambda>expires.
     and_then (ensure (\<not> (issued > evaluated_at \<or> expires < evaluated_at \<or> expires < issued))
         ''authority event is future-dated or expired'') (\<lambda>_.
     and_then (if jget event ''attestation'' \<noteq> None then validate_repository_attestation to_vec event else Ok ()) (\<lambda>_.
     Ok id'))))))))))))))"

definition validate_signed_authority_event ::
    "(json \<Rightarrow> u8 list) \<Rightarrow> json \<Rightarrow> u64 \<Rightarrow> string list \<Rightarrow> string list \<Rightarrow> string list \<Rightarrow> string + string" where
  "validate_signed_authority_event to_vec event evaluated_at known required_evidence used =
     and_then (validate_authority_event to_vec event evaluated_at known required_evidence used) (\<lambda>id'.
     and_then (ensure (jget event ''attestation'' \<noteq> None) ''repository sign-off attestation is required'') (\<lambda>_.
     Ok id'))"

definition validate_event ::
    "(json \<Rightarrow> u8 list) \<Rightarrow> json \<Rightarrow> u64 \<Rightarrow> string list \<Rightarrow> string list \<Rightarrow> string list \<Rightarrow> string + unit" where
  "validate_event to_vec event evaluated_at known evidence used =
     and_then (validate_authority_event to_vec event evaluated_at known evidence used) (\<lambda>_. Ok ())"

section \<open>One branch\<close>

definition find_edge :: "string \<Rightarrow> string \<Rightarrow> bool option" where
  "find_edge from to = map_option (\<lambda>(a, b, required). required) (find (\<lambda>(a, b, _). a = from \<and> b = to) EDGES)"

definition validate_branch ::
    "(json \<Rightarrow> u8 list) \<Rightarrow> json \<Rightarrow> u64 \<Rightarrow> string list \<Rightarrow> string list \<Rightarrow> string + unit" where
  "validate_branch to_vec branch evaluated_at known used =
     and_then (exact_fields branch [''branchId'', ''source'', ''current'', ''transition''] ''transition branch'') (\<lambda>_.
     and_then (nonempty_field (jidx branch ''branchId'') ''branchId'') (\<lambda>_.
     let source = jidx branch ''source''; current = jidx branch ''current''; transition = jidx branch ''transition'' in
     and_then (exact_fields source [''kind'', ''id''] ''source'') (\<lambda>_.
     and_then (ok_or (as_str (jidx source ''kind'')) ''source kind is invalid'') (\<lambda>actor.
     and_then (ensure (actor \<in> set ACTORS) ''source kind is unknown'') (\<lambda>_.
     and_then (nonempty_field (jidx source ''id'') ''source id'') (\<lambda>_.
     and_then (exact_fields current [''kind'', ''id''] ''current artifact'') (\<lambda>_.
     and_then (ok_or (as_str (jidx current ''kind'')) ''current kind is invalid'') (\<lambda>from.
     and_then (ensure (from \<in> set KINDS) ''current kind is unknown'') (\<lambda>_.
     and_then (nonempty_field (jidx current ''id'') ''current id'') (\<lambda>_.
     and_then (ok_or (as_object transition) ''transition must be an object'') (\<lambda>fields.
     and_then (ensure (set (bt_keys fields) \<subseteq> {''to'', ''outputId'', ''evidenceIds'', ''authorityEvent''}
         \<and> {''to'', ''outputId'', ''evidenceIds''} \<subseteq> set (bt_keys fields)) ''transition fields are invalid'') (\<lambda>_.
     and_then (ok_or (as_str (jidx transition ''to'')) ''transition target is invalid'') (\<lambda>to.
     and_then (ensure (to \<in> set KINDS) ''transition target is unknown'') (\<lambda>_.
     and_then (nonempty_field (jidx transition ''outputId'') ''transition outputId'') (\<lambda>_.
     and_then (string_set (jidx transition ''evidenceIds'') ''transition evidenceIds'') (\<lambda>evidence.
     and_then (ensure (evidence \<noteq> []) ''transition requires evidence'') (\<lambda>_.
     and_then (ensure (set evidence \<subseteq> set known) ''transition references unknown evidence'') (\<lambda>_.
     and_then (ok_or (find_edge from to) ''transition edge is not allowed'') (\<lambda>event_required.
     and_then (ensure (\<not> (actor \<in> {''llm'', ''provider'', ''recommender''} \<and>
         to \<notin> {''observed_evidence'', ''proposal'', ''adoption_decision'', ''committed_engineering_plan''}))
         ''source actor cannot create facts or derived models'') (\<lambda>_.
     let event = jget transition ''authorityEvent'' in
     if event_required
     then and_then (ok_or event ''protected transition requires authority event'') (\<lambda>ev.
            validate_event to_vec ev evaluated_at known evidence used)
     else ensure (event = None) ''unprotected transition must not consume an authority event''))))))))))))))))))))"

definition evaluate_branch ::
    "(json \<Rightarrow> u8 list) \<Rightarrow> json \<Rightarrow> nat \<Rightarrow> u64 \<Rightarrow> string list \<Rightarrow> string list \<Rightarrow> string list \<Rightarrow> string list \<Rightarrow> string list \<Rightarrow> json" where
  "evaluate_branch to_vec branch index evaluated_at known used duplicate_branches duplicate_outputs duplicate_events =
     (let branch_id = (case as_str (jidx branch ''branchId'') of Some s \<Rightarrow> s
                         | None \<Rightarrow> ''invalid-branch-'' @ show_nat index);
          text_at = (\<lambda>p. case jptr branch p of Some v \<Rightarrow> as_str v | None \<Rightarrow> None);
          from = (case text_at [''current'', ''kind''] of Some s \<Rightarrow> s | None \<Rightarrow> []);
          to = (case text_at [''transition'', ''to''] of Some s \<Rightarrow> s | None \<Rightarrow> []);
          output_id = (case text_at [''transition'', ''outputId''] of Some s \<Rightarrow> s | None \<Rightarrow> []);
          event_id = text_at [''transition'', ''authorityEvent'', ''id''];
          authority_event = jptr branch [''transition'', ''authorityEvent''];
          decision = and_then (validate_branch to_vec branch evaluated_at known used) (\<lambda>_.
            if branch_id \<in> set duplicate_branches then Err ''duplicate branchId''
            else if output_id \<in> set duplicate_outputs then Err ''duplicate transition outputId''
            else if (case event_id of Some i \<Rightarrow> i \<in> set duplicate_events | None \<Rightarrow> False)
            then Err ''duplicate authority event use'' else Ok ())
      in case decision of
           Inr _ \<Rightarrow> jobj
             [(''branchId'', JStr branch_id), (''status'', JStr ''accepted''), (''from'', JStr from), (''to'', JStr to),
              (''outputId'', JStr output_id), (''authorityEventId'', jopt_str event_id),
              (''authorityEvent'', jopt authority_event),
              (''effectiveAuthority'', JStr (if event_id \<noteq> None then ''authority_event'' else ''deterministic_policy'')),
              (''diagnostics'', JArr [])]
         | Inl message \<Rightarrow> jobj
             [(''branchId'', JStr branch_id), (''status'', JStr ''rejected''), (''from'', JStr from), (''to'', JStr to),
              (''outputId'', JNull), (''authorityEventId'', JNull), (''authorityEvent'', JNull),
              (''effectiveAuthority'', JNull), (''diagnostics'', JArr [JStr message])])"

section \<open>A batch of branches\<close>

definition validate_batch :: "json \<Rightarrow> string + unit" where
  "validate_batch request =
     and_then (exact_fields request [''schema'', ''evaluatedAt'', ''knownEvidenceIds'', ''consumedAuthorityEventIds'', ''branches'']
       ''authority batch'') (\<lambda>_.
     and_then (ensure (jidx request ''schema'' = JStr ''code-intel-authority-transition-batch.v1'')
       ''authority batch schema is invalid'') (\<lambda>_.
     and_then (ok_or (as_u64 (jidx request ''evaluatedAt'')) ''evaluatedAt must be a non-negative integer'') (\<lambda>_.
     and_then (string_set (jidx request ''knownEvidenceIds'') ''knownEvidenceIds'') (\<lambda>_.
     and_then (string_set (jidx request ''consumedAuthorityEventIds'') ''consumedAuthorityEventIds'') (\<lambda>_.
     and_then (ok_or (as_array (jidx request ''branches'')) ''branches must be an array'') (\<lambda>branches.
     ensure (branches \<noteq> []) ''branches must not be empty''))))))"

definition ptr_strs :: "string list \<Rightarrow> json list \<Rightarrow> string list" where
  "ptr_strs p branches = List.map_filter (\<lambda>b. case jptr b p of Some v \<Rightarrow> as_str v | None \<Rightarrow> None) branches"

definition accepted_result :: "json \<Rightarrow> bool" where
  "accepted_result r \<longleftrightarrow> jidx r ''status'' = JStr ''accepted''"

definition evaluate_batch :: "(json \<Rightarrow> u8 list) \<Rightarrow> json \<Rightarrow> string + json" where
  "evaluate_batch to_vec request =
     and_then (validate_batch request) (\<lambda>_.
     let evaluated_at = the (as_u64 (jidx request ''evaluatedAt'')) in
     and_then (string_set (jidx request ''knownEvidenceIds'') ''knownEvidenceIds'') (\<lambda>known.
     and_then (string_set (jidx request ''consumedAuthorityEventIds'') ''consumedAuthorityEventIds'') (\<lambda>used.
     let branches = the (as_array (jidx request ''branches''));
         duplicate_branches = duplicates (List.map_filter (\<lambda>b. as_str (jidx b ''branchId'')) branches);
         duplicate_outputs = duplicates (ptr_strs [''transition'', ''outputId''] branches);
         duplicate_events = duplicates (ptr_strs [''transition'', ''authorityEvent'', ''id''] branches);
         results = map (\<lambda>(index, branch). evaluate_branch to_vec branch index evaluated_at known used
                          duplicate_branches duplicate_outputs duplicate_events) (enumerate 0 branches);
         accepted = length (filter accepted_result results);
         rejected = length results - accepted;
         consumed_events = fold insort_insert
           (List.map_filter (\<lambda>r. as_str (jidx r ''authorityEventId'')) (filter accepted_result results)) used
     in Ok (jobj
       [(''schema'', JStr ''code-intel-authority-transition-result.v1''),
        (''status'', JStr ''completed''),
        (''summary'', jobj [(''accepted'', ju64 (of_nat accepted)), (''rejected'', ju64 (of_nat rejected))]),
        (''consumedAuthorityEventIds'', JArr (map JStr consumed_events)),
        (''branches'', JArr results)]))))"

end
