(* ===== verification/Authority_Props.thy ===== *)
theory Authority_Props
  imports Authority
begin

text \<open>
  What the authority policy guarantees: an accepted transition is an edge of the policy and, where
  the edge is protected, backed by a valid event that was not used before; a batch uses every
  event at most once, and so does any sequence of batches that hands on the used events.
\<close>

section \<open>Shape checks\<close>

lemma exact_fields_Ok:
  "exact_fields v ks lbl = Inr u \<longleftrightarrow> (\<exists>o'. v = JObj o' \<and> set (bt_keys o') = set ks)"
  by (auto simp: exact_fields_def and_then_eq_Inr as_object_eq)

lemma nonempty_string_Some: "nonempty_string v = Some s \<longleftrightarrow> v = JStr s \<and> s \<noteq> []"
  by (auto simp: nonempty_string_def as_str_eq split: option.splits if_splits)

lemma nonempty_field_Ok: "nonempty_field v lbl = Inr u \<longleftrightarrow> (\<exists>s. v = JStr s \<and> s \<noteq> [])"
  by (auto simp: nonempty_field_def nonempty_string_Some)

lemma jidx_str: "jidx v k = JStr s \<longleftrightarrow> jget v k = Some (JStr s)"
  by (auto simp: jidx_def split: option.splits)

abbreviation set_item :: "string \<Rightarrow> string \<Rightarrow> json \<Rightarrow> string list \<Rightarrow> string + string list" where
  "set_item e1 e2 x result \<equiv> and_then (ok_or (nonempty_string x) e1) (\<lambda>item.
     and_then (ensure (item \<notin> set result) e2) (\<lambda>_. Ok (insort item result)))"

lemma string_set_loop:
  assumes "try_fold (set_item e1 e2) xs acc = Inr r"
  shows "\<exists>ss. xs = map JStr ss \<and> set r = set ss \<union> set acc \<and> (distinct acc \<longrightarrow> distinct r) \<and> (sorted acc \<longrightarrow> sorted r) \<and>
    distinct ss \<and> [] \<notin> set ss \<and> set ss \<inter> set acc = {}"
  using assms
proof (induction xs arbitrary: acc)
  case (Cons x xs)
  then obtain s where s: "x = JStr s" "s \<noteq> []" "s \<notin> set acc"
    and rest: "try_fold (set_item e1 e2) xs (insort s acc) = Inr r"
    by (auto simp: and_then_eq_Inr nonempty_string_Some)
  obtain ss where "xs = map JStr ss" "set r = set ss \<union> set (insort s acc)"
    "distinct (insort s acc) \<longrightarrow> distinct r" "sorted (insort s acc) \<longrightarrow> sorted r" "distinct ss" "[] \<notin> set ss"
    "set ss \<inter> set (insort s acc) = {}"
    using Cons.IH [OF rest] by blast
  with s show ?case
    by (intro exI [of _ "s # ss"]) (auto simp: set_insort_key distinct_insort sorted_insort)
qed simp

lemma string_set_Ok:
  assumes "string_set v lbl = Inr r"
  shows "\<exists>ss. v = JArr (map JStr ss) \<and> set r = set ss \<and> distinct r \<and> sorted r \<and> [] \<notin> set r"
proof -
  from assms obtain xs where xs: "v = JArr xs" "try_fold (set_item (lbl @ '' contains an invalid id'') (lbl @ '' contains duplicate ids'')) xs [] = Inr r"
    by (auto simp: string_set_def and_then_eq_Inr as_array_eq)
  from string_set_loop [OF xs(2)] xs(1) show ?thesis by auto
qed

lemma count_fold:
  "bt_get (fold (\<lambda>v m. bt_insert v (case bt_get m v of None \<Rightarrow> 1 | Some n \<Rightarrow> n + 1) m) vs m) v =
     (if count_list vs v = 0 then bt_get m v
      else Some (count_list vs v + (case bt_get m v of None \<Rightarrow> 0 | Some n \<Rightarrow> n)) :: nat option)"
  by (induction vs arbitrary: m) (auto split: option.splits)

lemma set_duplicates: "set (duplicates vs) = {v. 1 < count_list vs v}"
proof -
  let ?m = "fold (\<lambda>v m. bt_insert v (case bt_get m v of None \<Rightarrow> 1 | Some n \<Rightarrow> n + 1) m) vs []"
  have "v \<in> set (duplicates vs) \<longleftrightarrow> (\<exists>n. bt_get ?m v = Some n \<and> n > (1 :: nat))" for v
    by (auto simp: duplicates_def Let_def set_bt_iter image_iff)
  then show ?thesis by (auto simp: count_fold split: if_splits)
qed

lemma ptr_two: "jptr v [a, b] = Some x \<longleftrightarrow> (\<exists>u. jget v a = Some u \<and> jget u b = Some x)"
  by (auto split: option.splits)

lemma jget_jidx: "jget (jidx v k) j = Some x \<longleftrightarrow> (\<exists>u. jget v k = Some u \<and> jget u j = Some x)"
  by (auto simp: jidx_def split: option.splits)

section \<open>Accepted branches\<close>

text \<open>An event that approves a transition now: approved, in its time window, not used before, with
  known evidence that covers the transition's.\<close>

definition event_approves :: "json \<Rightarrow> string \<Rightarrow> u64 \<Rightarrow> string set \<Rightarrow> string set \<Rightarrow> string set \<Rightarrow> bool" where
  "event_approves ev i evaluated_at known evidence used \<longleftrightarrow>
     jget ev ''id'' = Some (JStr i) \<and> i \<noteq> [] \<and> i \<notin> used \<and> jget ev ''decision'' = Some (JStr ''approved'') \<and>
     (\<exists>es. jget ev ''evidenceIds'' = Some (JArr (map JStr es)) \<and> evidence \<subseteq> set es \<and> set es \<subseteq> known) \<and>
     (\<exists>issued expires. jget ev ''issuedAt'' = Some (ju64 issued) \<and> jget ev ''expiresAt'' = Some (ju64 expires) \<and>
        issued \<le> evaluated_at \<and> evaluated_at \<le> expires)"

lemma jidx_arr: "jidx v k = JArr xs \<longleftrightarrow> jget v k = Some (JArr xs)"
  by (auto simp: jidx_def split: option.splits)

lemma jidx_u64: "jidx v k = ju64 n \<longleftrightarrow> jget v k = Some (ju64 n)"
  by (auto simp: jidx_def ju64_def split: option.splits)

lemma event_Ok:
  assumes "validate_authority_event to_vec ev evaluated_at known evidence used = Inr i"
  shows "event_approves ev i evaluated_at (set known) (set evidence) (set used)"
proof -
  from assms obtain ee issued expires where e: "jidx ev ''decision'' = JStr ''approved''"
    "nonempty_string (jidx ev ''id'') = Some i" "i \<notin> set used"
    "string_set (jidx ev ''evidenceIds'') ''authority event evidenceIds'' = Inr ee"
    "set ee \<subseteq> set known" "set evidence \<subseteq> set ee"
    "as_u64 (jidx ev ''issuedAt'') = Some issued" "as_u64 (jidx ev ''expiresAt'') = Some expires"
    "\<not> (issued > evaluated_at \<or> expires < evaluated_at \<or> expires < issued)"
    unfolding validate_authority_event_def Let_def and_then_eq_Inr ensure_eq_Inr ok_or_eq_Inr
    by (elim exE conjE) simp
  from string_set_Ok [OF e(4)] obtain ss where "jidx ev ''evidenceIds'' = JArr (map JStr ss)" "set ee = set ss"
    by blast
  with e show ?thesis
    by (auto simp: event_approves_def nonempty_string_Some jidx_str jidx_arr as_u64_eq jidx_u64 not_less)
qed

definition restricted_actors :: "string set" where
  "restricted_actors = {''llm'', ''provider'', ''recommender''}"

definition derived_kinds :: "string set" where
  "derived_kinds = {''engineering_fact'', ''derived_engineering_model''}"

definition transition_allowed :: "json \<Rightarrow> u64 \<Rightarrow> string set \<Rightarrow> string set \<Rightarrow> bool" where
  "transition_allowed branch evaluated_at known used \<longleftrightarrow>
     (\<exists>actor from to required evidence.
        jptr branch [''source'', ''kind''] = Some (JStr actor) \<and> actor \<in> set ACTORS \<and>
        jptr branch [''current'', ''kind''] = Some (JStr from) \<and> jptr branch [''transition'', ''to''] = Some (JStr to) \<and>
        (from, to, required) \<in> set EDGES \<and> (actor \<in> restricted_actors \<longrightarrow> to \<notin> derived_kinds) \<and>
        jptr branch [''transition'', ''evidenceIds''] = Some (JArr (map JStr evidence)) \<and>
        evidence \<noteq> [] \<and> set evidence \<subseteq> known \<and>
        (if required
         then \<exists>ev i. jptr branch [''transition'', ''authorityEvent''] = Some ev \<and>
                event_approves ev i evaluated_at known (set evidence) used
         else jptr branch [''transition'', ''authorityEvent''] = None))"

lemma find_edge_Some: "find_edge from to = Some r \<Longrightarrow> (from, to, r) \<in> set EDGES"
  by (auto simp: find_edge_def find_Some_iff) (metis nth_mem)

lemma edge_kinds: "(from, to, r) \<in> set EDGES \<Longrightarrow> to \<in> set KINDS"
  by (auto simp: EDGES_def KINDS_def)

lemma branch_Ok:
  assumes "validate_branch to_vec branch evaluated_at known used = Inr u"
  shows "transition_allowed branch evaluated_at (set known) (set used)"
proof -
  let ?t = "jidx branch ''transition''"
  from assms obtain actor frm to evidence required where
    b: "as_str (jidx (jidx branch ''source'') ''kind'') = Some actor" "actor \<in> set ACTORS"
    "as_str (jidx (jidx branch ''current'') ''kind'') = Some frm" "as_str (jidx ?t ''to'') = Some to"
    "string_set (jidx ?t ''evidenceIds'') ''transition evidenceIds'' = Inr evidence" "evidence \<noteq> []"
    "set evidence \<subseteq> set known" "find_edge frm to = Some required"
    "\<not> (actor \<in> {''llm'', ''provider'', ''recommender''} \<and>
        to \<notin> {''observed_evidence'', ''proposal'', ''adoption_decision'', ''committed_engineering_plan''})"
    "(if required then and_then (ok_or (jget ?t ''authorityEvent'') ''protected transition requires authority event'')
        (\<lambda>ev. validate_event to_vec ev evaluated_at known evidence used)
      else ensure (jget ?t ''authorityEvent'' = None) ''unprotected transition must not consume an authority event'') = Inr u"
    and obj: "\<exists>fields. as_object ?t = Some fields"
    unfolding validate_branch_def Let_def and_then_eq_Inr ensure_eq_Inr ok_or_eq_Inr
    by (elim exE conjE) simp
  from string_set_Ok [OF b(5)] obtain ss where ss: "jidx ?t ''evidenceIds'' = JArr (map JStr ss)" "set evidence = set ss"
    by blast
  have "to \<notin> derived_kinds" if "actor \<in> restricted_actors"
    using b(9) that by (auto simp: restricted_actors_def derived_kinds_def)
  moreover have "(if required
         then \<exists>ev i. jptr branch [''transition'', ''authorityEvent''] = Some ev \<and>
                event_approves ev i evaluated_at (set known) (set evidence) (set used)
         else jptr branch [''transition'', ''authorityEvent''] = None)"
  proof (cases required)
    case True
    with b(10) obtain ev i where ev: "jget ?t ''authorityEvent'' = Some ev"
      "validate_authority_event to_vec ev evaluated_at known evidence used = Inr i"
      by (auto simp: validate_event_def and_then_eq_Inr)
    with event_Ok [OF ev(2)] True show ?thesis by (auto simp: jget_jidx split: option.splits)
  next
    case False
    with b(10) show ?thesis by (auto simp: jidx_def split: option.splits)
  qed
  moreover have "ss \<noteq> []" using b(6) ss(2) by auto
  ultimately show ?thesis
    using b(1-4,7) ss find_edge_Some [OF b(8)]
    unfolding transition_allowed_def ptr_two as_str_eq jidx_str jidx_arr jget_jidx
    by (intro exI [of _ actor] exI [of _ frm] exI [of _ to] exI [of _ required] exI [of _ ss]) auto
qed

section \<open>Batches\<close>

definition text_ptr :: "json \<Rightarrow> string list \<Rightarrow> string option" where
  "text_ptr b p = (case jptr b p of Some v \<Rightarrow> as_str v | None \<Rightarrow> None)"

lemma ptr_strs_eq: "ptr_strs p bs = List.map_filter (\<lambda>b. text_ptr b p) bs"
  by (simp add: ptr_strs_def text_ptr_def)

definition branch_name :: "json \<Rightarrow> nat \<Rightarrow> string" where
  "branch_name b i = (case as_str (jidx b ''branchId'') of Some s \<Rightarrow> s | None \<Rightarrow> ''invalid-branch-'' @ show_nat i)"

text \<open>What the evaluation of a branch decides.\<close>

lemma evaluate_branch_status:
  "accepted_result (evaluate_branch to_vec b i at known used db do de) \<longleftrightarrow>
     validate_branch to_vec b at known used = Inr () \<and> branch_name b i \<notin> set db \<and>
     (case text_ptr b [''transition'', ''outputId''] of Some s \<Rightarrow> s | None \<Rightarrow> []) \<notin> set do \<and>
     (\<forall>e. text_ptr b [''transition'', ''authorityEvent'', ''id''] = Some e \<longrightarrow> e \<notin> set de)"
proof -
  have st: "jidx (jobj [(''branchId'', a), (''status'', JStr ''accepted''), (''from'', c), (''to'', d),
      (''outputId'', e), (''authorityEventId'', f), (''authorityEvent'', g), (''effectiveAuthority'', h), (''diagnostics'', k)]) ''status'' = JStr ''accepted''"
    "jidx (jobj [(''branchId'', a), (''status'', JStr ''rejected''), (''from'', c), (''to'', d),
      (''outputId'', e), (''authorityEventId'', f), (''authorityEvent'', g), (''effectiveAuthority'', h), (''diagnostics'', k)]) ''status'' \<noteq> JStr ''accepted''"
    for a c d e f g h k
    by (simp_all add: jidx_jobj)
  show ?thesis
    unfolding evaluate_branch_def Let_def accepted_result_def branch_name_def [symmetric] text_ptr_def [symmetric]
    by (cases "validate_branch to_vec b at known used") (auto simp: st split: option.splits)
qed

lemma evaluate_branch_event:
  "accepted_result (evaluate_branch to_vec b i at known used db do de) \<Longrightarrow>
   as_str (jidx (evaluate_branch to_vec b i at known used db do de) ''authorityEventId'') =
     text_ptr b [''transition'', ''authorityEvent'', ''id'']"
proof -
  assume "accepted_result (evaluate_branch to_vec b i at known used db do de)"
  note d = this [unfolded evaluate_branch_status]
  let ?e = "text_ptr b [''transition'', ''authorityEvent'', ''id'']"
  have "jidx (evaluate_branch to_vec b i at known used db do de) ''authorityEventId'' = jopt_str ?e"
    unfolding evaluate_branch_def Let_def branch_name_def [symmetric] text_ptr_def [symmetric]
    using d by (cases ?e) (simp_all add: jidx_jobj)
  then show ?thesis by (simp add: jopt_str_def split: option.splits)
qed

definition accepted_event_ids :: "json \<Rightarrow> string list" where
  "accepted_event_ids result = List.map_filter (\<lambda>r. as_str (jidx r ''authorityEventId''))
     (filter accepted_result (the (as_array (jidx result ''branches''))))"

definition used_ids :: "json \<Rightarrow> string set" where
  "used_ids v = {s. \<exists>xs. jidx v ''consumedAuthorityEventIds'' = JArr xs \<and> JStr s \<in> set xs}"

lemma count_map_filter_le:
  "count_list (List.map_filter f (filter P xs)) x \<le> count_list (List.map_filter f xs) x"
  by (induction xs) (auto simp: List.map_filter_simps split: option.splits)

lemma distinct_count: "(\<And>x. x \<in> set xs \<Longrightarrow> count_list xs x \<le> 1) \<Longrightarrow> distinct xs"
proof (induction xs)
  case (Cons a xs)
  have "count_list xs a = 0" using Cons.prems [of a] by simp
  then have "a \<notin> set xs" by (simp add: count_list_0_iff)
  moreover have "distinct xs"
  proof (rule Cons.IH)
    fix x assume "x \<in> set xs"
    then show "count_list xs x \<le> 1" using Cons.prems [of x] by (auto split: if_splits)
  qed
  ultimately show ?case by simp
qed simp

lemma set_fold_insort: "set (fold insort_insert xs acc) = set xs \<union> set acc"
  by (induction xs arbitrary: acc) (auto simp: set_insort_insert)

lemma map_filter_map: "List.map_filter f (map g xs) = List.map_filter (f \<circ> g) xs"
  by (induction xs) (auto simp: List.map_filter_simps split: option.splits)

lemma map_filter_cong: "(\<And>x. x \<in> set xs \<Longrightarrow> f x = g x) \<Longrightarrow> List.map_filter f xs = List.map_filter g xs"
  by (induction xs) (auto simp: List.map_filter_simps split: option.splits)

lemma map_filter_enumerate:
  "List.map_filter (\<lambda>(i, b). f b) (enumerate n xs) = List.map_filter f xs"
  by (induction xs arbitrary: n) (auto simp: List.map_filter_simps split: option.splits)

lemma set_map_filter: "set (List.map_filter f xs) = {y. \<exists>x \<in> set xs. f x = Some y}"
  by (induction xs) (auto simp: List.map_filter_simps split: option.splits)

lemma evaluate_batch_Ok:
  assumes "evaluate_batch to_vec request = Inr result"
  obtains known used branches at db do where
    "string_set (jidx request ''knownEvidenceIds'') ''knownEvidenceIds'' = Inr known"
    "string_set (jidx request ''consumedAuthorityEventIds'') ''consumedAuthorityEventIds'' = Inr used"
    "jidx request ''branches'' = JArr branches" "as_u64 (jidx request ''evaluatedAt'') = Some at"
    "as_array (jidx result ''branches'') = Some (map (\<lambda>(i, b). evaluate_branch to_vec b i at known used db do
        (duplicates (ptr_strs [''transition'', ''authorityEvent'', ''id''] branches))) (enumerate 0 branches))"
    "jidx result ''consumedAuthorityEventIds'' = JArr (map JStr (fold insort_insert (accepted_event_ids result) used))"
proof -
  from assms have v: "validate_batch request = Inr ()" by (auto simp: evaluate_batch_def and_then_eq_Inr)
  then obtain at branches where at: "as_u64 (jidx request ''evaluatedAt'') = Some at"
    and branches: "jidx request ''branches'' = JArr branches"
    by (auto simp: validate_batch_def and_then_eq_Inr as_array_eq)
  from assms obtain known used where
    known: "string_set (jidx request ''knownEvidenceIds'') ''knownEvidenceIds'' = Inr known"
    and used: "string_set (jidx request ''consumedAuthorityEventIds'') ''consumedAuthorityEventIds'' = Inr used"
    by (auto simp: evaluate_batch_def and_then_eq_Inr Let_def)
  let ?db = "duplicates (List.map_filter (\<lambda>b. as_str (jidx b ''branchId'')) branches)"
  let ?do = "duplicates (ptr_strs [''transition'', ''outputId''] branches)"
  let ?rs = "map (\<lambda>(i, b). evaluate_branch to_vec b i at known used ?db ?do
        (duplicates (ptr_strs [''transition'', ''authorityEvent'', ''id''] branches))) (enumerate 0 branches)"
  from assms have r: "jidx result ''branches'' = JArr ?rs"
    "jidx result ''consumedAuthorityEventIds'' = JArr (map JStr (fold insort_insert
       (List.map_filter (\<lambda>r. as_str (jidx r ''authorityEventId'')) (filter accepted_result ?rs)) used))"
    unfolding evaluate_batch_def v and_then_Inr Let_def known used at branches as_array.simps option.sel
    by (auto simp: jidx_jobj)
  show thesis
    by (rule that [where db = ?db and do = ?do, OF known used branches at]) (simp_all add: r accepted_event_ids_def)
qed

lemma string_set_used:
  assumes "string_set (jidx v ''consumedAuthorityEventIds'') lbl = Inr used"
  shows "used_ids v = set used"
proof -
  from string_set_Ok [OF assms] obtain ss where
    "jidx v ''consumedAuthorityEventIds'' = JArr (map JStr ss)" "set used = set ss" by blast
  then show ?thesis unfolding used_ids_def by (simp add: image_iff)
qed

lemma allowed_event_fresh:
  assumes "transition_allowed b at known used" "text_ptr b [''transition'', ''authorityEvent'', ''id''] = Some e"
  shows "e \<notin> used"
proof -
  obtain ev where ev: "jptr b [''transition'', ''authorityEvent''] = Some ev" "jget ev ''id'' = Some (JStr e)"
    using assms(2) by (auto simp: text_ptr_def as_str_eq split: option.splits)
  with assms(1) obtain i E where "event_approves ev i at known E used"
    unfolding transition_allowed_def by (auto simp del: jptr.simps split: if_splits)
  with ev(2) show ?thesis by (simp add: event_approves_def)
qed

lemma batch_ids:
  assumes "evaluate_batch to_vec request = Inr result"
  shows "distinct (accepted_event_ids result) \<and> set (accepted_event_ids result) \<inter> used_ids request = {} \<and>
    used_ids result = used_ids request \<union> set (accepted_event_ids result)"
proof -
  obtain known used branches at db do where
    "string_set (jidx request ''knownEvidenceIds'') ''knownEvidenceIds'' = Inr known"
    and used: "string_set (jidx request ''consumedAuthorityEventIds'') ''consumedAuthorityEventIds'' = Inr used"
    and "jidx request ''branches'' = JArr branches" "as_u64 (jidx request ''evaluatedAt'') = Some at"
    and res: "as_array (jidx result ''branches'') = Some (map (\<lambda>(i, b). evaluate_branch to_vec b i at known used db do
        (duplicates (ptr_strs [''transition'', ''authorityEvent'', ''id''] branches))) (enumerate 0 branches))"
    and consumed: "jidx result ''consumedAuthorityEventIds'' = JArr (map JStr (fold insort_insert (accepted_event_ids result) used))"
    by (rule evaluate_batch_Ok [OF assms])
  let ?f = "\<lambda>b. text_ptr b [''transition'', ''authorityEvent'', ''id'']"
  let ?de = "duplicates (List.map_filter ?f branches)"
  let ?ev = "\<lambda>(i, b). evaluate_branch to_vec b i at known used db do ?de"
  let ?acc = "filter (accepted_result \<circ> ?ev) (enumerate 0 branches)"
  have ids: "accepted_event_ids result = List.map_filter (\<lambda>(i, b). ?f b) ?acc"
    unfolding accepted_event_ids_def res option.sel ptr_strs_eq filter_map map_filter_map
    by (rule map_filter_cong) (auto simp: evaluate_branch_event)
  have member: "\<exists>i b. (i, b) \<in> set ?acc \<and> ?f b = Some e" if "e \<in> set (accepted_event_ids result)" for e
    using that unfolding ids set_map_filter by auto
  have "distinct (accepted_event_ids result)"
  proof (rule distinct_count)
    fix e assume "e \<in> set (accepted_event_ids result)"
    then obtain i b where "(i, b) \<in> set ?acc" "?f b = Some e" using member by blast
    then have "e \<notin> set ?de" by (auto simp: evaluate_branch_status)
    then have "count_list (List.map_filter ?f branches) e \<le> 1" by (simp add: set_duplicates)
    moreover have "count_list (accepted_event_ids result) e \<le> count_list (List.map_filter ?f branches) e"
      unfolding ids using count_map_filter_le [of "\<lambda>(i, b). ?f b" "accepted_result \<circ> ?ev" "enumerate 0 branches" e]
      by (simp add: map_filter_enumerate)
    ultimately show "count_list (accepted_event_ids result) e \<le> 1" by simp
  qed
  moreover have "e \<notin> set used" if e: "e \<in> set (accepted_event_ids result)" for e
  proof -
    obtain i b where b: "(i, b) \<in> set ?acc" "?f b = Some e" using member [OF e] by blast
    then have "transition_allowed b at (set known) (set used)"
      by (auto simp: evaluate_branch_status intro: branch_Ok)
    then show "e \<notin> set used" by (rule allowed_event_fresh [OF _ b(2)])
  qed
  moreover have "used_ids request = set used" by (rule string_set_used [OF used])
  moreover have "used_ids result = set used \<union> set (accepted_event_ids result)"
    unfolding used_ids_def consumed by (auto simp: set_fold_insort)
  ultimately show ?thesis by auto
qed

section \<open>Ledgers of used events\<close>

text \<open>The contract between a caller and the evaluation of one batch: which identities a step uses,
  and that it uses fresh ones and records them.  It carries over to any sequence of batches in
  which every request names at least the identities that the previous result recorded.\<close>

locale single_use =
  fixes eval :: "'q \<Rightarrow> 'r \<Rightarrow> bool" and before :: "'q \<Rightarrow> 'a set" and uses :: "'r \<Rightarrow> 'a list" and after :: "'r \<Rightarrow> 'a set"
  assumes uses_distinct: "eval q r \<Longrightarrow> distinct (uses r)"
    and uses_fresh: "eval q r \<Longrightarrow> set (uses r) \<inter> before q = {}"
    and records: "eval q r \<Longrightarrow> before q \<union> set (uses r) \<subseteq> after r"
begin

fun ledger :: "'a set \<Rightarrow> ('q \<times> 'r) list \<Rightarrow> bool" where
  "ledger u [] \<longleftrightarrow> True"
| "ledger u ((q, r) # qs) \<longleftrightarrow> eval q r \<and> u \<subseteq> before q \<and> ledger (after r) qs"

lemma ledger_fresh: "ledger u qs \<Longrightarrow> set (concat (map (uses \<circ> snd) qs)) \<inter> u = {}"
proof (induction u qs rule: ledger.induct)
  case (2 u q r qs)
  then have "u \<subseteq> before q" "u \<subseteq> after r" using records [of q r] by auto
  with 2 show ?case using uses_fresh [of q r]
    by (simp add: Int_Un_distrib2 disjoint_iff) (meson subsetD)
qed simp

lemma ledger_distinct: "ledger u qs \<Longrightarrow> distinct (concat (map (uses \<circ> snd) qs))"
proof (induction u qs rule: ledger.induct)
  case (2 u q r qs)
  then show ?case
    using uses_distinct [of q r] records [of q r] ledger_fresh [of "after r" qs] by auto
qed simp

end

interpretation authority: single_use "\<lambda>q r. evaluate_batch to_vec q = Inr r" used_ids accepted_event_ids used_ids
  for to_vec
proof unfold_locales
  fix q r assume e: "evaluate_batch to_vec q = Inr r"
  show "distinct (accepted_event_ids r)" "set (accepted_event_ids r) \<inter> used_ids q = {}"
    "used_ids q \<union> set (accepted_event_ids r) \<subseteq> used_ids r"
    using batch_ids [OF e] by auto
qed

fun batch_ledger :: "(json \<Rightarrow> u8 list) \<Rightarrow> string set \<Rightarrow> (json \<times> json) list \<Rightarrow> bool" where
  "batch_ledger to_vec u [] \<longleftrightarrow> True"
| "batch_ledger to_vec u ((q, r) # qs) \<longleftrightarrow>
     evaluate_batch to_vec q = Inr r \<and> u \<subseteq> used_ids q \<and> batch_ledger to_vec (used_ids r) qs"

lemma batch_ledger_eq: "batch_ledger to_vec u qs = authority.ledger to_vec u qs"
  by (induction to_vec u qs rule: batch_ledger.induct) auto

section \<open>Two batches\<close>

text \<open>Small batches on which the properties are instantiated: three branches, then two of which one
  tries to use an event again.\<close>

definition demo_event :: "string \<Rightarrow> json" where
  "demo_event i = jobj
     [(''schema'', JStr ''code-intel-authority-event.v1''), (''id'', JStr i), (''decision'', JStr ''approved''),
      (''approver'', jobj [(''id'', JStr ''m''), (''role'', JStr ''r'')]), (''evidenceIds'', JArr [JStr ''x'', JStr ''y'']),
      (''issuedAt'', ju64 1), (''expiresAt'', ju64 9)]"

definition demo_branch :: "string \<Rightarrow> string \<Rightarrow> string \<Rightarrow> (string \<times> json) list \<Rightarrow> json" where
  "demo_branch b frm to ev = jobj
     [(''branchId'', JStr b), (''source'', jobj [(''kind'', JStr ''human''), (''id'', JStr ''h'')]),
      (''current'', jobj [(''kind'', JStr frm), (''id'', JStr ''c'')]),
      (''transition'', jobj ([(''to'', JStr to), (''outputId'', JStr (''out-'' @ b)), (''evidenceIds'', JArr [JStr ''x''])] @ ev))]"

definition demo_batch :: "string list \<Rightarrow> json list \<Rightarrow> json" where
  "demo_batch used branches = jobj
     [(''schema'', JStr ''code-intel-authority-transition-batch.v1''), (''evaluatedAt'', ju64 5),
      (''knownEvidenceIds'', JArr [JStr ''x'', JStr ''y'']), (''consumedAuthorityEventIds'', JArr (map JStr used)),
      (''branches'', JArr branches)]"

definition demo_run :: "json \<Rightarrow> json" where
  "demo_run q = (case evaluate_batch (\<lambda>_. []) q of Inr r \<Rightarrow> r | Inl _ \<Rightarrow> JNull)"

definition demo_q1 :: json where
  "demo_q1 = demo_batch []
     [demo_branch ''b1'' ''proposal'' ''adoption_decision'' [(''authorityEvent'', demo_event ''e1'')],
      demo_branch ''b2'' ''observed_evidence'' ''engineering_fact'' [],
      demo_branch ''b3'' ''proposal'' ''engineering_fact'' []]"

definition demo_q2 :: json where
  "demo_q2 = demo_batch [''e1'']
     [demo_branch ''b4'' ''proposal'' ''adoption_decision'' [(''authorityEvent'', demo_event ''e1'')],
      demo_branch ''b5'' ''proposal'' ''adoption_decision'' [(''authorityEvent'', demo_event ''e2'')]]"

lemma demo_q1_run: "evaluate_batch (\<lambda>_. []) demo_q1 = Inr (demo_run demo_q1) \<and>
    accepted_event_ids (demo_run demo_q1) = [''e1''] \<and> jidx (demo_run demo_q1) ''consumedAuthorityEventIds'' = JArr [JStr ''e1''] \<and>
   map accepted_result (the (as_array (jidx (demo_run demo_q1) ''branches''))) = [True, True, False]"
  by code_simp

lemma demo_q2_run: "evaluate_batch (\<lambda>_. []) demo_q2 = Inr (demo_run demo_q2) \<and>
    accepted_event_ids (demo_run demo_q2) = [''e2''] \<and> jidx demo_q2 ''consumedAuthorityEventIds'' = JArr [JStr ''e1'']"
  by code_simp

section \<open>Properties\<close>

text \<open>C16: A batch answers every branch once, in order, and the branches it accepts are the ones the
  policy allows at that time: an edge of the policy, no fact or derived model created by a restricted
  actor, known evidence, and on a protected edge an approved, current, unused authority event.\<close>

theorem accepted_branches_allowed:
  assumes "evaluate_batch to_vec request = Inr result"
  shows "\<exists>known branches results at. string_set (jidx request ''knownEvidenceIds'') ''knownEvidenceIds'' = Inr known \<and>
    jidx request ''evaluatedAt'' = ju64 at \<and> jidx request ''branches'' = JArr branches \<and>
    jidx result ''branches'' = JArr results \<and>
    list_all2 (\<lambda>b r. accepted_result r \<longrightarrow> transition_allowed b at (set known) (used_ids request)) branches results"
proof -
  obtain known used branches at db do where
    r: "string_set (jidx request ''knownEvidenceIds'') ''knownEvidenceIds'' = Inr known"
    and used: "string_set (jidx request ''consumedAuthorityEventIds'') ''consumedAuthorityEventIds'' = Inr used"
    and b: "jidx request ''branches'' = JArr branches" and at: "as_u64 (jidx request ''evaluatedAt'') = Some at"
    and res: "as_array (jidx result ''branches'') = Some (map (\<lambda>(i, b). evaluate_branch to_vec b i at known used db do
        (duplicates (ptr_strs [''transition'', ''authorityEvent'', ''id''] branches))) (enumerate 0 branches))"
    and "jidx result ''consumedAuthorityEventIds'' = JArr (map JStr (fold insort_insert (accepted_event_ids result) used))"
    by (rule evaluate_batch_Ok [OF assms])
  note u = string_set_used [OF used]
  have all: "list_all2 (\<lambda>b r. accepted_result r \<longrightarrow> transition_allowed b at (set known) (used_ids request)) branches
      (map (\<lambda>(i, b). evaluate_branch to_vec b i at known used db do de) (enumerate 0 branches))" for de
    unfolding list_all2_conv_all_nth u
    by (auto simp: nth_enumerate_eq evaluate_branch_status intro: branch_Ok)
  show ?thesis
    by (rule exI [of _ known], rule exI [of _ branches], rule exI, rule exI [of _ at], intro conjI)
       (rule r, use at in \<open>simp add: as_u64_eq\<close>, rule b, rule res [unfolded as_array_eq], rule all)
qed

theorem accepted_branches_allowed_witness:
  "transition_allowed (demo_branch ''b1'' ''proposal'' ''adoption_decision'' [(''authorityEvent'', demo_event ''e1'')])
     5 {''x'', ''y''} {}"
proof -
  have "string_set (jidx demo_q1 ''consumedAuthorityEventIds'') ''x'' = Inr []" by code_simp
  then have used: "used_ids demo_q1 = {}" using string_set_used by force
  have r: "accepted_result (hd (the (as_array (jidx (demo_run demo_q1) ''branches''))))" by code_simp
  obtain known branches results at where c:
    "string_set (jidx demo_q1 ''knownEvidenceIds'') ''knownEvidenceIds'' = Inr known"
    "jidx demo_q1 ''evaluatedAt'' = ju64 at" "jidx demo_q1 ''branches'' = JArr branches"
    "jidx (demo_run demo_q1) ''branches'' = JArr results"
    "list_all2 (\<lambda>b r. accepted_result r \<longrightarrow> transition_allowed b at (set known) (used_ids demo_q1)) branches results"
    using accepted_branches_allowed [OF demo_q1_run [THEN conjunct1]] by blast
  have "string_set (jidx demo_q1 ''knownEvidenceIds'') ''knownEvidenceIds'' = Inr [''x'', ''y'']"
    "jidx demo_q1 ''evaluatedAt'' = ju64 5"
    by code_simp+
  then have k: "known = [''x'', ''y'']" "at = 5" using c(1,2) by (simp_all add: ju64_def)
  have b: "branches = [demo_branch ''b1'' ''proposal'' ''adoption_decision'' [(''authorityEvent'', demo_event ''e1'')],
      demo_branch ''b2'' ''observed_evidence'' ''engineering_fact'' [],
      demo_branch ''b3'' ''proposal'' ''engineering_fact'' []]"
    using c(3) by (simp add: demo_q1_def demo_batch_def jidx_jobj)
  then obtain r rs where "results = r # rs" using c(5) by (auto simp: list_all2_Cons1)
  then show ?thesis using c(4,5) r b k used by simp
qed

text \<open>C17: No authority event approves two transitions, in one batch or in any sequence of batches in
  which each request names the events that the batch before it recorded as used.\<close>

theorem authority_events_used_once:
  assumes "batch_ledger to_vec used runs"
  shows "distinct (concat (map (accepted_event_ids \<circ> snd) runs)) \<and>
    set (concat (map (accepted_event_ids \<circ> snd) runs)) \<inter> used = {}"
  using authority.ledger_distinct authority.ledger_fresh assms unfolding batch_ledger_eq by blast

theorem authority_events_used_once_witness:
  "distinct (concat (map (accepted_event_ids \<circ> snd) [(demo_q1, demo_run demo_q1), (demo_q2, demo_run demo_q2)])) \<and>
   accepted_event_ids (demo_run demo_q2) = [''e2'']"
proof -
  have "used_ids (demo_run demo_q1) \<subseteq> used_ids demo_q2"
    using demo_q1_run demo_q2_run by (simp add: used_ids_def)
  then have "batch_ledger (\<lambda>_. []) {} [(demo_q1, demo_run demo_q1), (demo_q2, demo_run demo_q2)]"
    using demo_q1_run demo_q2_run by simp
  from authority_events_used_once [OF this] show ?thesis using demo_q2_run by simp
qed

text \<open>A repository sign-off covers the evidence as a set: two events that differ only in the order
  of their evidence identities have the same content digest.\<close>

theorem attestation_ignores_evidence_order:
  assumes "\<And>k. k \<noteq> ''evidenceIds'' \<Longrightarrow> jidx a k = jidx b k"
    and "jidx a ''evidenceIds'' = JArr (map JStr xs)" "jidx b ''evidenceIds'' = JArr (map JStr ys)" "mset xs = mset ys"
  shows "authority_event_digest to_vec a = authority_event_digest to_vec b"
proof -
  have run: "try_fold (\<lambda>v acc. and_then (ok_or (as_str v) e) (\<lambda>s. Ok (acc @ [s]))) (map JStr zs) acc = Inr (acc @ zs)"
    for e :: string and zs acc by (induction zs arbitrary: acc) auto
  have "sort xs = sort ys" using assms(4) by (metis properties_for_sort mset_sort sorted_sort)
  then show ?thesis
    using assms(1) by (simp add: authority_event_digest_def assms(2,3) run)
qed

theorem attestation_ignores_evidence_order_witness:
  "authority_event_digest (\<lambda>_. []) (jobj [(''id'', JStr ''e''), (''evidenceIds'', JArr [JStr ''x'', JStr ''y''])]) =
   authority_event_digest (\<lambda>_. []) (jobj [(''id'', JStr ''e''), (''evidenceIds'', JArr [JStr ''y'', JStr ''x''])])"
  by (rule attestation_ignores_evidence_order [of _ _ "[''x'', ''y'']" "[''y'', ''x'']"]) (simp_all add: jidx_jobj)

end
