(* ===== verification/Json_Scan.thy ===== *)
theory Json_Scan
  imports Rust_Str
begin

text \<open>
  The scanner that refuses JSON text with duplicate keys or with too deep a nesting before it
  reaches the parser (crates/code-intel-cli/src/content_contract.rs, \<open>JsonKeyScanner\<close>).  The
  scanner's position is the text that is left.  The string parser of \<open>serde_json\<close> is the parameter
  \<open>from_slice\<close>.  The nesting of values ends at the maximal depth; the loops over members and
  elements count down a fuel, the length of the text, and \<open>scan_value_total\<close> shows that it never
  runs out.
\<close>

type_synonym scan = "(string + string) option"

definition MAX_JSON_BYTES :: nat where
  "MAX_JSON_BYTES = 24 * 1024 * 1024"

definition MAX_JSON_DEPTH :: nat where
  "MAX_JSON_DEPTH = 128"

definition ws :: "string \<Rightarrow> string" where
  "ws s = dropWhile is_ascii_whitespace s"

fun take_byte :: "char \<Rightarrow> string \<Rightarrow> string option" where
  "take_byte c [] = None"
| "take_byte c (x # s) = (if x = c then Some s else None)"

text \<open>The body of a string: the bytes up to and with the closing quote, and the rest.\<close>

fun string_body :: "string \<Rightarrow> string + string \<times> string" where
  "string_body [] = Err ''unterminated JSON string''"
| "string_body (c # s) =
     (if c = CHR 0x5C
      then (case s of [] \<Rightarrow> Err ''unterminated JSON escape''
            | e # s' \<Rightarrow> and_then (string_body s') (\<lambda>(t, r). Ok (c # e # t, r)))
      else if c = CHR 0x22 then Ok ([c], s)
      else and_then (string_body s) (\<lambda>(t, r). Ok (c # t, r)))"

definition scan_string :: "(string \<Rightarrow> string + string) \<Rightarrow> string \<Rightarrow> string + string \<times> string" where
  "scan_string from_slice s =
     (case take_byte (CHR 0x22) s of
        None \<Rightarrow> Err ''expected JSON string''
      | Some s' \<Rightarrow> and_then (string_body s') (\<lambda>(t, r).
          case from_slice (CHR 0x22 # t) of
            Inl e \<Rightarrow> Err (''invalid JSON string: '' @ e)
          | Inr key \<Rightarrow> Ok (key, r)))"

definition scalar_end :: "char \<Rightarrow> bool" where
  "scalar_end c \<longleftrightarrow> c \<in> {CHR '','', CHR '']'', CHR ''}'', CHR '' '', CHR 0x09, CHR 0x0D, CHR 0x0A}"

definition scan_then :: "scan \<Rightarrow> (string \<Rightarrow> scan) \<Rightarrow> scan" where
  "scan_then r f = (case r of None \<Rightarrow> None | Some (Inl e) \<Rightarrow> Some (Inl e) | Some (Inr s) \<Rightarrow> f s)"

text \<open>The loops over the members of an object and the elements of an array.  The method that scans a
  value is the argument \<open>value\<close>, as its depth is the same in every round.\<close>

fun scan_members ::
    "(string \<Rightarrow> string + string) \<Rightarrow> (string \<Rightarrow> scan) \<Rightarrow> nat \<Rightarrow> string set \<Rightarrow> string \<Rightarrow> scan" where
  "scan_members from_slice value 0 keys s = None"
| "scan_members from_slice value (Suc n) keys s =
     (case scan_string from_slice (ws s) of
        Inl e \<Rightarrow> Some (Inl e)
      | Inr (key, r) \<Rightarrow>
          if key \<in> keys then Some (Err (''duplicate JSON object key: '' @ key))
          else case take_byte (CHR '':'') (ws r) of
              None \<Rightarrow> Some (Err ''invalid JSON object separator'')
            | Some r' \<Rightarrow> scan_then (value r') (\<lambda>r''.
                case take_byte (CHR ''}'') (ws r'') of
                  Some t \<Rightarrow> Some (Ok t)
                | None \<Rightarrow> (case take_byte (CHR '','') (ws r'') of
                      None \<Rightarrow> Some (Err ''invalid JSON object delimiter'')
                    | Some t \<Rightarrow> scan_members from_slice value n (insert key keys) t)))"

definition scan_object :: "(string \<Rightarrow> string + string) \<Rightarrow> (string \<Rightarrow> scan) \<Rightarrow> string \<Rightarrow> scan" where
  "scan_object from_slice value s =
     (case take_byte (CHR ''}'') (ws s) of
        Some r \<Rightarrow> Some (Ok r)
      | None \<Rightarrow> scan_members from_slice value (length s + 1) {} (ws s))"

fun scan_elements :: "(string \<Rightarrow> scan) \<Rightarrow> nat \<Rightarrow> string \<Rightarrow> scan" where
  "scan_elements value 0 s = None"
| "scan_elements value (Suc n) s =
     scan_then (value s) (\<lambda>r.
       case take_byte (CHR '']'') (ws r) of
         Some t \<Rightarrow> Some (Ok t)
       | None \<Rightarrow> (case take_byte (CHR '','') (ws r) of
             None \<Rightarrow> Some (Err ''invalid JSON array delimiter'')
           | Some t \<Rightarrow> scan_elements value n t))"

definition scan_array :: "(string \<Rightarrow> scan) \<Rightarrow> string \<Rightarrow> scan" where
  "scan_array value s =
     (case take_byte (CHR '']'') (ws s) of
        Some r \<Rightarrow> Some (Ok r)
      | None \<Rightarrow> scan_elements value (length s + 1) (ws s))"

function scan_value :: "(string \<Rightarrow> string + string) \<Rightarrow> nat \<Rightarrow> string \<Rightarrow> scan" where
  "scan_value from_slice depth s =
     (if depth > MAX_JSON_DEPTH then Some (Err (''JSON nesting exceeds '' @ show_nat MAX_JSON_DEPTH))
      else case ws s of
        [] \<Rightarrow> Some (Err ''unexpected end of JSON'')
      | c # r \<Rightarrow>
          if c = CHR ''{'' then scan_object from_slice (\<lambda>t. scan_value from_slice (depth + 1) t) r
          else if c = CHR ''['' then scan_array (\<lambda>t. scan_value from_slice (depth + 1) t) r
          else if c = CHR 0x22 then Some (and_then (scan_string from_slice (c # r)) (\<lambda>(_, r'). Ok r'))
          else Some (Ok (dropWhile (\<lambda>x. \<not> scalar_end x) (c # r))))"
  by pat_completeness auto
termination
  by (relation "measure (\<lambda>(f, depth, s). Suc MAX_JSON_DEPTH - depth)") auto

declare scan_value.simps [simp del]

definition scan_document :: "(string \<Rightarrow> string + string) \<Rightarrow> string \<Rightarrow> (string + unit) option" where
  "scan_document from_slice s =
     (case scan_value from_slice 0 (ws s) of
        None \<Rightarrow> None
      | Some (Inl e) \<Rightarrow> Some (Inl e)
      | Some (Inr r) \<Rightarrow> Some (ensure (ws r = []) ''invalid trailing JSON input''))"

definition reject_duplicate_json_keys_within ::
    "(string \<Rightarrow> string + string) \<Rightarrow> string \<Rightarrow> nat \<Rightarrow> (string + unit) option" where
  "reject_duplicate_json_keys_within from_slice text max_bytes =
     (if length text > max_bytes then Some (Err (''JSON input exceeds '' @ show_nat max_bytes @ '' bytes''))
      else scan_document from_slice text)"

definition reject_duplicate_json_keys :: "(string \<Rightarrow> string + string) \<Rightarrow> string \<Rightarrow> (string + unit) option" where
  "reject_duplicate_json_keys from_slice text = reject_duplicate_json_keys_within from_slice text MAX_JSON_BYTES"

section \<open>The fuel is enough\<close>

lemma length_ws: "length (ws s) \<le> length s"
  by (simp add: ws_def length_dropWhile_le)

lemma ws_Nil [simp]: "ws [] = []"
  by (simp add: ws_def)

lemma take_byte_Some [simp]: "take_byte c s = Some r \<longleftrightarrow> s = c # r"
  by (cases s) auto

lemma string_body_length: "string_body s = Inr (t, r) \<Longrightarrow> length r < length s"
  by (induction s arbitrary: t r rule: string_body.induct)
     (fastforce simp: and_then_eq_Inr split: if_splits list.splits)+

lemma scan_string_length: "scan_string f s = Inr (k, r) \<Longrightarrow> length r + 2 \<le> length s"
proof -
  assume a: "scan_string f s = Inr (k, r)"
  then obtain s' where s: "s = CHR 0x22 # s'"
    by (cases "take_byte (CHR 0x22) s") (auto simp: scan_string_def)
  from a obtain t where "string_body s' = Inr (t, r)"
    by (cases "string_body s'") (auto simp: s scan_string_def split: sum.splits)
  with s show ?thesis using string_body_length [of s' t r] by simp
qed

definition good :: "nat \<Rightarrow> scan \<Rightarrow> bool" where
  "good n r \<longleftrightarrow> (case r of None \<Rightarrow> False | Some (Inl e) \<Rightarrow> True | Some (Inr t) \<Rightarrow> length t \<le> n)"

lemma good_simps [simp]: "\<not> good n None" "good n (Some (Inl e))" "good n (Some (Inr t)) \<longleftrightarrow> length t \<le> n"
  by (simp_all add: good_def)

lemma good_then: "good n r \<Longrightarrow> (\<And>t. length t \<le> n \<Longrightarrow> good m (f t)) \<Longrightarrow> good m (scan_then r f)"
  by (cases r rule: option.exhaust; (simp; fail)?) (auto simp: scan_then_def split: sum.splits)

lemma good_mono: "good n r \<Longrightarrow> n \<le> m \<Longrightarrow> good m r"
  by (auto simp: good_def split: option.splits sum.splits)

lemma ws_Cons_length: "ws s = c # r \<Longrightarrow> length r < length s"
  using length_ws [of s] by simp

lemma good_members:
  "(\<And>r. good (length r) (value r)) \<Longrightarrow> length s < n \<Longrightarrow> good (length s) (scan_members f value n keys s)"
proof (induction n arbitrary: keys s)
  case (Suc n)
  show ?case
  proof (cases "scan_string f (ws s)")
    case (Inr kr)
    obtain key r where kr: "kr = (key, r)" by (cases kr)
    have r: "length r < length s"
      using Inr kr scan_string_length [of f "ws s" key r] length_ws [of s] by simp
    have then': "good (length s) (case take_byte (CHR ''}'') (ws t) of Some u \<Rightarrow> Some (Ok u)
        | None \<Rightarrow> (case take_byte (CHR '','') (ws t) of None \<Rightarrow> Some (Err ''invalid JSON object delimiter'')
            | Some u \<Rightarrow> scan_members f value n (insert key keys) u))" if t: "length t < length s" for t
    proof -
      have "good (length s) (scan_members f value n (insert key keys) u)" if "ws t = CHR '','' # u" for u
        using Suc.IH [OF Suc.prems(1), of u "insert key keys"] ws_Cons_length [OF that] t Suc.prems(2)
        by (auto elim: good_mono)
      then show ?thesis using t by (auto dest!: ws_Cons_length split: option.splits)
    qed
    have "good (length s) (scan_then (value r') (\<lambda>t.
        case take_byte (CHR ''}'') (ws t) of Some u \<Rightarrow> Some (Ok u)
        | None \<Rightarrow> (case take_byte (CHR '','') (ws t) of None \<Rightarrow> Some (Err ''invalid JSON object delimiter'')
            | Some u \<Rightarrow> scan_members f value n (insert key keys) u)))" if "ws r = CHR '':'' # r'" for r'
      by (rule good_then [OF Suc.prems(1)], rule then') (use r ws_Cons_length [OF that] in linarith)
    then show ?thesis by (simp add: Inr kr split: option.split)
  qed simp
qed simp

lemma good_elements:
  "(\<And>r. good (length r) (value r)) \<Longrightarrow> length s < n \<Longrightarrow> good (length s) (scan_elements value n s)"
proof (induction n arbitrary: s)
  case (Suc n)
  have "good (length s) (case take_byte (CHR '']'') (ws t) of Some u \<Rightarrow> Some (Ok u)
        | None \<Rightarrow> (case take_byte (CHR '','') (ws t) of None \<Rightarrow> Some (Err ''invalid JSON array delimiter'')
            | Some u \<Rightarrow> scan_elements value n u))" if t: "length t \<le> length s" for t
  proof -
    have "good (length s) (scan_elements value n u)" if "ws t = CHR '','' # u" for u
      using Suc.IH [OF Suc.prems(1), of u] ws_Cons_length [OF that] t Suc.prems(2) by (auto elim: good_mono)
    then show ?thesis using t by (auto dest!: ws_Cons_length split: option.splits)
  qed
  then show ?case by (auto intro: good_then Suc.prems(1))
qed simp

lemma scan_value_total: "good (length s) (scan_value f depth s)"
proof (induction f depth s rule: scan_value.induct)
  case (1 f depth s)
  show ?case
  proof (cases "depth > MAX_JSON_DEPTH")
    case False
    have o': "good (length s) (scan_object f (scan_value f (depth + 1)) r)"
      if "ws s = CHR ''{'' # r" for r
    proof -
      have "good (length (ws r)) (scan_members f (scan_value f (depth + 1)) (length r + 1) {} (ws r))"
        using 1(1) [OF False that refl] length_ws [of r] by (intro good_members) simp_all
      with ws_Cons_length [OF that] length_ws [of r] show ?thesis
        by (auto simp: scan_object_def dest!: ws_Cons_length elim: good_mono split: option.split)
    qed
    have a: "good (length s) (scan_array (scan_value f (depth + 1)) r)"
      if "ws s = CHR ''['' # r" for r
    proof -
      have "good (length (ws r)) (scan_elements (scan_value f (depth + 1)) (length r + 1) (ws r))"
        using 1(2) [OF False that _ refl] length_ws [of r] by (intro good_elements) simp_all
      with ws_Cons_length [OF that] length_ws [of r] show ?thesis
        by (auto simp: scan_array_def dest!: ws_Cons_length elim: good_mono split: option.split)
    qed
    have q: "good (length s) (Some (and_then (scan_string f (c # r)) (\<lambda>(_, r'). Ok r')))" if "ws s = c # r" for c r
      using length_ws [of s] that scan_string_length [of f "c # r"]
      by (cases "scan_string f (c # r)") (auto dest: scan_string_length)
    have b: "length (dropWhile P (c # r)) \<le> length s" if "ws s = c # r" for P c r
      using length_dropWhile_le [of P "c # r"] length_ws [of s] that by simp
    show ?thesis
      using False o' a q b unfolding scan_value.simps [of f depth s] by (auto simp del: dropWhile.simps split: list.split)
  qed (simp add: scan_value.simps)
qed

section \<open>Documents as trees\<close>

text \<open>The specification: JSON documents as trees over their tokens, and their compact text.  The body
  of a string is its text between the quotes.\<close>

datatype jtree = TScalar string | TStr string | TObj "(string \<times> jtree) list" | TArr "jtree list"

definition quote_str :: "string \<Rightarrow> string" where
  "quote_str b = CHR 0x22 # b @ [CHR 0x22]"

fun render :: "jtree \<Rightarrow> string" where
  "render (TScalar w) = w"
| "render (TStr b) = quote_str b"
| "render (TObj ms) = ''{'' @ join '','' (map (\<lambda>(k, t). quote_str k @ '':'' @ render t) ms) @ ''}''"
| "render (TArr ts) = ''['' @ join '','' (map render ts) @ '']''"

definition str_ok :: "(string \<Rightarrow> string + string) \<Rightarrow> string \<Rightarrow> bool" where
  "str_ok f b \<longleftrightarrow> string_body (b @ [CHR 0x22]) = Inr (b @ [CHR 0x22], []) \<and> is_ok (f (quote_str b))"

definition scalar_ok :: "string \<Rightarrow> bool" where
  "scalar_ok w \<longleftrightarrow> w \<noteq> [] \<and> (\<forall>c \<in> set w. \<not> scalar_end c) \<and> \<not> is_ascii_whitespace (hd w) \<and>
     hd w \<notin> {CHR ''{'', CHR ''['', CHR 0x22}"

fun tokens_ok :: "(string \<Rightarrow> string + string) \<Rightarrow> jtree \<Rightarrow> bool" where
  "tokens_ok f (TScalar w) \<longleftrightarrow> scalar_ok w"
| "tokens_ok f (TStr b) \<longleftrightarrow> str_ok f b"
| "tokens_ok f (TObj ms) \<longleftrightarrow> (\<forall>(k, t) \<in> set ms. str_ok f k \<and> tokens_ok f t)"
| "tokens_ok f (TArr ts) \<longleftrightarrow> (\<forall>t \<in> set ts. tokens_ok f t)"

text \<open>No object, at any depth, has two members whose keys denote the same string.\<close>

fun distinct_keys :: "(string \<Rightarrow> string + string) \<Rightarrow> jtree \<Rightarrow> bool" where
  "distinct_keys f (TObj ms) \<longleftrightarrow> distinct (map (\<lambda>(k, t). f (quote_str k)) ms) \<and> (\<forall>(k, t) \<in> set ms. distinct_keys f t)"
| "distinct_keys f (TArr ts) \<longleftrightarrow> (\<forall>t \<in> set ts. distinct_keys f t)"
| "distinct_keys f t \<longleftrightarrow> True"

text \<open>Every value lies inside at most \<open>MAX_JSON_DEPTH\<close> containers, where the tree itself lies in \<open>d\<close>.\<close>

fun fits :: "nat \<Rightarrow> jtree \<Rightarrow> bool" where
  "fits d (TObj ms) \<longleftrightarrow> d \<le> MAX_JSON_DEPTH \<and> (\<forall>(k, t) \<in> set ms. fits (d + 1) t)"
| "fits d (TArr ts) \<longleftrightarrow> d \<le> MAX_JSON_DEPTH \<and> (\<forall>t \<in> set ts. fits (d + 1) t)"
| "fits d t \<longleftrightarrow> d \<le> MAX_JSON_DEPTH"

definition outcome :: "bool \<Rightarrow> string \<Rightarrow> scan \<Rightarrow> bool" where
  "outcome b rest r \<longleftrightarrow> (if b then r = Some (Inr rest) else \<exists>e. r = Some (Inl e))"

lemma string_body_append: "string_body s = Inr (t, u) \<Longrightarrow> string_body (s @ rest) = Inr (t, u @ rest)"
proof (induction s arbitrary: t u rule: string_body.induct)
  case (2 c s)
  then show ?case by (cases s) (auto simp: and_then_eq_Inr split: if_splits)
qed simp

lemma scan_quote:
  assumes "str_ok f b"
  obtains k where "f (quote_str b) = Inr k" "\<And>rest. scan_string f (quote_str b @ rest) = Inr (k, rest)"
proof -
  from assms obtain k where k: "f (quote_str b) = Inr k" by (auto simp: str_ok_def is_ok_iff)
  have "scan_string f (quote_str b @ rest) = Inr (k, rest)" for rest
  proof -
    have "string_body ((b @ [CHR 0x22]) @ rest) = Inr (b @ [CHR 0x22], [] @ rest)"
      using assms unfolding str_ok_def by (blast intro: string_body_append)
    then show ?thesis using k by (simp add: scan_string_def quote_str_def)
  qed
  with k that show thesis by blast
qed

lemma ws_keep: "\<not> is_ascii_whitespace c \<Longrightarrow> ws (c # s) = c # s"
  by (simp add: ws_def)

lemma ws_quote [simp]: "ws (quote_str b @ s) = quote_str b @ s"
  by (simp add: quote_str_def ws_keep is_ascii_whitespace_def)

lemma join_Cons: "ts \<noteq> [] \<Longrightarrow> join sep (t # ts) = t @ sep @ join sep ts"
  by (cases ts) simp_all

definition delim :: "string \<Rightarrow> bool" where
  "delim rest \<longleftrightarrow> rest = [] \<or> scalar_end (hd rest)"

lemma delim_simps [simp]: "delim []" "delim (c # s) \<longleftrightarrow> scalar_end c"
  by (simp_all add: delim_def)

lemma ends [simp]: "scalar_end (CHR '','')" "scalar_end (CHR ''}'')" "scalar_end (CHR '']'')"
  "\<not> is_ascii_whitespace (CHR '','')" "\<not> is_ascii_whitespace (CHR ''}'')" "\<not> is_ascii_whitespace (CHR '']'')"
  "\<not> is_ascii_whitespace (CHR '':'')" "\<not> is_ascii_whitespace (CHR ''{'')" "\<not> is_ascii_whitespace (CHR ''['')"
  by (simp_all add: scalar_end_def is_ascii_whitespace_def)

lemma outcome_then:
  "outcome b rest r \<Longrightarrow> (b \<Longrightarrow> outcome c u (g rest)) \<Longrightarrow> outcome (b \<and> c) u (scan_then r g)"
  by (auto simp: outcome_def scan_then_def split: if_splits)

lemma outcome_cong: "outcome b rest r \<Longrightarrow> b = c \<Longrightarrow> outcome c rest r"
  by simp

text \<open>The loops on the text of a nonempty list of members or elements.\<close>

lemma members_loop:
  assumes "ms \<noteq> []" "length ms \<le> n"
    and "\<And>k t rest. (k, t) \<in> set ms \<Longrightarrow> delim rest \<Longrightarrow> str_ok f k \<and> outcome (B t) rest (value (render t @ rest))"
  shows "outcome (((\<forall>(k, t) \<in> set ms. B t) \<and> distinct (map (\<lambda>(k, t). f (quote_str k)) ms)) \<and>
      (\<forall>(k, t) \<in> set ms. f (quote_str k) \<notin> Inr ` keys)) rest
    (scan_members f value n keys (join '','' (map (\<lambda>(k, t). quote_str k @ '':'' @ render t) ms) @ ''}'' @ rest))"
  using assms
proof (induction ms arbitrary: n keys)
  case (Cons m ms)
  obtain k t where m: "m = (k, t)" by (cases m)
  obtain n' where n: "n = Suc n'" using Cons.prems(2) by (cases n) auto
  have ok: "str_ok f k" using Cons.prems(3) [of k t "[]"] m by simp
  obtain key where key: "f (quote_str k) = Inr key" "\<And>s. scan_string f (quote_str k @ s) = Inr (key, s)"
    using scan_quote [OF ok] by blast
  have val: "outcome (B t) r (value (render t @ r))" if "delim r" for r
    using Cons.prems(3) [of k t r] m that by simp
  show ?case
  proof (cases "key \<in> keys")
    case True
    then show ?thesis
      by (cases "ms = []") (auto simp: n m key join_Cons outcome_def)
  next
    case False
    show ?thesis
    proof (cases "ms = []")
      case True
      have "outcome (B t \<and> True) rest (scan_then (value (render t @ ''}'' @ rest)) (\<lambda>r''.
          case take_byte (CHR ''}'') (ws r'') of Some t \<Rightarrow> Some (Ok t)
          | None \<Rightarrow> (case take_byte (CHR '','') (ws r'') of None \<Rightarrow> Some (Err ''invalid JSON object delimiter'')
              | Some t \<Rightarrow> scan_members f value n' (insert key keys) t)))"
        by (rule outcome_then [OF val]) (auto simp: ws_keep outcome_def)
      then show ?thesis
        using False by (simp add: True n m key ws_keep inj_image_mem_iff)
    next
      case nonempty: False
      let ?s = "join '','' (map (\<lambda>(k, t). quote_str k @ '':'' @ render t) ms) @ ''}'' @ rest"
      let ?c = "((\<forall>(k, t) \<in> set ms. B t) \<and> distinct (map (\<lambda>(k, t). f (quote_str k)) ms)) \<and>
        (\<forall>(k, t) \<in> set ms. f (quote_str k) \<notin> Inr ` insert key keys)"
      have IH: "outcome ?c rest (scan_members f value n' (insert key keys) ?s)"
        by (rule Cons.IH [OF nonempty]) (use Cons.prems n in auto)
      let ?f = "\<lambda>r''. case take_byte (CHR ''}'') (ws r'') of Some t \<Rightarrow> Some (Ok t)
          | None \<Rightarrow> (case take_byte (CHR '','') (ws r'') of None \<Rightarrow> Some (Err ''invalid JSON object delimiter'')
              | Some t \<Rightarrow> scan_members f value n' (insert key keys) t)"
      have all: "outcome (B t \<and> ?c) rest (scan_then (value (render t @ '','' @ ?s)) ?f)"
        by (rule outcome_then [OF val]) (use IH in \<open>simp_all add: ws_keep\<close>)
      have shape: "join '','' (map (\<lambda>(k, t). quote_str k @ '':'' @ render t) (m # ms)) @ ''}'' @ rest =
          quote_str k @ '':'' @ render t @ '','' @ ?s"
        using nonempty by (simp add: m join_Cons)
      have run: "scan_members f value n keys (quote_str k @ '':'' @ render t @ '','' @ ?s) =
          scan_then (value (render t @ '','' @ ?s)) ?f"
        using False by (simp add: n key ws_keep)
      have cond: "(((\<forall>(k, t) \<in> set (m # ms). B t) \<and> distinct (map (\<lambda>(k, t). f (quote_str k)) (m # ms))) \<and>
          (\<forall>(k, t) \<in> set (m # ms). f (quote_str k) \<notin> Inr ` keys)) \<longleftrightarrow> B t \<and> ?c"
        using False by (simp add: m key inj_image_mem_iff image_iff) fastforce
      show ?thesis unfolding cond shape run by (rule all)
    qed
  qed
qed simp

lemma elements_loop:
  assumes "ts \<noteq> []" "length ts \<le> n"
    and "\<And>t rest. t \<in> set ts \<Longrightarrow> delim rest \<Longrightarrow> outcome (B t) rest (value (render t @ rest))"
  shows "outcome (\<forall>t \<in> set ts. B t) rest
    (scan_elements value n (join '','' (map render ts) @ '']'' @ rest))"
  using assms
proof (induction ts arbitrary: n)
  case (Cons t ts)
  obtain n' where n: "n = Suc n'" using Cons.prems(2) by (cases n) auto
  have val: "outcome (B t) r (value (render t @ r))" if "delim r" for r
    using Cons.prems(3) [of t r] that by simp
  show ?case
  proof (cases "ts = []")
    case True
    have "outcome (B t \<and> True) rest (scan_elements value n (render t @ '']'' @ rest))"
      unfolding n scan_elements.simps by (rule outcome_then [OF val]) (auto simp: ws_keep outcome_def)
    then show ?thesis by (simp add: True)
  next
    case False
    have IH: "outcome (\<forall>t \<in> set ts. B t) rest (scan_elements value n' (join '','' (map render ts) @ '']'' @ rest))"
      by (rule Cons.IH [OF False]) (use Cons.prems n in auto)
    have "outcome (B t \<and> (\<forall>t \<in> set ts. B t)) rest
        (scan_elements value n (render t @ '','' @ join '','' (map render ts) @ '']'' @ rest))"
      unfolding n scan_elements.simps by (rule outcome_then [OF val]) (use IH in \<open>simp_all add: ws_keep\<close>)
    then show ?thesis by (simp add: False join_Cons)
  qed
qed simp

lemma render_start: "tokens_ok f t \<Longrightarrow> \<exists>c s. render t = c # s \<and> \<not> is_ascii_whitespace c \<and> \<not> scalar_end c"
proof (cases t)
  case (TScalar w)
  moreover assume "tokens_ok f t"
  ultimately show ?thesis by (cases w) (auto simp: scalar_ok_def)
qed (auto simp: quote_str_def is_ascii_whitespace_def scalar_end_def)

lemma join_start: "xs \<noteq> [] \<Longrightarrow> hd xs = c # s \<Longrightarrow> \<exists>s'. join sep xs = c # s'"
  by (cases xs; cases "tl xs") (auto simp: join_Cons)

lemma join_length: "[] \<notin> set xs \<Longrightarrow> length xs \<le> length (join sep xs)"
proof (induction xs)
  case (Cons x xs)
  then show ?case by (cases "xs = []"; cases x) (auto simp: join_Cons)
qed simp

lemma delim_stop: "delim rest \<Longrightarrow> dropWhile (\<lambda>x. \<not> scalar_end x) rest = rest"
  by (cases rest) simp_all

lemma scan_render:
  "tokens_ok f t \<Longrightarrow> delim rest \<Longrightarrow>
   outcome (fits d t \<and> distinct_keys f t) rest (scan_value f d (render t @ rest))"
proof (induction t arbitrary: d rest)
  case (TScalar w)
  then obtain c s where w: "w = c # s" "\<not> is_ascii_whitespace c" "c \<notin> {CHR ''{'', CHR ''['', CHR 0x22}"
    "\<forall>x \<in> set w. \<not> scalar_end x"
    by (cases w) (auto simp: scalar_ok_def)
  have "dropWhile (\<lambda>x. \<not> scalar_end x) (w @ rest) = rest"
    using w(4) delim_stop [OF TScalar.prems(2)] by (simp add: dropWhile_append2)
  then show ?case
    using w(1-3) by (simp add: scan_value.simps [of f d] ws_keep outcome_def)
next
  case (TStr b)
  then obtain k where "\<And>r. scan_string f (quote_str b @ r) = Inr (k, r)"
    by (auto elim: scan_quote)
  then have "scan_string f (CHR 0x22 # b @ CHR 0x22 # rest) = Inr (k, rest)" by (simp add: quote_str_def)
  moreover have "ws (CHR 0x22 # b @ CHR 0x22 # rest) = CHR 0x22 # b @ CHR 0x22 # rest"
    by (simp add: ws_keep is_ascii_whitespace_def)
  ultimately show ?case by (simp add: quote_str_def scan_value.simps [of f d] outcome_def)
next
  case (TObj ms)
  let ?j = "join '','' (map (\<lambda>(k, t). quote_str k @ '':'' @ render t) ms)"
  have run: "scan_value f d (render (TObj ms) @ rest) =
      (if d > MAX_JSON_DEPTH then Some (Err (''JSON nesting exceeds '' @ show_nat MAX_JSON_DEPTH))
       else scan_object f (scan_value f (d + 1)) (?j @ ''}'' @ rest))"
    by (simp add: scan_value.simps [of f d] ws_keep)
  show ?case
  proof (cases "ms = []")
    case True
    then show ?thesis unfolding run by (simp add: scan_object_def ws_keep outcome_def)
  next
    case False
    obtain u where u: "?j = CHR 0x22 # u"
      using join_start [of "map (\<lambda>(k, t). quote_str k @ '':'' @ render t) ms" "CHR 0x22"] False
      by (cases ms) (auto simp: quote_str_def)
    have q: "ws (?j @ r) = ?j @ r" "take_byte (CHR ''}'') (?j @ r) = None" for r
      unfolding u by (simp_all add: ws_keep is_ascii_whitespace_def)
    have fuel: "length ms \<le> length (?j @ ''}'' @ rest) + 1"
    proof -
      have "[] \<notin> set (map (\<lambda>(k, t). quote_str k @ '':'' @ render t) ms)" by auto
      from join_length [OF this, of "'',''"] show ?thesis by simp
    qed
    have "outcome (((\<forall>(k, t) \<in> set ms. fits (d + 1) t \<and> distinct_keys f t) \<and> distinct (map (\<lambda>(k, t). f (quote_str k)) ms)) \<and>
        (\<forall>(k, t) \<in> set ms. f (quote_str k) \<notin> Inr ` {})) rest
      (scan_members f (scan_value f (d + 1)) (length (?j @ ''}'' @ rest) + 1) {} (?j @ ''}'' @ rest))"
    proof (rule members_loop [OF False fuel])
      fix k t rest' assume "(k, t) \<in> set ms" "delim rest'"
      with TObj.prems(1) TObj.IH [of "(k, t)" t rest' "d + 1"]
      show "str_ok f k \<and> outcome (fits (d + 1) t \<and> distinct_keys f t) rest' (scan_value f (d + 1) (render t @ rest'))"
        by auto
    qed
    then have "outcome ((\<forall>(k, t) \<in> set ms. fits (d + 1) t) \<and> distinct_keys f (TObj ms)) rest
        (scan_object f (scan_value f (d + 1)) (?j @ ''}'' @ rest))"
      unfolding scan_object_def q by (simp add: case_prod_beta ball_conj_distrib conj_ac)
    then show ?thesis unfolding run by (auto simp: outcome_def)
  qed
next
  case (TArr ts)
  let ?j = "join '','' (map render ts)"
  have run: "scan_value f d (render (TArr ts) @ rest) =
      (if d > MAX_JSON_DEPTH then Some (Err (''JSON nesting exceeds '' @ show_nat MAX_JSON_DEPTH))
       else scan_array (scan_value f (d + 1)) (?j @ '']'' @ rest))"
    by (simp add: scan_value.simps [of f d] ws_keep)
  show ?case
  proof (cases "ts = []")
    case True
    then show ?thesis unfolding run by (simp add: scan_array_def ws_keep outcome_def)
  next
    case False
    then obtain c s where c: "hd (map render ts) = c # s" "\<not> is_ascii_whitespace c" "\<not> scalar_end c"
      using TArr.prems(1) render_start [of f "hd ts"] by (cases ts) auto
    then obtain u where u: "?j = c # u" using join_start [of "map render ts" c s] False by auto
    have q: "ws (?j @ r) = ?j @ r" "take_byte (CHR '']'') (?j @ r) = None" for r
      using c(2,3) by (auto simp: u ws_keep)
    have fuel: "length ts \<le> length (?j @ '']'' @ rest) + 1"
      using join_length [of "map render ts" "'',''"] TArr.prems(1) render_start [of f] by fastforce
    have "outcome (\<forall>t \<in> set ts. fits (d + 1) t \<and> distinct_keys f t) rest
      (scan_elements (scan_value f (d + 1)) (length (?j @ '']'' @ rest) + 1) (?j @ '']'' @ rest))"
    proof (rule elements_loop [OF False fuel])
      fix t rest' assume "t \<in> set ts" "delim rest'"
      with TArr.prems(1) TArr.IH [of t rest' "d + 1"]
      show "outcome (fits (d + 1) t \<and> distinct_keys f t) rest' (scan_value f (d + 1) (render t @ rest'))"
        by auto
    qed
    then have "outcome ((\<forall>t \<in> set ts. fits (d + 1) t) \<and> distinct_keys f (TArr ts)) rest
        (scan_array (scan_value f (d + 1)) (?j @ '']'' @ rest))"
      unfolding scan_array_def q by (simp add: ball_conj_distrib)
    then show ?thesis unfolding run by (auto simp: outcome_def)
  qed
qed

section \<open>Properties\<close>

text \<open>C39: The scanner returns on every text: none of its loops runs out of the fuel given to it.\<close>

theorem scan_returns: "\<exists>r. reject_duplicate_json_keys_within from_slice text' max_bytes = Some r"
  using scan_value_total [of "ws text'" from_slice 0]
  by (auto simp: reject_duplicate_json_keys_within_def scan_document_def good_def split: option.splits sum.splits)


text \<open>Two spellings of one key: \<open>from_slice\<close> here decodes the escape of a letter.\<close>

definition demo_from_slice :: "string \<Rightarrow> string + string" where
  "demo_from_slice s = (if s = quote_str [CHR 0x5C, CHR ''a''] then Inr ''a'' else Inr (butlast (tl s)))"


end
