(* ===== verification/Decision_Port.thy ===== *)
theory Decision_Port
  imports Content_Contract Json_Scan
begin

text \<open>
  The request and response protocol of human decisions (crates/code-intel-cli/src/decision_port.rs):
  the exchange that matches requests with answers, the checks of the messages, and the transports
  a request can go through.  A port is its state and the two methods of the trait, which take the
  state and return it; they return it also with an error.  Parsing and printing of JSON text is
  library code and a parameter.
\<close>

section \<open>Shape checks\<close>

definition exact_object :: "json \<Rightarrow> string \<Rightarrow> string list \<Rightarrow> string + unit" where
  "exact_object value context' keys =
     and_then (ok_or (as_object value) (context' @ '' must be an object'')) (\<lambda>o'.
     ensure (set (bt_keys o') = set keys) (context' @ '' has invalid fields''))"

definition nonempty_string :: "json \<Rightarrow> string \<Rightarrow> string + string" where
  "nonempty_string value context' =
     ok_or (case as_str value of Some s \<Rightarrow> if is_blank s then None else Some s | None \<Rightarrow> None)
       (context' @ '' must be a non-empty string'')"

definition portable :: "string \<Rightarrow> bool" where
  "portable s \<longleftrightarrow> list_all (\<lambda>b. is_ascii_alphanumeric b \<or> b \<in> {CHR ''-'', CHR ''_'', CHR ''.''}) s"

definition portable_identifier :: "json \<Rightarrow> string \<Rightarrow> string + string" where
  "portable_identifier value context' =
     and_then (nonempty_string value context') (\<lambda>s.
     and_then (ensure (portable s) (context' @ '' is not portable'')) (\<lambda>_. Ok s))"

definition integer :: "json \<Rightarrow> string \<Rightarrow> string + u64" where
  "integer value context' = ok_or (as_u64 value) (context' @ '' must be an unsigned integer'')"

definition string_set :: "json \<Rightarrow> string \<Rightarrow> string + string list" where
  "string_set value context' =
     and_then (ok_or (as_array value) (context' @ '' must be an array'')) (\<lambda>values.
     and_then (ensure (values \<noteq> []) (context' @ '' must not be empty'')) (\<lambda>_.
     try_fold (\<lambda>x result.
       and_then (nonempty_string x context') (\<lambda>item.
       and_then (ensure (item \<notin> set result) (context' @ '' contains duplicate '' @ item)) (\<lambda>_.
       Ok (insort item result)))) values []))"

section \<open>Requests\<close>

text \<open>An \<open>EvidenceRef\<close> holds one field, the time it expires.\<close>

record parsed_request =
  pr_correlation_id :: string
  pr_gap_id :: string
  pr_option_ids :: "string list"
  pr_evidence_refs :: "u64 list"
  pr_authority_kind :: string
  pr_actor_ids :: "string list"
  pr_issued_at :: u64
  pr_expires_at :: u64
  pr_affected_branches :: "string list"

definition parse_option :: "json \<Rightarrow> string list \<Rightarrow> string + string list" where
  "parse_option option' option_ids =
     and_then (exact_object option' ''option'' [''id'', ''label'', ''consequence'']) (\<lambda>_.
     and_then (nonempty_string (jidx option' ''id'') ''option.id'') (\<lambda>i.
     and_then (nonempty_string (jidx option' ''label'') ''option.label'') (\<lambda>_.
     and_then (nonempty_string (jidx option' ''consequence'') ''option.consequence'') (\<lambda>_.
     and_then (ensure (i \<notin> set option_ids) (''duplicate option id '' @ i)) (\<lambda>_.
     Ok (insort i option_ids))))))"

definition parse_evidence :: "json \<Rightarrow> string list \<times> u64 list \<Rightarrow> string + string list \<times> u64 list" where
  "parse_evidence evidence acc =
     (let (evidence_ids, evidence_refs) = acc in
     and_then (exact_object evidence ''evidence ref'' [''refId'', ''sha256'', ''observedAt'', ''expiresAt'']) (\<lambda>_.
     and_then (nonempty_string (jidx evidence ''refId'') ''evidence ref.refId'') (\<lambda>ref_id.
     and_then (ensure (ref_id \<notin> set evidence_ids) (''duplicate evidence ref '' @ ref_id)) (\<lambda>_.
     and_then (nonempty_string (jidx evidence ''sha256'') ''evidence ref.sha256'') (\<lambda>sha256.
     and_then (ensure (length sha256 = 64 \<and> list_all (\<lambda>b. is_ascii_digit b \<or> (CHR ''a'' \<le> b \<and> b \<le> CHR ''f'')) sha256)
       ''evidence ref.sha256 must be lowercase hexadecimal'') (\<lambda>_.
     and_then (integer (jidx evidence ''observedAt'') ''evidence ref.observedAt'') (\<lambda>observed_at.
     and_then (integer (jidx evidence ''expiresAt'') ''evidence ref.expiresAt'') (\<lambda>expires_at.
     and_then (ensure (\<not> observed_at \<ge> expires_at) ''evidence ref expiry must follow observation'') (\<lambda>_.
     Ok (insort ref_id evidence_ids, evidence_refs @ [expires_at]))))))))))"

definition parse_request :: "json \<Rightarrow> string + parsed_request" where
  "parse_request value =
     and_then (exact_object value ''decision request''
       [''schema'', ''correlationId'', ''gapId'', ''question'', ''recommendation'', ''evidenceRefs'', ''options'',
        ''authorityNeeded'', ''issuedAt'', ''expiresAt'', ''affectedBranches'']) (\<lambda>_.
     and_then (ensure (jidx value ''schema'' = JStr ''code-intel-decision-request.v1'')
       ''decision request schema is invalid'') (\<lambda>_.
     and_then (portable_identifier (jidx value ''correlationId'') ''correlationId'') (\<lambda>correlation_id.
     and_then (nonempty_string (jidx value ''gapId'') ''gapId'') (\<lambda>gap_id.
     and_then (nonempty_string (jidx value ''question'') ''question'') (\<lambda>_.
     let recommendation = jidx value ''recommendation'' in
     and_then (exact_object recommendation ''recommendation'' [''optionId'', ''rationale'']) (\<lambda>_.
     and_then (nonempty_string (jidx recommendation ''optionId'') ''recommendation.optionId'') (\<lambda>recommended_option.
     and_then (nonempty_string (jidx recommendation ''rationale'') ''recommendation.rationale'') (\<lambda>_.
     and_then (ok_or (as_array (jidx value ''options'')) ''options must be an array'') (\<lambda>option_values.
     and_then (ensure (\<not> length option_values < 2) ''decision request requires at least two options'') (\<lambda>_.
     and_then (try_fold parse_option option_values []) (\<lambda>option_ids.
     and_then (ensure (recommended_option \<in> set option_ids) ''recommendation names an unknown option'') (\<lambda>_.
     and_then (ok_or (as_array (jidx value ''evidenceRefs'')) ''evidenceRefs must be an array'') (\<lambda>evidence_values.
     and_then (ensure (evidence_values \<noteq> []) ''evidenceRefs must not be empty'') (\<lambda>_.
     and_then (try_fold parse_evidence evidence_values ([], [])) (\<lambda>(_, evidence_refs).
     let authority = jidx value ''authorityNeeded'' in
     and_then (exact_object authority ''authorityNeeded'' [''kind'', ''actorIds'']) (\<lambda>_.
     and_then (nonempty_string (jidx authority ''kind'') ''authorityNeeded.kind'') (\<lambda>authority_kind.
     and_then (string_set (jidx authority ''actorIds'') ''authorityNeeded.actorIds'') (\<lambda>actor_ids.
     and_then (integer (jidx value ''issuedAt'') ''issuedAt'') (\<lambda>issued_at.
     and_then (integer (jidx value ''expiresAt'') ''expiresAt'') (\<lambda>expires_at.
     and_then (ensure (\<not> issued_at \<ge> expires_at) ''request expiry must follow issue time'') (\<lambda>_.
     and_then (string_set (jidx value ''affectedBranches'') ''affectedBranches'') (\<lambda>affected_branches.
     Ok \<lparr>pr_correlation_id = correlation_id, pr_gap_id = gap_id, pr_option_ids = option_ids,
         pr_evidence_refs = evidence_refs, pr_authority_kind = authority_kind, pr_actor_ids = actor_ids,
         pr_issued_at = issued_at, pr_expires_at = expires_at, pr_affected_branches = affected_branches\<rparr>))))))))))))))))))))))"

section \<open>Answers\<close>

definition validate_binding :: "json \<Rightarrow> parsed_request \<Rightarrow> u64 \<Rightarrow> string + unit" where
  "validate_binding message request now =
     (let provenance = jidx message ''actorProvenance'' in
     and_then (ensure (as_str (jidx message ''correlationId'') = Some (pr_correlation_id request))
       ''response correlation mismatch'') (\<lambda>_.
     and_then (ensure (as_str (jidx message ''gapId'') = Some (pr_gap_id request)) ''response gap mismatch'') (\<lambda>_.
     and_then (exact_object provenance ''actor provenance'' [''actorId'', ''authorityKind'', ''source'']) (\<lambda>_.
     and_then (nonempty_string (jidx provenance ''actorId'') ''actorProvenance.actorId'') (\<lambda>actor_id.
     and_then (nonempty_string (jidx provenance ''authorityKind'') ''actorProvenance.authorityKind'') (\<lambda>authority_kind.
     and_then (nonempty_string (jidx provenance ''source'') ''actorProvenance.source'') (\<lambda>_.
     and_then (ensure (\<not> (actor_id \<notin> set (pr_actor_ids request) \<or> authority_kind \<noteq> pr_authority_kind request))
       ''response actor lacks the requested authority'') (\<lambda>_.
     and_then (integer (jidx message ''timestamp'') ''timestamp'') (\<lambda>timestamp.
     and_then (ensure (\<not> timestamp > now) ''response timestamp is in the future'') (\<lambda>_.
     and_then (ensure (\<not> (timestamp < pr_issued_at request \<or> timestamp > pr_expires_at request))
       ''response timestamp is outside the request lifetime'') (\<lambda>_.
     ensure (\<not> list_ex (\<lambda>expires_at. timestamp > expires_at) (pr_evidence_refs request))
       ''response is bound to stale evidence'')))))))))))"

definition validate_response :: "json \<Rightarrow> parsed_request \<Rightarrow> u64 \<Rightarrow> string + json \<times> json" where
  "validate_response response request now =
     and_then (exact_object response ''decision response''
       [''schema'', ''correlationId'', ''gapId'', ''answer'', ''actorProvenance'', ''timestamp'']) (\<lambda>_.
     and_then (ensure (jidx response ''schema'' = JStr ''code-intel-decision-response.v1'')
       ''decision response schema is invalid'') (\<lambda>_.
     and_then (validate_binding response request now) (\<lambda>_.
     let answer = jidx response ''answer'' in
     and_then (ok_or (as_object answer) ''answer must be an object'') (\<lambda>answer_object.
     let kind = (case bt_get answer_object ''kind'' of Some v \<Rightarrow> as_str v | None \<Rightarrow> None) in
     and_then
       (if kind = Some ''choice'' then
          and_then (exact_object answer ''choice answer'' [''kind'', ''optionId'']) (\<lambda>_.
          and_then (nonempty_string (jidx answer ''optionId'') ''answer.optionId'') (\<lambda>option_id.
          ensure (option_id \<in> set (pr_option_ids request)) ''answer selects an unknown option''))
        else if kind = Some ''free-form'' then
          and_then (exact_object answer ''free-form answer'' [''kind'', ''text'']) (\<lambda>_.
          and_then (nonempty_string (jidx answer ''text'') ''answer.text'') (\<lambda>_. Ok ()))
        else Err ''answer kind is invalid'') (\<lambda>_.
     Ok (answer, jidx response ''actorProvenance''))))))"

definition validate_cancellation :: "json \<Rightarrow> parsed_request \<Rightarrow> u64 \<Rightarrow> string + json" where
  "validate_cancellation cancellation request now =
     and_then (exact_object cancellation ''decision cancellation''
       [''schema'', ''correlationId'', ''gapId'', ''actorProvenance'', ''timestamp'', ''reason'']) (\<lambda>_.
     and_then (ensure (jidx cancellation ''schema'' = JStr ''code-intel-decision-cancellation.v1'')
       ''decision cancellation schema is invalid'') (\<lambda>_.
     and_then (nonempty_string (jidx cancellation ''reason'') ''cancellation.reason'') (\<lambda>_.
     and_then (validate_binding cancellation request now) (\<lambda>_.
     Ok (jidx cancellation ''actorProvenance'')))))"

definition validate_branches :: "string list \<Rightarrow> string list \<Rightarrow> string + string list" where
  "validate_branches branches affected =
     and_then (try_fold (\<lambda>branch result.
       and_then (ensure (\<not> (is_blank branch \<or> branch \<in> set result))
         ''branch list must contain unique non-empty ids'') (\<lambda>_. Ok (insort branch result))) branches []) (\<lambda>result.
     case find (\<lambda>branch. branch \<notin> set result) affected of
       Some missing \<Rightarrow> Err (''affected branch '' @ missing @ '' is absent from the DAG branch set'')
     | None \<Rightarrow> Ok result)"

section \<open>The exchange\<close>

datatype port_poll = PollPending | PollResponse json | PollCancelled json

text \<open>The trait \<open>DecisionRequestResponsePort\<close>.\<close>

record 'p port =
  submit :: "json \<Rightarrow> 'p \<Rightarrow> (string + unit) \<times> 'p"
  poll :: "string \<Rightarrow> 'p \<Rightarrow> (string + port_poll) \<times> 'p"

record decision_exchange =
  dx_pending :: "(string, json) btree"
  dx_terminal :: "string list"

definition exchange_default :: decision_exchange where
  "exchange_default = \<lparr>dx_pending = [], dx_terminal = []\<rparr>"

definition exchange_finish :: "string \<Rightarrow> decision_exchange \<Rightarrow> decision_exchange" where
  "exchange_finish correlation_id x =
     x\<lparr>dx_pending := bt_remove correlation_id (dx_pending x),
       dx_terminal := insort_insert correlation_id (dx_terminal x)\<rparr>"

definition exchange_result ::
    "parsed_request \<Rightarrow> string list \<Rightarrow> string \<Rightarrow> string \<Rightarrow> json option \<Rightarrow> json option \<Rightarrow> json" where
  "exchange_result request branches status affected_status answer provenance = jobj
     [(''schema'', JStr ''code-intel-decision-exchange-result.v1''),
      (''status'', JStr status),
      (''correlationId'', JStr (pr_correlation_id request)),
      (''gapId'', JStr (pr_gap_id request)),
      (''acceptedAnswer'', jopt answer),
      (''authorityProvenance'', jopt provenance),
      (''branches'', JArr (map (\<lambda>branch. jobj
         [(''branchId'', JStr branch),
          (''status'', JStr (if branch \<in> set (pr_affected_branches request) then affected_status else ''continues''))])
         branches)),
      (''effects'', JArr []),
      (''diagnostics'', JArr [])]"

text \<open>What follows the poll.\<close>

definition exchange_poll ::
    "'p port \<Rightarrow> decision_exchange \<Rightarrow> parsed_request \<Rightarrow> string list \<Rightarrow> 'p \<Rightarrow> u64 \<Rightarrow>
     (string + json) \<times> decision_exchange \<times> 'p" where
  "exchange_poll ops x parsed branch_ids p now =
     (let (polled, p') = poll ops (pr_correlation_id parsed) p;
          finished = exchange_finish (pr_correlation_id parsed) x in
      case polled of
        Inl e \<Rightarrow> (Inl e, x, p')
      | Inr PollPending \<Rightarrow>
          if now \<ge> pr_expires_at parsed
          then (Ok (exchange_result parsed branch_ids ''timeout'' ''blocked_timeout'' None None), finished, p')
          else (Ok (exchange_result parsed branch_ids ''pending'' ''blocked_pending_response'' None None), x, p')
      | Inr (PollResponse response) \<Rightarrow>
          if now \<ge> pr_expires_at parsed then (Err ''expired request cannot accept a response'', finished, p')
          else (case validate_response response parsed now of
              Inl e \<Rightarrow> (Inl e, x, p')
            | Inr (answer, provenance) \<Rightarrow>
                (Ok (exchange_result parsed branch_ids ''resolved'' ''ready'' (Some answer) (Some provenance)), finished, p'))
      | Inr (PollCancelled cancellation) \<Rightarrow>
          if now \<ge> pr_expires_at parsed then (Err ''expired request cannot accept a cancellation'', finished, p')
          else (case validate_cancellation cancellation parsed now of
              Inl e \<Rightarrow> (Inl e, x, p')
            | Inr provenance \<Rightarrow>
                (Ok (exchange_result parsed branch_ids ''cancelled'' ''blocked_cancelled'' None (Some provenance)), finished, p')))"

definition advance ::
    "'p port \<Rightarrow> decision_exchange \<Rightarrow> json \<Rightarrow> 'p \<Rightarrow> u64 \<Rightarrow> string list \<Rightarrow>
     (string + json) \<times> decision_exchange \<times> 'p" where
  "advance ops x request p now branches =
     (case (and_then (parse_request request) (\<lambda>parsed.
            and_then (validate_branches branches (pr_affected_branches parsed)) (\<lambda>branch_ids.
            and_then (ensure (\<not> now < pr_issued_at parsed) ''processing clock precedes request issue time'') (\<lambda>_.
            and_then (ensure (pr_correlation_id parsed \<notin> set (dx_terminal x))
              (''response replay for terminal correlation '' @ pr_correlation_id parsed)) (\<lambda>_.
            Ok (parsed, branch_ids)))))) of
        Inl e \<Rightarrow> (Inl e, x, p)
      | Inr (parsed, branch_ids) \<Rightarrow>
          (case bt_get (dx_pending x) (pr_correlation_id parsed) of
             Some existing \<Rightarrow>
               if existing \<noteq> request
               then (Err (''correlation '' @ pr_correlation_id parsed @ '' was reused for a different request''), x, p)
               else exchange_poll ops x parsed branch_ids p now
           | None \<Rightarrow>
               (let (submitted, p') = submit ops request p in
                case submitted of
                  Inl e \<Rightarrow> (Inl e, x, p')
                | Inr _ \<Rightarrow> exchange_poll ops
                    (x\<lparr>dx_pending := bt_insert (pr_correlation_id parsed) request (dx_pending x)\<rparr>)
                    parsed branch_ids p' now)))"

section \<open>Ports in memory\<close>

definition store_request :: "(string, json) btree \<Rightarrow> json \<Rightarrow> string + (string, json) btree" where
  "store_request requests request =
     and_then (parse_request request) (\<lambda>parsed.
     case bt_get requests (pr_correlation_id parsed) of
       Some existing \<Rightarrow> if existing \<noteq> request
         then Err ''port correlation already contains a different request'' else Ok requests
     | None \<Rightarrow> Ok (bt_insert (pr_correlation_id parsed) request requests))"

definition message_correlation :: "json \<Rightarrow> string + string" where
  "message_correlation message = portable_identifier (jidx message ''correlationId'') ''message.correlationId''"

text \<open>\<open>InMemoryDecisionPort\<close> and \<open>NativeStructuredDecisionPort\<close> have the same fields and methods.\<close>

record memory_port =
  mp_requests :: "(string, json) btree"
  mp_events :: "port_poll list"

definition supply_response :: "json \<Rightarrow> memory_port \<Rightarrow> string + memory_port" where
  "supply_response response p =
     and_then (message_correlation response) (\<lambda>_. Ok (p\<lparr>mp_events := mp_events p @ [PollResponse response]\<rparr>))"

definition supply_cancellation :: "json \<Rightarrow> memory_port \<Rightarrow> string + memory_port" where
  "supply_cancellation cancellation p =
     and_then (message_correlation cancellation) (\<lambda>_. Ok (p\<lparr>mp_events := mp_events p @ [PollCancelled cancellation]\<rparr>))"

definition memory_submit :: "json \<Rightarrow> memory_port \<Rightarrow> (string + unit) \<times> memory_port" where
  "memory_submit request p =
     (case store_request (mp_requests p) request of
        Inl e \<Rightarrow> (Inl e, p) | Inr requests \<Rightarrow> (Ok (), p\<lparr>mp_requests := requests\<rparr>))"

definition memory_poll :: "string \<Rightarrow> memory_port \<Rightarrow> (string + port_poll) \<times> memory_port" where
  "memory_poll correlation_id p =
     (case mp_events p of [] \<Rightarrow> (Ok PollPending, p) | e # es \<Rightarrow> (Ok e, p\<lparr>mp_events := es\<rparr>))"

definition memory_ops :: "memory_port port" where
  "memory_ops = \<lparr>submit = memory_submit, poll = memory_poll\<rparr>"

section \<open>The plain-text port\<close>

record text_port =
  tp_requests :: "(string, json) btree"
  tp_outbox :: "string list"
  tp_events :: "port_poll list"

definition reply_event :: "string list \<Rightarrow> u64 \<Rightarrow> string + port_poll" where
  "reply_event parts timestamp =
     (let provenance = jobj [(''actorId'', JStr (parts ! 4)), (''authorityKind'', JStr (parts ! 5)), (''source'', JStr (parts ! 6))];
          response = (\<lambda>answer. PollResponse (jobj
            [(''schema'', JStr ''code-intel-decision-response.v1''), (''correlationId'', JStr (parts ! 1)),
             (''gapId'', JStr (parts ! 2)), (''answer'', answer), (''actorProvenance'', provenance),
             (''timestamp'', ju64 timestamp)])) in
      if parts ! 0 = ''choice''
      then Ok (response (jobj [(''kind'', JStr ''choice''), (''optionId'', JStr (parts ! 3))]))
      else if parts ! 0 = ''free-form''
      then Ok (response (jobj [(''kind'', JStr ''free-form''), (''text'', JStr (parts ! 3))]))
      else if parts ! 0 = ''cancel''
      then Ok (PollCancelled (jobj
            [(''schema'', JStr ''code-intel-decision-cancellation.v1''), (''correlationId'', JStr (parts ! 1)),
             (''gapId'', JStr (parts ! 2)), (''actorProvenance'', provenance),
             (''timestamp'', ju64 timestamp), (''reason'', JStr (parts ! 3))]))
      else Err ''plain-text reply kind is invalid'')"

definition parse_reply :: "string \<Rightarrow> string + port_poll" where
  "parse_reply line =
     (let parts = split_on (CHR 0x09) line in
     and_then (ensure (\<not> (length parts \<noteq> 8 \<or> list_ex is_blank parts))
       ''plain-text reply must contain eight non-empty tab-separated fields'') (\<lambda>_.
     and_then (ok_or (parse_unsigned (2 ^ 64) (parts ! 7)) ''plain-text timestamp is invalid'') (\<lambda>timestamp.
     reply_event parts (of_nat timestamp))))"

definition supply_line :: "string \<Rightarrow> text_port \<Rightarrow> string + text_port" where
  "supply_line line p = and_then (parse_reply line) (\<lambda>event. Ok (p\<lparr>tp_events := tp_events p @ [event]\<rparr>))"

definition text_header :: "string \<Rightarrow> string" where
  "text_header correlation_id = ''DECISION REQUEST '' @ correlation_id @ [CHR 0x0A]"

definition text_submit :: "(json \<Rightarrow> string + string) \<Rightarrow> json \<Rightarrow> text_port \<Rightarrow> (string + unit) \<times> text_port" where
  "text_submit to_string_pretty request p =
     (case and_then (parse_request request) (\<lambda>parsed.
           and_then (store_request (tp_requests p) request) (\<lambda>requests. Ok (parsed, requests))) of
        Inl e \<Rightarrow> (Inl e, p)
      | Inr (parsed, requests) \<Rightarrow>
          (let p' = p\<lparr>tp_requests := requests\<rparr>; header = text_header (pr_correlation_id parsed) in
           if list_ex (\<lambda>message. starts_with message header) (tp_outbox p') then (Ok (), p')
           else (case map_err (\<lambda>e. ''render plain-text request: '' @ e) (to_string_pretty request) of
               Inl e \<Rightarrow> (Inl e, p')
             | Inr request_json \<Rightarrow> (Ok (), p'\<lparr>tp_outbox := tp_outbox p' @ [header @ request_json]\<rparr>))))"

definition text_poll :: "string \<Rightarrow> text_port \<Rightarrow> (string + port_poll) \<times> text_port" where
  "text_poll correlation_id p =
     (case tp_events p of [] \<Rightarrow> (Ok PollPending, p) | e # es \<Rightarrow> (Ok e, p\<lparr>tp_events := es\<rparr>))"

definition text_ops :: "(json \<Rightarrow> string + string) \<Rightarrow> text_port port" where
  "text_ops to_string_pretty = \<lparr>submit = text_submit to_string_pretty, poll = text_poll\<rparr>"

end
