(* ===== verification/Decision_Cli.thy ===== *)
theory Decision_Cli
  imports Decision_Port
begin

text \<open>
  The file transport and the command of the decision exchange
  (crates/code-intel-cli/src/decision_port.rs).  The operations of \<open>std::fs\<close> that the port calls
  form the record \<open>fs_ops\<close> over the state of the file system; the text routines of the library
  (UTF-8 check, JSON parser and printer) form the record \<open>text_lib\<close>; \<open>to_vec_pretty\<close> and
  \<open>to_string_pretty\<close> give the same bytes and are one field.
\<close>

section \<open>Messages\<close>

definition MAX_MESSAGE_BYTES :: nat where
  "MAX_MESSAGE_BYTES = 128 * 1024"

record text_lib =
  from_utf8 :: "string \<Rightarrow> string + string"
  key_from_slice :: "string \<Rightarrow> string + string"
  from_str :: "string \<Rightarrow> string + json"
  to_vec_pretty :: "json \<Rightarrow> string + string"

text \<open>\<open>fs_metadata\<close> is whether the path is a file, and its length.\<close>

record 'f fs_ops =
  fs_exists :: "string \<Rightarrow> 'f \<Rightarrow> bool"
  fs_is_file :: "string \<Rightarrow> 'f \<Rightarrow> bool"
  fs_metadata :: "string \<Rightarrow> 'f \<Rightarrow> string + bool \<times> nat"
  fs_read :: "string \<Rightarrow> 'f \<Rightarrow> string + string"
  fs_write :: "string \<Rightarrow> string \<Rightarrow> 'f \<Rightarrow> (string + unit) \<times> 'f"
  fs_create_dir_all :: "string \<Rightarrow> 'f \<Rightarrow> (string + unit) \<times> 'f"

definition parse_message :: "text_lib \<Rightarrow> string \<Rightarrow> string \<Rightarrow> string + json" where
  "parse_message lib bytes source =
     and_then (map_err (\<lambda>e. source @ '' message is not UTF-8: '' @ e) (from_utf8 lib bytes)) (\<lambda>text'.
     and_then (map_err (\<lambda>e. source @ '' message '' @ e) (the (reject_duplicate_json_keys (key_from_slice lib) text'))) (\<lambda>_.
     map_err (\<lambda>e. ''parse '' @ source @ '' message: '' @ e) (from_str lib text')))"

definition read_message :: "text_lib \<Rightarrow> 'f fs_ops \<Rightarrow> 'f \<Rightarrow> string \<Rightarrow> string + json" where
  "read_message lib fs st path =
     and_then (map_err (\<lambda>e. ''inspect port message: '' @ e) (fs_metadata fs path st)) (\<lambda>(is_file, len).
     and_then (ensure (\<not> (\<not> is_file \<or> len > MAX_MESSAGE_BYTES)) ''port message must be a bounded regular file'') (\<lambda>_.
     and_then (map_err (\<lambda>e. ''read port message: '' @ e) (fs_read fs path st)) (\<lambda>bytes.
     parse_message lib bytes ''port'')))"

text \<open>The standard input is an error or its bytes, of which one more than the limit is read.\<close>

definition read_cli_message :: "text_lib \<Rightarrow> 'f fs_ops \<Rightarrow> 'f \<Rightarrow> string + string \<Rightarrow> string \<Rightarrow> string + json" where
  "read_cli_message lib fs st stdin path =
     (if path \<noteq> ''-'' then read_message lib fs st path
      else and_then (map_err (\<lambda>e. ''read stdin message: '' @ e) stdin) (\<lambda>input.
           let bytes = take (MAX_MESSAGE_BYTES + 1) input in
           and_then (ensure (\<not> length bytes > MAX_MESSAGE_BYTES) ''stdin message exceeds size limit'') (\<lambda>_.
           parse_message lib bytes ''stdin'')))"

section \<open>The file port\<close>

definition port_path :: "string \<Rightarrow> string \<Rightarrow> string \<Rightarrow> string + string" where
  "port_path root correlation_id suffix =
     and_then (ensure (\<not> (correlation_id = [] \<or> \<not> portable correlation_id))
       ''correlation id is not portable for file transport'') (\<lambda>_.
     Ok (root @ ''/'' @ correlation_id @ ''.'' @ suffix @ ''.json''))"

definition file_submit :: "text_lib \<Rightarrow> 'f fs_ops \<Rightarrow> string \<Rightarrow> json \<Rightarrow> 'f \<Rightarrow> (string + unit) \<times> 'f" where
  "file_submit lib fs root request st =
     (case parse_request request of
        Inl e \<Rightarrow> (Inl e, st)
      | Inr parsed \<Rightarrow>
          (let (created, st') = fs_create_dir_all fs root st in
           case and_then (map_err (\<lambda>e. ''create file-port root: '' @ e) created) (\<lambda>_.
                  port_path root (pr_correlation_id parsed) ''request'') of
             Inl e \<Rightarrow> (Inl e, st')
           | Inr path \<Rightarrow>
               if fs_exists fs path st'
               then (and_then (read_message lib fs st' path) (\<lambda>existing.
                       ensure (\<not> existing \<noteq> request) ''file port correlation already contains a different request''), st')
               else (case map_err (\<lambda>e. ''serialize request: '' @ e) (to_vec_pretty lib request) of
                   Inl e \<Rightarrow> (Inl e, st')
                 | Inr bytes \<Rightarrow>
                     (let (written, st'') = fs_write fs path bytes st' in
                      (map_err (\<lambda>e. ''write file-port request: '' @ e) written, st'')))))"

definition file_poll :: "text_lib \<Rightarrow> 'f fs_ops \<Rightarrow> string \<Rightarrow> string \<Rightarrow> 'f \<Rightarrow> (string + port_poll) \<times> 'f" where
  "file_poll lib fs root correlation_id st =
     (and_then (port_path root correlation_id ''response'') (\<lambda>response_path.
      and_then (port_path root correlation_id ''cancel'') (\<lambda>cancel_path.
      if fs_is_file fs response_path st
      then (if fs_is_file fs cancel_path st then Err ''file port contains both response and cancellation''
            else and_then (read_message lib fs st response_path) (\<lambda>v. Ok (PollResponse v)))
      else (if fs_is_file fs cancel_path st
            then and_then (read_message lib fs st cancel_path) (\<lambda>v. Ok (PollCancelled v))
            else Ok PollPending))), st)"

definition file_ops :: "text_lib \<Rightarrow> 'f fs_ops \<Rightarrow> string \<Rightarrow> 'f port" where
  "file_ops lib fs root = \<lparr>submit = file_submit lib fs root, poll = file_poll lib fs root\<rparr>"

section \<open>The command\<close>

record decision_cli =
  dc_request :: "string option"
  dc_response :: "string option"
  dc_cancel :: "string option"
  dc_now :: "u64 option"
  dc_branches :: "string list"

definition decision_cli_default :: decision_cli where
  "decision_cli_default = \<lparr>dc_request = None, dc_response = None, dc_cancel = None, dc_now = None, dc_branches = []\<rparr>"

fun parse_flags :: "string list \<Rightarrow> decision_cli \<Rightarrow> string + decision_cli" where
  "parse_flags [] c = Ok c"
| "parse_flags [flag] c = Err (flag @ '' requires a value'')"
| "parse_flags (flag # value # rest) c =
     and_then
       (if flag = ''--request'' \<and> dc_request c = None then Ok (c\<lparr>dc_request := Some value\<rparr>)
        else if flag = ''--response'' \<and> dc_response c = None then Ok (c\<lparr>dc_response := Some value\<rparr>)
        else if flag = ''--cancel'' \<and> dc_cancel c = None then Ok (c\<lparr>dc_cancel := Some value\<rparr>)
        else if flag = ''--now'' \<and> dc_now c = None then
          and_then (ok_or (parse_unsigned (2 ^ 64) value) ''--now must be an unsigned integer'')
            (\<lambda>n. Ok (c\<lparr>dc_now := Some (of_nat n)\<rparr>))
        else if flag = ''--branch'' then Ok (c\<lparr>dc_branches := dc_branches c @ [value]\<rparr>)
        else Err (''unknown or duplicate option '' @ flag))
       (parse_flags rest)"

definition supplied ::
    "(string \<Rightarrow> string + json) \<Rightarrow> decision_cli \<Rightarrow> string + memory_port" where
  "supplied read c =
     (let port = \<lparr>mp_requests = [], mp_events = []\<rparr> in
     and_then (case dc_response c of None \<Rightarrow> Ok port
       | Some path \<Rightarrow> and_then (read path) (\<lambda>v. supply_response v port)) (\<lambda>port.
     case dc_cancel c of None \<Rightarrow> Ok port
       | Some path \<Rightarrow> and_then (read path) (\<lambda>v. supply_cancellation v port)))"

definition run_cli :: "(string \<Rightarrow> string + json) \<Rightarrow> string list \<Rightarrow> string + json" where
  "run_cli read raw =
     (case raw of
        [] \<Rightarrow> Err ''expected request-response subcommand''
      | sub # flags \<Rightarrow>
     and_then (ensure (\<not> sub \<noteq> ''request-response'') ''expected request-response subcommand'') (\<lambda>_.
     and_then (parse_flags flags decision_cli_default) (\<lambda>c.
     and_then (ensure (\<not> (dc_response c \<noteq> None \<and> dc_cancel c \<noteq> None)) ''--response and --cancel are mutually exclusive'') (\<lambda>_.
     and_then (ok_or (dc_request c) ''--request is required'') (\<lambda>request_path.
     and_then (ok_or (dc_now c) ''--now is required'') (\<lambda>now.
     and_then (read request_path) (\<lambda>request.
     and_then (supplied read c) (\<lambda>port.
     fst (advance memory_ops exchange_default request port now (dc_branches c))))))))))"

definition rejected_json :: "string \<Rightarrow> json" where
  "rejected_json error = jobj
     [(''schema'', JStr ''code-intel-decision-exchange-result.v1''), (''status'', JStr ''rejected''),
      (''correlationId'', JNull), (''gapId'', JNull), (''acceptedAnswer'', JNull), (''authorityProvenance'', JNull),
      (''branches'', JArr []), (''effects'', JArr []), (''diagnostics'', JArr [JStr error])]"

definition status_exit :: "json \<Rightarrow> int" where
  "status_exit value =
     (let status = as_str (jidx value ''status'') in
      if status = Some ''resolved'' then 0
      else if status = Some ''pending'' then 10
      else if status = Some ''timeout'' then 11
      else if status = Some ''cancelled'' then 12
      else 70)"

text \<open>The result is what is printed, if the value can be serialised, and the exit code.\<close>

definition run_raw :: "text_lib \<Rightarrow> (string \<Rightarrow> string + json) \<Rightarrow> string list \<Rightarrow> string option \<times> int" where
  "run_raw lib read raw =
     (let (value, exit_code) = (case run_cli read raw of
          Inr value \<Rightarrow> (value, status_exit value)
        | Inl error \<Rightarrow> (rejected_json error, 65)) in
      case to_vec_pretty lib value of
        Inr text' \<Rightarrow> (Some text', exit_code)
      | Inl _ \<Rightarrow> (None, 70))"

end
