(* ===== verification/Decision_Props.thy ===== *)
theory Decision_Props
  imports Decision_Cli
begin

text \<open>
  What the decision exchange guarantees: a correlation gets at most one final result, an answer is
  accepted only from an actor with the requested authority and inside the life of the request and
  its evidence, refused answers do not block the request, and the transports agree.
\<close>

section \<open>Results\<close>

lemma exchange_result_simps [simp]:
  "jidx (exchange_result q bs st af an pv) ''status'' = JStr st"
  "jidx (exchange_result q bs st af an pv) ''correlationId'' = JStr (pr_correlation_id q)"
  "jidx (exchange_result q bs st af an pv) ''acceptedAnswer'' = jopt an"
  "jidx (exchange_result q bs st af an pv) ''authorityProvenance'' = jopt pv"
  "jidx (exchange_result q bs st af an pv) ''branches'' = JArr (map (\<lambda>branch. jobj
     [(''branchId'', JStr branch),
      (''status'', JStr (if branch \<in> set (pr_affected_branches q) then af else ''continues''))]) bs)"
  by (simp_all add: exchange_result_def jidx_jobj)

definition final_status :: "string \<Rightarrow> bool" where
  "final_status s \<longleftrightarrow> s \<in> {''resolved'', ''cancelled'', ''timeout''}"

definition final_id :: "string + json \<Rightarrow> string option" where
  "final_id r = (case r of Inl _ \<Rightarrow> None
     | Inr v \<Rightarrow> if list_ex (\<lambda>s. jidx v ''status'' = JStr s) [''resolved'', ''cancelled'', ''timeout'']
         then as_str (jidx v ''correlationId'') else None)"

lemma final_id_result [simp]:
  "final_id (Inl e) = None"
  "final_id (Inr (exchange_result q bs ''pending'' af an pv)) = None"
  "final_id (Inr (exchange_result q bs ''timeout'' af an pv)) = Some (pr_correlation_id q)"
  "final_id (Inr (exchange_result q bs ''resolved'' af an pv)) = Some (pr_correlation_id q)"
  "final_id (Inr (exchange_result q bs ''cancelled'' af an pv)) = Some (pr_correlation_id q)"
  by (simp_all add: final_id_def)

lemma terminal_finish: "set (dx_terminal (exchange_finish c x)) = insert c (set (dx_terminal x))"
  by (simp add: exchange_finish_def set_insort_insert)

lemma pending_finish [simp]: "bt_get (dx_pending (exchange_finish c x)) = (bt_get (dx_pending x))(c := None)"
  by (simp add: exchange_finish_def)

lemma exchange_poll_terminal:
  assumes "exchange_poll ops x q bs p now = (r, x', p')"
  shows "final_id r = None \<or> final_id r = Some (pr_correlation_id q) \<and> pr_correlation_id q \<in> set (dx_terminal x')"
    and "x' = x \<or> x' = exchange_finish (pr_correlation_id q) x"
  using assms
  by (auto simp: exchange_poll_def terminal_finish Let_def split: prod.splits sum.splits port_poll.splits if_splits;
      metis final_id_result(1) option.distinct(1))+

section \<open>The state of the exchange\<close>

definition exchange_inv :: "decision_exchange \<Rightarrow> bool" where
  "exchange_inv x \<longleftrightarrow> (\<forall>c r. bt_get (dx_pending x) c = Some r \<longrightarrow>
     c \<notin> set (dx_terminal x) \<and> (\<exists>q. parse_request r = Inr q \<and> pr_correlation_id q = c))"

lemma exchange_inv_finish: "exchange_inv x \<Longrightarrow> exchange_inv (exchange_finish c x)"
  by (auto simp: exchange_inv_def terminal_finish split: if_splits)

lemma advance_cases:
  assumes "advance ops x request p now branches = (r, x', p')"
  obtains (refused) e where "r = Inl e" "x' = x"
  | (polled) q bs p1 x1 where "parse_request request = Inr q" "validate_branches branches (pr_affected_branches q) = Inr bs"
      "pr_correlation_id q \<notin> set (dx_terminal x)" "pr_issued_at q \<le> now"
      "x1 = x\<lparr>dx_pending := bt_insert (pr_correlation_id q) request (dx_pending x)\<rparr> \<or>
       x1 = x \<and> bt_get (dx_pending x) (pr_correlation_id q) = Some request"
      "exchange_poll ops x1 q bs p1 now = (r, x', p')" "p1 = p \<or> p1 = snd (submit ops request p)"
proof -
  define guard where "guard = and_then (parse_request request) (\<lambda>parsed.
            and_then (validate_branches branches (pr_affected_branches parsed)) (\<lambda>branch_ids.
            and_then (ensure (\<not> now < pr_issued_at parsed) ''processing clock precedes request issue time'') (\<lambda>_.
            and_then (ensure (pr_correlation_id parsed \<notin> set (dx_terminal x))
              (''response replay for terminal correlation '' @ pr_correlation_id parsed)) (\<lambda>_.
            Ok (parsed, branch_ids)))))"
  note a = assms [unfolded advance_def, folded guard_def]
  show thesis
  proof (cases guard)
    case (Inl e)
    with a show ?thesis by (auto intro: refused)
  next
    case (Inr qb)
    obtain q bs where qb: "qb = (q, bs)" by (cases qb)
    from Inr have g: "parse_request request = Inr q" "validate_branches branches (pr_affected_branches q) = Inr bs"
      "\<not> now < pr_issued_at q" "pr_correlation_id q \<notin> set (dx_terminal x)"
      by (auto simp: guard_def qb and_then_eq_Inr)
    note a = a [unfolded Inr qb, simplified]
    show ?thesis
    proof (cases "bt_get (dx_pending x) (pr_correlation_id q)")
      case (Some existing)
      show ?thesis
      proof (cases "existing = request")
        case True
        with a Some g show ?thesis by (intro polled [of q bs x p]) auto
      qed (use a Some in \<open>auto intro: refused\<close>)
    next
      case None
      obtain s p1 where s: "submit ops request p = (s, p1)" by (cases "submit ops request p")
      show ?thesis
      proof (cases s)
        case (Inl e)
        with a None s show ?thesis by (auto intro: refused)
      next
        case (Inr u)
        with a None s g show ?thesis
          by (intro polled [of q bs "x\<lparr>dx_pending := bt_insert (pr_correlation_id q) request (dx_pending x)\<rparr>" p1]) auto
      qed
    qed
  qed
qed

lemma advance_inv:
  assumes "advance ops x request p now branches = (r, x', p')" "exchange_inv x"
  shows "exchange_inv x'"
  using assms(1)
proof (cases rule: advance_cases)
  case (polled q bs p1 x1)
  have "exchange_inv x1" using polled(1,3,5) assms(2) by (auto simp: exchange_inv_def split: if_splits)
  then show ?thesis using exchange_poll_terminal(2) [OF polled(6)] exchange_inv_finish by blast
qed (use assms in auto)

lemma advance_terminal:
  assumes "advance ops x request p now branches = (r, x', p')"
  shows "set (dx_terminal x) \<subseteq> set (dx_terminal x') \<and>
    (\<forall>c. final_id r = Some c \<longrightarrow> c \<notin> set (dx_terminal x) \<and> c \<in> set (dx_terminal x'))"
  using assms
proof (cases rule: advance_cases)
  case (polled q bs p1 x1)
  have "dx_terminal x1 = dx_terminal x" using polled(5) by auto
  with polled(3) exchange_poll_terminal [OF polled(6)] show ?thesis by (force simp: terminal_finish)
qed simp

section \<open>Sequences of calls\<close>

text \<open>The calls of a run of an exchange: the request, the state the port has by then, the clock and
  the branches of each.\<close>

fun exchange_run ::
    "'p port \<Rightarrow> (json \<times> 'p \<times> u64 \<times> string list) list \<Rightarrow> decision_exchange \<Rightarrow> (string + json) list \<times> decision_exchange" where
  "exchange_run ops [] x = ([], x)"
| "exchange_run ops ((request, p, now, branches) # calls) x =
     (let (r, x', p') = advance ops x request p now branches; (rs, x'') = exchange_run ops calls x' in (r # rs, x''))"

lemma exchange_run_inv: "exchange_inv x \<Longrightarrow> exchange_inv (snd (exchange_run ops calls x))"
proof (induction calls arbitrary: x)
  case (Cons k calls)
  obtain request p now branches where k: "k = (request, p, now, branches)" by (cases k)
  obtain r x' p' where a: "advance ops x request p now branches = (r, x', p')"
    by (cases "advance ops x request p now branches")
  show ?case using Cons.IH [OF advance_inv [OF a Cons.prems]] by (simp add: k a case_prod_beta)
qed simp

lemma final_ids:
  "distinct (List.map_filter final_id (fst (exchange_run ops calls x))) \<and>
   set (List.map_filter final_id (fst (exchange_run ops calls x))) \<inter> set (dx_terminal x) = {}"
proof (induction calls arbitrary: x)
  case (Cons k calls)
  obtain request p now branches where k: "k = (request, p, now, branches)" by (cases k)
  obtain r x' p' where a: "advance ops x request p now branches = (r, x', p')"
    by (cases "advance ops x request p now branches")
  obtain rs x'' where rs: "exchange_run ops calls x' = (rs, x'')" by (cases "exchange_run ops calls x'")
  have IH: "distinct (List.map_filter final_id rs)" "set (List.map_filter final_id rs) \<inter> set (dx_terminal x') = {}"
    using Cons.IH [of x'] by (simp_all add: rs)
  note t = advance_terminal [OF a]
  show ?case
  proof (cases "final_id r")
    case None
    then show ?thesis using IH t by (auto simp: k a rs List.map_filter_simps)
  next
    case (Some c)
    with t have "c \<notin> set (dx_terminal x)" "c \<in> set (dx_terminal x')" by auto
    with Some IH t show ?thesis by (auto simp: k a rs List.map_filter_simps)
  qed
qed (simp add: List.map_filter_simps)

section \<open>Accepted answers\<close>

text \<open>A message that speaks for the request: it names it, comes from one of the actors asked, in the
  kind of authority asked for, and its time lies in the life of the request and of all its evidence.\<close>

definition speaks_for :: "json \<Rightarrow> parsed_request \<Rightarrow> u64 \<Rightarrow> bool" where
  "speaks_for message q now \<longleftrightarrow>
     jget message ''correlationId'' = Some (JStr (pr_correlation_id q)) \<and>
     jget message ''gapId'' = Some (JStr (pr_gap_id q)) \<and>
     (\<exists>actor \<in> set (pr_actor_ids q). jptr message [''actorProvenance'', ''actorId''] = Some (JStr actor)) \<and>
     jptr message [''actorProvenance'', ''authorityKind''] = Some (JStr (pr_authority_kind q)) \<and>
     (\<exists>ts. jget message ''timestamp'' = Some (ju64 ts) \<and> pr_issued_at q \<le> ts \<and> ts \<le> now \<and> ts \<le> pr_expires_at q \<and>
        (\<forall>e \<in> set (pr_evidence_refs q). ts \<le> e))"

lemma nonempty_string_Inr: "nonempty_string v c = Inr s \<longleftrightarrow> v = JStr s \<and> \<not> is_blank s"
  by (auto simp: nonempty_string_def as_str_eq split: option.splits if_splits)

lemma integer_Inr: "integer v c = Inr n \<longleftrightarrow> v = ju64 n"
  by (simp add: integer_def as_u64_eq)

lemma jidx_JStr: "jidx v k = JStr s \<longleftrightarrow> jget v k = Some (JStr s)"
  by (auto simp: jidx_def split: option.splits)

lemma jidx_ju64: "jidx v k = ju64 n \<longleftrightarrow> jget v k = Some (ju64 n)"
  by (auto simp: jidx_def ju64_def split: option.splits)

lemma jget_of_jidx: "jget (jidx v k) j = Some x \<longleftrightarrow> jptr v [k, j] = Some x"
  by (auto simp: jidx_def split: option.splits)

lemma validate_binding_Ok:
  assumes "validate_binding message q now = Inr u"
  shows "speaks_for message q now"
proof -
  from assms obtain actor ts where "as_str (jidx message ''correlationId'') = Some (pr_correlation_id q)"
    "as_str (jidx message ''gapId'') = Some (pr_gap_id q)"
    "nonempty_string (jidx (jidx message ''actorProvenance'') ''actorId'') ''actorProvenance.actorId'' = Inr actor"
    "nonempty_string (jidx (jidx message ''actorProvenance'') ''authorityKind'') ''actorProvenance.authorityKind'' = Inr (pr_authority_kind q)"
    "actor \<in> set (pr_actor_ids q)" "integer (jidx message ''timestamp'') ''timestamp'' = Inr ts"
    "\<not> ts > now" "\<not> (ts < pr_issued_at q \<or> ts > pr_expires_at q)"
    "\<not> list_ex (\<lambda>e. ts > e) (pr_evidence_refs q)"
    unfolding validate_binding_def Let_def and_then_eq_Inr ensure_eq_Inr ok_or_eq_Inr
    by (elim exE conjE) auto
  then show ?thesis
    unfolding speaks_for_def as_str_eq nonempty_string_Inr integer_Inr jidx_JStr jidx_ju64 jget_of_jidx
    by (auto simp: list_ex_iff not_less simp del: jptr.simps)
qed

text \<open>An answer to the request: one of its options, or a text.\<close>

definition answers :: "json \<Rightarrow> parsed_request \<Rightarrow> bool" where
  "answers answer q \<longleftrightarrow>
     jget answer ''kind'' = Some (JStr ''choice'') \<and>
       (\<exists>i \<in> set (pr_option_ids q). jget answer ''optionId'' = Some (JStr i)) \<or>
     jget answer ''kind'' = Some (JStr ''free-form'') \<and>
       (\<exists>t. jget answer ''text'' = Some (JStr t) \<and> \<not> is_blank t)"

lemma validate_response_Ok:
  assumes "validate_response response q now = Inr (answer, provenance)"
  shows "speaks_for response q now \<and> answers answer q \<and> answer = jidx response ''answer'' \<and>
    provenance = jidx response ''actorProvenance''"
proof -
  let ?a = "jidx response ''answer''"
  let ?kind = "\<lambda>o'. case bt_get o' ''kind'' of Some v \<Rightarrow> as_str v | None \<Rightarrow> None"
  from assms obtain o' where "validate_binding response q now = Inr ()"
    and o': "?a = JObj o'"
    and k: "(if ?kind o' = Some ''choice'' then
          and_then (exact_object ?a ''choice answer'' [''kind'', ''optionId'']) (\<lambda>_.
          and_then (nonempty_string (jidx ?a ''optionId'') ''answer.optionId'') (\<lambda>option_id.
          ensure (option_id \<in> set (pr_option_ids q)) ''answer selects an unknown option''))
        else if ?kind o' = Some ''free-form'' then
          and_then (exact_object ?a ''free-form answer'' [''kind'', ''text'']) (\<lambda>_.
          and_then (nonempty_string (jidx ?a ''text'') ''answer.text'') (\<lambda>_. Ok ()))
        else Err ''answer kind is invalid'') = Inr ()"
    and r: "answer = ?a" "provenance = jidx response ''actorProvenance''"
    unfolding validate_response_def Let_def and_then_eq_Inr ensure_eq_Inr ok_or_eq_Inr as_object_eq
    by (elim exE conjE) auto
  have "?kind o' = Some s \<longleftrightarrow> jget ?a ''kind'' = Some (JStr s)" for s
    by (simp add: o' as_str_eq split: option.splits)
  with k have "answers ?a q"
    by (auto simp: answers_def and_then_eq_Inr nonempty_string_Inr jidx_JStr split: if_splits)
  with validate_binding_Ok r \<open>validate_binding response q now = Inr ()\<close> show ?thesis by blast
qed

lemma exchange_poll_resolved:
  assumes "exchange_poll ops x q bs p now = (Inr v, x', p')" "jidx v ''status'' = JStr ''resolved''"
  obtains response answer provenance where "fst (poll ops (pr_correlation_id q) p) = Inr (PollResponse response)"
    "validate_response response q now = Inr (answer, provenance)" "now < pr_expires_at q"
    "v = exchange_result q bs ''resolved'' ''ready'' (Some answer) (Some provenance)"
    "x' = exchange_finish (pr_correlation_id q) x"
proof -
  obtain polled p1 where pl: "poll ops (pr_correlation_id q) p = (polled, p1)"
    by (cases "poll ops (pr_correlation_id q) p")
  show thesis
  proof (cases polled)
    case (Inr e)
    then show thesis
    proof (cases e)
      case PollPending
      with assms pl Inr show thesis by (auto simp: exchange_poll_def Let_def split: if_splits)
    next
      case (PollResponse response)
      with assms pl Inr obtain an pv where "validate_response response q now = Inr (an, pv)"
        by (cases "validate_response response q now") (auto simp: exchange_poll_def Let_def split: if_splits)
      with assms pl Inr PollResponse show thesis
        by (intro that [of response an pv]) (auto simp: exchange_poll_def Let_def not_le split: if_splits)
    next
      case (PollCancelled c)
      with assms pl Inr show thesis
        by (cases "validate_cancellation c q now") (auto simp: exchange_poll_def Let_def split: if_splits)
    qed
  qed (use assms pl in \<open>simp add: exchange_poll_def\<close>)
qed

lemma exchange_poll_shape:
  assumes "exchange_poll ops x q bs p now = (Inr v, x', p')"
  obtains st s an pv where "v = exchange_result q bs st s an pv"
    "(st, s) \<in> {(''timeout'', ''blocked_timeout''), (''pending'', ''blocked_pending_response''), (''resolved'', ''ready''),
      (''cancelled'', ''blocked_cancelled'')}"
proof -
  obtain polled p1 where pl: "poll ops (pr_correlation_id q) p = (polled, p1)"
    by (cases "poll ops (pr_correlation_id q) p")
  show thesis
  proof (cases polled)
    case (Inr e)
    then show thesis
    proof (cases e)
      case PollPending
      with assms pl Inr show thesis by (auto simp: exchange_poll_def Let_def intro: that split: if_splits)
    next
      case (PollResponse r)
      with assms pl Inr show thesis
        by (cases "validate_response r q now") (auto simp: exchange_poll_def Let_def intro: that split: if_splits)
    next
      case (PollCancelled r)
      with assms pl Inr show thesis
        by (cases "validate_cancellation r q now") (auto simp: exchange_poll_def Let_def intro: that split: if_splits)
    qed
  qed (use assms pl in \<open>simp add: exchange_poll_def\<close>)
qed

lemma validate_branches_Ok:
  assumes "validate_branches branches affected = Inr bs"
  shows "sorted bs \<and> mset bs = mset branches \<and> distinct branches \<and> set affected \<subseteq> set branches"
proof -
  have loop: "mset r = mset branches + mset acc \<and> (sorted acc \<longrightarrow> sorted r) \<and> distinct branches \<and> set branches \<inter> set acc = {}"
    if "try_fold (\<lambda>branch result. and_then (ensure (\<not> (is_blank branch \<or> branch \<in> set result))
         ''branch list must contain unique non-empty ids'') (\<lambda>_. Ok (insort branch result))) branches acc = Inr r" for acc r
    using that
    by (induction branches arbitrary: acc) (fastforce simp: and_then_eq_Inr sorted_insort set_insort_key)+
  from assms obtain r where r: "try_fold (\<lambda>branch result. and_then (ensure (\<not> (is_blank branch \<or> branch \<in> set result))
         ''branch list must contain unique non-empty ids'') (\<lambda>_. Ok (insort branch result))) branches [] = Inr r"
    "find (\<lambda>b. b \<notin> set r) affected = None" "bs = r"
    unfolding validate_branches_def and_then_eq_Inr by (auto split: option.splits)
  from loop [OF r(1)] have "mset bs = mset branches" "sorted bs" "distinct branches" by (simp_all add: r(3))
  moreover have "set affected \<subseteq> set bs" using r(2,3) by (auto simp: find_None_iff)
  ultimately show ?thesis using mset_eq_setD by blast
qed

lemma memory_submit_events [simp]: "mp_events (snd (memory_submit r p)) = mp_events p"
  by (simp add: memory_submit_def split: sum.split)

lemma memory_poll_response:
  "fst (memory_poll c p) = Inr (PollResponse r) \<Longrightarrow> PollResponse r \<in> set (mp_events p)"
  by (auto simp: memory_poll_def split: list.splits)

lemma advance_resolved:
  assumes "advance ops x request p now branches = (Inr v, x', p')" "jidx v ''status'' = JStr ''resolved''"
  shows "\<exists>q response p1. parse_request request = Inr q \<and> (p1 = p \<or> p1 = snd (submit ops request p)) \<and>
    fst (poll ops (pr_correlation_id q) p1) = Inr (PollResponse response) \<and>
    speaks_for response q now \<and> answers (jidx response ''answer'') q \<and>
    pr_issued_at q \<le> now \<and> now < pr_expires_at q \<and> jidx v ''acceptedAnswer'' = jidx response ''answer'' \<and>
    pr_correlation_id q \<notin> set (dx_terminal x) \<and> pr_correlation_id q \<in> set (dx_terminal x')"
  using assms(1)
proof (cases rule: advance_cases)
  case (polled q bs p1 x1)
  from exchange_poll_resolved [OF polled(6) assms(2)] obtain response answer provenance where
    r: "fst (poll ops (pr_correlation_id q) p1) = Inr (PollResponse response)"
      "validate_response response q now = Inr (answer, provenance)" "now < pr_expires_at q"
      "v = exchange_result q bs ''resolved'' ''ready'' (Some answer) (Some provenance)"
      "x' = exchange_finish (pr_correlation_id q) x1" by metis
  have a: "speaks_for response q now" "answers answer q" "answer = jidx response ''answer''"
    using validate_response_Ok [OF r(2)] by auto
  have t: "pr_correlation_id q \<in> set (dx_terminal x')" by (simp add: r(5) terminal_finish)
  have v: "jidx v ''acceptedAnswer'' = answer" by (simp add: r(4) jopt_def)
  show ?thesis using polled(1,3,4,7) r(1,3) a t v by blast
qed simp

lemma supplied_events:
  assumes "supplied read c = Inr port" "PollResponse r \<in> set (mp_events port)"
  shows "\<exists>path. dc_response c = Some path \<and> read path = Inr r"
  using assms
  by (auto simp: supplied_def Let_def and_then_eq_Inr supply_response_def supply_cancellation_def split: option.splits)

section \<open>Refused answers\<close>

definition refused :: "port_poll \<Rightarrow> parsed_request \<Rightarrow> u64 \<Rightarrow> bool" where
  "refused e q now \<longleftrightarrow> (case e of PollPending \<Rightarrow> True
     | PollResponse r \<Rightarrow> \<not> is_ok (validate_response r q now)
     | PollCancelled c \<Rightarrow> \<not> is_ok (validate_cancellation c q now))"

text \<open>The same call again and again, on one exchange and one port.\<close>

fun advance_n ::
    "'p port \<Rightarrow> nat \<Rightarrow> decision_exchange \<Rightarrow> json \<Rightarrow> 'p \<Rightarrow> u64 \<Rightarrow> string list \<Rightarrow> (string + json) list" where
  "advance_n ops 0 x request p now branches = []"
| "advance_n ops (Suc n) x request p now branches =
     (let (r, x', p') = advance ops x request p now branches in r # advance_n ops n x' request p' now branches)"

definition open_for :: "decision_exchange \<Rightarrow> memory_port \<Rightarrow> json \<Rightarrow> parsed_request \<Rightarrow> bool" where
  "open_for x p request q \<longleftrightarrow> parse_request request = Inr q \<and> pr_correlation_id q \<notin> set (dx_terminal x) \<and>
     (bt_get (dx_pending x) (pr_correlation_id q) = Some request \<or>
      bt_get (dx_pending x) (pr_correlation_id q) = None \<and>
      bt_get (mp_requests p) (pr_correlation_id q) \<in> {None, Some request})"

lemma open_advance:
  assumes "open_for x p request q" "validate_branches branches (pr_affected_branches q) = Inr bs" "pr_issued_at q \<le> now"
  obtains x1 p1 where "advance memory_ops x request p now branches = exchange_poll memory_ops x1 q bs p1 now"
    "open_for x1 p1 request q" "mp_events p1 = mp_events p"
proof (cases "bt_get (dx_pending x) (pr_correlation_id q)")
  case None
  have n: "\<not> now < pr_issued_at q" using assms(3) by simp
  let ?x1 = "x\<lparr>dx_pending := bt_insert (pr_correlation_id q) request (dx_pending x)\<rparr>"
  obtain m where m: "store_request (mp_requests p) request = Inr m"
    using assms(1) None by (auto simp: open_for_def store_request_def)
  let ?p1 = "p\<lparr>mp_requests := m\<rparr>"
  show thesis
    by (rule that [of ?x1 ?p1]) (use assms None n m in \<open>auto simp: open_for_def advance_def memory_ops_def memory_submit_def\<close>)
next
  case (Some r)
  with assms(1) have "r = request" by (auto simp: open_for_def)
  moreover have "\<not> now < pr_issued_at q" using assms(3) by simp
  ultimately show thesis using Some assms by (intro that [of x p]) (auto simp: open_for_def advance_def)
qed

lemma refused_step:
  assumes "open_for x p request q" "validate_branches branches (pr_affected_branches q) = Inr bs"
    "pr_issued_at q \<le> now" "now < pr_expires_at q" "mp_events p = e # es" "refused e q now"
  obtains r x' p' where "advance memory_ops x request p now branches = (r, x', p')"
    "open_for x' p' request q" "mp_events p' = es" "final_id r = None"
proof -
  from open_advance [OF assms(1-3)] obtain x1 p1 where
    a: "advance memory_ops x request p now branches = exchange_poll memory_ops x1 q bs p1 now"
    and o': "open_for x1 p1 request q" "mp_events p1 = e # es"
    using assms(5) by metis
  have "\<not> pr_expires_at q \<le> now" using assms(4) by simp
  with o' assms(6) have "\<exists>r. exchange_poll memory_ops x1 q bs p1 now = (r, x1, p1\<lparr>mp_events := es\<rparr>) \<and> final_id r = None"
    by (auto simp: exchange_poll_def memory_ops_def memory_poll_def refused_def is_ok_def Let_def
        split: port_poll.splits sum.splits)
  with a o' show thesis by (auto simp: open_for_def intro: that)
qed

lemma advance_n_resolves:
  assumes "open_for x p request q" "validate_branches branches (pr_affected_branches q) = Inr bs"
    "pr_issued_at q \<le> now" "now < pr_expires_at q" "mp_events p = bad @ PollResponse reply # rest"
    "\<forall>e \<in> set bad. refused e q now" "validate_response reply q now = Inr (answer, provenance)"
  shows "\<exists>rs. advance_n memory_ops (Suc (length bad)) x request p now branches =
      rs @ [Inr (exchange_result q bs ''resolved'' ''ready'' (Some answer) (Some provenance))] \<and>
    (\<forall>r \<in> set rs. final_id r = None)"
  using assms(1,5,6)
proof (induction bad arbitrary: x p)
  case Nil
  obtain x1 p1 where a: "advance memory_ops x request p now branches = exchange_poll memory_ops x1 q bs p1 now"
    and e: "mp_events p1 = PollResponse reply # rest"
    using open_advance [OF Nil.prems(1) assms(2,3)] Nil.prems(2) by (metis append_Nil)
  have "\<not> pr_expires_at q \<le> now" using assms(4) by simp
  then have "fst (advance memory_ops x request p now branches) =
      Inr (exchange_result q bs ''resolved'' ''ready'' (Some answer) (Some provenance))"
    by (simp add: a) (simp add: exchange_poll_def memory_ops_def memory_poll_def e assms(7) Let_def)
  then show ?case by (auto simp: case_prod_beta)
next
  case (Cons e bad)
  obtain r x' p' where a: "advance memory_ops x request p now branches = (r, x', p')"
    "open_for x' p' request q" "mp_events p' = bad @ PollResponse reply # rest" "final_id r = None"
    by (rule refused_step [OF Cons.prems(1) assms(2-4), of e "bad @ PollResponse reply # rest"]) (use Cons.prems in auto)
  have "\<forall>e \<in> set bad. refused e q now" using Cons.prems(3) by simp
  from Cons.IH [OF a(2,3) this] obtain rs where
    "advance_n memory_ops (Suc (length bad)) x' request p' now branches =
      rs @ [Inr (exchange_result q bs ''resolved'' ''ready'' (Some answer) (Some provenance))]"
    "\<forall>r \<in> set rs. final_id r = None" by blast
  then show ?case by (intro exI [of _ "r # rs"]) (simp add: a del: advance_n.simps(2) add: advance_n.simps(2) [of _ "Suc (length bad)"])
qed

section \<open>Transports\<close>

text \<open>What a port promises about the requests it stores: a request it accepts is stored under its
  correlation, and a different one is refused.\<close>

locale request_store =
  fixes subm :: "json \<Rightarrow> 'p \<Rightarrow> (string + unit) \<times> 'p" and stored :: "'p \<Rightarrow> (string, json) btree"
  assumes accepts: "fst (subm r p) = Inr () \<Longrightarrow> \<exists>q. parse_request r = Inr q \<and>
      bt_get (stored (snd (subm r p))) = (bt_get (stored p))(pr_correlation_id q \<mapsto> r) \<and>
      bt_get (stored p) (pr_correlation_id q) \<in> {None, Some r}"
    and refuses: "fst (subm r p) \<noteq> Inr () \<Longrightarrow> bt_get (stored p) \<subseteq>\<^sub>m bt_get (stored (snd (subm r p)))"
begin

lemma submit_extends: "bt_get (stored p) \<subseteq>\<^sub>m bt_get (stored (snd (subm r p)))"
proof (cases "fst (subm r p) = Inr ()")
  case True
  from accepts [OF this] show ?thesis by (auto simp: map_le_def)
qed (rule refuses)

lemma submits_extend: "bt_get (stored p) \<subseteq>\<^sub>m bt_get (stored (fold (\<lambda>r p. snd (subm r p)) rs p))"
proof (induction rs arbitrary: p)
  case (Cons r rs)
  then show ?case using map_le_trans [OF submit_extends Cons.IH] by simp
qed simp

end

lemma store_request_Inr:
  assumes "store_request m r = Inr m'"
  shows "\<exists>q. parse_request r = Inr q \<and> bt_get m' = (bt_get m)(pr_correlation_id q \<mapsto> r) \<and>
     bt_get m (pr_correlation_id q) \<in> {None, Some r}"
proof -
  obtain q where q: "parse_request r = Inr q" using assms by (auto simp: store_request_def and_then_eq_Inr)
  with assms show ?thesis
    by (cases "bt_get m (pr_correlation_id q)") (auto simp: store_request_def fun_upd_idem split: if_splits)
qed

interpretation memory: request_store memory_submit mp_requests
proof unfold_locales
  fix r p
  show "fst (memory_submit r p) = Inr () \<Longrightarrow> \<exists>q. parse_request r = Inr q \<and>
      bt_get (mp_requests (snd (memory_submit r p))) = (bt_get (mp_requests p))(pr_correlation_id q \<mapsto> r) \<and>
      bt_get (mp_requests p) (pr_correlation_id q) \<in> {None, Some r}"
    by (cases "store_request (mp_requests p) r") (auto simp: memory_submit_def dest!: store_request_Inr)
  show "fst (memory_submit r p) \<noteq> Inr () \<Longrightarrow> bt_get (mp_requests p) \<subseteq>\<^sub>m bt_get (mp_requests (snd (memory_submit r p)))"
    by (cases "store_request (mp_requests p) r") (auto simp: memory_submit_def)
qed

interpretation text_port: request_store "text_submit pretty" tp_requests for pretty
proof unfold_locales
  fix r and p :: text_port
  let ?g = "and_then (parse_request r) (\<lambda>parsed.
           and_then (store_request (tp_requests p) r) (\<lambda>requests. Ok (parsed, requests)))"
  have g: "?g = Inr (q, m) \<Longrightarrow> store_request (tp_requests p) r = Inr m" for q m by (auto simp: and_then_eq_Inr)
  have t: "?g = Inr (q, m) \<Longrightarrow> tp_requests (snd (text_submit pretty r p)) = m" for q m
    by (cases "pretty r") (auto simp: text_submit_def Let_def)
  have e: "?g = Inl e \<Longrightarrow> text_submit pretty r p = (Inl e, p)" for e
    by (simp add: text_submit_def)
  show "\<exists>q. parse_request r = Inr q \<and>
      bt_get (tp_requests (snd (text_submit pretty r p))) = (bt_get (tp_requests p))(pr_correlation_id q \<mapsto> r) \<and>
      bt_get (tp_requests p) (pr_correlation_id q) \<in> {None, Some r}" if "fst (text_submit pretty r p) = Inr ()"
    using that e g t store_request_Inr [of "tp_requests p" r] by (cases ?g) (simp_all, metis prod.exhaust)
  show "bt_get (tp_requests p) \<subseteq>\<^sub>m bt_get (tp_requests (snd (text_submit pretty r p)))"
    if "fst (text_submit pretty r p) \<noteq> Inr ()"
  proof (cases ?g)
    case (Inr qm)
    obtain q m where "qm = (q, m)" by (cases qm)
    with Inr g t have "store_request (tp_requests p) r = Inr m" "tp_requests (snd (text_submit pretty r p)) = m" by simp_all
    with store_request_Inr [of "tp_requests p" r m] show ?thesis by (auto simp: map_le_def)
  qed (simp add: e)
qed

end
