(* ===== verification/Decision_Claims.thy ===== *)
theory Decision_Claims
  imports Decision_Props
begin

text \<open>
  The properties of the decision exchange and its transports, and a small exchange on which they
  are instantiated.
\<close>

section \<open>A small exchange\<close>

definition demo_request :: json where
  "demo_request = jobj
     [(''schema'', JStr ''code-intel-decision-request.v1''), (''correlationId'', JStr ''c1''), (''gapId'', JStr ''g''),
      (''question'', JStr ''which''), (''recommendation'', jobj [(''optionId'', JStr ''a''), (''rationale'', JStr ''r'')]),
      (''evidenceRefs'', JArr [jobj [(''refId'', JStr ''e''), (''sha256'', JStr (replicate 64 (CHR ''0''))),
         (''observedAt'', ju64 1), (''expiresAt'', ju64 50)]]),
      (''options'', JArr (map (\<lambda>i. jobj [(''id'', JStr i), (''label'', JStr ''l''), (''consequence'', JStr ''q'')]) [''a'', ''b''])),
      (''authorityNeeded'', jobj [(''kind'', JStr ''owner''), (''actorIds'', JArr [JStr ''h''])]),
      (''issuedAt'', ju64 10), (''expiresAt'', ju64 40), (''affectedBranches'', JArr [JStr ''x''])]"

definition demo_reply :: "string \<Rightarrow> json" where
  "demo_reply i = jobj
     [(''schema'', JStr ''code-intel-decision-response.v1''), (''correlationId'', JStr ''c1''), (''gapId'', JStr ''g''),
      (''answer'', jobj [(''kind'', JStr ''choice''), (''optionId'', JStr i)]),
      (''actorProvenance'', jobj [(''actorId'', JStr ''h''), (''authorityKind'', JStr ''owner''), (''source'', JStr ''s'')]),
      (''timestamp'', ju64 20)]"

definition demo_parsed :: parsed_request where
  "demo_parsed = \<lparr>pr_correlation_id = ''c1'', pr_gap_id = ''g'', pr_option_ids = [''a'', ''b''], pr_evidence_refs = [50],
     pr_authority_kind = ''owner'', pr_actor_ids = [''h''], pr_issued_at = 10, pr_expires_at = 40, pr_affected_branches = [''x'']\<rparr>"

definition demo_provenance :: json where
  "demo_provenance = jobj [(''actorId'', JStr ''h''), (''authorityKind'', JStr ''owner''), (''source'', JStr ''s'')]"

definition demo_port :: "port_poll list \<Rightarrow> memory_port" where
  "demo_port es = \<lparr>mp_requests = [], mp_events = es\<rparr>"

lemma demo_request_parses: "parse_request demo_request = Inr demo_parsed"
  by code_simp

lemma demo_replies: "\<not> is_ok (validate_response (demo_reply ''z'') demo_parsed 25)"
  "validate_response (demo_reply ''a'') demo_parsed 25 = Inr (jobj [(''kind'', JStr ''choice''), (''optionId'', JStr ''a'')], demo_provenance)"
  by code_simp+

lemma demo_branches: "validate_branches [''y'', ''x''] (pr_affected_branches demo_parsed) = Inr [''x'', ''y'']"
  by code_simp

lemma demo_times: "pr_issued_at demo_parsed \<le> 25" "25 < pr_expires_at demo_parsed" "\<not> pr_expires_at demo_parsed \<le> 25"
  by code_simp+

lemma demo_open: "open_for exchange_default (demo_port es) demo_request demo_parsed"
  by (simp add: open_for_def demo_request_parses exchange_default_def demo_port_def)

section \<open>Properties\<close>

text \<open>C18: In any sequence of calls, whatever the ports deliver, a correlation gets at most one final
  result (resolved, cancelled or timed out), and every request the exchange holds open is stored
  under its own correlation, which has no final result.\<close>

theorem one_final_result:
  "distinct (List.map_filter final_id (fst (exchange_run ops calls exchange_default))) \<and>
   exchange_inv (snd (exchange_run ops calls exchange_default))"
  using final_ids [of ops calls exchange_default] exchange_run_inv [of exchange_default ops calls]
  by (simp add: exchange_inv_def exchange_default_def)

text \<open>C19: A call that resolves a request does so with the answer of the message the port delivered;
  the message names the request, comes from an actor and in the authority the request asks for, its
  time lies in the life of the request and of all its evidence, and its answer is one of the options
  or a text.  The request is not expired and is closed afterwards.\<close>

theorem resolved_answer_authorised:
  assumes "advance ops x request p now branches = (Inr v, x', p')" "jidx v ''status'' = JStr ''resolved''"
  shows "\<exists>q response p1. parse_request request = Inr q \<and>
    fst (poll ops (pr_correlation_id q) p1) = Inr (PollResponse response) \<and>
    speaks_for response q now \<and> answers (jidx response ''answer'') q \<and>
    pr_issued_at q \<le> now \<and> now < pr_expires_at q \<and> jidx v ''acceptedAnswer'' = jidx response ''answer'' \<and>
    pr_correlation_id q \<notin> set (dx_terminal x) \<and> pr_correlation_id q \<in> set (dx_terminal x')"
  using advance_resolved [OF assms] by blast

theorem resolved_answer_authorised_witness:
  "\<exists>response p1. fst (poll memory_ops ''c1'' p1) = Inr (PollResponse response) \<and> speaks_for response demo_parsed 25"
proof -
  obtain x1 p1 where a: "advance memory_ops exchange_default demo_request (demo_port [PollResponse (demo_reply ''a'')]) 25 [''y'', ''x''] =
      exchange_poll memory_ops x1 demo_parsed [''x'', ''y''] p1 25" and e: "mp_events p1 = [PollResponse (demo_reply ''a'')]"
    by (rule open_advance [OF demo_open demo_branches demo_times(1), of "[PollResponse (demo_reply ''a'')]"]) (simp add: demo_port_def)
  have "\<exists>v x' p'. exchange_poll memory_ops x1 demo_parsed [''x'', ''y''] p1 25 = (Inr v, x', p') \<and> jidx v ''status'' = JStr ''resolved''"
    by (simp add: exchange_poll_def memory_ops_def memory_poll_def e demo_replies demo_times Let_def)
  then obtain v x' p' where v: "advance memory_ops exchange_default demo_request
      (demo_port [PollResponse (demo_reply ''a'')]) 25 [''y'', ''x''] = (Inr v, x', p')" "jidx v ''status'' = JStr ''resolved''"
    unfolding a by blast
  from resolved_answer_authorised [OF v] show ?thesis
    by (auto simp: demo_request_parses demo_parsed_def [THEN arg_cong [where f = pr_correlation_id]])
qed

text \<open>C20: A refused answer or cancellation leaves the request open: a port that delivers any number of
  them and then a valid answer resolves the request with that answer, at the call that polls it,
  before the request expires.\<close>

theorem refused_answers_do_not_block:
  assumes "parse_request request = Inr q" "pr_correlation_id q \<notin> set (dx_terminal x)"
    and "bt_get (dx_pending x) (pr_correlation_id q) \<in> {None, Some request}"
    and "bt_get (mp_requests p) (pr_correlation_id q) \<in> {None, Some request}"
    and "validate_branches branches (pr_affected_branches q) = Inr bs"
    and "pr_issued_at q \<le> now" "now < pr_expires_at q"
    and "mp_events p = bad @ PollResponse reply # rest" "\<forall>e \<in> set bad. refused e q now"
    and "validate_response reply q now = Inr (answer, provenance)"
  shows "\<exists>rs. advance_n memory_ops (Suc (length bad)) x request p now branches =
      rs @ [Inr (exchange_result q bs ''resolved'' ''ready'' (Some answer) (Some provenance))] \<and>
    (\<forall>r \<in> set rs. final_id r = None)"
proof -
  have "open_for x p request q" using assms(1-4) by (auto simp: open_for_def)
  then show ?thesis using assms(5-10) by (rule advance_n_resolves)
qed

theorem refused_answers_do_not_block_witness:
  "last (advance_n memory_ops 2 exchange_default demo_request
     (demo_port [PollResponse (demo_reply ''z''), PollResponse (demo_reply ''a'')]) 25 [''y'', ''x'']) =
   Inr (exchange_result demo_parsed [''x'', ''y''] ''resolved'' ''ready''
       (Some (jobj [(''kind'', JStr ''choice''), (''optionId'', JStr ''a'')])) (Some demo_provenance))"
proof -
  have two: "Suc (length [PollResponse (demo_reply ''z'')]) = 2" by simp
  have "\<exists>rs. advance_n memory_ops (Suc (length [PollResponse (demo_reply ''z'')])) exchange_default demo_request
     (demo_port [PollResponse (demo_reply ''z''), PollResponse (demo_reply ''a'')]) 25 [''y'', ''x''] =
     rs @ [Inr (exchange_result demo_parsed [''x'', ''y''] ''resolved'' ''ready''
       (Some (jobj [(''kind'', JStr ''choice''), (''optionId'', JStr ''a'')])) (Some demo_provenance))] \<and>
     (\<forall>r \<in> set rs. final_id r = None)"
    by (rule refused_answers_do_not_block [OF demo_request_parses _ _ _ demo_branches, of _ _ 25 _ "demo_reply ''a''" "[]"])
       (simp_all add: demo_replies demo_times refused_def demo_port_def exchange_default_def)
  then show ?thesis unfolding two by (auto simp del: advance_n.simps)
qed

text \<open>A result reports every branch of the caller, sorted; a branch the request does not affect
  continues, whatever the state of the decision, and an affected one is ready exactly when the
  request is resolved.\<close>

theorem unaffected_branches_continue:
  assumes "advance ops x request p now branches = (Inr v, x', p')"
  shows "\<exists>q bs s. parse_request request = Inr q \<and> sorted bs \<and> mset bs = mset branches \<and> distinct branches \<and>
    set (pr_affected_branches q) \<subseteq> set branches \<and>
    (s = ''ready'' \<longleftrightarrow> jidx v ''status'' = JStr ''resolved'') \<and> s \<noteq> ''continues'' \<and>
    jidx v ''branches'' = JArr (map (\<lambda>b. jobj [(''branchId'', JStr b),
      (''status'', JStr (if b \<in> set (pr_affected_branches q) then s else ''continues''))]) bs)"
  using assms
proof (cases rule: advance_cases)
  case (polled q bs p1 x1)
  from polled(6) obtain st s an pv where v: "v = exchange_result q bs st s an pv"
    "(st, s) \<in> {(''timeout'', ''blocked_timeout''), (''pending'', ''blocked_pending_response''), (''resolved'', ''ready''),
      (''cancelled'', ''blocked_cancelled'')}"
    by (rule exchange_poll_shape)
  from validate_branches_Ok [OF polled(2)] polled(1) v show ?thesis
    by (intro exI [of _ q] exI [of _ bs] exI [of _ s]) auto
qed simp

theorem unaffected_branches_continue_witness:
  "\<exists>v. jidx v ''branches'' = JArr [jobj [(''branchId'', JStr ''x''), (''status'', JStr ''blocked_pending_response'')],
     jobj [(''branchId'', JStr ''y''), (''status'', JStr ''continues'')]] \<and>
     fst (advance memory_ops exchange_default demo_request (demo_port []) 25 [''y'', ''x'']) = Inr v \<and>
     (\<exists>bs. sorted bs \<and> mset bs = mset [''y'', ''x''])"
proof -
  have "case advance memory_ops exchange_default demo_request (demo_port []) 25 [''y'', ''x''] of
      (Inr v, _) \<Rightarrow> jidx v ''branches'' = JArr [jobj [(''branchId'', JStr ''x''), (''status'', JStr ''blocked_pending_response'')],
        jobj [(''branchId'', JStr ''y''), (''status'', JStr ''continues'')]] | _ \<Rightarrow> False" by code_simp
  then obtain v x' p' where v: "advance memory_ops exchange_default demo_request (demo_port []) 25 [''y'', ''x''] = (Inr v, x', p')"
    "jidx v ''branches'' = JArr [jobj [(''branchId'', JStr ''x''), (''status'', JStr ''blocked_pending_response'')],
        jobj [(''branchId'', JStr ''y''), (''status'', JStr ''continues'')]]"
    by (auto split: prod.splits sum.splits)
  from unaffected_branches_continue [OF v(1)] show ?thesis using v by auto
qed

text \<open>The command exits with 0 only when the response file it was given holds an answer to the
  request file from an authorised actor, valid at the time given on the command line.\<close>

theorem exit_zero_means_answered:
  assumes "snd (run_raw lib read raw) = 0"
  shows "\<exists>c request_path response_path request response q now.
    parse_flags (tl raw) decision_cli_default = Inr c \<and> dc_now c = Some now \<and>
    dc_request c = Some request_path \<and> read request_path = Inr request \<and> parse_request request = Inr q \<and>
    dc_response c = Some response_path \<and> read response_path = Inr response \<and>
    speaks_for response q now \<and> answers (jidx response ''answer'') q \<and> now < pr_expires_at q"
proof -
  from assms obtain v where v: "run_cli read raw = Inr v" "status_exit v = 0"
    by (cases "run_cli read raw") (auto simp: run_raw_def Let_def split: sum.splits)
  then have st: "jidx v ''status'' = JStr ''resolved''"
    by (auto simp: status_exit_def Let_def as_str_eq split: if_splits)
  from v(1) obtain sub flags c request_path now request port where
    c: "raw = sub # flags" "parse_flags flags decision_cli_default = Inr c" "dc_request c = Some request_path"
      "dc_now c = Some now" "read request_path = Inr request" "supplied read c = Inr port"
      "fst (advance memory_ops exchange_default request port now (dc_branches c)) = Inr v"
    by (cases raw) (auto simp: run_cli_def and_then_eq_Inr)
  then obtain x' p' where "advance memory_ops exchange_default request port now (dc_branches c) = (Inr v, x', p')"
    by (metis prod.collapse)
  from advance_resolved [OF this st] obtain q response p1 where
    r: "parse_request request = Inr q" "p1 = port \<or> p1 = snd (submit memory_ops request port)"
      "fst (poll memory_ops (pr_correlation_id q) p1) = Inr (PollResponse response)"
      "speaks_for response q now" "answers (jidx response ''answer'') q" "now < pr_expires_at q"
    by blast
  have "mp_events p1 = mp_events port" using r(2) by (auto simp: memory_ops_def)
  then have "PollResponse response \<in> set (mp_events port)"
    using memory_poll_response [of "pr_correlation_id q" p1 response] r(3) by (simp add: memory_ops_def)
  from supplied_events [OF c(6) this] show ?thesis
    using c r by auto
qed

text \<open>The messages of the demonstration as files.\<close>

definition demo_read :: "string \<Rightarrow> string + json" where
  "demo_read path = (if path = ''q'' then Inr demo_request else if path = ''a'' then Inr (demo_reply ''a'') else Inl ''missing'')"

definition demo_raw :: "string list" where
  "demo_raw = [''request-response'', ''--request'', ''q'', ''--now'', ''25'', ''--response'', ''a'', ''--branch'', ''x'']"

definition demo_text_lib :: text_lib where
  "demo_text_lib = \<lparr>from_utf8 = Inr, key_from_slice = Inr, from_str = (\<lambda>_. Inr JNull), to_vec_pretty = (\<lambda>_. Inr [])\<rparr>"

lemma demo_flags: "parse_flags (tl demo_raw) decision_cli_default =
    Inr \<lparr>dc_request = Some ''q'', dc_response = Some ''a'', dc_cancel = None, dc_now = Some 25, dc_branches = [''x'']\<rparr>"
proof -
  have "parse_unsigned (2 ^ 64) ''25'' = Some 25"
    by (simp add: parse_unsigned_def is_ascii_digit_def less_eq_char_def)
  then show ?thesis by (simp add: demo_raw_def decision_cli_default_def)
qed

lemma demo_exit: "snd (run_raw demo_text_lib demo_read demo_raw) = 0"
proof -
  have s: "message_correlation (demo_reply ''a'') = Inr ''c1''" by code_simp
  have a: "case advance memory_ops exchange_default demo_request (demo_port [PollResponse (demo_reply ''a'')]) 25 [''x''] of
      (Inr v, _) \<Rightarrow> status_exit v = 0 | _ \<Rightarrow> False" by code_simp
  have "run_cli demo_read demo_raw =
      fst (advance memory_ops exchange_default demo_request (demo_port [PollResponse (demo_reply ''a'')]) 25 [''x''])"
    using demo_flags by (simp add: run_cli_def demo_raw_def demo_read_def supplied_def supply_response_def s demo_port_def)
  with a show ?thesis
    by (auto simp: run_raw_def demo_text_lib_def Let_def split: prod.splits sum.splits)
qed

theorem exit_zero_means_answered_witness:
  "\<exists>q now. parse_request demo_request = Inr q \<and> speaks_for (demo_reply ''a'') q now \<and> now < pr_expires_at q"
proof -
  from exit_zero_means_answered [OF demo_exit] obtain c request_path response_path request response q now where
    c: "parse_flags (tl demo_raw) decision_cli_default = Inr c" "dc_request c = Some request_path"
      "demo_read request_path = Inr request" "parse_request request = Inr q" "dc_response c = Some response_path"
      "demo_read response_path = Inr response" "speaks_for response q now" "now < pr_expires_at q" by blast
  then have "request = demo_request" "response = demo_reply ''a''" using demo_flags by (auto simp: demo_read_def)
  with c(4,7,8) show ?thesis by blast
qed

text \<open>The plain-text transport delivers the same answer as the structured ones: the line that
  spells out a choice, field by field, is read back as the response message with these fields.\<close>

theorem plain_text_choice_roundtrip:
  assumes "\<forall>s \<in> {cid, gap, opt, actor, kind, source}. CHR 0x09 \<notin> set s \<and> \<not> is_blank s"
  shows "supply_line (join [CHR 0x09] [''choice'', cid, gap, opt, actor, kind, source, show_nat (unat ts)]) p =
    Inr (p\<lparr>tp_events := tp_events p @ [PollResponse (jobj
      [(''schema'', JStr ''code-intel-decision-response.v1''), (''correlationId'', JStr cid), (''gapId'', JStr gap),
       (''answer'', jobj [(''kind'', JStr ''choice''), (''optionId'', JStr opt)]),
       (''actorProvenance'', jobj [(''actorId'', JStr actor), (''authorityKind'', JStr kind), (''source'', JStr source)]),
       (''timestamp'', ju64 ts)])]\<rparr>)"
proof -
  let ?parts = "[''choice'', cid, gap, opt, actor, kind, source, show_nat (unat ts)]"
  have "CHR 0x09 \<notin> set (show_nat (unat ts))"
    using digit_no_blank [of "CHR 0x09" "unat ts"] by (auto simp: is_ascii_digit_def less_eq_char_def)
  then have "split_on (CHR 0x09) (join [CHR 0x09] ?parts) = ?parts"
    using assms by (intro split_on_join) auto
  moreover have "\<not> list_ex is_blank ?parts"
  proof -
    have "\<not> is_blank ''choice''" by code_simp
    then show ?thesis using assms is_blank_show_nat by simp
  qed
  moreover have "parse_unsigned (2 ^ 64) (show_nat (unat ts)) = Some (unat ts)"
    using unsigned_less [of ts, where ?'a = nat] by (intro parse_show_nat) simp
  ultimately show ?thesis
    by (simp add: supply_line_def parse_reply_def reply_event_def Let_def)
qed

theorem plain_text_choice_roundtrip_witness:
  "tp_events (the (case supply_line (join [CHR 0x09] [''choice'', ''c1'', ''g'', ''a'', ''h'', ''owner'', ''s'', show_nat (unat (20 :: u64))])
     \<lparr>tp_requests = [], tp_outbox = [], tp_events = []\<rparr> of Inr p \<Rightarrow> Some p | Inl _ \<Rightarrow> None)) = [PollResponse (demo_reply ''a'')]"
proof -
  have "\<forall>s \<in> {''c1'', ''g'', ''a'', ''h'', ''owner'', ''s''}. CHR 0x09 \<notin> set s \<and> \<not> is_blank s" by code_simp
  from plain_text_choice_roundtrip [OF this, of 20 "\<lparr>tp_requests = [], tp_outbox = [], tp_events = []\<rparr>"] show ?thesis
    by (simp add: demo_reply_def)
qed

text \<open>Neither the in-memory nor the plain-text port ever replaces a request: after any submissions,
  accepted or refused, every correlation still has the request first stored for it.\<close>

theorem ports_keep_requests:
  "bt_get (mp_requests p) \<subseteq>\<^sub>m bt_get (mp_requests (fold (\<lambda>r p. snd (memory_submit r p)) rs p)) \<and>
   bt_get (tp_requests t) \<subseteq>\<^sub>m bt_get (tp_requests (fold (\<lambda>r t. snd (text_submit pretty r t)) rs t))"
  using memory.submits_extend text_port.submits_extend by blast

end
