(* ===== verification/Impact_Graph.thy ===== *)
theory Impact_Graph
  imports Json_Value
begin

text \<open>
  The reverse import graph and what follows from a change: the impacted files and the tests that
  reach them (crates/code-intel-cli/src/impact_graph.rs).  A \<open>BTreeSet\<close> is its sorted list, a
  \<open>BTreeMap\<close> an association list.
\<close>

section \<open>Resolving imports\<close>

record reverse_edge =
  re_importer :: string
  re_confidence :: string

text \<open>\<open>join_relative\<close>: the loop over the components of the target, which may climb out of the root.\<close>

fun join_components :: "string list \<Rightarrow> string list \<Rightarrow> string list option" where
  "join_components components [] = Some components"
| "join_components components (c # cs) =
     (if c = [] \<or> c = ''.'' then join_components components cs
      else if c = ''..'' then (if components = [] then None else join_components (butlast components) cs)
      else join_components (components @ [c]) cs)"

definition join_relative :: "string \<Rightarrow> string \<Rightarrow> string option" where
  "join_relative parent target =
     map_option (join ''/'')
       (join_components (filter (\<lambda>c. c \<noteq> []) (split_on (CHR ''/'') parent)) (split_on (CHR ''/'') target))"

definition source_extensions :: "string list" where
  "source_extensions = [''rs'', ''py'', ''js'', ''jsx'', ''ts'', ''tsx'', ''go'', ''java'']"

definition path_candidates :: "string \<Rightarrow> string list" where
  "path_candidates base =
     base # (if \<not> CHR ''.'' \<in> set (last (split_on (CHR ''/'') base))
       then concat (map (\<lambda>extension. [base @ ''.'' @ extension, base @ ''/index.'' @ extension]) source_extensions) @
            [base @ ''/mod.rs'', base @ ''/__init__.py'']
       else [])"

definition without_extension :: "string \<Rightarrow> string" where
  "without_extension path = (case rsplit_once (CHR ''.'') path of Some (a, _) \<Rightarrow> a | None \<Rightarrow> path)"

definition import_base :: "string \<Rightarrow> string \<Rightarrow> string option" where
  "import_base importer target =
     (if starts_with target ''.''
      then join_relative (case rsplit_once (CHR ''/'') importer of Some (a, _) \<Rightarrow> a | None \<Rightarrow> []) target
      else case strip_prefix target ''crate::'' of
        Some rest \<Rightarrow> Some (''src/'' @ replace_str ''::'' ''/'' rest)
      | None \<Rightarrow> Some (replace_char (CHR ''.'') ''/'' (replace_str ''::'' ''/'' target)))"

definition resolve_import :: "string \<Rightarrow> string \<Rightarrow> string list \<Rightarrow> (string \<times> string) option" where
  "resolve_import importer target0 files =
     (let target = replace_char (CHR 0x5C) ''/'' target0 in
      case import_base importer target of
        None \<Rightarrow> None
      | Some base \<Rightarrow>
          (case find (\<lambda>c. c \<in> set files) (path_candidates base) of
             Some candidate \<Rightarrow> Some (candidate, ''high'')
           | None \<Rightarrow>
               (let token = trim_char (CHR ''/'') base;
                    suffixes = filter (\<lambda>path. without_extension path = token
                      \<or> ends_with (without_extension path) (''/'' @ token)) files
                in case suffixes of [only] \<Rightarrow> Some (only, ''medium'') | _ \<Rightarrow> None)))"

section \<open>The reverse graph\<close>

text \<open>\<open>Vec::dedup_by\<close> keeps the first of consecutive equal entries.\<close>

fun dedup_by :: "('a \<Rightarrow> 'b) \<Rightarrow> 'a list \<Rightarrow> 'a list" where
  "dedup_by f (x # y # xs) = (if f x = f y then dedup_by f (x # xs) else x # dedup_by f (y # xs))"
| "dedup_by f xs = xs"

definition add_import ::
    "string list \<Rightarrow> json \<Rightarrow> (string, reverse_edge list) btree \<times> nat \<times> nat \<Rightarrow>
     string + (string, reverse_edge list) btree \<times> nat \<times> nat" where
  "add_import files import' acc =
     (let (reverse, resolved, unresolved) = acc in
      case (as_str (jidx import' ''file''), as_str (jidx import' ''target'')) of
        (Some importer, Some target) \<Rightarrow>
          (case resolve_import importer target files of
             Some (found, confidence) \<Rightarrow>
               Ok (bt_insert found ((case bt_get reverse found of Some es \<Rightarrow> es | None \<Rightarrow> []) @
                     [\<lparr>re_importer = importer, re_confidence = confidence\<rparr>]) reverse, resolved + 1, unresolved)
           | None \<Rightarrow> Ok (reverse, resolved, unresolved + 1))
      | _ \<Rightarrow> Err ''code_evidence.imports entries must carry string file and target fields'')"

definition tidy_edges :: "reverse_edge list \<Rightarrow> reverse_edge list" where
  "tidy_edges edges = dedup_by re_importer (sort_key re_importer edges)"

definition reverse_import_graph ::
    "json list \<Rightarrow> string list \<Rightarrow> string + (string, reverse_edge list) btree \<times> nat \<times> nat" where
  "reverse_import_graph imports files =
     and_then (try_fold (add_import files) imports ([], 0, 0)) (\<lambda>(reverse, resolved, unresolved).
     Ok (map (\<lambda>(k, edges). (k, tidy_edges edges)) reverse, resolved, unresolved))"

section \<open>Impacted files\<close>

record impact_reason =
  ir_distance :: nat
  ir_reason :: string
  ir_via :: "string option"
  ir_confidence :: string

type_synonym impact = "(string, impact_reason) btree"

definition impact_changed :: impact_reason where
  "impact_changed = \<lparr>ir_distance = 0, ir_reason = ''changed'', ir_via = None, ir_confidence = ''high''\<rparr>"

definition seed_changed :: "string list \<Rightarrow> string \<Rightarrow> impact \<times> string list \<Rightarrow> impact \<times> string list" where
  "seed_changed files path iq =
     (if path \<in> set files then (bt_insert path impact_changed (fst iq), snd iq @ [path]) else iq)"

definition visit_edge ::
    "string \<Rightarrow> nat \<Rightarrow> reverse_edge \<Rightarrow> impact \<times> string list \<Rightarrow> impact \<times> string list" where
  "visit_edge target distance edge iq =
     (if bt_get (fst iq) (re_importer edge) \<noteq> None then iq
      else (bt_insert (re_importer edge)
              \<lparr>ir_distance = distance, ir_reason = ''reverse_import'', ir_via = Some target,
               ir_confidence = re_confidence edge\<rparr> (fst iq), snd iq @ [re_importer edge]))"

definition edges_of :: "(string, reverse_edge list) btree \<Rightarrow> string \<Rightarrow> reverse_edge list" where
  "edges_of reverse target = (case bt_get reverse target of Some es \<Rightarrow> es | None \<Rightarrow> [])"

definition visit_target ::
    "(string, reverse_edge list) btree \<Rightarrow> string \<Rightarrow> impact \<times> string list \<Rightarrow> impact \<times> string list" where
  "visit_target reverse target iq =
     fold (visit_edge target (ir_distance (the (bt_get (fst iq) target)) + 1)) (edges_of reverse target) iq"

text \<open>The loop over the queue counts down a fuel; \<open>None\<close> means that it ran out.\<close>

fun impact_loop :: "(string, reverse_edge list) btree \<Rightarrow> nat \<Rightarrow> impact \<Rightarrow> string list \<Rightarrow> impact option" where
  "impact_loop reverse fuel impacted [] = Some impacted"
| "impact_loop reverse 0 impacted (target # queue) = None"
| "impact_loop reverse (Suc fuel) impacted (target # queue) =
     (case visit_target reverse target (impacted, queue) of (impacted', queue') \<Rightarrow>
        impact_loop reverse fuel impacted' queue')"

definition impact_fuel :: "string list \<Rightarrow> (string, reverse_edge list) btree \<Rightarrow> nat" where
  "impact_fuel changed reverse = length changed + length (concat (map snd reverse))"

definition impacted_files ::
    "string list \<Rightarrow> string list \<Rightarrow> (string, reverse_edge list) btree \<Rightarrow> impact option" where
  "impacted_files changed files reverse =
     (case fold (seed_changed files) changed ([], []) of (impacted, queue) \<Rightarrow>
        impact_loop reverse (impact_fuel changed reverse) impacted queue)"

section \<open>Tests\<close>

definition test_file :: "string \<Rightarrow> bool" where
  "test_file path =
     (let file = last (split_on (CHR ''/'') path) in
      contains_str file ''test.'' \<or> contains_str file ''_test.'' \<or> contains_str file ''spec.''
      \<or> starts_with path ''test/'' \<or> starts_with path ''tests/'' \<or> starts_with path ''spec/''
      \<or> contains_str path ''/test/'' \<or> contains_str path ''/tests/'' \<or> contains_str path ''/spec/'')"

definition module_of :: "string \<Rightarrow> string" where
  "module_of path = hd (split_on (CHR ''/'') path)"

definition select_tests :: "impact \<Rightarrow> string list \<Rightarrow> string list \<Rightarrow> string list" where
  "select_tests impacted changed files =
     (let tests = filter test_file (bt_keys impacted) in
      if tests = []
      then filter (\<lambda>path. test_file path \<and> module_of path \<in> set (map module_of changed)) files
      else tests)"

end
