(* ===== verification/Impact_Props.thy ===== *)
theory Impact_Props
  imports Impact_Graph
begin

text \<open>
  The impacted files are the files from which a changed file is reachable through resolved imports,
  each with the length of a shortest chain of imports; the traversal always ends within its fuel.
\<close>

section \<open>The reverse graph\<close>

text \<open>The specification: \<open>importer\<close> has an import that resolves to \<open>target\<close>.\<close>

definition imports_rel :: "json list \<Rightarrow> string list \<Rightarrow> (string \<times> string) set" where
  "imports_rel imports files = {(target, importer). \<exists>i \<in> set imports. \<exists>written confidence.
     jidx i ''file'' = JStr importer \<and> jidx i ''target'' = JStr written \<and>
     resolve_import importer written files = Some (target, confidence)}"

definition edge_rel :: "(string, reverse_edge list) btree \<Rightarrow> (string \<times> string) set" where
  "edge_rel reverse = {(target, importer). importer \<in> re_importer ` set (edges_of reverse target)}"

lemma edges_of_Nil [simp]: "edges_of [] t = []"
  by (simp add: edges_of_def)

lemma edges_of_insert: "edges_of (bt_insert k es m) t = (if t = k then es else edges_of m t)"
  by (simp add: edges_of_def)

lemma set_dedup_by: "f ` set (dedup_by f xs) = f ` set xs"
  by (induction f xs rule: dedup_by.induct) (auto split: if_splits)

lemma sorted_dedup_by: "sorted (map f xs) \<Longrightarrow> sorted_wrt (<) (map f (dedup_by f xs))"
proof (induction f xs rule: dedup_by.induct)
  case (1 f x y xs)
  have "f ` set (dedup_by f (y # xs)) = f ` set (y # xs)" by (rule set_dedup_by)
  with 1 show ?case by (fastforce simp: image_iff)
qed simp_all

lemma importers_tidy: "re_importer ` set (tidy_edges es) = re_importer ` set es"
  by (simp add: tidy_edges_def set_dedup_by)

lemma edges_of_map: "edges_of (map (\<lambda>(k, es). (k, tidy_edges es)) m) t = tidy_edges (edges_of m t)"
proof -
  have "map_of (map (\<lambda>(k, es). (k, tidy_edges es)) m) t = map_option tidy_edges (map_of m t)"
    by (induction m) auto
  then show ?thesis by (simp add: edges_of_def tidy_edges_def split: option.split)
qed

lemma add_import_step:
  assumes "add_import files i (m, r, u) = Inr (m', r', u')"
  shows "edge_rel m' = edge_rel m \<union> imports_rel [i] files \<and> r' + u' = Suc (r + u)"
proof -
  obtain importer written where i: "jidx i ''file'' = JStr importer" "jidx i ''target'' = JStr written"
    using assms by (auto simp: add_import_def as_str_eq split: option.splits)
  show ?thesis
  proof (cases "resolve_import importer written files")
    case None
    with assms i have "(m', r', u') = (m, r, Suc u)" by (simp add: add_import_def)
    moreover have "imports_rel [i] files = {}" using None by (auto simp: imports_rel_def i)
    ultimately show ?thesis by simp
  next
    case (Some tc)
    obtain t c where tc: "tc = (t, c)" by (cases tc)
    with assms i Some have r: "m' = bt_insert t (edges_of m t @ [\<lparr>re_importer = importer, re_confidence = c\<rparr>]) m"
      "r' = Suc r" "u' = u" by (auto simp: add_import_def edges_of_def)
    have "imports_rel [i] files = {(t, importer)}" using Some tc by (auto simp: imports_rel_def i)
    then show ?thesis using r by (auto simp: edge_rel_def edges_of_insert split: if_splits)
  qed
qed

lemma add_imports:
  "try_fold (add_import files) imports (m, r, u) = Inr (m', r', u') \<Longrightarrow>
   edge_rel m' = edge_rel m \<union> imports_rel imports files \<and> r' + u' = length imports + (r + u)"
proof (induction "imports" arbitrary: m r u)
  case Nil
  then show ?case by (simp add: imports_rel_def)
next
  case (Cons i js)
  from Cons.prems obtain m1 r1 u1 where s: "add_import files i (m, r, u) = Inr (m1, r1, u1)"
    "try_fold (add_import files) js (m1, r1, u1) = Inr (m', r', u')"
    by (auto simp: and_then_eq_Inr)
  have "imports_rel (i # js) files = imports_rel [i] files \<union> imports_rel js files"
    by (auto simp: imports_rel_def)
  then show ?case using add_import_step [OF s(1)] Cons.IH [OF s(2)] by auto
qed

lemma reverse_graph_rel:
  assumes "reverse_import_graph imports files = Inr (reverse, resolved, unresolved)"
  shows "edge_rel reverse = imports_rel imports files \<and> resolved + unresolved = length imports"
proof -
  from assms obtain m where m: "try_fold (add_import files) imports ([], 0, 0) = Inr (m, resolved, unresolved)"
    "reverse = map (\<lambda>(k, es). (k, tidy_edges es)) m"
    by (auto simp: reverse_import_graph_def and_then_eq_Inr)
  have "edge_rel reverse = edge_rel m" by (simp add: edge_rel_def m(2) edges_of_map importers_tidy)
  then show ?thesis using add_imports [OF m(1)] by (simp add: edge_rel_def)
qed

section \<open>One step of the traversal\<close>

definition dist :: "impact \<Rightarrow> string \<Rightarrow> nat" where
  "dist m k = ir_distance (the (bt_get m k))"

lemma visit_edges_ex:
  assumes "fold (visit_edge t d) es (m, q) = (m', q')"
  shows "\<exists>new. q' = q @ new \<and> set new = re_importer ` set es - dom (bt_get m) \<and>
    dom (bt_get m') = dom (bt_get m) \<union> re_importer ` set es \<and> (\<forall>k \<in> dom (bt_get m). bt_get m' k = bt_get m k) \<and>
    (\<forall>k \<in> set new. \<exists>c. bt_get m' k = Some \<lparr>ir_distance = d, ir_reason = ''reverse_import'', ir_via = Some t, ir_confidence = c\<rparr>) \<and>
    distinct new"
  using assms
proof (induction es arbitrary: m q)
  case (Cons e es)
  show ?case
  proof (cases "bt_get m (re_importer e)")
    case (Some v)
    then have "visit_edge t d e (m, q) = (m, q)" by (simp add: visit_edge_def)
    with Cons.prems have "fold (visit_edge t d) es (m, q) = (m', q')" by simp
    from Cons.IH [OF this] Some show ?thesis by (auto simp: domI)
  next
    case None
    let ?k = "re_importer e"
    let ?r = "\<lparr>ir_distance = d, ir_reason = ''reverse_import'', ir_via = Some t, ir_confidence = re_confidence e\<rparr>"
    let ?m = "bt_insert ?k ?r m"
    from None have "visit_edge t d e (m, q) = (?m, q @ [?k])" by (simp add: visit_edge_def)
    with Cons.prems have "fold (visit_edge t d) es (?m, q @ [?k]) = (m', q')" by simp
    from Cons.IH [OF this] obtain new where n: "q' = (q @ [?k]) @ new"
      "set new = re_importer ` set es - dom (bt_get ?m)"
      "dom (bt_get m') = dom (bt_get ?m) \<union> re_importer ` set es" "\<forall>k \<in> dom (bt_get ?m). bt_get m' k = bt_get ?m k"
      "\<forall>k \<in> set new. \<exists>c. bt_get m' k = Some \<lparr>ir_distance = d, ir_reason = ''reverse_import'', ir_via = Some t, ir_confidence = c\<rparr>"
      "distinct new" by (elim exE conjE) (rule that)
    have k: "bt_get m' ?k = Some ?r" using n(4) by simp
    have old: "\<forall>k \<in> dom (bt_get m). bt_get m' k = bt_get m k"
    proof
      fix k assume "k \<in> dom (bt_get m)"
      moreover from this None have "k \<noteq> ?k" by auto
      ultimately show "bt_get m' k = bt_get m k" using n(4) by simp
    qed
    show ?thesis
      by (rule exI [of _ "?k # new"]) (use n k old None in \<open>auto simp: domIff\<close>)
  qed
qed auto

lemma visit_edges:
  assumes "fold (visit_edge t d) es (m, q) = (m', q')"
  obtains new where "q' = q @ new" "set new = re_importer ` set es - dom (bt_get m)"
    "dom (bt_get m') = dom (bt_get m) \<union> re_importer ` set es" "\<forall>k \<in> dom (bt_get m). bt_get m' k = bt_get m k"
    "\<forall>k \<in> set new. \<exists>c. bt_get m' k = Some \<lparr>ir_distance = d, ir_reason = ''reverse_import'', ir_via = Some t, ir_confidence = c\<rparr>"
    "distinct new"
  using visit_edges_ex [OF assms] by (elim exE conjE) (rule that)

section \<open>The invariant of the traversal\<close>

definition reason_ok :: "(string \<times> string) set \<Rightarrow> string set \<Rightarrow> impact \<Rightarrow> string \<Rightarrow> bool" where
  "reason_ok E S m k \<longleftrightarrow> (\<exists>s \<in> S. (s, k) \<in> E ^^ dist m k) \<and>
     (if k \<in> S then bt_get m k = Some impact_changed
      else \<exists>t c. bt_get m k = Some \<lparr>ir_distance = Suc (dist m t), ir_reason = ''reverse_import'', ir_via = Some t, ir_confidence = c\<rparr> \<and>
        t \<in> dom (bt_get m) \<and> (t, k) \<in> E)"

definition bfs_inv :: "(string \<times> string) set \<Rightarrow> string set \<Rightarrow> impact \<Rightarrow> string list \<Rightarrow> bool" where
  "bfs_inv E S m q \<longleftrightarrow> S \<subseteq> dom (bt_get m) \<and> set q \<subseteq> dom (bt_get m) \<and>
     (\<forall>k \<in> dom (bt_get m). reason_ok E S m k) \<and>
     (\<forall>k b. k \<in> dom (bt_get m) - set q \<longrightarrow> (k, b) \<in> E \<longrightarrow> b \<in> dom (bt_get m) \<and> dist m b \<le> Suc (dist m k)) \<and>
     sorted (map (dist m) q) \<and> (\<forall>b \<in> dom (bt_get m). q \<noteq> [] \<longrightarrow> dist m b \<le> Suc (dist m (hd q)))"

lemma reason_ok_keep:
  assumes "reason_ok E S m k" "k \<in> dom (bt_get m)" "\<forall>k \<in> dom (bt_get m). bt_get m' k = bt_get m k"
    "dom (bt_get m) \<subseteq> dom (bt_get m')"
  shows "reason_ok E S m' k"
proof -
  have d: "dist m' t = dist m t" if "t \<in> dom (bt_get m)" for t
    using bspec [OF assms(3) that] by (simp only: dist_def)
  have v: "bt_get m' k = bt_get m k" using assms(2,3) by (rule bspec [rotated])
  show ?thesis
  proof (cases "k \<in> S")
    case True
    with assms(1) d [OF assms(2)] v show ?thesis by (simp add: reason_ok_def)
  next
    case False
    with assms(1) obtain t c where t: "bt_get m k = Some \<lparr>ir_distance = Suc (dist m t), ir_reason = ''reverse_import'',
        ir_via = Some t, ir_confidence = c\<rparr>" "t \<in> dom (bt_get m)" "(t, k) \<in> E"
      unfolding reason_ok_def by metis
    have "t \<in> dom (bt_get m')" using t(2) assms(4) by (rule subsetD [rotated])
    with t(1,3) d [OF t(2)] v False have "\<exists>t c. bt_get m' k = Some \<lparr>ir_distance = Suc (dist m' t), ir_reason = ''reverse_import'',
        ir_via = Some t, ir_confidence = c\<rparr> \<and> t \<in> dom (bt_get m') \<and> (t, k) \<in> E" by metis
    with assms(1) d [OF assms(2)] False show ?thesis unfolding reason_ok_def by simp
  qed
qed

lemma bfs_step:
  assumes inv: "bfs_inv E S m (t # q)" and E: "\<And>b. (t, b) \<in> E \<longleftrightarrow> b \<in> re_importer ` set (edges_of reverse t)"
    and v: "visit_target reverse t (m, q) = (m', q')"
  shows "bfs_inv E S m' q'"
proof -
  let ?d = "Suc (dist m t)"
  from v have "fold (visit_edge t ?d) (edges_of reverse t) (m, q) = (m', q')"
    by (simp add: visit_target_def dist_def)
  then obtain new where
    q': "q' = q @ new" and new: "set new = re_importer ` set (edges_of reverse t) - dom (bt_get m)"
    and dom: "dom (bt_get m') = dom (bt_get m) \<union> re_importer ` set (edges_of reverse t)"
    and old: "\<forall>k \<in> dom (bt_get m). bt_get m' k = bt_get m k"
    and nk: "\<forall>k \<in> set new. \<exists>c. bt_get m' k = Some \<lparr>ir_distance = ?d, ir_reason = ''reverse_import'', ir_via = Some t, ir_confidence = c\<rparr>"
    by (rule visit_edges)
  note i = inv [unfolded bfs_inv_def]
  note closed' = i [THEN conjunct2, THEN conjunct2, THEN conjunct2, THEN conjunct1, rule_format]
  have S: "S \<subseteq> dom (bt_get m)" "set q \<subseteq> dom (bt_get m)" "t \<in> dom (bt_get m)" using i by simp_all
  have ok: "\<And>k. k \<in> dom (bt_get m) \<Longrightarrow> reason_ok E S m k" using i by blast
  have closed: "\<And>k b. k \<in> dom (bt_get m) - set (t # q) \<Longrightarrow> (k, b) \<in> E \<Longrightarrow> b \<in> dom (bt_get m) \<and> dist m b \<le> Suc (dist m k)"
    by (rule closed')
  have srt: "sorted (map (dist m) (t # q))" using i by blast
  have near: "\<And>b. b \<in> dom (bt_get m) \<Longrightarrow> dist m b \<le> ?d"
    using i [THEN conjunct2, THEN conjunct2, THEN conjunct2, THEN conjunct2, THEN conjunct2] by simp
  have dold: "dist m' k = dist m k" if "k \<in> dom (bt_get m)" for k using old that by (simp add: dist_def)
  have dnew: "dist m' k = ?d" if "k \<in> set new" for k using nk that by (force simp: dist_def)
  have dom': "dom (bt_get m') = dom (bt_get m) \<union> set new" by (simp only: dom new Un_Diff_cancel)
  have near': "dist m' k \<le> ?d" if "k \<in> dom (bt_get m')" for k
  proof (cases "k \<in> dom (bt_get m)")
    case True
    from near [OF True] dold [OF True] show ?thesis by metis
  next
    case False
    then have "k \<in> set new" using that dom' by blast
    from dnew [OF this] show ?thesis by (rule eq_refl)
  qed
  have "reason_ok E S m' k" if k: "k \<in> dom (bt_get m')" for k
  proof (cases "k \<in> dom (bt_get m)")
    case True
    from ok [OF True] True old show ?thesis by (rule reason_ok_keep) (simp add: dom')
  next
    case False
    with k have kn: "k \<in> set new" by (simp add: dom')
    from ok [OF S(3)] obtain s where s: "s \<in> S" "(s, t) \<in> E ^^ dist m t" unfolding reason_ok_def by blast
    have tk: "(t, k) \<in> E" using kn new E by blast
    with s have "(s, k) \<in> E ^^ ?d" by auto
    then have path: "\<exists>s \<in> S. (s, k) \<in> E ^^ dist m' k" using s(1) dnew [OF kn] by auto
    obtain c where c: "bt_get m' k = Some \<lparr>ir_distance = ?d, ir_reason = ''reverse_import'', ir_via = Some t, ir_confidence = c\<rparr>"
      using nk kn by blast
    have "t \<in> dom (bt_get m')" "k \<notin> S" using S(1,3) False by (simp only: dom' Un_iff, blast+)
    then show ?thesis using path c tk dold [OF S(3)] unfolding reason_ok_def by auto
  qed
  moreover have "b \<in> dom (bt_get m') \<and> dist m' b \<le> Suc (dist m' k)"
    if k: "k \<in> dom (bt_get m') - set q'" and kb: "(k, b) \<in> E" for k b
  proof (cases "k = t")
    case True
    have "b \<in> dom (bt_get m')" using kb True E dom by blast
    then show ?thesis using near' True S(3) dold by simp
  next
    case False
    with k have "k \<in> dom (bt_get m) - set (t # q)" by (auto simp: dom' q')
    from closed [OF this kb] show ?thesis using dold k \<open>k \<in> dom (bt_get m) - set (t # q)\<close> by (auto simp: dom')
  qed
  moreover have "sorted (map (dist m') q')"
  proof -
    have m1: "map (dist m') q = map (dist m) q" by (rule map_cong [OF refl], rule dold, rule subsetD [OF S(2)])
    have m2: "map (dist m') new = replicate (length new) ?d" by (rule map_replicate_const [THEN subst]) (use dnew in auto)
    have "\<forall>x \<in> set q. dist m x \<le> ?d" using near S(2) by blast
    then show ?thesis unfolding q' map_append m1 m2 sorted_append using srt by auto
  qed
  moreover have "dist m' b \<le> Suc (dist m' (hd q'))" if "b \<in> dom (bt_get m')" "q' \<noteq> []" for b
  proof -
    have "dist m t \<le> dist m' (hd q')"
    proof (cases q)
      case Nil
      with q' that(2) have "hd q' \<in> set new" by (cases new) auto
      then show ?thesis using dnew by simp
    next
      case (Cons a l)
      then have "a \<in> dom (bt_get m)" using S(2) by (meson list.set_intros(1) subsetD)
      from dold [OF this] show ?thesis using Cons q' srt by simp
    qed
    then show ?thesis using near' [OF that(1)] by simp
  qed
  ultimately show ?thesis
    using S dom' q' by (auto simp: bfs_inv_def)
qed

lemma bfs_loop:
  assumes "bfs_inv E S m q" "\<And>t b. (t, b) \<in> E \<longleftrightarrow> b \<in> re_importer ` set (edges_of reverse t)"
    and "impact_loop reverse n m q = Some m'"
  shows "bfs_inv E S m' []"
  using assms(1,3)
proof (induction n arbitrary: m q)
  case 0
  then show ?case by (cases q) auto
next
  case (Suc n)
  show ?case
  proof (cases q)
    case (Cons t q1)
    obtain m1 q2 where v: "visit_target reverse t (m, q1) = (m1, q2)" by (cases "visit_target reverse t (m, q1)")
    have "bfs_inv E S m1 q2" by (rule bfs_step [OF _ assms(2) v]) (use Suc.prems(1) Cons in simp)
    then show ?thesis using Suc.IH Suc.prems(2) Cons v by auto
  qed (use Suc in auto)
qed

section \<open>The fuel is enough\<close>

lemma impact_loop_ends:
  assumes "finite R" "\<And>t. re_importer ` set (edges_of reverse t) \<subseteq> R" "length q + card (R - dom (bt_get m)) \<le> n"
  shows "\<exists>m'. impact_loop reverse n m q = Some m'"
  using assms(3)
proof (induction n arbitrary: m q)
  case (Suc n)
  show ?case
  proof (cases q)
    case (Cons t q1)
    obtain m1 q2 where v: "visit_target reverse t (m, q1) = (m1, q2)" by (cases "visit_target reverse t (m, q1)")
    then have "fold (visit_edge t (Suc (dist m t))) (edges_of reverse t) (m, q1) = (m1, q2)"
      by (simp add: visit_target_def dist_def)
    then obtain new where n: "q2 = q1 @ new" "set new = re_importer ` set (edges_of reverse t) - dom (bt_get m)"
      "dom (bt_get m1) = dom (bt_get m) \<union> re_importer ` set (edges_of reverse t)" "distinct new" by (rule visit_edges)
    have "R - dom (bt_get m) = (R - dom (bt_get m1)) \<union> set new" "(R - dom (bt_get m1)) \<inter> set new = {}"
      using n(2,3) assms(2) [of t] by auto
    then have "card (R - dom (bt_get m)) = card (R - dom (bt_get m1)) + length new"
      using assms(1) by (metis List.finite_set card_Un_disjoint distinct_card finite_Diff n(4))
    then have "length q2 + card (R - dom (bt_get m1)) \<le> n" using Suc.prems Cons n(1) by simp
    from Suc.IH [OF this] show ?thesis by (simp add: Cons v)
  qed simp
qed simp

lemma importers_all: "re_importer ` set (edges_of reverse t) \<subseteq> re_importer ` set (concat (map snd reverse))"
proof (cases "bt_get reverse t")
  case (Some es)
  then have "(t, es) \<in> set reverse" by (rule map_of_SomeD)
  with Some show ?thesis by (force simp: edges_of_def)
qed (simp add: edges_of_def)

lemma seed:
  "fold (seed_changed files) changed (m, q) = (m', q') \<Longrightarrow>
   q' = q @ filter (\<lambda>p. p \<in> set files) changed \<and>
   bt_get m' = (\<lambda>k. if k \<in> set changed \<inter> set files then Some impact_changed else bt_get m k)"
proof (induction changed arbitrary: m q)
  case (Cons p ps)
  obtain m1 q1 where s: "seed_changed files p (m, q) = (m1, q1)" by (cases "seed_changed files p (m, q)")
  from Cons.IH [of m1 q1] Cons.prems s show ?case
    by (auto simp: seed_changed_def fun_eq_iff split: if_splits)
qed auto

lemma impacted_total: "\<exists>m. impacted_files changed files reverse = Some m"
proof -
  obtain m q where s: "fold (seed_changed files) changed ([], []) = (m, q)"
    by (cases "fold (seed_changed files) changed ([], [])")
  let ?R = "re_importer ` set (concat (map snd reverse))"
  have "length q \<le> length changed" using seed [OF s] by simp
  moreover have "card (?R - dom (bt_get m)) \<le> length (concat (map snd reverse))"
  proof -
    have "card (?R - dom (bt_get m)) \<le> card ?R" by (rule card_mono) auto
    also have "\<dots> \<le> card (set (concat (map snd reverse)))" by (rule card_image_le) simp
    also have "\<dots> \<le> length (concat (map snd reverse))" by (rule card_length)
    finally show ?thesis .
  qed
  ultimately have "length q + card (?R - dom (bt_get m)) \<le> impact_fuel changed reverse"
    by (simp add: impact_fuel_def)
  from impact_loop_ends [OF _ importers_all this] show ?thesis by (simp add: impacted_files_def s)
qed

lemma impacted_inv:
  assumes "impacted_files changed files reverse = Some m"
  shows "bfs_inv (edge_rel reverse) (set changed \<inter> set files) m []"
proof -
  obtain m0 q where s: "fold (seed_changed files) changed ([], []) = (m0, q)"
    by (cases "fold (seed_changed files) changed ([], [])")
  note sd = seed [OF s]
  have d: "dist m0 k = 0" if "k \<in> set changed \<inter> set files" for k
    using that by (simp add: dist_def sd impact_changed_def)
  have dom: "dom (bt_get m0) = set changed \<inter> set files" by (auto simp: sd split: if_splits)
  have "bfs_inv (edge_rel reverse) (set changed \<inter> set files) m0 q"
    unfolding bfs_inv_def dom
  proof (intro conjI)
    show "\<forall>k \<in> set changed \<inter> set files. reason_ok (edge_rel reverse) (set changed \<inter> set files) m0 k"
      using d by (auto simp: reason_ok_def sd)
    have "map (dist m0) q = replicate (length q) 0"
      by (rule map_replicate_const [THEN subst]) (use d sd in auto)
    then show "sorted (map (dist m0) q)" by simp
  qed (use d sd in auto)
  then show ?thesis
    by (rule bfs_loop) (use assms in \<open>auto simp: impacted_files_def s edge_rel_def\<close>)
qed

lemma bfs_done:
  assumes "bfs_inv E S m []"
  shows "dom (bt_get m) = E\<^sup>* `` S \<and> (\<forall>k \<in> dom (bt_get m). \<forall>s \<in> S. \<forall>n. (s, k) \<in> E ^^ n \<longrightarrow> dist m k \<le> n)"
proof -
  have close: "k \<in> dom (bt_get m) \<and> dist m k \<le> n" if "s \<in> S" "(s, k) \<in> E ^^ n" for s k n
    using that(2)
  proof (induction n arbitrary: k)
    case 0
    then have k: "k \<in> S" using that(1) by simp
    with assms have "k \<in> dom (bt_get m)" "reason_ok E S m k" by (auto simp: bfs_inv_def)
    with k show ?case by (simp add: reason_ok_def dist_def impact_changed_def)
  next
    case (Suc n)
    then obtain b where "(s, b) \<in> E ^^ n" "(b, k) \<in> E" by auto
    with Suc.IH [of b] assms show ?case by (fastforce simp: bfs_inv_def)
  qed
  have "dom (bt_get m) \<subseteq> E\<^sup>* `` S"
  proof
    fix k assume "k \<in> dom (bt_get m)"
    with assms have "reason_ok E S m k" by (auto simp: bfs_inv_def)
    then obtain s where "s \<in> S" "(s, k) \<in> E ^^ dist m k" unfolding reason_ok_def by blast
    then show "k \<in> E\<^sup>* `` S" using relpow_imp_rtrancl by blast
  qed
  moreover have "E\<^sup>* `` S \<subseteq> dom (bt_get m)" using close rtrancl_imp_relpow by blast
  ultimately show ?thesis using close by blast
qed

section \<open>Properties\<close>

text \<open>C23: The impacted files are exactly the changed files and the files that import one of them, directly
  or through other files; the traversal always ends, each file has the length of a shortest chain of
  imports to a changed file, and a file that did not change names the next file on such a chain.\<close>

theorem impacted_files_exact:
  assumes "reverse_import_graph imports files = Inr (reverse, resolved, unresolved)"
  shows "\<exists>m. impacted_files changed files reverse = Some m \<and>
    dom (bt_get m) = (imports_rel imports files)\<^sup>* `` (set changed \<inter> set files) \<and>
    (\<forall>k r. bt_get m k = Some r \<longrightarrow>
      (\<exists>s \<in> set changed \<inter> set files. (s, k) \<in> imports_rel imports files ^^ ir_distance r) \<and>
      (\<forall>s \<in> set changed \<inter> set files. \<forall>n. (s, k) \<in> imports_rel imports files ^^ n \<longrightarrow> ir_distance r \<le> n) \<and>
      (k \<in> set changed \<inter> set files \<longleftrightarrow> ir_via r = None) \<and>
      (\<forall>t. ir_via r = Some t \<longrightarrow> (t, k) \<in> imports_rel imports files \<and> Suc (dist m t) = ir_distance r))"
proof -
  let ?E = "imports_rel imports files"
  let ?S = "set changed \<inter> set files"
  have E: "edge_rel reverse = ?E" using reverse_graph_rel [OF assms] by simp
  obtain m where m: "impacted_files changed files reverse = Some m"
    using impacted_total by blast
  have inv: "bfs_inv ?E ?S m []" using impacted_inv [OF m] by (simp add: E)
  note fin = bfs_done [OF inv]
  have each: "(\<exists>s \<in> ?S. (s, k) \<in> ?E ^^ ir_distance r) \<and>
      (\<forall>s \<in> ?S. \<forall>n. (s, k) \<in> ?E ^^ n \<longrightarrow> ir_distance r \<le> n) \<and> (k \<in> set changed \<inter> set files \<longleftrightarrow> ir_via r = None) \<and>
      (\<forall>t. ir_via r = Some t \<longrightarrow> (t, k) \<in> ?E \<and> Suc (dist m t) = ir_distance r)"
    if k: "bt_get m k = Some r" for k r
  proof -
    have d: "dist m k = ir_distance r" "k \<in> dom (bt_get m)" using k by (auto simp: dist_def)
    have ok: "reason_ok ?E ?S m k" using inv d(2) unfolding bfs_inv_def by blast
    have path: "\<exists>s \<in> ?S. (s, k) \<in> ?E ^^ ir_distance r" using ok d(1) unfolding reason_ok_def by simp
    have short: "\<forall>s \<in> ?S. \<forall>n. (s, k) \<in> ?E ^^ n \<longrightarrow> ir_distance r \<le> n" using fin [THEN conjunct2, rule_format, OF d(2)] d(1) by simp
    have via: "(k \<in> ?S \<longleftrightarrow> ir_via r = None) \<and> (\<forall>t. ir_via r = Some t \<longrightarrow> (t, k) \<in> ?E \<and> Suc (dist m t) = ir_distance r)"
    proof (cases "k \<in> ?S")
      case True
      with ok k have "r = impact_changed" unfolding reason_ok_def by simp
      with True show ?thesis by (simp add: impact_changed_def)
    next
      case False
      with ok k obtain t c where "r = \<lparr>ir_distance = Suc (dist m t), ir_reason = ''reverse_import'', ir_via = Some t, ir_confidence = c\<rparr>"
        "(t, k) \<in> ?E" unfolding reason_ok_def by auto
      with False show ?thesis by simp
    qed
    from path short via show ?thesis by blast
  qed
  show ?thesis using m fin each by blast
qed

text \<open>Four files: \<open>tests/t.rs\<close> imports \<open>src/b.rs\<close>, which imports the changed \<open>src/a.rs\<close>.\<close>

definition demo_imports :: "json list" where
  "demo_imports = map (\<lambda>(f, t). jobj [(''file'', JStr f), (''target'', JStr t)])
     [(''src/b.rs'', ''crate::a''), (''tests/t.rs'', ''../src/b''), (''src/a.rs'', ''std::fmt'')]"

definition demo_files :: "string list" where
  "demo_files = [''src/a.rs'', ''src/b.rs'', ''src/c.rs'', ''tests/t.rs'']"

lemma demo_graph: "\<exists>g. reverse_import_graph demo_imports demo_files = Inr (g, 2, 1)"
proof -
  have "case reverse_import_graph demo_imports demo_files of Inr (g, r, u) \<Rightarrow> r = 2 \<and> u = 1 | Inl _ \<Rightarrow> False" by code_simp
  then show ?thesis by (auto split: sum.splits prod.splits)
qed

theorem impacted_files_exact_witness:
  "\<exists>g m. impacted_files [''src/a.rs''] demo_files g = Some m \<and> ''tests/t.rs'' \<in> dom (bt_get m) \<and>
    dom (bt_get m) = (imports_rel demo_imports demo_files)\<^sup>* `` {''src/a.rs''}"
proof -
  obtain g where g: "reverse_import_graph demo_imports demo_files = Inr (g, 2, 1)" using demo_graph by blast
  have c: "case reverse_import_graph demo_imports demo_files of Inr (g, r, u) \<Rightarrow>
      (case impacted_files [''src/a.rs''] demo_files g of Some m \<Rightarrow> bt_get m ''tests/t.rs'' \<noteq> None | None \<Rightarrow> False) | Inl _ \<Rightarrow> False"
    by code_simp
  have f: "set [''src/a.rs''] \<inter> set demo_files = {''src/a.rs''}" by (simp add: demo_files_def)
  from impacted_files_exact [OF g, of "[''src/a.rs'']"] obtain m where
    m: "impacted_files [''src/a.rs''] demo_files g = Some m"
      "dom (bt_get m) = (imports_rel demo_imports demo_files)\<^sup>* `` {''src/a.rs''}" unfolding f by (elim exE conjE) (rule that)
  from c have "bt_get m ''tests/t.rs'' \<noteq> None" unfolding g m(1) sum.case prod.case option.case .
  with m show ?thesis by blast
qed

text \<open>When the import graph reaches any test at all from the changed files, exactly the test files
  that import a changed file, directly or through others, are selected; otherwise the tests in the
  top-level directories of the changed files are.\<close>

theorem reaching_tests_selected:
  assumes "reverse_import_graph imports files = Inr (reverse, resolved, unresolved)"
    and "impacted_files changed files reverse = Some m"
  shows "set (select_tests m changed files) =
    (let reached = {t \<in> (imports_rel imports files)\<^sup>* `` (set changed \<inter> set files). test_file t} in
     if reached \<noteq> {} then reached
     else {t \<in> set files. test_file t \<and> (\<exists>c \<in> set changed. module_of t = module_of c)})"
proof -
  let ?R = "(imports_rel imports files)\<^sup>* `` (set changed \<inter> set files)"
  have "edge_rel reverse = imports_rel imports files" using reverse_graph_rel [OF assms(1)] by simp
  then have d: "dom (bt_get m) = ?R" using bfs_done [OF impacted_inv [OF assms(2)]] by simp
  have keys: "set (filter test_file (bt_keys m)) = {t \<in> ?R. test_file t}"
    by (simp only: set_filter set_bt_keys d)
  have empty: "filter test_file (bt_keys m) = [] \<longleftrightarrow> {t \<in> ?R. test_file t} = {}"
    unfolding keys [symmetric] by (rule set_empty [symmetric])
  show ?thesis
  proof (cases "{t \<in> ?R. test_file t} = {}")
    case True
    with empty have "filter test_file (bt_keys m) = []" by blast
    then have "set (select_tests m changed files) = {t \<in> set files. test_file t \<and> module_of t \<in> module_of ` set changed}"
      by (simp add: select_tests_def)
    then show ?thesis using True by (auto simp: Let_def)
  next
    case False
    with empty have "filter test_file (bt_keys m) \<noteq> []" by blast
    then have "select_tests m changed files = filter test_file (bt_keys m)"
      unfolding select_tests_def Let_def by (rule if_not_P)
    then show ?thesis using False keys by (simp add: Let_def)
  qed
qed

theorem reaching_tests_selected_witness:
  "\<exists>g m. select_tests m [''src/a.rs''] demo_files = [''tests/t.rs''] \<and>
     set (select_tests m [''src/a.rs''] demo_files) \<subseteq> (imports_rel demo_imports demo_files)\<^sup>* `` {''src/a.rs''}"
proof -
  obtain g where g: "reverse_import_graph demo_imports demo_files = Inr (g, 2, 1)" using demo_graph by blast
  obtain m where m: "impacted_files [''src/a.rs''] demo_files g = Some m" using impacted_total by blast
  have c: "case reverse_import_graph demo_imports demo_files of Inr (g, r, u) \<Rightarrow>
      (case impacted_files [''src/a.rs''] demo_files g of Some m \<Rightarrow>
        select_tests m [''src/a.rs''] demo_files = [''tests/t.rs''] \<and> filter test_file (bt_keys m) \<noteq> [] | None \<Rightarrow> False) | Inl _ \<Rightarrow> False"
    by code_simp
  have s: "select_tests m [''src/a.rs''] demo_files = [''tests/t.rs'']" using c by (simp only: g m sum.case prod.case option.case)
  have f: "set [''src/a.rs''] \<inter> set demo_files = {''src/a.rs''}" by (simp add: demo_files_def)
  let ?R = "{t \<in> (imports_rel demo_imports demo_files)\<^sup>* `` {''src/a.rs''}. test_file t}"
  have "dom (bt_get m) = (imports_rel demo_imports demo_files)\<^sup>* `` {''src/a.rs''}"
    using bfs_done [OF impacted_inv [OF m]] reverse_graph_rel [OF g] by (simp only: f)
  moreover have "filter test_file (bt_keys m) \<noteq> []" using c unfolding g m sum.case prod.case option.case by (rule conjunct2)
  ultimately have "?R \<noteq> {}" by (metis (no_types, lifting) Collect_empty_eq empty_filter_conv set_bt_keys)
  with reaching_tests_selected [OF g m] have "set (select_tests m [''src/a.rs''] demo_files) = ?R"
    unfolding f Let_def by (simp only: if_True not_False_eq_True)
  with s show ?thesis by blast
qed

end
