(* ===== verification/Rust_Path.thy ===== *)
theory Rust_Path
  imports Rust_Str
begin

text \<open>
  Paths of \<open>std::path\<close> on a Unix system: the list of the components.  A root is the component \<open>/\<close>;
  inner dots and empty components are left out, a leading dot is kept.
\<close>

type_synonym path = "string list"

definition components :: "string \<Rightarrow> path" where
  "components s =
     (let cs = split_on (CHR ''/'') s in
      (if starts_with s ''/'' then [''/''] else []) @ (if hd cs = ''.'' then [''.''] else []) @
      filter (\<lambda>c. c \<noteq> [] \<and> c \<noteq> ''.'') cs)"

definition path_join :: "path \<Rightarrow> path \<Rightarrow> path" where
  "path_join p q =
     (case q of [] \<Rightarrow> p
      | c # cs \<Rightarrow> if c = ''/'' then q else if c = ''.'' \<and> p \<noteq> [] then p @ cs else p @ q)"

definition path_parent :: "path \<Rightarrow> path option" where
  "path_parent p = (if p = [] \<or> p = [''/''] then None else Some (butlast p))"

definition path_file_name :: "path \<Rightarrow> string option" where
  "path_file_name p = (if p = [] \<or> last p \<in> {''/'', ''.'', ''..''} then None else Some (last p))"

definition path_strip_prefix :: "path \<Rightarrow> path \<Rightarrow> path option" where
  "path_strip_prefix p base = (if take (length base) p = base then Some (drop (length base) p) else None)"

definition path_file_stem :: "path \<Rightarrow> string option" where
  "path_file_stem p = map_option (\<lambda>name. case rsplit_once (CHR ''.'') name of
     None \<Rightarrow> name | Some (before, _) \<Rightarrow> if before = [] then name else before) (path_file_name p)"

lemma components_plain:
  assumes "CHR ''/'' \<notin> set s" "s \<notin> {[], ''.''}"
  shows "components s = [s]"
  using assms by (cases s) (auto simp: components_def split_on_no_sep starts_with_def Let_def)

end
