(* ===== verification/Impact_Commands.thy ===== *)
theory Impact_Commands
  imports Impact_Graph Rust_Path
begin

text \<open>
  The test commands proposed for a change (crates/code-intel-cli/src/impact_graph.rs).  The file system is the record \<open>repo_env\<close>: which paths
  are regular files, and the parsed \<open>package.json\<close> where it can be read and parsed.
\<close>

section \<open>The repository\<close>

record repo_env =
  repo_root :: path
  repo_is_file :: "path \<Rightarrow> bool"
  repo_package_json :: "json option"
  repo_windows :: bool

definition repo_has :: "repo_env \<Rightarrow> string \<Rightarrow> bool" where
  "repo_has env name = repo_is_file env (path_join (repo_root env) (components name))"

section \<open>Quoting\<close>

definition shell_safe :: "char \<Rightarrow> bool" where
  "shell_safe c \<longleftrightarrow> is_ascii_alphanumeric c \<or> c \<in> set ''_+-./:''"

definition shell_arg :: "bool \<Rightarrow> string \<Rightarrow> string" where
  "shell_arg windows value =
     (if list_all shell_safe value then value
      else if windows then [CHR 0x27] @ replace_char (CHR 0x27) [CHR 0x27, CHR 0x27] value @ [CHR 0x27]
      else [CHR 0x27] @ replace_char (CHR 0x27) [CHR 0x27, CHR 0x5C, CHR 0x27, CHR 0x27] value @ [CHR 0x27])"

section \<open>Manifests and targets\<close>

definition cargo_toml :: string where
  "cargo_toml = ''Cargo.toml''"

function manifest_loop :: "repo_env \<Rightarrow> path \<Rightarrow> string option" where
  "manifest_loop env directory =
     (let manifest = path_join directory [cargo_toml] in
      if repo_is_file env manifest
      then map_option (\<lambda>p. replace_char (CHR 0x5C) ''/'' (join ''/'' p)) (path_strip_prefix manifest (repo_root env))
      else if directory = repo_root env then None
      else case path_parent directory of
          None \<Rightarrow> None
        | Some up \<Rightarrow> if path_strip_prefix up (repo_root env) = None then None else manifest_loop env up)"
  by pat_completeness auto
termination
  by (relation "measure (\<lambda>(env, d). length d)") (auto simp: path_parent_def split: if_splits)

declare manifest_loop.simps [simp del]

definition nearest_manifest :: "repo_env \<Rightarrow> string \<Rightarrow> string option" where
  "nearest_manifest env test =
     (case path_parent (path_join (repo_root env) (components test)) of
        None \<Rightarrow> None | Some directory \<Rightarrow> manifest_loop env directory)"

definition manifest_dir :: "string \<Rightarrow> path" where
  "manifest_dir manifest = (case path_parent (components manifest) of None \<Rightarrow> [] | Some d \<Rightarrow> d)"

definition cargo_integration_target :: "string \<Rightarrow> string \<Rightarrow> string option" where
  "cargo_integration_target manifest test =
     (case path_strip_prefix (components test) (manifest_dir manifest) of
        None \<Rightarrow> None
      | Some parts \<Rightarrow>
          (case parts of
             [a, file] \<Rightarrow> if a = ''tests'' \<and> ends_with file ''.rs'' then path_file_stem (components file) else None
           | [a, directory, m] \<Rightarrow> if a = ''tests'' \<and> m = ''main.rs'' then Some directory else None
           | _ \<Rightarrow> None))"

section \<open>Rust commands\<close>

definition source_filter :: "path \<Rightarrow> string option" where
  "source_filter relative =
     (case path_file_stem relative of
        None \<Rightarrow> None
      | Some stem \<Rightarrow>
          if stem = ''lib'' \<or> stem = ''main'' then None
          else if stem = ''mod'' then (case path_parent relative of None \<Rightarrow> None | Some p \<Rightarrow> path_file_name p)
          else Some stem)"

definition rust_source_command :: "repo_env \<Rightarrow> string \<Rightarrow> string option" where
  "rust_source_command env source =
     (case nearest_manifest env source of
        None \<Rightarrow> None
      | Some manifest \<Rightarrow>
          (case path_strip_prefix (components source) (manifest_dir manifest) of
             None \<Rightarrow> None
           | Some relative \<Rightarrow>
               if path_strip_prefix relative [''src''] = None then None
               else
                 (let crate_root = path_join (repo_root env) (manifest_dir manifest);
                      has_lib = repo_is_file env (path_join crate_root (components ''src/lib.rs''));
                      has_bin = repo_is_file env (path_join crate_root (components ''src/main.rs''));
                      command = ''cargo test --manifest-path '' @ shell_arg (repo_windows env) manifest @
                        (if has_lib then '' --lib'' else []) @ (if has_bin then '' --bins'' else [])
                  in if \<not> has_lib \<and> \<not> has_bin then None
                     else Some (command @ (case source_filter relative of
                        None \<Rightarrow> [] | Some f \<Rightarrow> '' '' @ shell_arg (repo_windows env) f)))))"

definition rust_source_test_commands :: "repo_env \<Rightarrow> string list \<Rightarrow> string list \<Rightarrow> string list \<times> bool" where
  "rust_source_test_commands env changed commands =
     (let found = List.map_filter (rust_source_command env) (filter (\<lambda>path. ends_with path ''.rs'') changed)
      in (fold insort_insert found commands, found \<noteq> []))"

definition reach_limitation :: string where
  "reach_limitation = ''No Rust test was reachable through imports; the command targets unit tests in the changed crate and uses a module-name filter for fast feedback. Run the package or workspace suite for completion.''"

definition missing_limitation :: string where
  "missing_limitation = ''At least one Rust candidate has no discoverable Cargo.toml; cargo test from the repository root is an advisory fallback.''"

definition broad_limitation :: "string \<Rightarrow> string" where
  "broad_limitation manifest = ''At least one Rust candidate under '' @ manifest @
     '' is not a standard Cargo integration-test target; the command falls back to the package test suite.''"

text \<open>The state of the loop over the tests: the targets and the broad flag per manifest, and whether
  a test had no manifest.\<close>

definition select_manifest ::
    "repo_env \<Rightarrow> string \<Rightarrow> (string, string list \<times> bool) btree \<times> bool \<Rightarrow> (string, string list \<times> bool) btree \<times> bool" where
  "select_manifest env test st =
     (let (manifests, missing) = st in
      case nearest_manifest env test of
        None \<Rightarrow> (manifests, True)
      | Some manifest \<Rightarrow>
          (let (targets, broad) = (case bt_get manifests manifest of Some s \<Rightarrow> s | None \<Rightarrow> ([], False)) in
           (bt_insert manifest
              (case cargo_integration_target manifest test of
                 Some target \<Rightarrow> (insort_insert target targets, broad) | None \<Rightarrow> (targets, True)) manifests, missing)))"

definition manifest_command :: "repo_env \<Rightarrow> string \<Rightarrow> string list \<times> bool \<Rightarrow> string" where
  "manifest_command env manifest selection =
     ''cargo test --manifest-path '' @ shell_arg (repo_windows env) manifest @
     (if snd selection then []
      else concat (map (\<lambda>target. '' --test '' @ shell_arg (repo_windows env) target) (fst selection)))"

definition rust_test_commands ::
    "repo_env \<Rightarrow> string list \<Rightarrow> string list \<Rightarrow> bool \<Rightarrow> string list \<Rightarrow> string list \<Rightarrow> string list \<times> string list" where
  "rust_test_commands env changed tests co_location_fallback commands limitations =
     (case (if co_location_fallback then rust_source_test_commands env changed commands else (commands, False)) of
        (commands', True) \<Rightarrow> (commands', limitations @ [reach_limitation])
      | (commands', False) \<Rightarrow>
          (case fold (select_manifest env) (filter (\<lambda>path. ends_with path ''.rs'') tests) ([], False) of
             (manifests, missing_manifest) \<Rightarrow>
               (let cs = fold (\<lambda>(m, s). insort_insert (manifest_command env m s)) (bt_iter manifests) commands';
                    ls = limitations @ map (\<lambda>(m, s). broad_limitation m) (filter (\<lambda>(m, s). snd s) (bt_iter manifests))
                in if missing_manifest then (insort_insert ''cargo test'' cs, ls @ [missing_limitation]) else (cs, ls))))"

section \<open>All commands\<close>

definition declared_package_manager :: "repo_env \<Rightarrow> string option" where
  "declared_package_manager env =
     (case repo_package_json env of
        None \<Rightarrow> None
      | Some v \<Rightarrow>
          (case as_str (jidx v ''packageManager'') of
             None \<Rightarrow> None
           | Some declared \<Rightarrow> find (\<lambda>manager. declared = manager \<or> starts_with declared (manager @ ''@''))
               [''bun'', ''pnpm'', ''yarn'', ''npm'']))"

definition python_limitation :: string where
  "python_limitation = ''No uv.lock was found at the repository root; Python tests use the active interpreter.''"

definition javascript_limitation :: string where
  "javascript_limitation = ''No supported JavaScript package-manager declaration or lockfile was found at the repository root; npm is an advisory fallback.''"

definition javascript_runner :: "repo_env \<Rightarrow> string \<times> string list" where
  "javascript_runner env =
     (let manager = declared_package_manager env in
      if manager = Some ''bun'' then (''bun test'', [])
      else if manager = Some ''pnpm'' then (''pnpm test --'', [])
      else if manager = Some ''yarn'' then (''yarn test'', [])
      else if manager = Some ''npm'' then (''npm test --'', [])
      else if repo_has env ''bun.lock'' \<or> repo_has env ''bun.lockb'' then (''bun test'', [])
      else if repo_has env ''pnpm-lock.yaml'' then (''pnpm test --'', [])
      else if repo_has env ''yarn.lock'' then (''yarn test'', [])
      else (''npm test --'', if repo_has env ''package-lock.json'' then [] else [javascript_limitation]))"

definition runner_command :: "repo_env \<Rightarrow> string \<Rightarrow> string list \<Rightarrow> string" where
  "runner_command env runner paths = runner @ '' '' @ join '' '' (map (shell_arg (repo_windows env)) paths)"

definition test_commands :: "repo_env \<Rightarrow> string list \<Rightarrow> string list \<Rightarrow> bool \<Rightarrow> string list \<times> string list" where
  "test_commands env changed tests co_location_fallback =
     (let (commands, limitations) = rust_test_commands env changed tests co_location_fallback [] [];
          python = filter (\<lambda>path. ends_with path ''.py'') tests;
          (commands, limitations) =
            (if python = [] then (commands, limitations)
             else if repo_has env ''uv.lock'' then (insort_insert (runner_command env ''uv run pytest'' python) commands, limitations)
             else (insort_insert (runner_command env ''python -m pytest'' python) commands, limitations @ [python_limitation]));
          javascript = filter (\<lambda>path. list_ex (ends_with path) [''.js'', ''.jsx'', ''.ts'', ''.tsx'']) tests;
          (commands, limitations) =
            (if javascript = [] then (commands, limitations)
             else (let (runner, ls) = javascript_runner env in
                   (insort_insert (runner_command env runner javascript) commands, limitations @ ls)));
          commands = (if list_ex (\<lambda>path. ends_with path ''.go'') tests then insort_insert ''go test ./...'' commands else commands);
          commands = (if list_ex (\<lambda>path. ends_with path ''.java'') tests then insort_insert ''mvn test'' commands else commands)
      in (commands, limitations))"

section \<open>Facts\<close>

text \<open>How a POSIX shell reads one word: outside quotes a backslash takes the next character
  literally, single quotes take everything up to the next one literally, and a character that has a
  meaning of its own outside quotes ends the reading.\<close>

definition sh_specials :: "char list" where
  "sh_specials = ''|&;<>()$`*?[#~=%!{} '' @ [CHR 0x22, CHR 0x09, CHR 0x0A, CHR 0x0D]"

definition sh_special :: "char \<Rightarrow> bool" where
  "sh_special c \<longleftrightarrow> c \<in> set sh_specials"

fun sh_word :: "bool \<Rightarrow> string \<Rightarrow> string option" where
  "sh_word False [] = Some []"
| "sh_word True [] = None"
| "sh_word True (c # s) = (if c = CHR 0x27 then sh_word False s else map_option ((#) c) (sh_word True s))"
| "sh_word False (c # s) =
     (if c = CHR 0x27 then sh_word True s
      else if c = CHR 0x5C then (case s of [] \<Rightarrow> None | d # t \<Rightarrow> map_option ((#) d) (sh_word False t))
      else if sh_special c then None
      else map_option ((#) c) (sh_word False s))"

lemma special_not_safe: "list_all (\<lambda>c. \<not> shell_safe c) ([CHR 0x27, CHR 0x5C] @ sh_specials)"
  by code_simp

lemma safe_not_special: "shell_safe c \<Longrightarrow> \<not> sh_special c \<and> c \<noteq> CHR 0x27 \<and> c \<noteq> CHR 0x5C"
  using special_not_safe by (auto simp: sh_special_def list_all_iff)

lemma sh_word_safe: "list_all shell_safe s \<Longrightarrow> sh_word False s = Some s"
  by (induction s) (auto dest: safe_not_special)

lemma sh_word_quoted:
  "sh_word True (replace_char (CHR 0x27) [CHR 0x27, CHR 0x5C, CHR 0x27, CHR 0x27] s @ [CHR 0x27]) = Some s"
  by (induction s) (auto simp: replace_char_def)

section \<open>Properties\<close>

text \<open>On a Unix system a shell reads a quoted argument back as one word with exactly the characters of
  the argument, whatever they are, so no path can change the command it is put into.\<close>

theorem shell_arg_roundtrip: "value' \<noteq> [] \<Longrightarrow> sh_word False (shell_arg False value') = Some value'"
  by (simp add: shell_arg_def sh_word_safe sh_word_quoted)

theorem shell_arg_roundtrip_witness:
  "sh_word False (shell_arg False ''it's a test; rm -rf'') = Some ''it's a test; rm -rf''"
  by (rule shell_arg_roundtrip) simp

end
