(* ===== verification/Git_Remote.thy ===== *)
theory Git_Remote
  imports Json_Value
begin

text \<open>
  The links from repositories to their remotes (crates/code-intel-cli/src/git_remote_registry/):
  reading a remote URL without its credentials, the host types and their overrides, and the
  registry with its JSON form.  A \<open>HashMap\<close> is an association list; the order of its entries
  matters only where the code below says so.  \<open>str::to_lowercase\<close> is the parameter \<open>lower\<close>;
  reading and writing files and calling git happen outside of these definitions.
\<close>

section \<open>Hosts (host.rs)\<close>

datatype host_type = Github | Gitlab | Gitea | Generic | NoHost

fun host_str :: "host_type \<Rightarrow> string" where
  "host_str Github = ''github''"
| "host_str Gitlab = ''gitlab''"
| "host_str Gitea = ''gitea''"
| "host_str Generic = ''generic''"
| "host_str NoHost = ''none''"

definition host_from_str :: "string \<Rightarrow> host_type" where
  "host_from_str s =
     (if s = ''github'' then Github else if s = ''gitlab'' then Gitlab else if s = ''gitea'' then Gitea
      else if s = ''none'' then NoHost else Generic)"

record host_override =
  ho_type :: host_type
  ho_web_base_url :: string

definition get_text :: "json \<Rightarrow> string \<Rightarrow> string option" where
  "get_text v k = (case jget v k of None \<Rightarrow> None | Some x \<Rightarrow> as_str x)"

text \<open>The argument is the parsed file, or \<open>None\<close> where it cannot be read or parsed.\<close>

definition load_git_host_overrides :: "json option \<Rightarrow> (string, host_override) btree" where
  "load_git_host_overrides file =
     (case file of None \<Rightarrow> [] | Some value \<Rightarrow>
        (case as_object value of None \<Rightarrow> []
         | Some obj \<Rightarrow> fold (\<lambda>(host_key, entry) out.
             case (get_text entry ''type'', get_text entry ''web_base_url'') of
               (Some t, Some web) \<Rightarrow> bt_insert host_key \<lparr>ho_type = host_from_str t, ho_web_base_url = web\<rparr> out
             | _ \<Rightarrow> out) (bt_iter obj) []))"

section \<open>Remote URLs (resolve.rs)\<close>

record remote_info =
  ri_remote_url_normalized :: "string option"
  ri_host_type :: host_type
  ri_host :: "string option"
  ri_owner :: "string option"
  ri_repo :: "string option"
  ri_web_base_url :: "string option"
  ri_has_credentials_stripped :: bool
  ri_is_plaintext_transport :: bool
  ri_repo_id :: "string option"

definition remote_none :: remote_info where
  "remote_none = \<lparr>ri_remote_url_normalized = None, ri_host_type = NoHost, ri_host = None, ri_owner = None, ri_repo = None,
     ri_web_base_url = None, ri_has_credentials_stripped = False, ri_is_plaintext_transport = False, ri_repo_id = None\<rparr>"

definition remote_json :: "remote_info \<Rightarrow> json" where
  "remote_json r = jobj
     [(''remote_url_normalized'', jopt_str (ri_remote_url_normalized r)),
      (''host_type'', JStr (host_str (ri_host_type r))),
      (''host'', jopt_str (ri_host r)),
      (''owner'', jopt_str (ri_owner r)),
      (''repo'', jopt_str (ri_repo r)),
      (''web_base_url'', jopt_str (ri_web_base_url r)),
      (''has_credentials_stripped'', JBool (ri_has_credentials_stripped r)),
      (''is_plaintext_transport'', JBool (ri_is_plaintext_transport r)),
      (''repo_id'', jopt_str (ri_repo_id r))]"

definition get_flag :: "json \<Rightarrow> string \<Rightarrow> bool" where
  "get_flag v k = (case jget v k of None \<Rightarrow> False | Some x \<Rightarrow> (case as_bool x of None \<Rightarrow> False | Some b \<Rightarrow> b))"

definition remote_from_json :: "json \<Rightarrow> remote_info option" where
  "remote_from_json v =
     (case as_object v of None \<Rightarrow> None | Some _ \<Rightarrow> Some
        \<lparr>ri_remote_url_normalized = get_text v ''remote_url_normalized'',
         ri_host_type = host_from_str (case get_text v ''host_type'' of None \<Rightarrow> [] | Some s \<Rightarrow> s),
         ri_host = get_text v ''host'',
         ri_owner = get_text v ''owner'',
         ri_repo = get_text v ''repo'',
         ri_web_base_url = get_text v ''web_base_url'',
         ri_has_credentials_stripped = get_flag v ''has_credentials_stripped'',
         ri_is_plaintext_transport = get_flag v ''is_plaintext_transport'',
         ri_repo_id = get_text v ''repo_id''\<rparr>)"

definition to_link_json :: "remote_info \<Rightarrow> json option" where
  "to_link_json r = map_option (\<lambda>web. jobj
     [(''web_base_url'', JStr web), (''host_type'', JStr (host_str (ri_host_type r)))]) (ri_web_base_url r)"

record parsed_url =
  pu_scheme :: string
  pu_host :: string
  pu_port :: "string option"
  pu_path :: string
  pu_had_credentials :: bool

definition parse_authority :: "string \<Rightarrow> string \<Rightarrow> parsed_url" where
  "parse_authority scheme after_scheme =
     (let (authority, path) = (case split_once (CHR ''/'') after_scheme of
            Some (a, p) \<Rightarrow> (a, p) | None \<Rightarrow> (after_scheme, []));
          (had_credentials, host_port) = (case rsplit_once (CHR ''@'') authority of
            Some (_, h) \<Rightarrow> (True, h) | None \<Rightarrow> (False, authority));
          (host, port) = (case rsplit_once (CHR '':'') host_port of
            Some (h, p) \<Rightarrow> if p \<noteq> [] \<and> list_all is_ascii_digit p then (h, Some p) else (host_port, None)
          | None \<Rightarrow> (host_port, None))
      in \<lparr>pu_scheme = scheme, pu_host = host, pu_port = port, pu_path = path, pu_had_credentials = had_credentials\<rparr>)"

definition parse_remote_url :: "string \<Rightarrow> parsed_url" where
  "parse_remote_url url0 =
     (let url = str_trim url0 in
      case (case strip_prefix url ''git@'' of None \<Rightarrow> None | Some rest \<Rightarrow> split_once (CHR '':'') rest) of
        Some (host, path) \<Rightarrow> \<lparr>pu_scheme = ''ssh'', pu_host = host, pu_port = None,
          pu_path = trim_start_char (CHR ''/'') path, pu_had_credentials = False\<rparr>
      | None \<Rightarrow>
          (case split_once_str ''://'' url of
             Some (scheme, after_scheme) \<Rightarrow> parse_authority scheme after_scheme
           | None \<Rightarrow> \<lparr>pu_scheme = [], pu_host = [], pu_port = None, pu_path = url,
               pu_had_credentials = CHR ''@'' \<in> set url\<rparr>))"

definition split_owner_repo :: "string \<Rightarrow> (string \<times> string) option" where
  "split_owner_repo path =
     (let trimmed = trim_char (CHR ''/'') path in
      if trimmed = [] then None
      else (let repo_raw = last (split_on (CHR ''/'') trimmed);
                repo = (case strip_suffix repo_raw ''.git'' of Some r \<Rightarrow> r | None \<Rightarrow> repo_raw);
                owner = trim_end_char (CHR ''/'') (take (length trimmed - length repo_raw) trimmed)
            in if owner = [] \<or> repo = [] then None else Some (owner, repo)))"

definition generic_base :: "parsed_url \<Rightarrow> string" where
  "generic_base parsed =
     (let scheme = (if pu_scheme parsed = ''http'' then ''http'' else ''https'') in
      case pu_port parsed of
        Some port \<Rightarrow> scheme @ ''://'' @ pu_host parsed @ '':'' @ port
      | None \<Rightarrow> scheme @ ''://'' @ pu_host parsed)"

definition host_key :: "parsed_url \<Rightarrow> string" where
  "host_key parsed = (case pu_port parsed of Some port \<Rightarrow> pu_host parsed @ '':'' @ port | None \<Rightarrow> pu_host parsed)"

definition find_override :: "(string, host_override) btree \<Rightarrow> parsed_url \<Rightarrow> host_override option" where
  "find_override overrides parsed =
     (case bt_get overrides (host_key parsed) of Some v \<Rightarrow> Some v | None \<Rightarrow> bt_get overrides (pu_host parsed))"

definition resolve_host :: "(string, host_override) btree \<Rightarrow> parsed_url \<Rightarrow> (host_type \<times> string) option" where
  "resolve_host overrides parsed =
     (if pu_host parsed = ''github.com'' then Some (Github, ''https://github.com'')
      else if pu_host parsed = ''gitlab.com'' then Some (Gitlab, ''https://gitlab.com'')
      else case find_override overrides parsed of
          Some over \<Rightarrow> Some (ho_type over, trim_end_char (CHR ''/'') (ho_web_base_url over))
        | None \<Rightarrow> if pu_host parsed = [] then None else Some (Generic, generic_base parsed))"

definition resolve_parsed :: "(string, host_override) btree \<Rightarrow> parsed_url \<Rightarrow> remote_info" where
  "resolve_parsed overrides parsed =
     (case split_owner_repo (pu_path parsed) of
        None \<Rightarrow> remote_none
      | Some (owner, repo) \<Rightarrow>
          (case resolve_host overrides parsed of
             None \<Rightarrow> remote_none
           | Some (host_type, web_base_url) \<Rightarrow>
               (let url = web_base_url @ ''/'' @ owner @ ''/'' @ repo in
                \<lparr>ri_remote_url_normalized = Some url, ri_host_type = host_type, ri_host = Some (pu_host parsed),
                 ri_owner = Some owner, ri_repo = Some repo, ri_web_base_url = Some url,
                 ri_has_credentials_stripped = pu_had_credentials parsed,
                 ri_is_plaintext_transport = (pu_scheme parsed = ''http''), ri_repo_id = None\<rparr>)))"

definition resolve_remote :: "string option \<Rightarrow> (string, host_override) btree \<Rightarrow> remote_info" where
  "resolve_remote raw_remote_url overrides =
     (case raw_remote_url of
        None \<Rightarrow> remote_none
      | Some r \<Rightarrow> if is_blank r then remote_none else resolve_parsed overrides (parse_remote_url r))"

definition normalize_local_path :: "(string \<Rightarrow> string) \<Rightarrow> string \<Rightarrow> string" where
  "normalize_local_path lower path = lower (replace_char (CHR 0x5C) ''/'' path)"

section \<open>The registry (registry.rs)\<close>

type_synonym entries = "(string, remote_info) btree"

text \<open>\<open>load\<close> on the parsed file, and the object that \<open>save\<close> writes.\<close>

definition registry_load :: "json option \<Rightarrow> entries" where
  "registry_load file =
     (case file of None \<Rightarrow> [] | Some v \<Rightarrow>
        (case as_object v of None \<Rightarrow> []
         | Some obj \<Rightarrow> fold (\<lambda>(k, v) m. case remote_from_json v of None \<Rightarrow> m | Some info \<Rightarrow> bt_insert k info m)
             (bt_iter obj) []))"

definition registry_save_json :: "entries \<Rightarrow> json" where
  "registry_save_json entries = JObj (fold (\<lambda>(k, v). bt_insert k (remote_json v)) (bt_iter entries) [])"

definition registry_get :: "(string \<Rightarrow> string) \<Rightarrow> entries \<Rightarrow> string \<Rightarrow> remote_info option" where
  "registry_get lower entries local_path = bt_get entries (normalize_local_path lower local_path)"

definition registry_upsert :: "(string \<Rightarrow> string) \<Rightarrow> string \<Rightarrow> remote_info \<Rightarrow> entries \<Rightarrow> entries" where
  "registry_upsert lower local_path info entries = bt_insert (normalize_local_path lower local_path) info entries"

text \<open>Where two entries have one \<open>repo_id\<close>, the last of them in the iteration order is kept.\<close>

definition to_remote_links_json :: "entries \<Rightarrow> json" where
  "to_remote_links_json entries = JObj (fold (\<lambda>info obj.
     case (ri_repo_id info, to_link_json info) of
       (Some repo_id, Some link) \<Rightarrow> bt_insert repo_id link obj
     | _ \<Rightarrow> obj) (bt_values entries) [])"

text \<open>\<open>origin\<close> is the call of git; the second component is the object that is saved, on a miss.\<close>

definition get_or_resolve ::
    "(string \<Rightarrow> string) \<Rightarrow> (string \<Rightarrow> string option) \<Rightarrow> string \<Rightarrow> (string, host_override) btree \<Rightarrow> entries \<Rightarrow>
     entries \<times> json option \<times> remote_info" where
  "get_or_resolve lower origin local_path overrides entries =
     (let key = normalize_local_path lower local_path;
          (entries', saved) = (if bt_get entries key = None
            then (let e = bt_insert key (resolve_remote (origin local_path) overrides) entries in (e, Some (registry_save_json e)))
            else (entries, None))
      in (entries', saved, the (bt_get entries' key)))"

text \<open>The loop of \<open>warm_up_from_upstream\<close> over the repositories that the server lists.\<close>

definition warm_up ::
    "(string \<Rightarrow> string option) \<Rightarrow> (string, host_override) btree \<Rightarrow> json \<Rightarrow> (string \<times> remote_info) list" where
  "warm_up origin overrides repos =
     (case as_array repos of None \<Rightarrow> []
      | Some arr \<Rightarrow> List.map_filter (\<lambda>repo. map_option (\<lambda>local_path.
          (local_path, (resolve_remote (origin local_path) overrides)\<lparr>ri_repo_id := get_text repo ''id''\<rparr>))
          (get_text repo ''local_path'')) arr)"

section \<open>Facts\<close>

lemma host_roundtrip [simp]: "host_from_str (host_str h) = h"
  by (cases h) (simp_all add: host_from_str_def)

lemma get_text_jopt: "jget v k = Some (jopt_str x) \<Longrightarrow> get_text v k = x"
  by (cases x) (simp_all add: get_text_def jopt_str_def)

lemma remote_from_json_json: "remote_from_json (remote_json r) = Some r"
proof -
  have o': "as_object (remote_json r) \<noteq> None" by (simp add: remote_json_def jobj_def)
  have "get_text (remote_json r) ''remote_url_normalized'' = ri_remote_url_normalized r"
    "get_text (remote_json r) ''host'' = ri_host r" "get_text (remote_json r) ''owner'' = ri_owner r"
    "get_text (remote_json r) ''repo'' = ri_repo r" "get_text (remote_json r) ''web_base_url'' = ri_web_base_url r"
    "get_text (remote_json r) ''repo_id'' = ri_repo_id r"
    by (rule get_text_jopt; simp add: remote_json_def jget_jobj)+
  moreover have "get_text (remote_json r) ''host_type'' = Some (host_str (ri_host_type r))"
    "get_flag (remote_json r) ''has_credentials_stripped'' = ri_has_credentials_stripped r"
    "get_flag (remote_json r) ''is_plaintext_transport'' = ri_is_plaintext_transport r"
    by (simp_all add: get_text_def get_flag_def remote_json_def jget_jobj)
  ultimately show ?thesis using o' by (auto simp: remote_from_json_def split: option.split)
qed

lemma insert_all_eq:
  assumes "bt_wf m"
  shows "fold (\<lambda>(k, v). bt_insert k (f v)) m [] = map (\<lambda>(k, v). (k, f v)) m"
proof -
  have e: "fold (\<lambda>(k, v). bt_insert k (f v)) m acc = fold (\<lambda>(k, v). bt_insert k v) (map (\<lambda>(k, v). (k, f v)) m) acc" for acc
    by (induction m arbitrary: acc) auto
  have keys: "map fst (map (\<lambda>(k, v). (k, f v)) m) = map fst m" by (induction m) auto
  have wf: "bt_wf (map (\<lambda>(k, v). (k, f v)) m)" using assms by (simp only: bt_wf_def keys)
  have "bt_of_list (map (\<lambda>(k, v). (k, f v)) m) = map (\<lambda>(k, v). (k, f v)) m"
    by (rule bt_ext [OF bt_of_list_wf wf bt_get_of_list]) (use bt_wf_distinct [OF wf] in simp)
  then show ?thesis by (simp add: e bt_of_list_def)
qed

lemma split_scheme: "CHR '':'' \<notin> set a \<Longrightarrow> split_once_str ''://'' (a @ ''://'' @ r) = Some (a, r)"
  by (induction a) (auto simp: starts_with_def)

lemma not_scp:
  assumes "CHR '':'' \<notin> set scheme" "CHR ''@'' \<notin> set scheme"
  shows "strip_prefix (scheme @ ''://'' @ r) ''git@'' = None"
proof -
  have "\<not> starts_with (scheme @ ''://'' @ r) ''git@''"
  proof
    assume "starts_with (scheme @ ''://'' @ r) ''git@''"
    then obtain t where t: "scheme @ ''://'' @ r = ''git@'' @ t" by (auto simp: starts_with_iff)
    have "takeWhile (\<lambda>c. c \<noteq> CHR '':'') (scheme @ ''://'' @ r) = scheme"
      using assms(1) by (simp add: takeWhile_append)
    then have "CHR ''@'' \<in> set scheme" unfolding t by auto
    with assms(2) show False by simp
  qed
  then show ?thesis by (simp add: strip_prefix_def)
qed

lemma parse_credentials:
  assumes "CHR ''/'' \<notin> set user" "CHR ''/'' \<notin> set host_port" "CHR ''@'' \<notin> set host_port"
  shows "parse_authority scheme (user @ ''@'' @ host_port @ ''/'' @ path) =
    (parse_authority scheme (host_port @ ''/'' @ path))\<lparr>pu_had_credentials := True\<rparr>"
proof -
  have s: "split_once (CHR ''/'') ((user @ ''@'' @ host_port) @ CHR ''/'' # path) = Some (user @ ''@'' @ host_port, path)"
    "split_once (CHR ''/'') (host_port @ CHR ''/'' # path) = Some (host_port, path)"
    by (rule split_once_append; use assms in simp)+
  have r: "rsplit_once (CHR ''@'') (user @ CHR ''@'' # host_port) = Some (user, host_port)"
    "rsplit_once (CHR ''@'') host_port = None"
    using assms(3) by (simp_all add: rsplit_once_append rsplit_once_None)
  show ?thesis
    using s r by (simp add: parse_authority_def Let_def case_prod_beta split: option.split)
qed

lemma resolve_parsed_credentials:
  "resolve_parsed ov (p\<lparr>pu_had_credentials := b\<rparr>) =
    (let r = resolve_parsed ov p in if r = remote_none then r else r\<lparr>ri_has_credentials_stripped := b\<rparr>)"
proof -
  have host: "resolve_host ov (p\<lparr>pu_had_credentials := b\<rparr>) = resolve_host ov p"
    by (simp add: resolve_host_def find_override_def host_key_def generic_base_def cong: option.case_cong)
  have some: "r \<noteq> remote_none" if "ri_owner r = Some owner" for r owner
    using that by (auto simp: remote_none_def)
  show ?thesis
  proof (cases "split_owner_repo (pu_path p)")
    case (Some x)
    then show ?thesis
      using some by (cases x; cases "resolve_host ov p") (auto simp: resolve_parsed_def host Let_def split: prod.splits)
  qed (simp add: resolve_parsed_def)
qed

section \<open>Properties\<close>

text \<open>C26: Credentials in a remote URL reach nothing of the record but the flag that says so: two URLs that
  differ in their user part alone resolve to the same record, with the flag set where there is one.\<close>

theorem credentials_do_not_leak:
  assumes "CHR '':'' \<notin> set scheme" "CHR ''@'' \<notin> set scheme" "CHR ''/'' \<notin> set user"
    and "CHR ''/'' \<notin> set host_port" "CHR ''@'' \<notin> set host_port"
    and "str_trim (scheme @ ''://'' @ user @ ''@'' @ host_port @ ''/'' @ path) = scheme @ ''://'' @ user @ ''@'' @ host_port @ ''/'' @ path"
    and "str_trim (scheme @ ''://'' @ host_port @ ''/'' @ path) = scheme @ ''://'' @ host_port @ ''/'' @ path"
  shows "resolve_remote (Some (scheme @ ''://'' @ user @ ''@'' @ host_port @ ''/'' @ path)) overrides =
    (let r = resolve_remote (Some (scheme @ ''://'' @ host_port @ ''/'' @ path)) overrides in
     if r = remote_none then r else r\<lparr>ri_has_credentials_stripped := True\<rparr>)"
proof -
  have p: "parse_remote_url (scheme @ ''://'' @ user @ ''@'' @ host_port @ ''/'' @ path) =
      (parse_remote_url (scheme @ ''://'' @ host_port @ ''/'' @ path))\<lparr>pu_had_credentials := True\<rparr>"
    unfolding parse_remote_url_def assms(6,7) Let_def not_scp [OF assms(1,2)] option.case
      split_scheme [OF assms(1)] prod.case
    by (rule parse_credentials [OF assms(3-5)])
  have "\<not> is_blank (scheme @ ''://'' @ user @ ''@'' @ host_port @ ''/'' @ path)"
    "\<not> is_blank (scheme @ ''://'' @ host_port @ ''/'' @ path)"
    unfolding is_blank_def assms(6,7) by simp_all
  then show ?thesis
    unfolding resolve_remote_def option.case p by (simp only: if_False resolve_parsed_credentials)
qed

theorem credentials_do_not_leak_witness:
  "ri_web_base_url (resolve_remote (Some (''https'' @ ''://'' @ ''me:token'' @ ''@'' @ ''h.example:8443'' @ ''/'' @ ''o/r.git'')) []) =
     Some ''https://h.example:8443/o/r'' \<and>
   ri_has_credentials_stripped (resolve_remote (Some (''https'' @ ''://'' @ ''me:token'' @ ''@'' @ ''h.example:8443'' @ ''/'' @ ''o/r.git'')) [])"
proof -
  have "str_trim (''https'' @ ''://'' @ ''me:token'' @ ''@'' @ ''h.example:8443'' @ ''/'' @ ''o/r.git'') =
      ''https'' @ ''://'' @ ''me:token'' @ ''@'' @ ''h.example:8443'' @ ''/'' @ ''o/r.git''"
    "str_trim (''https'' @ ''://'' @ ''h.example:8443'' @ ''/'' @ ''o/r.git'') =
      ''https'' @ ''://'' @ ''h.example:8443'' @ ''/'' @ ''o/r.git''"
    by code_simp+
  note c = credentials_do_not_leak [OF _ _ _ _ _ this, of "[]"]
  have "ri_web_base_url (resolve_remote (Some (''https'' @ ''://'' @ ''h.example:8443'' @ ''/'' @ ''o/r.git'')) []) =
     Some ''https://h.example:8443/o/r''" by code_simp
  moreover from this have "resolve_remote (Some (''https'' @ ''://'' @ ''h.example:8443'' @ ''/'' @ ''o/r.git'')) [] \<noteq> remote_none"
    by (auto simp: remote_none_def)
  ultimately show ?thesis by (subst c, simp, simp, simp, simp, simp, subst c) (simp_all add: Let_def)
qed

text \<open>The link that the page turns into an anchor starts with \<open>http://\<close> or \<open>https://\<close>, whatever the
  remote URL says, unless the operator's overrides name its host.\<close>

theorem link_scheme_safe:
  assumes "ri_web_base_url (resolve_remote (Some raw) overrides) = Some url"
    and "find_override overrides (parse_remote_url raw) = None"
  shows "starts_with url ''http://'' \<or> starts_with url ''https://''"
proof -
  obtain owner repo t web where "resolve_host overrides (parse_remote_url raw) = Some (t, web)"
    "url = web @ ''/'' @ owner @ ''/'' @ repo"
    using assms(1) by (auto simp: resolve_remote_def resolve_parsed_def remote_none_def Let_def split: if_splits option.splits)
  with assms(2) show ?thesis
    by (auto simp: resolve_host_def generic_base_def starts_with_def Let_def split: if_splits option.splits)
qed

theorem link_scheme_safe_witness:
  "ri_web_base_url (resolve_remote (Some ''javascript://x/o/r'') []) = Some ''https://x/o/r'' \<and>
   starts_with ''https://x/o/r'' ''https://''"
proof -
  have u: "ri_web_base_url (resolve_remote (Some ''javascript://x/o/r'') []) = Some ''https://x/o/r''" by code_simp
  have f: "find_override [] (parse_remote_url ''javascript://x/o/r'') = None" by (simp add: find_override_def)
  from link_scheme_safe [OF u f] u show ?thesis by (simp add: starts_with_def)
qed

text \<open>The registry reads back exactly the entries it saved: every field of every record survives the
  JSON form.\<close>

theorem registry_roundtrip:
  assumes "bt_wf entries"
  shows "registry_load (Some (registry_save_json entries)) = entries"
proof -
  let ?o = "map (\<lambda>(k, v). (k, remote_json v)) entries"
  have s: "registry_save_json entries = JObj ?o"
    using assms by (simp add: registry_save_json_def insert_all_eq [where f = remote_json])
  have "map fst ?o = map fst entries" by (induction entries) auto
  then have wf: "bt_wf ?o" using assms by (simp only: bt_wf_def)
  have "fold (\<lambda>(k, v) m. case remote_from_json v of None \<Rightarrow> m | Some info \<Rightarrow> bt_insert k info m) (map (\<lambda>(k, v). (k, remote_json v)) es) acc =
      fold (\<lambda>(k, v). bt_insert k v) es acc" for es acc :: entries
    by (induction es arbitrary: acc) (auto simp: remote_from_json_json)
  moreover have "fold (\<lambda>(k, v). bt_insert k v) entries [] = entries"
    using insert_all_eq [OF assms, where f = "\<lambda>v. v"] by simp
  ultimately show ?thesis by (simp add: registry_load_def s wf)
qed

theorem registry_roundtrip_witness:
  "registry_load (Some (registry_save_json (registry_upsert (\<lambda>s. s) ''a'' (resolve_remote (Some ''git@github.com:o/r.git'') []) []))) =
   [(''a'', resolve_remote (Some ''git@github.com:o/r.git'') [])]"
proof -
  have "registry_upsert (\<lambda>s. s) ''a'' (resolve_remote (Some ''git@github.com:o/r.git'') []) [] =
      [(''a'', resolve_remote (Some ''git@github.com:o/r.git'') [])]"
    by (simp add: registry_upsert_def normalize_local_path_def replace_char_def)
  then show ?thesis by (simp add: registry_roundtrip bt_wf_def)
qed

end
