(* ===== verification/Span_Apply.thy ===== *)
theory Span_Apply
  imports Content_Contract Rust_Path
begin

text \<open>
  The span-addressed edit (crates/code-intel-cli/src/span_apply.rs): spans of one file, addressed by
  line and column and guarded by the digest of their bytes, are replaced at once or not at all.  A
  file is its bytes; \<open>usize\<close> is \<open>nat\<close>, as every number comes from a length or from 32 bits.  The
  file system, the snapshot lease and the publication of the artifact form the record \<open>edit_env\<close>
  over the state of the file system.
\<close>

section \<open>Errors and output (adapter\_contract.rs)\<close>

datatype adapter_error = InvalidOptions string | Contract string | Unavailable string | Internal string | Io string

datatype adapter_verdict = VPass | VFail | VUnknown | VNotApplicable

record adapter_artifact =
  aa_schema :: string
  aa_type :: string
  aa_path :: string
  aa_bytes :: "u8 list"

record adapter_output =
  ao_artifacts :: "adapter_artifact list"
  ao_effects :: "string list"
  ao_verdict :: adapter_verdict
  ao_failure :: "string option"

section \<open>Paths inside the repository (structured\_edit.rs)\<close>

definition GENERATED_COMPONENTS :: "string list" where
  "GENERATED_COMPONENTS = [''.git'', ''.next'', ''.venv'', ''__pycache__'', ''build'', ''dist'', ''node_modules'', ''target'', ''vendor'']"

definition normalize_relative :: "string \<Rightarrow> bool \<Rightarrow> adapter_error + string" where
  "normalize_relative path reject_generated =
     and_then (ensure (\<not> starts_with path ''/'') (InvalidOptions (''edit path must be repository-relative: '' @ path))) (\<lambda>_.
     and_then (try_fold (\<lambda>component parts.
        if component = ''.'' then Ok parts
        else if component = ''..'' \<or> component = ''/'' then Err (InvalidOptions (''edit path escapes repository: '' @ path))
        else if reject_generated \<and> list_ex (eq_ignore_ascii_case component) GENERATED_COMPONENTS
        then Err (InvalidOptions (''edit path targets excluded generated content: '' @ path))
        else Ok (parts @ [component])) (components path) []) (\<lambda>parts.
     Ok (if parts = [] then ''.'' else join ''/'' parts)))"

definition within_scope :: "string \<Rightarrow> string \<Rightarrow> bool" where
  "within_scope path scope \<longleftrightarrow> scope = ''.'' \<or> path = scope \<or> starts_with path (scope @ ''/'')"

section \<open>Spans\<close>

definition MAX_SPANS :: nat where "MAX_SPANS = 256"

definition MAX_REPLACEMENT_BYTES :: nat where "MAX_REPLACEMENT_BYTES = 64 * 1024"

definition MAX_EVIDENCE_BYTES :: nat where "MAX_EVIDENCE_BYTES = 256"

record span_edit =
  sp_start_line :: nat
  sp_start_column :: nat
  sp_end_line :: nat
  sp_end_column :: nat
  sp_expected_sha256 :: string
  sp_replacement :: string

definition span_start :: "span_edit \<Rightarrow> nat \<times> nat" where
  "span_start s = (sp_start_line s, sp_start_column s)"

definition span_end :: "span_edit \<Rightarrow> nat \<times> nat" where
  "span_end s = (sp_end_line s, sp_end_column s)"

definition span_address :: "span_edit \<Rightarrow> string" where
  "span_address s = show_nat (sp_start_line s) @ '':'' @ show_nat (sp_start_column s) @ ''-'' @
     show_nat (sp_end_line s) @ '':'' @ show_nat (sp_end_column s)"

text \<open>The order of pairs of Rust.\<close>

definition pos_less :: "nat \<times> nat \<Rightarrow> nat \<times> nat \<Rightarrow> bool" where
  "pos_less a b \<longleftrightarrow> fst a < fst b \<or> fst a = fst b \<and> snd a < snd b"

definition position :: "(string \<times> json) list \<Rightarrow> string \<Rightarrow> adapter_error + nat" where
  "position object key =
     ok_or (case as_u64 (the (bt_get object key)) of
         Some v \<Rightarrow> if 1 \<le> v \<and> unat v \<le> 2 ^ 32 - 1 then Some (unat v) else None | None \<Rightarrow> None)
       (InvalidOptions (''options.spans[].'' @ key @ '' must be a 1-based integer''))"

definition span_keys :: "string list" where
  "span_keys = [''startLine'', ''startColumn'', ''endLine'', ''endColumn'', ''expectedSha256'', ''replacement'']"

definition parse_span :: "json \<Rightarrow> adapter_error + span_edit" where
  "parse_span value =
     and_then (ok_or (as_object value) (InvalidOptions ''options.spans[] entries must be objects'')) (\<lambda>object.
     and_then (ensure (\<not> (length object \<noteq> 6 \<or> \<not> list_all (\<lambda>key. bt_get object key \<noteq> None) span_keys))
       (InvalidOptions ''options.spans[] requires exactly startLine/startColumn/endLine/endColumn/expectedSha256/replacement'')) (\<lambda>_.
     and_then (ok_or (case as_str (the (bt_get object ''expectedSha256'')) of
           Some v \<Rightarrow> if is_digest v then Some v else None | None \<Rightarrow> None)
       (InvalidOptions ''options.spans[].expectedSha256 must be a 64-character lowercase sha256'')) (\<lambda>expected.
     and_then (ok_or (as_str (the (bt_get object ''replacement''))) (InvalidOptions ''options.spans[].replacement must be a string'')) (\<lambda>replacement.
     and_then (position object ''startLine'') (\<lambda>sl.
     and_then (position object ''startColumn'') (\<lambda>sc.
     and_then (position object ''endLine'') (\<lambda>el.
     and_then (position object ''endColumn'') (\<lambda>ec.
     let span = \<lparr>sp_start_line = sl, sp_start_column = sc, sp_end_line = el, sp_end_column = ec,
           sp_expected_sha256 = expected, sp_replacement = replacement\<rparr> in
     and_then (ensure (pos_less (span_start span) (span_end span))
       (InvalidOptions (''options.spans[] end must be after start: '' @ span_address span))) (\<lambda>_.
     Ok span)))))))))"

text \<open>\<open>sort_by_key\<close> is stable: insertion keeps a later span behind an equal earlier one.\<close>

fun insert_span :: "span_edit \<Rightarrow> span_edit list \<Rightarrow> span_edit list" where
  "insert_span s [] = [s]"
| "insert_span s (t # ts) =
     (if pos_less (span_start t) (span_start s) then t # insert_span s ts else s # t # ts)"

definition sort_spans :: "span_edit list \<Rightarrow> span_edit list" where
  "sort_spans spans = foldr insert_span spans []"

fun check_disjoint :: "span_edit list \<Rightarrow> adapter_error + unit" where
  "check_disjoint (a # b # spans) =
     and_then (ensure (\<not> pos_less (span_start b) (span_end a))
       (InvalidOptions (''options.spans overlap: '' @ span_address a @ '' and '' @ span_address b)))
       (\<lambda>_. check_disjoint (b # spans))"
| "check_disjoint spans = Ok ()"

definition parse_spans :: "json option \<Rightarrow> adapter_error + span_edit list" where
  "parse_spans value =
     and_then (ok_or (case value of Some v \<Rightarrow> as_array v | None \<Rightarrow> None) (InvalidOptions ''options.spans must be an array'')) (\<lambda>items.
     and_then (ensure (\<not> (items = [] \<or> length items > MAX_SPANS))
       (InvalidOptions (''options.spans must contain 1..='' @ show_nat MAX_SPANS @ '' entries''))) (\<lambda>_.
     and_then (try_fold (\<lambda>item spans. and_then (parse_span item) (\<lambda>s. Ok (spans @ [s]))) items []) (\<lambda>spans.
     and_then (ensure (\<not> sum_list (map (\<lambda>s. length (sp_replacement s)) spans) > MAX_REPLACEMENT_BYTES)
       (InvalidOptions (''options.spans replacement text exceeds '' @ show_nat MAX_REPLACEMENT_BYTES @ '' bytes''))) (\<lambda>_.
     and_then (check_disjoint (sort_spans spans)) (\<lambda>_.
     Ok (sort_spans spans))))))"

section \<open>Addresses\<close>

definition str_bytes :: "string \<Rightarrow> u8 list" where
  "str_bytes s = map (\<lambda>c. of_nat (of_char c)) s"

text \<open>The loop over the bytes: \<open>index\<close> is the place of the next byte, \<open>prev\<close> the byte before it.\<close>

fun line_loop :: "nat \<Rightarrow> nat \<Rightarrow> u8 option \<Rightarrow> u8 list \<Rightarrow> (nat \<times> nat) list" where
  "line_loop start index prev [] = (if start < index then [(start, index)] else [])"
| "line_loop start index prev (byte # bytes) =
     (if byte = 0x0A
      then (start, if index > start \<and> prev = Some 0x0D then index - 1 else index) #
           line_loop (index + 1) (index + 1) (Some byte) bytes
      else line_loop start (index + 1) (Some byte) bytes)"

definition line_bounds :: "u8 list \<Rightarrow> (nat \<times> nat) list" where
  "line_bounds bytes = line_loop 0 0 None bytes"

definition span_offset :: "(nat \<times> nat) list \<Rightarrow> nat \<Rightarrow> nat \<Rightarrow> string + nat" where
  "span_offset bounds line column =
     and_then (ok_or (if line - 1 < length bounds then Some (bounds ! (line - 1)) else None)
       (''line '' @ show_nat line @ '' is beyond the file, which has '' @ show_nat (length bounds) @ '' line(s)'')) (\<lambda>(start, end').
     let offset = start + column - 1 in
     and_then (ensure (\<not> offset > end')
       (''column '' @ show_nat column @ '' is beyond line '' @ show_nat line @ '', which holds '' @ show_nat (end' - start) @ '' byte(s)'')) (\<lambda>_.
     Ok offset))"

definition resolve_span :: "(nat \<times> nat) list \<Rightarrow> span_edit \<Rightarrow> string + nat \<times> nat" where
  "resolve_span bounds span =
     and_then (span_offset bounds (sp_start_line span) (sp_start_column span)) (\<lambda>a.
     and_then (span_offset bounds (sp_end_line span) (sp_end_column span)) (\<lambda>b. Ok (a, b)))"

definition splice :: "nat \<Rightarrow> nat \<Rightarrow> u8 list \<Rightarrow> u8 list \<Rightarrow> u8 list" where
  "splice start end' new bytes = take start bytes @ new @ drop end' bytes"

definition rewrite :: "u8 list \<Rightarrow> span_edit list \<Rightarrow> (nat \<times> nat) list \<Rightarrow> u8 list" where
  "rewrite before spans resolved =
     foldr (\<lambda>(span, start, end'). splice start end' (str_bytes (sp_replacement span))) (zip spans resolved) before"

section \<open>The edit\<close>

record ('f, 'l) edit_env =
  ee_is_dir :: "string \<Rightarrow> 'f \<Rightarrow> bool"
  ee_canonicalize :: "string \<Rightarrow> 'f \<Rightarrow> string + string"
  ee_symlink_metadata :: "string \<Rightarrow> 'f \<Rightarrow> string + bool \<times> bool"
  ee_begin_consumption :: "string \<Rightarrow> json \<Rightarrow> 'f \<Rightarrow> adapter_error + 'l"
  ee_verify_after :: "'l \<Rightarrow> string \<Rightarrow> 'f \<Rightarrow> adapter_error + unit"
  ee_read :: "string \<Rightarrow> 'f \<Rightarrow> string + u8 list"
  ee_write :: "string \<Rightarrow> u8 list \<Rightarrow> 'f \<Rightarrow> (string + unit) \<times> 'f"
  ee_remove_file :: "string \<Rightarrow> 'f \<Rightarrow> 'f"
  ee_copy_permissions :: "string \<Rightarrow> string \<Rightarrow> 'f \<Rightarrow> 'f"
  ee_rename :: "string \<Rightarrow> string \<Rightarrow> 'f \<Rightarrow> (string + unit) \<times> 'f"
  ee_publish_named :: "string \<Rightarrow> u8 list \<Rightarrow> 'f \<Rightarrow> (adapter_error + unit) \<times> 'f"
  ee_to_vec :: "json \<Rightarrow> string + u8 list"
  ee_from_utf8 :: "u8 list \<Rightarrow> string option"
  ee_debug_text :: "string \<Rightarrow> string"

text \<open>The metadata of a path is whether it is a symbolic link and whether it is a regular file.\<close>

definition resolve_target :: "('f, 'l) edit_env \<Rightarrow> 'f \<Rightarrow> string \<Rightarrow> string \<Rightarrow> json \<Rightarrow> adapter_error + string" where
  "resolve_target env st repo relative snapshot =
     and_then (ok_or (as_array (jidx snapshot ''scope'')) (Contract ''snapshot scope must be an array'')) (\<lambda>items.
     and_then (try_fold (\<lambda>value scopes.
        and_then (ok_or (as_str value) (Contract ''snapshot scope item must be a string'')) (\<lambda>s.
        and_then (normalize_relative s False) (\<lambda>scope. Ok (scopes @ [scope])))) items []) (\<lambda>scopes.
     and_then (ensure (list_ex (within_scope relative) scopes)
       (Contract (''edit path is outside the requested snapshot scope: '' @ relative))) (\<lambda>_.
     and_then (map_err (\<lambda>e. Io (''resolve repoPath: '' @ e)) (ee_canonicalize env repo st)) (\<lambda>canonical_repo.
     let target = canonical_repo @ ''/'' @ relative in
     and_then (map_err (\<lambda>e. InvalidOptions (''inspect '' @ relative @ '': '' @ e)) (ee_symlink_metadata env target st)) (\<lambda>(is_symlink, is_file).
     and_then (ensure (\<not> is_symlink) (Contract (''edit path is a symbolic link and is refused: '' @ relative))) (\<lambda>_.
     and_then (ensure is_file (InvalidOptions (''edit path is not a regular file: '' @ relative))) (\<lambda>_.
     and_then (map_err (\<lambda>e. Io (''resolve '' @ relative @ '': '' @ e)) (ee_canonicalize env target st)) (\<lambda>canonical_target.
     and_then (ensure (path_strip_prefix (components canonical_target) (components canonical_repo) \<noteq> None)
       (Contract (''edit path escapes repository: '' @ relative))) (\<lambda>_.
     Ok canonical_target)))))))))"

definition tmp_name :: "string \<Rightarrow> string" where
  "tmp_name target = target @ ''.span-apply-tmp''"

definition atomic_replace :: "('f, 'l) edit_env \<Rightarrow> string \<Rightarrow> u8 list \<Rightarrow> 'f \<Rightarrow> (string + unit) \<times> 'f" where
  "atomic_replace env target bytes st =
     (if path_file_name (components target) = None then (Err (target @ '' has no file name''), st)
      else (let temporary = tmp_name target; (written, st1) = ee_write env temporary bytes st in
        case written of
          Inl e \<Rightarrow> (Err (''write '' @ temporary @ '': '' @ e), ee_remove_file env temporary st1)
        | Inr _ \<Rightarrow>
            (let (renamed, st2) = ee_rename env temporary target (ee_copy_permissions env target temporary st1) in
             case renamed of
               Inl e \<Rightarrow> (Err (''replace '' @ target @ '': '' @ e), ee_remove_file env temporary st2)
             | Inr _ \<Rightarrow> (Ok (), st2))))"

definition evidence_text :: "('f, 'l) edit_env \<Rightarrow> u8 list \<Rightarrow> json" where
  "evidence_text env found =
     (if length found > MAX_EVIDENCE_BYTES then JNull
      else case ee_from_utf8 env found of Some t \<Rightarrow> JStr t | None \<Rightarrow> JNull)"

definition quoted_evidence :: "('f, 'l) edit_env \<Rightarrow> u8 list \<Rightarrow> string" where
  "quoted_evidence env found = (case evidence_text env found of JStr t \<Rightarrow> '': '' @ ee_debug_text env t | _ \<Rightarrow> [])"

text \<open>One round of the loop over the spans: the rows, the resolved ranges and the first refusal.\<close>

definition check_span ::
    "('f, 'l) edit_env \<Rightarrow> u8 list \<Rightarrow> span_edit \<Rightarrow> json list \<times> (nat \<times> nat) list \<times> string option \<Rightarrow>
     json list \<times> (nat \<times> nat) list \<times> string option" where
  "check_span env before span acc =
     (let (rows, resolved, refusal) = acc;
          refuse = (\<lambda>m. case refusal of Some r \<Rightarrow> Some r | None \<Rightarrow> Some m) in
      case resolve_span (line_bounds before) span of
        Inl reason \<Rightarrow>
          (rows @ [jobj [(''span'', JStr (span_address span)), (''expectedSha256'', JStr (sp_expected_sha256 span)),
              (''resolved'', JBool False), (''verdict'', JStr ''out_of_bounds''), (''diagnostic'', JStr reason)]],
           resolved, refuse (''span '' @ span_address span @ '': '' @ reason))
      | Inr (start, end') \<Rightarrow>
          (let found = take (end' - start) (drop start before);
               found_sha256 = sha256_hex found;
               matched = (found_sha256 = sp_expected_sha256 span) in
           (rows @ [jobj [(''span'', JStr (span_address span)),
               (''byteRange'', jobj [(''start'', ju64 (of_nat start)), (''end'', ju64 (of_nat end'))]),
               (''expectedSha256'', JStr (sp_expected_sha256 span)), (''foundSha256'', JStr found_sha256),
               (''foundBytes'', ju64 (of_nat (length found))), (''foundText'', evidence_text env found),
               (''replacementSha256'', JStr (sha256_hex (str_bytes (sp_replacement span)))),
               (''replacementBytes'', ju64 (of_nat (length (sp_replacement span)))),
               (''resolved'', JBool True), (''verdict'', JStr (if matched then ''match'' else ''digest_mismatch'')),
               (''diagnostic'', JNull)]],
            resolved @ [(start, end')],
            if matched then refusal
            else refuse (''span '' @ span_address span @ '': expected sha256 '' @ sp_expected_sha256 span @ '' but found '' @
              found_sha256 @ '' ('' @ show_nat (length found) @ '' byte(s)'' @ quoted_evidence env found @ '')''))))"

definition edit_artifact ::
    "json \<Rightarrow> string \<Rightarrow> string option \<Rightarrow> json list \<Rightarrow> u8 list \<Rightarrow> u8 list option \<Rightarrow> json" where
  "edit_artifact request relative refusal rows before after = jobj
     [(''schema'', JStr ''code-intel-span-edit-result.v1''),
      (''capability'', JStr ''edit.span-apply''),
      (''snapshotIdentity'', jidx (jidx request ''snapshot'') ''identity''),
      (''path'', JStr relative),
      (''applied'', JBool (after \<noteq> None)),
      (''refusal'', jopt_str refusal),
      (''file'', jobj
         [(''bytesBefore'', ju64 (of_nat (length before))), (''sha256Before'', JStr (sha256_hex before)),
          (''bytesAfter'', (case after of None \<Rightarrow> JNull | Some a \<Rightarrow> ju64 (of_nat (length a)))),
          (''sha256After'', (case after of None \<Rightarrow> JNull | Some a \<Rightarrow> JStr (sha256_hex a)))]),
      (''spans'', JArr rows)]"

definition publish_edit ::
    "('f, 'l) edit_env \<Rightarrow> json \<Rightarrow> bool \<Rightarrow> string option \<Rightarrow> 'f \<Rightarrow> (adapter_error + adapter_output) \<times> 'f" where
  "publish_edit env artifact mutated diagnostic st =
     (case map_err (\<lambda>e. Internal (''serialize span edit result: '' @ e)) (ee_to_vec env artifact) of
        Inl e \<Rightarrow> (Inl e, st)
      | Inr bytes \<Rightarrow>
          (let (published, st') = ee_publish_named env ''span-apply-result.json'' bytes st in
           (and_then published (\<lambda>_. Ok
              \<lparr>ao_artifacts = [\<lparr>aa_schema = ''code-intel-span-edit-result.v1'', aa_type = ''edit.span-apply-result'',
                 aa_path = ''span-apply-result.json'', aa_bytes = bytes\<rparr>],
               ao_effects = [''repo_read'', ''local_write''] @ (if mutated then [''repo_mutation''] else []),
               ao_verdict = (if diagnostic \<noteq> None then VFail else VPass),
               ao_failure = diagnostic\<rparr>), st')))"

text \<open>The checks that come before the file is read.\<close>

definition edit_options ::
    "('f, 'l) edit_env \<Rightarrow> 'f \<Rightarrow> json \<Rightarrow> bool \<Rightarrow> adapter_error + string \<times> string \<times> span_edit list \<times> string" where
  "edit_options env st request has_inputs =
     and_then (ensure (\<not> has_inputs) (Contract ''edit.span-apply does not accept input artifacts'')) (\<lambda>_.
     and_then (ensure (case as_array (jidx (jidx request ''effectPolicy'') ''allowedEffects'') of
         Some effects \<Rightarrow> JStr ''repo_mutation'' \<in> set effects | None \<Rightarrow> False)
       (Contract ''edit.span-apply writes repository bytes and requires the repo_mutation effect; request effectPolicy does not allow it'')) (\<lambda>_.
     and_then (ok_or (as_object (jidx request ''options'')) (InvalidOptions ''options must be an object'')) (\<lambda>options.
     and_then (ensure (list_all (\<lambda>key. key \<in> {''repoPath'', ''path'', ''spans''}) (bt_keys options))
       (InvalidOptions ''edit.span-apply accepts only repoPath/path/spans'')) (\<lambda>_.
     and_then (ok_or (case bt_get options ''repoPath'' of
           Some v \<Rightarrow> (case as_str v of Some s \<Rightarrow> if s = [] then None else Some s | None \<Rightarrow> None) | None \<Rightarrow> None)
       (InvalidOptions ''options.repoPath must be non-empty'')) (\<lambda>repo.
     and_then (ensure (ee_is_dir env repo st) (InvalidOptions (''repoPath is not a directory: '' @ repo))) (\<lambda>_.
     and_then (ok_or (case bt_get options ''path'' of Some v \<Rightarrow> as_str v | None \<Rightarrow> None)
       (InvalidOptions ''options.path must be a string'')) (\<lambda>path.
     and_then (normalize_relative path True) (\<lambda>relative.
     and_then (parse_spans (bt_get options ''spans'')) (\<lambda>spans.
     and_then (resolve_target env st repo relative (jidx request ''snapshot'')) (\<lambda>target.
     Ok (repo, relative, spans, target)))))))))))"

definition edit_file ::
    "('f, 'l) edit_env \<Rightarrow> json \<Rightarrow> string \<Rightarrow> string \<Rightarrow> string \<Rightarrow> span_edit list \<Rightarrow> 'l \<Rightarrow> u8 list \<Rightarrow> 'f \<Rightarrow>
     (adapter_error + adapter_output) \<times> 'f" where
  "edit_file env request repo relative target spans lease before st =
     (case fold (check_span env before) spans ([], [], None) of (rows, resolved, refusal) \<Rightarrow>
        (case refusal of
           Some diagnostic \<Rightarrow>
             (case ee_verify_after env lease repo st of
                Inl e \<Rightarrow> (Inl e, st)
              | Inr _ \<Rightarrow> publish_edit env (edit_artifact request relative refusal rows before None) False refusal st)
         | None \<Rightarrow>
             (let after = rewrite before spans resolved; (replaced, st1) = atomic_replace env target after st in
              case map_err Io replaced of
                Inl e \<Rightarrow> (Inl e, st1)
              | Inr _ \<Rightarrow>
                  (let (out, st2) = publish_edit env (edit_artifact request relative None rows before (Some after)) True None st1 in
                   (map_err (\<lambda>error. case error of
                      Io message \<Rightarrow> Io (message @ ''; '' @ relative @ '' was already rewritten and is now sha256 '' @ sha256_hex after)
                    | other \<Rightarrow> other) out, st2)))))"

definition edit_execute ::
    "('f, 'l) edit_env \<Rightarrow> json \<Rightarrow> bool \<Rightarrow> 'f \<Rightarrow> (adapter_error + adapter_output) \<times> 'f" where
  "edit_execute env request has_inputs st =
     (case edit_options env st request has_inputs of
        Inl e \<Rightarrow> (Inl e, st)
      | Inr (repo, relative, spans, target) \<Rightarrow>
          (case and_then (ee_begin_consumption env repo (jidx request ''snapshot'') st) (\<lambda>lease.
                and_then (map_err (\<lambda>e. Io (''read '' @ relative @ '': '' @ e)) (ee_read env target st)) (\<lambda>before.
                Ok (lease, before))) of
             Inl e \<Rightarrow> (Inl e, st)
           | Inr (lease, before) \<Rightarrow> edit_file env request repo relative target spans lease before st))"

end
