(* ===== verification/Span_Props.thy ===== *)
theory Span_Props
  imports Span_Apply
begin

text \<open>
  The span-addressed edit refines a simple specification: walk the file once from the front, keep
  what lies between the spans and put in the replacements.  The lemmas about \<open>line_loop\<close> show that
  the lines of a file are ordered ranges without a line feed, those about \<open>resolve_span\<close> that an
  accepted list of spans resolves to ordered ranges inside the file, so the slices of the source
  cannot panic; \<open>check_spans\<close> characterises the loop of \<open>execute\<close>.
\<close>

section \<open>Specification\<close>

definition slice :: "nat \<Rightarrow> nat \<Rightarrow> 'a list \<Rightarrow> 'a list" where
  "slice s e xs = take (e - s) (drop s xs)"

fun pieced :: "nat \<Rightarrow> 'a list \<Rightarrow> (nat \<times> nat) list \<Rightarrow> 'a list list \<Rightarrow> 'a list" where
  "pieced pos xs ((s, e) # rs) (new # news) = slice pos s xs @ new @ pieced e xs rs news"
| "pieced pos xs _ _ = drop pos xs"

fun ordered_ranges :: "nat \<Rightarrow> nat \<Rightarrow> (nat \<times> nat) list \<Rightarrow> bool" where
  "ordered_ranges pos n [] \<longleftrightarrow> pos \<le> n"
| "ordered_ranges pos n ((s, e) # rs) \<longleftrightarrow> pos \<le> s \<and> s \<le> e \<and> ordered_ranges e n rs"

definition replacements :: "span_edit list \<Rightarrow> u8 list list" where
  "replacements spans = map (\<lambda>s. str_bytes (sp_replacement s)) spans"

lemma ordered_ranges_le: "ordered_ranges pos n rs \<Longrightarrow> pos \<le> n"
  by (induction pos n rs rule: ordered_ranges.induct) auto

lemma rewrite_pieced:
  assumes "ordered_ranges pos (length before) rs" "length spans = length rs"
  shows "rewrite before spans rs = take pos before @ pieced pos before rs (replacements spans)"
  using assms
proof (induction rs arbitrary: pos spans)
  case (Cons r rs)
  obtain s e where r: "r = (s, e)" by force
  obtain sp sps where spans: "spans = sp # sps" using Cons.prems(2) by (cases spans) auto
  have ord: "pos \<le> s" "s \<le> e" "ordered_ranges e (length before) rs" using Cons.prems(1) r by auto
  then have "e \<le> length before" by (simp add: ordered_ranges_le)
  moreover have "rewrite before sps rs = take e before @ pieced e before rs (replacements sps)"
    using Cons.IH [OF ord(3)] Cons.prems(2) spans by simp
  moreover have "take s before = take pos before @ slice pos s before"
    using ord(1) unfolding slice_def by (metis le_add_diff_inverse take_add)
  ultimately show ?case
    using ord by (simp add: spans r rewrite_def splice_def replacements_def min_def)
qed (simp add: rewrite_def)

section \<open>Lines\<close>

lemma line_loop_range:
  "\<lbrakk>start \<le> index; (a, b) \<in> set (line_loop start index prev bytes)\<rbrakk> \<Longrightarrow>
   start \<le> a \<and> a \<le> b \<and> b \<le> index + length bytes"
proof (induction start index prev bytes rule: line_loop.induct)
  case (2 start index prev byte bytes)
  show ?case
  proof (cases "byte = 0x0A")
    case True
    with "2.prems" consider "a = start" "b = (if index > start \<and> prev = Some 0x0D then index - 1 else index)"
      | "(a, b) \<in> set (line_loop (index + 1) (index + 1) (Some byte) bytes)" by auto
    then show ?thesis using "2.IH"(1)[OF True] "2.prems"(1) by cases (auto split: if_splits)
  next
    case False
    then show ?thesis using "2.IH"(2)[OF False] "2.prems" by auto
  qed
qed (auto split: if_splits)

lemma line_loop_sorted:
  "start \<le> index \<Longrightarrow> sorted_wrt (\<lambda>x y. snd x < fst y) (line_loop start index prev bytes)"
proof (induction start index prev bytes rule: line_loop.induct)
  case (2 start index prev byte bytes)
  show ?case
  proof (cases "byte = 0x0A")
    case True
    have "index < a" if "(a, b) \<in> set (line_loop (index + 1) (index + 1) (Some byte) bytes)" for a b
      using line_loop_range [OF order_refl that] by simp
    then have "\<forall>y \<in> set (line_loop (index + 1) (index + 1) (Some byte) bytes). index < fst y" by force
    then show ?thesis using True "2.IH"(1)[OF True] by (auto simp: less_imp_diff_less)
  qed (use 2 in auto)
qed auto

text \<open>The loop has read the bytes up to \<open>index\<close>, and none from \<open>start\<close> on is a line feed.\<close>

lemma line_loop_content:
  assumes "start \<le> index" "length seen = index" "0x0A \<notin> set (drop start seen)"
    and "(a, b) \<in> set (line_loop start index prev bytes)"
  shows "0x0A \<notin> set (slice a b (seen @ bytes))"
  using assms
proof (induction start index prev bytes arbitrary: seen rule: line_loop.induct)
  case (1 start index prev)
  then show ?case by (auto simp: slice_def split: if_splits dest!: in_set_takeD)
next
  case (2 start index prev byte bytes)
  show ?case
  proof (cases "byte = 0x0A")
    case True
    let ?stop = "if index > start \<and> prev = Some 0x0D then index - 1 else index"
    have bound: "?stop \<le> length seen" using "2.prems"(2) by auto
    from True "2.prems"(4) consider "a = start" "b = ?stop"
      | "(a, b) \<in> set (line_loop (index + 1) (index + 1) (Some byte) bytes)" by auto
    then show ?thesis
    proof cases
      case 1
      have "slice a b (seen @ byte # bytes) = take (?stop - start) (drop start seen)"
        using 1 bound "2.prems"(1,2) by (simp add: slice_def)
      then show ?thesis using "2.prems"(3) in_set_takeD by metis
    next
      case 2
      then show ?thesis
        using "2.IH"(1)[OF True, of "seen @ [byte]"] "2.prems"(2) by simp
    qed
  next
    case False
    then show ?thesis
      using "2.IH"(2)[OF False, of "seen @ [byte]"] "2.prems" by simp
  qed
qed

lemma line_bounds_range:
  "(a, b) \<in> set (line_bounds bytes) \<Longrightarrow> a \<le> b \<and> b \<le> length bytes"
  using line_loop_range [of 0 0 a b None bytes] by (simp add: line_bounds_def)

lemma line_bounds_before:
  "\<lbrakk>i < j; j < length (line_bounds bytes)\<rbrakk> \<Longrightarrow> snd (line_bounds bytes ! i) < fst (line_bounds bytes ! j)"
  using line_loop_sorted [of 0 0 None bytes] by (simp add: line_bounds_def sorted_wrt_iff_nth_less)

lemma line_bounds_content:
  "(a, b) \<in> set (line_bounds bytes) \<Longrightarrow> 0x0A \<notin> set (slice a b bytes)"
  using line_loop_content [of 0 0 "[]" a b None bytes] by (simp add: line_bounds_def)

section \<open>Resolved spans\<close>

lemma span_offset_eq:
  "span_offset bounds line column = Inr p \<longleftrightarrow>
   line - 1 < length bounds \<and> p = fst (bounds ! (line - 1)) + column - 1 \<and> p \<le> snd (bounds ! (line - 1))"
  by (cases "bounds ! (line - 1)") (auto simp: span_offset_def and_then_eq_Inr Let_def split: if_splits)

lemma span_offset_within:
  "span_offset (line_bounds bytes) line column = Inr p \<Longrightarrow> p \<le> length bytes"
  using line_bounds_range [of "fst (line_bounds bytes ! (line - 1))" "snd (line_bounds bytes ! (line - 1))" bytes]
  by (auto simp: span_offset_eq)

lemma span_offset_mono:
  assumes "\<not> pos_less (l2, c2) (l1, c1)" "1 \<le> l1" "1 \<le> c1" "1 \<le> l2" "1 \<le> c2"
    and "span_offset (line_bounds bytes) l1 c1 = Inr p" "span_offset (line_bounds bytes) l2 c2 = Inr q"
  shows "p \<le> q"
proof (cases "l1 = l2")
  case True
  then show ?thesis using assms by (auto simp: span_offset_eq pos_less_def)
next
  case False
  then have "l1 - 1 < l2 - 1" using assms by (auto simp: pos_less_def)
  then have "snd (line_bounds bytes ! (l1 - 1)) < fst (line_bounds bytes ! (l2 - 1))"
    using assms(7) line_bounds_before by (auto simp: span_offset_eq)
  moreover have "fst (line_bounds bytes ! (l2 - 1)) \<le> q" "p \<le> snd (line_bounds bytes ! (l1 - 1))"
    using assms(5,6,7) unfolding span_offset_eq by linarith+
  ultimately show ?thesis by linarith
qed

text \<open>What \<open>parse_span\<close> promises of a span, and \<open>parse_spans\<close> of the list.\<close>

definition span_wf :: "span_edit \<Rightarrow> bool" where
  "span_wf s \<longleftrightarrow> 1 \<le> sp_start_line s \<and> 1 \<le> sp_start_column s \<and> 1 \<le> sp_end_line s \<and> 1 \<le> sp_end_column s \<and>
     pos_less (span_start s) (span_end s)"

lemma position_pos: "position object key = Inr n \<Longrightarrow> 1 \<le> n"
proof -
  assume "position object key = Inr n"
  then obtain v where "as_u64 (the (bt_get object key)) = Some v" "1 \<le> v" "n = unat v"
    by (auto simp: position_def split: option.splits if_splits)
  then show ?thesis by (metis unat_1 word_le_nat_alt)
qed

lemma parse_span_wf: "parse_span v = Inr s \<Longrightarrow> span_wf s"
  unfolding parse_span_def Let_def and_then_eq_Inr ensure_eq_Inr ok_or_eq_Inr
  by (elim exE conjE) (auto simp: span_wf_def dest: position_pos)

lemma parse_all_wf:
  "try_fold (\<lambda>item spans. and_then (parse_span item) (\<lambda>s. Ok (spans @ [s]))) items [] = Inr spans \<Longrightarrow>
   list_all span_wf spans"
  by (rule try_fold_invariant [where P = "list_all span_wf"]) (auto simp: and_then_eq_Inr parse_span_wf)

lemma set_insert_span [simp]: "set (insert_span s ts) = insert s (set ts)"
  by (induction s ts rule: insert_span.induct) auto

lemma set_sort_spans [simp]: "set (sort_spans spans) = set spans"
  by (induction spans) (auto simp: sort_spans_def)

lemma parse_spans_eq_Inr:
  "parse_spans v = Inr spans \<Longrightarrow> list_all span_wf spans \<and> check_disjoint spans = Ok ()"
  unfolding parse_spans_def and_then_eq_Inr ensure_eq_Inr ok_or_eq_Inr
  by (elim exE conjE) (auto simp: list_all_iff dest!: parse_all_wf)

definition resolves_to :: "u8 list \<Rightarrow> span_edit \<Rightarrow> nat \<times> nat \<Rightarrow> bool" where
  "resolves_to before s r \<longleftrightarrow> resolve_span (line_bounds before) s = Inr r"

lemma resolves_to_iff:
  "resolves_to before s (a, b) \<longleftrightarrow>
   span_offset (line_bounds before) (sp_start_line s) (sp_start_column s) = Inr a \<and>
   span_offset (line_bounds before) (sp_end_line s) (sp_end_column s) = Inr b"
  by (auto simp: resolves_to_def resolve_span_def and_then_eq_Inr)

lemma resolves_le:
  assumes "span_wf s" "resolves_to before s (a, b)"
  shows "a \<le> b \<and> b \<le> length before"
proof -
  have "\<not> pos_less (span_end s) (span_start s)" using assms(1) by (auto simp: span_wf_def pos_less_def)
  then show ?thesis
    using assms span_offset_mono span_offset_within
    unfolding resolves_to_iff span_wf_def span_start_def span_end_def by blast
qed

lemma resolved_ordered:
  assumes "list_all span_wf spans" "check_disjoint spans = Ok ()" "list_all2 (resolves_to before) spans rs"
    and "pos \<le> length before" "rs \<noteq> [] \<Longrightarrow> pos \<le> fst (hd rs)"
  shows "ordered_ranges pos (length before) rs"
  using assms
proof (induction spans arbitrary: pos rs)
  case (Cons s spans)
  from Cons.prems(3) obtain a b rs' where rs: "rs = (a, b) # rs'" "resolves_to before s (a, b)"
    "list_all2 (resolves_to before) spans rs'" by (auto simp: list_all2_Cons1)
  have ab: "a \<le> b" "b \<le> length before" using Cons.prems(1) rs(2) resolves_le [of s before a b] by auto
  have next': "b \<le> fst (hd rs')" if ne: "rs' \<noteq> []"
  proof -
    obtain t ts where t: "spans = t # ts" using ne rs(3) by (cases spans) (auto dest: list_all2_lengthD)
    obtain c d where cd: "hd rs' = (c, d)" "resolves_to before t (c, d)"
      using rs(3) ne by (cases rs') (auto simp: t)
    have "\<not> pos_less (span_start t) (span_end s)"
      using Cons.prems(2) t by (auto simp: and_then_eq_Inr)
    then show ?thesis
      using span_offset_mono Cons.prems(1) rs(2) cd t
      by (auto simp: resolves_to_iff span_wf_def span_start_def span_end_def)
  qed
  have "check_disjoint spans = Ok ()" using Cons.prems(2) by (cases spans) (auto simp: and_then_eq_Inr)
  then have "ordered_ranges b (length before) rs'"
    using Cons.IH Cons.prems(1) rs(3) ab(2) next' by auto
  then show ?case using Cons.prems(5) rs ab by simp
qed simp

text \<open>A span of one line never covers a line feed.\<close>

lemma set_slice_mono: "\<lbrakk>a \<le> c; d \<le> b\<rbrakk> \<Longrightarrow> set (slice c d xs) \<subseteq> set (slice a b xs)"
proof -
  assume ab: "a \<le> c" "d \<le> b"
  have "slice c d xs = drop (c - a) (take (d - a) (drop a xs))"
    using ab by (simp add: slice_def drop_take)
  also have "take (d - a) (drop a xs) = take (d - a) (slice a b xs)"
    using ab by (simp add: slice_def min_def)
  finally show ?thesis by (metis set_drop_subset set_take_subset subset_trans)
qed

lemma one_line_content:
  assumes "resolves_to before s (a, b)" "sp_start_line s = sp_end_line s" "span_wf s"
  shows "0x0A \<notin> set (slice a b before)"
proof -
  let ?l = "line_bounds before ! (sp_end_line s - 1)"
  have "sp_end_line s - 1 < length (line_bounds before)" "b \<le> snd ?l"
    "a = fst ?l + sp_start_column s - 1" "1 \<le> sp_start_column s"
    using assms by (simp_all add: resolves_to_iff span_offset_eq span_wf_def)
  then have in_line: "?l \<in> set (line_bounds before)" and "fst ?l \<le> a" "b \<le> snd ?l" by simp_all
  then show ?thesis
    using line_bounds_content [of "fst ?l" "snd ?l" before] set_slice_mono [of "fst ?l" a b "snd ?l" before] by auto
qed

section \<open>The loop over the spans\<close>

definition span_range :: "u8 list \<Rightarrow> span_edit \<Rightarrow> nat \<times> nat" where
  "span_range before s = (case resolve_span (line_bounds before) s of Inl _ \<Rightarrow> (0, 0) | Inr r \<Rightarrow> r)"

definition span_ok :: "u8 list \<Rightarrow> span_edit \<Rightarrow> bool" where
  "span_ok before s = (case resolve_span (line_bounds before) s of
     Inl _ \<Rightarrow> False | Inr (a, b) \<Rightarrow> sha256_hex (slice a b before) = sp_expected_sha256 s)"

definition edited :: "u8 list \<Rightarrow> span_edit list \<Rightarrow> u8 list" where
  "edited before spans = pieced 0 before (map (span_range before) spans) (replacements spans)"

lemma span_ok_resolves: "span_ok before s \<Longrightarrow> resolves_to before s (span_range before s)"
  by (auto simp: span_ok_def span_range_def resolves_to_def split: sum.splits)

lemma check_spans:
  "fold (check_span env before) spans (rows, res, ref) = (rows', res', ref') \<Longrightarrow>
   (ref' = None \<longleftrightarrow> ref = None \<and> list_all (span_ok before) spans) \<and>
   (ref' = None \<longrightarrow> res' = res @ map (span_range before) spans)"
proof (induction spans arbitrary: rows res ref)
  case (Cons s spans)
  obtain rows1 res1 ref1 where step: "check_span env before s (rows, res, ref) = (rows1, res1, ref1)"
    by (cases "check_span env before s (rows, res, ref)") auto
  have "(ref1 = None \<longleftrightarrow> ref = None \<and> span_ok before s) \<and> (ref1 = None \<longrightarrow> res1 = res @ [span_range before s])"
    using step by (auto simp: check_span_def span_ok_def span_range_def slice_def Let_def
        split: sum.splits option.splits if_splits)
  then show ?case using Cons.IH [of rows1 res1 ref1] Cons.prems step by auto
qed auto

lemma ok_ranges:
  assumes "list_all (span_ok before) spans"
  shows "list_all2 (resolves_to before) spans (map (span_range before) spans)"
  using assms by (induction spans) (auto simp: span_ok_resolves)

lemma accepted_ordered:
  assumes "parse_spans v = Inr spans" "list_all (span_ok before) spans"
  shows "ordered_ranges 0 (length before) (map (span_range before) spans)"
  using parse_spans_eq_Inr [OF assms(1)] ok_ranges [OF assms(2)] by (auto intro: resolved_ordered)

lemma accepted_rewrite:
  assumes "parse_spans v = Inr spans" "list_all (span_ok before) spans"
  shows "rewrite before spans (map (span_range before) spans) = edited before spans"
  using rewrite_pieced [OF accepted_ordered [OF assms]] by (simp add: edited_def)

end
