(* ===== verification/Span_Edit.thy ===== *)
theory Span_Edit
  imports Span_Props
begin

text \<open>
  The whole span-addressed edit: what it leaves in the repository on every path through it, for any
  file system with the documented behaviour of writing, renaming and publishing.
\<close>

section \<open>The file system\<close>

text \<open>\<open>look q st\<close> is the content of the file \<open>q\<close>; \<open>out q\<close> tells the paths of the output directory.  A
  rename is atomic: where it fails the target keeps its content.\<close>

definition file_laws :: "(string \<Rightarrow> 'f \<Rightarrow> u8 list option) \<Rightarrow> (string \<Rightarrow> bool) \<Rightarrow> ('f, 'l) edit_env \<Rightarrow> bool" where
  "file_laws look out env \<longleftrightarrow>
     (\<forall>p b st st'. ee_write env p b st = (Inr (), st') \<longrightarrow> look p st' = Some b) \<and>
     (\<forall>p b st q. q \<noteq> p \<longrightarrow> look q (snd (ee_write env p b st)) = look q st) \<and>
     (\<forall>p st q. q \<noteq> p \<longrightarrow> look q (ee_remove_file env p st) = look q st) \<and>
     (\<forall>p p' st q. look q (ee_copy_permissions env p p' st) = look q st) \<and>
     (\<forall>p q st st'. ee_rename env p q st = (Inr (), st') \<longrightarrow> look q st' = look p st) \<and>
     (\<forall>p q st st' e. ee_rename env p q st = (Inl e, st') \<longrightarrow> look q st' = look q st) \<and>
     (\<forall>p q st r. r \<noteq> p \<longrightarrow> r \<noteq> q \<longrightarrow> look r (snd (ee_rename env p q st)) = look r st) \<and>
     (\<forall>n b st q. \<not> out q \<longrightarrow> look q (snd (ee_publish_named env n b st)) = look q st)"

lemma file_lawsD:
  assumes "file_laws look out env"
  shows "ee_write env p b st = (Inr (), st') \<Longrightarrow> look p st' = Some b"
    and "q \<noteq> p \<Longrightarrow> ee_write env p b st = (r, st') \<Longrightarrow> look q st' = look q st"
    and "q \<noteq> p \<Longrightarrow> look q (ee_remove_file env p st) = look q st"
    and "look q (ee_copy_permissions env p p' st) = look q st"
    and "ee_rename env p q st = (Inr (), st') \<Longrightarrow> look q st' = look p st"
    and "ee_rename env p q st = (Inl e, st') \<Longrightarrow> look q st' = look q st"
    and "q \<noteq> p \<Longrightarrow> q \<noteq> p' \<Longrightarrow> ee_rename env p p' st = (r, st') \<Longrightarrow> look q st' = look q st"
    and "\<not> out q \<Longrightarrow> ee_publish_named env n b st = (r', st') \<Longrightarrow> look q st' = look q st"
proof -
  note L = assms [unfolded file_laws_def]
  note L2 = L [THEN conjunct2]
  note L3 = L2 [THEN conjunct2]
  note L4 = L3 [THEN conjunct2]
  note L5 = L4 [THEN conjunct2]
  note L6 = L5 [THEN conjunct2]
  note L7 = L6 [THEN conjunct2]
  show "ee_write env p b st = (Inr (), st') \<Longrightarrow> look p st' = Some b" using L [THEN conjunct1] by blast
  show "q \<noteq> p \<Longrightarrow> ee_write env p b st = (r, st') \<Longrightarrow> look q st' = look q st"
    using L2 [THEN conjunct1] by (metis snd_conv)
  show "q \<noteq> p \<Longrightarrow> look q (ee_remove_file env p st) = look q st" using L3 [THEN conjunct1] by blast
  show "look q (ee_copy_permissions env p p' st) = look q st" using L4 [THEN conjunct1] by blast
  show "ee_rename env p q st = (Inr (), st') \<Longrightarrow> look q st' = look p st" using L5 [THEN conjunct1] by blast
  show "ee_rename env p q st = (Inl e, st') \<Longrightarrow> look q st' = look q st" using L6 [THEN conjunct1] by blast
  show "q \<noteq> p \<Longrightarrow> q \<noteq> p' \<Longrightarrow> ee_rename env p p' st = (r, st') \<Longrightarrow> look q st' = look q st"
    using L7 [THEN conjunct1] by (metis snd_conv)
  show "\<not> out q \<Longrightarrow> ee_publish_named env n b st = (r', st') \<Longrightarrow> look q st' = look q st"
    using L7 [THEN conjunct2] by (metis snd_conv)
qed

lemma tmp_name_other [simp]: "tmp_name t \<noteq> t" "t \<noteq> tmp_name t"
  by (simp_all add: tmp_name_def)

text \<open>The atomic replacement puts the new content in place or leaves the target as it was.\<close>

lemma atomic_replace_effect:
  assumes laws: "file_laws look out env" and run: "atomic_replace env target bytes st = (r, st')"
  shows "look target st' = (if is_ok r then Some bytes else look target st) \<and>
    (\<forall>q. q \<notin> {target, tmp_name target} \<longrightarrow> look q st' = look q st)"
proof (cases "path_file_name (components target) = None")
  case True
  then show ?thesis using run by (auto simp: atomic_replace_def)
next
  case False
  let ?tmp = "tmp_name target"
  obtain w st1 where w: "ee_write env ?tmp bytes st = (w, st1)" by force
  have keep1: "look q st1 = look q st" if "q \<noteq> ?tmp" for q
    using file_lawsD(2) [OF laws that w] .
  show ?thesis
  proof (cases w)
    case (Inl e)
    then show ?thesis
      using run False w keep1 file_lawsD(3) [OF laws] by (auto simp: atomic_replace_def Let_def)
  next
    case (Inr u)
    let ?st1 = "ee_copy_permissions env target ?tmp st1"
    obtain n st2 where n: "ee_rename env ?tmp target ?st1 = (n, st2)" by force
    have tmp: "look ?tmp ?st1 = Some bytes"
      using file_lawsD(1) [OF laws] w Inr file_lawsD(4) [OF laws] by simp
    have keep2: "look q st2 = look q st" if "q \<notin> {target, ?tmp}" for q
      using file_lawsD(7) [OF laws _ _ n] file_lawsD(4) [OF laws] keep1 that by simp
    show ?thesis
    proof (cases n)
      case (Inl e)
      have "look target st2 = look target st"
        using file_lawsD(6) [OF laws, of ?tmp target ?st1] n Inl file_lawsD(4) [OF laws] keep1 by simp
      then show ?thesis
        using run False w Inr n Inl keep2 file_lawsD(3) [OF laws] by (auto simp: atomic_replace_def Let_def)
    next
      case (Inr v)
      have "look target st2 = Some bytes"
        using file_lawsD(5) [OF laws, of ?tmp target ?st1] n Inr tmp by simp
      then show ?thesis
        using run False w \<open>w = Inr u\<close> n Inr keep2 by (auto simp: atomic_replace_def Let_def)
    qed
  qed
qed

lemma publish_edit_effect:
  assumes "file_laws look out env" "publish_edit env artifact mutated diagnostic st = (r, st')"
  shows "(\<not> out q \<longrightarrow> look q st' = look q st) \<and>
    (\<forall>output. r = Inr output \<longrightarrow>
       (''repo_mutation'' \<in> set (ao_effects output) \<longleftrightarrow> mutated) \<and>
       ao_verdict output = (if diagnostic = None then VPass else VFail))"
  using assms(2) file_lawsD(8) [OF assms(1)]
  by (auto simp: publish_edit_def and_then_eq_Inr Let_def split: sum.splits prod.splits)

section \<open>The edit\<close>

lemma edit_options_spans:
  "edit_options env st request has_inputs = Inr (repo, relative, spans, target) \<Longrightarrow>
   \<exists>v. parse_spans v = Inr spans"
  unfolding edit_options_def and_then_eq_Inr ensure_eq_Inr ok_or_eq_Inr by (elim exE conjE) auto

text \<open>One run on a file whose content has been read: nothing is written unless every span matches.\<close>

lemma edit_file_refused:
  assumes laws: "file_laws look out env" and bad: "\<not> list_all (span_ok before) spans"
    and run: "edit_file env request repo relative target spans lease before st = (r, st')"
  shows "(\<not> out q \<longrightarrow> look q st' = look q st) \<and> (\<forall>output. r = Inr output \<longrightarrow>
    ''repo_mutation'' \<notin> set (ao_effects output) \<and> ao_verdict output = VFail)"
proof -
  obtain rows res ref where loop: "fold (check_span env before) spans ([], [], None) = (rows, res, ref)"
    by (cases "fold (check_span env before) spans ([], [], None)") auto
  then obtain d where ref: "ref = Some d" using check_spans [OF loop] bad by auto
  show ?thesis
    using run publish_edit_effect [OF laws, where r = r and st' = st' and diagnostic = "Some d" and mutated = False]
    by (auto simp: edit_file_def loop ref split: sum.splits)
qed

lemma edit_file_written:
  assumes laws: "file_laws look out env" and all_ok: "list_all (span_ok before) spans"
    and spans: "parse_spans v = Inr spans" and "\<not> out target"
    and run: "edit_file env request repo relative target spans lease before st = (r, st')"
  shows "look target st' = look target st \<or> look target st' = Some (edited before spans)"
    and "r = Inr output \<Longrightarrow> look target st' = Some (edited before spans) \<and>
      ''repo_mutation'' \<in> set (ao_effects output) \<and> ao_verdict output = VPass"
    and "\<lbrakk>\<not> out q; q \<notin> {target, tmp_name target}\<rbrakk> \<Longrightarrow> look q st' = look q st"
proof -
  obtain rows res ref where loop: "fold (check_span env before) spans ([], [], None) = (rows, res, ref)"
    by (cases "fold (check_span env before) spans ([], [], None)") auto
  then have ref: "ref = None" and res: "res = map (span_range before) spans"
    using check_spans [OF loop] all_ok by auto
  have after: "rewrite before spans res = edited before spans"
    using accepted_rewrite [OF spans all_ok] res by simp
  obtain w st1 where w: "atomic_replace env target (edited before spans) st = (w, st1)" by force
  note eff = atomic_replace_effect [OF laws w]
  let ?doc = "edit_artifact request relative None rows before (Some (edited before spans))"
  obtain p st2 where p: "publish_edit env ?doc True None st1 = (p, st2)" by force
  note pub = publish_edit_effect [OF laws p]
  have cases': "\<not> is_ok w \<and> \<not> is_ok r \<and> st' = st1 \<or> is_ok w \<and> st' = st2 \<and> (\<forall>output. r = Inr output \<longrightarrow> p = Inr output)"
    using run w p by (cases w) (auto simp: edit_file_def loop ref after Let_def map_err_def split: sum.splits)
  show "look target st' = look target st \<or> look target st' = Some (edited before spans)"
    using cases' eff pub \<open>\<not> out target\<close> by auto
  show "look target st' = Some (edited before spans) \<and>
      ''repo_mutation'' \<in> set (ao_effects output) \<and> ao_verdict output = VPass" if "r = Inr output"
    using cases' eff pub \<open>\<not> out target\<close> that by auto
  show "look q st' = look q st" if "\<not> out q" "q \<notin> {target, tmp_name target}"
    using cases' eff pub that by auto
qed

section \<open>A concrete edit\<close>

text \<open>A file system of functions, with one file; its digest of the byte \<open>a\<close> is the one a caller sends.\<close>

type_synonym files = "string \<Rightarrow> u8 list option"

definition sample_env :: "(files, unit) edit_env" where
  "sample_env = \<lparr>
     ee_is_dir = (\<lambda>_ _. True),
     ee_canonicalize = (\<lambda>p _. Inr p),
     ee_symlink_metadata = (\<lambda>_ _. Inr (False, True)),
     ee_begin_consumption = (\<lambda>_ _ _. Inr ()),
     ee_verify_after = (\<lambda>_ _ _. Inr ()),
     ee_read = (\<lambda>p st. case st p of Some b \<Rightarrow> Inr b | None \<Rightarrow> Inl ''not found''),
     ee_write = (\<lambda>p b st. (Inr (), st(p := Some b))),
     ee_remove_file = (\<lambda>p st. st(p := None)),
     ee_copy_permissions = (\<lambda>_ _ st. st),
     ee_rename = (\<lambda>p q st. (Inr (), st(p := None, q := st p))),
     ee_publish_named = (\<lambda>n b st. (Inr (), st(''/out/'' @ n := Some b))),
     ee_to_vec = (\<lambda>_. Inr []),
     ee_from_utf8 = (\<lambda>_. None),
     ee_debug_text = (\<lambda>t. t)\<rparr>"

definition sample_digest :: string where
  "sample_digest = sha256_hex (str_bytes ''a'')"

definition sample_span :: json where
  "sample_span = JObj [(''endColumn'', ju64 2), (''endLine'', ju64 1), (''expectedSha256'', JStr sample_digest),
     (''replacement'', JStr ''xy''), (''startColumn'', ju64 1), (''startLine'', ju64 1)]"

definition sample_options_object :: "(string \<times> json) list" where
  "sample_options_object = [(''path'', JStr ''a''), (''repoPath'', JStr ''/r''), (''spans'', JArr [sample_span])]"

definition sample_request :: json where
  "sample_request = JObj [(''effectPolicy'', JObj [(''allowedEffects'', JArr [JStr ''repo_mutation''])]),
     (''options'', JObj sample_options_object),
     (''snapshot'', JObj [(''scope'', JArr [JStr ''.''])])]"

definition sample_files :: files where
  "sample_files = (\<lambda>p. if p = ''/r/a'' then Some (str_bytes ''ab'') else None)"

definition sample_spans :: "span_edit list" where
  "sample_spans = [\<lparr>sp_start_line = 1, sp_start_column = 1, sp_end_line = 1, sp_end_column = 2,
     sp_expected_sha256 = sample_digest, sp_replacement = ''xy''\<rparr>]"

lemma sample_laws: "file_laws (\<lambda>p st. st p) (\<lambda>p. starts_with p ''/out/'') sample_env"
  by (auto simp: file_laws_def sample_env_def starts_with_def)

lemma sample_digest_ok: "is_digest sample_digest"
  by (simp add: sample_digest_def sha256_hex_digest)

lemma sample_parse_span: "parse_span sample_span = Inr (hd sample_spans)"
  by (simp add: parse_span_def sample_span_def sample_spans_def sample_digest_ok position_def span_keys_def
      pos_less_def span_start_def span_end_def)

lemma sample_parse: "parse_spans (Some (JArr [sample_span])) = Inr sample_spans"
  using sample_parse_span
  by (simp add: parse_spans_def MAX_SPANS_def MAX_REPLACEMENT_BYTES_def sort_spans_def sample_spans_def)

lemma sample_paths:
  "normalize_relative ''a'' True = Inr ''a''" "normalize_relative ''.'' False = Inr ''.''"
  "components ''/r/a'' = [''/'', ''r'', ''a'']" "components ''/r'' = [''/'', ''r'']"
  by code_simp+

lemma sample_options:
  "edit_options sample_env sample_files sample_request False = Inr (''/r'', ''a'', sample_spans, ''/r/a'')"
  by (simp add: edit_options_def sample_request_def sample_options_object_def jidx_def sample_env_def
      sample_paths sample_parse bt_keys_def resolve_target_def within_scope_def path_strip_prefix_def)

lemma sample_resolve: "resolve_span (line_bounds (str_bytes ''ab'')) (hd sample_spans) = Inr (0, 1)"
proof -
  have "line_bounds (str_bytes ''ab'') = [(0, 2)]" by code_simp
  then show ?thesis by (simp add: resolve_span_def span_offset_def sample_spans_def)
qed

lemma sample_ok: "list_all (span_ok (str_bytes ''ab'')) sample_spans"
  using sample_resolve by (simp add: span_ok_def sample_spans_def sample_digest_def slice_def str_bytes_def)

lemma sample_edited: "edited (str_bytes ''ab'') sample_spans = str_bytes ''xyb''"
  using sample_resolve
  by (simp add: edited_def span_range_def sample_spans_def replacements_def slice_def str_bytes_def)

section \<open>Properties\<close>

text \<open>C25: replacing the spans from the back to the front refines the specification that walks the
  file once from the front: for every list of spans that is parsed and whose digests match, the
  ranges lie in order inside the file and do not overlap, the result is what lies between them with
  the replacements in their places, and a span of one line covers no line feed.\<close>

theorem rewrite_refines:
  assumes "parse_spans v = Inr spans" "list_all (span_ok before) spans"
  shows "ordered_ranges 0 (length before) (map (span_range before) spans) \<and>
    rewrite before spans (map (span_range before) spans) =
      pieced 0 before (map (span_range before) spans) (replacements spans) \<and>
    list_all (\<lambda>s. sp_start_line s = sp_end_line s \<longrightarrow>
      0x0A \<notin> set (slice (fst (span_range before s)) (snd (span_range before s)) before)) spans"
proof -
  have "0x0A \<notin> set (slice (fst (span_range before s)) (snd (span_range before s)) before)"
    if "s \<in> set spans" "sp_start_line s = sp_end_line s" for s
    using one_line_content [of before s] span_ok_resolves [of before s] parse_spans_eq_Inr [OF assms(1)]
      assms(2) that by (force simp: list_all_iff)
  then show ?thesis
    using accepted_ordered [OF assms] accepted_rewrite [OF assms] by (simp add: edited_def list_all_iff)
qed

theorem rewrite_refines_witness:
  "ordered_ranges 0 2 (map (span_range (str_bytes ''ab'')) sample_spans) \<and>
   rewrite (str_bytes ''ab'') sample_spans [(0, 1)] = str_bytes ''xyb''"
proof -
  have "length (str_bytes ''ab'') = 2" "map (span_range (str_bytes ''ab'')) sample_spans = [(0, 1)]"
    using sample_resolve by (simp_all add: str_bytes_def span_range_def sample_spans_def)
  then show ?thesis
    using rewrite_refines [OF sample_parse sample_ok] sample_edited by (simp add: edited_def)
qed



end
