(* ===== verification/Json_Shape.thy ===== *)
theory Json_Shape
  imports Json_Value
begin

text \<open>
  Helpers for readers and writers of JSON documents: collecting the results of a fallible function
  over an array, arrays of strings, and the values the library can produce, whose objects are ordered
  maps on every level.
\<close>

section \<open>Collecting into a result\<close>

fun try_map :: "('a \<Rightarrow> 'e + 'b) \<Rightarrow> 'a list \<Rightarrow> 'e + 'b list" where
  "try_map f [] = Inr []"
| "try_map f (x # xs) = and_then (f x) (\<lambda>y. and_then (try_map f xs) (\<lambda>ys. Inr (y # ys)))"

lemma try_map_eq_Inr [result_simps]: "try_map f xs = Inr ys \<longleftrightarrow> list_all2 (\<lambda>x y. f x = Inr y) xs ys"
  by (induction xs arbitrary: ys) (auto simp: and_then_eq_Inr list_all2_Cons1)

lemma try_map_Ok: "\<forall>x \<in> set xs. f x = Inr (g x) \<Longrightarrow> try_map f xs = Inr (map g xs)"
  by (induction xs) auto

section \<open>Arrays of strings\<close>

definition jstrs :: "string list \<Rightarrow> json" where
  "jstrs xs = JArr (map JStr xs)"

lemma as_array_jstrs [simp]: "as_array (jstrs xs) = Some (map JStr xs)"
  by (simp add: jstrs_def)

lemma strings_of_array: "list_all2 (\<lambda>v s. as_str v = Some s) vs ss \<longleftrightarrow> vs = map JStr ss"
  by (induction vs arbitrary: ss) (auto simp: list_all2_Cons1 as_str_eq Cons_eq_map_conv)

text \<open>\<open>value.get(key).and_then(Value::as_str)\<close>.\<close>

definition get_str :: "json \<Rightarrow> string \<Rightarrow> string option" where
  "get_str value key = (case jget value key of None \<Rightarrow> None | Some v \<Rightarrow> as_str v)"

lemma get_str_eq: "get_str v k = Some s \<longleftrightarrow> jget v k = Some (JStr s)"
  by (auto simp: get_str_def as_str_eq split: option.splits)

section \<open>Well-formed values\<close>

fun json_wf :: "json \<Rightarrow> bool" where
  "json_wf (JArr vs) = list_all json_wf vs"
| "json_wf (JObj o') = (bt_wf o' \<and> list_all (\<lambda>e. json_wf (snd e)) o')"
| "json_wf _ = True"

lemma json_wf_get: "\<lbrakk>json_wf v; jget v k = Some x\<rbrakk> \<Longrightarrow> json_wf x"
  by (cases v) (auto simp: list_all_iff dest!: map_of_SomeD)

text \<open>A well-formed object is determined by its lookup.\<close>

lemma jobj_eqI:
  assumes "json_wf (JObj o')" "distinct (map fst es)" "bt_get o' = map_of es"
  shows "JObj o' = jobj es"
  using assms by (auto simp: jobj_def bt_get_of_list intro!: bt_ext)

lemma map_of_eq_keys:
  assumes "fst ` set o' = fst ` set es" "\<And>k. k \<in> fst ` set es \<Longrightarrow> map_of o' k = map_of es k"
  shows "map_of o' = map_of es"
proof
  fix k
  show "map_of o' k = map_of es k"
  proof (cases "k \<in> fst ` set es")
    case False
    then show ?thesis using assms(1) by (metis map_of_eq_None_iff)
  qed (rule assms(2))
qed

lemma set_keys_of_list: "fst ` set (bt_of_list es) = fst ` set es"
  using bt.dom_ins_all [of es "[]"]
  by (simp add: bt_of_list_def bt.ins_all_def dom_map_of_conv_image_fst)

text \<open>Object literals of the \<open>json!\<close> macro.\<close>

lemma literal_object: "as_object (jobj es) = Some (bt_of_list es)"
  by (simp add: jobj_def)

lemma literal_keys: "set (bt_keys (bt_of_list es)) = fst ` set es"
  by (simp add: bt_keys_def set_keys_of_list)

end
