(* ===== verification/Evidence_Outcome.thy ===== *)
theory Evidence_Outcome
  imports Json_Shape
begin

text \<open>
  Completeness claims for evidence (crates/code-intel-cli/src/evidence\_outcome.rs): the three
  outcomes, their JSON form and the reader that refuses a claim without its scope.  An error is kept
  as a value; the list of wrong fields is not rendered to text.
\<close>

datatype partial_reason = Truncated string | CapHit string | UnreadableInput "string list"

record evidence_scope =
  es_artifact_types :: "string list"
  es_scanned_paths :: "string list"
  es_excluded_prefixes :: "string list"

datatype evidence_outcome =
    Complete evidence_scope
  | Partial partial_reason evidence_scope
  | NotComputed string

datatype outcome_error = OMessage string | OWrongFields string "string list" "string list"

fun is_complete :: "evidence_outcome \<Rightarrow> bool" where
  "is_complete (Complete _) = True"
| "is_complete _ = False"

fun reason_describe :: "partial_reason \<Rightarrow> string" where
  "reason_describe (Truncated detail) = ''truncated: '' @ detail"
| "reason_describe (CapHit detail) = ''cap hit: '' @ detail"
| "reason_describe (UnreadableInput paths) = ''unreadable input: '' @ join '', '' paths"

fun outcome_describe :: "evidence_outcome \<Rightarrow> string" where
  "outcome_describe (Complete scope) =
     ''complete ('' @ show_nat (length (es_scanned_paths scope)) @ '' path(s) scanned)''"
| "outcome_describe (Partial reason scope) =
     ''partial ('' @ reason_describe reason @ ''; '' @ show_nat (length (es_scanned_paths scope)) @ '' path(s) scanned)''"
| "outcome_describe (NotComputed reason) = ''not-computed ('' @ reason @ '')''"

section \<open>To JSON\<close>

definition scope_to_json :: "evidence_scope \<Rightarrow> json" where
  "scope_to_json s = jobj [(''artifactTypes'', jstrs (es_artifact_types s)),
     (''scannedPaths'', jstrs (es_scanned_paths s)), (''excludedPrefixes'', jstrs (es_excluded_prefixes s))]"

fun reason_entries :: "partial_reason \<Rightarrow> (string \<times> json) list" where
  "reason_entries (Truncated detail) = [(''partialReason'', JStr ''truncated''), (''detail'', JStr detail)]"
| "reason_entries (CapHit detail) = [(''partialReason'', JStr ''cap_hit''), (''detail'', JStr detail)]"
| "reason_entries (UnreadableInput paths) = [(''partialReason'', JStr ''unreadable_input''), (''paths'', jstrs paths)]"

definition reason_fields :: "partial_reason \<Rightarrow> (string \<times> json) list" where
  "reason_fields r = bt_of_list (reason_entries r)"

fun outcome_to_json :: "evidence_outcome \<Rightarrow> json" where
  "outcome_to_json (Complete scope) = jobj [(''status'', JStr ''complete''), (''scope'', scope_to_json scope)]"
| "outcome_to_json (Partial reason scope) =
     JObj (bt_insert ''scope'' (scope_to_json scope) (bt_insert ''status'' (JStr ''partial'') (reason_fields reason)))"
| "outcome_to_json (NotComputed reason) = jobj [(''status'', JStr ''not-computed''), (''reason'', JStr reason)]"

section \<open>From JSON\<close>

definition outcome_keys :: "json \<Rightarrow> string list \<Rightarrow> string \<Rightarrow> outcome_error + unit" where
  "outcome_keys value keys context =
     and_then (ok_or (as_object value) (OMessage (context @ '' must be an object''))) (\<lambda>object.
     let actual = sort (remdups (bt_keys object)); expected = sort (remdups keys) in
     if set actual = set expected then Ok ()
     else Err (OWrongFields context (filter (\<lambda>k. k \<notin> set expected) actual) (filter (\<lambda>k. k \<notin> set actual) expected)))"

definition require_object :: "json \<Rightarrow> string \<Rightarrow> outcome_error + json" where
  "require_object value key =
     and_then (ok_or (jget value key) (OMessage (''\"'' @ key @ ''\" is required''))) (\<lambda>found.
     if as_object found \<noteq> None then Ok found else Err (OMessage (''\"'' @ key @ ''\" must be an object'')))"

definition required_string :: "json \<Rightarrow> string \<Rightarrow> outcome_error + string" where
  "required_string value key =
     ok_or (get_str value key) (OMessage (''\"'' @ key @ ''\" must be a string''))"

definition required_string_array :: "json \<Rightarrow> string \<Rightarrow> outcome_error + string list" where
  "required_string_array value key =
     and_then (ok_or (jget value key) (OMessage (''scope missing required field \"'' @ key @ ''\"''))) (\<lambda>v.
     and_then (ok_or (as_array v) (OMessage (''scope field \"'' @ key @ ''\" must be an array''))) (\<lambda>items.
     try_map (\<lambda>item. ok_or (as_str item)
       (OMessage (''scope field \"'' @ key @ ''\" must contain only strings''))) items))"

definition scope_from_json :: "json \<Rightarrow> outcome_error + evidence_scope" where
  "scope_from_json value =
     and_then (outcome_keys value [''artifactTypes'', ''scannedPaths'', ''excludedPrefixes''] ''an evidence scope'') (\<lambda>_.
     and_then (required_string_array value ''artifactTypes'') (\<lambda>types.
     and_then (required_string_array value ''scannedPaths'') (\<lambda>paths.
     and_then (required_string_array value ''excludedPrefixes'') (\<lambda>excluded.
     Ok \<lparr>es_artifact_types = types, es_scanned_paths = paths, es_excluded_prefixes = excluded\<rparr>))))"

definition reason_from_json :: "json \<Rightarrow> outcome_error + partial_reason" where
  "reason_from_json value =
     and_then (ok_or (get_str value ''partialReason'') (OMessage ''\"partial\" requires a \"partialReason\"'')) (\<lambda>reason.
     if reason = ''truncated'' then and_then (required_string value ''detail'') (\<lambda>d. Ok (Truncated d))
     else if reason = ''cap_hit'' then and_then (required_string value ''detail'') (\<lambda>d. Ok (CapHit d))
     else if reason = ''unreadable_input'' then and_then (required_string_array value ''paths'') (\<lambda>ps. Ok (UnreadableInput ps))
     else Err (OMessage (''unknown partial reason: '' @ reason)))"

definition outcome_from_json :: "json \<Rightarrow> outcome_error + evidence_outcome" where
  "outcome_from_json value =
     and_then (ok_or (get_str value ''status'') (OMessage ''evidence outcome missing \"status\"'')) (\<lambda>status.
     if status = ''complete'' then
       and_then (outcome_keys value [''status'', ''scope''] ''a \"complete\" evidence outcome'') (\<lambda>_.
       and_then (require_object value ''scope'') (\<lambda>scope.
       and_then (scope_from_json scope) (\<lambda>s. Ok (Complete s))))
     else if status = ''partial'' then
       and_then (reason_from_json value) (\<lambda>reason.
       and_then (outcome_keys value ([''status'', ''scope''] @ bt_keys (reason_fields reason)) ''a \"partial\" evidence outcome'') (\<lambda>_.
       and_then (require_object value ''scope'') (\<lambda>scope.
       and_then (scope_from_json scope) (\<lambda>s. Ok (Partial reason s)))))
     else if status = ''not-computed'' then
       and_then (outcome_keys value [''status'', ''reason''] ''a \"not-computed\" evidence outcome'') (\<lambda>_.
       and_then (ok_or (get_str value ''reason'') (OMessage ''\"not-computed\" requires a \"reason\"'')) (\<lambda>reason.
       Ok (NotComputed reason)))
     else Err (OMessage (''unknown evidence outcome status: '' @ status)))"

section \<open>What is read is what was written\<close>

lemma outcome_keys_Ok:
  "outcome_keys value keys context = Inr u \<longleftrightarrow> (\<exists>o'. value = JObj o' \<and> fst ` set o' = set keys)"
  by (auto simp: outcome_keys_def and_then_eq_Inr as_object_eq Let_def bt_keys_def)

lemma required_string_Ok: "required_string v k = Inr s \<longleftrightarrow> jget v k = Some (JStr s)"
  by (simp add: required_string_def get_str_eq)

lemma required_string_array_Ok: "required_string_array v k = Inr ss \<longleftrightarrow> jget v k = Some (jstrs ss)"
  by (auto simp: required_string_array_def and_then_eq_Inr try_map_eq_Inr as_array_eq strings_of_array jstrs_def)

lemma require_object_Ok: "require_object v k = Inr x \<longleftrightarrow> jget v k = Some x \<and> (\<exists>o'. x = JObj o')"
  by (auto simp: require_object_def and_then_eq_Inr as_object_eq split: if_splits)

text \<open>An object with the keys and the values of a literal is that literal.\<close>

lemma obj_is_literal:
  assumes "json_wf (JObj o')" "fst ` set o' = fst ` set es" "distinct (map fst es)"
    and "list_all (\<lambda>(k, v). bt_get o' k = Some v) es"
  shows "JObj o' = jobj es"
proof -
  have "map_of o' k = map_of es k" if k: "k \<in> fst ` set es" for k
  proof -
    from k obtain v where v: "(k, v) \<in> set es" by force
    then have "map_of o' k = Some v" using assms(4) by (auto simp: list_all_iff)
    then show ?thesis using v assms(3) by simp
  qed
  then show ?thesis
    using assms by (intro jobj_eqI map_of_eq_keys)
qed

lemma scope_read:
  "scope_from_json v = Inr s \<longleftrightarrow> (\<exists>o'. v = JObj o' \<and>
     fst ` set o' = set [''artifactTypes'', ''scannedPaths'', ''excludedPrefixes''] \<and>
     bt_get o' ''artifactTypes'' = Some (jstrs (es_artifact_types s)) \<and>
     bt_get o' ''scannedPaths'' = Some (jstrs (es_scanned_paths s)) \<and>
     bt_get o' ''excludedPrefixes'' = Some (jstrs (es_excluded_prefixes s)))"
  unfolding scope_from_json_def and_then_eq_Inr outcome_keys_Ok required_string_array_Ok
  by (cases s) fastforce

lemma scope_from_json_Ok:
  assumes "json_wf v"
  shows "scope_from_json v = Inr s \<longleftrightarrow> v = scope_to_json s"
proof
  assume "scope_from_json v = Inr s"
  then obtain o' where "v = JObj o'" "fst ` set o' = set [''artifactTypes'', ''scannedPaths'', ''excludedPrefixes'']"
    "bt_get o' ''artifactTypes'' = Some (jstrs (es_artifact_types s))"
    "bt_get o' ''scannedPaths'' = Some (jstrs (es_scanned_paths s))"
    "bt_get o' ''excludedPrefixes'' = Some (jstrs (es_excluded_prefixes s))"
    unfolding scope_read by blast
  then show "v = scope_to_json s"
    using assms unfolding scope_to_json_def by (simp add: obj_is_literal)
next
  assume v: "v = scope_to_json s"
  show "scope_from_json v = Inr s"
    unfolding v scope_read scope_to_json_def jobj_def
    by (simp add: bt_get_of_list set_keys_of_list)
qed

text \<open>Every outcome is written as a literal.\<close>

fun outcome_entries :: "evidence_outcome \<Rightarrow> (string \<times> json) list" where
  "outcome_entries (Complete s) = [(''status'', JStr ''complete''), (''scope'', scope_to_json s)]"
| "outcome_entries (Partial r s) = reason_entries r @ [(''status'', JStr ''partial''), (''scope'', scope_to_json s)]"
| "outcome_entries (NotComputed reason) = [(''status'', JStr ''not-computed''), (''reason'', JStr reason)]"

lemma outcome_to_json_entries: "outcome_to_json oc = jobj (outcome_entries oc)"
  by (cases oc) (simp_all add: jobj_def reason_fields_def bt_of_list_def)

lemma reason_entries_keys:
  "distinct (map fst (reason_entries r))" "''status'' \<notin> fst ` set (reason_entries r)" "''scope'' \<notin> fst ` set (reason_entries r)"
  by (cases r; simp)+

lemma outcome_entries_distinct: "distinct (map fst (outcome_entries oc))"
  using reason_entries_keys by (cases oc) auto

definition entries_in :: "(string \<times> json) list \<Rightarrow> json \<Rightarrow> bool" where
  "entries_in es v \<longleftrightarrow> list_all (\<lambda>(k, x). jget v k = Some x) es"

lemma reason_read: "reason_from_json v = Inr r \<longleftrightarrow> entries_in (reason_entries r) v"
proof (cases "get_str v ''partialReason''")
  case None
  then have "reason_from_json v \<noteq> Inr r" by (simp add: reason_from_json_def)
  moreover have "\<not> entries_in (reason_entries r) v"
    using None by (cases r) (simp_all add: entries_in_def get_str_eq [symmetric])
  ultimately show ?thesis by simp
next
  case (Some reason)
  have read: "reason_from_json v = Inr r \<longleftrightarrow>
      (\<exists>d. r = Truncated d \<and> reason = ''truncated'' \<and> get_str v ''detail'' = Some d) \<or>
      (\<exists>d. r = CapHit d \<and> reason = ''cap_hit'' \<and> get_str v ''detail'' = Some d) \<or>
      (\<exists>ps. r = UnreadableInput ps \<and> reason = ''unreadable_input'' \<and> jget v ''paths'' = Some (jstrs ps))"
  proof -
    consider "reason = ''truncated''" | "reason = ''cap_hit''" | "reason = ''unreadable_input''"
      | "reason \<notin> {''truncated'', ''cap_hit'', ''unreadable_input''}" by blast
    then show ?thesis
      unfolding reason_from_json_def Some ok_or_simps and_then_Inr
      by cases (simp_all add: and_then_eq_Inr required_string_array_Ok required_string_def conj_commute eq_commute [of _ r])
  qed
  show ?thesis
    unfolding read using Some by (cases r) (auto simp: entries_in_def get_str_eq [symmetric])
qed

lemma scope_json_object: "\<exists>o'. scope_to_json s = JObj o'"
  by (simp add: scope_to_json_def jobj_def)

lemma scope_member:
  assumes "json_wf v"
  shows "(\<exists>x. require_object v ''scope'' = Inr x \<and> scope_from_json x = Inr s) \<longleftrightarrow> jget v ''scope'' = Some (scope_to_json s)"
  unfolding require_object_Ok using scope_from_json_Ok json_wf_get [OF assms] scope_json_object by metis

lemma keys_member: "outcome_keys v keys c = Inr u \<longleftrightarrow> (\<exists>o'. v = JObj o' \<and> fst ` set o' = set keys)"
  by (rule outcome_keys_Ok)

lemma reason_keys: "set (bt_keys (reason_fields r)) = fst ` set (reason_entries r)"
  by (simp add: bt_keys_def reason_fields_def set_keys_of_list)

lemma outcome_read:
  assumes "json_wf v"
  shows "outcome_from_json v = Inr oc \<longleftrightarrow>
    (\<exists>o'. v = JObj o' \<and> fst ` set o' = fst ` set (outcome_entries oc)) \<and> entries_in (outcome_entries oc) v"
proof -
  define status where "status = get_str v ''status''"
  have complete: ?thesis if "status = Some ''complete''"
  proof -
    have "outcome_from_json v = Inr oc \<longleftrightarrow> (\<exists>s. oc = Complete s \<and> (\<exists>o'. v = JObj o' \<and> fst ` set o' = set [''status'', ''scope'']) \<and>
        jget v ''scope'' = Some (scope_to_json s))"
      using that scope_member [OF assms]
      by (auto simp: outcome_from_json_def status_def and_then_eq_Inr outcome_keys_Ok)
    then show ?thesis using that
      by (cases oc) (auto simp: status_def get_str_eq entries_in_def)
  qed
  have partial: ?thesis if "status = Some ''partial''"
  proof -
    have "outcome_from_json v = Inr oc \<longleftrightarrow> (\<exists>r s. oc = Partial r s \<and> entries_in (reason_entries r) v \<and>
        (\<exists>o'. v = JObj o' \<and> fst ` set o' = set ([''status'', ''scope''] @ bt_keys (reason_fields r))) \<and>
        jget v ''scope'' = Some (scope_to_json s))"
      using that scope_member [OF assms]
      by (auto simp: outcome_from_json_def status_def and_then_eq_Inr outcome_keys_Ok reason_read)
    then show ?thesis using that
      by (cases oc) (auto simp: status_def get_str_eq entries_in_def reason_keys)
  qed
  have skipped: ?thesis if "status = Some ''not-computed''"
    using that by (cases oc) (auto simp: outcome_from_json_def status_def and_then_eq_Inr outcome_keys_Ok get_str_eq entries_in_def)
  have other: ?thesis if "status \<notin> {Some ''complete'', Some ''partial'', Some ''not-computed''}"
    using that by (cases oc) (auto simp: outcome_from_json_def status_def and_then_eq_Inr get_str_eq entries_in_def split: if_splits)
  show ?thesis using complete partial skipped other by blast
qed

lemma outcome_from_json_Ok:
  assumes "json_wf v"
  shows "outcome_from_json v = Inr oc \<longleftrightarrow> v = outcome_to_json oc"
proof
  assume "outcome_from_json v = Inr oc"
  then obtain o' where "v = JObj o'" "fst ` set o' = fst ` set (outcome_entries oc)"
    "entries_in (outcome_entries oc) (JObj o')" using outcome_read [OF assms] by blast
  then show "v = outcome_to_json oc"
    using assms obj_is_literal [OF _ _ outcome_entries_distinct]
    unfolding outcome_to_json_entries entries_in_def by simp
next
  assume v: "v = outcome_to_json oc"
  have "entries_in (outcome_entries oc) v"
    unfolding v outcome_to_json_entries entries_in_def
    using outcome_entries_distinct by (auto simp: list_all_iff jget_jobj)
  then show "outcome_from_json v = Inr oc"
    unfolding outcome_read [OF assms] unfolding v outcome_to_json_entries jobj_def
    by (simp add: set_keys_of_list)
qed

lemma relabel_refused:
  assumes "json_wf (JObj o')" "outcome_from_json (JObj o') = Inr oc" "\<not> is_complete oc"
  shows "\<not> is_ok (outcome_from_json (JObj (bt_insert ''status'' (JStr ''complete'') o')))"
proof
  let ?v = "JObj (bt_insert ''status'' (JStr ''complete'') o')"
  assume "is_ok (outcome_from_json ?v)"
  then obtain oc' where oc': "outcome_from_json ?v = Inr oc'" by (auto simp: is_ok_iff)
  have sub: "set (bt_insert k x m) \<subseteq> insert (k, x) (set m)" for k and x :: json and m :: "(string \<times> json) list"
    by (induction k x m rule: bt_insert.induct) auto
  have "json_wf ?v" using assms(1) sub [of "''status''" "JStr ''complete''" o'] by (fastforce simp: list_all_iff)
  then have new: "insert ''status'' (fst ` set o') = fst ` set (outcome_entries oc')" "entries_in (outcome_entries oc') ?v"
    using oc' outcome_read [of ?v oc'] by (auto simp: set_keys_insert)
  moreover have "fst ` set o' = fst ` set (outcome_entries oc)"
    using assms(1,2) outcome_read [of "JObj o'" oc] by auto
  moreover have "fst ` set (outcome_entries oc') = {''status'', ''scope''}"
  proof (cases oc')
    case (Partial r s)
    then show ?thesis using new(2) by (simp add: entries_in_def)
  qed (use new(2) in \<open>simp_all add: entries_in_def\<close>)
  moreover have "''partialReason'' \<in> fst ` set (outcome_entries oc) \<or> ''reason'' \<in> fst ` set (outcome_entries oc)"
  proof (cases oc)
    case (Partial r s)
    then show ?thesis by (cases r) simp_all
  qed (use assms(3) in simp_all)
  ultimately have "''partialReason'' \<in> {''status'', ''scope''} \<or> ''reason'' \<in> {''status'', ''scope''}"
    by (metis insertCI)
  then show False by simp
qed

section \<open>Property\<close>

text \<open>C21: the reader of completeness claims accepts exactly the documents the writer produces: no
  claim is read that no outcome has, and every outcome is read back as it was.  A claim that is not
  complete cannot be turned into a complete one by rewriting its status alone.\<close>

theorem outcome_read_exact:
  assumes "json_wf v"
  shows "(outcome_from_json v = Inr oc \<longleftrightarrow> v = outcome_to_json oc) \<and>
    (\<forall>o'. v = JObj o' \<and> outcome_from_json v = Inr oc \<and> \<not> is_complete oc \<longrightarrow>
      \<not> is_ok (outcome_from_json (JObj (bt_insert ''status'' (JStr ''complete'') o'))))"
  using outcome_from_json_Ok [OF assms] relabel_refused assms by blast

theorem outcome_read_exact_witness:
  "let v = outcome_to_json (Partial (CapHit ''x'') \<lparr>es_artifact_types = [], es_scanned_paths = [''a''], es_excluded_prefixes = []\<rparr>);
       o' = the (as_object v)
   in is_ok (outcome_from_json v) \<and> \<not> is_ok (outcome_from_json (JObj (bt_insert ''status'' (JStr ''complete'') o')))"
proof -
  let ?oc = "Partial (CapHit ''x'') \<lparr>es_artifact_types = [], es_scanned_paths = [''a''], es_excluded_prefixes = []\<rparr>"
  have wf: "json_wf (outcome_to_json ?oc)" by code_simp
  obtain o' where "outcome_to_json ?oc = JObj o'" by (simp add: outcome_to_json_entries jobj_def)
  then show ?thesis
    using outcome_read_exact [OF wf, of ?oc] by (simp add: Let_def)
qed

end
