(* ===== verification/Manifest_Contract.thy ===== *)
theory Manifest_Contract
  imports Json_Shape Content_Contract
begin

text \<open>
  The contract of a run manifest, checked twice: when it is consumed as an artifact
  (\<open>validate_run_manifest\<close> of crates/code-intel-cli/src/artifact\_ref.rs) and when it is published
  (\<open>validate_run_manifest\<close> of crates/code-intel-cli/src/run\_commit.rs, with the prefix \<open>commit_\<close> here).
  Both work on the parsed value; reading the bytes is in the theories that call them.
\<close>

section \<open>Shape checks\<close>

definition text_is :: "(string \<Rightarrow> bool) \<Rightarrow> json \<Rightarrow> bool" where
  "text_is P v = (case as_str v of Some s \<Rightarrow> P s | None \<Rightarrow> False)"

definition exact_object_keys :: "json \<Rightarrow> string list \<Rightarrow> string \<Rightarrow> string + unit" where
  "exact_object_keys value expected context =
     and_then (ok_or (as_object value) (context @ '' must be an object'')) (\<lambda>object.
     map_err (\<lambda>_. context @ '' fields are invalid'') (require_exact_keys object expected context))"

definition commit_exact :: "json \<Rightarrow> string list \<Rightarrow> string \<Rightarrow> string + unit" where
  "commit_exact value keys label =
     and_then (ok_or (as_object value) (label @ '' must be an object'')) (\<lambda>object.
     if set (bt_keys object) = set keys then Ok () else Err (label @ '' fields are invalid''))"

definition manifest_fields :: "json \<Rightarrow> string list" where
  "manifest_fields value = [''schema'', ''runIdentity'', ''snapshotIdentity'', ''outcome'', ''nodes''] @
     (if jget value ''budget'' \<noteq> None then [''budget''] else [])"

definition manifest_outcomes :: "string list" where
  "manifest_outcomes = [''completed'', ''domain_failed'', ''domain_unknown'', ''timeout'', ''process_failed'', ''failed'', ''budget_stopped'']"

definition manifest_header_ok :: "json \<Rightarrow> bool" where
  "manifest_header_ok value \<longleftrightarrow>
     \<not> (jidx value ''schema'' \<noteq> JStr ''code-intel-run-manifest.v1'' \<or>
        \<not> text_is is_run_identity (jidx value ''runIdentity'') \<or>
        \<not> text_is is_digest (jidx value ''snapshotIdentity'') \<or>
        \<not> text_is (\<lambda>s. s \<in> set manifest_outcomes) (jidx value ''outcome''))"

section \<open>The budget of a manifest\<close>

definition dimension_ok :: "json \<Rightarrow> bool" where
  "dimension_ok d \<longleftrightarrow> as_u64 (jidx d ''wallClockSeconds'') \<noteq> None \<and> as_u64 (jidx d ''bytes'') \<noteq> None"

definition percent_ok :: "json \<Rightarrow> bool" where
  "percent_ok v = (case as_u64 v of Some p \<Rightarrow> 1 \<le> p \<and> p \<le> 100 | None \<Rightarrow> False)"

definition skipped_node_ok :: "json \<Rightarrow> bool" where
  "skipped_node_ok n \<longleftrightarrow> text_is (\<lambda>s. s \<noteq> []) (jidx n ''nodeId'') \<and>
     as_u64 (jidx n ''actualBytes'') \<noteq> None \<and> as_u64 (jidx n ''byteLimit'') \<noteq> None"

definition validate_run_budget :: "json \<Rightarrow> string + unit" where
  "validate_run_budget value =
     and_then (exact_object_keys value [''limits'', ''consumed'', ''exceeded'', ''stoppedAt'', ''oversize''] ''run budget'') (\<lambda>_.
     and_then (try_fold (\<lambda>name _. let dimension = jidx value name in
        and_then (exact_object_keys dimension [''wallClockSeconds'', ''bytes''] (''run budget '' @ name)) (\<lambda>_.
        ensure (dimension_ok dimension) (''run budget '' @ name @ '' is invalid''))) [''limits'', ''consumed''] ()) (\<lambda>_.
     and_then (ensure (as_bool (jidx value ''exceeded'') \<noteq> None \<and>
          (is_null (jidx value ''stoppedAt'') \<or> text_is (\<lambda>s. s \<noteq> []) (jidx value ''stoppedAt'')))
        ''run budget terminal fields are invalid'') (\<lambda>_.
     let oversize = jidx value ''oversize'' in
     and_then (exact_object_keys oversize [''thresholdPercent'', ''skippedNodes''] ''run budget oversize'') (\<lambda>_.
     and_then (ensure (percent_ok (jidx oversize ''thresholdPercent'')) ''run budget oversize thresholdPercent is invalid'') (\<lambda>_.
     and_then (ok_or (as_array (jidx oversize ''skippedNodes'')) ''run budget oversize skippedNodes must be an array'') (\<lambda>skipped.
     try_fold (\<lambda>node _.
        and_then (exact_object_keys node [''nodeId'', ''actualBytes'', ''byteLimit''] ''run budget oversize skipped node'') (\<lambda>_.
        ensure (skipped_node_ok node) ''run budget oversize skipped node is invalid'')) skipped ()))))))"

definition commit_run_budget :: "json \<Rightarrow> string + unit" where
  "commit_run_budget value =
     and_then (commit_exact value [''limits'', ''consumed'', ''exceeded'', ''stoppedAt'', ''oversize''] ''run budget'') (\<lambda>_.
     and_then (try_fold (\<lambda>name _. let dimension = jidx value name in
        and_then (commit_exact dimension [''wallClockSeconds'', ''bytes''] (''run budget '' @ name)) (\<lambda>_.
        ensure (dimension_ok dimension) (''run budget '' @ name @ '' is invalid''))) [''limits'', ''consumed''] ()) (\<lambda>_.
     and_then (ensure (as_bool (jidx value ''exceeded'') \<noteq> None \<and>
          (is_null (jidx value ''stoppedAt'') \<or> text_is (\<lambda>s. s \<noteq> []) (jidx value ''stoppedAt'')))
        ''run budget terminal fields are invalid'') (\<lambda>_.
     let oversize = jidx value ''oversize'' in
     and_then (commit_exact oversize [''thresholdPercent'', ''skippedNodes''] ''run budget oversize'') (\<lambda>_.
     and_then (ensure (percent_ok (jidx oversize ''thresholdPercent'')) ''run budget oversize threshold is invalid'') (\<lambda>_.
     and_then (ok_or (as_array (jidx oversize ''skippedNodes'')) ''run budget oversize skippedNodes must be an array'') (\<lambda>skipped.
     try_fold (\<lambda>node _.
        and_then (commit_exact node [''nodeId'', ''actualBytes'', ''byteLimit''] ''run budget oversize skipped node'') (\<lambda>_.
        ensure (skipped_node_ok node) ''run budget oversize skipped node is invalid'')) skipped ()))))))"

section \<open>The nodes of a manifest\<close>

definition is_array :: "json \<Rightarrow> bool" where
  "is_array v \<longleftrightarrow> as_array v \<noteq> None"

definition succeeded_ok :: "json \<Rightarrow> bool" where
  "succeeded_ok node \<longleftrightarrow> text_is (\<lambda>s. s \<in> {''pass'', ''unknown'', ''not_applicable''}) (jidx node ''verdict'') \<and>
     is_array (jidx node ''artifacts'')"

definition domain_failed_ok :: "json \<Rightarrow> bool" where
  "domain_failed_ok node \<longleftrightarrow> jidx node ''verdict'' = JStr ''fail'' \<and>
     text_is (\<lambda>s. s \<noteq> []) (jidx node ''diagnostic'') \<and> is_array (jidx node ''artifacts'')"

definition process_failed_ok :: "json \<Rightarrow> bool" where
  "process_failed_ok node \<longleftrightarrow>
     text_is (\<lambda>s. s \<in> {''contract'', ''unavailable'', ''internal'', ''io''}) (jidx node ''failure'') \<and>
     text_is (\<lambda>s. s \<noteq> []) (jidx node ''diagnostic'')"

definition skipped_oversize_ok :: "json \<Rightarrow> bool" where
  "skipped_oversize_ok node \<longleftrightarrow> text_is (\<lambda>s. s \<noteq> []) (jidx node ''reason'') \<and>
     as_u64 (jidx node ''actualBytes'') \<noteq> None \<and> as_u64 (jidx node ''byteLimit'') \<noteq> None"

definition check_refs :: "json \<Rightarrow> string + unit" where
  "check_refs artifacts = try_fold (\<lambda>reference _. validate_artifact_ref_shape reference) (the (as_array artifacts)) ()"

definition validate_node :: "json \<Rightarrow> string + unit" where
  "validate_node node =
     (case as_str (jidx node ''status'') of
        None \<Rightarrow> Err ''run manifest contains a non-terminal node''
      | Some status \<Rightarrow>
     if status = ''succeeded'' then
       and_then (exact_object_keys node [''status'', ''verdict'', ''artifacts''] ''succeeded run node'') (\<lambda>_.
       and_then (ensure (succeeded_ok node) ''succeeded run node is invalid'') (\<lambda>_. check_refs (jidx node ''artifacts'')))
     else if status = ''domain_failed'' then
       and_then (exact_object_keys node [''status'', ''verdict'', ''diagnostic'', ''artifacts''] ''domain-failed run node'') (\<lambda>_.
       and_then (ensure (domain_failed_ok node) ''domain-failed run node is invalid'') (\<lambda>_. check_refs (jidx node ''artifacts'')))
     else if status = ''timeout'' then
       and_then (exact_object_keys node [''status'', ''diagnostic''] ''timeout run node'') (\<lambda>_.
       ensure (text_is (\<lambda>s. s \<noteq> []) (jidx node ''diagnostic'')) ''timeout run node is invalid'')
     else if status = ''process_failed'' then
       and_then (exact_object_keys node [''status'', ''failure'', ''diagnostic''] ''process-failed run node'') (\<lambda>_.
       ensure (process_failed_ok node) ''process-failed run node is invalid'')
     else if status = ''dependency_blocked'' then
       and_then (exact_object_keys node [''status'', ''blockedBy''] ''blocked run node'') (\<lambda>_.
       ensure (case as_array (jidx node ''blockedBy'') of Some bs \<Rightarrow> bs \<noteq> [] | None \<Rightarrow> False) ''blocked run node is invalid'')
     else if status = ''not_dispatched'' then
       and_then (exact_object_keys node [''status'', ''reason''] ''not-dispatched run node'') (\<lambda>_.
       ensure (text_is (\<lambda>s. s \<noteq> []) (jidx node ''reason'')) ''not-dispatched run node is invalid'')
     else if status = ''skipped_oversize'' then
       and_then (exact_object_keys node [''status'', ''reason'', ''actualBytes'', ''byteLimit''] ''skipped-oversize run node'') (\<lambda>_.
       ensure (skipped_oversize_ok node) ''skipped-oversize run node is invalid'')
     else Err ''run manifest contains a non-terminal node'')"

definition blocked_ok :: "json \<Rightarrow> bool" where
  "blocked_ok blocked_by = (case as_array blocked_by of None \<Rightarrow> False | Some bs \<Rightarrow>
     \<not> (bs = [] \<or> list_ex (\<lambda>item. \<not> text_is (\<lambda>s. s \<noteq> []) item) bs \<or>
        length (remdups (List.map_filter as_str bs)) \<noteq> length bs))"

definition commit_node :: "json \<Rightarrow> string + unit" where
  "commit_node node =
     (case as_str (jidx node ''status'') of
        None \<Rightarrow> Err ''run manifest contains a non-terminal node''
      | Some status \<Rightarrow>
     if status = ''succeeded'' then
       and_then (commit_exact node [''status'', ''verdict'', ''artifacts''] ''succeeded run node'') (\<lambda>_.
       ensure (succeeded_ok node) ''succeeded run node is invalid'')
     else if status = ''domain_failed'' then
       and_then (commit_exact node [''status'', ''verdict'', ''diagnostic'', ''artifacts''] ''domain-failed run node'') (\<lambda>_.
       ensure (domain_failed_ok node) ''domain-failed run node is invalid'')
     else if status = ''timeout'' then
       and_then (commit_exact node [''status'', ''diagnostic''] ''timeout run node'') (\<lambda>_.
       ensure (text_is (\<lambda>s. s \<noteq> []) (jidx node ''diagnostic'')) ''timeout run node is invalid'')
     else if status = ''process_failed'' then
       and_then (commit_exact node [''status'', ''failure'', ''diagnostic''] ''process-failed run node'') (\<lambda>_.
       ensure (process_failed_ok node) ''process-failed run node is invalid'')
     else if status = ''dependency_blocked'' then
       and_then (commit_exact node [''status'', ''blockedBy''] ''blocked run node'') (\<lambda>_.
       ensure (blocked_ok (jidx node ''blockedBy'')) ''blocked run node is invalid'')
     else if status = ''not_dispatched'' then
       and_then (commit_exact node [''status'', ''reason''] ''not-dispatched run node'') (\<lambda>_.
       ensure (text_is (\<lambda>s. s \<noteq> []) (jidx node ''reason'')) ''not-dispatched run node is invalid'')
     else if status = ''skipped_oversize'' then
       and_then (commit_exact node [''status'', ''reason'', ''actualBytes'', ''byteLimit''] ''skipped-oversize run node'') (\<lambda>_.
       ensure (skipped_oversize_ok node) ''skipped-oversize run node is invalid'')
     else Err ''run manifest contains a non-terminal node'')"

definition commit_node_id :: "string \<Rightarrow> bool" where
  "commit_node_id nid \<longleftrightarrow>
     (case nid of [] \<Rightarrow> False | b # _ \<Rightarrow> is_ascii_lowercase b \<or> is_ascii_digit b) \<and>
     list_all (\<lambda>b. is_ascii_lowercase b \<or> is_ascii_digit b \<or> b \<in> {CHR ''.'', CHR ''_'', CHR ''-''}) nid"

section \<open>The manifest\<close>

definition validate_run_manifest :: "json \<Rightarrow> string + unit" where
  "validate_run_manifest value =
     and_then (exact_object_keys value (manifest_fields value) ''run manifest'') (\<lambda>_.
     and_then (case jget value ''budget'' of None \<Rightarrow> Ok () | Some b \<Rightarrow>
        and_then (ensure (as_object b \<noteq> None) ''run manifest budget must be an object'') (\<lambda>_. validate_run_budget b)) (\<lambda>_.
     and_then (ensure (manifest_header_ok value) ''run manifest identity/outcome is invalid'') (\<lambda>_.
     and_then (ok_or (case as_object (jidx value ''nodes'') of Some nodes \<Rightarrow> if nodes = [] then None else Some nodes | None \<Rightarrow> None)
        ''run manifest nodes must be a non-empty object'') (\<lambda>nodes.
     try_fold (\<lambda>node _. validate_node node) (bt_values nodes) ()))))"

definition commit_run_manifest :: "json \<Rightarrow> string + unit" where
  "commit_run_manifest value =
     and_then (commit_exact value (manifest_fields value) ''run manifest'') (\<lambda>_.
     and_then (case jget value ''budget'' of None \<Rightarrow> Ok () | Some b \<Rightarrow>
        and_then (ensure (as_object b \<noteq> None) ''run manifest budget must be an object'') (\<lambda>_. commit_run_budget b)) (\<lambda>_.
     and_then (ensure (manifest_header_ok value) ''run manifest identity/outcome is incomplete or invalid'') (\<lambda>_.
     and_then (ok_or (as_object (jidx value ''nodes'')) ''run manifest nodes must be an object'') (\<lambda>nodes.
     and_then (ensure (nodes \<noteq> []) ''run manifest must contain at least one terminal node'') (\<lambda>_.
     try_fold (\<lambda>(nid, node) _.
        and_then (ensure (commit_node_id nid) ''run manifest node id is invalid'') (\<lambda>_. commit_node node)) (bt_iter nodes) ())))))"

end
