(* ===== verification/Manifest_Props.thy ===== *)
theory Manifest_Props
  imports Manifest_Contract Budget_Run
begin

text \<open>
  The producers and the consumers of a run manifest agree: what a finished coordinator reports passes
  both checks, as it is and with the budget of a budgeted run.  The coordinator's invariant is
  extended by what the consumers demand of the texts and lists inside the node states.
\<close>

section \<open>What the states report\<close>

fun reported :: "node_state \<Rightarrow> bool" where
  "reported (NotDispatched r) \<longleftrightarrow> \<not> is_blank r"
| "reported (SkippedOversize r _ _) \<longleftrightarrow> \<not> is_blank r"
| "reported (DependencyBlocked bs) \<longleftrightarrow> distinct bs"
| "reported _ \<longleftrightarrow> True"

definition reporting :: "states \<Rightarrow> bool" where
  "reporting st \<longleftrightarrow> (\<forall>k s. bt_get st k = Some s \<longrightarrow> reported s)"

lemma reportingD: "\<lbrakk>reporting st; bt_get st k = Some s\<rbrakk> \<Longrightarrow> reported s"
  by (simp add: reporting_def)

lemma reporting_insert: "\<lbrakk>reporting st; reported s\<rbrakk> \<Longrightarrow> reporting (bt_insert k s st)"
  by (simp add: reporting_def)

lemma reporting_round:
  assumes "reporting st" "deps_ok D" "dom (bt_get st) \<subseteq> dom (bt_get D)"
  shows "reporting (block_round (newly_blocked D st) st)"
  unfolding reporting_def
proof (intro allI impI)
  fix k s assume s: "bt_get (block_round (newly_blocked D st) st) k = Some s"
  show "reported s"
  proof (cases "bt_get (block_round (newly_blocked D st) st) k = bt_get st k")
    case True
    then show ?thesis using s assms(1) reportingD [of st k s] by simp
  next
    case False
    then obtain b where b: "(k, b) \<in> set (newly_blocked D st)" "s = DependencyBlocked b"
      using block_round_get [of k "newly_blocked D st" st] s by auto
    then have pending: "bt_get st k = Some Pending" and blocked: "b = blocking st (the (bt_get D k))"
      by (simp_all add: newly_blocked_iff)
    from pending have "k \<in> dom (bt_get D)" using assms(3) by (meson domI subsetD)
    then obtain vs where vs: "bt_get D k = Some vs" by (elim domD [THEN exE])
    have "distinct (blocking st vs)" using deps_okD(2) [OF assms(2) vs] by (simp add: blocking_def)
    then show ?thesis by (simp add: b(2) blocked vs)
  qed
qed

lemma reporting_propagate:
  "\<lbrakk>reporting st; deps_ok D; dom (bt_get st) \<subseteq> dom (bt_get D)\<rbrakk> \<Longrightarrow> reporting (propagate D st)"
proof (induction D st rule: propagate.induct)
  case (1 D st)
  show ?case
  proof (cases "newly_blocked D st = []")
    case True
    then show ?thesis using "1.prems"(1) by (simp add: propagate.simps [of D st])
  next
    case False
    have "dom (bt_get (block_round (newly_blocked D st) st)) = dom (bt_get st)"
      by (rule only_blocks_dom [OF only_blocks_round])
    then show ?thesis
      using "1.IH" [OF refl False reporting_round [OF "1.prems"]] "1.prems" False
      by (simp add: propagate.simps [of D st])
  qed
qed

lemma inv_deps:
  assumes "coord_inv c"
  shows "deps_ok (c_deps c)" "dom (bt_get (c_states c)) \<subseteq> dom (bt_get (c_deps c))"
  using assms coord_tablesD(2,5) [of c] by (simp_all add: coord_inv_def)

lemma reporting_blocked: "\<lbrakk>coord_inv c; reporting (c_states c)\<rbrakk> \<Longrightarrow> reporting (c_states (propagate_blocked c))"
  using inv_deps [of c] by (simp add: propagate_blocked_def reporting_propagate)

lemma finalized_reported: "is_finalized s \<Longrightarrow> reported s"
  by (cases s) auto

lemma fallback_reasons [simp]:
  "\<not> is_blank ''node was not dispatched''" "\<not> is_blank ''node was skipped as oversize''"
  by code_simp+

text \<open>An update of a running node, followed by the propagation of blocks.\<close>

lemma reporting_finish:
  assumes "coord_inv c" "reporting (c_states c)" "bt_get (c_states c) k = Some Running" "reported s"
  shows "reporting (c_states (propagate_blocked (set_state k s c)))"
proof -
  have "dom (bt_get (bt_insert k s (c_states c))) \<subseteq> dom (bt_get (c_deps c))"
    using inv_deps(2) [OF assms(1)] assms(3) by auto
  then show ?thesis
    using inv_deps(1) [OF assms(1)] reporting_insert [OF assms(2,4)]
    by (simp add: propagate_blocked_def reporting_propagate)
qed

lemma reporting_step:
  assumes "coord_step c c'" "coord_inv c" "reporting (c_states c)"
  shows "reporting (c_states c')"
  using assms
proof (induction rule: coord_step.induct)
  case (step_batch c)
  show ?case unfolding reporting_def
  proof (intro allI impI)
    fix k s assume s: "bt_get (c_states (fst (next_batch c))) k = Some s"
    have "s = Running \<or> bt_get (c_states (propagate_blocked c)) k = Some s"
      using s by (auto simp: next_batch_def Let_def dispatch_all_get split: if_splits)
    then show "reported s" using reporting_blocked [OF step_batch] reportingD by auto
  qed
next
  case (step_record c k out c')
  then show ?case
    by (auto simp: record_outcome_Ok intro!: reporting_finish dest!: outcome_state_Ok(1) finalized_reported)
next
  case (step_not_dispatched c k r c')
  then show ?case by (auto simp: record_not_dispatched_def intro!: reporting_insert split: if_splits)
next
  case (step_skipped c k r actual limit c')
  then show ?case by (auto simp: record_skipped_oversize_def intro!: reporting_finish split: if_splits)
next
  case (step_mark c r)
  then show ?case
    by (auto simp: reporting_def mark_pending_not_dispatched_def Let_def bt_get_map_snd)
qed

lemma reachable_reporting: "reachable to_vec c \<Longrightarrow> reporting (c_states c)"
proof (induction rule: reachable.induct)
  case (reach_new spec c)
  then show ?case using new_pending [of to_vec spec c] by (auto simp: reporting_def)
next
  case (reach_resume spec ck c)
  from resume_Ok [OF reach_resume(1)] obtain c0 where new: "coordinator_new to_vec spec = Some (Inr c0)"
    and res: "resume_from c0 ck = Inr c" .
  from resume_from_Ok [OF res reach_resume(2)] obtain c1 where c1: "restores c0 (ck_nodes ck) c1"
    "c = propagate_blocked c1" "validate_checkpoint_history c0 (ck_nodes ck) = Inr ()" by blast
  have "reporting (c_states c1)"
    using resumed_states(1) [OF new reach_resume(2) c1(1,3)] finalized_reported
    by (metis reported.simps(4) reporting_def)
  moreover have "coord_inv c" by (rule coord_inv_resume [OF new reach_resume(2) res])
  moreover have "dom (bt_get (c_states c)) = dom (bt_get (c_states c1))" "c_deps c = c_deps c1"
    using only_blocks_dom [OF only_blocks_propagate] by (simp_all add: c1(2) propagate_blocked_def)
  ultimately show ?case
    using inv_deps [of c] by (simp add: c1(2) propagate_blocked_def reporting_propagate)
next
  case (reach_step c c')
  then show ?case using reporting_step reachable_inv by blast
qed

section \<open>Both checks on written values\<close>

lemma exact_literal [simp]:
  "fst ` set es = set keys \<Longrightarrow> exact_object_keys (jobj es) keys context = Inr ()"
  "fst ` set es = set keys \<Longrightarrow> commit_exact (jobj es) keys context = Inr ()"
  by (auto simp: exact_object_keys_def commit_exact_def and_then_eq_Inr require_exact_keys_def jobj_def
      bt_keys_def set_keys_of_list)

lemma text_is_str [simp]: "text_is P (JStr s) = P s"
  by (simp add: text_is_def)

lemma nonblank_nonempty: "\<not> is_blank r \<Longrightarrow> r \<noteq> []"
  using is_blank_Nil by blast

lemma artifact_shape: "artifact_valid a \<Longrightarrow> validate_artifact_ref_shape (artifact_json a) = Inr ()"
  by (simp add: validate_artifact_ref_shape_def artifact_json_def require_exact_keys_def jobj_def bt_keys_def
      set_keys_of_list jidx_def bt_get_of_list nonempty_str_def digest_value_def artifact_valid_def)

lemma refs_accepted:
  assumes "\<forall>a \<in> set arts. artifact_valid a"
  shows "check_refs (JArr (map artifact_json arts)) = Inr ()"
  using assms by (induction arts) (simp_all add: check_refs_def artifact_shape)

definition node_wf :: "node_state \<Rightarrow> bool" where
  "node_wf s \<longleftrightarrow> reported s \<and> diagnostic_ok s \<and> (\<forall>v arts. s = Succeeded v arts \<longrightarrow> v \<noteq> Fail) \<and>
     (\<forall>bs. s = DependencyBlocked bs \<longrightarrow> bs \<noteq> [] \<and> [] \<notin> set bs) \<and> (\<forall>a \<in> set (artifacts_of s). artifact_valid a)"

lemma map_filter_strs: "List.map_filter as_str (map JStr bs) = bs"
  by (induction bs) (simp_all add: List.map_filter_simps)

lemma blocked_accepted: "\<lbrakk>bs \<noteq> []; [] \<notin> set bs; distinct bs\<rbrakk> \<Longrightarrow> blocked_ok (JArr (map JStr bs))"
  by (auto simp: blocked_ok_def map_filter_strs list_ex_iff)

lemma node_accepted:
  assumes "node_wf s"
  shows "(validate_node (state_json s) = Inr () \<longleftrightarrow> is_terminal_state s) \<and>
    (commit_node (state_json s) = Inr () \<longleftrightarrow> is_terminal_state s)"
proof (cases s)
  case (Succeeded v arts)
  then show ?thesis
    using assms refs_accepted [of arts]
    by (cases v) (simp_all add: validate_node_def commit_node_def jidx_jobj succeeded_ok_def is_array_def node_wf_def)
next
  case (DomainFailed d arts)
  then show ?thesis
    using assms refs_accepted [of arts] nonblank_nonempty
    by (auto simp: validate_node_def commit_node_def jidx_jobj domain_failed_ok_def is_array_def node_wf_def)
next
  case (ProcessFailed f d)
  then show ?thesis
    using assms nonblank_nonempty
    by (cases f) (auto simp: validate_node_def commit_node_def jidx_jobj process_failed_ok_def node_wf_def)
next
  case (DependencyBlocked bs)
  then show ?thesis
    using assms blocked_accepted [of bs]
    by (simp add: validate_node_def commit_node_def jidx_jobj node_wf_def)
qed (use assms nonblank_nonempty in \<open>auto simp: validate_node_def commit_node_def jidx_jobj skipped_oversize_ok_def node_wf_def\<close>)

definition all_terminal :: "states \<Rightarrow> bool" where
  "all_terminal st = list_all is_terminal_state (bt_values st)"

lemma all_terminal_iff: "all_terminal st \<longleftrightarrow> (\<forall>k s. bt_get st k = Some s \<longrightarrow> is_terminal_state s)"
  by (auto simp: all_terminal_def list_all_iff in_values)

definition states_object :: "states \<Rightarrow> (string \<times> json) list" where
  "states_object st = bt_of_list (map (\<lambda>(k, s). (k, state_json s)) (bt_iter st))"

lemma states_object_get:
  assumes "bt_wf st"
  shows "bt_get (states_object st) k = map_option state_json (bt_get st k)"
proof -
  have "distinct (map fst (map (\<lambda>(k, s). (k, state_json s)) (bt_iter st)))"
    using assms bt_wf_distinct by (simp add: comp_def split_def)
  then show ?thesis using assms by (simp add: states_object_def bt_get_of_list bt_get_map_snd)
qed

lemma states_object_entries:
  assumes "bt_wf st"
  shows "set (bt_iter (states_object st)) = {(k, state_json s) |k s. bt_get st k = Some s}"
  unfolding set_bt_iter states_object_get [OF assms] by auto

lemma states_accepted:
  assumes wf: "bt_wf st" and nodes: "\<And>k s. bt_get st k = Some s \<Longrightarrow> node_wf s \<and> commit_node_id k"
  shows "try_fold (\<lambda>node _. validate_node node) (bt_values (states_object st)) () = Inr () \<longleftrightarrow> all_terminal st"
    and "try_fold (\<lambda>(nid, node) _. and_then (ensure (commit_node_id nid) m) (\<lambda>_. commit_node node))
      (bt_iter (states_object st)) () = Inr () \<longleftrightarrow> all_terminal st"
proof -
  note entries = states_object_entries [OF wf]
  have "(\<forall>v \<in> set (bt_values (states_object st)). validate_node v = Inr ()) \<longleftrightarrow>
      (\<forall>k s. bt_get st k = Some s \<longrightarrow> validate_node (state_json s) = Inr ())"
    unfolding bt_values_def set_map entries by force
  then show "try_fold (\<lambda>node _. validate_node node) (bt_values (states_object st)) () = Inr () \<longleftrightarrow> all_terminal st"
    using try_fold_checks [of validate_node] nodes node_accepted unfolding all_terminal_iff by simp
  let ?check = "\<lambda>(nid, node). and_then (ensure (commit_node_id nid) m) (\<lambda>_. commit_node node)"
  have "(\<forall>e \<in> set (bt_iter (states_object st)). ?check e = Inr ()) \<longleftrightarrow>
      (\<forall>k s. bt_get st k = Some s \<longrightarrow> commit_node_id k \<and> commit_node (state_json s) = Inr ())"
    unfolding entries by (force simp: and_then_eq_Inr)
  then show "try_fold (\<lambda>(nid, node) _. and_then (ensure (commit_node_id nid) m) (\<lambda>_. commit_node node))
      (bt_iter (states_object st)) () = Inr () \<longleftrightarrow> all_terminal st"
    using try_fold_checks [of ?check "bt_iter (states_object st)"] nodes node_accepted
    unfolding all_terminal_iff by (simp add: split_def)
qed

section \<open>Budgets and headers\<close>

lemma percent_accepted:
  assumes "oversize_policy_new t = Ok policy"
  shows "percent_ok (ju64 (ucast (op_threshold policy)))"
proof -
  have "op_threshold policy = t" "1 \<le> t" "t \<le> 100"
    using assms by (auto simp: oversize_policy_new_def split: if_splits)
  moreover have "unat (ucast t :: u64) = unat t"
    using calculation(3) by (simp add: unsigned_ucast_eq word_le_nat_alt take_bit_nat_eq_self)
  ultimately have "1 \<le> (ucast (op_threshold policy) :: u64)" "(ucast (op_threshold policy) :: u64) \<le> 100"
    by (simp_all add: word_le_nat_alt)
  then show ?thesis by (simp add: percent_ok_def)
qed

lemma skipped_nodes_ids:
  assumes "bt_wf nodes" "(k, a, l) \<in> set (oversize_skipped nodes)"
  shows "k \<in> dom (bt_get nodes)"
  using assms(2) by (auto simp: oversize_skipped_def set_bt_iter simp del: bt_iter_id split: node_state.splits)

definition oversize_entry :: "string \<times> u64 \<times> u64 \<Rightarrow> json" where
  "oversize_entry = (\<lambda>(k, actual, limit). jobj
     [(''nodeId'', JStr k), (''actualBytes'', ju64 actual), (''byteLimit'', ju64 limit)])"

lemma skipped_accepted:
  assumes "\<forall>e \<in> set es. fst e \<noteq> []"
  shows "try_fold (\<lambda>node _. and_then (exact_object_keys node [''nodeId'', ''actualBytes'', ''byteLimit''] c) (\<lambda>_.
      ensure (skipped_node_ok node) m)) (map oversize_entry es) () = Inr ()"
    and "try_fold (\<lambda>node _. and_then (commit_exact node [''nodeId'', ''actualBytes'', ''byteLimit''] c) (\<lambda>_.
      ensure (skipped_node_ok node) m)) (map oversize_entry es) () = Inr ()"
  using assms by (induction es) (auto simp: oversize_entry_def skipped_node_ok_def jidx_jobj)

lemma budget_accepted:
  assumes policy: "oversize_policy_new t = Ok policy" and wf: "bt_wf nodes"
    and ids: "\<And>k. k \<in> dom (bt_get nodes) \<Longrightarrow> k \<noteq> []" and stopped: "stopped \<noteq> Some []"
  shows "validate_run_budget (budget_json policy b stopped nodes) = Inr () \<and>
    commit_run_budget (budget_json policy b stopped nodes) = Inr ()"
proof -
  have "\<forall>e \<in> set (oversize_skipped nodes). fst e \<noteq> []"
    using skipped_nodes_ids [OF wf] ids by fastforce
  note entries = skipped_accepted [OF this]
  have terminal: "is_null (jopt_str stopped) \<or> text_is (\<lambda>s. s \<noteq> []) (jopt_str stopped)"
    using stopped by (cases stopped) (simp_all add: jopt_str_def is_null_def)
  have oversize: "oversize_json policy nodes = jobj [(''thresholdPercent'', ju64 (ucast (op_threshold policy))),
      (''skippedNodes'', JArr (map oversize_entry (oversize_skipped nodes)))]"
    by (simp add: oversize_json_def oversize_entry_def)
  show ?thesis
    by (simp add: validate_run_budget_def commit_run_budget_def budget_json_def oversize jidx_jobj dimension_ok_def
        percent_accepted [OF policy] terminal entries)
qed

lemma header_accepted:
  assumes "is_run_identity rid" "is_digest snap" "outcome \<noteq> Incomplete"
    and "jidx v ''schema'' = JStr run_manifest_schema" "jidx v ''runIdentity'' = JStr rid"
    "jidx v ''snapshotIdentity'' = JStr snap" "jidx v ''outcome'' = JStr (outcome_str outcome)"
  shows "manifest_header_ok v"
  using assms by (cases outcome) (simp_all add: manifest_header_ok_def manifest_outcomes_def run_manifest_schema_def)

text \<open>A manifest is accepted exactly when all its nodes are terminal, with its budget or without.\<close>

lemma manifest_accepted:
  assumes m: "mf_schema m = run_manifest_schema" "is_run_identity (mf_run_identity m)" "is_digest (mf_snapshot m)"
      "mf_outcome m \<noteq> Incomplete"
    and wf: "bt_wf (mf_nodes m)" "mf_nodes m \<noteq> []"
    and nodes: "\<And>k s. bt_get (mf_nodes m) k = Some s \<Longrightarrow> node_wf s \<and> commit_node_id k"
    and extra: "extra = [] \<or> (\<exists>b. extra = [(''budget'', b)] \<and> as_object b \<noteq> None \<and>
      validate_run_budget b = Inr () \<and> commit_run_budget b = Inr ())"
    and v: "v = jobj ([(''schema'', JStr (mf_schema m)), (''runIdentity'', JStr (mf_run_identity m)),
      (''snapshotIdentity'', JStr (mf_snapshot m)), (''outcome'', JStr (outcome_str (mf_outcome m))),
      (''nodes'', states_json (mf_nodes m))] @ extra)"
  shows "(validate_run_manifest v = Inr () \<longleftrightarrow> all_terminal (mf_nodes m)) \<and>
    (commit_run_manifest v = Inr () \<longleftrightarrow> all_terminal (mf_nodes m))"
proof -
  have nodes_json: "states_json (mf_nodes m) = JObj (states_object (mf_nodes m))"
    by (simp add: states_json_def jobj_def states_object_def)
  have nonempty: "states_object (mf_nodes m) \<noteq> []"
  proof -
    obtain e es where "mf_nodes m = e # es" using wf(2) by (cases "mf_nodes m") auto
    then have "bt_get (states_object (mf_nodes m)) (fst e) \<noteq> None"
      unfolding states_object_get [OF wf(1)] by (cases e) simp
    then show ?thesis by auto
  qed
  have header: "manifest_header_ok v"
    by (rule header_accepted [OF m(2,3,4)]) (use extra m(1) in \<open>auto simp: v jidx_jobj\<close>)
  note checks = states_accepted [OF wf(1) nodes]
  from extra show ?thesis
  proof
    assume none: "extra = []"
    then have "jget v ''budget'' = None" "jidx v ''nodes'' = JObj (states_object (mf_nodes m))"
      by (simp_all add: v jget_jobj jidx_jobj nodes_json)
    then show ?thesis
      using header nonempty checks
      by (simp add: validate_run_manifest_def commit_run_manifest_def manifest_fields_def)
         (simp add: v none)
  next
    assume "\<exists>b. extra = [(''budget'', b)] \<and> as_object b \<noteq> None \<and> validate_run_budget b = Inr () \<and> commit_run_budget b = Inr ()"
    then obtain b where b: "extra = [(''budget'', b)]" "as_object b \<noteq> None" "validate_run_budget b = Inr ()"
      "commit_run_budget b = Inr ()" by blast
    then have "jget v ''budget'' = Some b" "jidx v ''nodes'' = JObj (states_object (mf_nodes m))"
      by (simp_all add: v jget_jobj jidx_jobj nodes_json)
    then show ?thesis
      using header nonempty checks b(2,3,4)
      by (simp add: validate_run_manifest_def commit_run_manifest_def manifest_fields_def)
         (simp add: v b(1))
  qed
qed

section \<open>Manifests of coordinators\<close>

lemma valid_id_accepted: "valid_id k \<Longrightarrow> k \<noteq> [] \<and> commit_node_id k"
proof -
  assume k: "valid_id k"
  then obtain b bs where b: "k = b # bs" by (cases k) (auto simp: valid_id_def)
  have chars: "is_ascii_lowercase (k ! i) \<or> is_ascii_digit (k ! i) \<or> i > 0 \<and> k ! i \<in> {CHR ''.'', CHR ''_'', CHR ''-''}"
    if "i < length k" for i using k that by (simp add: valid_id_def)
  have "is_ascii_lowercase b \<or> is_ascii_digit b" using chars [of 0] b by simp
  moreover have "list_all (\<lambda>b. is_ascii_lowercase b \<or> is_ascii_digit b \<or> b \<in> {CHR ''.'', CHR ''_'', CHR ''-''}) k"
    unfolding list_all_length using chars by blast
  ultimately show ?thesis unfolding commit_node_id_def using b by simp
qed

lemma coordinator_ids:
  assumes "coord_inv c" "k \<in> spec_ids (c_spec c)"
  shows "valid_id k"
  using assms by (auto simp: coord_inv_def spec_wf_def spec_ids_def node_ok_def)

definition artifacts_valid :: "states \<Rightarrow> bool" where
  "artifacts_valid st = list_all (\<lambda>s. list_all artifact_valid (artifacts_of s)) (bt_values st)"

lemma artifacts_validD: "\<lbrakk>artifacts_valid st; bt_get st k = Some s; a \<in> set (artifacts_of s)\<rbrakk> \<Longrightarrow> artifact_valid a"
  by (auto simp: artifacts_valid_def list_all_iff in_values)

lemma coordinator_node_wf:
  assumes r: "reachable to_vec c" and arts: "artifacts_valid (c_states c)" and k: "bt_get (c_states c) k = Some s"
  shows "node_wf s \<and> commit_node_id k \<and> k \<noteq> []"
proof -
  note inv = reachable_inv [OF r]
  have dom: "dom (bt_get (c_states c)) = spec_ids (c_spec c)" using inv by (simp add: coord_inv_def)
  then have "valid_id k" using coordinator_ids [OF inv] k by blast
  moreover note ni = reachable_node_inv [OF r k]
  have "d \<noteq> []" if "d \<in> deps_of (c_deps c) k" for d
  proof -
    have "(d, k) \<in> edge_rel (c_spec c)" using deps_of_edges [OF inv, of d k] that dom k by blast
    then have "d \<in> spec_ids (c_spec c)" using inv by (auto simp: coord_inv_def spec_wf_def)
    then show ?thesis using coordinator_ids [OF inv] valid_id_accepted by blast
  qed
  then have "\<forall>bs. s = DependencyBlocked bs \<longrightarrow> bs \<noteq> [] \<and> [] \<notin> set bs"
    using ni unfolding node_inv_def by blast
  moreover have "reported s" by (rule reportingD [OF reachable_reporting [OF r] k])
  ultimately show ?thesis
    using valid_id_accepted ni artifacts_validD [OF arts k] unfolding node_wf_def node_inv_def by blast
qed

lemma run_identity_ok: "reachable to_vec c \<Longrightarrow> is_run_identity (c_run_identity c) \<and> is_digest (ds_snapshot (c_spec c))"
proof -
  assume r: "reachable to_vec c"
  have "is_run_identity (''dag-v1:'' @ sha256_hex m)" for m
  proof -
    have "sha256_hex m \<noteq> []" "length (sha256_hex m) mod 2 = 0"
      using sha256_hex_digest [of m] by (auto simp: is_digest_def)
    moreover have "strip_prefix (''dag-v1:'' @ sha256_hex m) ''dag-v1:'' = Some (sha256_hex m)"
      by (rule strip_prefix_append)
    ultimately show ?thesis
      using sha256_hex_digest [of m] by (simp only: is_run_identity_def is_digest_def) simp
  qed
  then show ?thesis
    using reachable_identity [OF r] reachable_inv [OF r] by (simp add: identity_for_def coord_inv_def spec_wf_def)
qed

lemma coordinator_states:
  assumes "reachable to_vec c"
  shows "bt_wf (c_states c)" "c_states c \<noteq> []" "is_terminal c \<longleftrightarrow> all_terminal (c_states c)"
proof -
  have inv: "coord_inv c" by (rule reachable_inv [OF assms])
  then show "bt_wf (c_states c)" by (simp add: coord_inv_def)
  have "spec_ids (c_spec c) \<noteq> {}" using inv by (auto simp: coord_inv_def spec_wf_def spec_ids_def)
  then show "c_states c \<noteq> []" using inv by (auto simp: coord_inv_def)
  show "is_terminal c \<longleftrightarrow> all_terminal (c_states c)" by (simp add: is_terminal_def all_terminal_def)
qed

lemma incomplete_rejected:
  assumes "jidx v ''outcome'' = JStr ''incomplete''"
  shows "validate_run_manifest v \<noteq> Inr () \<and> commit_run_manifest v \<noteq> Inr ()"
proof -
  have "\<not> manifest_header_ok v" using assms by (simp add: manifest_header_ok_def manifest_outcomes_def)
  then show ?thesis
    by (auto simp: validate_run_manifest_def commit_run_manifest_def and_then_eq_Inr)
qed

lemma plain_manifest_checked:
  assumes r: "reachable to_vec c" and arts: "artifacts_valid (c_states c)"
  shows "(validate_run_manifest (manifest_json (run_manifest c)) = Inr () \<longleftrightarrow> is_terminal c) \<and>
    (commit_run_manifest (manifest_json (run_manifest c)) = Inr () \<longleftrightarrow> is_terminal c)"
proof (cases "final_outcome c = Incomplete")
  case True
  then have "jidx (manifest_json (run_manifest c)) ''outcome'' = JStr ''incomplete''"
    by (simp add: manifest_json_def run_manifest_def jidx_jobj)
  moreover have "\<not> is_terminal c" using True final_outcome_terminal by blast
  ultimately show ?thesis using incomplete_rejected by blast
next
  case False
  show ?thesis
    unfolding coordinator_states(3) [OF r]
    using manifest_accepted [of "run_manifest c" "[]" "manifest_json (run_manifest c)"] False run_identity_ok [OF r]
      coordinator_states(1,2) [OF r] coordinator_node_wf [OF r arts]
    by (simp add: run_manifest_def manifest_json_def)
qed

lemma budgeted_manifest_checked:
  assumes r: "reachable to_vec c" and arts: "artifacts_valid (c_states c)"
    and policy: "oversize_policy_new t = Ok policy"
    and stopped: "\<forall>k. stopped = Some k \<longrightarrow> k \<in> dom (bt_get (c_states c))"
    and outcome: "budget_outcome stopped (run_manifest c) \<noteq> Incomplete"
    and run: "run = finish_budgeted policy (c, b, stopped)"
  shows "(validate_run_manifest (br_json run) = Inr () \<longleftrightarrow> is_terminal c) \<and>
    (commit_run_manifest (br_json run) = Inr () \<longleftrightarrow> is_terminal c)"
proof -
  let ?m = "(run_manifest c)\<lparr>mf_outcome := budget_outcome stopped (run_manifest c)\<rparr>"
  let ?b = "budget_json policy b stopped (c_states c)"
  have ids: "k \<noteq> []" if "k \<in> dom (bt_get (c_states c))" for k
    using that coordinator_node_wf [OF r arts] by blast
  have "stopped \<noteq> Some []" using stopped ids by blast
  from budget_accepted [OF policy coordinator_states(1) [OF r] ids this]
  have b: "validate_run_budget ?b = Inr ()" "commit_run_budget ?b = Inr ()" by simp_all
  have json: "br_json run = jobj ([(''schema'', JStr (mf_schema ?m)), (''runIdentity'', JStr (mf_run_identity ?m)),
      (''snapshotIdentity'', JStr (mf_snapshot ?m)), (''outcome'', JStr (outcome_str (mf_outcome ?m))),
      (''nodes'', states_json (mf_nodes ?m))] @ [(''budget'', ?b)])"
    by (simp add: run finish_budgeted_def Let_def budgeted_json_def manifest_json_def jobj_def bt_of_list_def run_manifest_def)
  have "as_object ?b \<noteq> None" by (simp add: budget_json_def jobj_def)
  then show ?thesis
    unfolding coordinator_states(3) [OF r]
    using manifest_accepted [OF _ _ _ _ _ _ _ _ json] b outcome run_identity_ok [OF r]
      coordinator_states(1,2) [OF r] coordinator_node_wf [OF r arts]
    by (simp add: run_manifest_def)
qed

section \<open>Properties\<close>

text \<open>What a coordinator reports is what the consumers of a run manifest accept: in every reachable
  state, both checks accept the manifest exactly when all nodes are terminal, provided the artifacts
  satisfy the checks of their constructor.\<close>

theorem manifest_accepted_iff_terminal:
  assumes "reachable to_vec c" "artifacts_valid (c_states c)"
  shows "(is_ok (validate_run_manifest (manifest_json (run_manifest c))) \<longleftrightarrow> is_terminal c) \<and>
    (is_ok (commit_run_manifest (manifest_json (run_manifest c))) \<longleftrightarrow> is_terminal c)"
  using plain_manifest_checked [OF assms] by (simp add: is_ok_iff)

theorem manifest_accepted_iff_terminal_witness:
  "\<exists>c. coordinator_new demo_vec join_spec = Some (Inr c) \<and>
    \<not> is_ok (validate_run_manifest (manifest_json (run_manifest c)))"
proof -
  let ?c = "join_states demo_vec [(''a'', Pending), (''b'', Pending), (''c'', Pending)]"
  note new = join_new [of demo_vec]
  have "artifacts_valid (c_states ?c)" "\<not> is_terminal ?c"
    by (simp_all add: artifacts_valid_def is_terminal_def join_states_def bt_values_def bt_iter_def bt_keys_def)
  then show ?thesis
    using manifest_accepted_iff_terminal [OF reach_new [OF new]] new by blast
qed

text \<open>C13: the published document of a budgeted run, manifest and budget together, passes both checks
  exactly when no node is left unfinished; so a run that its budget stopped with accepted dispatches
  outstanding publishes a manifest that no consumer accepts.\<close>

theorem budgeted_manifest_accepted_iff:
  assumes new: "coordinator_new to_vec spec = Some (Inr c)" and well: "timed_well exec (ds_snapshot spec)"
    and policy: "oversize_policy_new t = Ok policy"
    and run: "run_budgeted exec c b estimate policy = Some (Ok r)"
    and arts: "artifacts_valid (mf_nodes (br_manifest r))"
  shows "(is_ok (validate_run_manifest (br_json r)) \<longleftrightarrow> all_terminal (mf_nodes (br_manifest r))) \<and>
    (is_ok (commit_run_manifest (br_json r)) \<longleftrightarrow> all_terminal (mf_nodes (br_manifest r)))"
proof -
  obtain c' b' stopped where r: "run_budgeted exec c b estimate policy = Some (Ok (finish_budgeted policy (c', b', stopped)))"
    "reachable to_vec c'" "stopped = None \<longrightarrow> is_terminal c'"
    "\<forall>k. stopped = Some k \<longrightarrow> (\<exists>r. bt_get (c_states c') k = Some (NotDispatched r))"
    using budget_result [OF new well] by metis
  have fin: "r = finish_budgeted policy (c', b', stopped)" using run r(1) by simp
  have nodes: "mf_nodes (br_manifest r) = c_states c'" by (simp add: fin finish_budgeted_def run_manifest_def Let_def)
  have "final_outcome c' \<noteq> Incomplete" if "stopped = None" using that r(3) final_outcome_terminal by blast
  then have "budget_outcome stopped (run_manifest c') \<noteq> Incomplete"
    by (auto simp: budget_outcome_def run_manifest_def)
  then show ?thesis
    using budgeted_manifest_checked [OF r(2) _ policy _ _ fin] r(4) arts coordinator_states(3) [OF r(2)]
    by (auto simp: nodes is_ok_iff)
qed

theorem budgeted_manifest_accepted_iff_witness:
  "\<exists>r. run_budgeted (\<lambda>_. Some (OTimeout [], 0)) (join_states demo_vec [(''a'', Pending), (''b'', Pending), (''c'', Pending)])
       (budget_new 10 100 True) demo_estimate \<lparr>op_threshold = 100\<rparr> = Some (Ok r) \<and>
     \<not> is_ok (commit_run_manifest (br_json r))"
proof -
  let ?r = "finish_budgeted \<lparr>op_threshold = 100\<rparr> (stopped_states demo_vec, budget_new 10 100 True, Some ''b'')"
  have "timed_well (\<lambda>_. Some (OTimeout [], 0)) (ds_snapshot join_spec)" by (simp add: timed_well_def)
  moreover have "oversize_policy_new 100 = Ok \<lparr>op_threshold = 100\<rparr>" by (simp add: oversize_policy_new_def)
  moreover have "artifacts_valid (mf_nodes (br_manifest ?r))" "\<not> all_terminal (mf_nodes (br_manifest ?r))"
    by (simp_all add: finish_budgeted_def run_manifest_def artifacts_valid_def all_terminal_def join_states_def
        bt_values_def bt_iter_def bt_keys_def Let_def)
  ultimately show ?thesis
    using budgeted_manifest_accepted_iff [OF join_new _ _ join_stopped] join_stopped by blast
qed

end
