(* ===== verification/Artifact_Path.thy ===== *)
theory Artifact_Path
  imports Rust_Path Content_Contract
begin

text \<open>
  Portable paths of artifacts (the end of crates/code-intel-cli/src/artifact\_ref.rs): relative, with
  plain components only, and none that another platform would read differently.  The last part is the
  validator of a file inventory, a sorted list of such paths.
\<close>

datatype artifact_error = AContract string | AIo string

fun artifact_message :: "artifact_error \<Rightarrow> string" where
  "artifact_message (AContract m) = m"
| "artifact_message (AIo m) = m"

definition path_syntax_is_portable :: "string \<Rightarrow> bool" where
  "path_syntax_is_portable value \<longleftrightarrow>
     value \<noteq> [] \<and> CHR 0x00 \<notin> set value \<and> CHR 0x5C \<notin> set value \<and> \<not> starts_with value ''/'' \<and>
     \<not> starts_with value ''//'' \<and> CHR '':'' \<notin> set value \<and>
     list_all (\<lambda>component. component \<noteq> []) (split_on (CHR ''/'') value)"

text \<open>The characters U+0300 to U+036F in UTF-8.\<close>

fun has_combining :: "string \<Rightarrow> bool" where
  "has_combining (c # d # s) \<longleftrightarrow>
     c = CHR 0xCC \<and> CHR 0x80 \<le> d \<and> d \<le> CHR 0xBF \<or> c = CHR 0xCD \<and> CHR 0x80 \<le> d \<and> d \<le> CHR 0xAF \<or>
     has_combining (d # s)"
| "has_combining _ \<longleftrightarrow> False"

definition windows_reserved :: "string \<Rightarrow> bool" where
  "windows_reserved name =
     (let stem = map ascii_lower (hd (split_on (CHR ''.'') name));
          numbers = [''1'', ''2'', ''3'', ''4'', ''5'', ''6'', ''7'', ''8'', ''9''];
          superscripts = [[CHR 0xC2, CHR 0xB9], [CHR 0xC2, CHR 0xB2], [CHR 0xC2, CHR 0xB3]];
          numbered = (\<lambda>p ns. case strip_prefix stem p of Some n \<Rightarrow> n \<in> set ns | None \<Rightarrow> False)
      in stem \<in> set [''con'', ''prn'', ''aux'', ''nul'', ''conin$'', ''conout$''] \<or>
         numbered ''com'' numbers \<or> numbered ''lpt'' numbers \<or> numbered ''com'' superscripts \<or> numbered ''lpt'' superscripts)"

definition path_component_is_unambiguous :: "string \<Rightarrow> bool" where
  "path_component_is_unambiguous name \<longleftrightarrow>
     name \<noteq> [] \<and> \<not> ends_with name ''.'' \<and> \<not> ends_with name '' '' \<and> \<not> has_combining name \<and> \<not> windows_reserved name"

definition portable_relative_path :: "string \<Rightarrow> artifact_error + string" where
  "portable_relative_path value =
     and_then (ensure (path_syntax_is_portable value)
       (AContract ''Artifact Ref path is not portable root-relative syntax'')) (\<lambda>_.
     and_then (try_fold (\<lambda>name normalized.
        if name \<in> {''.'', ''..'', ''/''} then Err (AContract ''Artifact Ref path contains a non-portable component'')
        else if \<not> path_component_is_unambiguous name
        then Err (AContract ''Artifact Ref path contains a Windows-ambiguous component'')
        else Ok (normalized @ [name])) (components value) []) (\<lambda>normalized.
     and_then (ensure (normalized \<noteq> []) (AContract ''Artifact Ref path must name a file'')) (\<lambda>_.
     Ok (join ''/'' normalized))))"

section \<open>Inventories\<close>

definition inventory_records :: "string \<Rightarrow> string list" where
  "inventory_records t =
     filter (\<lambda>record'. record' \<noteq> [])
       (if CHR 0x00 \<in> set t then split_on (CHR 0x00) t else str_lines t)"

definition inventory_step :: "string \<Rightarrow> string option \<Rightarrow> string + string option" where
  "inventory_step record' previous =
     and_then (map_err artifact_message (portable_relative_path record')) (\<lambda>normalized.
     and_then (ensure (\<not> (case previous of Some value \<Rightarrow> value \<ge> normalized | None \<Rightarrow> False))
       ''inventory payload paths must be unique and sorted'') (\<lambda>_.
     Ok (Some normalized)))"

definition validate_inventory :: "(u8 list \<Rightarrow> string + string) \<Rightarrow> u8 list \<Rightarrow> string + unit" where
  "validate_inventory from_utf8 bytes =
     and_then (map_err (\<lambda>e. ''inventory payload is not UTF-8: '' @ e) (from_utf8 bytes)) (\<lambda>t.
     and_then (try_fold inventory_step (inventory_records t) None) (\<lambda>_. Ok ()))"

section \<open>What an accepted path is\<close>

definition plain_component :: "string \<Rightarrow> bool" where
  "plain_component c \<longleftrightarrow> c \<notin> {[], ''.'', ''..''} \<and> set c \<inter> {CHR ''/'', CHR 0x5C, CHR '':'', CHR 0x00} = {} \<and>
     path_component_is_unambiguous c"

lemma collect_components:
  "try_fold (\<lambda>name normalized.
      if name \<in> {''.'', ''..'', ''/''} then Err e
      else if \<not> path_component_is_unambiguous name then Err e'
      else Ok (normalized @ [name])) cs acc = Inr out \<longleftrightarrow>
   out = acc @ cs \<and> (\<forall>c \<in> set cs. c \<notin> {''.'', ''..'', ''/''} \<and> path_component_is_unambiguous c)"
  by (induction cs arbitrary: acc) (auto simp: and_then_eq_Inr)

lemma components_of_portable:
  assumes "path_syntax_is_portable v" "''.'' \<notin> set (components v)"
  shows "components v = filter (\<lambda>c. c \<noteq> ''.'') (split_on (CHR ''/'') v)"
    and "\<forall>c \<in> set (components v). set c \<inter> {CHR ''/'', CHR 0x5C, CHR '':'', CHR 0x00} = {}"
proof -
  have pieces: "c \<noteq> []" if "c \<in> set (split_on (CHR ''/'') v)" for c
    using assms(1) that by (auto simp: path_syntax_is_portable_def list_all_iff)
  show eq: "components v = filter (\<lambda>c. c \<noteq> ''.'') (split_on (CHR ''/'') v)"
    using assms pieces by (auto simp: components_def Let_def path_syntax_is_portable_def intro!: filter_cong split: if_splits)
  have "set c \<subseteq> set v" if "c \<in> set (split_on (CHR ''/'') v)" for c
    using that by (induction v arbitrary: c) (force split: list.splits if_splits)+
  then show "\<forall>c \<in> set (components v). set c \<inter> {CHR ''/'', CHR 0x5C, CHR '':'', CHR 0x00} = {}"
    unfolding eq using assms(1) split_on_pieces [of _ "CHR ''/''" v] by (fastforce simp: path_syntax_is_portable_def)
qed

lemma portable_path_Ok:
  assumes "portable_relative_path v = Inr p"
  obtains cs where "cs \<noteq> []" "p = join ''/'' cs" "list_all plain_component cs" "components v = cs"
proof -
  from assms have syn: "path_syntax_is_portable v" and cs: "components v \<noteq> []" "p = join ''/'' (components v)"
    "\<forall>c \<in> set (components v). c \<notin> {''.'', ''..'', ''/''} \<and> path_component_is_unambiguous c"
    unfolding portable_relative_path_def and_then_eq_Inr ensure_eq_Inr collect_components by auto
  have "list_all plain_component (components v)"
    using components_of_portable(2) [OF syn] cs(3)
    by (auto simp: list_all_iff plain_component_def path_component_is_unambiguous_def)
  then show thesis using that cs by blast
qed

text \<open>A path of plain components is read back as these components: it is canonical.\<close>

lemma plain_componentD:
  assumes "plain_component c"
  shows "c \<noteq> []" "c \<noteq> ''.''" "c \<noteq> ''..''" "CHR ''/'' \<notin> set c" "CHR 0x5C \<notin> set c" "CHR '':'' \<notin> set c"
    "CHR 0x00 \<notin> set c" "path_component_is_unambiguous c"
  using assms unfolding plain_component_def by blast+

lemma set_join: "set (join [d] cs) \<subseteq> insert d (\<Union>c \<in> set cs. set c)"
  by (induction "[d]" cs rule: join.induct) auto

lemma plain_portable:
  assumes "cs \<noteq> []" "list_all plain_component cs"
  shows "path_syntax_is_portable (join ''/'' cs)" "split_on (CHR ''/'') (join ''/'' cs) = cs"
    "\<not> starts_with (join ''/'' cs) ''/''"
proof -
  have plain: "plain_component c" if "c \<in> set cs" for c using assms(2) that by (simp add: list_all_iff)
  then have no_sep: "\<forall>c \<in> set cs. CHR ''/'' \<notin> set c" using plain_componentD(4) by blast
  show split: "split_on (CHR ''/'') (join ''/'' cs) = cs" by (rule split_on_join [OF assms(1) no_sep])
  obtain c cs' where c: "cs = c # cs'" using assms(1) by (cases cs) auto
  obtain d ds where d: "c = d # ds" "d \<noteq> CHR ''/''"
    using plain_componentD(1,4) [OF plain [of c]] by (cases c) (auto simp: c)
  obtain t where "join ''/'' cs = d # t" by (cases cs') (simp_all add: c d(1))
  then have head: "\<not> starts_with (join ''/'' cs) ''/''" "\<not> starts_with (join ''/'' cs) ''//''" "join ''/'' cs \<noteq> []"
    using d(2) by (simp_all add: starts_with_def)
  then show "\<not> starts_with (join ''/'' cs) ''/''" by blast
  have "x \<notin> set (join ''/'' cs)" if "\<And>c. plain_component c \<Longrightarrow> x \<notin> set c" "x \<noteq> CHR ''/''" for x
    using set_join [of "CHR ''/''" cs] that plain by blast
  from this [of "CHR 0x5C"] this [of "CHR '':''"] this [of "CHR 0x00"]
  have "CHR 0x5C \<notin> set (join ''/'' cs)" "CHR '':'' \<notin> set (join ''/'' cs)" "CHR 0x00 \<notin> set (join ''/'' cs)"
    using plain_componentD(5-7) by simp_all
  moreover have "list_all (\<lambda>component. component \<noteq> []) cs"
    using plain plain_componentD(1) by (simp add: list_all_iff)
  ultimately show "path_syntax_is_portable (join ''/'' cs)"
    unfolding path_syntax_is_portable_def split using head by blast
qed

lemma plain_components:
  assumes "cs \<noteq> []" "list_all plain_component cs"
  shows "components (join ''/'' cs) = cs" "portable_relative_path (join ''/'' cs) = Inr (join ''/'' cs)"
proof -
  have plain: "plain_component c" if "c \<in> set cs" for c using assms(2) that by (simp add: list_all_iff)
  have "filter (\<lambda>c. c \<noteq> [] \<and> c \<noteq> ''.'') cs = cs"
    by (rule filter_True) (use plain plain_componentD(1,2) in blast)
  moreover have "hd cs \<noteq> ''.''" using plain_componentD(2) plain [OF hd_in_set] assms(1) by blast
  ultimately show comps: "components (join ''/'' cs) = cs"
    unfolding components_def plain_portable(2) [OF assms] Let_def using plain_portable(3) [OF assms] by simp
  have "\<forall>c \<in> set cs. c \<notin> {''.'', ''..'', ''/''} \<and> path_component_is_unambiguous c"
  proof
    fix c assume "c \<in> set cs"
    note pc = plain_componentD [OF plain [OF this]]
    have "c \<noteq> ''/''" using pc(4) by auto
    then show "c \<notin> {''.'', ''..'', ''/''} \<and> path_component_is_unambiguous c" using pc(2,3,8) by blast
  qed
  then show "portable_relative_path (join ''/'' cs) = Inr (join ''/'' cs)"
    unfolding portable_relative_path_def and_then_eq_Inr ensure_eq_Inr collect_components comps
    using assms(1) plain_portable(1) [OF assms] by simp
qed

lemma portable_idem: "portable_relative_path v = Inr p \<Longrightarrow> portable_relative_path p = Inr p"
  by (metis portable_path_Ok plain_components(2))

end
