(* ===== verification/Artifact_Payload.thy ===== *)
theory Artifact_Payload
  imports Manifest_Contract Artifact_Path Json_Scan
begin

text \<open>
  Validators of artifact payloads (crates/code-intel-cli/src/artifact\_ref.rs).  The UTF-8 check, the
  JSON parser and the reader of object keys are library code and form the record \<open>json_lib\<close>.
\<close>

record json_lib =
  jl_from_utf8 :: "u8 list \<Rightarrow> string + string"
  jl_key :: "string \<Rightarrow> string + string"
  jl_from_str :: "string \<Rightarrow> string + json"

definition MAX_ARTIFACT_BYTES :: nat where "MAX_ARTIFACT_BYTES = 64 * 1024 * 1024"

definition MAX_EVIDENCE_ADMISSION_BYTES :: nat where "MAX_EVIDENCE_ADMISSION_BYTES = 16 * 1024 * 1024"

definition MAX_SESSION_EVIDENCE_BYTES :: nat where "MAX_SESSION_EVIDENCE_BYTES = 128 * 1024 * 1024"

text \<open>The scanner for duplicate keys returns on every text, so \<open>the\<close> is its result.\<close>

definition parse_payload :: "json_lib \<Rightarrow> nat \<Rightarrow> string \<Rightarrow> string \<Rightarrow> u8 list \<Rightarrow> string + json" where
  "parse_payload lib max_bytes not_utf8 not_json bytes =
     and_then (map_err (\<lambda>e. not_utf8 @ e) (jl_from_utf8 lib bytes)) (\<lambda>t.
     and_then (the (reject_duplicate_json_keys_within (jl_key lib) t max_bytes)) (\<lambda>_.
     map_err (\<lambda>e. not_json @ e) (jl_from_str lib t)))"

definition parse_contract_json :: "json_lib \<Rightarrow> u8 list \<Rightarrow> string \<Rightarrow> string + json" where
  "parse_contract_json lib bytes label =
     parse_payload lib MAX_JSON_BYTES (label @ '' is not UTF-8: '') (label @ '' is not JSON: '') bytes"

definition parse_contract_json_within :: "json_lib \<Rightarrow> u8 list \<Rightarrow> string \<Rightarrow> nat \<Rightarrow> string + json" where
  "parse_contract_json_within lib bytes label max_bytes =
     parse_payload lib max_bytes (label @ '' is not UTF-8: '') (label @ '' is not JSON: '') bytes"

definition is_object :: "json \<Rightarrow> bool" where
  "is_object v \<longleftrightarrow> as_object v \<noteq> None"

definition nonempty_text :: "json \<Rightarrow> bool" where
  "nonempty_text v = text_is (\<lambda>s. s \<noteq> []) v"

definition nonempty_array :: "json \<Rightarrow> bool" where
  "nonempty_array v = (case as_array v of Some items \<Rightarrow> items \<noteq> [] | None \<Rightarrow> False)"

section \<open>Repository iteration\<close>

definition REPOSITORY_ITERATION_SCHEMA :: string where
  "REPOSITORY_ITERATION_SCHEMA = ''code-intel-repository-iteration-provenance.v1''"

definition REPOSITORY_ITERATION_TYPE :: string where
  "REPOSITORY_ITERATION_TYPE = ''repository.iteration''"

text \<open>\<open>char::is_control\<close>: U+0000 to U+001F and U+007F to U+009F.\<close>

fun has_control :: "string \<Rightarrow> bool" where
  "has_control [] \<longleftrightarrow> False"
| "has_control (c # s) \<longleftrightarrow> c < CHR 0x20 \<or> c = CHR 0x7F \<or>
     (c = CHR 0xC2 \<and> (case s of d # _ \<Rightarrow> CHR 0x80 \<le> d \<and> d \<le> CHR 0x9F | [] \<Rightarrow> False)) \<or> has_control s"

definition valid_authority_name :: "string \<Rightarrow> bool" where
  "valid_authority_name value \<longleftrightarrow>
     value \<noteq> [] \<and> value \<noteq> ''.'' \<and> value \<noteq> ''..'' \<and> \<not> ends_with value ''.'' \<and> \<not> ends_with value '' '' \<and>
     \<not> (has_control value \<or> list_ex (\<lambda>c. c \<in> {CHR ''/'', CHR 0x5C, CHR '':''}) value)"

definition repository_iteration_provenance_is_valid :: "json \<Rightarrow> bool" where
  "repository_iteration_provenance_is_valid value \<longleftrightarrow>
     jidx value ''schema'' = JStr REPOSITORY_ITERATION_SCHEMA \<and>
     jidx value ''purpose'' = JStr ''repository_intelligence_iteration'' \<and>
     text_is is_run_identity (jidx value ''runIdentity'') \<and> text_is is_digest (jidx value ''snapshotIdentity'') \<and>
     text_is valid_authority_name (jidx value ''repositoryKey'') \<and>
     text_is valid_authority_name (jidx value ''publicationName'') \<and>
     jidx (jidx value ''producer'') ''component'' = JStr ''code-intel.authoritative-run'' \<and>
     jidx (jidx value ''producer'') ''contract'' = JStr ''repository-iteration-producer'' \<and>
     jidx (jidx value ''producer'') ''version'' = JStr ''1''"

definition validate_repository_iteration_provenance :: "json_lib \<Rightarrow> u8 list \<Rightarrow> string + unit" where
  "validate_repository_iteration_provenance lib bytes =
     and_then (parse_contract_json lib bytes ''repository iteration provenance'') (\<lambda>value.
     and_then (exact_object_keys value [''schema'', ''purpose'', ''runIdentity'', ''snapshotIdentity'', ''repositoryKey'', ''publicationName'', ''producer'']
       ''repository iteration provenance'') (\<lambda>_.
     and_then (exact_object_keys (jidx value ''producer'') [''component'', ''contract'', ''version''] ''repository iteration producer'') (\<lambda>_.
     ensure (repository_iteration_provenance_is_valid value) ''repository iteration provenance contract is invalid'')))"

section \<open>Snapshots\<close>

text \<open>\<open>seen.insert\<close> is true for a text that is new, so all of them are distinct.\<close>

definition distinct_texts :: "json list \<Rightarrow> bool" where
  "distinct_texts values \<longleftrightarrow> list_all nonempty_text values \<and> distinct (List.map_filter as_str values)"

definition valid_path_array :: "json \<Rightarrow> bool" where
  "valid_path_array value = (case as_array value of Some values \<Rightarrow> distinct_texts values | None \<Rightarrow> False)"

definition repo_identity_valid :: "string \<Rightarrow> bool" where
  "repo_identity_valid repo_identity \<longleftrightarrow>
     list_ex (\<lambda>prefix'. case strip_prefix repo_identity prefix' of Some d \<Rightarrow> is_digest d | None \<Rightarrow> False)
       [''git-lineage-v1:'', ''content-v1:'']"

definition validate_repository_snapshot_identity :: "json \<Rightarrow> string + unit" where
  "validate_repository_snapshot_identity value =
     and_then (ok_or (as_object value) ''repository snapshot identity must be an object'') (\<lambda>snapshot.
     and_then (ensure (set (bt_keys snapshot) = set [''identity'', ''repoIdentity'', ''head'', ''workingTreePolicy'', ''scope'', ''inputDigest''])
       ''repository snapshot identity fields are invalid'') (\<lambda>_.
     ensure (text_is is_digest (jidx value ''identity'') \<and>
         text_is repo_identity_valid (jidx value ''repoIdentity'') \<and> nonempty_text (jidx value ''head'') \<and>
         text_is (\<lambda>p. p \<in> {''head_only'', ''explicit_overlay''}) (jidx value ''workingTreePolicy'') \<and>
         (case as_array (jidx value ''scope'') of Some items \<Rightarrow> items \<noteq> [] \<and> distinct_texts items | None \<Rightarrow> False) \<and>
         text_is is_digest (jidx value ''inputDigest''))
       ''repository snapshot identity values are invalid''))"

definition overlay_members :: "string list" where
  "overlay_members = [''trackedModified'', ''trackedDeleted'', ''untracked'', ''renamed'', ''typeChanged'', ''staged'']"

definition validate_repository_snapshot :: "json_lib \<Rightarrow> u8 list \<Rightarrow> string + unit" where
  "validate_repository_snapshot lib bytes =
     and_then (parse_payload lib MAX_JSON_BYTES ''repository snapshot payload is not UTF-8: ''
       ''repository snapshot payload is invalid JSON: '' bytes) (\<lambda>value.
     and_then (ok_or (as_object value) ''repository snapshot payload must be an object'') (\<lambda>object.
     and_then (ensure (set (bt_keys object) = set [''schema'', ''snapshot'', ''dirtyOverlay'', ''repository''] \<and>
         jidx value ''schema'' = JStr ''code-intel-repository-snapshot.v1'') ''repository snapshot payload fields/schema are invalid'') (\<lambda>_.
     and_then (validate_repository_snapshot_identity (jidx value ''snapshot'')) (\<lambda>_.
     and_then (ok_or (as_object (jidx value ''repository'')) ''repository snapshot repository is invalid'') (\<lambda>repository.
     and_then (ensure (length repository = 1 \<and>
         text_is (\<lambda>k. k \<in> {''git'', ''git_unborn'', ''unversioned''}) (jidx (JObj repository) ''kind''))
       ''repository snapshot repository kind is invalid'') (\<lambda>_.
     let dirty = jidx value ''dirtyOverlay'' in
     and_then (ok_or (as_object dirty) ''repository snapshot dirtyOverlay is invalid'') (\<lambda>overlay.
     and_then (ensure (set (bt_keys overlay) = set [''present'', ''digest'', ''paths'', ''members'', ''ignoredPolicy''] \<and>
         as_bool (jidx dirty ''present'') \<noteq> None \<and> jidx dirty ''ignoredPolicy'' = JStr ''excluded_by_git_ignore'')
       ''repository snapshot dirtyOverlay fields are invalid'') (\<lambda>_.
     and_then (ensure ((is_null (jidx dirty ''digest'') \<or> text_is is_digest (jidx dirty ''digest'')) \<and>
         valid_path_array (jidx dirty ''paths'')) ''repository snapshot dirtyOverlay digest/paths are invalid'') (\<lambda>_.
     and_then (ok_or (as_object (jidx dirty ''members'')) ''repository snapshot dirtyOverlay members are invalid'') (\<lambda>members.
     ensure (set (bt_keys members) = set overlay_members \<and> list_all valid_path_array (bt_values members))
       ''repository snapshot dirtyOverlay members are invalid''))))))))))"

section \<open>Evidence, diagnosis views, delivery and methods\<close>

definition validate_evidence_payload :: "json_lib \<Rightarrow> u8 list \<Rightarrow> string + unit" where
  "validate_evidence_payload lib bytes =
     and_then (parse_contract_json_within lib bytes ''observed evidence payload'' MAX_ARTIFACT_BYTES) (\<lambda>value.
     and_then (exact_object_keys value [''schema'', ''data''] ''observed evidence payload'') (\<lambda>_.
     ensure (jidx value ''schema'' = JStr ''code-intel-evidence-payload.v1'' \<and>
         (case as_object (jidx value ''data'') of Some data \<Rightarrow> data \<noteq> [] | None \<Rightarrow> False))
       ''observed evidence payload contract is invalid''))"

definition surgery_plan_shape_is_valid :: "json \<Rightarrow> bool" where
  "surgery_plan_shape_is_valid value \<longleftrightarrow>
     jidx value ''schema'' = JStr ''code-intel-surgery-plan.v1'' \<and>
     text_is (\<lambda>s. s \<in> {''planned'', ''not_required''}) (jidx value ''status'') \<and>
     is_object (jidx value ''admission'') \<and> is_object (jidx value ''primary_target'') \<and>
     is_array (jidx value ''operating_plan'') \<and> is_array (jidx value ''verification'') \<and>
     is_array (jidx value ''discharge_criteria'')"

definition validate_surgery_plan_value :: "json \<Rightarrow> string + unit" where
  "validate_surgery_plan_value value =
     and_then (exact_object_keys value [''schema'', ''status'', ''admission'', ''primary_target'', ''operating_plan'', ''verification'', ''discharge_criteria'']
       ''surgery plan'') (\<lambda>_.
     ensure (surgery_plan_shape_is_valid value) ''surgery plan contract is invalid'')"

definition validate_surgery_plan :: "json_lib \<Rightarrow> u8 list \<Rightarrow> string + unit" where
  "validate_surgery_plan lib bytes =
     and_then (parse_contract_json lib bytes ''surgery plan'') validate_surgery_plan_value"

definition validate_markdown_view :: "json_lib \<Rightarrow> string \<Rightarrow> u8 list \<Rightarrow> string + unit" where
  "validate_markdown_view lib heading bytes =
     and_then (map_err (\<lambda>e. ''diagnosis view is not UTF-8: '' @ e) (jl_from_utf8 lib bytes)) (\<lambda>t.
     ensure (\<not> (\<not> starts_with t heading \<or> is_blank t)) ''diagnosis Markdown view contract is invalid'')"

definition validate_run_commit :: "json_lib \<Rightarrow> u8 list \<Rightarrow> string + unit" where
  "validate_run_commit lib bytes =
     and_then (parse_contract_json lib bytes ''run commit'') (\<lambda>value.
     and_then (exact_object_keys value [''schema'', ''runIdentity'', ''snapshotIdentity'', ''manifest''] ''run commit'') (\<lambda>_.
     and_then (exact_object_keys (jidx value ''manifest'') [''path'', ''sha256''] ''run commit manifest'') (\<lambda>_.
     let manifest_sha = as_str (jidx (jidx value ''manifest'') ''sha256'') in
     ensure (jidx value ''schema'' = JStr ''code-intel-run-commit.v1'' \<and> text_is is_run_identity (jidx value ''runIdentity'') \<and>
         text_is is_digest (jidx value ''snapshotIdentity'') \<and> (case manifest_sha of Some s \<Rightarrow> is_digest s | None \<Rightarrow> False) \<and>
         as_str (jidx (jidx value ''manifest'') ''path'') = map_option (\<lambda>sha. ''objects/sha256/'' @ sha) manifest_sha)
       ''run commit contract is invalid'')))"

definition validate_run_manifest_payload :: "json_lib \<Rightarrow> u8 list \<Rightarrow> string + unit" where
  "validate_run_manifest_payload lib bytes =
     and_then (parse_contract_json lib bytes ''run manifest'') validate_run_manifest"

definition run_timing_telemetry_policy_is_valid :: "json \<Rightarrow> bool" where
  "run_timing_telemetry_policy_is_valid value \<longleftrightarrow>
     jidx value ''schema'' = JStr ''code-intel-run-timing-events.v1'' \<and>
     text_is is_digest (jidx value ''measurementSnapshotIdentity'') \<and>
     jptr value [''telemetry'', ''mode''] = Some (JStr ''local_opt_in'') \<and>
     jptr value [''telemetry'', ''clock''] = Some (JStr ''monotonic_elapsed_ms'') \<and>
     jptr value [''telemetry'', ''externalPlatform''] = Some (JBool False)"

definition timing_kinds :: "string list" where
  "timing_kinds = [''technical_work'', ''test'', ''verification'', ''queue'', ''handoff'', ''understanding'', ''rework'', ''coordination'']"

definition run_timing_event_is_valid :: "json \<Rightarrow> bool" where
  "run_timing_event_is_valid event \<longleftrightarrow>
     nonempty_text (jidx event ''id'') \<and> nonempty_text (jidx event ''subject'') \<and>
     text_is (\<lambda>k. k \<in> set timing_kinds) (jidx event ''kind'') \<and>
     (case (as_u64 (jidx event ''startedAtMs''), as_u64 (jidx event ''completedAtMs'')) of
        (Some start, Some end') \<Rightarrow> end' > start | _ \<Rightarrow> False) \<and>
     as_bool (jidx event ''mandatory'') \<noteq> None \<and> is_array (jidx event ''predecessors'')"

definition validate_run_timing_events :: "json_lib \<Rightarrow> u8 list \<Rightarrow> string + unit" where
  "validate_run_timing_events lib bytes =
     and_then (parse_payload lib MAX_ARTIFACT_BYTES ''run timing events are not UTF-8: '' ''run timing events are not JSON: '' bytes) (\<lambda>value.
     and_then (exact_object_keys value [''schema'', ''measurementSnapshotIdentity'', ''telemetry'', ''baseline'', ''current''] ''run timing events'') (\<lambda>_.
     and_then (exact_object_keys (jidx value ''telemetry'') [''mode'', ''clock'', ''externalPlatform''] ''run timing telemetry'') (\<lambda>_.
     and_then (ensure (run_timing_telemetry_policy_is_valid value) ''run timing telemetry policy is invalid'') (\<lambda>_.
     try_fold (\<lambda>label _. let trace = jidx value label; commit_ref = jidx trace ''commitRef'' in
       and_then (exact_object_keys trace [''commitRef'', ''events''] ''run timing trace'') (\<lambda>_.
       and_then (validate_artifact_ref_shape commit_ref) (\<lambda>_.
       and_then (ensure (jidx commit_ref ''artifactSchema'' = JStr ''code-intel-run-commit.v1'' \<and>
           jidx commit_ref ''type'' = JStr ''run.commit'' \<and>
           jidx commit_ref ''consumedSnapshotIdentity'' = jidx value ''measurementSnapshotIdentity'')
         ''run timing trace is not bound to an A07 commit Artifact Ref'') (\<lambda>_.
       and_then (ensure (nonempty_array (jidx trace ''events'')) ''run timing trace events must be non-empty'') (\<lambda>_.
       try_fold (\<lambda>event _.
         and_then (exact_object_keys event [''id'', ''kind'', ''subject'', ''startedAtMs'', ''completedAtMs'', ''mandatory'', ''coordinationNeed'', ''predecessors'']
           ''run timing event'') (\<lambda>_.
         ensure (run_timing_event_is_valid event) ''run timing event contract is invalid'')) (the (as_array (jidx trace ''events''))) ()))))
     ) [''baseline'', ''current''] ()))))"

definition light_speed_report_is_valid :: "json \<Rightarrow> bool" where
  "light_speed_report_is_valid value \<longleftrightarrow>
     jidx value ''schema'' = JStr ''code-intel-delivery-light-speed.v1'' \<and>
     text_is is_digest (jidx value ''measurementSnapshotIdentity'') \<and>
     jidx value ''authority'' = JStr ''derived_measurement_no_schedule_commitment'' \<and>
     (case as_array (jidx value ''rules'') of Some rules \<Rightarrow> length rules = 7 | None \<Rightarrow> False) \<and>
     is_object (jidx value ''baseline'') \<and> is_object (jidx value ''current'') \<and> is_object (jidx value ''delta'') \<and>
     nonempty_array (jidx value ''limitations'')"

definition validate_light_speed_report :: "json_lib \<Rightarrow> u8 list \<Rightarrow> string + unit" where
  "validate_light_speed_report lib bytes =
     and_then (parse_contract_json lib bytes ''light-speed report'') (\<lambda>value.
     and_then (exact_object_keys value [''schema'', ''measurementSnapshotIdentity'', ''authority'', ''method'', ''rules'', ''baseline'', ''current'', ''delta'', ''limitations'']
       ''light-speed report'') (\<lambda>_.
     ensure (light_speed_report_is_valid value) ''light-speed report contract is invalid''))"

definition method_entry :: "json \<Rightarrow> string list \<Rightarrow> string + string list" where
  "method_entry entry ids =
     and_then (exact_object_keys entry [''id'', ''path''] ''method catalog entry'') (\<lambda>_.
     and_then (ok_or (case as_str (jidx entry ''id'') of Some i \<Rightarrow> if i = [] then None else Some i | None \<Rightarrow> None)
       ''method catalog id is invalid'') (\<lambda>i.
     and_then (ensure (\<not> (i \<in> set ids \<or> jidx entry ''path'' \<noteq> JStr (''cards/'' @ i @ ''.v1.json'')))
       ''method catalog entry is invalid or duplicated'') (\<lambda>_. Ok (i # ids))))"

definition validate_method_catalog :: "json_lib \<Rightarrow> u8 list \<Rightarrow> string + unit" where
  "validate_method_catalog lib bytes =
     and_then (parse_contract_json lib bytes ''method catalog'') (\<lambda>value.
     and_then (exact_object_keys value [''schema'', ''catalogVersion'', ''selectionPolicy'', ''cards''] ''method catalog'') (\<lambda>_.
     and_then (ensure (nonempty_array (jidx value ''cards'')) ''method catalog cards must be non-empty'') (\<lambda>_.
     and_then (ensure (jidx value ''schema'' = JStr ''code-intel-method-catalog.v1'' \<and>
         jidx value ''selectionPolicy'' = JStr ''none_catalog_only'' \<and> nonempty_text (jidx value ''catalogVersion''))
       ''method catalog contract is invalid'') (\<lambda>_.
     and_then (try_fold method_entry (the (as_array (jidx value ''cards''))) []) (\<lambda>_. Ok ())))))"

definition validate_method_card :: "json_lib \<Rightarrow> u8 list \<Rightarrow> string + unit" where
  "validate_method_card lib bytes =
     and_then (parse_contract_json lib bytes ''method card'') (\<lambda>value.
     and_then (exact_object_keys value [''schema'', ''id'', ''version'', ''name'', ''problemSignals'', ''requiredEvidence'',
         ''assumptions'', ''deterministicSteps'', ''outputs'', ''confidenceRules'', ''cost'', ''contraindications'',
         ''implementationPorts'', ''source'', ''applicabilityBoundary'', ''relatedMethodIds'', ''executionPolicy''] ''method card'') (\<lambda>_.
     ensure (jidx value ''schema'' = JStr ''code-intel-method-card.v1'' \<and> nonempty_text (jidx value ''id'') \<and>
         nonempty_text (jidx value ''version'') \<and>
         jidx value ''executionPolicy'' = JStr ''catalog_only_no_selection_or_execution'' \<and>
         nonempty_array (jidx value ''deterministicSteps'')) ''method card contract is invalid''))"

section \<open>Native code evidence\<close>

definition parse_native_object :: "json_lib \<Rightarrow> u8 list \<Rightarrow> string + json" where
  "parse_native_object lib bytes =
     and_then (parse_payload lib MAX_ARTIFACT_BYTES ''native code evidence artifact is not UTF-8: ''
       ''native code evidence artifact is invalid JSON: '' bytes) (\<lambda>value.
     and_then (ok_or (as_object value) ''native code evidence artifact must be an object'') (\<lambda>_. Ok value))"

definition validate_native_array_artifact ::
    "json_lib \<Rightarrow> string \<Rightarrow> string \<Rightarrow> nat \<Rightarrow> string list \<Rightarrow> u8 list \<Rightarrow> string + unit" where
  "validate_native_array_artifact lib expected_schema payload expected_fields element_string_fields bytes =
     and_then (parse_native_object lib bytes) (\<lambda>value.
     and_then (ensure (jidx value ''schema'' = JStr expected_schema \<and> length (the (as_object value)) = expected_fields \<and>
         is_array (jidx value payload)) (expected_schema @ '' artifact shape is invalid'')) (\<lambda>_.
     ensure (\<not> list_ex (\<lambda>element. list_ex (\<lambda>field. as_str (jidx element field) = None) element_string_fields)
         (the (as_array (jidx value payload)))) (expected_schema @ '' artifact shape is invalid'')))"

definition validate_native_scorecard :: "json_lib \<Rightarrow> u8 list \<Rightarrow> string + unit" where
  "validate_native_scorecard lib bytes =
     and_then (parse_native_object lib bytes) (\<lambda>value.
     ensure (jidx value ''schema'' = JStr ''code-evidence-scorecard.v1'' \<and> jget value ''metrics'' \<noteq> None \<and>
         jidx value ''status'' = JStr ''ok'') ''native code evidence scorecard is invalid'')"

definition validate_native_coverage :: "json_lib \<Rightarrow> u8 list \<Rightarrow> string + unit" where
  "validate_native_coverage lib bytes =
     and_then (parse_native_object lib bytes) (\<lambda>value.
     ensure (jidx value ''schema'' = JStr ''code-evidence-coverage.v1'' \<and> jidx value ''parserKind'' = JStr ''line-heuristic'' \<and>
         jidx value ''relationshipPrecision'' = JStr ''unknown'' \<and> jidx value ''callGraph'' = JStr ''unknown'')
       ''native code evidence coverage overclaims precision'')"

end
