(* ===== verification/Artifact_Ref.thy ===== *)
theory Artifact_Ref
  imports Artifact_Payload
begin

text \<open>
  Verification of Artifact Refs (crates/code-intel-cli/src/artifact\_ref.rs): the registry of
  contracts, the checks of one reference and of all inputs of a request.  Reading a file beneath a
  root (stable\_artifact.rs), Unicode lower case and the payload validators that are not modelled are
  arguments: the record \<open>artifact_env\<close> over the state of the file system.
\<close>

record stable_read =
  sr_bytes :: "u8 list"
  sr_id :: "nat \<times> nat"

datatype stable_error = STooLarge string | SBoundary string | SIdentity string | SHostIo string

record artifact_contract =
  ct_schema :: string
  ct_type :: string
  ct_max_bytes :: nat
  ct_validate :: "u8 list \<Rightarrow> string + unit"

record verified_artifact =
  va_bytes :: "u8 list"
  va_schema :: string
  va_type :: string
  va_sha256 :: string
  va_consumed :: string
  va_file_id :: "nat \<times> nat"

record 'f artifact_env =
  ae_lib :: json_lib
  ae_read_beneath :: "string \<Rightarrow> string list \<Rightarrow> nat \<Rightarrow> 'f \<Rightarrow> stable_error + stable_read"
  ae_to_lowercase :: "string \<Rightarrow> string"
  ae_validator :: "string \<Rightarrow> u8 list \<Rightarrow> string + unit"
  ae_command_observation :: "json \<Rightarrow> string + unit"
  ae_capability_artifact :: "json \<Rightarrow> string + unit"

section \<open>The registry\<close>

definition contract :: "string \<Rightarrow> string \<Rightarrow> nat \<Rightarrow> (u8 list \<Rightarrow> string + unit) \<Rightarrow> artifact_contract" where
  "contract schema type max_bytes validate =
     \<lparr>ct_schema = schema, ct_type = type, ct_max_bytes = max_bytes, ct_validate = validate\<rparr>"

definition find_contract :: "artifact_contract list \<Rightarrow> string \<Rightarrow> string \<Rightarrow> artifact_contract option" where
  "find_contract cs schema type = find (\<lambda>c. ct_schema c = schema \<and> ct_type c = type) cs"

definition repository_family :: "'f artifact_env \<Rightarrow> artifact_contract list" where
  "repository_family env =
     [contract REPOSITORY_ITERATION_SCHEMA REPOSITORY_ITERATION_TYPE (64 * 1024)
        (validate_repository_iteration_provenance (ae_lib env)),
      contract ''code-intel-file-inventory.v1'' ''inventory.files'' MAX_ARTIFACT_BYTES
        (validate_inventory (jl_from_utf8 (ae_lib env))),
      contract ''code-intel-repository-snapshot.v1'' ''repository.snapshot'' (8 * 1024 * 1024)
        (validate_repository_snapshot (ae_lib env))]"

text \<open>A validator that is not modelled is looked up under the type of its artifact.\<close>

definition other :: "'f artifact_env \<Rightarrow> string \<Rightarrow> string \<Rightarrow> nat \<Rightarrow> artifact_contract" where
  "other env schema type max_bytes = contract schema type max_bytes (ae_validator env type)"

definition command_observation_payload :: "'f artifact_env \<Rightarrow> u8 list \<Rightarrow> string + unit" where
  "command_observation_payload env bytes =
     and_then (parse_contract_json (ae_lib env) bytes ''Sentrux command observation'') (ae_command_observation env)"

definition diagnosis_family :: "'f artifact_env \<Rightarrow> artifact_contract list" where
  "diagnosis_family env =
     [other env ''code-intel-doctor-observation.v1'' ''doctor.observation'' (8 * 1024 * 1024),
      other env ''code-intel-repository-survival-scan-result.v1'' ''repository.survival-scan'' (8 * 1024 * 1024),
      other env ''code-intel-evidence-admissibility-result.v1'' ''evidence.admission'' MAX_EVIDENCE_ADMISSION_BYTES,
      contract ''code-intel-evidence-payload.v1'' ''observed.evidence.payload'' MAX_ARTIFACT_BYTES
        (validate_evidence_payload (ae_lib env)),
      contract ''code-intel-sentrux-command-observation.v2'' ''provider.sentrux.command-observation'' (2 * 1024 * 1024)
        (command_observation_payload env),
      other env ''code-intel-sentrux-capability-artifact.v2'' ''provider.sentrux.capability-artifact'' (20 * 1024 * 1024),
      other env ''code-intel-hospital.v1'' ''diagnosis.hospital'' (8 * 1024 * 1024),
      other env ''code-intel-audit-report.v1'' ''diagnosis.audit'' (8 * 1024 * 1024),
      contract ''code-intel-hospital-markdown.v1'' ''diagnosis.hospital-view'' (8 * 1024 * 1024)
        (validate_markdown_view (ae_lib env) ''# Code Intel Hospital Report''),
      contract ''code-intel-surgery-plan.v1'' ''diagnosis.surgery-plan'' (8 * 1024 * 1024)
        (validate_surgery_plan (ae_lib env)),
      contract ''code-intel-surgery-plan-markdown.v1'' ''diagnosis.surgery-plan-view'' (8 * 1024 * 1024)
        (validate_markdown_view (ae_lib env) ''# Code Intel Surgery Plan'')]"

definition orientation_family :: "'f artifact_env \<Rightarrow> artifact_contract list" where
  "orientation_family env =
     [other env ''code-intel-project-orientation.v1'' ''project.orientation'' (8 * 1024 * 1024),
      other env ''code-intel-understanding-quadrant.v1'' ''understanding.quadrant'' (8 * 1024 * 1024),
      other env ''code-intel-project-orientation-benchmark-observations.v1'' ''benchmark.orientation-observations'' MAX_ARTIFACT_BYTES,
      other env ''code-intel-project-orientation-benchmark.v1'' ''benchmark.orientation-report'' (8 * 1024 * 1024),
      contract ''code-intel-project-orientation-benchmark-markdown.v1'' ''benchmark.orientation-report-view'' (1024 * 1024)
        (validate_markdown_view (ae_lib env) ''# Project Orientation Benchmark'')]"

definition advisory_family :: "'f artifact_env \<Rightarrow> artifact_contract list" where
  "advisory_family env =
     [other env ''code-intel-advisory-workflow-recommendation.v1'' ''advisory.workflow-recommendation'' (8 * 1024 * 1024),
      other env ''code-intel-design-context.v1'' ''design.context'' (8 * 1024 * 1024),
      other env ''code-intel-design-proposal-candidate.v1'' ''design.proposal-candidate'' (8 * 1024 * 1024),
      other env ''code-intel-design-proposal.v1'' ''design.proposal'' (8 * 1024 * 1024)]"

definition run_delivery_family :: "'f artifact_env \<Rightarrow> artifact_contract list" where
  "run_delivery_family env =
     [contract ''code-intel-run-timing-events.v1'' ''delivery.run-timing-events'' MAX_ARTIFACT_BYTES
        (validate_run_timing_events (ae_lib env)),
      contract ''code-intel-run-commit.v1'' ''run.commit'' (64 * 1024) (validate_run_commit (ae_lib env)),
      contract ''code-intel-run-manifest.v1'' ''run.manifest'' (8 * 1024 * 1024) (validate_run_manifest_payload (ae_lib env)),
      other env ''code-intel-session-evidence.v1'' ''verification.session-evidence'' MAX_SESSION_EVIDENCE_BYTES,
      other env ''code-intel-anchor-verification.v1'' ''verification.anchors'' MAX_ARTIFACT_BYTES,
      contract ''code-intel-delivery-light-speed.v1'' ''delivery.light-speed-report'' (8 * 1024 * 1024)
        (validate_light_speed_report (ae_lib env)),
      contract ''code-intel-delivery-light-speed-markdown.v1'' ''delivery.light-speed-report-view'' (1024 * 1024)
        (validate_markdown_view (ae_lib env) ''# Delivery Light-Speed Measurement'')]"

definition method_decision_family :: "'f artifact_env \<Rightarrow> artifact_contract list" where
  "method_decision_family env =
     [contract ''code-intel-method-catalog.v1'' ''method.catalog'' (256 * 1024) (validate_method_catalog (ae_lib env)),
      contract ''code-intel-method-card.v1'' ''method.card'' (256 * 1024) (validate_method_card (ae_lib env)),
      other env ''code-intel-decision-record.v1'' ''decision.record'' (1024 * 1024)]"

definition native_array :: "'f artifact_env \<Rightarrow> string \<Rightarrow> string \<Rightarrow> string \<Rightarrow> nat \<Rightarrow> string list \<Rightarrow> artifact_contract" where
  "native_array env schema type payload expected_fields element_fields =
     contract schema type MAX_ARTIFACT_BYTES
       (validate_native_array_artifact (ae_lib env) schema payload expected_fields element_fields)"

definition native_code_family :: "'f artifact_env \<Rightarrow> artifact_contract list" where
  "native_code_family env =
     [native_array env ''code-evidence-files.v1'' ''code_evidence.files'' ''files'' 2 [''path''],
      native_array env ''code-evidence-symbols.v1'' ''code_evidence.symbols'' ''symbols'' 2 [],
      native_array env ''code-evidence-chunks.v1'' ''code_evidence.chunks'' ''chunks'' 2 [],
      native_array env ''code-evidence-symbol-chunks.v1'' ''code_evidence.symbol_chunks'' ''mappings'' 2 [],
      native_array env ''code-evidence-imports.v1'' ''code_evidence.imports'' ''imports'' 2 [''file'', ''target''],
      contract ''code-evidence-scorecard.v1'' ''code_evidence.scorecard'' MAX_ARTIFACT_BYTES (validate_native_scorecard (ae_lib env)),
      contract ''code-evidence-coverage.v1'' ''code_evidence.coverage'' MAX_ARTIFACT_BYTES (validate_native_coverage (ae_lib env)),
      native_array env ''agent-code-slice-ranking.v1'' ''code_evidence.agent_slice'' ''files'' 3 []]"

definition unregistered :: artifact_error where
  "unregistered = AContract ''Artifact Ref schema/type is not registered for capability input consumption''"

definition or_else :: "'a option \<Rightarrow> 'a option \<Rightarrow> 'a option" where
  "or_else a b = (case a of Some x \<Rightarrow> Some x | None \<Rightarrow> b)"

definition registered_contract :: "'f artifact_env \<Rightarrow> json \<Rightarrow> artifact_error + artifact_contract" where
  "registered_contract env artifact =
     (case (get_str artifact ''artifactSchema'', get_str artifact ''type'') of
        (Some schema, Some type) \<Rightarrow>
          ok_or (or_else (find_contract (repository_family env) schema type)
            (or_else (find_contract (diagnosis_family env) schema type)
            (or_else (find_contract (orientation_family env) schema type)
            (or_else (find_contract (advisory_family env) schema type)
            (or_else (find_contract (run_delivery_family env) schema type)
            (or_else (find_contract (method_decision_family env) schema type)
               (find_contract (native_code_family env) schema type))))))) unregistered
      | _ \<Rightarrow> Err unregistered)"

section \<open>One reference\<close>

definition validate_preflight_contract :: "json \<Rightarrow> string \<Rightarrow> artifact_contract \<Rightarrow> artifact_error + unit" where
  "validate_preflight_contract artifact expected_snapshot c =
     and_then (ensure (\<not> (jidx artifact ''artifactSchema'' \<noteq> JStr (ct_schema c) \<or> jidx artifact ''type'' \<noteq> JStr (ct_type c)))
       (AContract ''Artifact Ref schema/type differs from the expected input contract'')) (\<lambda>_.
     and_then (ok_or (as_str (jidx artifact ''consumedSnapshotIdentity''))
       (AContract ''capability input Artifact Ref requires consumedSnapshotIdentity'')) (\<lambda>consumed.
     ensure (consumed = expected_snapshot) (AContract ''Artifact Ref consumed snapshot identity mismatch'')))"

fun stable_read_error :: "stable_error \<Rightarrow> artifact_error" where
  "stable_read_error (SHostIo m) = AIo m"
| "stable_read_error (STooLarge m) = AContract m"
| "stable_read_error (SBoundary m) = AContract m"
| "stable_read_error (SIdentity m) = AContract m"

definition check_payload :: "'f artifact_env \<Rightarrow> artifact_contract \<Rightarrow> string \<Rightarrow> u8 list \<Rightarrow> artifact_error + unit" where
  "check_payload env c consumed bytes =
     (if ct_type c \<in> {''provider.sentrux.command-observation'', ''provider.sentrux.capability-artifact''} then
        and_then (map_err AContract (parse_contract_json (ae_lib env) bytes ''Sentrux artifact'')) (\<lambda>value.
        and_then (map_err AContract (if ct_type c = ''provider.sentrux.command-observation''
           then ae_command_observation env value else ae_capability_artifact env value)) (\<lambda>_.
        ensure (jidx value ''snapshotIdentity'' = JStr consumed)
          (AContract ''Sentrux artifact payload snapshot differs from its Artifact Ref'')))
      else map_err AContract (ct_validate c bytes))"

definition verify_artifact_ref ::
    "'f artifact_env \<Rightarrow> string \<Rightarrow> string \<Rightarrow> artifact_contract \<Rightarrow> json \<Rightarrow> 'f \<Rightarrow> artifact_error + verified_artifact" where
  "verify_artifact_ref env root expected_snapshot c artifact st =
     and_then (map_err AContract (validate_artifact_ref_shape artifact)) (\<lambda>_.
     and_then (validate_preflight_contract artifact expected_snapshot c) (\<lambda>_.
     let consumed = the (as_str (jidx artifact ''consumedSnapshotIdentity'')) in
     and_then (portable_relative_path (the (as_str (jidx artifact ''path'')))) (\<lambda>relative.
     and_then (map_err stable_read_error (ae_read_beneath env root (split_on (CHR ''/'') relative) (ct_max_bytes c) st)) (\<lambda>stable.
     let bytes = sr_bytes stable; actual = sha256_hex bytes in
     and_then (ensure (actual = the (as_str (jidx artifact ''sha256''))) (AContract ''Artifact Ref payload SHA-256 mismatch'')) (\<lambda>_.
     and_then (check_payload env c consumed bytes) (\<lambda>_.
     Ok \<lparr>va_bytes = bytes, va_schema = ct_schema c, va_type = ct_type c, va_sha256 = actual,
         va_consumed = consumed, va_file_id = sr_id stable\<rparr>))))))"

section \<open>All inputs\<close>

type_synonym preflight = "string list \<times> (string \<times> string) list \<times> (json \<times> artifact_contract) list"

definition preflight_step :: "'f artifact_env \<Rightarrow> string \<Rightarrow> json \<Rightarrow> preflight \<Rightarrow> artifact_error + preflight" where
  "preflight_step env expected_snapshot artifact acc =
     (case acc of (paths, identities, preflight) \<Rightarrow>
        and_then (map_err AContract (validate_artifact_ref_shape artifact)) (\<lambda>_.
        and_then (portable_relative_path (case get_str artifact ''path'' of Some p \<Rightarrow> p | None \<Rightarrow> [])) (\<lambda>canonical_path.
        let lowered = ae_to_lowercase env canonical_path in
        and_then (ensure (lowered \<notin> set paths)
          (AContract ''Artifact Ref inputs contain duplicate or case-colliding paths'')) (\<lambda>_.
        let identity = (case get_str artifact ''sha256'' of Some d \<Rightarrow> d | None \<Rightarrow> [], canonical_path) in
        and_then (ensure (identity \<notin> set identities) (AContract ''Artifact Ref inputs contain duplicate identities'')) (\<lambda>_.
        and_then (registered_contract env artifact) (\<lambda>c.
        and_then (validate_preflight_contract artifact expected_snapshot c) (\<lambda>_.
        Ok (lowered # paths, identity # identities, preflight @ [(artifact, c)]))))))))"

definition verify_step ::
    "'f artifact_env \<Rightarrow> string \<Rightarrow> string \<Rightarrow> 'f \<Rightarrow> json \<times> artifact_contract \<Rightarrow>
     (nat \<times> nat) list \<times> verified_artifact list \<Rightarrow> artifact_error + (nat \<times> nat) list \<times> verified_artifact list" where
  "verify_step env root expected_snapshot st entry acc =
     (case (entry, acc) of ((artifact, c), (stable_files, verified)) \<Rightarrow>
        and_then (verify_artifact_ref env root expected_snapshot c artifact st) (\<lambda>item.
        and_then (ensure (va_file_id item \<notin> set stable_files)
          (AContract ''Artifact Ref inputs alias the same stable file identity'')) (\<lambda>_.
        Ok (va_file_id item # stable_files, verified @ [item]))))"

definition verify_inputs ::
    "'f artifact_env \<Rightarrow> json \<Rightarrow> string option \<Rightarrow> string \<Rightarrow> 'f \<Rightarrow> artifact_error + verified_artifact list" where
  "verify_inputs env inputs artifact_root expected_snapshot st =
     and_then (ok_or (as_array inputs) (AContract ''request inputs must be an array'')) (\<lambda>items.
     if items = [] then Ok [] else
     and_then (ok_or artifact_root (AContract ''request with Artifact Ref inputs requires an explicit --artifact-root'')) (\<lambda>root.
     and_then (try_fold (preflight_step env expected_snapshot) items ([], [], [])) (\<lambda>(_, _, preflight).
     and_then (try_fold (verify_step env root expected_snapshot st) preflight ([], [])) (\<lambda>(_, verified).
     Ok verified))))"

end
