(* ===== verification/Artifact_Props.thy ===== *)
theory Artifact_Props
  imports Artifact_Ref
begin

text \<open>
  What verified inputs are worth: a request is accepted exactly when every reference is bound to the
  bytes that were read for it, beneath the root and within the limit of its contract.
\<close>

section \<open>One reference\<close>

lemma get_str_jidx: "get_str v k = as_str (jidx v k)"
  by (simp add: get_str_def jidx_def split: option.splits)

lemma ref_shape_strings:
  assumes "validate_artifact_ref_shape item = Inr u"
  obtains p d where "jidx item ''path'' = JStr p" "jidx item ''sha256'' = JStr d"
proof -
  from assms obtain o' where o': "as_object item = Some o'" "nonempty_str (bt_get o' ''path'')" "digest_value (jidx item ''sha256'')"
    unfolding validate_artifact_ref_shape_def and_then_eq_Inr ok_or_eq_Inr ensure_eq_Inr try_fold.simps by blast
  have "\<exists>p. jidx item ''path'' = JStr p"
    using o'(1,2) by (auto simp: nonempty_str_def as_object_eq as_str_eq jidx_def split: option.splits)
  moreover have "\<exists>d. jidx item ''sha256'' = JStr d"
    using o'(3) by (auto simp: digest_value_def as_str_eq split: option.splits)
  ultimately show thesis using that by blast
qed

text \<open>The path under which the item is compared with the others.\<close>

definition canonical_path :: "json \<Rightarrow> string" where
  "canonical_path item = join ''/'' (components (the (as_str (jidx item ''path''))))"

definition admissible_ref :: "'f artifact_env \<Rightarrow> string \<Rightarrow> json \<Rightarrow> artifact_contract \<Rightarrow> bool" where
  "admissible_ref env snapshot item c \<longleftrightarrow>
     validate_artifact_ref_shape item = Inr () \<and>
     portable_relative_path (the (as_str (jidx item ''path''))) = Inr (canonical_path item) \<and>
     registered_contract env item = Inr c \<and>
     jidx item ''artifactSchema'' = JStr (ct_schema c) \<and> jidx item ''type'' = JStr (ct_type c) \<and>
     jidx item ''consumedSnapshotIdentity'' = JStr snapshot"

definition bound_to_file ::
    "'f artifact_env \<Rightarrow> string \<Rightarrow> string \<Rightarrow> 'f \<Rightarrow> json \<Rightarrow> artifact_contract \<Rightarrow> verified_artifact \<Rightarrow> bool" where
  "bound_to_file env root snapshot st item c v \<longleftrightarrow>
     ae_read_beneath env root (components (canonical_path item)) (ct_max_bytes c) st
       = Inr \<lparr>sr_bytes = va_bytes v, sr_id = va_file_id v\<rparr> \<and>
     jidx item ''sha256'' = JStr (sha256_hex (va_bytes v)) \<and> check_payload env c snapshot (va_bytes v) = Inr () \<and>
     v = \<lparr>va_bytes = va_bytes v, va_schema = ct_schema c, va_type = ct_type c,
          va_sha256 = sha256_hex (va_bytes v), va_consumed = snapshot, va_file_id = va_file_id v\<rparr>"

lemma preflight_contract_Inr:
  "validate_preflight_contract item snapshot c = Inr u \<longleftrightarrow>
     jidx item ''artifactSchema'' = JStr (ct_schema c) \<and> jidx item ''type'' = JStr (ct_type c) \<and>
     jidx item ''consumedSnapshotIdentity'' = JStr snapshot"
  unfolding validate_preflight_contract_def and_then_eq_Inr ensure_eq_Inr ok_or_eq_Inr as_str_eq by auto

lemma portable_canonical:
  "portable_relative_path p = Inr q \<Longrightarrow> q = join ''/'' (components p) \<and> components q = components p
     \<and> split_on (CHR ''/'') q = components p"
  by (elim portable_path_Ok) (simp add: plain_components(1) plain_portable(2))

lemma portable_canonical_path:
  "portable_relative_path (the (as_str (jidx item ''path''))) = Inr p \<longleftrightarrow>
     p = canonical_path item \<and> portable_relative_path (the (as_str (jidx item ''path''))) = Inr (canonical_path item)"
  using portable_canonical [of "the (as_str (jidx item ''path''))" p] by (auto simp: canonical_path_def)

lemma canonical_split:
  "admissible_ref env snapshot item c \<Longrightarrow> split_on (CHR ''/'') (canonical_path item) = components (canonical_path item)"
  unfolding admissible_ref_def using portable_canonical by metis

lemma verify_ref_Inr:
  assumes "admissible_ref env snapshot item c"
  shows "verify_artifact_ref env root snapshot c item st = Inr v \<longleftrightarrow> bound_to_file env root snapshot st item c v"
proof -
  note adm = assms [unfolded admissible_ref_def]
  obtain p d where pd: "jidx item ''path'' = JStr p" "jidx item ''sha256'' = JStr d"
    using adm ref_shape_strings by blast
  have path: "portable_relative_path p = Inr (canonical_path item)"
    using adm unfolding pd(1) by simp
  have "verify_artifact_ref env root snapshot c item st =
      and_then (map_err stable_read_error
        (ae_read_beneath env root (components (canonical_path item)) (ct_max_bytes c) st)) (\<lambda>stable.
      and_then (ensure (sha256_hex (sr_bytes stable) = d) (AContract ''Artifact Ref payload SHA-256 mismatch'')) (\<lambda>_.
      and_then (check_payload env c snapshot (sr_bytes stable)) (\<lambda>_.
      Inr \<lparr>va_bytes = sr_bytes stable, va_schema = ct_schema c, va_type = ct_type c,
         va_sha256 = sha256_hex (sr_bytes stable), va_consumed = snapshot, va_file_id = sr_id stable\<rparr>)))"
    using adm pd canonical_split [OF assms] preflight_contract_Inr [of item snapshot c "()"]
    unfolding verify_artifact_ref_def by (simp add: Let_def path)
  then show ?thesis
    unfolding bound_to_file_def pd(2)
    by (cases v) (force simp: and_then_eq_Inr)
qed

text \<open>The same for a contract that is not looked up in the registry.\<close>

lemma verified_ref_parts:
  "verify_artifact_ref env root snapshot c item st = Inr v \<Longrightarrow> \<exists>q. validate_artifact_ref_shape item = Inr () \<and>
     validate_preflight_contract item snapshot c = Inr () \<and> portable_relative_path (the (as_str (jidx item ''path''))) = Inr q"
  unfolding verify_artifact_ref_def and_then_eq_Inr Let_def map_err_eq_Inr
  by (elim exE conjE, intro exI conjI; (assumption | simp))

lemma verified_ref_bound:
  assumes "verify_artifact_ref env root snapshot c item st = Inr v"
  shows "bound_to_file env root snapshot st item c v" "jidx item ''consumedSnapshotIdentity'' = JStr snapshot"
    "list_all plain_component (components (canonical_path item))"
proof -
  obtain q where shape: "validate_artifact_ref_shape item = Inr ()" and pre: "validate_preflight_contract item snapshot c = Inr ()"
    and "portable_relative_path (the (as_str (jidx item ''path''))) = Inr q"
    using verified_ref_parts [OF assms] by blast
  then have path: "portable_relative_path (the (as_str (jidx item ''path''))) = Inr (canonical_path item)"
    using portable_canonical_path [THEN iffD1] by blast
  obtain p d where pd: "jidx item ''path'' = JStr p" "jidx item ''sha256'' = JStr d"
    using shape ref_shape_strings by blast
  have path': "portable_relative_path p = Inr (canonical_path item)" using path pd(1) by simp
  have split: "split_on (CHR ''/'') (canonical_path item) = components (canonical_path item)"
    "list_all plain_component (components (canonical_path item))"
    using path by (metis portable_canonical, metis portable_path_Ok portable_canonical)
  note snap = pre [unfolded preflight_contract_Inr]
  have "verify_artifact_ref env root snapshot c item st =
      and_then (map_err stable_read_error
        (ae_read_beneath env root (components (canonical_path item)) (ct_max_bytes c) st)) (\<lambda>stable.
      and_then (ensure (sha256_hex (sr_bytes stable) = d) (AContract ''Artifact Ref payload SHA-256 mismatch'')) (\<lambda>_.
      and_then (check_payload env c snapshot (sr_bytes stable)) (\<lambda>_.
      Inr \<lparr>va_bytes = sr_bytes stable, va_schema = ct_schema c, va_type = ct_type c,
         va_sha256 = sha256_hex (sr_bytes stable), va_consumed = snapshot, va_file_id = sr_id stable\<rparr>)))"
    using shape pre pd split(1) snap unfolding verify_artifact_ref_def by (simp add: Let_def path')
  with assms show "bound_to_file env root snapshot st item c v"
    unfolding bound_to_file_def pd(2) by (cases v) (force simp: and_then_eq_Inr)
  show "jidx item ''consumedSnapshotIdentity'' = JStr snapshot" using snap by blast
  show "list_all plain_component (components (canonical_path item))" by (rule split(2))
qed

section \<open>The two passes\<close>

definition lowered_path :: "'f artifact_env \<Rightarrow> json \<Rightarrow> string" where
  "lowered_path env item = ae_to_lowercase env (canonical_path item)"

definition ref_identity_pair :: "json \<Rightarrow> string \<times> string" where
  "ref_identity_pair item = (case get_str item ''sha256'' of Some d \<Rightarrow> d | None \<Rightarrow> [], canonical_path item)"

lemma preflight_step_Inr:
  "preflight_step env snapshot item (paths, identities, preflight) = Inr acc \<longleftrightarrow>
     (\<exists>c. admissible_ref env snapshot item c \<and> lowered_path env item \<notin> set paths \<and>
        ref_identity_pair item \<notin> set identities \<and>
        acc = (lowered_path env item # paths, ref_identity_pair item # identities, preflight @ [(item, c)]))"
proof (cases "validate_artifact_ref_shape item")
  case (Inr u)
  let ?path = "portable_relative_path (the (as_str (jidx item ''path'')))"
  obtain p where p: "jidx item ''path'' = JStr p" by (rule ref_shape_strings [OF Inr])
  then have path: "portable_relative_path (case get_str item ''path'' of Some p \<Rightarrow> p | None \<Rightarrow> []) = ?path"
    by (simp add: get_str_jidx)
  show ?thesis
  proof (cases ?path)
    case (Inl e)
    then show ?thesis unfolding preflight_step_def prod.case path admissible_ref_def by (simp add: Inr)
  next
    case (Inr q)
    then have "?path = Inr (canonical_path item)" using portable_canonical_path by blast
    then show ?thesis
      unfolding preflight_step_def prod.case path and_then_eq_Inr ensure_eq_Inr map_err_eq_Inr Let_def
        preflight_contract_Inr admissible_ref_def lowered_path_def ref_identity_pair_def
      using \<open>validate_artifact_ref_shape item = Inr u\<close> by (cases u) auto
  qed
qed (simp add: preflight_step_def admissible_ref_def)

lemma preflight_Cons:
  "try_fold (preflight_step env snapshot) (item # items) (paths, identities, preflight) = Inr out \<longleftrightarrow>
     (\<exists>c. admissible_ref env snapshot item c \<and> lowered_path env item \<notin> set paths \<and>
        ref_identity_pair item \<notin> set identities \<and>
        try_fold (preflight_step env snapshot) items
          (lowered_path env item # paths, ref_identity_pair item # identities, preflight @ [(item, c)]) = Inr out)"
  unfolding try_fold.simps and_then_eq_Inr preflight_step_Inr by blast

text \<open>The identities are implied by the paths: they are remembered for nothing.\<close>

lemma preflight_fold:
  "try_fold (preflight_step env snapshot) items (paths, identities, preflight) = Inr (ps, ids, out) \<longleftrightarrow>
     (\<exists>cs. list_all2 (admissible_ref env snapshot) items cs \<and> out = preflight @ zip items cs) \<and>
     ps = rev (map (lowered_path env) items) @ paths \<and> ids = rev (map ref_identity_pair items) @ identities \<and>
     distinct (map (lowered_path env) items) \<and> set (map (lowered_path env) items) \<inter> set paths = {} \<and>
     distinct (map ref_identity_pair items) \<and> set (map ref_identity_pair items) \<inter> set identities = {}"
proof (induction items arbitrary: paths identities preflight)
  case (Cons item items)
  have "(\<exists>cs. list_all2 (admissible_ref env snapshot) (item # items) cs \<and> out = preflight @ zip (item # items) cs) \<longleftrightarrow>
      (\<exists>c. admissible_ref env snapshot item c \<and>
         (\<exists>cs. list_all2 (admissible_ref env snapshot) items cs \<and> out = (preflight @ [(item, c)]) @ zip items cs))"
    (is "?l \<longleftrightarrow> ?r")
  proof
    assume ?l then show ?r unfolding list_all2_Cons1 by force
  next
    assume ?r
    then obtain c cs where "list_all2 (admissible_ref env snapshot) (item # items) (c # cs)"
      "out = preflight @ zip (item # items) (c # cs)" by auto
    then show ?l by blast
  qed
  then show ?case unfolding preflight_Cons Cons.IH by auto
qed auto

lemma verify_step_Inr:
  assumes "admissible_ref env snapshot item c"
  shows "verify_step env root snapshot st (item, c) (files, vs) = Inr acc \<longleftrightarrow>
     (\<exists>v. bound_to_file env root snapshot st item c v \<and> va_file_id v \<notin> set files \<and>
        acc = (va_file_id v # files, vs @ [v]))"
  unfolding verify_step_def prod.case and_then_eq_Inr ensure_eq_Inr verify_ref_Inr [OF assms] by auto

lemma verify_fold:
  assumes "list_all2 (admissible_ref env snapshot) items cs"
  shows "try_fold (verify_step env root snapshot st) (zip items cs) (files, vs) = Inr (files', vs') \<longleftrightarrow>
     (\<exists>new. vs' = vs @ new \<and> files' = rev (map va_file_id new) @ files \<and>
        list_all2 (\<lambda>(item, c). bound_to_file env root snapshot st item c) (zip items cs) new \<and>
        distinct (map va_file_id new) \<and> set (map va_file_id new) \<inter> set files = {})"
  using assms
proof (induction items cs arbitrary: files vs rule: list_all2_induct)
  case (Cons item items c cs)
  have "try_fold (verify_step env root snapshot st) (zip (item # items) (c # cs)) (files, vs) = Inr (files', vs') \<longleftrightarrow>
      (\<exists>v. bound_to_file env root snapshot st item c v \<and> va_file_id v \<notin> set files \<and>
        try_fold (verify_step env root snapshot st) (zip items cs) (va_file_id v # files, vs @ [v]) = Inr (files', vs'))"
    unfolding zip_Cons_Cons try_fold.simps and_then_eq_Inr verify_step_Inr [OF Cons.hyps(1)] by blast
  then show ?case unfolding Cons.IH zip_Cons_Cons list_all2_Cons1 by fastforce
qed auto

section \<open>All inputs\<close>

lemma admissible_plain:
  "admissible_ref env snapshot item c \<Longrightarrow> list_all plain_component (components (canonical_path item))"
  unfolding admissible_ref_def by (metis portable_path_Ok portable_canonical)

lemma admissible_distinct:
  "list_all2 (admissible_ref env snapshot) items cs \<Longrightarrow> distinct (map (lowered_path env) items) \<Longrightarrow>
     distinct (map ref_identity_pair items)"
  by (induction rule: list_all2_induct) (auto simp: lowered_path_def ref_identity_pair_def image_iff)

lemma verify_inputs_Inr:
  "verify_inputs env inputs root snapshot st = Inr verified \<longleftrightarrow>
     (\<exists>items. as_array inputs = Some items \<and>
       (if items = [] then verified = []
        else \<exists>r cs. root = Some r \<and> list_all2 (admissible_ref env snapshot) items cs \<and>
          list_all (\<lambda>item. list_all plain_component (components (canonical_path item))) items \<and>
          list_all2 (\<lambda>(item, c). bound_to_file env r snapshot st item c) (zip items cs) verified \<and>
          distinct (map (lowered_path env) items) \<and> distinct (map va_file_id verified)))"
proof (cases "as_array inputs")
  case (Some items)
  have fold: "(case root of Some r \<Rightarrow> \<exists>cs. list_all2 (admissible_ref env snapshot) items cs \<and>
          list_all2 (\<lambda>(item, c). bound_to_file env r snapshot st item c) (zip items cs) verified \<and>
          distinct (map (lowered_path env) items) \<and> distinct (map va_file_id verified) | None \<Rightarrow> False) \<longleftrightarrow>
      verify_inputs env inputs root snapshot st = Inr verified" if "items \<noteq> []"
  proof (cases root)
    case (Some r)
    have "verify_inputs env inputs root snapshot st = Inr verified \<longleftrightarrow>
        (\<exists>cs. list_all2 (admissible_ref env snapshot) items cs \<and>
           distinct (map (lowered_path env) items) \<and> distinct (map ref_identity_pair items) \<and>
           (\<exists>files. try_fold (verify_step env r snapshot st) (zip items cs) ([], []) = Inr (files, verified)))"
      unfolding verify_inputs_def \<open>as_array inputs = Some items\<close> Some using that
      by (force simp: and_then_eq_Inr preflight_fold)
    then show ?thesis
      using Some verify_fold [of env snapshot items _ r st "[]" "[]"] admissible_distinct by fastforce
  qed (simp add: verify_inputs_def \<open>as_array inputs = Some items\<close> that)
  show ?thesis
  proof (cases "items = []")
    case True
    then show ?thesis by (auto simp: verify_inputs_def Some)
  next
    case False
    have "list_all (\<lambda>item. list_all plain_component (components (canonical_path item))) items"
      if "list_all2 (admissible_ref env snapshot) items cs" for cs
      using that by (induction rule: list_all2_induct) (simp_all add: admissible_plain)
    then show ?thesis unfolding fold [OF False, symmetric] using False Some by (auto split: option.splits)
  qed
qed (simp add: verify_inputs_def)

text \<open>C12: the inputs of a request are accepted exactly when it has none, or an artifact root is given
  and every reference names a registered contract and the request's snapshot, has a portable path of
  plain components (no root, no dots, no separator of another platform), and carries the SHA-256 of the
  very bytes that were read beneath the root at that path within the contract's limit, which pass the
  contract's validator; no two paths differ by case only and no two references reach the same file.
  What is handed on is these bytes, in order, under that digest.\<close>

theorem verified_inputs_bound:
  "verify_inputs env inputs root snapshot st = Inr verified \<longleftrightarrow>
     (\<exists>items. as_array inputs = Some items \<and>
       (if items = [] then verified = []
        else \<exists>r cs. root = Some r \<and> list_all2 (admissible_ref env snapshot) items cs \<and>
          list_all (\<lambda>item. list_all plain_component (components (canonical_path item))) items \<and>
          list_all2 (\<lambda>(item, c). bound_to_file env r snapshot st item c) (zip items cs) verified \<and>
          distinct (map (lowered_path env) items) \<and> distinct (map va_file_id verified)))"
  by (rule verify_inputs_Inr)

end
