(* ===== verification/Run_Commit.thy ===== *)
theory Run_Commit
  imports Artifact_Props
begin

text \<open>
  The reading half of the run commit (crates/code-intel-cli/src/run\_commit.rs): names, the manifest and
  its references, the checks before a publication, the completion marker and the validation of a
  committed run.  The changes to the file system are in \<open>Run_Publish\<close>.
\<close>

datatype publication_phase =
  Prevalidate | Rename | DirectorySync | MarkerTemp | MarkerPublish | PostMarkerVerify | Rollback

datatype commit_error =
  CContract string | CCollision string | CInterrupted publication_phase | CHostIo string

definition MAX_MANIFEST_BYTES :: nat where "MAX_MANIFEST_BYTES = 8 * 1024 * 1024"

definition MAX_MARKER_BYTES :: nat where "MAX_MARKER_BYTES = 64 * 1024"

fun commit_stable_error :: "stable_error \<Rightarrow> commit_error" where
  "commit_stable_error (SHostIo m) = CHostIo m"
| "commit_stable_error (STooLarge m) = CContract m"
| "commit_stable_error (SBoundary m) = CContract m"
| "commit_stable_error (SIdentity m) = CContract m"

definition validate_final_name :: "string \<Rightarrow> commit_error + unit" where
  "validate_final_name name =
     (if name = [] \<or> name = ''.'' \<or> name = ''..'' \<or> list_ex (\<lambda>c. c \<in> {CHR ''/'', CHR 0x5C}) name \<or>
         starts_with name ''.'' \<or> contains_str name ''staging''
      then Err (CContract ''final run name is invalid'') else Ok ())"

section \<open>Reading a manifest\<close>

definition from_slice :: "json_lib \<Rightarrow> u8 list \<Rightarrow> string + json" where
  "from_slice lib bytes = and_then (jl_from_utf8 lib bytes) (jl_from_str lib)"

definition validate_run_manifest_bytes :: "json_lib \<Rightarrow> u8 list \<Rightarrow> string + unit" where
  "validate_run_manifest_bytes lib bytes =
     and_then (ensure (\<not> length bytes > MAX_MANIFEST_BYTES) ''run manifest exceeds size limit'') (\<lambda>_.
     and_then (map_err (\<lambda>_. ''run manifest is not UTF-8'') (jl_from_utf8 lib bytes)) (\<lambda>t.
     and_then (the (reject_duplicate_json_keys (jl_key lib) t)) (\<lambda>_.
     and_then (map_err (\<lambda>_. ''run manifest is invalid JSON'') (jl_from_str lib t)) commit_run_manifest)))"

definition read_manifest_stable :: "'f artifact_env \<Rightarrow> string \<Rightarrow> json \<Rightarrow> 'f \<Rightarrow> commit_error + json \<times> u8 list" where
  "read_manifest_stable env root manifest_ref st =
     and_then (map_err CContract (validate_artifact_ref_shape manifest_ref)) (\<lambda>_.
     and_then (ok_or (as_str (jidx manifest_ref ''path'')) (CContract ''run manifest path is invalid'')) (\<lambda>p.
     and_then (map_err commit_stable_error (ae_read_beneath env root (split_on (CHR ''/'') p) MAX_MANIFEST_BYTES st)) (\<lambda>stable.
     let digest = sha256_hex (sr_bytes stable) in
     and_then (ensure (\<not> jidx manifest_ref ''sha256'' \<noteq> JStr digest) (CContract ''run manifest digest mismatch'')) (\<lambda>_.
     and_then (map_err CContract (validate_run_manifest_bytes (ae_lib env) (sr_bytes stable))) (\<lambda>_.
     and_then (map_err (\<lambda>_. CContract ''run manifest is invalid JSON'') (from_slice (ae_lib env) (sr_bytes stable))) (\<lambda>manifest.
     Ok (manifest, sr_bytes stable)))))))"

definition read_manifest :: "'f artifact_env \<Rightarrow> string \<Rightarrow> json \<Rightarrow> 'f \<Rightarrow> commit_error + json" where
  "read_manifest env root manifest_ref st =
     and_then (read_manifest_stable env root manifest_ref st) (\<lambda>(manifest, _). Ok manifest)"

text \<open>The manifest has been validated: it has nodes, and those with a result have artifacts.\<close>

definition has_artifacts :: "json \<Rightarrow> bool" where
  "has_artifacts node \<longleftrightarrow> jidx node ''status'' = JStr ''succeeded'' \<or> jidx node ''status'' = JStr ''domain_failed''"

definition push_ref :: "json \<Rightarrow> json list \<Rightarrow> commit_error + json list" where
  "push_ref item refs = and_then (map_err CContract (validate_artifact_ref_shape item)) (\<lambda>_. Ok (refs @ [item]))"

definition manifest_artifact_refs :: "json \<Rightarrow> commit_error + json list" where
  "manifest_artifact_refs manifest =
     try_fold (\<lambda>node refs. if has_artifacts node
         then try_fold push_ref (the (as_array (jidx node ''artifacts''))) refs else Ok refs)
       (bt_values (the (as_object (jidx manifest ''nodes'')))) []"

definition ref_identity :: "json \<Rightarrow> commit_error + string \<times> string \<times> string \<times> string" where
  "ref_identity value =
     and_then (map_err CContract (validate_artifact_ref_shape value)) (\<lambda>_.
     Ok (the (as_str (jidx value ''path'')), the (as_str (jidx value ''sha256'')),
         the (as_str (jidx value ''artifactSchema'')), the (as_str (jidx value ''type''))))"

section \<open>Before a publication\<close>

definition prevalidate_refs :: "'f artifact_env \<Rightarrow> string \<Rightarrow> json list \<Rightarrow> json \<Rightarrow> 'f \<Rightarrow> commit_error + json" where
  "prevalidate_refs env root refs manifest_ref st =
     and_then (map_err CContract (validate_artifact_ref_shape manifest_ref)) (\<lambda>_.
     and_then (ensure (\<not> (jidx manifest_ref ''artifactSchema'' \<noteq> JStr ''code-intel-run-manifest.v1'' \<or>
         jidx manifest_ref ''type'' \<noteq> JStr ''run.manifest'')) (CContract ''run manifest Artifact Ref contract is invalid'')) (\<lambda>_.
     and_then (read_manifest env root manifest_ref st) (\<lambda>manifest.
     let snapshot = the (as_str (jidx manifest ''snapshotIdentity'')) in
     and_then (ensure (\<not> jidx manifest_ref ''consumedSnapshotIdentity'' \<noteq> JStr snapshot)
       (CContract ''run manifest Artifact Ref snapshot does not match the manifest'')) (\<lambda>_.
     and_then (manifest_artifact_refs manifest) (\<lambda>manifest_refs.
     and_then (try_map ref_identity (filter (\<lambda>item. item \<noteq> manifest_ref) refs)) (\<lambda>declared_non_manifest.
     and_then (try_map ref_identity manifest_refs) (\<lambda>manifest_identities.
     and_then (ensure (\<not> (length (remdups declared_non_manifest) \<noteq> length (filter (\<lambda>item. item \<noteq> manifest_ref) refs) \<or>
         length (remdups manifest_identities) \<noteq> length manifest_refs))
       (CContract ''run publication contains duplicate Artifact Refs'')) (\<lambda>_.
     and_then (ensure (\<not> set declared_non_manifest \<noteq> set manifest_identities)
       (CContract ''staged Artifact Refs do not exactly match the complete run manifest'')) (\<lambda>_.
     and_then (map_err (\<lambda>e. CContract (artifact_message e))
       (verify_inputs env (JArr manifest_refs) (Some root) snapshot st)) (\<lambda>_.
     Ok manifest))))))))))"

definition prevalidate_existing :: "'f artifact_env \<Rightarrow> string \<Rightarrow> json \<Rightarrow> 'f \<Rightarrow> commit_error + json" where
  "prevalidate_existing env root manifest_ref st =
     and_then (read_manifest env root manifest_ref st) (\<lambda>manifest.
     and_then (manifest_artifact_refs manifest) (\<lambda>refs.
     prevalidate_refs env root (refs @ [manifest_ref]) manifest_ref st))"

definition prevalidate :: "'f artifact_env \<Rightarrow> json list \<Rightarrow> string \<Rightarrow> json \<Rightarrow> 'f \<Rightarrow> commit_error + json" where
  "prevalidate env declared root manifest_ref st =
     and_then (ensure (list_ex (\<lambda>item. item = manifest_ref) declared)
       (CContract ''run manifest Artifact Ref is not owned by the staged set'')) (\<lambda>_.
     prevalidate_refs env root declared manifest_ref st)"

section \<open>The completion marker\<close>

definition marker_of :: "json \<Rightarrow> json \<Rightarrow> json" where
  "marker_of manifest manifest_ref =
     jobj [(''schema'', JStr ''code-intel-run-commit.v1''),
       (''runIdentity'', jidx manifest ''runIdentity''),
       (''snapshotIdentity'', jidx manifest ''snapshotIdentity''),
       (''manifest'', jobj [(''path'', jidx manifest_ref ''path''), (''sha256'', jidx manifest_ref ''sha256'')])]"

definition marker_manifest_ref :: "json \<Rightarrow> json" where
  "marker_manifest_ref marker =
     jobj [(''schema'', JStr ''code-intel-artifact-ref.v1''),
       (''artifactSchema'', JStr ''code-intel-run-manifest.v1''),
       (''type'', JStr ''run.manifest''),
       (''path'', jidx (jidx marker ''manifest'') ''path''),
       (''sha256'', jidx (jidx marker ''manifest'') ''sha256''),
       (''consumedSnapshotIdentity'', jidx marker ''snapshotIdentity'')]"

definition parse_marker :: "json_lib \<Rightarrow> u8 list \<Rightarrow> commit_error + json" where
  "parse_marker lib bytes =
     and_then (map_err (\<lambda>_. CContract ''completion marker is not UTF-8'') (jl_from_utf8 lib bytes)) (\<lambda>t.
     and_then (map_err CContract (the (reject_duplicate_json_keys (jl_key lib) t))) (\<lambda>_.
     map_err (\<lambda>_. CContract ''completion marker is invalid JSON'') (jl_from_str lib t)))"

definition validate_published_marker :: "'f artifact_env \<Rightarrow> string \<Rightarrow> 'f \<Rightarrow> commit_error + json" where
  "validate_published_marker env root st =
     and_then (map_err commit_stable_error (ae_read_beneath env root [''run-complete.json''] MAX_MARKER_BYTES st)) (\<lambda>stable.
     and_then (parse_marker (ae_lib env) (sr_bytes stable)) (\<lambda>marker.
     and_then (map_err CContract (commit_exact marker [''schema'', ''runIdentity'', ''snapshotIdentity'', ''manifest''] ''completion marker'')) (\<lambda>_.
     and_then (map_err CContract (commit_exact (jidx marker ''manifest'') [''path'', ''sha256''] ''completion marker manifest'')) (\<lambda>_.
     and_then (ensure (\<not> (jidx marker ''schema'' \<noteq> JStr ''code-intel-run-commit.v1'' \<or>
         \<not> text_is is_run_identity (jidx marker ''runIdentity'') \<or>
         \<not> text_is is_digest (jidx marker ''snapshotIdentity'') \<or>
         \<not> text_is is_digest (jidx (jidx marker ''manifest'') ''sha256'')))
       (CContract ''completion marker fields are invalid'')) (\<lambda>_.
     and_then (read_manifest env root (marker_manifest_ref marker) st) (\<lambda>manifest.
     and_then (ensure (\<not> (jidx manifest ''runIdentity'' \<noteq> jidx marker ''runIdentity'' \<or>
         jidx manifest ''snapshotIdentity'' \<noteq> jidx marker ''snapshotIdentity''))
       (CContract ''completion marker identity does not bind the run manifest'')) (\<lambda>_.
     Ok marker)))))))"

definition validate_committed_run :: "'f artifact_env \<Rightarrow> string \<Rightarrow> 'f \<Rightarrow> commit_error + json \<times> json" where
  "validate_committed_run env root st =
     and_then (validate_published_marker env root st) (\<lambda>marker.
     and_then (prevalidate_existing env root (marker_manifest_ref marker) st) (\<lambda>manifest.
     Ok (marker, manifest)))"

definition classify :: "'f artifact_env \<Rightarrow> (string \<Rightarrow> 'f \<Rightarrow> bool) \<Rightarrow> string \<Rightarrow> 'f \<Rightarrow> string" where
  "classify env is_dir p st =
     (if case path_file_name (components p) of None \<Rightarrow> False
         | Some name \<Rightarrow> starts_with name ''.staging'' \<or> starts_with name ''stage-'' \<or> contains_str name ''.staging-''
      then ''staged''
      else case validate_published_marker env p st of
         Inr _ \<Rightarrow> ''committed''
       | Inl _ \<Rightarrow> if is_dir p st then ''legacy-uncommitted'' else ''invalid'')"

end
