(* ===== verification/Effect.thy ===== *)
theory Effect
  imports Prelude
begin

text \<open>
  Fallible actions on a state: the result, an error on the left, and the state that is left behind
  either way.  \<open>bind_act\<close> is the \<open>?\<close> operator on them.
\<close>

type_synonym ('s, 'e, 'a) act = "'s \<Rightarrow> ('e + 'a) \<times> 's"

definition ret :: "'a \<Rightarrow> ('s, 'e, 'a) act" where
  "ret x s = (Inr x, s)"

definition fail :: "'e \<Rightarrow> ('s, 'e, 'a) act" where
  "fail e s = (Inl e, s)"

definition bind_act :: "('s, 'e, 'a) act \<Rightarrow> ('a \<Rightarrow> ('s, 'e, 'b) act) \<Rightarrow> ('s, 'e, 'b) act" where
  "bind_act m f s = (case m s of (Inl e, s') \<Rightarrow> (Inl e, s') | (Inr x, s') \<Rightarrow> f x s')"

text \<open>A check, a look at the state, an update, an action with its error mapped, and an action whose
  result is inspected.\<close>

definition check :: "'e + 'a \<Rightarrow> ('s, 'e, 'a) act" where
  "check r s = (r, s)"

definition look_at :: "('s \<Rightarrow> 'e + 'a) \<Rightarrow> ('s, 'e, 'a) act" where
  "look_at f s = (f s, s)"

definition modify :: "('s \<Rightarrow> 's) \<Rightarrow> ('s, 'e, unit) act" where
  "modify f s = (Inr (), f s)"

definition update :: "('s \<Rightarrow> 'a \<times> 's) \<Rightarrow> ('s, 'e, 'a) act" where
  "update f s = (case f s of (x, s') \<Rightarrow> (Inr x, s'))"

definition map_err_act :: "('e \<Rightarrow> 'e') \<Rightarrow> ('s, 'e, 'a) act \<Rightarrow> ('s, 'e', 'a) act" where
  "map_err_act f m s = (case m s of (r, s') \<Rightarrow> (map_err f r, s'))"

definition attempt :: "('s, 'e, 'a) act \<Rightarrow> ('s, 'e', 'e + 'a) act" where
  "attempt m s = (case m s of (r, s') \<Rightarrow> (Inr r, s'))"

text \<open>What is done before an error is returned.\<close>

definition or_undo :: "('s, 'e, 'a) act \<Rightarrow> ('s \<Rightarrow> 's) \<Rightarrow> ('s, 'e, 'a) act" where
  "or_undo m undo s = (case m s of (Inl e, s') \<Rightarrow> (Inl e, undo s') | (Inr x, s') \<Rightarrow> (Inr x, s'))"

text \<open>An action on the second component of the state.\<close>

definition on_snd :: "('s, 'e, 'a) act \<Rightarrow> ('w \<times> 's, 'e, 'a) act" where
  "on_snd m ws = (case m (snd ws) of (r, s') \<Rightarrow> (r, (fst ws, s')))"

lemma bind_act_Inr [result_simps]:
  "bind_act m f s = (Inr y, s'') \<longleftrightarrow> (\<exists>x s'. m s = (Inr x, s') \<and> f x s' = (Inr y, s''))"
  by (auto simp: bind_act_def split: prod.splits sum.splits)

lemma bind_act_Inl [result_simps]:
  "bind_act m f s = (Inl e, s'') \<longleftrightarrow> m s = (Inl e, s'') \<or> (\<exists>x s'. m s = (Inr x, s') \<and> f x s' = (Inl e, s''))"
  by (auto simp: bind_act_def split: prod.splits sum.splits)

lemma act_simps [simp]:
  "ret x s = (r, s') \<longleftrightarrow> r = Inr x \<and> s' = s"
  "fail e s = (r, s') \<longleftrightarrow> r = Inl e \<and> s' = s"
  "check r' s = (r, s') \<longleftrightarrow> r' = r \<and> s' = s"
  "look_at g s = (r, s') \<longleftrightarrow> g s = r \<and> s' = s"
  "modify h s = (r'', s') \<longleftrightarrow> r'' = Inr () \<and> s' = h s"
  by (auto simp: ret_def fail_def check_def look_at_def modify_def)

lemma map_err_act_Inr [simp, result_simps]: "map_err_act f m s = (Inr x, s') \<longleftrightarrow> m s = (Inr x, s')"
  by (auto simp: map_err_act_def split: prod.splits)

lemma map_err_act_Inl [result_simps]: "map_err_act f m s = (Inl e, s') \<longleftrightarrow> (\<exists>e'. m s = (Inl e', s') \<and> e = f e')"
  by (auto simp: map_err_act_def map_err_def split: prod.splits sum.splits)

lemma attempt_Inr [simp, result_simps]: "attempt m s = (Inr r, s') \<longleftrightarrow> m s = (r, s')"
  by (auto simp: attempt_def split: prod.splits)

lemma attempt_Inl [simp]: "attempt m s \<noteq> (Inl e, s')"
  by (auto simp: attempt_def split: prod.splits)

lemma update_eq [simp]: "update f s = (r, s') \<longleftrightarrow> (\<exists>x. f s = (x, s') \<and> r = Inr x)"
  by (auto simp: update_def split: prod.splits)

lemma or_undo_Inr [simp, result_simps]: "or_undo m undo s = (Inr x, s') \<longleftrightarrow> m s = (Inr x, s')"
  by (auto simp: or_undo_def split: prod.splits sum.splits)

lemma or_undo_Inl [result_simps]: "or_undo m undo s = (Inl e, s'') \<longleftrightarrow> (\<exists>s'. m s = (Inl e, s') \<and> s'' = undo s')"
  by (auto simp: or_undo_def split: prod.splits sum.splits)

lemma on_snd_eq [simp, result_simps]: "on_snd m (w, s) = (r, (w', s')) \<longleftrightarrow> w' = w \<and> m s = (r, s')"
  by (auto simp: on_snd_def split: prod.splits)

text \<open>Relations between the state before and after that every action of a sequence respects.\<close>

definition keeps :: "('s \<Rightarrow> 's \<Rightarrow> bool) \<Rightarrow> ('s, 'e, 'a) act \<Rightarrow> bool" where
  "keeps R m \<longleftrightarrow> (\<forall>s r s'. m s = (r, s') \<longrightarrow> R s s')"

lemma keepsD: "keeps R m \<Longrightarrow> m s = (r, s') \<Longrightarrow> R s s'"
  by (auto simp: keeps_def)

lemma keeps_bind [intro]: "\<lbrakk>transp R; keeps R m; \<And>x. keeps R (f x)\<rbrakk> \<Longrightarrow> keeps R (bind_act m f)"
  unfolding keeps_def by (auto simp: bind_act_def split: prod.splits sum.splits) (metis transpD)+

lemma keeps_pure [intro]:
  assumes "reflp R"
  shows "keeps R (ret x)" "keeps R (fail e)" "keeps R (check r)" "keeps R (look_at g)"
  using assms by (auto simp: keeps_def reflp_def)

lemma keeps_map_err [intro]: "keeps R m \<Longrightarrow> keeps R (map_err_act f m)"
  by (auto simp: keeps_def map_err_act_def split: prod.splits)

lemma keeps_attempt [intro]: "keeps R m \<Longrightarrow> keeps R (attempt m)"
  by (auto simp: keeps_def attempt_def split: prod.splits)

end
