(* ===== verification/Staged_Artifact.thy ===== *)
theory Staged_Artifact
  imports Effect Artifact_Ref
begin

text \<open>
  Staging of artifacts (crates/code-intel-cli/src/staged\_artifact.rs): a writer owns a fresh directory
  beneath \<open>.staging\<close>, stores every artifact under its SHA-256, and removes what it owns when it fails or
  is dropped.  The record \<open>platform\<close> holds the system calls of the platform modules, on a state of the
  file system; open handles are numbers.
\<close>

section \<open>The platform\<close>

datatype io_kind = NotFound | AlreadyExists | NotADirectory | InvalidInput | DirectoryNotEmpty | PermissionDenied | OtherKind

type_synonym io_error = "io_kind \<times> string"

type_synonym file_id = "nat \<times> nat"

record 'f platform =
  pf_open_directory :: "string \<Rightarrow> ('f, io_error, nat) act"
  pf_open_child_directory :: "nat \<Rightarrow> string \<Rightarrow> string \<Rightarrow> ('f, io_error, nat) act"
  pf_create_directory :: "nat \<Rightarrow> string \<Rightarrow> string \<Rightarrow> ('f, io_error, unit) act"
  pf_create_new_file :: "nat \<Rightarrow> string \<Rightarrow> string \<Rightarrow> ('f, io_error, nat) act"
  pf_open_new :: "string \<Rightarrow> ('f, io_error, nat) act"
  pf_write_all :: "nat \<Rightarrow> u8 list \<Rightarrow> ('f, io_error, unit) act"
  pf_sync_all :: "nat \<Rightarrow> ('f, io_error, unit) act"
  pf_publish_no_replace :: "nat \<Rightarrow> string \<Rightarrow> string \<Rightarrow> string \<Rightarrow> ('f, io_error, unit) act"
  pf_remove_child :: "nat \<Rightarrow> string \<Rightarrow> string \<Rightarrow> ('f, io_error, unit) act"
  pf_sync_directory :: "nat \<Rightarrow> ('f, io_error, unit) act"
  pf_renameat2 :: "string \<Rightarrow> string \<Rightarrow> ('f, io_error, unit) act"
  pf_remove_file :: "string \<Rightarrow> ('f, io_error, unit) act"
  pf_remove_dir :: "string \<Rightarrow> ('f, io_error, unit) act"
  pf_volume_identity :: "nat \<Rightarrow> 'f \<Rightarrow> io_error + nat"
  pf_file_identity :: "nat \<Rightarrow> 'f \<Rightarrow> io_error + file_id"
  pf_open_file_identity :: "string \<Rightarrow> 'f \<Rightarrow> io_error + file_id"
  pf_nonce_sequence :: "'f \<Rightarrow> nat \<times> 'f"
  pf_marker_sequence :: "'f \<Rightarrow> nat \<times> 'f"
  pf_now_nanos :: "'f \<Rightarrow> string + nat"
  pf_process_id :: nat
  pf_read_beneath :: "string \<Rightarrow> string list \<Rightarrow> nat \<Rightarrow> 'f \<Rightarrow> stable_error + stable_read"

text \<open>\<open>Path::join\<close> with a name, which is not absolute.\<close>

definition path_push :: "string \<Rightarrow> string \<Rightarrow> string" where
  "path_push p name = (if p = [] \<or> last p = CHR ''/'' then p @ name else p @ ''/'' @ name)"

section \<open>Errors\<close>

datatype interrupt_after = StageCreated | TempCreated | FileSynced | ObjectPublished | DirectorySynced

datatype stage_error = StContract string | StBoundary string | StCollision string | StInterrupted interrupt_after | StHostIo string

fun interrupt_debug :: "interrupt_after \<Rightarrow> string" where
  "interrupt_debug StageCreated = ''StageCreated''"
| "interrupt_debug TempCreated = ''TempCreated''"
| "interrupt_debug FileSynced = ''FileSynced''"
| "interrupt_debug ObjectPublished = ''ObjectPublished''"
| "interrupt_debug DirectorySynced = ''DirectorySynced''"

fun stage_message :: "stage_error \<Rightarrow> string" where
  "stage_message (StContract m) = m"
| "stage_message (StBoundary m) = m"
| "stage_message (StCollision m) = m"
| "stage_message (StHostIo m) = m"
| "stage_message (StInterrupted p) = ''injected interruption after '' @ interrupt_debug p"

fun stage_kind :: "stage_error \<Rightarrow> string" where
  "stage_kind (StContract _) = ''contract''"
| "stage_kind (StBoundary _) = ''boundary''"
| "stage_kind (StCollision _) = ''collision''"
| "stage_kind (StInterrupted _) = ''interrupted''"
| "stage_kind (StHostIo _) = ''host_io''"

definition stage_io :: "string \<Rightarrow> string \<Rightarrow> io_error \<Rightarrow> stage_error" where
  "stage_io action p e = StHostIo (action @ '' '' @ p @ '': '' @ snd e)"

definition classify_open_error :: "string \<Rightarrow> string \<Rightarrow> io_error \<Rightarrow> stage_error" where
  "classify_open_error action p e =
     (let message = action @ '' '' @ p @ '': '' @ snd e in
      if fst e \<in> {NotFound, NotADirectory, InvalidInput} then StBoundary message else StHostIo message)"

fun stage_stable_error :: "stable_error \<Rightarrow> stage_error" where
  "stage_stable_error (STooLarge m) = StContract m"
| "stage_stable_error (SBoundary m) = StBoundary m"
| "stage_stable_error (SIdentity m) = StBoundary m"
| "stage_stable_error (SHostIo m) = StHostIo m"

section \<open>Held directories\<close>

record held_dir =
  hd_path :: string
  hd_handle :: nat

datatype publish_error = Exists | PublishIo stage_error

definition open_root :: "'f platform \<Rightarrow> string \<Rightarrow> ('f, stage_error, held_dir) act" where
  "open_root pf p =
     bind_act (map_err_act (classify_open_error ''open staging authority'' p) (pf_open_directory pf p)) (\<lambda>handle.
     ret \<lparr>hd_path = p, hd_handle = handle\<rparr>)"

definition open_child :: "'f platform \<Rightarrow> held_dir \<Rightarrow> string \<Rightarrow> ('f, stage_error, held_dir) act" where
  "open_child pf d name =
     (let p = path_push (hd_path d) name in
      bind_act (map_err_act (classify_open_error ''open staging directory'' p)
        (pf_open_child_directory pf (hd_handle d) p name)) (\<lambda>handle.
      ret \<lparr>hd_path = p, hd_handle = handle\<rparr>))"

definition ensure_child :: "'f platform \<Rightarrow> held_dir \<Rightarrow> string \<Rightarrow> ('f, stage_error, held_dir) act" where
  "ensure_child pf d name =
     bind_act (attempt (pf_create_directory pf (hd_handle d) (hd_path d) name)) (\<lambda>r.
     case r of
       Inl e \<Rightarrow> if fst e = AlreadyExists then open_child pf d name
         else fail (stage_io ''create staging directory'' (path_push (hd_path d) name) e)
     | Inr _ \<Rightarrow> open_child pf d name)"

definition create_unique_child :: "'f platform \<Rightarrow> held_dir \<Rightarrow> string \<Rightarrow> ('f, stage_error, held_dir) act" where
  "create_unique_child pf d name =
     bind_act (attempt (pf_create_directory pf (hd_handle d) (hd_path d) name)) (\<lambda>r.
     case r of
       Inr _ \<Rightarrow> open_child pf d name
     | Inl e \<Rightarrow> if fst e = AlreadyExists then fail (StCollision (''staging nonce collision: '' @ path_push (hd_path d) name))
         else fail (stage_io ''create owned staging directory'' (path_push (hd_path d) name) e))"

definition create_staged_file :: "'f platform \<Rightarrow> held_dir \<Rightarrow> string \<Rightarrow> ('f, stage_error, nat) act" where
  "create_staged_file pf d name =
     map_err_act (stage_io ''create staged artifact temporary'' (path_push (hd_path d) name))
       (pf_create_new_file pf (hd_handle d) (hd_path d) name)"

definition publish_no_replace :: "'f platform \<Rightarrow> held_dir \<Rightarrow> string \<Rightarrow> string \<Rightarrow> ('f, publish_error, unit) act" where
  "publish_no_replace pf d source target =
     map_err_act (\<lambda>e. if fst e = AlreadyExists then Exists
         else PublishIo (stage_io ''publish staged content-addressed object'' (path_push (hd_path d) target) e))
       (pf_publish_no_replace pf (hd_handle d) (hd_path d) source target)"

definition remove_owned_file :: "'f platform \<Rightarrow> held_dir \<Rightarrow> string \<Rightarrow> ('f, stage_error, unit) act" where
  "remove_owned_file pf d name =
     map_err_act (stage_io ''remove owned temporary'' (path_push (hd_path d) name))
       (pf_remove_child pf (hd_handle d) (hd_path d) name)"

definition sync_metadata :: "'f platform \<Rightarrow> held_dir \<Rightarrow> ('f, stage_error, unit) act" where
  "sync_metadata pf d =
     map_err_act (stage_io ''sync staging directory'' (hd_path d)) (pf_sync_directory pf (hd_handle d))"

definition volume_identity :: "'f platform \<Rightarrow> held_dir \<Rightarrow> 'f \<Rightarrow> stage_error + nat" where
  "volume_identity pf d st =
     map_err (stage_io ''read staging volume identity'' (hd_path d)) (pf_volume_identity pf (hd_handle d) st)"

definition require_same_volume :: "'f platform \<Rightarrow> nat \<Rightarrow> held_dir \<Rightarrow> ('f, stage_error, unit) act" where
  "require_same_volume pf expected d =
     bind_act (look_at (volume_identity pf d)) (\<lambda>volume.
     check (ensure (volume = expected) (StBoundary (''staging directory crosses the authority volume: '' @ hd_path d))))"

definition sync_directory_path :: "'f platform \<Rightarrow> string \<Rightarrow> ('f, stage_error, unit) act" where
  "sync_directory_path pf p =
     bind_act (map_err_act (classify_open_error ''open directory for sync'' p) (pf_open_directory pf p)) (\<lambda>handle.
     map_err_act (stage_io ''sync directory'' p) (pf_sync_directory pf handle))"

end
