(* ===== verification/Staged_Writer.thy ===== *)
theory Staged_Writer
  imports Staged_Artifact
begin

text \<open>
  The staging writer (crates/code-intel-cli/src/staged\_artifact.rs): what it owns and how it cleans up,
  opening a stage, staging an artifact and sealing the set.  The keys of the owned files have one parent,
  so ordering them as strings is ordering them as paths.
\<close>

record artifact_write_contract =
  wc_schema :: string
  wc_type :: string
  wc_max_bytes :: nat
  wc_validate :: "u8 list \<Rightarrow> string + unit"

record staged_ref =
  sf_schema :: string
  sf_type :: string
  sf_path :: string
  sf_sha256 :: string
  sf_consumed :: string
  sf_size :: nat
  sf_owned_by_stage :: bool

definition staged_ref_json :: "staged_ref \<Rightarrow> json" where
  "staged_ref_json r =
     jobj [(''schema'', JStr ''code-intel-artifact-ref.v1''), (''artifactSchema'', JStr (sf_schema r)),
       (''type'', JStr (sf_type r)), (''path'', JStr (sf_path r)), (''sha256'', JStr (sf_sha256 r)),
       (''consumedSnapshotIdentity'', JStr (sf_consumed r))]"

record stage_layout =
  ly_root :: held_dir
  ly_staging :: held_dir
  ly_stage :: held_dir
  ly_objects :: held_dir
  ly_sha256 :: held_dir

record ownership =
  ow_files :: "(string, file_id) btree"
  ow_directories :: "string list"

record cleanup_report =
  cr_residuals :: "string list"
  cr_failures :: "string list"

record 'f writer_options =
  wo_nonce :: string
  wo_interrupt_after :: "interrupt_after option"
  wo_before_publish :: "(string \<Rightarrow> string \<Rightarrow> ('f, string, unit) act) option"

record 'f staged_writer =
  sw_authority_root :: string
  sw_stage_path :: string
  sw_snapshot :: string
  sw_artifacts :: "staged_ref list"
  sw_interrupt_after :: "interrupt_after option"
  sw_before_publish :: "(string \<Rightarrow> string \<Rightarrow> ('f, string, unit) act) option"
  sw_layout :: "stage_layout option"
  sw_ownership :: ownership

record staged_set =
  ss_authority_root :: string
  ss_stage_path :: string
  ss_snapshot :: string
  ss_artifacts :: "staged_ref list"
  ss_layout :: "stage_layout option"
  ss_ownership :: ownership

section \<open>Cleaning up\<close>

definition empty_report :: cleanup_report where
  "empty_report = \<lparr>cr_residuals = [], cr_failures = []\<rparr>"

definition is_clean :: "cleanup_report \<Rightarrow> bool" where
  "is_clean r \<longleftrightarrow> cr_residuals r = [] \<and> cr_failures r = []"

definition report_describe :: "cleanup_report \<Rightarrow> string" where
  "report_describe r = join ''; ''
     ((if cr_residuals r \<noteq> [] then [''residual preserved: '' @ join '', '' (cr_residuals r)] else []) @
      (if cr_failures r \<noteq> [] then [''cleanup failures: '' @ join ''; '' (cr_failures r)] else []))"

definition add_failure :: "string \<Rightarrow> cleanup_report \<Rightarrow> cleanup_report" where
  "add_failure m r = r\<lparr>cr_failures := cr_failures r @ [m]\<rparr>"

definition add_residual :: "string \<Rightarrow> cleanup_report \<Rightarrow> cleanup_report" where
  "add_residual p r = r\<lparr>cr_residuals := cr_residuals r @ [p]\<rparr>"

type_synonym 'f cleaning = "cleanup_report \<times> (string, file_id) btree \<times> 'f"

definition clean_file :: "'f platform \<Rightarrow> string \<times> file_id \<Rightarrow> 'f cleaning \<Rightarrow> 'f cleaning" where
  "clean_file pf entry acc =
     (case (entry, acc) of ((p, expected), (report, files, st)) \<Rightarrow>
      (case pf_open_file_identity pf p st of
         Inr actual \<Rightarrow>
           if actual = expected then
             (case pf_remove_file pf p st of
                (Inr _, st') \<Rightarrow> (report, bt_remove p files, st')
              | (Inl e, st') \<Rightarrow>
                  if fst e = NotFound then (report, bt_remove p files, st')
                  else (add_failure (''remove identity-owned file '' @ p @ '': '' @ snd e) report, files, st'))
           else (add_residual p report, bt_remove p files, st)
       | Inl e \<Rightarrow>
           if fst e = NotFound then (report, bt_remove p files, st)
           else (add_failure (''verify identity-owned file '' @ p @ '': '' @ snd e) report, files, st)))"

definition cleanup_owned_files :: "'f platform \<Rightarrow> ownership \<Rightarrow> 'f \<Rightarrow> cleanup_report \<times> ownership \<times> 'f" where
  "cleanup_owned_files pf ow st =
     (case fold (clean_file pf) (bt_iter (ow_files ow)) (empty_report, ow_files ow, st) of
        (report, files, st') \<Rightarrow> (report, ow\<lparr>ow_files := files\<rparr>, st'))"

definition clean_directory :: "'f platform \<Rightarrow> string \<Rightarrow> cleanup_report \<times> 'f \<Rightarrow> cleanup_report \<times> 'f" where
  "clean_directory pf p acc =
     (case acc of (report, st) \<Rightarrow>
      (case pf_remove_dir pf p st of
         (Inr _, st') \<Rightarrow> (report, st')
       | (Inl e, st') \<Rightarrow>
           if fst e = NotFound then (report, st')
           else if fst e \<in> {DirectoryNotEmpty, PermissionDenied} then (add_residual p report, st')
           else (add_failure (''remove owned directory '' @ p @ '': '' @ snd e) report, st')))"

definition cleanup_owned_directories :: "'f platform \<Rightarrow> ownership \<Rightarrow> cleanup_report \<Rightarrow> 'f \<Rightarrow> cleanup_report \<times> ownership \<times> 'f" where
  "cleanup_owned_directories pf ow report st =
     (case fold (clean_directory pf) (rev (ow_directories ow)) (report, st) of
        (report', st') \<Rightarrow> (report', ow\<lparr>ow_directories := []\<rparr>, st'))"

definition cleanup_owned_entries :: "'f platform \<Rightarrow> ownership \<Rightarrow> 'f \<Rightarrow> cleanup_report \<times> ownership \<times> 'f" where
  "cleanup_owned_entries pf ow st =
     (case cleanup_owned_files pf ow st of (report, ow', st') \<Rightarrow> cleanup_owned_directories pf ow' report st')"

definition append_cleanup_report :: "stage_error \<Rightarrow> cleanup_report \<Rightarrow> stage_error" where
  "append_cleanup_report cause report =
     (if is_clean report then cause
      else let detail = stage_message cause @ ''; '' @ report_describe report in
        case cause of
          StContract _ \<Rightarrow> StContract detail
        | StBoundary _ \<Rightarrow> StBoundary detail
        | StCollision _ \<Rightarrow> StCollision detail
        | StInterrupted phase \<Rightarrow> StHostIo (''interrupted after '' @ interrupt_debug phase @ ''; '' @ report_describe report)
        | StHostIo _ \<Rightarrow> StHostIo detail)"

definition cleanup_owned :: "'f platform \<Rightarrow> 'f staged_writer \<Rightarrow> 'f \<Rightarrow> cleanup_report \<times> 'f staged_writer \<times> 'f" where
  "cleanup_owned pf w st =
     (case cleanup_owned_entries pf (sw_ownership w) st of
        (report, ow, st') \<Rightarrow> (report, w\<lparr>sw_layout := None, sw_ownership := ow\<rparr>, st'))"

definition drop_writer :: "'f platform \<Rightarrow> 'f staged_writer \<Rightarrow> 'f \<Rightarrow> 'f" where
  "drop_writer pf w st = snd (snd (cleanup_owned pf w st))"

definition drop_set :: "'f platform \<Rightarrow> staged_set \<Rightarrow> 'f \<Rightarrow> 'f" where
  "drop_set pf s st = snd (snd (cleanup_owned_entries pf (ss_ownership s) st))"

section \<open>Checks\<close>

definition validate_stage_digest :: "string \<Rightarrow> string \<Rightarrow> stage_error + unit" where
  "validate_stage_digest value label =
     ensure (is_digest value) (StContract (label @ '' must be a lowercase sha256 digest''))"

definition validate_nonce :: "string \<Rightarrow> stage_error + unit" where
  "validate_nonce nonce =
     ensure (nonce \<noteq> [] \<and> length nonce \<le> 96 \<and> list_all (\<lambda>b. is_ascii_alphanumeric b \<or> b = CHR ''-'') nonce)
       (StBoundary ''staging nonce is not a portable path component'')"

definition validate_contract :: "artifact_write_contract \<Rightarrow> u8 list \<Rightarrow> stage_error + unit" where
  "validate_contract c bytes =
     and_then (try_fold (\<lambda>(label, value) _.
        if value = [] \<or> length value > 128 \<or>
           \<not> list_all (\<lambda>b. is_ascii_alphanumeric b \<or> b \<in> {CHR ''.'', CHR ''-'', CHR ''_''}) value
        then Err (StContract (label @ '' is not a portable identifier'')) else Ok ())
        [(''artifact schema'', wc_schema c), (''artifact type'', wc_type c)] ()) (\<lambda>_.
     and_then (ensure (\<not> (wc_max_bytes c = 0 \<or> length bytes > wc_max_bytes c))
       (StContract (''artifact payload exceeds the registered '' @ show_nat (wc_max_bytes c) @ '' byte limit''))) (\<lambda>_.
     map_err (\<lambda>e. StContract (''artifact payload failed schema validation: '' @ e)) (wc_validate c bytes)))"

definition object_path :: "string \<Rightarrow> string" where
  "object_path digest = ''objects/sha256/'' @ digest"

definition validate_ref_coherence :: "staged_ref \<Rightarrow> stage_error + unit" where
  "validate_ref_coherence r =
     and_then (validate_stage_digest (sf_sha256 r) ''artifact digest'') (\<lambda>_.
     and_then (validate_stage_digest (sf_consumed r) ''consumed snapshot identity'') (\<lambda>_.
     ensure (\<not> sf_path r \<noteq> object_path (sf_sha256 r)) (StContract ''artifact path and digest are incoherent'')))"

definition staged_sha256_hex :: "u8 list \<Rightarrow> string" where
  "staged_sha256_hex bytes = oneshot_sha256_hex bytes"

section \<open>Opening a stage\<close>

definition stage_interrupt :: "'f staged_writer \<Rightarrow> interrupt_after \<Rightarrow> stage_error + unit" where
  "stage_interrupt w phase = (if sw_interrupt_after w = Some phase then Err (StInterrupted phase) else Ok ())"

text \<open>The directories below the stage; the first component of the state lists those that are owned.\<close>

definition stage_setup :: "'f platform \<Rightarrow> nat \<Rightarrow> held_dir \<Rightarrow> (string list \<times> 'f, stage_error, held_dir \<times> held_dir) act" where
  "stage_setup pf volume stage =
     bind_act (on_snd (require_same_volume pf volume stage)) (\<lambda>_.
     bind_act (on_snd (create_unique_child pf stage ''objects'')) (\<lambda>objects.
     bind_act (modify (\<lambda>(owned, st). (owned @ [hd_path objects], st))) (\<lambda>_.
     bind_act (on_snd (require_same_volume pf volume objects)) (\<lambda>_.
     bind_act (on_snd (create_unique_child pf objects ''sha256'')) (\<lambda>sha256.
     bind_act (modify (\<lambda>(owned, st). (owned @ [hd_path sha256], st))) (\<lambda>_.
     bind_act (on_snd (require_same_volume pf volume sha256)) (\<lambda>_.
     ret (objects, sha256))))))))"

definition begin_with_options :: "'f platform \<Rightarrow> string \<Rightarrow> string \<Rightarrow> 'f writer_options \<Rightarrow> ('f, stage_error, 'f staged_writer) act" where
  "begin_with_options pf authority_root snapshot options =
     bind_act (check (validate_stage_digest snapshot ''snapshot identity'')) (\<lambda>_.
     bind_act (check (validate_nonce (wo_nonce options))) (\<lambda>_.
     bind_act (open_root pf authority_root) (\<lambda>root.
     bind_act (look_at (volume_identity pf root)) (\<lambda>volume.
     bind_act (ensure_child pf root ''.staging'') (\<lambda>staging.
     bind_act (require_same_volume pf volume staging) (\<lambda>_.
     bind_act (create_unique_child pf staging (''stage-'' @ wo_nonce options)) (\<lambda>stage st.
     case stage_setup pf volume stage ([hd_path stage], st) of
       (Inl cause, (owned, st1)) \<Rightarrow>
         (case cleanup_owned_entries pf \<lparr>ow_files = [], ow_directories = owned\<rparr> st1 of
            (report, _, st2) \<Rightarrow> (Inl (append_cleanup_report cause report), st2))
     | (Inr (objects, sha256), (owned, st1)) \<Rightarrow>
         let w = \<lparr>sw_authority_root = authority_root, sw_stage_path = hd_path stage, sw_snapshot = snapshot,
             sw_artifacts = [], sw_interrupt_after = wo_interrupt_after options,
             sw_before_publish = wo_before_publish options,
             sw_layout = Some \<lparr>ly_root = root, ly_staging = staging, ly_stage = stage, ly_objects = objects, ly_sha256 = sha256\<rparr>,
             sw_ownership = \<lparr>ow_files = [], ow_directories = owned\<rparr>\<rparr> in
         (case stage_interrupt w StageCreated of
            Inl cause \<Rightarrow>
              (case cleanup_owned pf w st1 of
                 (report, w', st2) \<Rightarrow> (Inl (append_cleanup_report cause report), drop_writer pf w' st2))
          | Inr _ \<Rightarrow> (Inr w, st1)))))))))"

definition begin_stage :: "'f platform \<Rightarrow> string \<Rightarrow> string \<Rightarrow> ('f, stage_error, 'f staged_writer) act" where
  "begin_stage pf authority_root snapshot =
     bind_act (update (pf_nonce_sequence pf)) (\<lambda>sequence.
     bind_act (look_at (\<lambda>st. map_err StHostIo (pf_now_nanos pf st))) (\<lambda>nanos.
     begin_with_options pf authority_root snapshot
       \<lparr>wo_nonce = show_nat (pf_process_id pf) @ ''-'' @ show_nat nanos @ ''-'' @ show_nat sequence,
        wo_interrupt_after = None, wo_before_publish = None\<rparr>))"

section \<open>Staging an artifact\<close>

type_synonym ('f, 'a) staging = "('f staged_writer \<times> 'f, stage_error, 'a) act"

definition own_file :: "string \<Rightarrow> file_id \<Rightarrow> ('f, unit) staging" where
  "own_file p fid = modify (\<lambda>(w, st).
     (w\<lparr>sw_ownership := (sw_ownership w)\<lparr>ow_files := bt_insert p fid (ow_files (sw_ownership w))\<rparr>\<rparr>, st))"

definition disown_file :: "string \<Rightarrow> ('f, unit) staging" where
  "disown_file p = modify (\<lambda>(w, st).
     (w\<lparr>sw_ownership := (sw_ownership w)\<lparr>ow_files := bt_remove p (ow_files (sw_ownership w))\<rparr>\<rparr>, st))"

definition interrupt_here :: "interrupt_after \<Rightarrow> ('f, unit) staging" where
  "interrupt_here phase = look_at (\<lambda>(w, st). stage_interrupt w phase)"

text \<open>The temporary file could not be written or published: remove it, and give up its ownership if that works.\<close>

definition abandon :: "'f platform \<Rightarrow> held_dir \<Rightarrow> string \<Rightarrow> string \<Rightarrow> stage_error \<Rightarrow> ('f, 'a) staging" where
  "abandon pf dir temp_name temp_path cause =
     bind_act (attempt (on_snd (remove_owned_file pf dir temp_name))) (\<lambda>r.
     bind_act (case r of Inr _ \<Rightarrow> disown_file temp_path | Inl _ \<Rightarrow> ret ()) (\<lambda>_.
     fail cause))"

definition write_temporary :: "'f platform \<Rightarrow> nat \<Rightarrow> string \<Rightarrow> u8 list \<Rightarrow> ('f, stage_error, unit) act" where
  "write_temporary pf handle temp_path bytes =
     bind_act (map_err_act (stage_io ''write staged artifact'' temp_path) (pf_write_all pf handle bytes)) (\<lambda>_.
     map_err_act (stage_io ''flush staged artifact'' temp_path) (pf_sync_all pf handle))"

definition publish_object :: "'f platform \<Rightarrow> held_dir \<Rightarrow> string \<Rightarrow> string \<Rightarrow> file_id \<Rightarrow> string \<Rightarrow> ('f, bool) staging" where
  "publish_object pf dir temp_name temp_path temp_identity digest =
     bind_act (attempt (on_snd (publish_no_replace pf dir temp_name digest))) (\<lambda>r.
     case r of
       Inr _ \<Rightarrow>
         bind_act (disown_file temp_path) (\<lambda>_.
         bind_act (own_file (path_push (hd_path dir) digest) temp_identity) (\<lambda>_. ret True))
     | Inl Exists \<Rightarrow>
         bind_act (on_snd (remove_owned_file pf dir temp_name)) (\<lambda>_.
         bind_act (disown_file temp_path) (\<lambda>_.
         look_at (\<lambda>(w, st). Ok (bt_get (ow_files (sw_ownership w)) (path_push (hd_path dir) digest) \<noteq> None))))
     | Inl (PublishIo e) \<Rightarrow> abandon pf dir temp_name temp_path e)"

definition before_publish :: "held_dir \<Rightarrow> string \<Rightarrow> ('f, unit) staging" where
  "before_publish dir digest = (\<lambda>(w, st).
     case sw_before_publish w of
       None \<Rightarrow> (Inr (), (w, st))
     | Some hook \<Rightarrow> map_err_act (\<lambda>e. StHostIo (''before-publish proving hook failed: '' @ e))
         (on_snd (hook (hd_path dir) digest)) (w, st))"

definition verify_staged :: "'f platform \<Rightarrow> artifact_write_contract \<Rightarrow> u8 list \<Rightarrow> string \<Rightarrow> 'f staged_writer \<times> 'f \<Rightarrow> stage_error + unit" where
  "verify_staged pf c bytes digest state =
     (case state of (w, st) \<Rightarrow>
      and_then (map_err stage_stable_error
        (pf_read_beneath pf (sw_stage_path w) [''objects'', ''sha256'', digest] (wc_max_bytes c) st)) (\<lambda>verified.
      and_then (ensure (\<not> (sr_bytes verified \<noteq> bytes \<or> staged_sha256_hex (sr_bytes verified) \<noteq> digest))
        (StCollision (''content-addressed object collision for sha256:'' @ digest))) (\<lambda>_.
      map_err (\<lambda>e. StContract (''staged payload validation failed: '' @ e)) (wc_validate c (sr_bytes verified)))))"

definition staged_ref_of :: "'f staged_writer \<Rightarrow> artifact_write_contract \<Rightarrow> u8 list \<Rightarrow> string \<Rightarrow> bool \<Rightarrow> staged_ref" where
  "staged_ref_of w c bytes digest owned =
     \<lparr>sf_schema = wc_schema c, sf_type = wc_type c, sf_path = object_path digest, sf_sha256 = digest,
      sf_consumed = sw_snapshot w, sf_size = length bytes, sf_owned_by_stage = owned\<rparr>"

text \<open>From the creation of the temporary to the synced directory; the result tells who owns the object.\<close>

definition store_object :: "'f platform \<Rightarrow> held_dir \<Rightarrow> u8 list \<Rightarrow> string \<Rightarrow> string \<Rightarrow> ('f, bool) staging" where
  "store_object pf dir bytes digest temp_name =
     (let temp_path = path_push (hd_path dir) temp_name in
     bind_act (on_snd (create_staged_file pf dir temp_name)) (\<lambda>temporary.
     bind_act (on_snd (look_at (\<lambda>st. map_err (stage_io ''identify owned temporary'' temp_path) (pf_file_identity pf temporary st)))) (\<lambda>temp_identity.
     bind_act (own_file temp_path temp_identity) (\<lambda>_.
     bind_act (interrupt_here TempCreated) (\<lambda>_.
     bind_act (attempt (on_snd (write_temporary pf temporary temp_path bytes))) (\<lambda>write_result.
     bind_act (case write_result of Inl e \<Rightarrow> abandon pf dir temp_name temp_path e | Inr _ \<Rightarrow> ret ()) (\<lambda>_.
     bind_act (interrupt_here FileSynced) (\<lambda>_.
     bind_act (before_publish dir digest) (\<lambda>_.
     bind_act (publish_object pf dir temp_name temp_path temp_identity digest) (\<lambda>owned_by_stage.
     bind_act (interrupt_here ObjectPublished) (\<lambda>_.
     bind_act (on_snd (sync_metadata pf dir)) (\<lambda>_.
     bind_act (interrupt_here DirectorySynced) (\<lambda>_.
     ret owned_by_stage)))))))))))))"

definition stage_once :: "'f platform \<Rightarrow> u8 list \<Rightarrow> artifact_write_contract \<Rightarrow> ('f, staged_ref) staging" where
  "stage_once pf bytes c =
     bind_act (check (validate_contract c bytes)) (\<lambda>_.
     let digest = staged_sha256_hex bytes in
     bind_act (on_snd (update (pf_nonce_sequence pf))) (\<lambda>sequence.
     let temp_name = ''.tmp-'' @ digest @ ''-'' @ show_nat sequence in
     bind_act (look_at (\<lambda>(w, st). ok_or (sw_layout w) (StHostIo ''staged writer is not active''))) (\<lambda>layout.
     bind_act (store_object pf (ly_sha256 layout) bytes digest temp_name) (\<lambda>owned_by_stage.
     bind_act (look_at (verify_staged pf c bytes digest)) (\<lambda>_.
     bind_act (look_at (\<lambda>(w, st). Ok (staged_ref_of w c bytes digest owned_by_stage))) (\<lambda>artifact.
     bind_act (check (validate_ref_coherence artifact)) (\<lambda>_.
     bind_act (modify (\<lambda>(w, st). (w\<lparr>sw_artifacts := sw_artifacts w @ [artifact]\<rparr>, st))) (\<lambda>_.
     ret artifact))))))))"

definition stage :: "'f platform \<Rightarrow> u8 list \<Rightarrow> artifact_write_contract \<Rightarrow> ('f, staged_ref) staging" where
  "stage pf bytes c state =
     (case stage_once pf bytes c state of
        (Inl cause, (w, st)) \<Rightarrow>
          (case cleanup_owned pf w st of (report, w', st') \<Rightarrow> (Inl (append_cleanup_report cause report), (w', st')))
      | (Inr r, state') \<Rightarrow> (Inr r, state'))"

section \<open>Sealing\<close>

definition seal :: "'f platform \<Rightarrow> 'f staged_writer \<Rightarrow> ('f, stage_error, staged_set) act" where
  "seal pf w st =
     (if list_ex (\<lambda>a. \<not> sf_owned_by_stage a) (sw_artifacts w)
      then (case cleanup_owned pf w st of (report, w', st') \<Rightarrow>
        (Inl (append_cleanup_report (StCollision ''cannot seal a staging set containing an unowned deduplicated object'') report),
         drop_writer pf w' st'))
      else case sw_layout w of
        None \<Rightarrow> (Inl (StHostIo ''staged writer is not active''), drop_writer pf w st)
      | Some layout \<Rightarrow>
          (case bind_act (sync_metadata pf (ly_sha256 layout)) (\<lambda>_. sync_metadata pf (ly_stage layout)) st of
             (Inl e, st') \<Rightarrow> (Inl e, drop_writer pf w st')
           | (Inr _, st') \<Rightarrow>
               (Inr \<lparr>ss_authority_root = sw_authority_root w, ss_stage_path = sw_stage_path w, ss_snapshot = sw_snapshot w,
                  ss_artifacts = sw_artifacts w, ss_layout = Some layout, ss_ownership = sw_ownership w\<rparr>, st')))"

definition set_manifest_json :: "staged_set \<Rightarrow> json" where
  "set_manifest_json s =
     jobj [(''schema'', JStr ''code-intel-staged-artifact-set.v1''), (''snapshotIdentity'', JStr (ss_snapshot s)),
       (''artifacts'', JArr (map staged_ref_json (ss_artifacts s)))]"

definition prepare_for_commit :: "'f platform \<Rightarrow> staged_set \<Rightarrow> ('f, stage_error, staged_set) act" where
  "prepare_for_commit pf s =
     bind_act (case ss_layout s of None \<Rightarrow> ret () | Some layout \<Rightarrow>
        bind_act (sync_metadata pf (ly_sha256 layout)) (\<lambda>_. sync_metadata pf (ly_stage layout))) (\<lambda>_.
     ret (s\<lparr>ss_layout := None\<rparr>))"

end
