(* ===== verification/Run_Publish.thy ===== *)
theory Run_Publish
  imports Run_Commit Staged_Writer
begin

text \<open>
  The publication of a run (crates/code-intel-cli/src/run\_commit.rs): the promotion of a staged set by
  one rename, the completion marker that is written last, and what is taken back when a step fails; the
  recovery of a run without a marker, the publication of existing artifacts and the command.  On Linux
  the renames are \<open>renameat2\<close> with \<open>RENAME_NOREPLACE\<close>.
\<close>

record commit_options =
  co_interrupt_before :: "publication_phase option"
  co_fail_marker_sync :: bool
  co_fail_marker_read :: bool

definition default_options :: commit_options where
  "default_options = \<lparr>co_interrupt_before = None, co_fail_marker_sync = False, co_fail_marker_read = False\<rparr>"

record commit_result =
  cm_final_path :: string
  cm_marker :: json

text \<open>Serialising a value into memory always succeeds.\<close>

record 'f commit_env =
  ce_artifacts :: "'f artifact_env"
  ce_platform :: "'f platform"
  ce_to_vec :: "json \<Rightarrow> u8 list"
  ce_is_dir :: "string \<Rightarrow> 'f \<Rightarrow> bool"
  ce_exists :: "string \<Rightarrow> 'f \<Rightarrow> bool"
  ce_read :: "string \<Rightarrow> 'f \<Rightarrow> string + u8 list"

text \<open>Artifacts are read through the platform.\<close>

definition artifacts_of :: "'f commit_env \<Rightarrow> 'f artifact_env" where
  "artifacts_of env = (ce_artifacts env)\<lparr>ae_read_beneath := pf_read_beneath (ce_platform env)\<rparr>"

fun map_stage_error :: "stage_error \<Rightarrow> commit_error" where
  "map_stage_error (StContract m) = CContract m"
| "map_stage_error (StBoundary m) = CContract m"
| "map_stage_error (StCollision m) = CCollision m"
| "map_stage_error (StInterrupted phase) = CHostIo (''A06 staging interrupted after '' @ interrupt_debug phase)"
| "map_stage_error (StHostIo m) = CHostIo m"

definition commit_interrupt :: "commit_options \<Rightarrow> publication_phase \<Rightarrow> commit_error + unit" where
  "commit_interrupt options phase = (if co_interrupt_before options = Some phase then Err (CInterrupted phase) else Ok ())"

definition sync_directory :: "'f commit_env \<Rightarrow> string \<Rightarrow> ('f, commit_error, unit) act" where
  "sync_directory env p = map_err_act (\<lambda>e. CHostIo (stage_message e)) (sync_directory_path (ce_platform env) p)"

definition rename_linux_no_replace :: "'f commit_env \<Rightarrow> string \<Rightarrow> string \<Rightarrow> string \<Rightarrow> ('f, commit_error, unit) act" where
  "rename_linux_no_replace env source destination action =
     bind_act (check (ensure (CHR 0x00 \<notin> set source) (CContract ''source path contains NUL''))) (\<lambda>_.
     bind_act (check (ensure (CHR 0x00 \<notin> set destination) (CContract ''destination path contains NUL''))) (\<lambda>_.
     map_err_act (\<lambda>e. CCollision (action @ '' without replacement: '' @ snd e))
       (pf_renameat2 (ce_platform env) source destination)))"

section \<open>The completion marker\<close>

fun marker_temp_loop :: "'f commit_env \<Rightarrow> string \<Rightarrow> nat \<Rightarrow> ('f, commit_error, string \<times> string \<times> nat) act" where
  "marker_temp_loop env final_path 0 = fail (CCollision ''completion marker temp namespace is exhausted'')"
| "marker_temp_loop env final_path (Suc n) =
     bind_act (update (pf_marker_sequence (ce_platform env))) (\<lambda>sequence.
     let name = ''.run-complete.json.tmp.'' @ show_nat (pf_process_id (ce_platform env)) @ ''.'' @ show_nat sequence;
         p = path_push final_path name in
     bind_act (attempt (pf_open_new (ce_platform env) p)) (\<lambda>r.
     case r of
       Inr file \<Rightarrow> ret (p, name, file)
     | Inl e \<Rightarrow> if fst e = AlreadyExists then marker_temp_loop env final_path n
         else fail (CHostIo (''create completion marker temp: '' @ snd e))))"

definition create_marker_temp :: "'f commit_env \<Rightarrow> string \<Rightarrow> ('f, commit_error, string \<times> string \<times> nat) act" where
  "create_marker_temp env final_path = marker_temp_loop env final_path 1024"

definition remove_owned_marker :: "'f commit_env \<Rightarrow> string \<Rightarrow> string \<Rightarrow> u8 list \<Rightarrow> file_id \<Rightarrow> 'f \<Rightarrow> 'f" where
  "remove_owned_marker env root p expected expected_identity st =
     (case path_file_name (components p) of
        None \<Rightarrow> st
      | Some name \<Rightarrow>
          (case pf_read_beneath (ce_platform env) root [name] MAX_MARKER_BYTES st of
             Inr found \<Rightarrow> if sr_id found = expected_identity \<and> sr_bytes found = expected
               then snd (pf_remove_file (ce_platform env) p st) else st
           | Inl _ \<Rightarrow> st))"

text \<open>Once the marker is in place every failure removes it and syncs the directory, whatever that returns.\<close>

definition take_back :: "'f commit_env \<Rightarrow> string \<Rightarrow> string \<Rightarrow> u8 list \<Rightarrow> file_id \<Rightarrow> 'f \<Rightarrow> 'f" where
  "take_back env final_path marker_path bytes identity st =
     snd (sync_directory env final_path (remove_owned_marker env final_path marker_path bytes identity st))"

definition write_marker_temp :: "'f commit_env \<Rightarrow> string \<Rightarrow> nat \<Rightarrow> u8 list \<Rightarrow> ('f, commit_error, unit) act" where
  "write_marker_temp env temp_path temp bytes =
     map_err_act (\<lambda>e. CHostIo (''write completion marker: '' @ snd e @ ''; owned temp retained for cleanup: '' @ temp_path))
       (bind_act (pf_write_all (ce_platform env) temp bytes) (\<lambda>_. pf_sync_all (ce_platform env) temp))"

definition verify_marker ::
    "'f commit_env \<Rightarrow> commit_options \<Rightarrow> string \<Rightarrow> json \<Rightarrow> ('f \<Rightarrow> 'f) \<Rightarrow> ('f, commit_error, unit) act" where
  "verify_marker env options final_path marker undo =
     bind_act (or_undo (if co_fail_marker_sync options
         then fail (CHostIo ''injected completion marker directory sync failure'')
         else sync_directory env final_path) undo) (\<lambda>_.
     bind_act (or_undo (check (commit_interrupt options PostMarkerVerify)) undo) (\<lambda>_.
     bind_act (or_undo (if co_fail_marker_read options
         then fail (CHostIo ''injected completion marker read failure'')
         else look_at (validate_published_marker (artifacts_of env) final_path)) undo) (\<lambda>verified.
     bind_act (or_undo (check (ensure (\<not> verified \<noteq> marker)
         (CContract ''published completion marker verification failed''))) undo) (\<lambda>_.
     or_undo (check (commit_interrupt options Rollback)) undo))))"

definition publish_marker :: "'f commit_env \<Rightarrow> string \<Rightarrow> json \<Rightarrow> json \<Rightarrow> commit_options \<Rightarrow> ('f, commit_error, commit_result) act" where
  "publish_marker env final_path manifest_ref manifest options =
     bind_act (check (commit_interrupt options MarkerTemp)) (\<lambda>_.
     let marker = marker_of manifest manifest_ref; bytes = ce_to_vec env marker;
         marker_path = path_push final_path ''run-complete.json'' in
     bind_act (create_marker_temp env final_path) (\<lambda>(temp_path, temp_name, temp).
     bind_act (write_marker_temp env temp_path temp bytes) (\<lambda>_.
     bind_act (look_at (\<lambda>st. map_err commit_stable_error
       (pf_read_beneath (ce_platform env) final_path [temp_name] MAX_MARKER_BYTES st))) (\<lambda>stable.
     let identity = sr_id stable in
     bind_act (or_undo (check (commit_interrupt options MarkerPublish))
       (remove_owned_marker env final_path temp_path bytes identity)) (\<lambda>_.
     bind_act (or_undo (rename_linux_no_replace env temp_path marker_path ''publish completion marker'')
       (remove_owned_marker env final_path temp_path bytes identity)) (\<lambda>_.
     bind_act (verify_marker env options final_path marker (take_back env final_path marker_path bytes identity)) (\<lambda>_.
     ret \<lparr>cm_final_path = final_path, cm_marker = marker\<rparr>)))))))"

section \<open>Commit and recovery\<close>

definition promote :: "'f commit_env \<Rightarrow> staged_set \<Rightarrow> json \<Rightarrow> string \<Rightarrow> commit_options \<Rightarrow> ('f, commit_error, commit_result) act" where
  "promote env staged manifest_ref final_name options =
     bind_act (check (commit_interrupt options Prevalidate)) (\<lambda>_.
     bind_act (check (validate_final_name final_name)) (\<lambda>_.
     let stage_path = ss_stage_path staged; authority_root = ss_authority_root staged in
     bind_act (look_at (prevalidate (artifacts_of env) (map staged_ref_json (ss_artifacts staged)) stage_path manifest_ref)) (\<lambda>manifest.
     bind_act (map_err_act (\<lambda>e. CHostIo (stage_message e)) (prepare_for_commit (ce_platform env) staged)) (\<lambda>_.
     bind_act (check (commit_interrupt options Rename)) (\<lambda>_.
     let final_path = path_push authority_root final_name in
     bind_act (rename_linux_no_replace env stage_path final_path ''promote staged run'') (\<lambda>_.
     bind_act (check (commit_interrupt options DirectorySync)) (\<lambda>_.
     bind_act (sync_directory env authority_root) (\<lambda>_.
     publish_marker env final_path manifest_ref manifest options))))))))"

text \<open>The staged set is dropped at the end: what it still owns at its old place is removed.\<close>

definition commit :: "'f commit_env \<Rightarrow> staged_set \<Rightarrow> json \<Rightarrow> string \<Rightarrow> commit_options \<Rightarrow> ('f, commit_error, commit_result) act" where
  "commit env staged manifest_ref final_name options st =
     (case promote env staged manifest_ref final_name options st of
        (r, st') \<Rightarrow> (r, drop_set (ce_platform env) staged st'))"

definition path_text :: "path \<Rightarrow> string" where
  "path_text p = (case p of c # cs \<Rightarrow> if c = ''/'' then ''/'' @ join ''/'' cs else join ''/'' p | [] \<Rightarrow> [])"

definition recover :: "'f commit_env \<Rightarrow> string \<Rightarrow> json \<Rightarrow> commit_options \<Rightarrow> ('f, commit_error, commit_result) act" where
  "recover env final_path manifest_ref options =
     bind_act (look_at (\<lambda>st. ensure (\<not> ce_exists env (path_push final_path ''run-complete.json'') st)
       (CCollision ''run is already committed or has a competing completion marker''))) (\<lambda>_.
     bind_act (check (commit_interrupt options Prevalidate)) (\<lambda>_.
     bind_act (look_at (prevalidate_existing (artifacts_of env) final_path manifest_ref)) (\<lambda>manifest.
     bind_act (check (ok_or (path_parent (components final_path)) (CContract ''recoverable run has no authority root''))) (\<lambda>authority_root.
     bind_act (sync_directory env (path_text authority_root)) (\<lambda>_.
     publish_marker env final_path manifest_ref manifest options)))))"

section \<open>Publishing existing artifacts\<close>

definition next_replacement :: "json \<Rightarrow> json list \<times> json list \<Rightarrow> commit_error + json list \<times> json list" where
  "next_replacement artifact acc =
     (case acc of (replacement, done') \<Rightarrow>
      (case replacement of
         [] \<Rightarrow> Err (CContract ''published Artifact Ref count is smaller than the run manifest'')
       | r # rs \<Rightarrow> Ok (rs, done' @ [r])))"

definition replace_node_refs :: "json \<Rightarrow> json list \<Rightarrow> commit_error + json list \<times> json" where
  "replace_node_refs node replacement =
     (if \<not> has_artifacts node then Ok (replacement, node)
      else and_then (ok_or (as_array (jidx node ''artifacts'')) (CContract ''artifact-producing run node artifacts must be an array'')) (\<lambda>artifacts.
        and_then (try_fold next_replacement artifacts (replacement, [])) (\<lambda>(rest, replaced).
        Ok (rest, JObj (bt_insert ''artifacts'' (JArr replaced) (the (as_object node)))))))"

definition replace_manifest_artifact_refs :: "json \<Rightarrow> json list \<Rightarrow> commit_error + json" where
  "replace_manifest_artifact_refs manifest replacements =
     and_then (ok_or (as_object (jidx manifest ''nodes'')) (CContract ''run manifest nodes must be an object'')) (\<lambda>nodes.
     and_then (try_fold (\<lambda>(nid, node) (replacement, nodes').
         and_then (replace_node_refs node replacement) (\<lambda>(rest, node'). Ok (rest, bt_insert nid node' nodes')))
       (bt_iter nodes) (replacements, nodes)) (\<lambda>(rest, nodes').
     and_then (ensure (rest = []) (CContract ''published Artifact Ref count is larger than the run manifest'')) (\<lambda>_.
     Ok (JObj (bt_insert ''nodes'' (JObj nodes') (the (as_object manifest)))))))"

definition write_contract :: "artifact_contract \<Rightarrow> artifact_write_contract" where
  "write_contract c = \<lparr>wc_schema = ct_schema c, wc_type = ct_type c, wc_max_bytes = ct_max_bytes c, wc_validate = ct_validate c\<rparr>"

definition manifest_write_contract :: "'f commit_env \<Rightarrow> artifact_write_contract" where
  "manifest_write_contract env =
     \<lparr>wc_schema = ''code-intel-run-manifest.v1'', wc_type = ''run.manifest'', wc_max_bytes = MAX_MANIFEST_BYTES,
      wc_validate = validate_run_manifest_bytes (ae_lib (ce_artifacts env))\<rparr>"

fun stage_refs :: "'f commit_env \<Rightarrow> (json \<times> verified_artifact) list \<Rightarrow> json list \<Rightarrow>
    ('f staged_writer \<times> 'f, commit_error, json list) act" where
  "stage_refs env [] published = ret published"
| "stage_refs env ((source_ref, artifact) # items) published =
     bind_act (check (map_err (\<lambda>e. CContract (artifact_message e)) (registered_contract (artifacts_of env) source_ref))) (\<lambda>c.
     bind_act (map_err_act map_stage_error (stage (ce_platform env) (va_bytes artifact) (write_contract c))) (\<lambda>staged_ref.
     stage_refs env items (published @ [staged_ref_json staged_ref])))"

definition stage_run :: "'f commit_env \<Rightarrow> string \<Rightarrow> json \<Rightarrow> json \<Rightarrow> json list \<Rightarrow> verified_artifact list \<Rightarrow>
    ('f staged_writer \<times> 'f, commit_error, json) act" where
  "stage_run env source_root source_manifest_ref manifest source_refs verified =
     bind_act (stage_refs env (zip source_refs verified) []) (\<lambda>published_refs.
     bind_act (check (replace_manifest_artifact_refs manifest published_refs)) (\<lambda>published_manifest.
     bind_act (if published_refs = source_refs
         then look_at (\<lambda>(w, st). and_then (read_manifest_stable (artifacts_of env) source_root source_manifest_ref st) (\<lambda>(_, bytes). Ok bytes))
         else ret (ce_to_vec env published_manifest)) (\<lambda>manifest_bytes.
     bind_act (map_err_act map_stage_error (stage (ce_platform env) manifest_bytes (manifest_write_contract env))) (\<lambda>staged_ref.
     ret (staged_ref_json staged_ref)))))"

definition read_ref_file :: "'f commit_env \<Rightarrow> string \<Rightarrow> 'f \<Rightarrow> commit_error + json" where
  "read_ref_file env manifest_ref st =
     (let lib = ae_lib (ce_artifacts env) in
      and_then (map_err (\<lambda>e. CHostIo (''read manifest Artifact Ref: '' @ e)) (ce_read env manifest_ref st)) (\<lambda>bytes.
      and_then (map_err (\<lambda>_. CContract ''manifest Artifact Ref is not UTF-8'') (jl_from_utf8 lib bytes)) (\<lambda>t.
      and_then (map_err CContract (the (reject_duplicate_json_keys (jl_key lib) t))) (\<lambda>_.
      map_err (\<lambda>_. CContract ''manifest Artifact Ref is invalid JSON'') (jl_from_str lib t)))))"

definition roots_exist :: "'f commit_env \<Rightarrow> string \<Rightarrow> string \<Rightarrow> 'f \<Rightarrow> commit_error + unit" where
  "roots_exist env source_root authority_root st =
     ensure (\<not> (\<not> ce_is_dir env source_root st \<or> \<not> ce_is_dir env authority_root st))
       (CContract ''source and authority roots must be existing directories'')"

definition publish_existing :: "'f commit_env \<Rightarrow> string \<Rightarrow> string \<Rightarrow> string \<Rightarrow> string \<Rightarrow> ('f, commit_error, commit_result) act" where
  "publish_existing env source_root authority_root manifest_ref final_name =
     bind_act (look_at (roots_exist env source_root authority_root)) (\<lambda>_.
     bind_act (check (validate_final_name final_name)) (\<lambda>_.
     bind_act (look_at (read_ref_file env manifest_ref)) (\<lambda>source_manifest_ref.
     bind_act (look_at (prevalidate_existing (artifacts_of env) source_root source_manifest_ref)) (\<lambda>manifest.
     let snapshot = the (as_str (jidx manifest ''snapshotIdentity'')) in
     bind_act (check (manifest_artifact_refs manifest)) (\<lambda>source_refs.
     bind_act (look_at (\<lambda>st. map_err (\<lambda>e. CContract (artifact_message e))
       (verify_inputs (artifacts_of env) (JArr source_refs) (Some source_root) snapshot st))) (\<lambda>verified.
     bind_act (map_err_act map_stage_error (begin_stage (ce_platform env) authority_root snapshot)) (\<lambda>writer st.
     case stage_run env source_root source_manifest_ref manifest source_refs verified (writer, st) of
       (Inl e, (w, st')) \<Rightarrow> (Inl e, drop_writer (ce_platform env) w st')
     | (Inr staged_manifest_ref, (w, st')) \<Rightarrow>
         bind_act (map_err_act map_stage_error (seal (ce_platform env) w)) (\<lambda>staged.
         commit env staged staged_manifest_ref final_name default_options) st')))))))"

section \<open>The command\<close>

record commit_cli =
  cl_source_root :: "string option"
  cl_authority_root :: "string option"
  cl_manifest_ref :: "string option"
  cl_final_name :: "string option"

definition set_flag :: "string \<Rightarrow> string \<Rightarrow> commit_cli \<Rightarrow> commit_error + commit_cli" where
  "set_flag flag value cli =
     (let duplicate = CContract (''duplicate '' @ flag) in
      if flag = ''--source-root'' then
        and_then (ensure (cl_source_root cli = None) duplicate) (\<lambda>_. Ok (cli\<lparr>cl_source_root := Some value\<rparr>))
      else if flag = ''--authority-root'' then
        and_then (ensure (cl_authority_root cli = None) duplicate) (\<lambda>_. Ok (cli\<lparr>cl_authority_root := Some value\<rparr>))
      else if flag = ''--manifest-ref'' then
        and_then (ensure (cl_manifest_ref cli = None) duplicate) (\<lambda>_. Ok (cli\<lparr>cl_manifest_ref := Some value\<rparr>))
      else and_then (ensure (cl_final_name cli = None) duplicate) (\<lambda>_. Ok (cli\<lparr>cl_final_name := Some value\<rparr>)))"

fun parse_commit_flags :: "string list \<Rightarrow> commit_cli \<Rightarrow> commit_error + commit_cli" where
  "parse_commit_flags [] cli = Ok cli"
| "parse_commit_flags (flag # rest) cli =
     (if flag \<notin> {''--source-root'', ''--authority-root'', ''--manifest-ref'', ''--final-name''}
      then Err (CContract (''unknown run commit argument: '' @ flag))
      else case rest of
          [] \<Rightarrow> Err (CContract (flag @ '' requires one value''))
        | value # rest' \<Rightarrow>
            if value = [] \<or> starts_with value ''--'' then Err (CContract (flag @ '' requires one value''))
            else and_then (set_flag flag value cli) (parse_commit_flags rest'))"

definition COMMIT_USAGE :: string where
  "COMMIT_USAGE = ''usage: run commit --source-root <A09-artifact-root> --authority-root <publication-root> --manifest-ref <artifact-ref.json> --final-name <name>''"

definition parse_commit_cli :: "'f commit_env \<Rightarrow> string list \<Rightarrow> 'f \<Rightarrow> commit_error + string \<times> string \<times> string \<times> string" where
  "parse_commit_cli env raw st =
     (case raw of
        [] \<Rightarrow> Err (CContract COMMIT_USAGE)
      | sub # args \<Rightarrow>
          if sub \<noteq> ''commit'' then Err (CContract COMMIT_USAGE)
          else and_then (parse_commit_flags args \<lparr>cl_source_root = None, cl_authority_root = None, cl_manifest_ref = None, cl_final_name = None\<rparr>) (\<lambda>cli.
            and_then (ok_or (cl_source_root cli) (CContract ''--source-root is required'')) (\<lambda>source_root.
            and_then (ok_or (cl_authority_root cli) (CContract ''--authority-root is required'')) (\<lambda>authority_root.
            and_then (ok_or (cl_manifest_ref cli) (CContract ''--manifest-ref is required'')) (\<lambda>manifest_ref.
            and_then (ok_or (cl_final_name cli) (CContract ''--final-name is required'')) (\<lambda>final_name.
            and_then (roots_exist env source_root authority_root st) (\<lambda>_.
            and_then (validate_final_name final_name) (\<lambda>_.
            Ok (source_root, authority_root, manifest_ref, final_name)))))))))"

text \<open>The exit code and the marker that is printed.\<close>

fun commit_exit :: "commit_error + commit_result \<Rightarrow> int \<times> json option" where
  "commit_exit (Inr result) = (0, Some (cm_marker result))"
| "commit_exit (Inl (CContract _)) = (65, None)"
| "commit_exit (Inl (CCollision _)) = (65, None)"
| "commit_exit (Inl (CHostIo _)) = (74, None)"
| "commit_exit (Inl (CInterrupted _)) = (75, None)"

definition commit_run_raw :: "'f commit_env \<Rightarrow> string list \<Rightarrow> 'f \<Rightarrow> (int \<times> json option) \<times> 'f" where
  "commit_run_raw env raw st =
     (case bind_act (look_at (parse_commit_cli env raw)) (\<lambda>(source_root, authority_root, manifest_ref, final_name).
        publish_existing env source_root authority_root manifest_ref final_name) st of
        (r, st') \<Rightarrow> (commit_exit r, st'))"

end
