(* ===== verification/Commit_Props.thy ===== *)
theory Commit_Props
  imports Run_Commit
begin

text \<open>
  What a committed run is worth: its marker binds a terminal manifest, and the manifest binds every
  artifact of the run by its digest.
\<close>

section \<open>Manifests\<close>

definition manifest_refs :: "json \<Rightarrow> json list" where
  "manifest_refs manifest = concat (map (\<lambda>node. if has_artifacts node then the (as_array (jidx node ''artifacts'')) else [])
     (bt_values (the (as_object (jidx manifest ''nodes'')))))"

lemma push_refs: "try_fold push_ref items refs = Inr out \<longleftrightarrow>
   out = refs @ items \<and> (\<forall>item \<in> set items. validate_artifact_ref_shape item = Inr ())"
  by (induction items arbitrary: refs) (auto simp: push_ref_def and_then_eq_Inr)

lemma manifest_artifact_refs_Inr:
  "manifest_artifact_refs manifest = Inr refs \<longleftrightarrow>
     refs = manifest_refs manifest \<and> (\<forall>item \<in> set refs. validate_artifact_ref_shape item = Inr ())"
proof -
  have "try_fold (\<lambda>node refs. if has_artifacts node
         then try_fold push_ref (the (as_array (jidx node ''artifacts''))) refs else Ok refs) nodes acc = Inr refs \<longleftrightarrow>
      refs = acc @ concat (map (\<lambda>node. if has_artifacts node then the (as_array (jidx node ''artifacts'')) else []) nodes) \<and>
      (\<forall>item \<in> set (concat (map (\<lambda>node. if has_artifacts node then the (as_array (jidx node ''artifacts'')) else []) nodes)).
         validate_artifact_ref_shape item = Inr ())" for nodes acc
    by (induction nodes arbitrary: acc) (auto simp: and_then_eq_Inr push_refs)
  then show ?thesis unfolding manifest_artifact_refs_def manifest_refs_def by auto
qed

definition manifest_bound :: "'f artifact_env \<Rightarrow> string \<Rightarrow> 'f \<Rightarrow> json \<Rightarrow> json \<Rightarrow> bool" where
  "manifest_bound env root st manifest_ref manifest \<longleftrightarrow>
     (\<exists>p bytes fid. jidx manifest_ref ''path'' = JStr p \<and>
        ae_read_beneath env root (split_on (CHR ''/'') p) MAX_MANIFEST_BYTES st = Inr \<lparr>sr_bytes = bytes, sr_id = fid\<rparr> \<and>
        jidx manifest_ref ''sha256'' = JStr (sha256_hex bytes) \<and> length bytes \<le> MAX_MANIFEST_BYTES \<and>
        from_slice (ae_lib env) bytes = Inr manifest) \<and>
     commit_run_manifest manifest = Inr ()"

lemma manifest_bytes_Inr:
  "validate_run_manifest_bytes lib bytes = Inr u \<Longrightarrow> from_slice lib bytes = Inr manifest \<Longrightarrow>
     length bytes \<le> MAX_MANIFEST_BYTES \<and> commit_run_manifest manifest = Inr ()"
  unfolding validate_run_manifest_bytes_def from_slice_def and_then_eq_Inr ensure_eq_Inr map_err_eq_Inr
  by (cases u) auto

lemma read_manifest_Inr:
  assumes "read_manifest env root manifest_ref st = Inr manifest"
  shows "manifest_bound env root st manifest_ref manifest" "validate_artifact_ref_shape manifest_ref = Inr ()"
proof -
  from assms obtain bytes where "read_manifest_stable env root manifest_ref st = Inr (manifest, bytes)"
    by (auto simp: read_manifest_def and_then_eq_Inr)
  then obtain p stable u where p: "validate_artifact_ref_shape manifest_ref = Inr u"
    "as_str (jidx manifest_ref ''path'') = Some p"
    "ae_read_beneath env root (split_on (CHR ''/'') p) MAX_MANIFEST_BYTES st = Inr stable"
    "jidx manifest_ref ''sha256'' = JStr (sha256_hex (sr_bytes stable))"
    "validate_run_manifest_bytes (ae_lib env) (sr_bytes stable) = Inr ()"
    "from_slice (ae_lib env) (sr_bytes stable) = Inr manifest"
    unfolding read_manifest_stable_def and_then_eq_Inr ok_or_eq_Inr map_err_eq_Inr Let_def ensure_eq_Inr by auto
  then show "manifest_bound env root st manifest_ref manifest"
    using manifest_bytes_Inr [OF p(5,6)] unfolding manifest_bound_def as_str_eq by (metis stable_read.surjective old.unit.exhaust)
  show "validate_artifact_ref_shape manifest_ref = Inr ()" using p(1) by (cases u) simp
qed

section \<open>A publication is complete\<close>

definition all_bound :: "'f artifact_env \<Rightarrow> string \<Rightarrow> 'f \<Rightarrow> string \<Rightarrow> json list \<Rightarrow> bool" where
  "all_bound env root st snapshot refs \<longleftrightarrow>
     (\<exists>cs verified. list_all2 (admissible_ref env snapshot) refs cs \<and>
        list_all2 (\<lambda>(item, c). bound_to_file env root snapshot st item c) (zip refs cs) verified \<and>
        distinct (map va_file_id verified)) \<and>
     distinct (map (lowered_path env) refs)"

lemma verify_all_bound:
  "verify_inputs env (JArr refs) (Some root) snapshot st = Inr verified \<Longrightarrow> all_bound env root st snapshot refs"
  unfolding verify_inputs_Inr all_bound_def by (cases "refs = []") auto

lemma distinct_lengths: "length (remdups xs) = length xs \<longleftrightarrow> distinct xs"
  by (metis distinct_remdups_id length_remdups_card_conv card_distinct)

lemma ref_identities:
  "try_map ref_identity refs = Inr ids \<Longrightarrow> ids = map (\<lambda>r. (the (as_str (jidx r ''path'')), the (as_str (jidx r ''sha256'')),
     the (as_str (jidx r ''artifactSchema'')), the (as_str (jidx r ''type'')))) refs"
  unfolding try_map_eq_Inr by (induction rule: list_all2_induct) (auto simp: ref_identity_def and_then_eq_Inr)

lemma prevalidate_refs_Inr:
  assumes "prevalidate_refs env root refs manifest_ref st = Inr manifest"
  obtains snapshot where "manifest_bound env root st manifest_ref manifest"
    "jidx manifest_ref ''consumedSnapshotIdentity'' = JStr snapshot" "snapshot = the (as_str (jidx manifest ''snapshotIdentity''))"
    "all_bound env root st snapshot (manifest_refs manifest)"
    "jidx manifest_ref ''artifactSchema'' = JStr ''code-intel-run-manifest.v1''" "jidx manifest_ref ''type'' = JStr ''run.manifest''"
    "ref_identity ` set (manifest_refs manifest) = ref_identity ` (set refs - {manifest_ref})"
proof -
  let ?snapshot = "the (as_str (jidx manifest ''snapshotIdentity''))"
  from assms obtain m refs' declared ids verified where
    ref: "\<not> (jidx manifest_ref ''artifactSchema'' \<noteq> JStr ''code-intel-run-manifest.v1'' \<or> jidx manifest_ref ''type'' \<noteq> JStr ''run.manifest'')"
    and m: "read_manifest env root manifest_ref st = Inr m" "Inr m = (Inr manifest :: commit_error + json)"
    and snap: "\<not> jidx manifest_ref ''consumedSnapshotIdentity'' \<noteq> JStr (the (as_str (jidx m ''snapshotIdentity'')))"
    and refs': "manifest_artifact_refs m = Inr refs'"
    and ids: "try_map ref_identity (filter (\<lambda>item. item \<noteq> manifest_ref) refs) = Inr declared"
    "try_map ref_identity refs' = Inr ids" "\<not> set declared \<noteq> set ids"
    and v: "verify_inputs env (JArr refs') (Some root) (the (as_str (jidx m ''snapshotIdentity''))) st = Inr verified"
    unfolding prevalidate_refs_def and_then_eq_Inr ensure_eq_Inr map_err_eq_Inr Let_def by blast
  have eq: "m = manifest" "refs' = manifest_refs manifest"
    using m(2) refs' manifest_artifact_refs_Inr by auto
  have same: "ref_identity ` set xs = Inr ` set ys" if "try_map ref_identity xs = Inr ys" for xs ys
    using that unfolding try_map_eq_Inr by (induction rule: list_all2_induct) auto
  have "ref_identity ` set (manifest_refs manifest) = ref_identity ` (set refs - {manifest_ref})"
    using same [OF ids(1)] same [OF ids(2)] ids(3) by (simp add: set_diff_eq eq)
  then show thesis using that [OF read_manifest_Inr(1) [OF m(1), unfolded eq]] snap ref
    verify_all_bound [OF v, unfolded eq] unfolding eq by blast
qed

section \<open>A committed run\<close>

lemma published_marker_Inr:
  "validate_published_marker env root st = Inr marker \<Longrightarrow>
   \<exists>stable manifest. ae_read_beneath env root [''run-complete.json''] MAX_MARKER_BYTES st = Inr stable \<and>
     parse_marker (ae_lib env) (sr_bytes stable) = Inr marker \<and>
     jidx marker ''schema'' = JStr ''code-intel-run-commit.v1'' \<and> text_is is_run_identity (jidx marker ''runIdentity'') \<and>
     read_manifest env root (marker_manifest_ref marker) st = Inr manifest \<and>
     jidx manifest ''runIdentity'' = jidx marker ''runIdentity'' \<and> jidx manifest ''snapshotIdentity'' = jidx marker ''snapshotIdentity''"
  unfolding validate_published_marker_def and_then_eq_Inr ensure_eq_Inr map_err_eq_Inr de_Morgan_disj not_not sum.inject
  by (elim exE conjE, hypsubst, intro exI conjI; assumption)

lemma prevalidate_existing_Inr:
  assumes "prevalidate_existing env root manifest_ref st = Inr manifest"
  shows "read_manifest env root manifest_ref st = Inr manifest"
    "prevalidate_refs env root (manifest_refs manifest @ [manifest_ref]) manifest_ref st = Inr manifest"
proof -
  from assms obtain m refs where m: "read_manifest env root manifest_ref st = Inr m" "manifest_artifact_refs m = Inr refs"
    "prevalidate_refs env root (refs @ [manifest_ref]) manifest_ref st = Inr manifest"
    unfolding prevalidate_existing_def and_then_eq_Inr by blast
  have "m = manifest"
    using m(1,3) unfolding prevalidate_refs_def and_then_eq_Inr ensure_eq_Inr map_err_eq_Inr Let_def by force
  then show "read_manifest env root manifest_ref st = Inr manifest"
    "prevalidate_refs env root (manifest_refs manifest @ [manifest_ref]) manifest_ref st = Inr manifest"
    using m manifest_artifact_refs_Inr by auto
qed

definition run_bound :: "'f artifact_env \<Rightarrow> string \<Rightarrow> 'f \<Rightarrow> json \<Rightarrow> json \<Rightarrow> bool" where
  "run_bound env root st marker manifest \<longleftrightarrow>
     (\<exists>bytes fid. ae_read_beneath env root [''run-complete.json''] MAX_MARKER_BYTES st = Inr \<lparr>sr_bytes = bytes, sr_id = fid\<rparr> \<and>
        parse_marker (ae_lib env) bytes = Inr marker) \<and>
     text_is is_run_identity (jidx marker ''runIdentity'') \<and>
     jidx marker ''runIdentity'' = jidx manifest ''runIdentity'' \<and>
     jidx marker ''snapshotIdentity'' = jidx manifest ''snapshotIdentity'' \<and>
     manifest_bound env root st (marker_manifest_ref marker) manifest \<and>
     (\<exists>snapshot. jidx manifest ''snapshotIdentity'' = JStr snapshot \<and> all_bound env root st snapshot (manifest_refs manifest))"

lemma marker_ref_snapshot: "jidx (marker_manifest_ref marker) ''consumedSnapshotIdentity'' = jidx marker ''snapshotIdentity''"
  by (simp add: marker_manifest_ref_def jidx_jobj)

lemma committed_run_Inr:
  assumes "validate_committed_run env root st = Inr (marker, manifest)"
  shows "run_bound env root st marker manifest"
proof -
  from assms have mk: "validate_published_marker env root st = Inr marker"
    and pre: "prevalidate_existing env root (marker_manifest_ref marker) st = Inr manifest"
    by (auto simp: validate_committed_run_def and_then_eq_Inr)
  note run = prevalidate_existing_Inr [OF pre]
  obtain m stable where m:
    "ae_read_beneath env root [''run-complete.json''] MAX_MARKER_BYTES st = Inr stable"
    "parse_marker (ae_lib env) (sr_bytes stable) = Inr marker" "text_is is_run_identity (jidx marker ''runIdentity'')"
    "read_manifest env root (marker_manifest_ref marker) st = Inr m"
    "jidx m ''runIdentity'' = jidx marker ''runIdentity''" "jidx m ''snapshotIdentity'' = jidx marker ''snapshotIdentity''"
    using published_marker_Inr [OF mk] by blast
  then have read: "ae_read_beneath env root [''run-complete.json''] MAX_MARKER_BYTES st
      = Inr \<lparr>sr_bytes = sr_bytes stable, sr_id = sr_id stable\<rparr>"
    by (cases stable) simp
  have "m = manifest" using m(4) run(1) by simp
  obtain snapshot where "manifest_bound env root st (marker_manifest_ref marker) manifest"
    "jidx (marker_manifest_ref marker) ''consumedSnapshotIdentity'' = JStr snapshot"
    "all_bound env root st snapshot (manifest_refs manifest)"
    by (rule prevalidate_refs_Inr [OF run(2)])
  with m(2,3,5,6) \<open>m = manifest\<close> read show ?thesis unfolding run_bound_def marker_ref_snapshot by auto
qed

section \<open>Properties\<close>

text \<open>A run with one artifact, in a store that maps the parts of a path to the bytes there.\<close>

definition demo_view :: "u8 list" where "demo_view = [35]"

definition demo_ref :: json where
  "demo_ref = jobj [(''schema'', JStr ''code-intel-artifact-ref.v1''), (''artifactSchema'', JStr ''code-intel-hospital-markdown.v1''),
     (''type'', JStr ''diagnosis.hospital-view''), (''path'', JStr ''objects/a''), (''sha256'', JStr (sha256_hex demo_view)),
     (''consumedSnapshotIdentity'', JStr (sha256_hex []))]"

definition demo_manifest :: json where
  "demo_manifest = jobj [(''schema'', JStr ''code-intel-run-manifest.v1''), (''runIdentity'', JStr ''dag-v1:00''),
     (''snapshotIdentity'', JStr (sha256_hex [])), (''outcome'', JStr ''completed''),
     (''nodes'', jobj [(''n'', jobj [(''status'', JStr ''succeeded''), (''verdict'', JStr ''pass''), (''artifacts'', JArr [demo_ref])])])]"

definition demo_manifest_ref :: "string \<Rightarrow> json" where
  "demo_manifest_ref p = jobj [(''schema'', JStr ''code-intel-artifact-ref.v1''), (''artifactSchema'', JStr ''code-intel-run-manifest.v1''),
     (''type'', JStr ''run.manifest''), (''path'', JStr p), (''sha256'', JStr (sha256_hex [2])),
     (''consumedSnapshotIdentity'', JStr (sha256_hex []))]"

definition demo_lib :: "string \<Rightarrow> json_lib" where
  "demo_lib p = \<lparr>jl_from_utf8 = (\<lambda>b. Inr (if b = [1] then ''1'' else if b = [2] then ''2'' else ''# Code Intel Hospital Report'')),
     jl_key = Inr, jl_from_str = (\<lambda>t. Inr (if t = ''1'' then marker_of demo_manifest (demo_manifest_ref p) else demo_manifest))\<rparr>"

definition demo_env :: "string \<Rightarrow> unit artifact_env" where
  "demo_env p = \<lparr>ae_lib = demo_lib p,
     ae_read_beneath = (\<lambda>root cs limit st. Inr (
        if cs = [''run-complete.json''] then \<lparr>sr_bytes = [1], sr_id = (0, 1)\<rparr>
        else if cs = [''objects'', ''a''] then \<lparr>sr_bytes = demo_view, sr_id = (0, 3)\<rparr>
        else \<lparr>sr_bytes = [2], sr_id = (0, 2)\<rparr>)),
     ae_to_lowercase = (\<lambda>s. s), ae_validator = (\<lambda>_ _. Inl []), ae_command_observation = (\<lambda>_. Inl []),
     ae_capability_artifact = (\<lambda>_. Inl [])\<rparr>"

lemma demo_scan: "reject_duplicate_json_keys f ''1'' = Some (Inr ())" "reject_duplicate_json_keys f ''2'' = Some (Inr ())"
  by (simp_all add: reject_duplicate_json_keys_def reject_duplicate_json_keys_within_def MAX_JSON_BYTES_def scan_document_def
      scan_value.simps ws_def MAX_JSON_DEPTH_def scalar_end_def is_ascii_whitespace_def)

lemma demo_get:
  "jidx demo_ref ''path'' = JStr ''objects/a''" "jidx demo_ref ''sha256'' = JStr (sha256_hex demo_view)"
  "jidx demo_ref ''artifactSchema'' = JStr ''code-intel-hospital-markdown.v1''" "jidx demo_ref ''type'' = JStr ''diagnosis.hospital-view''"
  "jidx demo_ref ''consumedSnapshotIdentity'' = JStr (sha256_hex [])"
  "jidx (demo_manifest_ref p) ''path'' = JStr p" "jidx (demo_manifest_ref p) ''sha256'' = JStr (sha256_hex [2])"
  "jidx (demo_manifest_ref p) ''artifactSchema'' = JStr ''code-intel-run-manifest.v1''" "jidx (demo_manifest_ref p) ''type'' = JStr ''run.manifest''"
  "jidx (demo_manifest_ref p) ''consumedSnapshotIdentity'' = JStr (sha256_hex [])"
  "jidx demo_manifest ''runIdentity'' = JStr ''dag-v1:00''" "jidx demo_manifest ''snapshotIdentity'' = JStr (sha256_hex [])"
  by (simp_all add: demo_ref_def demo_manifest_ref_def demo_manifest_def jidx_jobj)

lemma demo_shape:
  "validate_artifact_ref_shape demo_ref = Inr ()" "p \<noteq> [] \<Longrightarrow> validate_artifact_ref_shape (demo_manifest_ref p) = Inr ()"
  by (simp_all add: validate_artifact_ref_shape_def demo_ref_def demo_manifest_ref_def literal_object require_exact_keys_def
      literal_keys bt_get_of_list jidx_jobj nonempty_str_def digest_value_def sha256_hex_digest)

lemma demo_manifest_ok: "commit_run_manifest demo_manifest = Inr ()"
proof -
  have "is_run_identity ''dag-v1:00''" "commit_node_id ''n''" by code_simp+
  then show ?thesis
    by (simp add: commit_run_manifest_def demo_manifest_def commit_exact_def manifest_fields_def literal_object literal_keys
        jidx_jobj jget_jobj manifest_header_ok_def manifest_outcomes_def text_is_def sha256_hex_digest bt_of_list_def
        bt_iter_def bt_keys_def commit_node_def succeeded_ok_def is_array_def) auto
qed

lemma demo_refs: "manifest_refs demo_manifest = [demo_ref]"
  by (simp add: manifest_refs_def demo_manifest_def jidx_jobj literal_object bt_of_list_def bt_values_def bt_iter_def bt_keys_def
      has_artifacts_def)

lemma demo_read:
  assumes "p \<noteq> []" "split_on (CHR ''/'') p \<notin> {[''run-complete.json''], [''objects'', ''a'']}"
  shows "read_manifest (demo_env p) root (demo_manifest_ref p) st = Inr demo_manifest"
  using assms demo_shape(2) demo_manifest_ok demo_scan
  by (simp add: read_manifest_def read_manifest_stable_def demo_get demo_env_def demo_lib_def Let_def
      validate_run_manifest_bytes_def MAX_MANIFEST_BYTES_def from_slice_def)

lemma demo_verified:
  assumes "p \<noteq> []" "split_on (CHR ''/'') p \<notin> {[''run-complete.json''], [''objects'', ''a'']}"
  shows "\<exists>v. verify_inputs (demo_env p) (JArr [demo_ref]) (Some root) (sha256_hex []) st = Inr v"
proof -
  have path: "portable_relative_path ''objects/a'' = Inr ''objects/a''" by code_simp
  have "starts_with ''# Code Intel Hospital Report'' ''# Code Intel Hospital Report''"
    "\<not> is_blank ''# Code Intel Hospital Report''" by code_simp+
  then have view: "validate_markdown_view (ae_lib (demo_env p)) ''# Code Intel Hospital Report'' demo_view = Inr ()"
    by (simp add: validate_markdown_view_def demo_env_def demo_lib_def demo_view_def)
  have contract: "registered_contract (demo_env p) demo_ref = Inr (contract ''code-intel-hospital-markdown.v1'' ''diagnosis.hospital-view''
      (8 * 1024 * 1024) (validate_markdown_view (ae_lib (demo_env p)) ''# Code Intel Hospital Report''))"
    by (simp add: registered_contract_def get_str_jidx demo_get find_contract_def repository_family_def diagnosis_family_def
        contract_def other_def or_else_def REPOSITORY_ITERATION_SCHEMA_def)
  show ?thesis
    using demo_shape(1) path view contract
    by (simp add: verify_inputs_def preflight_step_def verify_step_def verify_artifact_ref_def get_str_jidx demo_get
        validate_preflight_contract_def Let_def contract_def check_payload_def demo_env_def)
qed

lemma demo_prevalidate:
  assumes "p \<noteq> []" "split_on (CHR ''/'') p \<notin> {[''run-complete.json''], [''objects'', ''a'']}"
  shows "prevalidate_existing (demo_env p) root (demo_manifest_ref p) st = Inr demo_manifest"
proof -
  have refs: "manifest_artifact_refs demo_manifest = Inr [demo_ref]"
    by (simp add: manifest_artifact_refs_Inr demo_refs demo_shape(1))
  have differ: "demo_ref \<noteq> demo_manifest_ref p"
  proof
    assume "demo_ref = demo_manifest_ref p"
    then have "jidx demo_ref ''type'' = jidx (demo_manifest_ref p) ''type''" by simp
    then show False by (simp add: demo_get)
  qed
  show ?thesis
    using demo_read [OF assms] demo_verified [OF assms, of root st] refs differ demo_shape(1) demo_shape(2) [OF assms(1)]
    by (auto simp: prevalidate_existing_def prevalidate_refs_def demo_get Let_def ref_identity_def)
qed

lemma demo_marker_ref: "marker_manifest_ref (marker_of demo_manifest (demo_manifest_ref p)) = demo_manifest_ref p"
  by (simp add: marker_manifest_ref_def marker_of_def jidx_jobj demo_get demo_manifest_ref_def)

lemma demo_committed:
  assumes "p \<noteq> []" "split_on (CHR ''/'') p \<notin> {[''run-complete.json''], [''objects'', ''a'']}"
  shows "validate_committed_run (demo_env p) root st = Inr (marker_of demo_manifest (demo_manifest_ref p), demo_manifest)"
proof -
  have ids: "is_run_identity ''dag-v1:00''" by code_simp
  have parsed: "parse_marker (demo_lib p) [1] = Inr (marker_of demo_manifest (demo_manifest_ref p))"
    by (simp add: parse_marker_def demo_lib_def demo_scan)
  have keys: "commit_exact (marker_of m r) [''schema'', ''runIdentity'', ''snapshotIdentity'', ''manifest''] l = Inr ()"
    "commit_exact (jidx (marker_of m r) ''manifest'') [''path'', ''sha256''] l = Inr ()" for m r l
    by (auto simp: marker_of_def commit_exact_def literal_object literal_keys jidx_jobj)
  have "validate_published_marker (demo_env p) root st = Inr (marker_of demo_manifest (demo_manifest_ref p))"
    using ids parsed keys demo_read [OF assms, of root st, unfolded demo_env_def] demo_marker_ref [of p]
    by (simp add: validate_published_marker_def demo_env_def)
       (simp add: marker_of_def jidx_jobj demo_get text_is_def sha256_hex_digest)
  then show ?thesis
    using demo_prevalidate [OF assms] demo_marker_ref by (simp add: validate_committed_run_def)
qed

text \<open>C7: a run that validates as committed has a completion marker that names the run and the snapshot
  of its manifest; the manifest is the very file with the digest in the marker, is well formed with only
  terminal nodes, and every artifact of every node with a result is bound: its reference consumes the
  run's snapshot under a registered contract and carries the digest of the bytes read for it beneath the
  run, which pass that contract; no two of them are the same file.\<close>

theorem committed_run_bound:
  assumes "validate_committed_run env root st = Inr (marker, manifest)"
  shows "run_bound env root st marker manifest"
  by (rule committed_run_Inr [OF assms])

lemma committed_run_bound_witness:
  "run_bound (demo_env ''m'') ''/run'' () (marker_of demo_manifest (demo_manifest_ref ''m'')) demo_manifest \<and>
   manifest_refs demo_manifest = [demo_ref]"
  using committed_run_bound [OF demo_committed [of "''m''" "''/run''" "()"]] demo_refs by simp

text \<open>The path of the manifest in a marker is not checked: it may lead out of the run.\<close>

lemma marker_may_leave_run:
  "\<exists>manifest. validate_committed_run (demo_env ''../x'') ''/run'' () =
     Inr (marker_of demo_manifest (demo_manifest_ref ''../x''), manifest)"
  using demo_committed [of "''../x''" "''/run''" "()"] by simp

end
