(* ===== verification/Publish_Props.thy ===== *)
theory Publish_Props
  imports Run_Publish Commit_Props
begin

text \<open>
  Properties of staging and publication: a staged artifact is read back as it was written, and a
  successful commit leaves a valid marker for a complete run.
\<close>

section \<open>Staging\<close>

text \<open>Only the ownership changes while an artifact is staged.\<close>

definition same_stage :: "'f staged_writer \<times> 'f \<Rightarrow> 'f staged_writer \<times> 'f \<Rightarrow> bool" where
  "same_stage w w' \<longleftrightarrow> sw_stage_path (fst w') = sw_stage_path (fst w) \<and> sw_snapshot (fst w') = sw_snapshot (fst w) \<and>
     sw_artifacts (fst w') = sw_artifacts (fst w)"

lemma same_stage_laws [simp]: "reflp same_stage" "transp same_stage"
  by (auto simp: same_stage_def reflp_def transp_def)

lemma keeps_stage:
  "keeps same_stage (on_snd m)" "keeps same_stage (own_file p i)" "keeps same_stage (disown_file p)"
  "keeps same_stage (interrupt_here phase)"
  by (auto simp: keeps_def on_snd_def own_file_def disown_file_def interrupt_here_def modify_def look_at_def same_stage_def
      split: prod.splits)

lemmas keeps_rules = keeps_bind keeps_attempt keeps_pure keeps_map_err keeps_stage same_stage_laws

lemma keeps_abandon: "keeps same_stage (abandon pf dir t tp cause)"
  unfolding abandon_def by (intro keeps_rules) (auto split: sum.split intro: keeps_rules)

lemma keeps_hook: "keeps same_stage (before_publish dir digest)"
  by (auto simp: keeps_def before_publish_def map_err_act_def on_snd_def same_stage_def split: prod.splits option.splits)

lemma keeps_publish: "keeps same_stage (publish_object pf dir t tp i digest)"
  unfolding publish_object_def
  by (intro keeps_rules)
     (auto split: sum.split publish_error.split intro!: keeps_rules keeps_abandon)

lemma keeps_store: "keeps same_stage (store_object pf dir bytes digest t)"
  unfolding store_object_def Let_def
  by (intro keeps_rules keeps_hook keeps_publish) (auto split: sum.split intro!: keeps_rules keeps_abandon)

lemma staged_digest: "staged_sha256_hex = sha256_hex"
  by (simp add: staged_sha256_hex_def fun_eq_iff sha256_hex_def sha.finish_one)

definition staged_ok :: "'f platform \<Rightarrow> 'f staged_writer \<Rightarrow> u8 list \<Rightarrow> artifact_write_contract \<Rightarrow> staged_ref \<Rightarrow> 'f staged_writer \<times> 'f \<Rightarrow> bool" where
  "staged_ok pf w bytes c r state \<longleftrightarrow>
     (\<exists>owned. r = staged_ref_of w c bytes (sha256_hex bytes) owned) \<and> is_digest (sw_snapshot w) \<and>
     0 < wc_max_bytes c \<and> length bytes \<le> wc_max_bytes c \<and> wc_validate c bytes = Inr () \<and>
     sw_artifacts (fst state) = sw_artifacts w @ [r] \<and> sw_stage_path (fst state) = sw_stage_path w \<and>
     sw_snapshot (fst state) = sw_snapshot w \<and>
     (\<exists>fid. pf_read_beneath pf (sw_stage_path w) [''objects'', ''sha256'', sha256_hex bytes] (wc_max_bytes c) (snd state)
        = Inr \<lparr>sr_bytes = bytes, sr_id = fid\<rparr>)"

lemma validate_contract_Inr:
  "validate_contract c bytes = Inr u \<Longrightarrow> 0 < wc_max_bytes c \<and> length bytes \<le> wc_max_bytes c \<and> wc_validate c bytes = Inr u"
  unfolding validate_contract_def and_then_eq_Inr ensure_eq_Inr map_err_eq_Inr by auto

lemma stage_once_Inr:
  assumes "stage_once pf bytes c (w, st) = (Inr r, state)"
  shows "staged_ok pf w bytes c r state"
proof -
  let ?d = "sha256_hex bytes"
  obtain st1 dir t owned w2 st2 where
    contract: "validate_contract c bytes = Inr ()"
    and store: "store_object pf dir bytes ?d t (w, st1) = (Inr owned, (w2, st2))"
    and verify: "verify_staged pf c bytes ?d (w2, st2) = Inr ()"
    and r: "staged_ref_of w2 c bytes ?d owned = r" "validate_ref_coherence r = Inr ()"
    and state: "(w2\<lparr>sw_artifacts := sw_artifacts w2 @ [r]\<rparr>, st2) = state"
  proof -
    from assms obtain sequence st1 layout where head: "validate_contract c bytes = Inr ()"
      "pf_nonce_sequence pf st = (sequence, st1)" "sw_layout w = Some layout"
      and rest: "bind_act (store_object pf (ly_sha256 layout) bytes ?d (''.tmp-'' @ ?d @ ''-'' @ show_nat sequence)) (\<lambda>owned_by_stage.
        bind_act (look_at (verify_staged pf c bytes ?d)) (\<lambda>_.
        bind_act (look_at (\<lambda>(w, st). Ok (staged_ref_of w c bytes ?d owned_by_stage))) (\<lambda>artifact.
        bind_act (check (validate_ref_coherence artifact)) (\<lambda>_.
        bind_act (modify (\<lambda>(w, st). (w\<lparr>sw_artifacts := sw_artifacts w @ [artifact]\<rparr>, st))) (\<lambda>_.
        ret artifact))))) (w, st1) = (Inr r, state)"
      unfolding stage_once_def staged_digest Let_def bind_act_Inr [of "check x" for x] bind_act_Inr [of "on_snd x" for x]
        bind_act_Inr [of "look_at (\<lambda>(w, st). ok_or (sw_layout w) e)" for e]
      by (auto simp: ok_or_def split: option.splits)
    from rest obtain owned w2 st2 where "store_object pf (ly_sha256 layout) bytes ?d (''.tmp-'' @ ?d @ ''-'' @ show_nat sequence) (w, st1)
        = (Inr owned, (w2, st2))" "verify_staged pf c bytes ?d (w2, st2) = Inr ()"
      "staged_ref_of w2 c bytes ?d owned = r" "validate_ref_coherence r = Inr ()"
      "(w2\<lparr>sw_artifacts := sw_artifacts w2 @ [r]\<rparr>, st2) = state"
      unfolding bind_act_Inr by auto
    then show thesis using that head by blast
  qed
  have same: "sw_stage_path w2 = sw_stage_path w" "sw_snapshot w2 = sw_snapshot w" "sw_artifacts w2 = sw_artifacts w"
    using store keepsD [OF keeps_store] by (fastforce simp: same_stage_def)+
  have "is_digest (sw_snapshot w)"
    using r(2) same unfolding r(1) [symmetric] by (auto simp: validate_ref_coherence_def validate_stage_digest_def and_then_eq_Inr staged_ref_of_def)
  moreover have "r = staged_ref_of w c bytes ?d owned" using r(1) same by (simp add: staged_ref_of_def)
  moreover obtain found where "pf_read_beneath pf (sw_stage_path w) [''objects'', ''sha256'', ?d] (wc_max_bytes c) st2 = Inr found"
    "sr_bytes found = bytes"
    using verify same(1) unfolding verify_staged_def prod.case and_then_eq_Inr ensure_eq_Inr map_err_eq_Inr by auto
  ultimately show ?thesis
    using validate_contract_Inr [OF contract] same unfolding staged_ok_def state [symmetric] by (cases found) auto
qed

lemma stage_Inr: "stage pf bytes c (w, st) = (Inr r, state) \<Longrightarrow> staged_ok pf w bytes c r state"
  by (auto simp: stage_def split: prod.splits sum.splits intro: stage_once_Inr)

section \<open>Dropping a staged set\<close>

text \<open>Removing a file does not change what is read beneath a directory it is not in, and a directory is
  removed only when it is empty.\<close>

definition removal_laws :: "'f platform \<Rightarrow> string \<Rightarrow> bool" where
  "removal_laws pf root \<longleftrightarrow>
     (\<forall>p st cs n. \<not> starts_with p (root @ ''/'') \<longrightarrow>
        pf_read_beneath pf root cs n (snd (pf_remove_file pf p st)) = pf_read_beneath pf root cs n st) \<and>
     (\<forall>p st cs n. pf_read_beneath pf root cs n (snd (pf_remove_dir pf p st)) = pf_read_beneath pf root cs n st)"

definition reads_same :: "'f platform \<Rightarrow> string \<Rightarrow> 'f \<Rightarrow> 'f \<Rightarrow> bool" where
  "reads_same pf root st st' \<longleftrightarrow> (\<forall>cs n. pf_read_beneath pf root cs n st' = pf_read_beneath pf root cs n st)"

lemma clean_files_reads:
  assumes "removal_laws pf root" "\<forall>e \<in> set es. \<not> starts_with (fst e) (root @ ''/'')"
  shows "reads_same pf root (snd (snd acc)) (snd (snd (fold (clean_file pf) es acc)))"
  using assms(2)
proof (induction es arbitrary: acc)
  case (Cons e es)
  obtain p i report files st where e: "e = (p, i)" "acc = (report, files, st)" by (cases e, cases acc) auto
  have "reads_same pf root st (snd (pf_remove_file pf p st))"
    using assms(1) Cons.prems unfolding removal_laws_def reads_same_def by (simp add: e)
  then have "reads_same pf root (snd (snd acc)) (snd (snd (clean_file pf e acc)))"
    by (auto simp: clean_file_def e reads_same_def split: sum.splits prod.splits)
  then show ?case using Cons.IH [of "clean_file pf e acc"] Cons.prems by (simp add: reads_same_def)
qed (simp add: reads_same_def)

lemma clean_directories_reads:
  assumes "removal_laws pf root"
  shows "reads_same pf root (snd acc) (snd (fold (clean_directory pf) ps acc))"
proof (induction ps arbitrary: acc)
  case (Cons p ps)
  have "reads_same pf root (snd acc) (snd (pf_remove_dir pf p (snd acc)))"
    using assms unfolding removal_laws_def reads_same_def by simp
  then have "reads_same pf root (snd acc) (snd (clean_directory pf p acc))"
    by (auto simp: clean_directory_def reads_same_def split: sum.splits prod.splits)
  then show ?case using Cons.IH [of "clean_directory pf p acc"] by (simp add: reads_same_def)
qed (simp add: reads_same_def)

lemma drop_set_reads:
  assumes "removal_laws pf root" "\<forall>p \<in> fst ` set (ow_files (ss_ownership s)). \<not> starts_with p (root @ ''/'')"
  shows "reads_same pf root st (drop_set pf s st)"
proof -
  have "\<forall>e \<in> set (bt_iter (ow_files (ss_ownership s))). \<not> starts_with (fst e) (root @ ''/'')"
    using assms(2) by (auto simp: bt_iter_def bt_keys_def)
  note files = clean_files_reads [OF assms(1) this, of "(empty_report, ow_files (ss_ownership s), st)"]
  obtain report left st1 where f: "fold (clean_file pf) (bt_iter (ow_files (ss_ownership s)))
      (empty_report, ow_files (ss_ownership s), st) = (report, left, st1)"
    using prod_cases3 by blast
  obtain report' st2 where d: "fold (clean_directory pf) (rev (ow_directories (ss_ownership s))) (report, st1) = (report', st2)"
    by (cases "fold (clean_directory pf) (rev (ow_directories (ss_ownership s))) (report, st1)")
  have "drop_set pf s st = st2"
    by (simp add: drop_set_def cleanup_owned_entries_def cleanup_owned_files_def cleanup_owned_directories_def f d)
  then show ?thesis
    using files clean_directories_reads [OF assms(1), of "(report, st1)" "rev (ow_directories (ss_ownership s))"]
    by (simp add: f d reads_same_def)
qed

lemma artifacts_of_simps [simp]:
  "ae_read_beneath (artifacts_of env) = pf_read_beneath (ce_platform env)" "ae_lib (artifacts_of env) = ae_lib (ce_artifacts env)"
  by (simp_all add: artifacts_of_def)

lemma published_marker_reads:
  "reads_same (ce_platform env) root st st' \<Longrightarrow>
   validate_published_marker (artifacts_of env) root st' = validate_published_marker (artifacts_of env) root st"
  by (simp add: reads_same_def validate_published_marker_def read_manifest_def read_manifest_stable_def)

section \<open>A successful commit\<close>

lemma verify_marker_Inr:
  "verify_marker env options final_path marker undo st = (Inr u, st') \<Longrightarrow>
   validate_published_marker (artifacts_of env) final_path st' = Inr marker"
  unfolding verify_marker_def bind_act_Inr or_undo_Inr act_simps
  by (auto simp: bind_act_Inr split: if_splits)

lemma publish_marker_Inr:
  assumes "publish_marker env final_path manifest_ref manifest options st = (Inr result, st')"
  shows "result = \<lparr>cm_final_path = final_path, cm_marker = marker_of manifest manifest_ref\<rparr> \<and>
    validate_published_marker (artifacts_of env) final_path st' = Inr (marker_of manifest manifest_ref)"
  using assms unfolding publish_marker_def Let_def bind_act_Inr act_simps or_undo_Inr
  by (auto simp: bind_act_Inr dest: verify_marker_Inr)

lemma prevalidate_Inr:
  assumes "prevalidate env declared root manifest_ref st = Inr manifest"
  shows "manifest_ref \<in> set declared \<and> manifest_bound env root st manifest_ref manifest \<and>
    (\<exists>snapshot. jidx manifest_ref ''consumedSnapshotIdentity'' = JStr snapshot \<and>
       all_bound env root st snapshot (manifest_refs manifest)) \<and>
    ref_identity ` set (manifest_refs manifest) = ref_identity ` (set declared - {manifest_ref})"
proof -
  from assms have mem: "manifest_ref \<in> set declared" and refs: "prevalidate_refs env root declared manifest_ref st = Inr manifest"
    by (auto simp: prevalidate_def and_then_eq_Inr list_ex_iff)
  show ?thesis by (rule prevalidate_refs_Inr [OF refs]) (use mem in blast)
qed

lemma promote_Inr:
  assumes "promote env staged manifest_ref final_name options st = (Inr result, st')"
  shows "\<exists>manifest st1. validate_final_name final_name = Inr () \<and>
    prevalidate (artifacts_of env) (map staged_ref_json (ss_artifacts staged)) (ss_stage_path staged) manifest_ref st = Inr manifest \<and>
    publish_marker env (path_push (ss_authority_root staged) final_name) manifest_ref manifest options st1 = (Inr result, st')"
  using assms unfolding promote_def Let_def bind_act_Inr [of "check x" for x] bind_act_Inr [of "look_at x" for x]
    bind_act_Inr [of "map_err_act f x" for f x] bind_act_Inr [of "rename_linux_no_replace e f g h" for e f g h]
    bind_act_Inr [of "sync_directory e f" for e f] act_simps
  by auto

lemma commit_Inr:
  assumes run: "commit env staged manifest_ref final_name options st = (Inr result, st')"
    and laws: "removal_laws (ce_platform env) (path_push (ss_authority_root staged) final_name)"
    and owned: "\<forall>p \<in> fst ` set (ow_files (ss_ownership staged)).
       \<not> starts_with p (path_push (ss_authority_root staged) final_name @ ''/'')"
  obtains manifest where
    "prevalidate (artifacts_of env) (map staged_ref_json (ss_artifacts staged)) (ss_stage_path staged) manifest_ref st = Inr manifest"
    "validate_final_name final_name = Inr ()"
    "result = \<lparr>cm_final_path = path_push (ss_authority_root staged) final_name, cm_marker = marker_of manifest manifest_ref\<rparr>"
    "validate_published_marker (artifacts_of env) (path_push (ss_authority_root staged) final_name) st' = Inr (marker_of manifest manifest_ref)"
proof -
  obtain st2 where st2: "promote env staged manifest_ref final_name options st = (Inr result, st2)"
    "st' = drop_set (ce_platform env) staged st2"
    using run by (auto simp: commit_def split: prod.splits)
  obtain manifest st1 where m: "validate_final_name final_name = Inr ()"
    "prevalidate (artifacts_of env) (map staged_ref_json (ss_artifacts staged)) (ss_stage_path staged) manifest_ref st = Inr manifest"
    and pub: "publish_marker env (path_push (ss_authority_root staged) final_name) manifest_ref manifest options st1 = (Inr result, st2)"
    using promote_Inr [OF st2(1)] by blast
  show thesis
    using that [OF m(2,1)] publish_marker_Inr [OF pub] published_marker_reads [OF drop_set_reads [OF laws owned]] st2(2) by metis
qed

section \<open>Properties\<close>

text \<open>A platform on which everything succeeds, over the store of the run with one artifact.\<close>

definition demo_platform :: "unit platform" where
  "demo_platform = \<lparr>pf_open_directory = (\<lambda>_. ret 1), pf_open_child_directory = (\<lambda>_ _ _. ret 1),
     pf_create_directory = (\<lambda>_ _ _. ret ()), pf_create_new_file = (\<lambda>_ _ _. ret 2), pf_open_new = (\<lambda>_. ret 2),
     pf_write_all = (\<lambda>_ _. ret ()), pf_sync_all = (\<lambda>_. ret ()), pf_publish_no_replace = (\<lambda>_ _ _ _. ret ()),
     pf_remove_child = (\<lambda>_ _ _. ret ()), pf_sync_directory = (\<lambda>_. ret ()), pf_renameat2 = (\<lambda>_ _. ret ()),
     pf_remove_file = (\<lambda>_. ret ()), pf_remove_dir = (\<lambda>_. ret ()), pf_volume_identity = (\<lambda>_ _. Inr 0),
     pf_file_identity = (\<lambda>_ _. Inr (0, 9)), pf_open_file_identity = (\<lambda>_ _. Inr (0, 9)),
     pf_nonce_sequence = (\<lambda>st. (0, st)), pf_marker_sequence = (\<lambda>st. (0, st)), pf_now_nanos = (\<lambda>_. Inr 0), pf_process_id = 7,
     pf_read_beneath = ae_read_beneath (demo_env ''m'')\<rparr>"

definition demo_commit_env :: "unit commit_env" where
  "demo_commit_env = \<lparr>ce_artifacts = demo_env ''m'', ce_platform = demo_platform, ce_to_vec = (\<lambda>_. [1]),
     ce_is_dir = (\<lambda>_ _. True), ce_exists = (\<lambda>_ _. False), ce_read = (\<lambda>_ _. Inr [1])\<rparr>"

definition demo_writer :: "unit staged_writer" where
  "demo_writer = (let d = \<lparr>hd_path = ''/s'', hd_handle = 1\<rparr> in
     \<lparr>sw_authority_root = ''/a'', sw_stage_path = ''/s'', sw_snapshot = sha256_hex [], sw_artifacts = [],
      sw_interrupt_after = None, sw_before_publish = None,
      sw_layout = Some \<lparr>ly_root = d, ly_staging = d, ly_stage = d, ly_objects = d, ly_sha256 = d\<rparr>,
      sw_ownership = \<lparr>ow_files = [], ow_directories = []\<rparr>\<rparr>)"

definition demo_staged_ref :: "string \<Rightarrow> string \<Rightarrow> string \<Rightarrow> u8 list \<Rightarrow> staged_ref" where
  "demo_staged_ref schema type p bytes = \<lparr>sf_schema = schema, sf_type = type, sf_path = p, sf_sha256 = sha256_hex bytes,
     sf_consumed = sha256_hex [], sf_size = length bytes, sf_owned_by_stage = True\<rparr>"

definition demo_set :: staged_set where
  "demo_set = \<lparr>ss_authority_root = ''/a'', ss_stage_path = ''/s'', ss_snapshot = sha256_hex [],
     ss_artifacts = [demo_staged_ref ''code-intel-hospital-markdown.v1'' ''diagnosis.hospital-view'' ''objects/a'' demo_view,
       demo_staged_ref ''code-intel-run-manifest.v1'' ''run.manifest'' ''m'' [2]],
     ss_layout = None, ss_ownership = \<lparr>ow_files = [], ow_directories = []\<rparr>\<rparr>"

lemma demo_pf_simps:
  "pf_open_directory demo_platform p = ret 1" "pf_create_new_file demo_platform h p n = ret 2" "pf_open_new demo_platform p = ret 2"
  "pf_write_all demo_platform h b = ret ()" "pf_sync_all demo_platform h = ret ()" "pf_publish_no_replace demo_platform h p s t = ret ()"
  "pf_sync_directory demo_platform h = ret ()" "pf_renameat2 demo_platform p q = ret ()" "pf_file_identity demo_platform h = (\<lambda>_. Inr (0, 9))"
  "pf_nonce_sequence demo_platform st = (0, st)" "pf_marker_sequence demo_platform st = (0, st)"
  "pf_read_beneath demo_platform = ae_read_beneath (demo_env ''m'')"
  by (simp_all add: demo_platform_def)

lemma demo_env_simps:
  "ce_platform demo_commit_env = demo_platform" "ce_to_vec demo_commit_env = (\<lambda>_. [1])"
  by (simp_all add: demo_commit_env_def)

lemma demo_artifacts: "artifacts_of demo_commit_env = demo_env ''m''"
  by (simp add: artifacts_of_def demo_commit_env_def demo_pf_simps)

lemmas act_defs = bind_act_def ret_def check_def look_at_def update_def modify_def map_err_act_def attempt_def on_snd_def or_undo_def

lemma demo_stages:
  "\<exists>r w'. stage demo_platform [2] \<lparr>wc_schema = ''a'', wc_type = ''b'', wc_max_bytes = 8, wc_validate = (\<lambda>_. Inr ())\<rparr> (demo_writer, ())
     = (Inr r, (w', ()))"
proof -
  have "validate_contract \<lparr>wc_schema = ''a'', wc_type = ''b'', wc_max_bytes = 8, wc_validate = (\<lambda>_. Inr ())\<rparr> [2] = Inr ()"
  proof -
    have "is_ascii_alphanumeric (CHR ''a'')" "is_ascii_alphanumeric (CHR ''b'')" by code_simp+
    then show ?thesis by (simp add: validate_contract_def)
  qed
  then show ?thesis
    by (simp add: stage_def stage_once_def store_object_def publish_object_def act_defs demo_pf_simps demo_writer_def Let_def
        create_staged_file_def own_file_def disown_file_def interrupt_here_def stage_interrupt_def write_temporary_def
        before_publish_def publish_no_replace_def sync_metadata_def verify_staged_def staged_digest demo_env_def
        staged_ref_of_def validate_ref_coherence_def validate_stage_digest_def sha256_hex_digest)
qed

text \<open>C32: where staging an artifact succeeds, its reference carries the SHA-256 of exactly these bytes, the
  path \<open>objects/sha256\<close> with that digest and the snapshot of the stage; the bytes are within the contract's
  limit, pass its validator and are read back from the stage at that path; the reference is the last
  one of the set.\<close>

theorem staged_artifact_reads_back:
  assumes "stage pf bytes c (w, st) = (Inr r, (w', st'))"
  shows "sf_sha256 r = sha256_hex bytes \<and> sf_path r = ''objects/sha256/'' @ sha256_hex bytes \<and> sf_consumed r = sw_snapshot w \<and>
    sf_size r = length bytes \<and> length bytes \<le> wc_max_bytes c \<and> wc_validate c bytes = Inr () \<and>
    sw_artifacts w' = sw_artifacts w @ [r] \<and>
    (\<exists>fid. pf_read_beneath pf (sw_stage_path w') [''objects'', ''sha256'', sha256_hex bytes] (wc_max_bytes c) st'
       = Inr \<lparr>sr_bytes = bytes, sr_id = fid\<rparr>)"
  using stage_Inr [OF assms] by (auto simp: staged_ok_def staged_ref_of_def object_path_def)

lemma staged_artifact_reads_back_witness:
  "\<exists>r w'. stage demo_platform [2] \<lparr>wc_schema = ''a'', wc_type = ''b'', wc_max_bytes = 8, wc_validate = (\<lambda>_. Inr ())\<rparr> (demo_writer, ())
     = (Inr r, (w', ())) \<and> sf_sha256 r = sha256_hex [2] \<and> sw_artifacts w' = [r]"
proof -
  obtain r w' where run: "stage demo_platform [2] \<lparr>wc_schema = ''a'', wc_type = ''b'', wc_max_bytes = 8, wc_validate = (\<lambda>_. Inr ())\<rparr>
      (demo_writer, ()) = (Inr r, (w', ()))"
    using demo_stages by blast
  have "sw_artifacts demo_writer = []" by (simp add: demo_writer_def Let_def)
  then show ?thesis using run staged_artifact_reads_back [OF run] by auto
qed


lemma demo_commits:
  "commit demo_commit_env demo_set (demo_manifest_ref ''m'') ''run'' default_options () =
     (Inr \<lparr>cm_final_path = ''/a/run'', cm_marker = marker_of demo_manifest (demo_manifest_ref ''m'')\<rparr>, ())"
proof -
  have p: "''m'' \<noteq> []" "split_on (CHR ''/'') ''m'' \<notin> {[''run-complete.json''], [''objects'', ''a'']}" by simp_all
  have set: "map staged_ref_json (ss_artifacts demo_set) = [demo_ref, demo_manifest_ref ''m'']"
    by (simp add: demo_set_def demo_staged_ref_def staged_ref_json_def demo_ref_def demo_manifest_ref_def)
  have "prevalidate_refs (demo_env ''m'') ''/s'' ([demo_ref] @ [demo_manifest_ref ''m'']) (demo_manifest_ref ''m'') () = Inr demo_manifest"
    using prevalidate_existing_Inr(2) [OF demo_prevalidate [OF p]] by (simp add: demo_refs)
  then have pre: "prevalidate (demo_env ''m'') [demo_ref, demo_manifest_ref ''m''] ''/s'' (demo_manifest_ref ''m'') () = Inr demo_manifest"
    by (simp add: prevalidate_def)
  have name: "validate_final_name ''run'' = Inr ()" by code_simp
  have marker: "validate_published_marker (demo_env ''m'') ''/a/run'' () = Inr (marker_of demo_manifest (demo_manifest_ref ''m''))"
    using demo_committed [OF p] by (auto simp: validate_committed_run_def and_then_eq_Inr)
  have read: "ae_read_beneath (demo_env ''m'') root [''.run-complete.json.tmp.7.0''] n () = Inr \<lparr>sr_bytes = [2], sr_id = (0, 2)\<rparr>" for root n
    by (simp add: demo_env_def)
  have "show_nat 7 = ''7''" "show_nat 0 = ''0''"
    "path_push ''/a/run'' (''.run-complete.json.tmp.'' @ ''7'' @ ''.'' @ ''0'') = ''/a/run/.run-complete.json.tmp.7.0''" by code_simp+
  moreover have "pf_process_id demo_platform = 7" by (simp add: demo_platform_def)
  ultimately have "marker_temp_loop demo_commit_env ''/a/run'' (Suc n) () =
      (Inr (''/a/run/.run-complete.json.tmp.7.0'', ''.run-complete.json.tmp.7.0'', 2), ())" for n
    by (simp add: act_defs demo_commit_env_def demo_pf_simps Let_def)
  from this [of 1023] have temp: "create_marker_temp demo_commit_env ''/a/run'' () =
      (Inr (''/a/run/.run-complete.json.tmp.7.0'', ''.run-complete.json.tmp.7.0'', 2), ())"
    by (simp add: create_marker_temp_def del: marker_temp_loop.simps)
  have path: "path_push ''/a'' ''run'' = ''/a/run''" "path_push ''/a/run'' ''run-complete.json'' = ''/a/run/run-complete.json''" by code_simp+
  have dirs: "sync_directory demo_commit_env q () = (Inr (), ())" for q
    by (simp add: sync_directory_def sync_directory_path_def act_defs demo_commit_env_def demo_pf_simps)
  have renames: "rename_linux_no_replace demo_commit_env a b c () = (Inr (), ())" if "CHR 0x00 \<notin> set a" "CHR 0x00 \<notin> set b" for a b c
    using that by (simp add: rename_linux_no_replace_def act_defs demo_commit_env_def demo_pf_simps)
  have interrupts: "commit_interrupt default_options phase = Inr ()" for phase
    by (simp add: commit_interrupt_def default_options_def)
  have published: "publish_marker demo_commit_env ''/a/run'' (demo_manifest_ref ''m'') demo_manifest default_options () =
      (Inr \<lparr>cm_final_path = ''/a/run'', cm_marker = marker_of demo_manifest (demo_manifest_ref ''m'')\<rparr>, ())"
    using read marker temp renames dirs interrupts
    by (simp add: publish_marker_def verify_marker_def Let_def act_defs path demo_artifacts write_marker_temp_def
        demo_env_simps demo_pf_simps default_options_def)
  show ?thesis
    using published pre set name dirs renames interrupts
    by (simp add: commit_def promote_def Let_def act_defs path demo_artifacts demo_env_simps demo_pf_simps demo_set_def
        prepare_for_commit_def drop_set_def cleanup_owned_entries_def cleanup_owned_files_def
        cleanup_owned_directories_def bt_iter_def bt_keys_def)
qed


end
