(* ===== verification/Marker_Rollback.thy ===== *)
theory Marker_Rollback
  imports Publish_Props
begin

text \<open>
  A publication of the completion marker that fails leaves the marker as it was: what has been put in
  place is taken back.  The laws are those of a directory whose entries can be created, written, renamed,
  read and removed; any call may fail except the removal of an own file.
\<close>

section \<open>Names in a directory\<close>

definition plain_name :: "string \<Rightarrow> bool" where
  "plain_name name \<longleftrightarrow> name \<notin> {[], ''.'', ''..''} \<and> CHR ''/'' \<notin> set name"

lemma split_on_last: "c \<notin> set b \<Longrightarrow> split_on c (a @ c # b) = split_on c a @ [b]"
  by (induction a) (auto simp: split_on_no_sep split: list.splits)

lemma file_name_push:
  assumes "plain_name name"
  shows "path_file_name (components (path_push p name)) = Some name"
proof -
  note plain = assms [unfolded plain_name_def]
  have sep: "path_file_name (components (a @ CHR ''/'' # name)) = Some name" for a
  proof -
    have "split_on (CHR ''/'') (a @ CHR ''/'' # name) = split_on (CHR ''/'') a @ [name]"
      using plain by (intro split_on_last) simp
    then show ?thesis using plain by (auto simp: components_def path_file_name_def Let_def)
  qed
  consider "p = []" | a where "p = a @ [CHR ''/'']" | "p \<noteq> []" "last p \<noteq> CHR ''/''"
    by (metis append_butlast_last_id)
  then show ?thesis
  proof cases
    case 1
    then show ?thesis using plain by (auto simp: path_push_def components_plain path_file_name_def)
  qed (use sep in \<open>simp_all add: path_push_def\<close>)
qed

lemma path_push_inj [simp]: "path_push p a = path_push p b \<longleftrightarrow> a = b"
  by (simp add: path_push_def)

definition marker_name :: string where "marker_name = ''run-complete.json''"

lemma digit_not_slash: "list_all is_ascii_digit s \<Longrightarrow> CHR ''/'' \<notin> set s"
proof -
  have "\<not> is_ascii_digit (CHR ''/'')" by code_simp
  then show "list_all is_ascii_digit s \<Longrightarrow> CHR ''/'' \<notin> set s" by (auto simp: list_all_iff)
qed

lemma temp_plain:
  "plain_name (''.run-complete.json.tmp.'' @ show_nat a @ ''.'' @ show_nat b)" "plain_name marker_name"
  "''.run-complete.json.tmp.'' @ show_nat a @ ''.'' @ show_nat b \<noteq> marker_name"
  using show_nat_digits [of a] show_nat_digits [of b] digit_not_slash by (auto simp: plain_name_def marker_name_def)

section \<open>The laws\<close>

type_synonym entry = "(u8 list \<times> file_id) option"

definition marker_laws :: "(string \<Rightarrow> 'f \<Rightarrow> entry) \<Rightarrow> 'f platform \<Rightarrow> string \<Rightarrow> bool" where
  "marker_laws look pf root \<longleftrightarrow>
     (\<forall>q st. look q (snd (pf_marker_sequence pf st)) = look q st) \<and>
     (\<forall>n st q. plain_name n \<longrightarrow> q \<noteq> n \<longrightarrow> look q (snd (pf_open_new pf (path_push root n) st)) = look q st) \<and>
     (\<forall>n st h st' b r st''. plain_name n \<longrightarrow> pf_open_new pf (path_push root n) st = (Inr h, st') \<longrightarrow>
        pf_write_all pf h b st' = (r, st'') \<longrightarrow>
        (\<forall>q. q \<noteq> n \<longrightarrow> look q st'' = look q st') \<and> (is_ok r \<longrightarrow> (\<exists>i. look n st'' = Some (b, i)))) \<and>
     (\<forall>h st q. look q (snd (pf_sync_all pf h st)) = look q st) \<and>
     (\<forall>p st q. look q (snd (pf_open_directory pf p st)) = look q st) \<and>
     (\<forall>h st q. look q (snd (pf_sync_directory pf h st)) = look q st) \<and>
     (\<forall>a b st r st'. plain_name a \<longrightarrow> plain_name b \<longrightarrow> a \<noteq> b \<longrightarrow>
        pf_renameat2 pf (path_push root a) (path_push root b) st = (r, st') \<longrightarrow>
        (\<forall>q. q \<noteq> a \<longrightarrow> q \<noteq> b \<longrightarrow> look q st' = look q st) \<and>
        (if is_ok r then look b st = None \<and> look b st' = look a st else look b st' = look b st)) \<and>
     (\<forall>n st. plain_name n \<longrightarrow> look n (snd (pf_remove_file pf (path_push root n) st)) = None) \<and>
     (\<forall>n st q. plain_name n \<longrightarrow> q \<noteq> n \<longrightarrow> look q (snd (pf_remove_file pf (path_push root n) st)) = look q st) \<and>
     (\<forall>n k st f. plain_name n \<longrightarrow> pf_read_beneath pf root [n] k st = Inr f \<longrightarrow>
        look n st = Some (sr_bytes f, sr_id f) \<and> length (sr_bytes f) \<le> k) \<and>
     (\<forall>n k st b i. plain_name n \<longrightarrow> look n st = Some (b, i) \<longrightarrow> length b \<le> k \<longrightarrow>
        pf_read_beneath pf root [n] k st = Inr \<lparr>sr_bytes = b, sr_id = i\<rparr>)"

lemma marker_lawsD:
  assumes "marker_laws look pf root"
  shows "pf_marker_sequence pf st = (x, st') \<Longrightarrow> look q st' = look q st"
    and "plain_name n \<Longrightarrow> q \<noteq> n \<Longrightarrow> pf_open_new pf (path_push root n) st = (r, st') \<Longrightarrow> look q st' = look q st"
    and "plain_name n \<Longrightarrow> pf_open_new pf (path_push root n) st = (Inr h, st') \<Longrightarrow> pf_write_all pf h b st' = (r', st'') \<Longrightarrow>
      (\<forall>q. q \<noteq> n \<longrightarrow> look q st'' = look q st') \<and> (is_ok r' \<longrightarrow> (\<exists>i. look n st'' = Some (b, i)))"
    and "pf_sync_all pf h st = (r', st') \<Longrightarrow> look q st' = look q st"
    and "pf_open_directory pf p st = (r, st') \<Longrightarrow> look q st' = look q st"
    and "pf_sync_directory pf h st = (r', st') \<Longrightarrow> look q st' = look q st"
    and "plain_name a \<Longrightarrow> plain_name c \<Longrightarrow> a \<noteq> c \<Longrightarrow> pf_renameat2 pf (path_push root a) (path_push root c) st = (r', st') \<Longrightarrow>
      (\<forall>q. q \<noteq> a \<longrightarrow> q \<noteq> c \<longrightarrow> look q st' = look q st) \<and>
      (if is_ok r' then look c st = None \<and> look c st' = look a st else look c st' = look c st)"
    and "plain_name n \<Longrightarrow> pf_remove_file pf (path_push root n) st = (r', st') \<Longrightarrow> look n st' = None"
    and "plain_name n \<Longrightarrow> q \<noteq> n \<Longrightarrow> pf_remove_file pf (path_push root n) st = (r', st') \<Longrightarrow> look q st' = look q st"
    and "plain_name n \<Longrightarrow> pf_read_beneath pf root [n] k st = Inr f \<Longrightarrow> look n st = Some (sr_bytes f, sr_id f) \<and> length (sr_bytes f) \<le> k"
    and "plain_name n \<Longrightarrow> look n st = Some (b, i) \<Longrightarrow> length b \<le> k \<Longrightarrow> pf_read_beneath pf root [n] k st = Inr \<lparr>sr_bytes = b, sr_id = i\<rparr>"
proof -
  note L1 = assms [unfolded marker_laws_def]
  note L2 = L1 [THEN conjunct2]
  note L3 = L2 [THEN conjunct2]
  note L4 = L3 [THEN conjunct2]
  note L5 = L4 [THEN conjunct2]
  note L6 = L5 [THEN conjunct2]
  note L7 = L6 [THEN conjunct2]
  note L8 = L7 [THEN conjunct2]
  note L9 = L8 [THEN conjunct2]
  note L10 = L9 [THEN conjunct2]
  note L11 = L10 [THEN conjunct2]
  show "pf_marker_sequence pf st = (x, st') \<Longrightarrow> look q st' = look q st"
    using L1 [THEN conjunct1] by (metis snd_conv)
  show "plain_name n \<Longrightarrow> q \<noteq> n \<Longrightarrow> pf_open_new pf (path_push root n) st = (r, st') \<Longrightarrow> look q st' = look q st"
    using L2 [THEN conjunct1] by (metis snd_conv)
  show "plain_name n \<Longrightarrow> pf_open_new pf (path_push root n) st = (Inr h, st') \<Longrightarrow> pf_write_all pf h b st' = (r', st'') \<Longrightarrow>
      (\<forall>q. q \<noteq> n \<longrightarrow> look q st'' = look q st') \<and> (is_ok r' \<longrightarrow> (\<exists>i. look n st'' = Some (b, i)))"
    using L3 [THEN conjunct1] by blast
  show "pf_sync_all pf h st = (r', st') \<Longrightarrow> look q st' = look q st"
    using L4 [THEN conjunct1] by (metis snd_conv)
  show "pf_open_directory pf p st = (r, st') \<Longrightarrow> look q st' = look q st"
    using L5 [THEN conjunct1] by (metis snd_conv)
  show "pf_sync_directory pf h st = (r', st') \<Longrightarrow> look q st' = look q st"
    using L6 [THEN conjunct1] by (metis snd_conv)
  show "plain_name a \<Longrightarrow> plain_name c \<Longrightarrow> a \<noteq> c \<Longrightarrow> pf_renameat2 pf (path_push root a) (path_push root c) st = (r', st') \<Longrightarrow>
      (\<forall>q. q \<noteq> a \<longrightarrow> q \<noteq> c \<longrightarrow> look q st' = look q st) \<and>
      (if is_ok r' then look c st = None \<and> look c st' = look a st else look c st' = look c st)"
    using L7 [THEN conjunct1] by blast
  show "plain_name n \<Longrightarrow> pf_remove_file pf (path_push root n) st = (r', st') \<Longrightarrow> look n st' = None"
    using L8 [THEN conjunct1] by (metis snd_conv)
  show "plain_name n \<Longrightarrow> q \<noteq> n \<Longrightarrow> pf_remove_file pf (path_push root n) st = (r', st') \<Longrightarrow> look q st' = look q st"
    using L9 [THEN conjunct1] by (metis snd_conv)
  show "plain_name n \<Longrightarrow> pf_read_beneath pf root [n] k st = Inr f \<Longrightarrow> look n st = Some (sr_bytes f, sr_id f) \<and> length (sr_bytes f) \<le> k"
    using L10 [THEN conjunct1] by blast
  show "plain_name n \<Longrightarrow> look n st = Some (b, i) \<Longrightarrow> length b \<le> k \<Longrightarrow> pf_read_beneath pf root [n] k st = Inr \<lparr>sr_bytes = b, sr_id = i\<rparr>"
    using L11 by blast
qed

section \<open>Steps that keep the marker\<close>

definition keeps_entry :: "(string \<Rightarrow> 'f \<Rightarrow> entry) \<Rightarrow> string \<Rightarrow> ('f, 'e, 'a) act \<Rightarrow> bool" where
  "keeps_entry look n m \<longleftrightarrow> keeps (\<lambda>st st'. look n st' = look n st) m"

lemma entry_laws [simp]: "reflp (\<lambda>st st'. look n st' = look n st)" "transp (\<lambda>st st'. look n st' = look n st)"
  by (auto simp: reflp_def transp_def)

lemma keeps_entryD: "keeps_entry look n m \<Longrightarrow> m st = (r, st') \<Longrightarrow> look n st' = look n st"
  by (auto simp: keeps_entry_def keeps_def)

lemma sync_directory_keeps:
  assumes "marker_laws look (ce_platform env) root"
  shows "keeps_entry look n (sync_directory env p)"
  unfolding keeps_entry_def sync_directory_def sync_directory_path_def
  by (intro keeps_map_err keeps_bind entry_laws) (auto simp: keeps_def dest: marker_lawsD(5,6) [OF assms])

text \<open>The temporary file: it has a fresh plain name and holds the bytes that were written.\<close>

lemma marker_temp_effect:
  assumes laws: "marker_laws look (ce_platform env) root"
    and run: "marker_temp_loop env root n st = (r, st')"
  shows "look marker_name st' = look marker_name st \<and>
    (\<forall>p name h. r = Inr (p, name, h) \<longrightarrow> plain_name name \<and> name \<noteq> marker_name \<and> p = path_push root name \<and>
       (\<exists>st1. pf_open_new (ce_platform env) p st1 = (Inr h, st')))"
  using run
proof (induction n arbitrary: st)
  case 0
  then show ?case by auto
next
  case (Suc n)
  let ?pf = "ce_platform env"
  obtain sequence st1 where s: "pf_marker_sequence ?pf st = (sequence, st1)" by force
  let ?name = "''.run-complete.json.tmp.'' @ show_nat (pf_process_id ?pf) @ ''.'' @ show_nat sequence"
  note plain = temp_plain(1,3) [of "pf_process_id ?pf" sequence]
  obtain opened st2 where o: "pf_open_new ?pf (path_push root ?name) st1 = (opened, st2)" by force
  have keep: "look marker_name st2 = look marker_name st"
    using marker_lawsD(1) [OF laws s] marker_lawsD(2) [OF laws plain(1) plain(2) [symmetric] o] by simp
  show ?case
  proof (cases opened)
    case (Inr h)
    then have "r = Inr (path_push root ?name, ?name, h)" "st' = st2"
      using Suc.prems s o by (auto simp: bind_act_def update_def attempt_def Let_def ret_def)
    then show ?thesis using keep plain o Inr by auto
  next
    case (Inl e)
    show ?thesis
    proof (cases "fst e = AlreadyExists")
      case True
      then have "marker_temp_loop env root n st2 = (r, st')"
        using Suc.prems s o Inl by (simp add: bind_act_def update_def attempt_def Let_def)
      then show ?thesis using Suc.IH keep by auto
    next
      case False
      then show ?thesis
        using Suc.prems s o Inl keep by (auto simp: bind_act_def update_def attempt_def Let_def fail_def)
    qed
  qed
qed

lemma write_temp_effect:
  assumes laws: "marker_laws look (ce_platform env) root"
    and name: "plain_name name" "name \<noteq> marker_name" "pf_open_new (ce_platform env) (path_push root name) st1 = (Inr h, st)"
    and run: "write_marker_temp env tp h bytes st = (r, st')"
  shows "look marker_name st' = look marker_name st \<and> (is_ok r \<longrightarrow> (\<exists>i. look name st' = Some (bytes, i)))"
proof -
  obtain w st2 where w: "pf_write_all (ce_platform env) h bytes st = (w, st2)" by force
  note effect = marker_lawsD(3) [OF laws name(1,3) w]
  show ?thesis
  proof (cases w)
    case (Inl e)
    then show ?thesis using run w effect name(2) by (auto simp: write_marker_temp_def map_err_act_def bind_act_def)
  next
    case (Inr u)
    obtain s st3 where s: "pf_sync_all (ce_platform env) h st2 = (s, st3)" by force
    have "r = map_err (\<lambda>e. CHostIo (''write completion marker: '' @ snd e @ ''; owned temp retained for cleanup: '' @ tp)) s" "st' = st3"
      using run w Inr s by (auto simp: write_marker_temp_def map_err_act_def bind_act_def)
    then show ?thesis
      using effect Inr name(2) marker_lawsD(4) [OF laws s] by auto
  qed
qed

section \<open>Taking back\<close>

lemma remove_own_marker:
  assumes laws: "marker_laws look (ce_platform env) root"
    and "plain_name n" "look n st = Some (bytes, i)" "length bytes \<le> MAX_MARKER_BYTES"
  shows "look n (remove_owned_marker env root (path_push root n) bytes i st) = None"
proof -
  have "pf_read_beneath (ce_platform env) root [n] MAX_MARKER_BYTES st = Inr \<lparr>sr_bytes = bytes, sr_id = i\<rparr>"
    using marker_lawsD(11) [OF assms] .
  moreover obtain r st' where "pf_remove_file (ce_platform env) (path_push root n) st = (r, st')" by force
  ultimately show ?thesis
    using marker_lawsD(8) [OF laws assms(2)] file_name_push [OF assms(2)] by (simp add: remove_owned_marker_def)
qed

lemma remove_other_marker:
  assumes laws: "marker_laws look (ce_platform env) root" and "plain_name n" "q \<noteq> n"
  shows "look q (remove_owned_marker env root (path_push root n) bytes i st) = look q st"
proof -
  obtain r st' where "pf_remove_file (ce_platform env) (path_push root n) st = (r, st')" by force
  then show ?thesis
    using marker_lawsD(9) [OF laws assms(2,3)] file_name_push [OF assms(2)]
    by (auto simp: remove_owned_marker_def split: sum.splits)
qed

lemma take_back_marker:
  assumes laws: "marker_laws look (ce_platform env) root"
    and "look marker_name st = Some (bytes, i)" "length bytes \<le> MAX_MARKER_BYTES"
  shows "look marker_name (take_back env root (path_push root marker_name) bytes i st) = None"
proof -
  obtain r st' where "sync_directory env root (remove_owned_marker env root (path_push root marker_name) bytes i st) = (r, st')" by force
  then show ?thesis
    using remove_own_marker [OF laws temp_plain(2) assms(2,3)] keeps_entryD [OF sync_directory_keeps [OF laws]]
    by (simp add: take_back_def)
qed

lemma verify_marker_Inl:
  assumes laws: "marker_laws look (ce_platform env) root"
    and marker: "look marker_name st = Some (bytes, i)" "length bytes \<le> MAX_MARKER_BYTES"
    and run: "verify_marker env options root m (take_back env root (path_push root marker_name) bytes i) st = (Inl e, st')"
  shows "look marker_name st' = None"
proof -
  have undo: "look marker_name (take_back env root (path_push root marker_name) bytes i s) = None"
    if "look marker_name s = look marker_name st" for s
    using take_back_marker [OF laws _ marker(2)] that marker(1) by simp
  have sync: "look marker_name s = look marker_name st" if "sync_directory env root st = (r, s)" for r s
    by (rule keeps_entryD [OF sync_directory_keeps [OF laws] that])
  show ?thesis
    using run unfolding verify_marker_def bind_act_Inl or_undo_Inl or_undo_Inr
    by (auto simp: bind_act_Inl or_undo_Inl dest!: sync intro!: undo split: if_splits)
qed

lemma rename_marker:
  assumes laws: "marker_laws look (ce_platform env) root" and "plain_name name" "name \<noteq> marker_name"
    and run: "rename_linux_no_replace env (path_push root name) (path_push root marker_name) action st = (r, st')"
  shows "if is_ok r then look marker_name st = None \<and> look marker_name st' = look name st
    else look marker_name st' = look marker_name st"
proof -
  obtain r' st1 where a: "pf_renameat2 (ce_platform env) (path_push root name) (path_push root marker_name) st = (r', st1)" by force
  then show ?thesis
    using run marker_lawsD(7) [OF laws assms(2) temp_plain(2) assms(3) a]
    by (cases r') (auto simp: rename_linux_no_replace_def bind_act_def check_def ensure_def map_err_act_def split: if_splits)
qed

text \<open>The steps after the temporary has been written.\<close>

lemma publish_rest:
  assumes laws: "marker_laws look (ce_platform env) root" and name: "plain_name name" "name \<noteq> marker_name"
    and content: "look name st = Some (bytes, i)" "length bytes \<le> MAX_MARKER_BYTES"
    and run: "bind_act (or_undo (check (commit_interrupt options MarkerPublish))
       (remove_owned_marker env root (path_push root name) bytes i)) (\<lambda>_.
     bind_act (or_undo (rename_linux_no_replace env (path_push root name) (path_push root marker_name) action)
       (remove_owned_marker env root (path_push root name) bytes i)) (\<lambda>_.
     bind_act (verify_marker env options root m (take_back env root (path_push root marker_name) bytes i)) (\<lambda>_.
     ret result))) st = (Inl e, st')"
  shows "look marker_name st' = look marker_name st"
proof -
  have removed: "look marker_name (remove_owned_marker env root (path_push root name) bytes i s) = look marker_name s" for s
    by (rule remove_other_marker [OF laws name(1) name(2) [symmetric]])
  show ?thesis
  proof (cases "commit_interrupt options MarkerPublish")
    case (Inl e')
    then show ?thesis
      using run removed by (auto simp: bind_act_def or_undo_def check_def)
  next
    case (Inr u)
    obtain r st1 where rn: "rename_linux_no_replace env (path_push root name) (path_push root marker_name) action st = (r, st1)" by force
    note effect = rename_marker [OF laws name rn]
    show ?thesis
    proof (cases r)
      case (Inl e')
      then show ?thesis
        using run rn \<open>commit_interrupt options MarkerPublish = Inr u\<close> effect removed
        by (auto simp: bind_act_def or_undo_def check_def)
    next
      case (Inr v)
      have "verify_marker env options root m (take_back env root (path_push root marker_name) bytes i) st1 = (Inl e, st')"
        using run rn Inr \<open>commit_interrupt options MarkerPublish = Inr u\<close>
        by (auto simp: bind_act_def or_undo_def check_def ret_def split: prod.splits sum.splits)
      moreover have "look marker_name st1 = Some (bytes, i)" "look marker_name st = None"
        using effect Inr content(1) by auto
      ultimately show ?thesis using verify_marker_Inl [OF laws _ content(2)] by metis
    qed
  qed
qed

lemma publish_marker_Inl:
  assumes laws: "marker_laws look (ce_platform env) root"
    and run: "publish_marker env root manifest_ref manifest options st = (Inl e, st')"
  shows "look marker_name st' = look marker_name st"
proof (cases "commit_interrupt options MarkerTemp")
  case (Inl e')
  then show ?thesis using run by (simp add: publish_marker_def bind_act_def check_def)
next
  case (Inr u)
  let ?bytes = "ce_to_vec env (marker_of manifest manifest_ref)"
  obtain t st1 where t: "create_marker_temp env root st = (t, st1)" by force
  note temp = marker_temp_effect [OF laws t [unfolded create_marker_temp_def]]
  show ?thesis
  proof (cases t)
    case (Inl e')
    then show ?thesis using run t temp \<open>commit_interrupt options MarkerTemp = Inr u\<close>
      by (auto simp: publish_marker_def bind_act_def check_def Let_def)
  next
    case (Inr pnh)
    obtain p name h where "pnh = (p, name, h)" by (cases pnh)
    with temp Inr obtain st0 where name: "plain_name name" "name \<noteq> marker_name" "p = path_push root name"
      and opened: "pf_open_new (ce_platform env) (path_push root name) st0 = (Inr h, st1)" by blast
    obtain w st2 where w: "write_marker_temp env p h ?bytes st1 = (w, st2)" by force
    note written = write_temp_effect [OF laws name(1,2) opened w]
    have step: "bind_act (write_marker_temp env p h ?bytes) (\<lambda>_.
        bind_act (look_at (\<lambda>st. map_err commit_stable_error
          (pf_read_beneath (ce_platform env) root [name] MAX_MARKER_BYTES st))) (\<lambda>stable.
        bind_act (or_undo (check (commit_interrupt options MarkerPublish))
          (remove_owned_marker env root p ?bytes (sr_id stable))) (\<lambda>_.
        bind_act (or_undo (rename_linux_no_replace env p (path_push root ''run-complete.json'') ''publish completion marker'')
          (remove_owned_marker env root p ?bytes (sr_id stable))) (\<lambda>_.
        bind_act (verify_marker env options root (marker_of manifest manifest_ref)
          (take_back env root (path_push root ''run-complete.json'') ?bytes (sr_id stable))) (\<lambda>_.
        ret \<lparr>cm_final_path = root, cm_marker = marker_of manifest manifest_ref\<rparr>))))) st1 = (Inl e, st')"
      using run t Inr \<open>pnh = (p, name, h)\<close> \<open>commit_interrupt options MarkerTemp = Inr u\<close>
      unfolding publish_marker_def Let_def by (simp add: bind_act_def [of "check x" for x] bind_act_def [of "create_marker_temp a b" for a b] check_def)
    show ?thesis
    proof (cases "\<not> is_ok w \<or> \<not> is_ok (pf_read_beneath (ce_platform env) root [name] MAX_MARKER_BYTES st2)")
      case True
      then have "st' = st2" using step w by (cases w) (auto simp: bind_act_def look_at_def is_ok_def split: sum.splits)
      then show ?thesis using temp written by simp
    next
      case False
      then obtain v found where v: "w = Inr v" and found: "pf_read_beneath (ce_platform env) root [name] MAX_MARKER_BYTES st2 = Inr found"
        by (auto simp: is_ok_iff)
      have content: "look name st2 = Some (?bytes, sr_id found)" "length ?bytes \<le> MAX_MARKER_BYTES"
        using marker_lawsD(10) [OF laws name(1) found] written v by auto
      have "look marker_name st' = look marker_name st2"
        by (rule publish_rest [OF laws name(1,2) content])
           (use step w v found in \<open>simp add: bind_act_def [of "write_marker_temp a b c d" for a b c d]
              bind_act_def [of "look_at f" for f] look_at_def name(3) marker_name_def\<close>)
      then show ?thesis using temp written by simp
    qed
  qed
qed

section \<open>Properties\<close>

text \<open>A directory \<open>/r\<close> in memory: its entries, and the entry that was opened last.\<close>

type_synonym demo_dir = "(string \<Rightarrow> entry) \<times> string"

definition demo_dir_platform :: "demo_dir platform" where
  "demo_dir_platform = \<lparr>pf_open_directory = (\<lambda>_. ret 1), pf_open_child_directory = (\<lambda>_ _ _. ret 1),
     pf_create_directory = (\<lambda>_ _ _. ret ()), pf_create_new_file = (\<lambda>_ _ _. ret 2),
     pf_open_new = (\<lambda>p (f, n). if f (drop 3 p) = None then (Inr 2, (f(drop 3 p \<mapsto> ([], (0, 9))), drop 3 p))
       else (Inl (AlreadyExists, []), (f, n))),
     pf_write_all = (\<lambda>_ b (f, n). (Inr (), (f(n \<mapsto> (b, (0, 9))), n))), pf_sync_all = (\<lambda>_. ret ()),
     pf_publish_no_replace = (\<lambda>_ _ _ _. ret ()), pf_remove_child = (\<lambda>_ _ _. ret ()), pf_sync_directory = (\<lambda>_. ret ()),
     pf_renameat2 = (\<lambda>p q (f, n). if f (drop 3 q) = None then (Inr (), (f(drop 3 q := f (drop 3 p), drop 3 p := None), n))
       else (Inl (AlreadyExists, []), (f, n))),
     pf_remove_file = (\<lambda>p (f, n). (Inr (), (f(drop 3 p := None), n))), pf_remove_dir = (\<lambda>_. ret ()),
     pf_volume_identity = (\<lambda>_ _. Inr 0), pf_file_identity = (\<lambda>_ _. Inr (0, 9)), pf_open_file_identity = (\<lambda>_ _. Inr (0, 9)),
     pf_nonce_sequence = (\<lambda>st. (0, st)), pf_marker_sequence = (\<lambda>st. (0, st)), pf_now_nanos = (\<lambda>_. Inr 0), pf_process_id = 7,
     pf_read_beneath = (\<lambda>root cs k (f, n). case f (hd cs) of None \<Rightarrow> Inl (SBoundary [])
       | Some (b, i) \<Rightarrow> if length b \<le> k then Inr \<lparr>sr_bytes = b, sr_id = i\<rparr> else Inl (STooLarge []))\<rparr>"

definition demo_dir_env :: "demo_dir commit_env" where
  "demo_dir_env = \<lparr>ce_artifacts = \<lparr>ae_lib = demo_lib [], ae_read_beneath = pf_read_beneath demo_dir_platform, ae_to_lowercase = (\<lambda>s. s),
       ae_validator = (\<lambda>_ _. Inl []), ae_command_observation = (\<lambda>_. Inl []), ae_capability_artifact = (\<lambda>_. Inl [])\<rparr>,
     ce_platform = demo_dir_platform, ce_to_vec = (\<lambda>_. [1]), ce_is_dir = (\<lambda>_ _. True), ce_exists = (\<lambda>_ _. False),
     ce_read = (\<lambda>_ _. Inr [1])\<rparr>"

lemma demo_dir_laws: "marker_laws (\<lambda>q st. fst st q) (ce_platform demo_dir_env) ''/r''"
proof -
  have "drop 3 (path_push ''/r'' n) = n" for n by (simp add: path_push_def)
  then show ?thesis
    unfolding marker_laws_def demo_dir_env_def demo_dir_platform_def
    by (auto simp: ret_def split: if_splits option.splits prod.splits)
qed



end
