(* ===== verification/Admissibility.thy ===== *)
theory Admissibility
  imports Artifact_Props
begin

text \<open>
  The admission of observed evidence (crates/code-intel-cli/src/admissibility.rs): the shape of a request,
  its freshness and its snapshot, the verification of the payload and the result.  Times are 64-bit words.
\<close>

definition MAX_REQUEST_BYTES :: nat where "MAX_REQUEST_BYTES = 8 * 1024 * 1024"

definition MAX_PAYLOAD_BYTES :: nat where "MAX_PAYLOAD_BYTES = 64 * 1024 * 1024"

datatype validation_error = VContract string | VIo string

fun from_artifact_error :: "artifact_error \<Rightarrow> validation_error" where
  "from_artifact_error (AContract m) = VContract m"
| "from_artifact_error (AIo m) = VIo m"

record validated_admission =
  vd_result :: json
  vd_payload :: json

section \<open>The shape of a request\<close>

definition require_nonempty :: "json \<Rightarrow> string \<Rightarrow> string + unit" where
  "require_nonempty v label = ensure (nonempty_text v) (label @ '' is invalid'')"

definition evidence_digest :: "json \<Rightarrow> bool" where
  "evidence_digest v = text_is is_digest v"

definition validate_provider :: "json \<Rightarrow> string + unit" where
  "validate_provider v =
     and_then (commit_exact v [''id'', ''implementation''] ''provider'') (\<lambda>_.
     and_then (require_nonempty (jidx v ''id'') ''provider id'') (\<lambda>_.
     let implementation = jidx v ''implementation'' in
     and_then (commit_exact implementation [''id'', ''version'', ''digest''] ''provider implementation'') (\<lambda>_.
     and_then (require_nonempty (jidx implementation ''id'') ''implementation id'') (\<lambda>_.
     and_then (require_nonempty (jidx implementation ''version'') ''implementation version'') (\<lambda>_.
     ensure (evidence_digest (jidx implementation ''digest'')) ''implementation digest is invalid'')))))"

definition validate_source :: "json \<Rightarrow> string + unit" where
  "validate_source v =
     and_then (ok_or (as_object v) ''source must be an object'') (\<lambda>o'.
     and_then (ensure (\<not> (o' = [] \<or> \<not> list_all (\<lambda>k. k \<in> {''revision'', ''endpointIdentity''}) (bt_keys o'))) ''source fields are invalid'') (\<lambda>_.
     let identities = length (filter (\<lambda>k. nonempty_text (jidx v k)) [''revision'', ''endpointIdentity'']) in
     and_then (ensure (identities = 1) ''source requires exactly one of revision or endpoint identity'') (\<lambda>_.
     ensure (\<not> list_ex (\<lambda>x. \<not> nonempty_text x) (bt_values o')) ''source identity is invalid'')))"

definition validate_provenance :: "json \<Rightarrow> string + unit" where
  "validate_provenance v =
     and_then (commit_exact v [''collectionId'', ''command'', ''startedAt'', ''completedAt''] ''provenance'') (\<lambda>_.
     and_then (require_nonempty (jidx v ''collectionId'') ''collectionId'') (\<lambda>_.
     and_then (require_nonempty (jidx v ''command'') ''command'') (\<lambda>_.
     and_then (ok_or (as_u64 (jidx v ''startedAt'')) ''provenance startedAt is invalid'') (\<lambda>start.
     and_then (ok_or (as_u64 (jidx v ''completedAt'')) ''provenance completedAt is invalid'') (\<lambda>completed.
     ensure (\<not> completed < start) ''provenance time range is invalid'')))))"

definition str_or_empty :: "json \<Rightarrow> string" where
  "str_or_empty v = (case as_str v of Some s \<Rightarrow> s | None \<Rightarrow> [])"

definition validate_failure :: "json \<Rightarrow> string \<Rightarrow> string + unit" where
  "validate_failure failure completeness =
     and_then (ok_or (as_object failure) ''failure must be an object'') (\<lambda>fs.
     and_then (ensure (\<not> (\<not> list_all (\<lambda>k. k \<in> {''kind'', ''message''}) (bt_keys fs) \<or> bt_get fs ''kind'' = None)) ''failure fields are invalid'') (\<lambda>_.
     let kind = str_or_empty (jidx failure ''kind'') in
     and_then (ensure (kind \<in> {''none'', ''provider_unavailable'', ''domain_unknown'', ''process_failure''}) ''failure kind is invalid'') (\<lambda>_.
     and_then (ensure (\<not> (completeness = ''complete'' \<and> kind \<noteq> ''none'')) ''complete evidence cannot report a failure'') (\<lambda>_.
     and_then (ensure (\<not> kind = ''process_failure'') ''process failure output is not admissible evidence'') (\<lambda>_.
     and_then (ensure (\<not> (kind \<noteq> ''none'' \<and> \<not> nonempty_text (jidx failure ''message''))) ''non-none failure requires a message'') (\<lambda>_.
     ensure (\<not> (kind = ''none'' \<and> length fs \<noteq> 1)) ''none failure cannot carry a message''))))))"

definition validate_observation :: "json \<Rightarrow> string + unit" where
  "validate_observation ob =
     and_then (commit_exact ob [''schema'', ''provider'', ''source'', ''consumedSnapshotIdentity'', ''observedAt'', ''completeness'',
       ''claimedComplete'', ''payload'', ''provenance'', ''failure''] ''observation'') (\<lambda>_.
     and_then (ensure (\<not> (jidx ob ''schema'' \<noteq> JStr ''code-intel-observed-evidence.v1'' \<or>
         \<not> evidence_digest (jidx ob ''consumedSnapshotIdentity'') \<or> as_u64 (jidx ob ''observedAt'') = None))
       ''observation identity/time is invalid'') (\<lambda>_.
     and_then (validate_provider (jidx ob ''provider'')) (\<lambda>_.
     and_then (validate_source (jidx ob ''source'')) (\<lambda>_.
     and_then (validate_artifact_ref_shape (jidx ob ''payload'')) (\<lambda>_.
     and_then (ensure (\<not> (jidx (jidx ob ''payload'') ''artifactSchema'' \<noteq> JStr ''code-intel-evidence-payload.v1'' \<or>
         jidx (jidx ob ''payload'') ''type'' \<noteq> JStr ''observed.evidence.payload'')) ''evidence payload contract is invalid'') (\<lambda>_.
     and_then (validate_provenance (jidx ob ''provenance'')) (\<lambda>_.
     and_then (ensure (\<not> jidx ob ''observedAt'' \<noteq> jidx (jidx ob ''provenance'') ''completedAt'')
       ''observation time must equal provenance completion time'') (\<lambda>_.
     let completeness = str_or_empty (jidx ob ''completeness'') in
     and_then (ok_or (as_bool (jidx ob ''claimedComplete'')) ''claimedComplete must be boolean'') (\<lambda>claimed.
     and_then (ensure (\<not> (completeness \<notin> {''complete'', ''partial''} \<or> claimed \<noteq> (completeness = ''complete'')))
       ''evidence completeness claim is inconsistent'') (\<lambda>_.
     validate_failure (jidx ob ''failure'') completeness))))))))))"

definition validate_request_shape :: "json \<Rightarrow> string + unit" where
  "validate_request_shape request =
     and_then (commit_exact request [''schema'', ''expectedSnapshotIdentity'', ''policy'', ''observation''] ''request'') (\<lambda>_.
     and_then (ensure (\<not> (jidx request ''schema'' \<noteq> JStr ''code-intel-evidence-admissibility-request.v1'' \<or>
         \<not> evidence_digest (jidx request ''expectedSnapshotIdentity''))) ''evidence request schema/snapshot identity is invalid'') (\<lambda>_.
     let policy = jidx request ''policy'' in
     and_then (commit_exact policy [''evaluatedAt'', ''maxAgeSeconds''] ''freshness policy'') (\<lambda>_.
     and_then (ensure (\<not> (as_u64 (jidx policy ''evaluatedAt'') = None \<or>
         \<not> (case as_u64 (jidx policy ''maxAgeSeconds'') of Some n \<Rightarrow> n > 0 | None \<Rightarrow> False))) ''freshness policy is invalid'') (\<lambda>_.
     validate_observation (jidx request ''observation'')))))"

section \<open>Admission\<close>

definition validate_observed_payload :: "json_lib \<Rightarrow> u8 list \<Rightarrow> string + unit" where
  "validate_observed_payload lib bytes =
     and_then (parse_payload lib MAX_PAYLOAD_BYTES ''evidence payload is not UTF-8: '' ''evidence payload is invalid JSON: '' bytes) (\<lambda>value.
     and_then (commit_exact value [''schema'', ''data''] ''evidence payload'') (\<lambda>_.
     ensure (\<not> (jidx value ''schema'' \<noteq> JStr ''code-intel-evidence-payload.v1'' \<or> as_object (jidx value ''data'') = None))
       ''evidence payload schema/data is invalid''))"

definition admission_contract :: "json_lib \<Rightarrow> artifact_contract" where
  "admission_contract lib =
     contract ''code-intel-evidence-payload.v1'' ''observed.evidence.payload'' MAX_PAYLOAD_BYTES (validate_observed_payload lib)"

definition admission_result :: "json \<Rightarrow> string \<Rightarrow> string \<Rightarrow> verified_artifact \<Rightarrow> json \<Rightarrow> json" where
  "admission_result observation verdict admission_identity artifact payload =
     jobj [(''schema'', JStr ''code-intel-evidence-admissibility-result.v1''), (''status'', JStr ''admitted''),
       (''domainVerdict'', JStr verdict), (''admissionIdentity'', JStr admission_identity), (''evidence'', observation),
       (''verifiedPayload'', jobj [(''sha256'', JStr (va_sha256 artifact)), (''artifactSchema'', JStr (va_schema artifact)),
          (''type'', JStr (va_type artifact)), (''consumedSnapshotIdentity'', JStr (va_consumed artifact)),
          (''data'', jidx payload ''data'')]),
       (''engineeringFacts'', JArr [])]"

text \<open>The payload validator has accepted the bytes as JSON; \<open>from_slice\<close> parses them again.\<close>

definition parsed_payload :: "json_lib \<Rightarrow> u8 list \<Rightarrow> json" where
  "parsed_payload lib bytes =
     (case and_then (jl_from_utf8 lib bytes) (jl_from_str lib) of Inr v \<Rightarrow> v | Inl _ \<Rightarrow> JNull)"

definition validate_sealed :: "'f artifact_env \<Rightarrow> (json \<Rightarrow> u8 list) \<Rightarrow> json \<Rightarrow> string \<Rightarrow> 'f \<Rightarrow> validation_error + validated_admission" where
  "validate_sealed env to_vec request root st =
     and_then (map_err VContract (validate_request_shape request)) (\<lambda>_.
     let observation = jidx request ''observation'';
         expected_snapshot = the (as_str (jidx request ''expectedSnapshotIdentity'')) in
     and_then (ensure (\<not> jidx observation ''consumedSnapshotIdentity'' \<noteq> jidx request ''expectedSnapshotIdentity'')
       (VContract ''observed evidence consumed snapshot mismatch'')) (\<lambda>_.
     let evaluated_at = the (as_u64 (jidx (jidx request ''policy'') ''evaluatedAt''));
         observed_at = the (as_u64 (jidx observation ''observedAt''));
         max_age = the (as_u64 (jidx (jidx request ''policy'') ''maxAgeSeconds'')) in
     and_then (ensure (\<not> (observed_at > evaluated_at \<or> evaluated_at - observed_at > max_age))
       (VContract ''observed evidence is stale for freshness policy'')) (\<lambda>_.
     and_then (map_err from_artifact_error (verify_artifact_ref env root expected_snapshot (admission_contract (ae_lib env))
       (jidx observation ''payload'') st)) (\<lambda>artifact.
     let verdict = (if jidx observation ''completeness'' = JStr ''complete'' then ''observed'' else ''unknown'');
         admission_identity = sha256_hex (to_vec observation);
         payload = parsed_payload (ae_lib env) (va_bytes artifact) in
     Ok \<lparr>vd_result = admission_result observation verdict admission_identity artifact payload, vd_payload = payload\<rparr>))))"

fun validation_message :: "validation_error \<Rightarrow> string" where
  "validation_message (VContract m) = m"
| "validation_message (VIo m) = m"

definition validate_for_consumer :: "'f artifact_env \<Rightarrow> (json \<Rightarrow> u8 list) \<Rightarrow> json \<Rightarrow> string \<Rightarrow> 'f \<Rightarrow> string + validated_admission" where
  "validate_for_consumer env to_vec request root st = map_err validation_message (validate_sealed env to_vec request root st)"

definition validate_evidence :: "'f artifact_env \<Rightarrow> (json \<Rightarrow> u8 list) \<Rightarrow> json \<Rightarrow> string \<Rightarrow> 'f \<Rightarrow> validation_error + json" where
  "validate_evidence env to_vec request root st =
     and_then (validate_sealed env to_vec request root st) (\<lambda>validated. Ok (vd_result validated))"

section \<open>The command\<close>

definition rejected :: "string \<Rightarrow> json" where
  "rejected message =
     jobj [(''schema'', JStr ''code-intel-evidence-admissibility-result.v1''), (''status'', JStr ''rejected''),
       (''domainVerdict'', JStr ''unknown''), (''admissionIdentity'', JNull), (''evidence'', JNull),
       (''verifiedPayload'', JNull), (''engineeringFacts'', JArr []), (''diagnostics'', JArr [JStr message])]"

fun evidence_flags :: "string list \<Rightarrow> string option \<Rightarrow> string option \<Rightarrow> string + string option \<times> string option" where
  "evidence_flags [] request artifact_root = Ok (request, artifact_root)"
| "evidence_flags (flag # rest) request artifact_root =
     (if flag \<notin> {''--request'', ''--artifact-root''} then Err (''unknown evidence argument: '' @ flag)
      else case rest of
          [] \<Rightarrow> Err (flag @ '' requires exactly one value'')
        | value # rest' \<Rightarrow>
            if starts_with value ''--'' then Err (flag @ '' requires exactly one value'')
            else if flag = ''--request'' then
              (if request \<noteq> None then Err (''duplicate evidence argument: '' @ flag)
               else evidence_flags rest' (Some value) artifact_root)
            else (if artifact_root \<noteq> None then Err (''duplicate evidence argument: '' @ flag)
               else evidence_flags rest' request (Some value)))"

definition parse_evidence_cli :: "string list \<Rightarrow> string + string \<times> string" where
  "parse_evidence_cli raw =
     (case raw of
        [] \<Rightarrow> Err ''usage: evidence validate --request <request.json> --artifact-root <directory>''
      | sub # args \<Rightarrow>
          if sub \<noteq> ''validate'' then Err ''usage: evidence validate --request <request.json> --artifact-root <directory>''
          else and_then (evidence_flags args None None) (\<lambda>(request, artifact_root).
            and_then (ok_or request ''evidence validate requires --request'') (\<lambda>r.
            and_then (ok_or artifact_root ''evidence validate requires --artifact-root'') (\<lambda>a. Ok (r, a)))))"

text \<open>\<open>metadata\<close> tells whether a path is a regular file, and its length.\<close>

definition read_evidence_request ::
    "json_lib \<Rightarrow> (string \<Rightarrow> 'f \<Rightarrow> string + bool \<times> nat) \<Rightarrow> (string \<Rightarrow> 'f \<Rightarrow> string + u8 list) \<Rightarrow> string \<Rightarrow> 'f \<Rightarrow> (int \<times> string) + json" where
  "read_evidence_request lib metadata read p st =
     and_then (map_err (\<lambda>e. (74, ''read evidence request metadata: '' @ e)) (metadata p st)) (\<lambda>(is_file, len).
     and_then (ensure is_file (65, ''evidence request must be a regular file'')) (\<lambda>_.
     and_then (ensure (\<not> len > MAX_REQUEST_BYTES) (65, ''evidence request exceeds size limit'')) (\<lambda>_.
     and_then (map_err (\<lambda>e. (74, ''read evidence request: '' @ e)) (read p st)) (\<lambda>bytes.
     and_then (map_err (\<lambda>e. (65, ''evidence request is not UTF-8: '' @ e)) (jl_from_utf8 lib bytes)) (\<lambda>t.
     and_then (map_err (\<lambda>e. (65, e)) (the (reject_duplicate_json_keys (jl_key lib) t))) (\<lambda>_.
     map_err (\<lambda>e. (65, ''invalid evidence request JSON: '' @ e)) (jl_from_str lib t)))))))"

text \<open>The exit code and the document that is printed.\<close>

definition evidence_run_raw ::
    "'f artifact_env \<Rightarrow> (json \<Rightarrow> u8 list) \<Rightarrow> (string \<Rightarrow> 'f \<Rightarrow> string + bool \<times> nat) \<Rightarrow> (string \<Rightarrow> 'f \<Rightarrow> string + u8 list) \<Rightarrow>
     string list \<Rightarrow> 'f \<Rightarrow> int \<times> json option" where
  "evidence_run_raw env to_vec metadata read raw st =
     (case parse_evidence_cli raw of
        Inl _ \<Rightarrow> (64, None)
      | Inr (request_path, artifact_root) \<Rightarrow>
          (case read_evidence_request (ae_lib env) metadata read request_path st of
             Inl (code, message) \<Rightarrow> (code, Some (rejected message))
           | Inr request \<Rightarrow>
               (case validate_evidence env to_vec request artifact_root st of
                  Inr result \<Rightarrow> (0, Some result)
                | Inl (VContract message) \<Rightarrow> (65, Some (rejected message))
                | Inl (VIo message) \<Rightarrow> (74, Some (rejected message)))))"

section \<open>What admitted evidence is\<close>

lemma failure_Inr:
  "validate_failure failure completeness = Inr u \<Longrightarrow>
     str_or_empty (jidx failure ''kind'') \<in> {''none'', ''provider_unavailable'', ''domain_unknown''} \<and>
     (completeness = ''complete'' \<longrightarrow> str_or_empty (jidx failure ''kind'') = ''none'')"
  unfolding validate_failure_def and_then_eq_Inr ensure_eq_Inr ok_or_eq_Inr Let_def by blast

end
