(* ===== verification/Admissibility_Props.thy ===== *)
theory Admissibility_Props
  imports Admissibility Commit_Props
begin

text \<open>
  What admitted evidence is: fresh without wrap-around, tied to the expected snapshot, completed when it was
  observed, never a failed process, and backed by the very bytes its payload reference names.
\<close>

section \<open>Inversion\<close>

lemma request_shape_Inr:
  "validate_request_shape request = Inr u \<Longrightarrow>
     \<exists>evaluated max_age. as_u64 (jidx (jidx request ''policy'') ''evaluatedAt'') = Some evaluated \<and>
       as_u64 (jidx (jidx request ''policy'') ''maxAgeSeconds'') = Some max_age \<and> 0 < max_age \<and>
       text_is is_digest (jidx request ''expectedSnapshotIdentity'') \<and>
       validate_observation (jidx request ''observation'') = Inr ()"
  unfolding validate_request_shape_def and_then_eq_Inr ensure_eq_Inr evidence_digest_def Let_def de_Morgan_disj not_not
  by (cases u) (auto split: option.splits)

lemma provenance_Inr:
  "validate_provenance v = Inr u \<Longrightarrow>
     \<exists>start completed. as_u64 (jidx v ''startedAt'') = Some start \<and> as_u64 (jidx v ''completedAt'') = Some completed \<and>
       start \<le> completed"
  unfolding validate_provenance_def and_then_eq_Inr ensure_eq_Inr ok_or_eq_Inr not_less
  by (elim exE conjE, intro exI conjI; assumption)

lemma observation_Inr:
  "validate_observation ob = Inr u \<Longrightarrow>
     \<exists>u u' claimed. validate_provenance (jidx ob ''provenance'') = Inr u \<and>
       jidx ob ''observedAt'' = jidx (jidx ob ''provenance'') ''completedAt'' \<and>
       as_bool (jidx ob ''claimedComplete'') = Some claimed \<and>
       str_or_empty (jidx ob ''completeness'') \<in> {''complete'', ''partial''} \<and>
       claimed = (str_or_empty (jidx ob ''completeness'') = ''complete'') \<and>
       validate_failure (jidx ob ''failure'') (str_or_empty (jidx ob ''completeness'')) = Inr u'"
  unfolding validate_observation_def and_then_eq_Inr ensure_eq_Inr ok_or_eq_Inr Let_def de_Morgan_disj not_not
  by (elim exE conjE, intro exI conjI; assumption)

lemma sealed_Inr:
  "validate_sealed env to_vec request root st = Inr result \<Longrightarrow>
     \<exists>u artifact. validate_request_shape request = Inr u \<and>
       jidx (jidx request ''observation'') ''consumedSnapshotIdentity'' = jidx request ''expectedSnapshotIdentity'' \<and>
       the (as_u64 (jidx (jidx request ''observation'') ''observedAt'')) \<le> the (as_u64 (jidx (jidx request ''policy'') ''evaluatedAt'')) \<and>
       the (as_u64 (jidx (jidx request ''policy'') ''evaluatedAt'')) - the (as_u64 (jidx (jidx request ''observation'') ''observedAt''))
         \<le> the (as_u64 (jidx (jidx request ''policy'') ''maxAgeSeconds'')) \<and>
       verify_artifact_ref env root (the (as_str (jidx request ''expectedSnapshotIdentity''))) (admission_contract (ae_lib env))
         (jidx (jidx request ''observation'') ''payload'') st = Inr artifact \<and>
       result = \<lparr>vd_result = admission_result (jidx request ''observation'')
           (if jidx (jidx request ''observation'') ''completeness'' = JStr ''complete'' then ''observed'' else ''unknown'')
           (sha256_hex (to_vec (jidx request ''observation''))) artifact (parsed_payload (ae_lib env) (va_bytes artifact)),
         vd_payload = parsed_payload (ae_lib env) (va_bytes artifact)\<rparr>"
  unfolding validate_sealed_def and_then_eq_Inr ensure_eq_Inr map_err_eq_Inr Let_def de_Morgan_disj not_not not_less sum.inject
  by (elim exE conjE, hypsubst, intro exI conjI; (assumption | rule refl))

text \<open>Two instants with no wrap-around between them.\<close>

lemma age_unat: "observed \<le> evaluated \<Longrightarrow> evaluated - observed \<le> age \<longleftrightarrow> unat evaluated \<le> unat observed + unat age"
  for observed evaluated age :: "64 word"
  by (auto simp: word_le_nat_alt unat_sub)

definition evidence_fresh :: "json \<Rightarrow> bool" where
  "evidence_fresh request \<longleftrightarrow>
     (\<exists>evaluated max_age started observed.
        as_u64 (jidx (jidx request ''policy'') ''evaluatedAt'') = Some evaluated \<and>
        as_u64 (jidx (jidx request ''policy'') ''maxAgeSeconds'') = Some max_age \<and> 0 < max_age \<and>
        as_u64 (jidx (jidx (jidx request ''observation'') ''provenance'') ''startedAt'') = Some started \<and>
        as_u64 (jidx (jidx request ''observation'') ''observedAt'') = Some observed \<and>
        unat started \<le> unat observed \<and> unat observed \<le> unat evaluated \<and>
        unat evaluated \<le> unat observed + unat max_age)"

lemma sealed_parts:
  assumes "validate_sealed env to_vec request root st = Inr result"
  shows "evidence_fresh request"
    "\<exists>s. jidx request ''expectedSnapshotIdentity'' = JStr s \<and> is_digest s"
    "\<exists>u. validate_failure (jidx (jidx request ''observation'') ''failure'')
       (str_or_empty (jidx (jidx request ''observation'') ''completeness'')) = Inr u"
proof -
  let ?ob = "jidx request ''observation''"
  obtain u artifact where shape: "validate_request_shape request = Inr u"
    and le: "the (as_u64 (jidx ?ob ''observedAt'')) \<le> the (as_u64 (jidx (jidx request ''policy'') ''evaluatedAt''))"
      "the (as_u64 (jidx (jidx request ''policy'') ''evaluatedAt'')) - the (as_u64 (jidx ?ob ''observedAt''))
         \<le> the (as_u64 (jidx (jidx request ''policy'') ''maxAgeSeconds''))"
    using sealed_Inr [OF assms] by blast
  obtain evaluated max_age where policy: "as_u64 (jidx (jidx request ''policy'') ''evaluatedAt'') = Some evaluated"
      "as_u64 (jidx (jidx request ''policy'') ''maxAgeSeconds'') = Some max_age" "0 < max_age"
      "text_is is_digest (jidx request ''expectedSnapshotIdentity'')" "validate_observation ?ob = Inr ()"
    using request_shape_Inr [OF shape] by blast
  obtain u1 u2 where ob: "validate_provenance (jidx ?ob ''provenance'') = Inr u1"
      "jidx ?ob ''observedAt'' = jidx (jidx ?ob ''provenance'') ''completedAt''"
      "validate_failure (jidx ?ob ''failure'') (str_or_empty (jidx ?ob ''completeness'')) = Inr u2"
    using observation_Inr [OF policy(5)] by blast
  obtain started observed where prov: "as_u64 (jidx (jidx ?ob ''provenance'') ''startedAt'') = Some started"
      "as_u64 (jidx ?ob ''observedAt'') = Some observed" "started \<le> observed"
    using provenance_Inr [OF ob(1)] ob(2) by metis
  have "observed \<le> evaluated" "evaluated - observed \<le> max_age" using le policy prov by simp_all
  then show "evidence_fresh request"
    unfolding evidence_fresh_def using policy(1-3) prov age_unat by (metis word_le_nat_alt)
  show "\<exists>s. jidx request ''expectedSnapshotIdentity'' = JStr s \<and> is_digest s"
    using policy(4) by (auto simp: text_is_def as_str_eq split: option.splits)
  show "\<exists>u. validate_failure (jidx ?ob ''failure'') (str_or_empty (jidx ?ob ''completeness'')) = Inr u"
    using ob(3) by blast
qed

section \<open>Admitted evidence\<close>

text \<open>What \<open>result\<close> reports of the request: the payload reference is bound to the file that was read, and the
  verdict is \<open>observed\<close> for complete evidence only, which then reports no failure.\<close>

definition evidence_backed :: "'f artifact_env \<Rightarrow> (json \<Rightarrow> u8 list) \<Rightarrow> json \<Rightarrow> string \<Rightarrow> 'f \<Rightarrow> validated_admission \<Rightarrow> bool" where
  "evidence_backed env to_vec request root st result \<longleftrightarrow>
     (\<exists>snapshot artifact.
        jidx request ''expectedSnapshotIdentity'' = JStr snapshot \<and> is_digest snapshot \<and>
        jidx (jidx request ''observation'') ''consumedSnapshotIdentity'' = JStr snapshot \<and>
        jidx (jidx (jidx request ''observation'') ''payload'') ''consumedSnapshotIdentity'' = JStr snapshot \<and>
        bound_to_file env root snapshot st (jidx (jidx request ''observation'') ''payload'') (admission_contract (ae_lib env)) artifact \<and>
        vd_payload result = parsed_payload (ae_lib env) (va_bytes artifact) \<and>
        jidx (vd_result result) ''evidence'' = jidx request ''observation'' \<and>
        jidx (vd_result result) ''admissionIdentity'' = JStr (sha256_hex (to_vec (jidx request ''observation''))) \<and>
        jidx (jidx (vd_result result) ''verifiedPayload'') ''sha256'' = JStr (sha256_hex (va_bytes artifact)) \<and>
        jidx (jidx (vd_result result) ''verifiedPayload'') ''data'' = jidx (vd_payload result) ''data'')"

lemma sealed_backed:
  assumes "validate_sealed env to_vec request root st = Inr result"
  shows "evidence_backed env to_vec request root st result"
    "jidx (vd_result result) ''domainVerdict'' =
       JStr (if jidx (jidx request ''observation'') ''completeness'' = JStr ''complete'' then ''observed'' else ''unknown'')"
proof -
  let ?ob = "jidx request ''observation''"
  obtain artifact where same: "jidx ?ob ''consumedSnapshotIdentity'' = jidx request ''expectedSnapshotIdentity''"
    and verified: "verify_artifact_ref env root (the (as_str (jidx request ''expectedSnapshotIdentity'')))
       (admission_contract (ae_lib env)) (jidx ?ob ''payload'') st = Inr artifact"
    and result: "result = \<lparr>vd_result = admission_result ?ob
       (if jidx ?ob ''completeness'' = JStr ''complete'' then ''observed'' else ''unknown'') (sha256_hex (to_vec ?ob)) artifact
       (parsed_payload (ae_lib env) (va_bytes artifact)), vd_payload = parsed_payload (ae_lib env) (va_bytes artifact)\<rparr>"
    using sealed_Inr [OF assms] by blast
  obtain s where s: "jidx request ''expectedSnapshotIdentity'' = JStr s" "is_digest s"
    using sealed_parts(2) [OF assms] by blast
  have bound: "bound_to_file env root s st (jidx ?ob ''payload'') (admission_contract (ae_lib env)) artifact"
    and consumed: "jidx (jidx ?ob ''payload'') ''consumedSnapshotIdentity'' = JStr s"
    using verified_ref_bound(1,2) [OF verified] s(1) by simp_all
  have digest: "va_sha256 artifact = sha256_hex (va_bytes artifact)"
    using bound unfolding bound_to_file_def by (metis verified_artifact.select_convs(4))
  show "evidence_backed env to_vec request root st result"
    unfolding evidence_backed_def
    by (rule exI [of _ s], rule exI [of _ artifact], intro conjI)
       (simp_all add: s same consumed bound result admission_result_def jidx_jobj digest)
  show "jidx (vd_result result) ''domainVerdict'' =
       JStr (if jidx ?ob ''completeness'' = JStr ''complete'' then ''observed'' else ''unknown'')"
    by (simp add: result admission_result_def jidx_jobj)
qed

text \<open>C33: evidence that is admitted was observed no later than the instant of evaluation and no longer ago
  than the policy allows, in exact arithmetic although the code subtracts 64-bit words; it consumes the
  expected snapshot; the payload reference is bound to the bytes that were read beneath the root and
  whose digest the result reports; the verdict is \<open>observed\<close> exactly for complete evidence, which then reports
  no failure; and the output of a process that failed is never admitted.\<close>

theorem admitted_evidence_bound:
  assumes "validate_sealed env to_vec request root st = Inr result"
  shows "evidence_fresh request \<and> evidence_backed env to_vec request root st result \<and>
    (jidx (vd_result result) ''domainVerdict'' = JStr ''observed'' \<longleftrightarrow>
       jidx (jidx request ''observation'') ''completeness'' = JStr ''complete'') \<and>
    str_or_empty (jidx (jidx (jidx request ''observation'') ''failure'') ''kind'') \<in>
      (if jidx (vd_result result) ''domainVerdict'' = JStr ''observed'' then {''none''}
       else {''none'', ''provider_unavailable'', ''domain_unknown''})"
proof -
  obtain u where "validate_failure (jidx (jidx request ''observation'') ''failure'')
      (str_or_empty (jidx (jidx request ''observation'') ''completeness'')) = Inr u"
    using sealed_parts(3) [OF assms] by blast
  note failure = failure_Inr [OF this]
  have "str_or_empty (JStr ''complete'') = ''complete''" by (simp add: str_or_empty_def)
  then show ?thesis
    using failure sealed_parts(1) [OF assms] sealed_backed [OF assms] by auto
qed

definition demo_payload :: json where
  "demo_payload = jobj [(''schema'', JStr ''code-intel-evidence-payload.v1''), 
     (''data'', jobj [(''methodSelectionFacts'', JArr [jobj [(''id'', JStr ''f''), (''signalIds'', jstrs [''s'']),
        (''evidenceKinds'', jstrs [''k''])]])])]"

definition evidence_env :: "unit artifact_env" where
  "evidence_env = \<lparr>ae_lib = \<lparr>jl_from_utf8 = (\<lambda>_. Inr ''1''), jl_key = Inr, jl_from_str = (\<lambda>_. Inr demo_payload)\<rparr>,
     ae_read_beneath = (\<lambda>root cs limit st. Inr \<lparr>sr_bytes = [49], sr_id = (0, 1)\<rparr>), ae_to_lowercase = (\<lambda>s. s),
     ae_validator = (\<lambda>_ _. Inl []), ae_command_observation = (\<lambda>_. Inl []), ae_capability_artifact = (\<lambda>_. Inl [])\<rparr>"

definition evidence_ref :: json where
  "evidence_ref = jobj [(''schema'', JStr ''code-intel-artifact-ref.v1''), (''artifactSchema'', JStr ''code-intel-evidence-payload.v1''),
     (''type'', JStr ''observed.evidence.payload''), (''path'', JStr ''objects/a''), (''sha256'', JStr (sha256_hex [49])),
     (''consumedSnapshotIdentity'', JStr (sha256_hex []))]"

definition demo_observation :: json where
  "demo_observation = jobj [(''schema'', JStr ''code-intel-observed-evidence.v1''),
     (''provider'', jobj [(''id'', JStr ''p''), (''implementation'',
        jobj [(''id'', JStr ''i''), (''version'', JStr ''1''), (''digest'', JStr (sha256_hex [1]))])]),
     (''source'', jobj [(''revision'', JStr ''r'')]), (''consumedSnapshotIdentity'', JStr (sha256_hex [])),
     (''observedAt'', JNum (PosInt 20)), (''completeness'', JStr ''complete''), (''claimedComplete'', JBool True),
     (''payload'', evidence_ref),
     (''provenance'', jobj [(''collectionId'', JStr ''c''), (''command'', JStr ''x''), (''startedAt'', JNum (PosInt 10)),
        (''completedAt'', JNum (PosInt 20))]),
     (''failure'', jobj [(''kind'', JStr ''none'')])]"

definition demo_request :: json where
  "demo_request = jobj [(''schema'', JStr ''code-intel-evidence-admissibility-request.v1''),
     (''expectedSnapshotIdentity'', JStr (sha256_hex [])),
     (''policy'', jobj [(''evaluatedAt'', JNum (PosInt 25)), (''maxAgeSeconds'', JNum (PosInt 5))]), (''observation'', demo_observation)]"

lemma demo_ref_shape: "validate_artifact_ref_shape evidence_ref = Inr ()"
  by (simp add: validate_artifact_ref_shape_def evidence_ref_def literal_object require_exact_keys_def
      literal_keys bt_get_of_list jidx_jobj nonempty_str_def digest_value_def sha256_hex_digest)

lemma evidence_ref_get:
  "jidx evidence_ref ''path'' = JStr ''objects/a''" "jidx evidence_ref ''sha256'' = JStr (sha256_hex [49])"
  "jidx evidence_ref ''artifactSchema'' = JStr ''code-intel-evidence-payload.v1''"
  "jidx evidence_ref ''type'' = JStr ''observed.evidence.payload''"
  "jidx evidence_ref ''consumedSnapshotIdentity'' = JStr (sha256_hex [])"
  by (simp_all add: evidence_ref_def jidx_jobj)

lemma demo_payload_verified:
  "\<exists>v. verify_artifact_ref evidence_env root (sha256_hex []) (admission_contract (ae_lib evidence_env)) evidence_ref () = Inr v"
proof -
  have path: "portable_relative_path ''objects/a'' = Inr ''objects/a''" by code_simp
  have "validate_observed_payload (ae_lib evidence_env) [49] = Inr ()"
    by (simp add: validate_observed_payload_def parse_payload_def evidence_env_def demo_scan [unfolded reject_duplicate_json_keys_def]
        reject_duplicate_json_keys_within_def MAX_PAYLOAD_BYTES_def scan_document_def scan_value.simps ws_def MAX_JSON_DEPTH_def
        scalar_end_def is_ascii_whitespace_def commit_exact_def demo_payload_def literal_object literal_keys jidx_jobj)
  then show ?thesis
    using demo_ref_shape path
    by (simp add: verify_artifact_ref_def evidence_ref_get validate_preflight_contract_def Let_def admission_contract_def
        contract_def check_payload_def) (simp add: evidence_env_def)
qed

lemma demo_observation_get:
  "jidx demo_observation ''consumedSnapshotIdentity'' = JStr (sha256_hex [])" "jidx demo_observation ''payload'' = evidence_ref"
  "jidx demo_observation ''observedAt'' = JNum (PosInt 20)" "jidx demo_observation ''completeness'' = JStr ''complete''"
  by (simp_all add: demo_observation_def jidx_jobj)

lemma demo_observation_ok: "validate_observation demo_observation = Inr ()"
proof -
  have "validate_provider (jidx demo_observation ''provider'') = Inr ()"
    "validate_source (jidx demo_observation ''source'') = Inr ()"
    "validate_provenance (jidx demo_observation ''provenance'') = Inr ()"
    "validate_failure (jidx demo_observation ''failure'') ''complete'' = Inr ()"
    by (simp_all add: demo_observation_def jidx_jobj validate_provider_def validate_source_def validate_provenance_def
        validate_failure_def commit_exact_def literal_object literal_keys require_nonempty_def nonempty_text_def text_is_def
        evidence_digest_def sha256_hex_digest bt_get_of_list bt_of_list_def bt_keys_def bt_values_def bt_iter_def str_or_empty_def
        word_less_nat_alt insert_commute Let_def)
  moreover have "commit_exact demo_observation [''schema'', ''provider'', ''source'', ''consumedSnapshotIdentity'', ''observedAt'',
     ''completeness'', ''claimedComplete'', ''payload'', ''provenance'', ''failure''] l = Inr ()" for l
    by (simp add: commit_exact_def demo_observation_def literal_object literal_keys)
  ultimately show ?thesis
    unfolding validate_observation_def by (simp add: demo_observation_get evidence_ref_get demo_ref_shape Let_def str_or_empty_def)
      (simp add: demo_observation_def jidx_jobj evidence_digest_def text_is_def sha256_hex_digest)
qed

lemma demo_request_get:
  "jidx demo_request ''schema'' = JStr ''code-intel-evidence-admissibility-request.v1''"
  "jidx demo_request ''observation'' = demo_observation" "jidx demo_request ''expectedSnapshotIdentity'' = JStr (sha256_hex [])"
  "jidx demo_request ''policy'' = jobj [(''evaluatedAt'', JNum (PosInt 25)), (''maxAgeSeconds'', JNum (PosInt 5))]"
  by (simp_all add: demo_request_def jidx_jobj)

lemma demo_request_ok: "validate_request_shape demo_request = Inr ()"
proof -
  have "commit_exact demo_request [''schema'', ''expectedSnapshotIdentity'', ''policy'', ''observation''] ''request'' = Inr ()"
    "commit_exact (jidx demo_request ''policy'') [''evaluatedAt'', ''maxAgeSeconds''] ''freshness policy'' = Inr ()"
    by (simp_all add: commit_exact_def demo_request_def literal_object literal_keys jidx_jobj)
  moreover have "(0 :: 64 word) < 5" by simp
  ultimately show ?thesis
    unfolding validate_request_shape_def
    by (simp add: demo_request_get jidx_jobj evidence_digest_def text_is_def sha256_hex_digest demo_observation_ok Let_def)
qed

lemma demo_admitted: "\<exists>result. validate_sealed evidence_env to_vec demo_request root () = Inr result"
proof -
  obtain v where "verify_artifact_ref evidence_env root (sha256_hex []) (admission_contract (ae_lib evidence_env)) evidence_ref () = Inr v"
    using demo_payload_verified by blast
  moreover have "as_u64 (jidx (jidx demo_request ''policy'') ''evaluatedAt'') = Some 25"
    "as_u64 (jidx (jidx demo_request ''policy'') ''maxAgeSeconds'') = Some 5"
    by (simp_all add: demo_request_get jidx_jobj)
  ultimately show ?thesis
    by (simp add: validate_sealed_def demo_request_ok demo_request_get(2,3) demo_observation_get Let_def)
qed

lemma admitted_evidence_bound_witness:
  "\<exists>result. validate_sealed evidence_env (\<lambda>_. []) demo_request ''/run'' () = Inr result \<and>
     evidence_fresh demo_request \<and> evidence_backed evidence_env (\<lambda>_. []) demo_request ''/run'' () result"
proof -
  obtain result where ok: "validate_sealed evidence_env (\<lambda>_. []) demo_request ''/run'' () = Inr result"
    using demo_admitted by blast
  show ?thesis
    by (rule exI [of _ result]) (simp only: ok admitted_evidence_bound [OF ok] simp_thms)
qed

end
