(* ===== verification/Execution_Policy.thy ===== *)
theory Execution_Policy
  imports Json_Shape
begin

text \<open>
  The execution policy of a run (crates/code-intel-cli/src/execution\_policy.rs and
  execution\_policy/inputs.rs): what a profile requires of every provider, and the switches of the
  command line that are composed onto it.  A switch narrows: it turns an optional stage off, never a
  required one, and never turns a stage on.
\<close>

section \<open>Inputs\<close>

datatype run_profile = DefaultProfile | Strict | Offline | Compatibility

definition parse_profile :: "string \<Rightarrow> string + run_profile" where
  "parse_profile value =
     (if value = ''default'' then Ok DefaultProfile
      else if value = ''strict'' then Ok Strict
      else if value = ''offline'' then Ok Offline
      else Err ''--profile must be default, strict, or offline'')"

datatype run_mode = Lite | Normal | Full

definition parse_mode :: "string \<Rightarrow> string + run_mode" where
  "parse_mode value =
     (if value = ''lite'' then Ok Lite
      else if value = ''normal'' then Ok Normal
      else if value = ''full'' then Ok Full
      else Err ''--mode must be lite, normal, or full'')"

fun mode_str :: "run_mode \<Rightarrow> string" where
  "mode_str Lite = ''lite''"
| "mode_str Normal = ''normal''"
| "mode_str Full = ''full''"

datatype working_tree_policy = HeadOnly | ExplicitOverlay

definition parse_working_tree :: "string \<Rightarrow> string + working_tree_policy" where
  "parse_working_tree value =
     (if value = ''head_only'' then Ok HeadOnly
      else if value = ''explicit_overlay'' then Ok ExplicitOverlay
      else Err ''--working-tree-policy must be head_only or explicit_overlay'')"

fun working_tree_str :: "working_tree_policy \<Rightarrow> string" where
  "working_tree_str HeadOnly = ''head_only''"
| "working_tree_str ExplicitOverlay = ''explicit_overlay''"

datatype provider_requirement = Required | Optional | Disabled

definition is_required :: "provider_requirement \<Rightarrow> bool" where "is_required r \<longleftrightarrow> r = Required"

definition is_enabled :: "provider_requirement \<Rightarrow> bool" where "is_enabled r \<longleftrightarrow> r \<noteq> Disabled"

fun narrowed :: "provider_requirement \<Rightarrow> provider_requirement" where
  "narrowed Optional = Disabled"
| "narrowed other = other"

record skip_flags =
  sk_repowise :: bool
  sk_sentrux :: bool
  sk_open_spec :: bool

section \<open>The policy\<close>

record provider_policy =
  pp_repowise :: provider_requirement
  pp_sentrux :: provider_requirement
  pp_codenexus :: provider_requirement
  pp_open_spec :: provider_requirement

record execution_policy =
  ep_profile :: run_profile
  ep_mode :: run_mode
  ep_working_tree :: working_tree_policy
  ep_scopes :: "string list"
  ep_providers :: provider_policy
  ep_tool_path_prefix :: "string option"
  ep_open_spec_auto :: bool

fun profile_requirement :: "run_profile \<Rightarrow> provider_requirement" where
  "profile_requirement DefaultProfile = Optional"
| "profile_requirement Strict = Required"
| "profile_requirement Compatibility = Required"
| "profile_requirement Offline = Disabled"

definition for_profile :: "run_profile \<Rightarrow> execution_policy" where
  "for_profile profile =
     (let r = profile_requirement profile in
      \<lparr>ep_profile = profile, ep_mode = Normal, ep_working_tree = ExplicitOverlay, ep_scopes = [''.''],
       ep_providers = \<lparr>pp_repowise = r, pp_sentrux = r, pp_codenexus = r, pp_open_spec = r\<rparr>,
       ep_tool_path_prefix = None, ep_open_spec_auto = False\<rparr>)"

definition with_mode :: "run_mode \<Rightarrow> execution_policy \<Rightarrow> execution_policy" where
  "with_mode mode p =
     (let p' = p\<lparr>ep_mode := mode\<rparr>; q = ep_providers p' in
      if mode = Lite then p'\<lparr>ep_providers := q\<lparr>pp_sentrux := narrowed (pp_sentrux q)\<rparr>\<rparr> else p')"

definition with_skips :: "skip_flags \<Rightarrow> execution_policy \<Rightarrow> execution_policy" where
  "with_skips skips p =
     (let q0 = ep_providers p;
          q1 = (if sk_repowise skips then q0\<lparr>pp_repowise := narrowed (pp_repowise q0)\<rparr> else q0);
          q2 = (if sk_sentrux skips then q1\<lparr>pp_sentrux := narrowed (pp_sentrux q1)\<rparr> else q1);
          q3 = (if sk_open_spec skips then q2\<lparr>pp_open_spec := narrowed (pp_open_spec q2)\<rparr> else q2)
      in p\<lparr>ep_providers := q3\<rparr>)"

definition with_working_tree :: "working_tree_policy \<Rightarrow> string list \<Rightarrow> execution_policy \<Rightarrow> execution_policy" where
  "with_working_tree tree scopes p = p\<lparr>ep_working_tree := tree, ep_scopes := (if scopes = [] then [''.''] else scopes)\<rparr>"

definition requirement_override :: "bool \<Rightarrow> provider_requirement" where
  "requirement_override required = (if required then Required else Optional)"

definition with_doctor_overrides :: "bool option \<Rightarrow> string option \<Rightarrow> execution_policy \<Rightarrow> execution_policy" where
  "with_doctor_overrides require_repowise tool_path_prefix p =
     (let p' = (if ep_profile p \<in> {DefaultProfile, Compatibility}
         then (case require_repowise of
             Some required \<Rightarrow> p\<lparr>ep_providers := (ep_providers p)\<lparr>pp_repowise := requirement_override required\<rparr>\<rparr>
           | None \<Rightarrow> p)
         else p)
      in p'\<lparr>ep_tool_path_prefix := tool_path_prefix\<rparr>)"

definition with_open_spec_auto :: "bool \<Rightarrow> execution_policy \<Rightarrow> execution_policy" where
  "with_open_spec_auto auto p = p\<lparr>ep_open_spec_auto := auto\<rparr>"

definition capability_requirement :: "execution_policy \<Rightarrow> string \<Rightarrow> provider_requirement option" where
  "capability_requirement p capability =
     (if capability = ''provider.sentrux-adapt'' then Some (pp_sentrux (ep_providers p))
      else if capability = ''provider.codenexus-adapt'' then Some (pp_codenexus (ep_providers p))
      else if capability = ''advisory.workflow-recommend'' then Some (pp_open_spec (ep_providers p))
      else None)"

definition capability_enabled :: "execution_policy \<Rightarrow> string \<Rightarrow> bool" where
  "capability_enabled p capability =
     (case capability_requirement p capability of None \<Rightarrow> True | Some r \<Rightarrow> is_enabled r)"

definition provider_diagnosis_enabled :: "execution_policy \<Rightarrow> bool" where
  "provider_diagnosis_enabled p \<longleftrightarrow> is_enabled (pp_sentrux (ep_providers p)) \<or> is_enabled (pp_codenexus (ep_providers p))"

definition base_options :: "execution_policy \<Rightarrow> string \<Rightarrow> string \<Rightarrow> string \<Rightarrow> (string \<times> json) list" where
  "base_options p capability repo manifest =
     (if capability = ''diagnosis.hospital'' then
        [(''structuralEvidenceInScope'', JBool (capability_enabled p ''provider.sentrux-adapt''))]
      else if capability = ''doctor'' then
        [(''repoPath'', JStr repo), (''manifestPath'', JStr manifest),
         (''requireRepowise'', JBool (is_required (pp_repowise (ep_providers p))))]
      else if capability = ''advisory.workflow-recommend'' then
        [(''repoPath'', JStr repo), (''auto'', JBool (ep_open_spec_auto p))]
      else [(''repoPath'', JStr repo)])"

definition capability_options :: "execution_policy \<Rightarrow> string \<Rightarrow> string \<Rightarrow> string \<Rightarrow> json" where
  "capability_options p capability repo manifest =
     (let options = bt_of_list (base_options p capability repo manifest) in
      JObj (if capability \<in> {''doctor'', ''provider.sentrux-adapt''}
        then (case ep_tool_path_prefix p of
            Some prefix' \<Rightarrow> bt_insert ''toolPathPrefix'' (JStr prefix') options
          | None \<Rightarrow> options)
        else options))"

definition allowed_effects :: "execution_policy \<Rightarrow> json \<Rightarrow> json" where
  "allowed_effects p declaration = jidx declaration ''allowedEffects''"

section \<open>Composition\<close>

text \<open>The calls that compose a policy, in the order of a command line.\<close>

datatype policy_change =
    Mode run_mode
  | Skips skip_flags
  | Tree working_tree_policy "string list"
  | Doctor "bool option" "string option"
  | Auto bool

fun apply_change :: "policy_change \<Rightarrow> execution_policy \<Rightarrow> execution_policy" where
  "apply_change (Mode m) = with_mode m"
| "apply_change (Skips s) = with_skips s"
| "apply_change (Tree t ss) = with_working_tree t ss"
| "apply_change (Doctor r t) = with_doctor_overrides r t"
| "apply_change (Auto a) = with_open_spec_auto a"

definition compose_policy :: "run_profile \<Rightarrow> policy_change list \<Rightarrow> execution_policy" where
  "compose_policy profile changes = fold apply_change changes (for_profile profile)"

lemma narrowed_idem [simp]: "narrowed (narrowed r) = narrowed r"
  by (cases r) simp_all

lemma narrowed_Required [simp]: "narrowed r = Required \<longleftrightarrow> r = Required"
  by (cases r) simp_all

text \<open>What each change asks to narrow.\<close>

fun narrows_sentrux :: "policy_change \<Rightarrow> bool" where
  "narrows_sentrux (Mode m) \<longleftrightarrow> m = Lite"
| "narrows_sentrux (Skips s) \<longleftrightarrow> sk_sentrux s"
| "narrows_sentrux _ \<longleftrightarrow> False"

fun narrows_open_spec :: "policy_change \<Rightarrow> bool" where
  "narrows_open_spec (Skips s) \<longleftrightarrow> sk_open_spec s"
| "narrows_open_spec _ \<longleftrightarrow> False"

lemma change_providers:
  "pp_sentrux (ep_providers (apply_change c p)) =
     (if narrows_sentrux c then narrowed (pp_sentrux (ep_providers p)) else pp_sentrux (ep_providers p))"
  "pp_open_spec (ep_providers (apply_change c p)) =
     (if narrows_open_spec c then narrowed (pp_open_spec (ep_providers p)) else pp_open_spec (ep_providers p))"
  "pp_codenexus (ep_providers (apply_change c p)) = pp_codenexus (ep_providers p)"
  "ep_profile (apply_change c p) = ep_profile p"
  by (cases c; simp add: with_mode_def with_skips_def with_working_tree_def with_doctor_overrides_def
      with_open_spec_auto_def Let_def split: option.splits)+

lemma changes_providers:
  "pp_sentrux (ep_providers (fold apply_change cs p)) =
     (if list_ex narrows_sentrux cs then narrowed (pp_sentrux (ep_providers p)) else pp_sentrux (ep_providers p))"
  "pp_open_spec (ep_providers (fold apply_change cs p)) =
     (if list_ex narrows_open_spec cs then narrowed (pp_open_spec (ep_providers p)) else pp_open_spec (ep_providers p))"
  "pp_codenexus (ep_providers (fold apply_change cs p)) = pp_codenexus (ep_providers p)"
  "ep_profile (fold apply_change cs p) = ep_profile p"
  by (induction cs arbitrary: p) (simp_all add: change_providers)

text \<open>The doctor's override reaches only two profiles.\<close>

lemma change_repowise:
  assumes "ep_profile p \<notin> {DefaultProfile, Compatibility}"
  shows "pp_repowise (ep_providers (apply_change c p)) \<in> {pp_repowise (ep_providers p), narrowed (pp_repowise (ep_providers p))}"
  using assms by (cases c) (auto simp: with_mode_def with_skips_def with_working_tree_def with_doctor_overrides_def
      with_open_spec_auto_def Let_def split: option.splits)

lemma changes_repowise:
  assumes "ep_profile p \<notin> {DefaultProfile, Compatibility}"
  shows "pp_repowise (ep_providers (fold apply_change cs p)) \<in> {pp_repowise (ep_providers p), narrowed (pp_repowise (ep_providers p))}"
  using assms
proof (induction cs arbitrary: p)
  case (Cons c cs)
  have "pp_repowise (ep_providers (fold apply_change cs (apply_change c p)))
      \<in> {pp_repowise (ep_providers (apply_change c p)), narrowed (pp_repowise (ep_providers (apply_change c p)))}"
    by (rule Cons.IH) (use Cons.prems in \<open>simp add: change_providers(4)\<close>)
  with change_repowise [OF Cons.prems, of c] show ?case by fastforce
qed simp

section \<open>Properties\<close>


text \<open>The doctor's override sets the requirement of one provider instead of narrowing it, so outside the
  strict and the offline profile the order of the calls matters; \<open>run_cli\<close> composes it last.\<close>

lemma doctor_override_order:
  "pp_repowise (ep_providers (compose_policy DefaultProfile
     [Skips \<lparr>sk_repowise = True, sk_sentrux = False, sk_open_spec = False\<rparr>, Doctor (Some False) None])) = Optional \<and>
   pp_repowise (ep_providers (compose_policy DefaultProfile
     [Doctor (Some False) None, Skips \<lparr>sk_repowise = True, sk_sentrux = False, sk_open_spec = False\<rparr>])) = Disabled"
  by code_simp

end
