(* ===== verification/Artifact_Index.thy ===== *)
theory Artifact_Index
  imports Run_Commit Staged_Artifact "HOL-Library.Option_ord" "HOL-Library.Product_Lexorder"
begin

text \<open>
  The artifact index (crates/code-intel-cli/src/artifact\_index.rs): the latest committed run of every
  repository under an authority root, and a diagnostic for every run that has no authority.  The record
  \<open>index_env\<close> holds the operations of \<open>std::fs\<close> that the code calls; \<open>read_dir\<close> yields an error or, for
  every entry, an error or its name and its file type.  The path of an entry is the directory with the
  name pushed, so a child directory is kept as its name.
\<close>

record dir_entry =
  de_name :: string
  de_type :: "string + bool \<times> bool"

record 'f index_env =
  ix_artifacts :: "'f artifact_env"
  ix_read_dir :: "string \<Rightarrow> 'f \<Rightarrow> string + (string + dir_entry) list"
  ix_is_utf8 :: "string \<Rightarrow> bool"
  ix_is_dir :: "string \<Rightarrow> 'f \<Rightarrow> bool"
  ix_is_file :: "string \<Rightarrow> 'f \<Rightarrow> bool"
  ix_exists :: "string \<Rightarrow> 'f \<Rightarrow> bool"
  ix_metadata :: "string \<Rightarrow> 'f \<Rightarrow> string + bool \<times> nat"
  ix_read :: "string \<Rightarrow> 'f \<Rightarrow> string + u8 list"
  ix_write :: "string \<Rightarrow> u8 list \<Rightarrow> ('f, string, unit) act"
  ix_rename :: "string \<Rightarrow> string \<Rightarrow> ('f, string, unit) act"
  ix_remove_file :: "string \<Rightarrow> ('f, string, unit) act"
  ix_to_vec_pretty :: "json \<Rightarrow> u8 list"
  ix_process_id :: string

definition INDEX_SCHEMA :: string where "INDEX_SCHEMA = ''code-intel-artifact-index.v1''"

definition MAX_INDEX_BYTES :: nat where "MAX_INDEX_BYTES = 16 * 1024 * 1024"

datatype index_error = IxContract string | IxHostIo string

section \<open>Directories\<close>

definition listed_directory :: "string + dir_entry \<Rightarrow> string list \<Rightarrow> index_error + string list" where
  "listed_directory item names =
     and_then (map_err (\<lambda>e. IxHostIo (''read artifact index entry: '' @ e)) item) (\<lambda>en.
     and_then (map_err (\<lambda>e. IxHostIo (''inspect artifact index entry: '' @ e)) (de_type en)) (\<lambda>(is_dir, is_symlink).
     Ok (if is_dir \<and> \<not> is_symlink then names @ [de_name en] else names)))"

definition child_directories :: "'f index_env \<Rightarrow> string \<Rightarrow> 'f \<Rightarrow> index_error + string list" where
  "child_directories env root st =
     and_then (map_err (\<lambda>e. IxHostIo (''read artifact index directory: '' @ e)) (ix_read_dir env root st)) (\<lambda>items.
     and_then (try_fold listed_directory items []) (\<lambda>names. Ok (sort names)))"

definition index_file_name :: "'f index_env \<Rightarrow> string \<Rightarrow> index_error + string" where
  "index_file_name env name =
     (if ix_is_utf8 env name \<and> name \<noteq> [] then Ok name else Err (IxContract ''artifact index path is not portable UTF-8''))"

definition is_staging_name :: "string \<Rightarrow> bool" where
  "is_staging_name name \<longleftrightarrow> starts_with name ''.'' \<or> starts_with name ''stage-'' \<or> contains_str name ''staging''"

section \<open>Rows\<close>

definition diagnostic_row :: "string \<Rightarrow> string \<Rightarrow> string \<Rightarrow> string \<Rightarrow> json" where
  "diagnostic_row repo run classification reason =
     jobj [(''repo'', JStr repo), (''run'', JStr run), (''classification'', JStr classification), (''reason'', JStr reason)]"

definition node_values :: "json \<Rightarrow> json list" where
  "node_values manifest = bt_values (the (as_object (jidx manifest ''nodes'')))"

definition node_artifacts :: "json \<Rightarrow> json list" where
  "node_artifacts node = (case as_array (jidx node ''artifacts'') of Some artifacts \<Rightarrow> artifacts | None \<Rightarrow> [])"

definition index_entry :: "string \<Rightarrow> string \<Rightarrow> json \<Rightarrow> json \<Rightarrow> json" where
  "index_entry repo run marker manifest =
     (let refs = sort_key (\<lambda>r. as_str (jidx r ''path'')) (concat (map node_artifacts (node_values manifest))) in
      jobj [(''repo'', JStr repo), (''run'', JStr run), (''runIdentity'', jidx marker ''runIdentity''),
        (''snapshotIdentity'', jidx marker ''snapshotIdentity''), (''outcome'', jidx manifest ''outcome''),
        (''manifest'', jidx marker ''manifest''), (''artifactRefs'', JArr refs)])"

definition is_provenance :: "json \<Rightarrow> bool" where
  "is_provenance reference \<longleftrightarrow>
     jidx reference ''artifactSchema'' = JStr REPOSITORY_ITERATION_SCHEMA \<and> jidx reference ''type'' = JStr REPOSITORY_ITERATION_TYPE"

definition provenance_refs :: "json \<Rightarrow> (string option \<times> json) list" where
  "provenance_refs manifest =
     concat (map (\<lambda>node. map (\<lambda>reference. (as_str (jidx node ''status''), reference)) (filter is_provenance (node_artifacts node)))
       (node_values manifest))"

definition provenance_matches :: "string \<Rightarrow> string \<Rightarrow> json \<Rightarrow> json \<Rightarrow> json \<Rightarrow> json \<Rightarrow> bool" where
  "provenance_matches repository_key publication_name marker manifest reference payload \<longleftrightarrow>
     jidx payload ''runIdentity'' = jidx manifest ''runIdentity'' \<and> jidx payload ''runIdentity'' = jidx marker ''runIdentity'' \<and>
     jidx payload ''snapshotIdentity'' = jidx manifest ''snapshotIdentity'' \<and>
     jidx payload ''snapshotIdentity'' = jidx marker ''snapshotIdentity'' \<and>
     jidx payload ''snapshotIdentity'' = jidx reference ''consumedSnapshotIdentity'' \<and>
     as_str (jidx payload ''repositoryKey'') = Some repository_key \<and>
     as_str (jidx payload ''publicationName'') = Some publication_name"

definition is_repository_iteration ::
    "'f artifact_env \<Rightarrow> string \<Rightarrow> string \<Rightarrow> string \<Rightarrow> json \<Rightarrow> json \<Rightarrow> 'f \<Rightarrow> bool" where
  "is_repository_iteration env run_root repository_key publication_name marker manifest st =
     (case provenance_refs manifest of
        [(status, reference)] \<Rightarrow>
          if status \<noteq> Some ''succeeded'' then False
          else (case verify_inputs env (JArr [reference]) (Some run_root) (the (as_str (jidx manifest ''snapshotIdentity''))) st of
              Inl _ \<Rightarrow> False
            | Inr verified \<Rightarrow>
                (case from_slice (ae_lib env) (va_bytes (hd verified)) of
                   Inl _ \<Rightarrow> False
                 | Inr payload \<Rightarrow> provenance_matches repository_key publication_name marker manifest reference payload))
      | _ \<Rightarrow> False)"

section \<open>The catalog\<close>

record snapshot_catalog =
  sc_admitted :: "(string, json list) btree"
  sc_diagnostics :: "json list"

text \<open>One run directory: its entry, or the diagnostic that refuses it.\<close>

definition refused_run :: "'f index_env \<Rightarrow> string \<Rightarrow> 'f \<Rightarrow> string \<times> string" where
  "refused_run env run st =
     (if ix_is_file env (path_push run ''run-complete.json'') st
      then (''forged'', ''completion marker or its manifest/Artifact Refs failed validation'')
      else if ix_is_dir env (path_push run ''objects'') st then (''incomplete'', ''A07 completion marker is absent'')
      else (''legacy'', ''legacy run has no A07 completion marker''))"

definition index_run :: "'f index_env \<Rightarrow> string \<Rightarrow> string \<Rightarrow> string \<Rightarrow> 'f \<Rightarrow> json + json" where
  "index_run env run repo_name run_name st =
     (if is_staging_name run_name
      then Err (diagnostic_row repo_name run_name ''staging'' ''run directory is staging and has no publication authority'')
      else case validate_committed_run (ix_artifacts env) run st of
        Inr (marker, manifest) \<Rightarrow>
          (let outcome = the (as_str (jidx manifest ''outcome'')) in
           if outcome \<noteq> ''completed''
           then Err (diagnostic_row repo_name run_name ''non_completed''
             (''committed audit run outcome is '' @ outcome @ ''; only completed runs are query authority''))
           else if \<not> is_repository_iteration (ix_artifacts env) run repo_name run_name marker manifest st
           then Err (diagnostic_row repo_name run_name ''non_repository_iteration''
             ''committed run has no uniquely verified repository.iteration provenance bound to its authority path'')
           else Ok (index_entry repo_name run_name marker manifest))
      | Inl _ \<Rightarrow> (case refused_run env run st of
          (classification, reason) \<Rightarrow> Err (diagnostic_row repo_name run_name classification reason)))"

definition catalog_add :: "string \<Rightarrow> json + json \<Rightarrow> snapshot_catalog \<Rightarrow> snapshot_catalog" where
  "catalog_add repo_name row catalog =
     (case row of
        Inl d \<Rightarrow> catalog\<lparr>sc_diagnostics := sc_diagnostics catalog @ [d]\<rparr>
      | Inr e \<Rightarrow> catalog\<lparr>sc_admitted := bt_insert repo_name
          ((case bt_get (sc_admitted catalog) repo_name of Some runs \<Rightarrow> runs | None \<Rightarrow> []) @ [e]) (sc_admitted catalog)\<rparr>)"

definition catalog_repo :: "'f index_env \<Rightarrow> string \<Rightarrow> 'f \<Rightarrow> string \<Rightarrow> snapshot_catalog \<Rightarrow> index_error + snapshot_catalog" where
  "catalog_repo env root st repo catalog =
     and_then (index_file_name env repo) (\<lambda>repo_name.
     and_then (child_directories env (path_push root repo) st) (\<lambda>runs.
     try_fold (\<lambda>run catalog'.
        and_then (index_file_name env run) (\<lambda>run_name.
        Ok (catalog_add repo_name (index_run env (path_push (path_push root repo) run) repo_name run_name st) catalog')))
       runs catalog))"

definition build_catalog :: "'f index_env \<Rightarrow> string \<Rightarrow> 'f \<Rightarrow> index_error + snapshot_catalog" where
  "build_catalog env root st =
     and_then (child_directories env root st) (\<lambda>repos.
     and_then (try_fold (catalog_repo env root st) repos \<lparr>sc_admitted = [], sc_diagnostics = []\<rparr>) (\<lambda>catalog.
     Ok \<lparr>sc_admitted = map (\<lambda>(repo, runs). (repo, sort_key (\<lambda>e. as_str (jidx e ''run'')) runs)) (sc_admitted catalog),
         sc_diagnostics = sort_key (\<lambda>d. (as_str (jidx d ''repo''), as_str (jidx d ''run''))) (sc_diagnostics catalog)\<rparr>))"

definition to_index :: "snapshot_catalog \<Rightarrow> json" where
  "to_index catalog =
     jobj [(''schema'', JStr INDEX_SCHEMA),
       (''entries'', JArr (concat (map (\<lambda>runs. if runs = [] then [] else [last runs]) (bt_values (sc_admitted catalog))))),
       (''diagnostics'', JArr (sc_diagnostics catalog))]"

definition rebuild :: "'f index_env \<Rightarrow> string \<Rightarrow> 'f \<Rightarrow> index_error + json" where
  "rebuild env root st = and_then (build_catalog env root st) (\<lambda>catalog. Ok (to_index catalog))"

section \<open>Reading an index\<close>

definition index_portable_name :: "json \<Rightarrow> string \<Rightarrow> index_error + string" where
  "index_portable_name value context =
     (case as_str value of
        Some name \<Rightarrow>
          if name \<noteq> [] \<and> name \<noteq> ''.'' \<and> name \<noteq> ''..'' \<and> \<not> (ends_with name ''.'' \<or> ends_with name '' '') \<and>
             \<not> (has_control name \<or> list_ex (\<lambda>c. c \<in> set (CHR 0x5C # ''/:*?\"<>|'')) name)
          then Ok name else Err (IxContract (context @ '' is not a portable directory name''))
      | None \<Rightarrow> Err (IxContract (context @ '' is not a portable directory name'')))"

definition index_portable_path :: "string \<Rightarrow> bool" where
  "index_portable_path p \<longleftrightarrow>
     p \<noteq> [] \<and> \<not> starts_with p ''/'' \<and> CHR 0x5C \<notin> set p \<and> CHR '':'' \<notin> set p \<and>
     list_all (\<lambda>component. component \<noteq> [] \<and> component \<noteq> ''.'' \<and> component \<noteq> ''..'' \<and>
       \<not> (ends_with component ''.'' \<or> ends_with component '' '') \<and> \<not> has_control component) (split_on (CHR ''/'') p)"

definition index_digest :: "json \<Rightarrow> string \<Rightarrow> index_error + string" where
  "index_digest value context =
     (case as_str value of
        Some digest \<Rightarrow> if is_digest digest then Ok digest else Err (IxContract (context @ '' is invalid''))
      | None \<Rightarrow> Err (IxContract (context @ '' is invalid'')))"

definition index_exact_keys :: "json \<Rightarrow> string list \<Rightarrow> string \<Rightarrow> index_error + unit" where
  "index_exact_keys value keys context = map_err IxContract (commit_exact value keys context)"

definition index_ref :: "string \<Rightarrow> json \<Rightarrow> string list \<Rightarrow> index_error + string list" where
  "index_ref snapshot artifact paths =
     and_then (map_err IxContract (validate_artifact_ref_shape artifact)) (\<lambda>_.
     let p = the (as_str (jidx artifact ''path'')) in
     and_then (ensure (\<not> (\<not> index_portable_path p \<or> p \<in> set paths))
       (IxContract ''entry Artifact Ref path is invalid or duplicated'')) (\<lambda>_.
     and_then (ensure (\<not> as_str (jidx artifact ''consumedSnapshotIdentity'') \<noteq> Some snapshot)
       (IxContract ''entry Artifact Ref snapshot binding differs from the entry'')) (\<lambda>_.
     Ok (p # paths))))"

definition validate_index_entry :: "json \<Rightarrow> index_error + unit" where
  "validate_index_entry value =
     and_then (index_exact_keys value [''repo'', ''run'', ''runIdentity'', ''snapshotIdentity'', ''outcome'', ''manifest'', ''artifactRefs'']
       ''artifact index entry'') (\<lambda>_.
     and_then (index_portable_name (jidx value ''repo'') ''entry repo'') (\<lambda>_.
     and_then (index_portable_name (jidx value ''run'') ''entry run'') (\<lambda>_.
     and_then (ensure (text_is is_run_identity (jidx value ''runIdentity'')) (IxContract ''entry runIdentity is invalid'')) (\<lambda>_.
     and_then (index_digest (jidx value ''snapshotIdentity'') ''entry snapshotIdentity'') (\<lambda>snapshot.
     and_then (ensure (\<not> jidx value ''outcome'' \<noteq> JStr ''completed'') (IxContract ''entry outcome is invalid'')) (\<lambda>_.
     and_then (index_exact_keys (jidx value ''manifest'') [''path'', ''sha256''] ''entry manifest'') (\<lambda>_.
     and_then (index_digest (jidx (jidx value ''manifest'') ''sha256'') ''entry manifest sha256'') (\<lambda>manifest_digest.
     and_then (ensure (\<not> as_str (jidx (jidx value ''manifest'') ''path'') \<noteq> Some (''objects/sha256/'' @ manifest_digest))
       (IxContract ''entry manifest path is not content-addressed'')) (\<lambda>_.
     and_then (ok_or (as_array (jidx value ''artifactRefs'')) (IxContract ''entry artifactRefs must be an array'')) (\<lambda>refs.
     and_then (try_fold (index_ref snapshot) refs []) (\<lambda>_. Ok ())))))))))))"

definition diagnostic_classes :: "string list" where
  "diagnostic_classes = [''staging'', ''incomplete'', ''forged'', ''legacy'', ''non_completed'', ''non_repository_iteration'']"

definition validate_index_diagnostic :: "json \<Rightarrow> index_error + unit" where
  "validate_index_diagnostic value =
     and_then (index_exact_keys value [''repo'', ''run'', ''classification'', ''reason''] ''artifact index diagnostic'') (\<lambda>_.
     and_then (index_portable_name (jidx value ''repo'') ''diagnostic repo'') (\<lambda>_.
     and_then (index_portable_name (jidx value ''run'') ''diagnostic run'') (\<lambda>_.
     and_then (ensure (text_is (\<lambda>c. c \<in> set diagnostic_classes) (jidx value ''classification''))
       (IxContract ''diagnostic classification is invalid'')) (\<lambda>_.
     ensure (text_is (\<lambda>reason. \<not> is_blank reason) (jidx value ''reason'')) (IxContract ''diagnostic reason is invalid'')))))"

definition index_entry_step :: "json \<Rightarrow> string list \<Rightarrow> index_error + string list" where
  "index_entry_step en repos =
     and_then (validate_index_entry en) (\<lambda>_.
     let repo = the (as_str (jidx en ''repo'')) in
     and_then (ensure (\<not> repo \<in> set repos) (IxContract ''existing artifact index contains duplicate repositories'')) (\<lambda>_.
     Ok (repo # repos)))"

definition validate_index :: "json \<Rightarrow> index_error + unit" where
  "validate_index value =
     and_then (ok_or (as_object value) (IxContract ''existing artifact index must be an object'')) (\<lambda>object.
     and_then (ensure (\<not> (length object \<noteq> 3 \<or> jidx value ''schema'' \<noteq> JStr INDEX_SCHEMA \<or> \<not> is_array (jidx value ''entries'') \<or>
         \<not> is_array (jidx value ''diagnostics''))) (IxContract ''existing artifact index contract is invalid'')) (\<lambda>_.
     and_then (try_fold index_entry_step (the (as_array (jidx value ''entries''))) []) (\<lambda>_.
     try_fold (\<lambda>d _. validate_index_diagnostic d) (the (as_array (jidx value ''diagnostics''))) ())))"

definition read_index :: "'f index_env \<Rightarrow> string \<Rightarrow> 'f \<Rightarrow> index_error + json" where
  "read_index env p st =
     (let lib = ae_lib (ix_artifacts env) in
      and_then (map_err (\<lambda>e. IxHostIo (''inspect existing artifact index: '' @ e)) (ix_metadata env p st)) (\<lambda>(is_file, len).
      and_then (ensure (\<not> (\<not> is_file \<or> len > MAX_INDEX_BYTES))
        (IxContract ''existing artifact index must be a bounded regular file'')) (\<lambda>_.
      and_then (map_err (\<lambda>e. IxHostIo (''read existing artifact index: '' @ e)) (ix_read env p st)) (\<lambda>bytes.
      and_then (map_err (\<lambda>_. IxContract ''existing artifact index must be UTF-8 JSON'') (jl_from_utf8 lib bytes)) (\<lambda>t.
      and_then (map_err IxContract (the (reject_duplicate_json_keys (jl_key lib) t))) (\<lambda>_.
      and_then (map_err (\<lambda>_. IxContract ''existing artifact index is invalid JSON'') (jl_from_str lib t)) (\<lambda>value.
      and_then (validate_index value) (\<lambda>_. Ok value))))))))"

definition incremental :: "'f index_env \<Rightarrow> string \<Rightarrow> json \<Rightarrow> 'f \<Rightarrow> index_error + json" where
  "incremental env root existing st = and_then (validate_index existing) (\<lambda>_. rebuild env root st)"

section \<open>Writing an index\<close>

text \<open>The parent of a path as text, up to repeated separators; a bare name has the empty parent.\<close>

definition parent_text :: "string \<Rightarrow> string option" where
  "parent_text p = map_option (\<lambda>cs. case cs of [] \<Rightarrow> [] | c # cs' \<Rightarrow> if c = ''/'' then ''/'' @ join ''/'' cs' else join ''/'' cs)
     (path_parent (components p))"

definition write_index :: "'f index_env \<Rightarrow> string \<Rightarrow> json \<Rightarrow> ('f, index_error, unit) act" where
  "write_index env p value =
     bind_act (look_at (\<lambda>st. case parent_text p of
         Some parent \<Rightarrow> if ix_is_dir env parent st then Ok parent else Err (IxContract ''index output parent must exist'')
       | None \<Rightarrow> Err (IxContract ''index output parent must exist''))) (\<lambda>parent.
     let bytes = ix_to_vec_pretty env value;
         temp = path_push parent (''.artifact-index.tmp.'' @ ix_process_id env);
         backup = p @ ''.bak'' in
     bind_act (map_err_act (\<lambda>e. IxHostIo (''write artifact index temp: '' @ e)) (ix_write env temp bytes)) (\<lambda>_.
     bind_act (look_at (\<lambda>st. Ok (ix_exists env p st))) (\<lambda>parked.
     bind_act (if parked then map_err_act (\<lambda>e. IxHostIo (''replace artifact index: '' @ e)) (ix_rename env p backup)
       else ret ()) (\<lambda>_.
     bind_act (map_err_act (\<lambda>e. IxHostIo (''publish artifact index: '' @ e)) (ix_rename env temp p)) (\<lambda>_.
     if parked then bind_act (attempt (ix_remove_file env backup)) (\<lambda>_. ret ()) else ret ())))))"

section \<open>The command\<close>

datatype index_operation = Rebuild | Incremental

record index_cli =
  ic_artifact_root :: "string option"
  ic_output :: "string option"
  ic_operation :: index_operation
  ic_operation_seen :: bool
  ic_existing :: "string option"

definition index_set_once :: "string option \<Rightarrow> string \<Rightarrow> string \<Rightarrow> index_error + string option" where
  "index_set_once slot value flag =
     (if slot \<noteq> None then Err (IxContract (''duplicate '' @ flag)) else Ok (Some value))"

definition index_flag :: "string \<Rightarrow> string \<Rightarrow> index_cli \<Rightarrow> index_error + index_cli" where
  "index_flag flag value cli =
     (if flag = ''--artifact-root'' then
        and_then (index_set_once (ic_artifact_root cli) value flag) (\<lambda>slot. Ok (cli\<lparr>ic_artifact_root := slot\<rparr>))
      else if flag = ''--output'' then
        and_then (index_set_once (ic_output cli) value flag) (\<lambda>slot. Ok (cli\<lparr>ic_output := slot\<rparr>))
      else if flag = ''--existing'' then
        and_then (index_set_once (ic_existing cli) value flag) (\<lambda>slot. Ok (cli\<lparr>ic_existing := slot\<rparr>))
      else if ic_operation_seen cli then Err (IxContract ''duplicate --operation'')
      else if value = ''rebuild'' then Ok (cli\<lparr>ic_operation_seen := True, ic_operation := Rebuild\<rparr>)
      else if value = ''incremental'' then Ok (cli\<lparr>ic_operation_seen := True, ic_operation := Incremental\<rparr>)
      else Err (IxContract ''--operation must be rebuild or incremental''))"

fun index_flags :: "string list \<Rightarrow> index_cli \<Rightarrow> index_error + index_cli" where
  "index_flags [] cli = Ok cli"
| "index_flags (flag # rest) cli =
     (if flag \<notin> {''--artifact-root'', ''--output'', ''--operation'', ''--existing''}
      then Err (IxContract (''unknown artifact index argument: '' @ flag))
      else case rest of
          [] \<Rightarrow> Err (IxContract (flag @ '' requires one value''))
        | value # rest' \<Rightarrow>
            if value = [] \<or> starts_with value ''--'' then Err (IxContract (flag @ '' requires one value''))
            else and_then (index_flag flag value cli) (index_flags rest'))"

definition parse_index_cli :: "'f index_env \<Rightarrow> string list \<Rightarrow> 'f \<Rightarrow> index_error + string \<times> index_cli" where
  "parse_index_cli env raw st =
     (let usage = ''usage: artifact index --artifact-root <root> [--output <index.json>] [--operation rebuild|incremental] [--existing <index.json>]'' in
      case raw of
        [] \<Rightarrow> Err (IxContract usage)
      | sub # args \<Rightarrow>
          if sub \<noteq> ''index'' then Err (IxContract usage)
          else and_then (index_flags args \<lparr>ic_artifact_root = None, ic_output = None, ic_operation = Rebuild,
              ic_operation_seen = False, ic_existing = None\<rparr>) (\<lambda>cli.
            and_then (ok_or (ic_artifact_root cli) (IxContract ''--artifact-root is required'')) (\<lambda>root.
            and_then (ensure (ix_is_dir env root st) (IxContract ''artifact root must be an existing directory'')) (\<lambda>_.
            and_then (ensure (\<not> (ic_operation cli = Incremental \<and> ic_existing cli = None))
              (IxContract ''incremental operation requires --existing'')) (\<lambda>_.
            and_then (ensure (\<not> (ic_operation cli = Rebuild \<and> ic_existing cli \<noteq> None))
              (IxContract ''--existing is only valid for incremental operation'')) (\<lambda>_.
            Ok (root, cli)))))))"

definition execute_index :: "'f index_env \<Rightarrow> string \<times> index_cli \<Rightarrow> ('f, index_error, json) act" where
  "execute_index env args =
     (case args of (root, cli) \<Rightarrow>
        bind_act (look_at (case ic_operation cli of
            Rebuild \<Rightarrow> rebuild env root
          | Incremental \<Rightarrow> (\<lambda>st. and_then (read_index env (the (ic_existing cli)) st) (\<lambda>existing.
              incremental env root existing st)))) (\<lambda>index.
        case ic_output cli of
          Some p \<Rightarrow> bind_act (write_index env p index) (\<lambda>_. ret index)
        | None \<Rightarrow> ret index))"

text \<open>The exit code and the index that is printed.\<close>

definition index_run_raw :: "'f index_env \<Rightarrow> string list \<Rightarrow> 'f \<Rightarrow> (int \<times> json option) \<times> 'f" where
  "index_run_raw env raw st =
     (case bind_act (look_at (parse_index_cli env raw)) (execute_index env) st of
        (Inr index, st') \<Rightarrow> ((0, Some index), st')
      | (Inl (IxContract _), st') \<Rightarrow> ((65, None), st')
      | (Inl (IxHostIo _), st') \<Rightarrow> ((74, None), st'))"

end
