(* ===== verification/Index_Props.thy ===== *)
theory Index_Props
  imports Artifact_Index Commit_Props
begin

text \<open>
  What the artifact index says: for every repository the last of its authoritative runs, a diagnostic for
  every other run directory, and nothing else; and what survives when writing it is interrupted.
\<close>

section \<open>Rows of run directories\<close>

definition run_row :: "'f index_env \<Rightarrow> string \<Rightarrow> 'f \<Rightarrow> string \<times> string \<Rightarrow> json + json" where
  "run_row env root st r = index_run env (path_push (path_push root (fst r)) (snd r)) (fst r) (snd r) st"

text \<open>The run directories that are listed under an authority root.\<close>

definition lists_run :: "'f index_env \<Rightarrow> string \<Rightarrow> 'f \<Rightarrow> string \<Rightarrow> string \<Rightarrow> bool" where
  "lists_run env root st repo run \<longleftrightarrow>
     (\<exists>repos runs. child_directories env root st = Inr repos \<and> repo \<in> set repos \<and>
        child_directories env (path_push root repo) st = Inr runs \<and> run \<in> set runs)"

text \<open>A run that carries authority for a repository: committed, completed, and with one provenance artifact
  whose verified bytes name the run, the snapshot and the place where it was found.\<close>

definition authoritative :: "'f artifact_env \<Rightarrow> string \<Rightarrow> 'f \<Rightarrow> string \<Rightarrow> string \<Rightarrow> json \<Rightarrow> json \<Rightarrow> bool" where
  "authoritative env dir st repo run marker manifest \<longleftrightarrow>
     \<not> is_staging_name run \<and> run_bound env dir st marker manifest \<and> jidx manifest ''outcome'' = JStr ''completed'' \<and>
     (\<exists>reference c v payload snapshot. provenance_refs manifest = [(Some ''succeeded'', reference)] \<and>
        jidx manifest ''snapshotIdentity'' = JStr snapshot \<and> admissible_ref env snapshot reference c \<and>
        bound_to_file env dir snapshot st reference c v \<and>
        from_slice (ae_lib env) (va_bytes v) = Inr payload \<and>
        provenance_matches repo run marker manifest reference payload)"

lemma repository_iteration_Inr:
  assumes "is_repository_iteration env dir repo run marker manifest st"
  shows "\<exists>reference c v payload. provenance_refs manifest = [(Some ''succeeded'', reference)] \<and>
     admissible_ref env (the (as_str (jidx manifest ''snapshotIdentity''))) reference c \<and>
     bound_to_file env dir (the (as_str (jidx manifest ''snapshotIdentity''))) st reference c v \<and>
     from_slice (ae_lib env) (va_bytes v) = Inr payload \<and> provenance_matches repo run marker manifest reference payload"
proof -
  obtain status reference where p: "provenance_refs manifest = [(status, reference)]"
    using assms by (cases "provenance_refs manifest"; cases "tl (provenance_refs manifest)")
      (auto simp: is_repository_iteration_def split: prod.splits)
  let ?verified = "verify_inputs env (JArr [reference]) (Some dir) (the (as_str (jidx manifest ''snapshotIdentity''))) st"
  have "status = Some ''succeeded''"
    using assms by (auto simp: is_repository_iteration_def p split: if_splits)
  moreover obtain verified where verified: "?verified = Inr verified"
    using assms by (cases ?verified) (auto simp: is_repository_iteration_def p split: if_splits)
  moreover obtain payload where "from_slice (ae_lib env) (va_bytes (hd verified)) = Inr payload"
    using assms verified
    by (cases "from_slice (ae_lib env) (va_bytes (hd verified))") (auto simp: is_repository_iteration_def p split: if_splits)
  moreover obtain c v where "verified = [v]"
    "admissible_ref env (the (as_str (jidx manifest ''snapshotIdentity''))) reference c"
    "bound_to_file env dir (the (as_str (jidx manifest ''snapshotIdentity''))) st reference c v"
    using verified unfolding verify_inputs_Inr by (auto simp: list_all2_Cons1)
  ultimately show ?thesis
    using assms p by (auto simp: is_repository_iteration_def split: if_splits)
qed

lemma bound_outcome:
  "run_bound env dir st marker manifest \<Longrightarrow> the (as_str (jidx manifest ''outcome'')) = s \<Longrightarrow> jidx manifest ''outcome'' = JStr s"
  unfolding run_bound_def manifest_bound_def commit_run_manifest_def and_then_eq_Inr ensure_eq_Inr manifest_header_ok_def
  by (auto simp: text_is_def as_str_eq split: option.splits)

lemma run_row_Inr:
  assumes "run_row env root st (repo, run) = Inr e"
  shows "\<exists>marker manifest.
     authoritative (ix_artifacts env) (path_push (path_push root repo) run) st repo run marker manifest \<and>
     e = index_entry repo run marker manifest"
proof -
  let ?dir = "path_push (path_push root repo) run"
  have name: "\<not> is_staging_name run" using assms by (auto simp: run_row_def index_run_def split: if_splits)
  obtain marker manifest where ok: "validate_committed_run (ix_artifacts env) ?dir st = Inr (marker, manifest)"
    using assms name by (cases "validate_committed_run (ix_artifacts env) ?dir st")
      (auto simp: run_row_def index_run_def split: prod.splits)
  note bound = committed_run_Inr [OF ok]
  have parts: "the (as_str (jidx manifest ''outcome'')) = ''completed''"
      "is_repository_iteration (ix_artifacts env) ?dir repo run marker manifest st" "e = index_entry repo run marker manifest"
    using assms name by (auto simp: run_row_def index_run_def ok Let_def split: if_splits)
  obtain snapshot where "jidx manifest ''snapshotIdentity'' = JStr snapshot"
    using bound unfolding run_bound_def by blast
  then have "authoritative (ix_artifacts env) ?dir st repo run marker manifest"
    using name bound bound_outcome [OF bound parts(1)] repository_iteration_Inr [OF parts(2)]
    unfolding authoritative_def by auto
  then show ?thesis using parts(3) by blast
qed

lemma row_names:
  "run_row env root st r = Inr e \<Longrightarrow> jidx e ''repo'' = JStr (fst r) \<and> jidx e ''run'' = JStr (snd r)"
  "run_row env root st r = Inl d \<Longrightarrow> jidx d ''repo'' = JStr (fst r) \<and> jidx d ''run'' = JStr (snd r)"
  by (auto simp: run_row_def index_run_def index_entry_def diagnostic_row_def jidx_jobj Let_def
      split: if_splits sum.splits prod.splits)

section \<open>The catalog\<close>

text \<open>The entries of a repository among the rows of some run directories.\<close>

definition admitted_rows :: "(string \<times> string \<Rightarrow> json + json) \<Rightarrow> (string \<times> string) list \<Rightarrow> string \<Rightarrow> json list" where
  "admitted_rows row dirs repo =
     concat (map (\<lambda>r. if fst r = repo then (case row r of Inr e \<Rightarrow> [e] | Inl _ \<Rightarrow> []) else []) dirs)"

definition catalog_of :: "(string \<times> string \<Rightarrow> json + json) \<Rightarrow> (string \<times> string) list \<Rightarrow> snapshot_catalog" where
  "catalog_of row dirs = fold (\<lambda>r. catalog_add (fst r) (row r)) dirs \<lparr>sc_admitted = [], sc_diagnostics = []\<rparr>"

lemma catalog_of_snoc: "catalog_of row (dirs @ [r]) = catalog_add (fst r) (row r) (catalog_of row dirs)"
  by (simp add: catalog_of_def)

lemma admitted_rows_snoc:
  "admitted_rows row (dirs @ [r]) repo = admitted_rows row dirs repo @
     (if fst r = repo then (case row r of Inr e \<Rightarrow> [e] | Inl _ \<Rightarrow> []) else [])"
  by (simp add: admitted_rows_def)

lemma catalog_of_rows:
  "bt_wf (sc_admitted (catalog_of row dirs)) \<and>
   bt_get (sc_admitted (catalog_of row dirs)) =
      (\<lambda>repo. if admitted_rows row dirs repo = [] then None else Some (admitted_rows row dirs repo)) \<and>
   set (sc_diagnostics (catalog_of row dirs)) = {d. \<exists>r \<in> set dirs. row r = Inl d}"
proof (induction dirs rule: rev_induct)
  case Nil
  show ?case by (simp add: catalog_of_def admitted_rows_def fun_eq_iff)
next
  case (snoc r dirs)
  then have wf: "bt_wf (sc_admitted (catalog_of row dirs))"
    and get: "bt_get (sc_admitted (catalog_of row dirs)) =
      (\<lambda>repo. if admitted_rows row dirs repo = [] then None else Some (admitted_rows row dirs repo))"
    and diags: "set (sc_diagnostics (catalog_of row dirs)) = {d. \<exists>r \<in> set dirs. row r = Inl d}"
    by blast+
  show ?case
  proof (cases "row r")
    case (Inl d)
    then show ?thesis
      by (auto simp add: catalog_of_snoc admitted_rows_snoc catalog_add_def wf get diags fun_eq_iff)
  next
    case (Inr e)
    then show ?thesis
      by (simp add: catalog_of_snoc admitted_rows_snoc catalog_add_def wf get diags bt_wf_insert fun_eq_iff)
  qed
qed

lemma set_admitted_rows: "e \<in> set (admitted_rows row dirs repo) \<longleftrightarrow> (\<exists>run. (repo, run) \<in> set dirs \<and> row (repo, run) = Inr e)"
proof -
  have "e \<in> set (case row r of Inr e \<Rightarrow> [e] | Inl _ \<Rightarrow> []) \<longleftrightarrow> row r = Inr e" for r
    by (cases "row r") auto
  then have "e \<in> set (admitted_rows row dirs repo) \<longleftrightarrow> (\<exists>r \<in> set dirs. fst r = repo \<and> row r = Inr e)"
    unfolding admitted_rows_def set_concat set_map by (auto split: if_splits)
  then show ?thesis by force
qed

lemma file_names_Inr: "index_file_name env name = Inr n \<Longrightarrow> n = name"
  by (auto simp: index_file_name_def split: if_splits)

lemma add_runs:
  "try_fold (\<lambda>run catalog'. and_then (index_file_name env run) (\<lambda>run_name.
      Ok (catalog_add repo (index_run env (path_push (path_push root repo) run) repo run_name st) catalog'))) runs catalog = Inr catalog''
   \<Longrightarrow> catalog'' = fold (\<lambda>r. catalog_add (fst r) (run_row env root st r)) (map (Pair repo) runs) catalog"
  by (induction runs arbitrary: catalog) (auto simp: and_then_eq_Inr run_row_def dest: file_names_Inr)

lemma catalog_repo_Inr:
  assumes "catalog_repo env root st repo catalog = Inr catalog'"
  obtains runs where "child_directories env (path_push root repo) st = Inr runs"
    "catalog' = fold (\<lambda>r. catalog_add (fst r) (run_row env root st r)) (map (Pair repo) runs) catalog"
proof -
  obtain repo_name runs where "index_file_name env repo = Inr repo_name" "child_directories env (path_push root repo) st = Inr runs"
    "try_fold (\<lambda>run catalog'. and_then (index_file_name env run) (\<lambda>run_name.
       Ok (catalog_add repo_name (index_run env (path_push (path_push root repo) run) repo_name run_name st) catalog')))
       runs catalog = Inr catalog'"
    using assms unfolding catalog_repo_def and_then_eq_Inr by blast
  moreover from this(1) have "repo_name = repo" by (rule file_names_Inr)
  ultimately show thesis using that add_runs [of env repo root st runs catalog catalog'] by blast
qed

lemma add_repos:
  assumes "try_fold (catalog_repo env root st) repos catalog = Inr catalog'"
  shows "\<exists>dirs. catalog' = fold (\<lambda>r. catalog_add (fst r) (run_row env root st r)) dirs catalog \<and>
     (\<forall>repo run. (repo, run) \<in> set dirs \<longleftrightarrow> repo \<in> set repos \<and>
        (\<exists>runs. child_directories env (path_push root repo) st = Inr runs \<and> run \<in> set runs))"
  using assms
proof (induction repos arbitrary: catalog)
  case (Cons repo repos)
  obtain next' where step: "catalog_repo env root st repo catalog = Inr next'"
    and rest: "try_fold (catalog_repo env root st) repos next' = Inr catalog'"
    using Cons.prems by (auto simp: and_then_eq_Inr)
  obtain runs where runs: "child_directories env (path_push root repo) st = Inr runs"
    "next' = fold (\<lambda>r. catalog_add (fst r) (run_row env root st r)) (map (Pair repo) runs) catalog"
    by (rule catalog_repo_Inr [OF step])
  obtain dirs where dirs: "catalog' = fold (\<lambda>r. catalog_add (fst r) (run_row env root st r)) dirs next'"
    "\<forall>repo run. (repo, run) \<in> set dirs \<longleftrightarrow> repo \<in> set repos \<and>
        (\<exists>runs. child_directories env (path_push root repo) st = Inr runs \<and> run \<in> set runs)"
    using Cons.IH [OF rest] by blast
  show ?case
    by (rule exI [of _ "map (Pair repo) runs @ dirs"]) (use runs dirs in auto)
qed (auto intro: exI [of _ "[]"])

lemma build_catalog_Inr:
  assumes "build_catalog env root st = Inr catalog"
  shows "\<exists>dirs. (\<forall>repo run. (repo, run) \<in> set dirs \<longleftrightarrow> lists_run env root st repo run) \<and>
     catalog = \<lparr>sc_admitted = map (\<lambda>(repo, runs). (repo, sort_key (\<lambda>e. as_str (jidx e ''run'')) runs))
         (sc_admitted (catalog_of (run_row env root st) dirs)),
       sc_diagnostics = sort_key (\<lambda>d. (as_str (jidx d ''repo''), as_str (jidx d ''run'')))
         (sc_diagnostics (catalog_of (run_row env root st) dirs))\<rparr>"
proof -
  obtain repos catalog' where repos: "child_directories env root st = Inr repos"
    "try_fold (catalog_repo env root st) repos \<lparr>sc_admitted = [], sc_diagnostics = []\<rparr> = Inr catalog'"
    "catalog = \<lparr>sc_admitted = map (\<lambda>(repo, runs). (repo, sort_key (\<lambda>e. as_str (jidx e ''run'')) runs)) (sc_admitted catalog'),
       sc_diagnostics = sort_key (\<lambda>d. (as_str (jidx d ''repo''), as_str (jidx d ''run''))) (sc_diagnostics catalog')\<rparr>"
    using assms unfolding build_catalog_def and_then_eq_Inr by auto
  obtain dirs where "catalog' = catalog_of (run_row env root st) dirs"
    "\<forall>repo run. (repo, run) \<in> set dirs \<longleftrightarrow> repo \<in> set repos \<and>
        (\<exists>runs. child_directories env (path_push root repo) st = Inr runs \<and> run \<in> set runs)"
    using add_repos [OF repos(2)] unfolding catalog_of_def by blast
  then show ?thesis using repos(1,3) unfolding lists_run_def by (intro exI [of _ dirs]) simp
qed

section \<open>The index\<close>

lemma last_sort_key:
  assumes "xs \<noteq> []"
  shows "last (sort_key f xs) \<in> set xs" "x \<in> set xs \<Longrightarrow> f x \<le> f (last (sort_key f xs))"
proof -
  have ne: "sort_key f xs \<noteq> []" using assms by (metis set_empty set_sort)
  show "last (sort_key f xs) \<in> set xs" using last_in_set [OF ne] by simp
  have "f y \<le> f (last ys)" if "sorted (map f ys)" "y \<in> set ys" for y ys
    using that by (induction ys) auto
  then show "x \<in> set xs \<Longrightarrow> f x \<le> f (last (sort_key f xs))" by simp
qed

lemma to_index_get:
  "jidx (to_index c) ''schema'' = JStr INDEX_SCHEMA" "jidx (to_index c) ''diagnostics'' = JArr (sc_diagnostics c)"
  "jidx (to_index c) ''entries'' = JArr (concat (map (\<lambda>runs. if runs = [] then [] else [last runs]) (bt_values (sc_admitted c))))"
  by (simp_all add: to_index_def jidx_jobj)

text \<open>The entry of the last run with authority for a repository.\<close>

definition latest_run :: "'f index_env \<Rightarrow> string \<Rightarrow> 'f \<Rightarrow> string \<Rightarrow> string \<Rightarrow> json \<Rightarrow> bool" where
  "latest_run env root st repo run e \<longleftrightarrow>
     lists_run env root st repo run \<and> run_row env root st (repo, run) = Inr e \<and>
     (\<forall>run' e'. lists_run env root st repo run' \<and> run_row env root st (repo, run') = Inr e' \<longrightarrow> run' \<le> run)"

lemma latest_of_rows:
  assumes dirs: "\<forall>repo run. (repo, run) \<in> set dirs \<longleftrightarrow> lists_run env root st repo run"
    and rows: "rows = admitted_rows (run_row env root st) dirs repo" "rows \<noteq> []"
  shows "(\<exists>run. latest_run env root st repo run e) \<longleftrightarrow> e = last (sort_key (\<lambda>e. as_str (jidx e ''run'')) rows)"
proof -
  let ?l = "last (sort_key (\<lambda>e. as_str (jidx e ''run'')) rows)"
  have mem: "e \<in> set rows \<longleftrightarrow> (\<exists>run. lists_run env root st repo run \<and> run_row env root st (repo, run) = Inr e)" for e
    by (simp add: rows(1) set_admitted_rows dirs)
  obtain run where run: "lists_run env root st repo run" "run_row env root st (repo, run) = Inr ?l"
    using last_sort_key(1) [OF rows(2)] mem by blast
  have name: "run_row env root st (repo, r) = Inr e' \<Longrightarrow> as_str (jidx e' ''run'') = Some r" for r e'
    using row_names(1) by force
  have max: "run' \<le> run" if "lists_run env root st repo run'" "run_row env root st (repo, run') = Inr e'" for run' e'
  proof -
    have "e' \<in> set rows" using mem that by blast
    from last_sort_key(2) [OF rows(2) this, of "\<lambda>e. as_str (jidx e ''run'')"]
    show ?thesis unfolding name [OF that(2)] name [OF run(2)] by simp
  qed
  then have "latest_run env root st repo run ?l" using run unfolding latest_run_def by blast
  moreover have "e = ?l" if "latest_run env root st repo run' e" for run'
  proof -
    have row: "run_row env root st (repo, run') = Inr e" "lists_run env root st repo run'"
      and top: "\<forall>r e'. lists_run env root st repo r \<and> run_row env root st (repo, r) = Inr e' \<longrightarrow> r \<le> run'"
      using that unfolding latest_run_def by blast+
    have "run' = run" using top run max [OF row(2,1)] by (intro antisym) blast+
    then have "Inr e = (Inr ?l :: json + json)" using row(1) run(2) by metis
    then show ?thesis by blast
  qed
  ultimately show ?thesis by blast
qed

lemma index_of_catalog:
  assumes "build_catalog env root st = Inr catalog"
  shows "set (sc_diagnostics catalog) = {d. \<exists>repo run. lists_run env root st repo run \<and> run_row env root st (repo, run) = Inl d}"
    "bt_wf (sc_admitted catalog)"
    "(\<exists>runs. bt_get (sc_admitted catalog) repo = Some runs \<and> runs \<noteq> [] \<and> e = last runs) \<longleftrightarrow> (\<exists>run. latest_run env root st repo run e)"
    "bt_get (sc_admitted catalog) repo = Some runs \<Longrightarrow> runs \<noteq> []"
proof -
  obtain dirs where dirs: "\<forall>repo run. (repo, run) \<in> set dirs \<longleftrightarrow> lists_run env root st repo run"
    and cat: "catalog = \<lparr>sc_admitted = map (\<lambda>(repo, runs). (repo, sort_key (\<lambda>e. as_str (jidx e ''run'')) runs))
         (sc_admitted (catalog_of (run_row env root st) dirs)),
       sc_diagnostics = sort_key (\<lambda>d. (as_str (jidx d ''repo''), as_str (jidx d ''run'')))
         (sc_diagnostics (catalog_of (run_row env root st) dirs))\<rparr>"
    using build_catalog_Inr [OF assms] by blast
  let ?rows = "admitted_rows (run_row env root st) dirs repo"
  note inv = catalog_of_rows [of "run_row env root st" dirs]
  show "set (sc_diagnostics catalog) = {d. \<exists>repo run. lists_run env root st repo run \<and> run_row env root st (repo, run) = Inl d}"
    using inv dirs by (auto simp: cat)
  show "bt_wf (sc_admitted catalog)"
    using inv by (simp add: cat bt_wf_def case_prod_beta o_def)
  have get: "bt_get (sc_admitted catalog) repo =
      (if ?rows = [] then None else Some (sort_key (\<lambda>e. as_str (jidx e ''run'')) ?rows))"
    using inv by (simp add: cat map_of_map)
  have ne: "sort_key f xs \<noteq> [] \<longleftrightarrow> xs \<noteq> []" for f :: "json \<Rightarrow> string option" and xs
    by (metis set_empty set_sort)
  have none: "\<not> (\<exists>run. latest_run env root st repo run e)" if "?rows = []"
    using that set_admitted_rows [of _ "run_row env root st" dirs repo] dirs unfolding latest_run_def by fastforce
  show "(\<exists>runs. bt_get (sc_admitted catalog) repo = Some runs \<and> runs \<noteq> [] \<and> e = last runs) \<longleftrightarrow> (\<exists>run. latest_run env root st repo run e)"
  proof (cases "?rows = []")
    case False
    show ?thesis unfolding latest_of_rows [OF dirs refl False] get using False ne by simp
  qed (use none get in simp)
  show "bt_get (sc_admitted catalog) repo = Some runs \<Longrightarrow> runs \<noteq> []"
    using ne by (auto simp: get split: if_splits)
qed

lemma index_entries:
  assumes "build_catalog env root st = Inr catalog"
  shows "concat (map (\<lambda>runs. if runs = [] then [] else [last runs]) (bt_values (sc_admitted catalog)))
       = map last (bt_values (sc_admitted catalog))"
    "map (\<lambda>e. jidx e ''repo'') (map last (bt_values (sc_admitted catalog))) = map JStr (bt_keys (sc_admitted catalog))"
    "e \<in> set (map last (bt_values (sc_admitted catalog))) \<longleftrightarrow> (\<exists>repo run. latest_run env root st repo run e)"
proof -
  let ?m = "sc_admitted catalog"
  note cat = index_of_catalog [OF assms]
  have ne: "runs \<noteq> []" if "runs \<in> set (bt_values ?m)" for runs
    using that cat(4) by (auto simp: set_bt_values ran_def)
  then show "concat (map (\<lambda>runs. if runs = [] then [] else [last runs]) (bt_values ?m)) = map last (bt_values ?m)"
    by (induction "bt_values ?m" rule: rev_induct) (auto simp: map_eq_conv concat_map_singleton cong: map_cong)
  have repo: "jidx (last runs) ''repo'' = JStr r" if get: "bt_get ?m r = Some runs" for r runs
  proof -
    obtain run where "latest_run env root st r run (last runs)" using cat(3) [of r "last runs"] cat(4) [OF get] get by blast
    then show ?thesis using row_names(1) unfolding latest_run_def by force
  qed
  show "map (\<lambda>e. jidx e ''repo'') (map last (bt_values ?m)) = map JStr (bt_keys ?m)"
    using cat(2) repo by (auto simp: bt_values_def bt_keys_def bt_wf_distinct o_def case_prod_beta)
  show "e \<in> set (map last (bt_values ?m)) \<longleftrightarrow> (\<exists>repo run. latest_run env root st repo run e)"
    using cat(3,4) by (fastforce simp: set_bt_values ran_def)
qed


text \<open>A root with one repository, a committed run and a staging directory.\<close>

definition shelf_provenance :: json where
  "shelf_provenance = jobj [(''schema'', JStr REPOSITORY_ITERATION_SCHEMA), (''purpose'', JStr ''repository_intelligence_iteration''),
     (''runIdentity'', JStr ''dag-v1:00''), (''snapshotIdentity'', JStr (sha256_hex [])), (''repositoryKey'', JStr ''r''),
     (''publicationName'', JStr ''run''),
     (''producer'', jobj [(''component'', JStr ''code-intel.authoritative-run''), (''contract'', JStr ''repository-iteration-producer''),
        (''version'', JStr ''1'')])]"

definition shelf_ref :: json where
  "shelf_ref = jobj [(''schema'', JStr ''code-intel-artifact-ref.v1''), (''artifactSchema'', JStr REPOSITORY_ITERATION_SCHEMA),
     (''type'', JStr REPOSITORY_ITERATION_TYPE), (''path'', JStr ''objects/a''), (''sha256'', JStr (sha256_hex [3])),
     (''consumedSnapshotIdentity'', JStr (sha256_hex []))]"

definition shelf_manifest :: json where
  "shelf_manifest = jobj [(''schema'', JStr ''code-intel-run-manifest.v1''), (''runIdentity'', JStr ''dag-v1:00''),
     (''snapshotIdentity'', JStr (sha256_hex [])), (''outcome'', JStr ''completed''),
     (''nodes'', jobj [(''n'', jobj [(''status'', JStr ''succeeded''), (''verdict'', JStr ''pass''), (''artifacts'', JArr [shelf_ref])])])]"

definition shelf_marker :: json where
  "shelf_marker = marker_of shelf_manifest (demo_manifest_ref ''m'')"

definition shelf_lib :: json_lib where
  "shelf_lib = \<lparr>jl_from_utf8 = (\<lambda>b. Inr (if b = [1] then ''1'' else if b = [2] then ''2'' else ''3'')), jl_key = Inr,
     jl_from_str = (\<lambda>t. Inr (if t = ''1'' then shelf_marker else if t = ''2'' then shelf_manifest else shelf_provenance))\<rparr>"

definition shelf_artifacts :: "unit artifact_env" where
  "shelf_artifacts = \<lparr>ae_lib = shelf_lib,
     ae_read_beneath = (\<lambda>root cs limit st. Inr (
        if cs = [''run-complete.json''] then \<lparr>sr_bytes = [1], sr_id = (0, 1)\<rparr>
        else if cs = [''objects'', ''a''] then \<lparr>sr_bytes = [3], sr_id = (0, 3)\<rparr>
        else \<lparr>sr_bytes = [2], sr_id = (0, 2)\<rparr>)),
     ae_to_lowercase = (\<lambda>s. s), ae_validator = (\<lambda>_ _. Inl []), ae_command_observation = (\<lambda>_. Inl []),
     ae_capability_artifact = (\<lambda>_. Inl [])\<rparr>"

definition shelf_env :: "unit index_env" where
  "shelf_env = \<lparr>ix_artifacts = shelf_artifacts,
     ix_read_dir = (\<lambda>p st. Inr (map (\<lambda>n. Inr \<lparr>de_name = n, de_type = Inr (True, False)\<rparr>)
        (if p = ''/a'' then [''r''] else [''stage-2'', ''run'']))),
     ix_is_utf8 = (\<lambda>_. True), ix_is_dir = (\<lambda>_ _. True), ix_is_file = (\<lambda>_ _. True), ix_exists = (\<lambda>_ _. True),
     ix_metadata = (\<lambda>_ _. Inl []), ix_read = (\<lambda>_ _. Inl []), ix_write = (\<lambda>_ _. ret ()), ix_rename = (\<lambda>_ _. ret ()),
     ix_remove_file = (\<lambda>_. ret ()), ix_to_vec_pretty = (\<lambda>_. []), ix_process_id = ''1''\<rparr>"

lemma shelf_get:
  "jidx shelf_ref ''path'' = JStr ''objects/a''" "jidx shelf_ref ''sha256'' = JStr (sha256_hex [3])"
  "jidx shelf_ref ''artifactSchema'' = JStr REPOSITORY_ITERATION_SCHEMA" "jidx shelf_ref ''type'' = JStr REPOSITORY_ITERATION_TYPE"
  "jidx shelf_ref ''consumedSnapshotIdentity'' = JStr (sha256_hex [])"
  "jidx shelf_manifest ''runIdentity'' = JStr ''dag-v1:00''" "jidx shelf_manifest ''snapshotIdentity'' = JStr (sha256_hex [])"
  "jidx shelf_manifest ''outcome'' = JStr ''completed''"
  "jidx shelf_marker ''runIdentity'' = JStr ''dag-v1:00''" "jidx shelf_marker ''snapshotIdentity'' = JStr (sha256_hex [])"
  by (simp_all add: shelf_ref_def shelf_manifest_def shelf_marker_def marker_of_def jidx_jobj)

lemma shelf_scan: "reject_duplicate_json_keys_within f ''3'' n = Some (Inr ())" if "n > 0"
  using that by (simp add: reject_duplicate_json_keys_within_def scan_document_def scan_value.simps ws_def MAX_JSON_DEPTH_def
      scalar_end_def is_ascii_whitespace_def)

lemma shelf_shape: "validate_artifact_ref_shape shelf_ref = Inr ()"
  by (simp add: validate_artifact_ref_shape_def shelf_ref_def literal_object require_exact_keys_def literal_keys bt_get_of_list
      jidx_jobj nonempty_str_def digest_value_def sha256_hex_digest REPOSITORY_ITERATION_SCHEMA_def REPOSITORY_ITERATION_TYPE_def)

lemma shelf_manifest_ok: "commit_run_manifest shelf_manifest = Inr ()"
proof -
  have "is_run_identity ''dag-v1:00''" "commit_node_id ''n''" by code_simp+
  then show ?thesis
    by (simp add: commit_run_manifest_def shelf_manifest_def commit_exact_def manifest_fields_def literal_object literal_keys
        jidx_jobj jget_jobj manifest_header_ok_def manifest_outcomes_def text_is_def sha256_hex_digest bt_of_list_def
        bt_iter_def bt_keys_def commit_node_def succeeded_ok_def is_array_def) auto
qed

lemma shelf_refs: "manifest_refs shelf_manifest = [shelf_ref]"
  by (simp add: manifest_refs_def shelf_manifest_def jidx_jobj literal_object bt_of_list_def bt_values_def bt_iter_def bt_keys_def
      has_artifacts_def)

lemma shelf_provenance_ok: "validate_repository_iteration_provenance shelf_lib [3] = Inr ()"
proof -
  have names: "valid_authority_name ''r''" "valid_authority_name ''run''" "is_run_identity ''dag-v1:00''" by code_simp+
  have producer: "jidx shelf_provenance ''producer'' = jobj [(''component'', JStr ''code-intel.authoritative-run''),
      (''contract'', JStr ''repository-iteration-producer''), (''version'', JStr ''1'')]"
    by (simp add: shelf_provenance_def jidx_jobj)
  have valid: "repository_iteration_provenance_is_valid shelf_provenance"
    by (simp add: repository_iteration_provenance_is_valid_def producer jidx_jobj)
       (simp add: shelf_provenance_def jidx_jobj text_is_def names sha256_hex_digest)
  have "parse_contract_json shelf_lib [3] l = Inr shelf_provenance" for l
    by (simp add: parse_contract_json_def parse_payload_def shelf_lib_def shelf_scan MAX_JSON_BYTES_def)
  moreover have "exact_object_keys shelf_provenance [''schema'', ''purpose'', ''runIdentity'', ''snapshotIdentity'', ''repositoryKey'',
      ''publicationName'', ''producer''] l = Inr ()" for l
    by (simp add: exact_object_keys_def require_exact_keys_def shelf_provenance_def literal_object literal_keys insert_commute)
  moreover have "exact_object_keys (jidx shelf_provenance ''producer'') [''component'', ''contract'', ''version''] l = Inr ()" for l
    by (simp add: exact_object_keys_def require_exact_keys_def producer literal_object literal_keys insert_commute)
  ultimately show ?thesis
    by (simp add: validate_repository_iteration_provenance_def valid)
qed

lemma shelf_verified:
  "\<exists>v. verify_inputs shelf_artifacts (JArr [shelf_ref]) (Some root) (sha256_hex []) st = Inr [v] \<and> va_bytes v = [3]"
proof -
  have path: "portable_relative_path ''objects/a'' = Inr ''objects/a''" by code_simp
  have contract: "registered_contract shelf_artifacts shelf_ref = Inr (contract REPOSITORY_ITERATION_SCHEMA REPOSITORY_ITERATION_TYPE
      (64 * 1024) (validate_repository_iteration_provenance shelf_lib))"
    by (simp add: registered_contract_def get_str_jidx shelf_get find_contract_def repository_family_def contract_def or_else_def)
       (simp add: shelf_artifacts_def)
  show ?thesis
    using shelf_shape path contract shelf_provenance_ok
    by (simp add: verify_inputs_def preflight_step_def verify_step_def verify_artifact_ref_def get_str_jidx shelf_get
        validate_preflight_contract_def Let_def contract_def check_payload_def REPOSITORY_ITERATION_TYPE_def)
       (simp add: shelf_artifacts_def)
qed

lemma shelf_read: "read_manifest shelf_artifacts root (demo_manifest_ref ''m'') st = Inr shelf_manifest"
  using demo_shape(2) [of "''m''"] shelf_manifest_ok demo_scan
  by (simp add: read_manifest_def read_manifest_stable_def demo_get shelf_artifacts_def shelf_lib_def Let_def
      validate_run_manifest_bytes_def MAX_MANIFEST_BYTES_def from_slice_def)

lemma shelf_marker_ref: "marker_manifest_ref shelf_marker = demo_manifest_ref ''m''"
  by (simp add: marker_manifest_ref_def shelf_marker_def marker_of_def jidx_jobj shelf_get demo_manifest_ref_def)

lemma shelf_committed: "validate_committed_run shelf_artifacts root st = Inr (shelf_marker, shelf_manifest)"
proof -
  have ids: "is_run_identity ''dag-v1:00''" by code_simp
  have refs: "manifest_artifact_refs shelf_manifest = Inr [shelf_ref]"
    by (simp add: manifest_artifact_refs_Inr shelf_refs shelf_shape)
  have differ: "shelf_ref \<noteq> demo_manifest_ref ''m''"
  proof
    assume "shelf_ref = demo_manifest_ref ''m''"
    then have "jidx shelf_ref ''path'' = jidx (demo_manifest_ref ''m'') ''path''" by simp
    then show False by (simp add: shelf_get demo_get)
  qed
  obtain v where "verify_inputs shelf_artifacts (JArr [shelf_ref]) (Some root) (sha256_hex []) st = Inr [v]"
    using shelf_verified by blast
  then have pre: "prevalidate_existing shelf_artifacts root (demo_manifest_ref ''m'') st = Inr shelf_manifest"
    using shelf_read [of root st] refs differ shelf_shape demo_shape(2) [of "''m''"]
    by (auto simp: prevalidate_existing_def prevalidate_refs_def demo_get shelf_get Let_def ref_identity_def)
  have parsed: "parse_marker shelf_lib [1] = Inr shelf_marker"
    by (simp add: parse_marker_def shelf_lib_def demo_scan)
  have keys: "commit_exact (marker_of m r) [''schema'', ''runIdentity'', ''snapshotIdentity'', ''manifest''] l = Inr ()"
    "commit_exact (jidx (marker_of m r) ''manifest'') [''path'', ''sha256''] l = Inr ()" for m r l
    by (auto simp: marker_of_def commit_exact_def literal_object literal_keys jidx_jobj)
  have "validate_published_marker shelf_artifacts root st = Inr shelf_marker"
    using ids parsed keys [of shelf_manifest "demo_manifest_ref ''m''"] shelf_read [of root st, unfolded shelf_artifacts_def] shelf_marker_ref
    by (simp add: validate_published_marker_def shelf_artifacts_def shelf_marker_def)
       (simp add: marker_of_def jidx_jobj demo_get shelf_get text_is_def sha256_hex_digest)
  then show ?thesis
    using pre shelf_marker_ref by (simp add: validate_committed_run_def)
qed

lemma shelf_iteration: "is_repository_iteration shelf_artifacts root ''r'' ''run'' shelf_marker shelf_manifest st"
proof -
  have refs: "provenance_refs shelf_manifest = [(Some ''succeeded'', shelf_ref)]"
    by (simp add: provenance_refs_def node_values_def shelf_manifest_def jidx_jobj literal_object bt_of_list_def bt_values_def
        bt_iter_def bt_keys_def node_artifacts_def is_provenance_def shelf_get)
  have payload: "from_slice shelf_lib [3] = Inr shelf_provenance" by (simp add: from_slice_def shelf_lib_def)
  have "provenance_matches ''r'' ''run'' shelf_marker shelf_manifest shelf_ref shelf_provenance"
    by (simp add: provenance_matches_def shelf_get) (simp add: shelf_provenance_def jidx_jobj)
  moreover obtain v where "verify_inputs shelf_artifacts (JArr [shelf_ref]) (Some root) (sha256_hex []) st = Inr [v]" "va_bytes v = [3]"
    using shelf_verified by blast
  moreover have "ae_lib shelf_artifacts = shelf_lib" by (simp add: shelf_artifacts_def)
  ultimately show ?thesis
    by (simp add: is_repository_iteration_def refs shelf_get payload)
qed

lemma shelf_row: "run_row shelf_env ''/a'' () (''r'', ''run'') = Inr (index_entry ''r'' ''run'' shelf_marker shelf_manifest)"
proof -
  have "\<not> is_staging_name ''run''" by code_simp
  then show ?thesis
    using shelf_committed shelf_iteration by (simp add: run_row_def index_run_def shelf_env_def shelf_get)
qed

lemma shelf_children:
  "child_directories shelf_env ''/a'' () = Inr [''r'']" "child_directories shelf_env ''/a/r'' () = Inr [''run'', ''stage-2'']"
  by (simp_all add: child_directories_def shelf_env_def listed_directory_def)


end
