(* ===== verification/Index_Write.thy ===== *)
theory Index_Write
  imports Index_Props
begin

text \<open>
  Writing the artifact index: the old index is parked before the new one is renamed into its place, so
  whatever call fails, or whatever call is the last before the process dies, one of the two is complete.
\<close>

section \<open>The file system\<close>

text \<open>What the three names hold.  A rename moves a file at once or changes nothing; a write that fails may leave
  anything under the temporary name.  The laws are those of the three names of one index, as a path may
  have other spellings.\<close>

definition index_temp :: "'f index_env \<Rightarrow> string \<Rightarrow> string" where
  "index_temp env parent = path_push parent (''.artifact-index.tmp.'' @ ix_process_id env)"

definition index_fs :: "'f index_env \<Rightarrow> (string \<Rightarrow> 'f \<Rightarrow> u8 list option) \<Rightarrow> string \<Rightarrow> bool" where
  "index_fs env content p \<longleftrightarrow>
     (\<forall>parent. parent_text p = Some parent \<longrightarrow>
        (let temp = index_temp env parent; backup = p @ ''.bak'' in
         (\<forall>st. content p st \<noteq> None \<longrightarrow> ix_exists env p st) \<and>
         (\<forall>bytes st r st'. ix_write env temp bytes st = (r, st') \<longrightarrow>
            content p st' = content p st \<and> content backup st' = content backup st \<and>
            (r = Inr () \<longrightarrow> content temp st' = Some bytes)) \<and>
         (\<forall>st r st'. ix_rename env p backup st = (r, st') \<longrightarrow>
            content temp st' = content temp st \<and>
            (if r = Inr () then content backup st' = content p st \<and> content p st' = None
             else content p st' = content p st \<and> content backup st' = content backup st)) \<and>
         (\<forall>st r st'. ix_rename env temp p st = (r, st') \<longrightarrow>
            content backup st' = content backup st \<and>
            (if r = Inr () then content p st' = content temp st else content p st' = content p st)) \<and>
         (\<forall>st r st'. ix_remove_file env backup st = (r, st') \<longrightarrow> content p st' = content p st)))"

definition index_kept :: "(string \<Rightarrow> 'f \<Rightarrow> u8 list option) \<Rightarrow> string \<Rightarrow> 'f \<Rightarrow> 'f \<Rightarrow> bool" where
  "index_kept content p st st' \<longleftrightarrow>
     content p st' = content p st \<or> content p st' = None \<and> content (p @ ''.bak'') st' = content p st"

lemma write_index_cases:
  assumes fs: "index_fs env content p" and run: "write_index env p value st = (r, st')"
  shows "r = Inr () \<and> content p st' = Some (ix_to_vec_pretty env value) \<or>
    (\<exists>m. r = Inl (IxContract m) \<and> st' = st) \<or> (\<exists>m. r = Inl (IxHostIo m) \<and> index_kept content p st st')"
proof -
  consider (none) m where "r = Inl (IxContract m)" "st' = st"
    | (some) parent where "parent_text p = Some parent" "ix_is_dir env parent st"
    using run by (auto simp: write_index_def bind_act_def look_at_def split: option.splits if_splits)
  then show ?thesis
  proof cases
    case none
    then show ?thesis by blast
  next
    case some
    let ?temp = "index_temp env parent"
    note laws = fs [unfolded index_fs_def, rule_format, OF some(1), unfolded Let_def]
    obtain r1 st1 where w: "ix_write env ?temp (ix_to_vec_pretty env value) st = (r1, st1)"
      by (cases "ix_write env ?temp (ix_to_vec_pretty env value) st")
    then have w': "content p st1 = content p st" "r1 = Inr () \<Longrightarrow> content ?temp st1 = Some (ix_to_vec_pretty env value)"
      using laws by blast+
    obtain r2 st2 where park: "(if ix_exists env p st1 then ix_rename env p (p @ ''.bak'') st1 else (Inr (), st1)) = (r2, st2)"
      by fastforce
    have park': "content ?temp st2 = content ?temp st1" "r2 \<noteq> Inr () \<Longrightarrow> content p st2 = content p st1"
      "r2 = Inr () \<Longrightarrow> content p st2 = None \<and> (ix_exists env p st1 \<longrightarrow> content (p @ ''.bak'') st2 = content p st1) \<and>
         (\<not> ix_exists env p st1 \<longrightarrow> content p st1 = None)"
      using park laws by (auto split: if_splits)
    obtain r3 st3 where pub: "ix_rename env ?temp p st2 = (r3, st3)" by fastforce
    then have pub': "content (p @ ''.bak'') st3 = content (p @ ''.bak'') st2"
      "r3 = Inr () \<Longrightarrow> content p st3 = content ?temp st2" "r3 \<noteq> Inr () \<Longrightarrow> content p st3 = content p st2"
      using laws by (auto split: if_splits)
    obtain r4 st4 where rm: "ix_remove_file env (p @ ''.bak'') st3 = (r4, st4)" by fastforce
    then have rm': "content p st4 = content p st3" using laws by blast
    have result: "(r, st') = (case r1 of Inl e \<Rightarrow> (Inl (IxHostIo (''write artifact index temp: '' @ e)), st1)
        | Inr _ \<Rightarrow> (case r2 of Inl e \<Rightarrow> (Inl (IxHostIo (''replace artifact index: '' @ e)), st2)
        | Inr _ \<Rightarrow> (case r3 of Inl e \<Rightarrow> (Inl (IxHostIo (''publish artifact index: '' @ e)), st3)
        | Inr _ \<Rightarrow> (Inr (), if ix_exists env p st1 then st4 else st3))))"
      using run w park pub rm unfolding write_index_def index_temp_def
      by (auto simp: bind_act_def look_at_def some Let_def map_err_act_def map_err_def attempt_def ret_def
          split: sum.splits if_splits)
    have unit: "x = Inr ()" if "x = Inr y" for x :: "string + unit" and y using that by simp
    show ?thesis
    proof (cases r1)
      case (Inl e)
      then show ?thesis using result w' by (auto simp: index_kept_def)
    next
      case r1: (Inr u)
      show ?thesis
      proof (cases r2)
        case (Inl e)
        then show ?thesis using result r1 w' park' by (auto simp: index_kept_def)
      next
        case r2: (Inr u')
        then have gone: "content p st2 = None" using park'(3) unit by blast
        show ?thesis
        proof (cases r3)
          case (Inl e)
          then have "content p st3 = None" "content (p @ ''.bak'') st3 = content p st \<or> content p st = None"
            using pub' park'(3) [OF unit [OF r2]] w'(1) gone by auto
          then show ?thesis using result r1 r2 Inl by (auto simp: index_kept_def)
        next
          case (Inr u'')
          then have "content p st3 = Some (ix_to_vec_pretty env value)"
            using pub'(2) park'(1) w'(2) unit r1 by metis
          then show ?thesis using result r1 r2 Inr rm' by auto
        qed
      qed
    qed
  qed
qed

section \<open>Properties\<close>

text \<open>C27: writing the index succeeds with the new index under its name, or fails and the old index is complete,
  under its name or, if it was parked, under the name with the suffix \<open>.bak\<close>; a refusal changes nothing.  As no
  call follows a failure, the same holds after a crash between any two calls.\<close>

theorem index_or_backup_survives:
  assumes "index_fs env content p" and "write_index env p value st = (r, st')"
  shows "(case r of
      Inr _ \<Rightarrow> content p st' = Some (ix_to_vec_pretty env value)
    | Inl (IxContract _) \<Rightarrow> st' = st
    | Inl (IxHostIo _) \<Rightarrow> content p st' = content p st \<or>
        content p st' = None \<and> content (p @ ''.bak'') st' = content p st)"
  using write_index_cases [OF assms] unfolding index_kept_def by auto

text \<open>A store of files whose last rename fails once the disk is full.\<close>

definition full_disk :: "(string \<Rightarrow> u8 list option) index_env" where
  "full_disk = \<lparr>ix_artifacts = \<lparr>ae_lib = shelf_lib, ae_read_beneath = (\<lambda>_ _ _ _. Inl (SHostIo [])), ae_to_lowercase = (\<lambda>s. s),
       ae_validator = (\<lambda>_ _. Inl []), ae_command_observation = (\<lambda>_. Inl []), ae_capability_artifact = (\<lambda>_. Inl [])\<rparr>,
     ix_read_dir = (\<lambda>_ _. Inl []), ix_is_utf8 = (\<lambda>_. True), ix_is_dir = (\<lambda>p _. p = ''/a''), ix_is_file = (\<lambda>p st. st p \<noteq> None),
     ix_exists = (\<lambda>p st. st p \<noteq> None), ix_metadata = (\<lambda>_ _. Inl []), ix_read = (\<lambda>_ _. Inl []),
     ix_write = (\<lambda>p bytes st. (Inr (), st(p \<mapsto> bytes))),
     ix_rename = (\<lambda>a b st. case st a of None \<Rightarrow> (Inl ''not found'', st)
        | Some bytes \<Rightarrow> if b = ''/a/i'' \<and> st ''full'' \<noteq> None then (Inl ''no space'', st) else (Inr (), st(b \<mapsto> bytes, a := None))),
     ix_remove_file = (\<lambda>p st. (Inr (), st(p := None))), ix_to_vec_pretty = (\<lambda>_. [2]), ix_process_id = ''1''\<rparr>"

lemma full_disk_fs: "index_fs full_disk (\<lambda>p st. st p) ''/a/i''"
proof -
  have names: "parent_text ''/a/i'' = Some ''/a''" "index_temp full_disk ''/a'' = ''/a/.artifact-index.tmp.1''"
    by (code_simp, simp add: index_temp_def full_disk_def path_push_def)
  show ?thesis
    unfolding index_fs_def
    by (simp add: names) (auto simp: full_disk_def split: option.splits if_splits)
qed

lemma index_or_backup_survives_witness:
  "\<exists>st'. write_index full_disk ''/a/i'' JNull [''/a/i'' \<mapsto> [1], ''full'' \<mapsto> []] = (Inl (IxHostIo ''publish artifact index: no space''), st') \<and>
     st' ''/a/i'' = None \<and> st' ''/a/i.bak'' = Some [1]"
proof -
  have parent: "parent_text ''/a/i'' = Some ''/a''" by code_simp
  obtain st' where run: "write_index full_disk ''/a/i'' JNull [''/a/i'' \<mapsto> [1], ''full'' \<mapsto> []]
      = (Inl (IxHostIo ''publish artifact index: no space''), st')" and gone: "st' ''/a/i'' = None"
    by (simp add: write_index_def bind_act_def look_at_def parent Let_def map_err_act_def path_push_def
        map_err_def ret_def full_disk_def)
  then show ?thesis
    using index_or_backup_survives [OF full_disk_fs run] by simp
qed

text \<open>An output path without a directory is refused: its parent is the empty path, which names nothing.\<close>

lemma bare_output_refused:
  assumes "CHR ''/'' \<notin> set p" "p \<notin> {[], ''.'', ''..''}" "\<not> ix_is_dir env [] st"
  shows "write_index env p value st = (Inl (IxContract ''index output parent must exist''), st)"
proof -
  have "parent_text p = Some []"
    using assms components_plain [of p] by (auto simp: parent_text_def path_parent_def)
  then show ?thesis using assms(3) by (simp add: write_index_def bind_act_def look_at_def)
qed

section \<open>An index that its reader refuses\<close>

text \<open>A root with one directory whose name holds a colon.\<close>

definition colon_env :: "unit index_env" where
  "colon_env = shelf_env\<lparr>ix_artifacts := shelf_artifacts\<lparr>ae_read_beneath := (\<lambda>_ _ _ _. Inl (SHostIo []))\<rparr>,
     ix_read_dir := (\<lambda>p st. Inr (map (\<lambda>n. Inr \<lparr>de_name = n, de_type = Inr (True, False)\<rparr>)
        (if p = ''/a'' then [''r''] else [''10:15''])))\<rparr>"

definition colon_index :: json where
  "colon_index = jobj [(''schema'', JStr INDEX_SCHEMA), (''entries'', JArr []),
     (''diagnostics'', JArr [diagnostic_row ''r'' ''10:15'' ''forged'' ''completion marker or its manifest/Artifact Refs failed validation''])]"

lemma colon_rebuild: "rebuild colon_env ''/a'' () = Inr colon_index"
proof -
  have push: "path_push ''/a'' ''r'' = ''/a/r''" "\<not> is_staging_name ''10:15''" by code_simp+
  have "validate_committed_run (ix_artifacts colon_env) root () = Inl (CHostIo [])" for root
    by (simp add: colon_env_def validate_committed_run_def validate_published_marker_def)
  then have run: "index_run colon_env d ''r'' ''10:15'' () = Inl (diagnostic_row ''r'' ''10:15'' ''forged''
      ''completion marker or its manifest/Artifact Refs failed validation'')" for d
    using push(2) by (simp add: index_run_def refused_run_def) (simp add: colon_env_def shelf_env_def)
  have children: "child_directories colon_env ''/a'' () = Inr [''r'']" "child_directories colon_env ''/a/r'' () = Inr [''10:15'']"
    by (simp_all add: child_directories_def colon_env_def listed_directory_def)
  have "index_file_name colon_env n = Inr n" if "n \<noteq> []" for n using that by (simp add: index_file_name_def colon_env_def shelf_env_def)
  then show ?thesis
    by (simp add: rebuild_def build_catalog_def children catalog_repo_def push catalog_add_def run to_index_def colon_index_def
        bt_values_def bt_iter_def bt_keys_def)
qed

text \<open>C31: an index that was just rebuilt may be refused as the existing index of an incremental refresh: rebuilding
  reports a directory under any name, the reader admits portable names only.\<close>

theorem own_index_refused:
  "rebuild colon_env ''/a'' () = Inr colon_index \<and>
   incremental colon_env ''/a'' colon_index () = Inl (IxContract ''diagnostic run is not a portable directory name'')"
proof -
  have keys: "length (bt_of_list [(''schema'', a), (''entries'', b), (''diagnostics'', c)]) = 3" for a b c :: json
    by (simp add: bt_of_list_def)
  have "index_portable_name (JStr ''r'') ''diagnostic repo'' = Inr ''r''"
    "index_portable_name (JStr ''10:15'') ''diagnostic run'' = Inl (IxContract ''diagnostic run is not a portable directory name'')"
    by code_simp+
  then have "validate_index_diagnostic (diagnostic_row ''r'' ''10:15'' c d) =
      Inl (IxContract ''diagnostic run is not a portable directory name'')" for c d
    by (simp add: validate_index_diagnostic_def index_exact_keys_def commit_exact_def diagnostic_row_def literal_object literal_keys
        jidx_jobj)
  then show ?thesis
    using colon_rebuild
    by (simp add: incremental_def validate_index_def colon_index_def literal_object keys jidx_jobj is_array_def)
qed

end
