(* ===== verification/Review_Units.thy ===== *)
theory Review_Units
  imports Json_Value "HOL-Library.Product_Lexorder" "HOL-Library.Option_ord"
begin

text \<open>
  Review units of a change (crates/code-intel-cli/src/change\_agenda/): the files that history commits
  together are joined by weighted edges (cochange.rs), and the changed files fall into the classes
  of a union-find over these edges (cluster.rs).  \<open>None\<close> is an index out of bounds or a walk that does not
  end.  A time is an \<open>int\<close>: the code only compares it.
\<close>

definition COCHANGE_COMMIT_FANOUT_CAP :: nat where "COCHANGE_COMMIT_FANOUT_CAP = 50"

definition EDGE_EVIDENCE_LIMIT :: nat where "EDGE_EVIDENCE_LIMIT = 3"

section \<open>Edges\<close>

record log_commit =
  lc_hash :: string
  lc_timestamp :: int
  lc_subject :: string
  lc_paths :: "string list"

record cochange_edge =
  ce_left :: string
  ce_right :: string
  ce_co_commits :: nat
  ce_commits :: "string list"
  ce_commits_truncated :: bool

record cochange_observed =
  co_commits_walked :: nat
  co_pairs_observed :: nat
  co_edges_kept :: nat
  co_wide_commits_skipped :: nat

type_synonym pair_hits = "(string \<times> string, (int \<times> string) list) btree"

definition add_hit :: "log_commit \<Rightarrow> string \<times> string \<Rightarrow> pair_hits \<Rightarrow> pair_hits" where
  "add_hit commit pair pairs =
     bt_insert pair ((case bt_get pairs pair of Some hits \<Rightarrow> hits | None \<Rightarrow> []) @ [(lc_timestamp commit, lc_hash commit)]) pairs"

text \<open>The pairs of the two nested loops: every path with those after it.\<close>

fun path_pairs :: "string list \<Rightarrow> (string \<times> string) list" where
  "path_pairs [] = []"
| "path_pairs (left # rest) = map (Pair left) rest @ path_pairs rest"

definition count_commit :: "log_commit \<Rightarrow> pair_hits \<times> nat \<Rightarrow> pair_hits \<times> nat" where
  "count_commit commit acc =
     (case acc of (pairs, wide) \<Rightarrow>
        if length (lc_paths commit) > COCHANGE_COMMIT_FANOUT_CAP then (pairs, wide + 1)
        else (fold (add_hit commit) (path_pairs (lc_paths commit)) pairs, wide))"

definition edge_of_pair :: "nat \<Rightarrow> (string \<times> string) \<times> (int \<times> string) list \<Rightarrow> cochange_edge option" where
  "edge_of_pair min_commits en =
     (case en of ((left, right), hits) \<Rightarrow>
        if length hits < min_commits then None
        else let sorted = sort_key (\<lambda>(timestamp, hash). (- timestamp, hash)) hits in
          Some \<lparr>ce_left = left, ce_right = right, ce_co_commits = length hits,
            ce_commits = map snd (take EDGE_EVIDENCE_LIMIT sorted), ce_commits_truncated = length hits > EDGE_EVIDENCE_LIMIT\<rparr>)"

definition build_edges :: "log_commit list \<Rightarrow> nat \<Rightarrow> cochange_edge list \<times> cochange_observed" where
  "build_edges commits min_commits =
     (case fold count_commit commits ([], 0) of (pairs, wide) \<Rightarrow>
        let edges = sort_key (\<lambda>e. (- int (ce_co_commits e), ce_left e, ce_right e)) (List.map_filter (edge_of_pair min_commits) (bt_iter pairs))
        in (edges, \<lparr>co_commits_walked = length commits, co_pairs_observed = length pairs, co_edges_kept = length edges,
              co_wide_commits_skipped = wide\<rparr>))"

section \<open>Union-find\<close>

text \<open>The walk to the root with path halving.\<close>

partial_function (option) find_root :: "nat list \<Rightarrow> nat \<Rightarrow> (nat list \<times> nat) option" where
  "find_root parent node =
     (if node \<ge> length parent then None
      else if parent ! node = node then Some (parent, node)
      else if parent ! node \<ge> length parent then None
      else let parent' = parent[node := parent ! (parent ! node)] in find_root parent' (parent' ! node))"

declare find_root.simps [code]

definition union_nodes :: "nat list \<Rightarrow> nat \<Rightarrow> nat \<Rightarrow> nat list option" where
  "union_nodes parent left right =
     (case find_root parent left of None \<Rightarrow> None | Some (parent, left) \<Rightarrow>
     (case find_root parent right of None \<Rightarrow> None | Some (parent, right) \<Rightarrow>
        if left = right then Some parent
        else let (root, child) = (if left < right then (left, right) else (right, left)) in
          Some (parent[child := root])))"

definition path_index :: "string list \<Rightarrow> (string, nat) btree" where
  "path_index paths = bt_of_list (zip paths [0..<length paths])"

fun join_edges :: "(string, nat) btree \<Rightarrow> cochange_edge list \<Rightarrow> nat list \<Rightarrow> nat list option" where
  "join_edges index [] parent = Some parent"
| "join_edges index (edge # edges) parent =
     (case (bt_get index (ce_left edge), bt_get index (ce_right edge)) of
        (Some left, Some right) \<Rightarrow>
          (case union_nodes parent left right of None \<Rightarrow> None | Some parent' \<Rightarrow> join_edges index edges parent')
      | _ \<Rightarrow> join_edges index edges parent)"

fun collect_groups :: "nat list \<Rightarrow> (nat \<times> string) list \<Rightarrow> (nat, string list) btree \<Rightarrow> (nat, string list) btree option" where
  "collect_groups parent [] groups = Some groups"
| "collect_groups parent ((position, p) # rest) groups =
     (case find_root parent position of None \<Rightarrow> None | Some (parent', root) \<Rightarrow>
        collect_groups parent' rest
          (bt_insert root ((case bt_get groups root of Some members \<Rightarrow> members | None \<Rightarrow> []) @ [p]) groups))"

definition group_first :: "string list \<Rightarrow> string option" where
  "group_first g = (case g of [] \<Rightarrow> None | p # _ \<Rightarrow> Some p)"

definition group_paths :: "string list \<Rightarrow> cochange_edge list \<Rightarrow> string list list option" where
  "group_paths paths edges =
     (case join_edges (path_index paths) edges [0..<length paths] of None \<Rightarrow> None | Some parent \<Rightarrow>
     (case collect_groups parent (zip [0..<length paths] paths) [] of None \<Rightarrow> None | Some groups \<Rightarrow>
        Some (sort_key group_first (map sort (bt_values groups)))))"

end
