(* ===== verification/Review_Props.thy ===== *)
theory Review_Props
  imports Review_Units
begin

text \<open>
  The review units are the connected components of the co-change edges among the changed files, ordered by their first
  members, whatever the order of the edges: the union-find with path halving computes them and always returns.
\<close>

section \<open>The forest\<close>

text \<open>Links point to smaller nodes or to the node itself; \<open>rep\<close> is the root that a walk reaches.\<close>

definition forest :: "nat list \<Rightarrow> bool" where
  "forest parent \<longleftrightarrow> (\<forall>i < length parent. parent ! i \<le> i)"

function rep :: "nat list \<Rightarrow> nat \<Rightarrow> nat" where
  "rep parent i = (if i < length parent \<and> parent ! i < i then rep parent (parent ! i) else i)"
  by pat_completeness auto

termination by (relation "measure snd") auto

declare rep.simps [simp del]

lemma rep_root: "parent ! i = i \<Longrightarrow> rep parent i = i"
  by (subst rep.simps) simp

lemma rep_step: "forest parent \<Longrightarrow> i < length parent \<Longrightarrow> rep parent (parent ! i) = rep parent i"
  by (subst (2) rep.simps) (auto simp: forest_def rep_root)

lemma rep_le: "rep parent i \<le> i"
  by (induction parent i rule: rep.induct) (subst rep.simps, auto)

lemma rep_is_root: "forest parent \<Longrightarrow> i < length parent \<Longrightarrow> parent ! rep parent i = rep parent i"
proof (induction parent i rule: rep.induct)
  case (1 parent i)
  show ?case
  proof (cases "parent ! i < i")
    case True
    then show ?thesis using 1 by (metis less_trans rep_step)
  next
    case False
    then have "parent ! i = i" using 1(2,3) by (force simp: forest_def)
    then show ?thesis by (simp add: rep_root)
  qed
qed

lemma rep_idem: "forest parent \<Longrightarrow> i < length parent \<Longrightarrow> rep parent (rep parent i) = rep parent i"
  using rep_is_root rep_root by blast

lemma halve:
  assumes "forest parent" "i < length parent"
  defines "parent' \<equiv> parent[i := parent ! (parent ! i)]"
  shows "forest parent'" "rep parent' j = rep parent j"
proof -
  have le: "parent ! i \<le> i" "parent ! (parent ! i) \<le> parent ! i"
    using assms(1,2) unfolding forest_def by (metis le_less_trans order_refl)+
  then show f: "forest parent'"
    using assms(1,2) by (auto simp: forest_def parent'_def nth_list_update intro: order_trans)
  show "rep parent' j = rep parent j"
  proof (induction j rule: less_induct)
    case (less j)
    show ?case
    proof (cases "j < length parent \<and> parent' ! j < j")
      case True
      then have "rep parent' j = rep parent (parent' ! j)"
        using less by (subst rep.simps) (simp add: parent'_def)
      also have "\<dots> = rep parent j"
      proof (cases "j = i")
        case True
        have "rep parent (parent ! (parent ! i)) = rep parent (parent ! i)"
          using rep_step [OF assms(1)] le assms(2) by (meson le_less_trans)
        then show ?thesis using True assms(2) rep_step [OF assms(1,2)] by (simp add: parent'_def)
      next
        case False
        then show ?thesis using \<open>j < length parent \<and> parent' ! j < j\<close> rep_step [OF assms(1), of j] by (simp add: parent'_def)
      qed
      finally show ?thesis .
    next
      case False
      have eq: "rep parent' j = j" using False by (subst rep.simps) (auto simp: parent'_def)
      have "\<not> (j < length parent \<and> parent ! j < j)"
        using False le assms(2) by (cases "j = i") (auto simp: parent'_def)
      then have "rep parent j = j" by (subst rep.simps) auto
      then show ?thesis using eq by simp
    qed
  qed
qed

lemma find_root_Some:
  assumes "forest parent" "i < length parent"
  shows "\<exists>parent'. find_root parent i = Some (parent', rep parent i) \<and> forest parent' \<and> length parent' = length parent \<and>
    rep parent' = rep parent"
  using assms
proof (induction i arbitrary: parent rule: less_induct)
  case (less i)
  show ?case
  proof (cases "parent ! i = i")
    case True
    then show ?thesis using less.prems by (subst find_root.simps) (simp add: rep_root)
  next
    case False
    let ?parent = "parent[i := parent ! (parent ! i)]"
    have lt: "parent ! i < i" using False less.prems unfolding forest_def by (metis le_neq_implies_less)
    then have next': "parent ! (parent ! i) < i" "?parent ! i = parent ! (parent ! i)"
      using less.prems unfolding forest_def by (metis le_less_trans less_trans, simp)
    note halved = halve [OF less.prems]
    obtain parent' where "find_root ?parent (?parent ! i) = Some (parent', rep ?parent (?parent ! i))" "forest parent'"
      "length parent' = length ?parent" "rep parent' = rep ?parent"
      using less.IH [OF next'(1) halved(1)] next' less.prems by auto
    moreover have "rep ?parent (?parent ! i) = rep parent i"
      using rep_step [OF halved(1), of i] halved(2) less.prems by simp
    ultimately show ?thesis
      using False lt less.prems halved(2) by (subst find_root.simps) (auto simp: Let_def)
  qed
qed

lemma link_roots:
  assumes "forest parent" "c < length parent" "r < c" "parent ! c = c" "parent ! r = r"
  shows "forest (parent[c := r])" "rep (parent[c := r]) j = (if rep parent j = c then r else rep parent j)"
proof -
  show "forest (parent[c := r])" using assms(1,2,3) by (auto simp: forest_def nth_list_update)
  have r: "rep (parent[c := r]) r = r" using assms(3,5) by (simp add: rep_root)
  show "rep (parent[c := r]) j = (if rep parent j = c then r else rep parent j)"
  proof (induction j rule: less_induct)
    case (less j)
    consider "j = c" | "j \<noteq> c" "j < length parent" "parent ! j < j" | "j \<noteq> c" "\<not> (j < length parent \<and> parent ! j < j)"
      by blast
    then show ?case
    proof cases
      case 1
      have "rep (parent[c := r]) c = r" using assms(2,3) r by (subst rep.simps) simp
      then show ?thesis using 1 rep_root [OF assms(4)] by simp
    next
      case 2
      have "rep (parent[c := r]) j = rep (parent[c := r]) (parent ! j)"
        using 2 by (subst rep.simps) simp
      then show ?thesis using less [OF 2(3)] rep_step [OF assms(1) 2(2)] by simp
    next
      case 3
      have "rep (parent[c := r]) j = j" using 3 by (subst rep.simps) auto
      moreover have "rep parent j = j" using 3(2) by (subst rep.simps) auto
      ultimately show ?thesis using 3(1) by simp
    qed
  qed
qed

lemma union_nodes_Some:
  assumes "forest parent" "a < length parent" "b < length parent"
  shows "\<exists>parent'. union_nodes parent a b = Some parent' \<and> forest parent' \<and> length parent' = length parent \<and>
    rep parent' a = rep parent' b \<and> (\<forall>i j. rep parent i = rep parent j \<longrightarrow> rep parent' i = rep parent' j) \<and>
    (\<forall>i j. rep parent' i = rep parent' j \<longrightarrow> rep parent i = rep parent j \<or>
       rep parent i = rep parent a \<and> rep parent j = rep parent b \<or> rep parent i = rep parent b \<and> rep parent j = rep parent a)"
proof -
  obtain p1 where p1: "find_root parent a = Some (p1, rep parent a)" "forest p1" "length p1 = length parent" "rep p1 = rep parent"
    using find_root_Some [OF assms(1,2)] by blast
  obtain p2 where p2: "find_root p1 b = Some (p2, rep parent b)" "forest p2" "length p2 = length parent" "rep p2 = rep parent"
    using find_root_Some [OF p1(2), of b] p1 assms(3) by auto
  let ?l = "min (rep parent a) (rep parent b)" and ?h = "max (rep parent a) (rep parent b)"
  show ?thesis
  proof (cases "rep parent a = rep parent b")
    case True
    then show ?thesis using p1 p2 by (intro exI [of _ p2]) (auto simp: union_nodes_def)
  next
    case False
    have roots: "p2 ! ?l = ?l" "p2 ! ?h = ?h" "?h < length p2" "?l < ?h"
      using rep_is_root [OF p2(2)] p2(3,4) assms(2,3) rep_le [of parent a] rep_le [of parent b] False
      by (auto simp: min_def max_def)
    note linked = link_roots [OF p2(2) roots(3,4,2,1)]
    have "union_nodes parent a b = Some (p2[?h := ?l])"
      using p1 p2 False by (auto simp: union_nodes_def min_def max_def)
    moreover have "rep (p2[?h := ?l]) j = (if rep parent j = ?h then ?l else rep parent j)" for j
      using linked(2) p2(4) by simp
    ultimately show ?thesis
      using linked(1) p2(3) False by (intro exI [of _ "p2[?h := ?l]"]) (auto simp: min_def max_def split: if_splits)
  qed
qed

section \<open>Linked paths\<close>

text \<open>Two changed files are linked when a chain of edges between changed files joins them.\<close>

definition edge_links :: "string list \<Rightarrow> cochange_edge list \<Rightarrow> (string \<times> string) set" where
  "edge_links paths edges = {(ce_left e, ce_right e) | e. e \<in> set edges} \<inter> set paths \<times> set paths"

definition linked :: "string list \<Rightarrow> cochange_edge list \<Rightarrow> string \<Rightarrow> string \<Rightarrow> bool" where
  "linked paths edges p q \<longleftrightarrow> (p, q) \<in> (edge_links paths edges \<union> (edge_links paths edges)\<inverse>)\<^sup>*"

lemma linked_refl [simp]: "linked paths edges p p"
  by (simp add: linked_def)

lemma linked_sym: "linked paths edges p q \<Longrightarrow> linked paths edges q p"
  unfolding linked_def by (metis converse_Un converse_converse rtrancl_converseD sup_commute)

lemma linked_trans: "linked paths edges p q \<Longrightarrow> linked paths edges q r \<Longrightarrow> linked paths edges p r"
  unfolding linked_def by (rule rtrancl_trans)

lemma path_index_Some:
  assumes "distinct paths"
  shows "bt_get (path_index paths) p = Some i \<longleftrightarrow> i < length paths \<and> paths ! i = p"
proof -
  have "distinct (map fst (zip paths [0..<length paths]))" using assms by simp
  then have "bt_get (path_index paths) = map_of (zip paths [0..<length paths])"
    unfolding path_index_def by (rule bt_get_of_list)
  moreover have "map_of (zip paths [0..<length paths]) p = Some i \<longleftrightarrow> (p, i) \<in> set (zip paths [0..<length paths])"
    using assms by (intro map_of_eq_Some_iff) simp
  ultimately show ?thesis by (auto simp: set_zip)
qed

text \<open>What the forest says after some edges: equal roots are linked, and the edges seen so far have equal roots.\<close>

definition forest_of :: "string list \<Rightarrow> cochange_edge list \<Rightarrow> nat list \<Rightarrow> bool" where
  "forest_of paths edges parent \<longleftrightarrow> forest parent \<and> length parent = length paths \<and>
     (\<forall>i < length paths. \<forall>j < length paths. rep parent i = rep parent j \<longrightarrow> linked paths edges (paths ! i) (paths ! j))"

lemma join_edges_Some:
  assumes "distinct paths" "forest_of paths all parent" "set edges \<subseteq> set all"
  shows "\<exists>parent'. join_edges (path_index paths) edges parent = Some parent' \<and> forest_of paths all parent' \<and>
     (\<forall>i j. rep parent i = rep parent j \<longrightarrow> rep parent' i = rep parent' j) \<and>
     (\<forall>e \<in> set edges. \<forall>i < length paths. \<forall>j < length paths. paths ! i = ce_left e \<and> paths ! j = ce_right e \<longrightarrow>
        rep parent' i = rep parent' j)"
  using assms(2,3)
proof (induction edges arbitrary: parent)
  case (Cons e edges)
  note index = path_index_Some [OF assms(1)]
  show ?case
  proof (cases "\<exists>a b. bt_get (path_index paths) (ce_left e) = Some a \<and> bt_get (path_index paths) (ce_right e) = Some b")
    case False
    then have skip: "join_edges (path_index paths) (e # edges) parent = join_edges (path_index paths) edges parent"
      by (auto split: option.splits)
    have outside: "\<not> (i < length paths \<and> j < length paths \<and> paths ! i = ce_left e \<and> paths ! j = ce_right e)" for i j
      using False index by blast
    have sub: "set edges \<subseteq> set all" using Cons.prems(2) by simp
    obtain p2 where p2: "join_edges (path_index paths) edges parent = Some p2" "forest_of paths all p2"
      "\<forall>i j. rep parent i = rep parent j \<longrightarrow> rep p2 i = rep p2 j"
      "\<forall>e \<in> set edges. \<forall>i < length paths. \<forall>j < length paths. paths ! i = ce_left e \<and> paths ! j = ce_right e \<longrightarrow> rep p2 i = rep p2 j"
      using Cons.IH [OF Cons.prems(1) sub] by blast
    then have "\<forall>f \<in> set (e # edges). \<forall>i < length paths. \<forall>j < length paths. paths ! i = ce_left f \<and> paths ! j = ce_right f \<longrightarrow>
        rep p2 i = rep p2 j"
      using outside by (metis set_ConsD)
    then show ?thesis unfolding skip using p2(1-3) by blast
  next
    case True
    then obtain a b where ab: "bt_get (path_index paths) (ce_left e) = Some a" "bt_get (path_index paths) (ce_right e) = Some b"
      by blast
    then have pos: "a < length paths" "paths ! a = ce_left e" "b < length paths" "paths ! b = ce_right e"
      using index by blast+
    have sub: "set edges \<subseteq> set all" using Cons.prems(2) by simp
    have old: "forest parent" "length parent = length paths" using Cons.prems(1) unfolding forest_of_def by blast+
    obtain p1 where p1: "union_nodes parent a b = Some p1" "forest p1" "length p1 = length paths" "rep p1 a = rep p1 b"
      "\<forall>i j. rep parent i = rep parent j \<longrightarrow> rep p1 i = rep p1 j"
      "\<forall>i j. rep p1 i = rep p1 j \<longrightarrow> rep parent i = rep parent j \<or>
         rep parent i = rep parent a \<and> rep parent j = rep parent b \<or> rep parent i = rep parent b \<and> rep parent j = rep parent a"
      using union_nodes_Some [OF old(1), of a b] pos(1,3) unfolding old(2) by blast
    have "(ce_left e, ce_right e) \<in> edge_links paths all"
      using Cons.prems(2) pos unfolding edge_links_def by (auto simp: in_set_conv_nth)
    then have ab': "linked paths all (paths ! a) (paths ! b)" unfolding linked_def pos by blast
    have "forest_of paths all p1"
      unfolding forest_of_def
    proof (intro conjI allI impI)
      fix i j assume "i < length paths" "j < length paths" "rep p1 i = rep p1 j"
      then show "linked paths all (paths ! i) (paths ! j)"
        using p1(6) Cons.prems(1) pos(1,3) ab' linked_sym [OF ab'] linked_trans unfolding forest_of_def by metis
    qed (rule p1(2,3))+
    then obtain p2 where p2: "join_edges (path_index paths) edges p1 = Some p2" "forest_of paths all p2"
      "\<forall>i j. rep p1 i = rep p1 j \<longrightarrow> rep p2 i = rep p2 j"
      "\<forall>e \<in> set edges. \<forall>i < length paths. \<forall>j < length paths. paths ! i = ce_left e \<and> paths ! j = ce_right e \<longrightarrow> rep p2 i = rep p2 j"
      using Cons.IH [OF _ sub] by blast
    have "rep p2 i = rep p2 j" if "i < length paths" "j < length paths" "paths ! i = ce_left e" "paths ! j = ce_right e" for i j
    proof -
      have "i = a" "j = b" using that pos assms(1) by (metis nth_eq_iff_index_eq)+
      then show ?thesis using p1(4) p2(3) by blast
    qed
    then have "\<forall>f \<in> set (e # edges). \<forall>i < length paths. \<forall>j < length paths. paths ! i = ce_left f \<and> paths ! j = ce_right f \<longrightarrow>
        rep p2 i = rep p2 j"
      using p2(4) by (metis set_ConsD)
    moreover have "\<forall>i j. rep parent i = rep parent j \<longrightarrow> rep p2 i = rep p2 j" using p1(5) p2(3) by blast
    moreover have "join_edges (path_index paths) (e # edges) parent = Some p2" by (simp add: ab p1(1) p2(1))
    ultimately show ?thesis using p2(2) by blast
  qed
qed auto

lemma joined_forest:
  assumes "distinct paths"
  obtains parent where "join_edges (path_index paths) edges [0..<length paths] = Some parent" "forest parent"
    "length parent = length paths"
    "\<And>i j. i < length paths \<Longrightarrow> j < length paths \<Longrightarrow> rep parent i = rep parent j \<longleftrightarrow> linked paths edges (paths ! i) (paths ! j)"
proof -
  have single: "rep [0..<n] i = i" for n i by (subst rep.simps) auto
  have "forest_of paths edges [0..<length paths]" by (auto simp: forest_of_def forest_def single)
  then obtain parent where parent: "join_edges (path_index paths) edges [0..<length paths] = Some parent"
    "forest_of paths edges parent"
    and joins: "\<forall>e \<in> set edges. \<forall>i < length paths. \<forall>j < length paths. paths ! i = ce_left e \<and> paths ! j = ce_right e \<longrightarrow>
        rep parent i = rep parent j"
    using join_edges_Some [OF assms _ subset_refl] by blast
  have step: "rep parent i = rep parent j"
    if link: "(paths ! i, paths ! j) \<in> edge_links paths edges \<union> (edge_links paths edges)\<inverse>"
    and ij: "i < length paths" "j < length paths" for i j
  proof -
    obtain e where "e \<in> set edges"
      "paths ! i = ce_left e \<and> paths ! j = ce_right e \<or> paths ! j = ce_left e \<and> paths ! i = ce_right e"
      using link unfolding edge_links_def by blast
    then show ?thesis using joins ij by metis
  qed
  have same: "\<forall>j < length paths. paths ! j = q \<longrightarrow> rep parent i = rep parent j"
    if "linked paths edges (paths ! i) q" "i < length paths" for i q
    using that(1) unfolding linked_def
  proof (induction rule: rtrancl_induct)
    case base
    then show ?case using assms that(2) by (metis nth_eq_iff_index_eq)
  next
    case (step y z)
    then obtain k where k: "k < length paths" "paths ! k = y"
      unfolding edge_links_def by (auto simp: in_set_conv_nth)
    then show ?case using step.IH step.hyps(2) \<open>\<And>i j. _ \<Longrightarrow> _ \<Longrightarrow> _ \<Longrightarrow> rep parent i = rep parent j\<close> by metis
  qed
  show thesis
  proof (rule that [OF parent(1)])
    show "rep parent i = rep parent j \<longleftrightarrow> linked paths edges (paths ! i) (paths ! j)"
      if "i < length paths" "j < length paths" for i j
      using parent(2) same that unfolding forest_of_def by blast
  qed (use parent(2) in \<open>auto simp: forest_of_def\<close>)
qed

section \<open>Groups\<close>

definition members :: "nat list \<Rightarrow> (nat \<times> string) list \<Rightarrow> nat \<Rightarrow> string list" where
  "members parent xs r = map snd (filter (\<lambda>x. rep parent (fst x) = r) xs)"

lemma collect_groups_Some:
  assumes "forest parent" "\<forall>x \<in> set xs. fst x < length parent" "bt_wf groups"
  shows "\<exists>groups'. collect_groups parent xs groups = Some groups' \<and> bt_wf groups' \<and>
    (\<forall>r. bt_get groups' r = (if members parent xs r = [] then bt_get groups r
       else Some ((case bt_get groups r of Some ps \<Rightarrow> ps | None \<Rightarrow> []) @ members parent xs r)))"
  using assms
proof (induction xs arbitrary: parent groups)
  case (Cons x xs)
  obtain i p where x: "x = (i, p)" by (cases x)
  obtain p1 where p1: "find_root parent i = Some (p1, rep parent i)" "forest p1" "length p1 = length parent" "rep p1 = rep parent"
    using find_root_Some [OF Cons.prems(1), of i] Cons.prems(2) by (auto simp: x)
  let ?groups = "bt_insert (rep parent i) ((case bt_get groups (rep parent i) of Some ps \<Rightarrow> ps | None \<Rightarrow> []) @ [p]) groups"
  have same: "members p1 xs r = members parent xs r" for r by (simp add: members_def p1(4))
  have cons: "members parent (x # xs) r = (if rep parent i = r then [p] else []) @ members parent xs r" for r
    by (simp add: members_def x)
  obtain g where g: "collect_groups p1 xs ?groups = Some g" "bt_wf g"
    "\<And>r. bt_get g r = (if members parent xs r = [] then bt_get ?groups r
       else Some ((case bt_get ?groups r of Some ps \<Rightarrow> ps | None \<Rightarrow> []) @ members parent xs r))"
    using Cons.IH [OF p1(2), of ?groups] Cons.prems p1(3) unfolding same by (auto simp: bt_wf_insert)
  have "bt_get g r = (if members parent (x # xs) r = [] then bt_get groups r
       else Some ((case bt_get groups r of Some ps \<Rightarrow> ps | None \<Rightarrow> []) @ members parent (x # xs) r))" for r
    unfolding g(3) cons by simp
  then show ?case using g(1,2) p1(1) x by (intro exI [of _ g]) simp
qed (simp add: members_def)

text \<open>The reference: for every path that is the least of those linked to it, these in order.\<close>

definition review_units :: "string list \<Rightarrow> cochange_edge list \<Rightarrow> string list list" where
  "review_units paths edges =
     map (\<lambda>p. filter (linked paths edges p) (sort paths))
       (filter (\<lambda>p. \<forall>q \<in> set paths. linked paths edges p q \<longrightarrow> p \<le> q) (sort paths))"

lemma sort_filter_set: "distinct xs \<Longrightarrow> distinct ys \<Longrightarrow> set ys = {x \<in> set xs. P x} \<Longrightarrow> sort ys = filter P (sort xs)"
  using sorted_filter [of id "sort xs" P] by (intro sorted_distinct_set_unique) simp_all

lemma first_of_class:
  assumes "p \<in> set paths" "\<forall>q \<in> set paths. linked paths edges p q \<longrightarrow> p \<le> q"
  shows "group_first (filter (linked paths edges p) (sort paths)) = Some p"
proof -
  let ?g = "filter (linked paths edges p) (sort paths)"
  have mem: "p \<in> set ?g" using assms(1) by simp
  then obtain x xs where g: "?g = x # xs" by (cases ?g) auto
  have "sorted ?g" using sorted_filter [of id "sort paths"] by simp
  then have "x \<le> p" using mem unfolding g by auto
  moreover have "x \<in> set ?g" by (simp add: g)
  then have "p \<le> x" using assms(2) by simp
  ultimately show ?thesis unfolding g group_first_def by simp
qed

lemma units_sorted:
  assumes "distinct paths"
  shows "sorted (map group_first (review_units paths edges))" "distinct (review_units paths edges)"
    "inj_on group_first (set (review_units paths edges))"
proof -
  let ?least = "filter (\<lambda>p. \<forall>q \<in> set paths. linked paths edges p q \<longrightarrow> p \<le> q) (sort paths)"
  have firsts: "map group_first (review_units paths edges) = map Some ?least"
    unfolding review_units_def map_map o_def by (rule map_cong [OF refl]) (auto intro: first_of_class)
  have "sorted ?least" using sorted_filter [of id "sort paths"] by simp
  then show "sorted (map group_first (review_units paths edges))"
    unfolding firsts by (simp add: sorted_map)
  have "distinct (map group_first (review_units paths edges))"
    unfolding firsts using assms by (simp add: distinct_map)
  then show "distinct (review_units paths edges)" "inj_on group_first (set (review_units paths edges))"
    by (simp_all add: distinct_map)
qed

lemma units_classes:
  "set (review_units paths edges) = (\<lambda>p. filter (linked paths edges p) (sort paths)) ` set paths"
proof (intro equalityI subsetI)
  fix g assume "g \<in> (\<lambda>p. filter (linked paths edges p) (sort paths)) ` set paths"
  then obtain p where p: "p \<in> set paths" "g = filter (linked paths edges p) (sort paths)" by blast
  let ?q = "Min {q \<in> set paths. linked paths edges p q}"
  have q: "?q \<in> {q \<in> set paths. linked paths edges p q}" using p(1) by (intro Min_in) auto
  have "linked paths edges ?q = linked paths edges p"
    using q linked_sym linked_trans by (intro ext iffI) blast+
  moreover have "?q \<le> r" if "r \<in> set paths" "linked paths edges p r" for r using that by (intro Min_le) auto
  ultimately show "g \<in> set (review_units paths edges)"
    using q p(2) by (auto simp: review_units_def image_iff intro!: bexI [of _ ?q])
qed (auto simp: review_units_def)

lemma group_paths_units:
  assumes "distinct paths"
  shows "group_paths paths edges = Some (review_units paths edges)"
proof -
  let ?n = "length paths"
  obtain parent where parent: "join_edges (path_index paths) edges [0..<?n] = Some parent" "forest parent" "length parent = ?n"
    and rep: "\<And>i j. i < ?n \<Longrightarrow> j < ?n \<Longrightarrow> rep parent i = rep parent j \<longleftrightarrow> linked paths edges (paths ! i) (paths ! j)"
    using joined_forest [OF assms, where edges = edges] by blast
  let ?xs = "zip [0..<?n] paths" and ?unit_of = "\<lambda>p. filter (linked paths edges p) (sort paths)"
  have "\<forall>x \<in> set ?xs. fst x < length parent" using parent(3) by (auto simp: set_zip)
  then obtain groups where groups: "collect_groups parent ?xs [] = Some groups" "bt_wf groups"
    and raw: "\<forall>r. bt_get groups r = (if members parent ?xs r = [] then bt_get [] r
       else Some ((case bt_get [] r of Some ps \<Rightarrow> ps | None \<Rightarrow> []) @ members parent ?xs r))"
    using collect_groups_Some [OF parent(2) _ bt_wf_Nil] by blast
  have get: "bt_get groups r = (if members parent ?xs r = [] then None else Some (members parent ?xs r))" for r
    using raw by simp
  have member: "p \<in> set (members parent ?xs r) \<longleftrightarrow> (\<exists>i < ?n. paths ! i = p \<and> rep parent i = r)" for p r
  proof -
    have "x \<in> set ?xs \<longleftrightarrow> fst x < ?n \<and> snd x = paths ! fst x" for x
      by (auto simp: in_set_zip intro!: exI [of _ "fst x"])
    then show ?thesis unfolding members_def set_map set_filter by (force simp: image_iff)
  qed
  have distinct_members: "distinct (members parent ?xs r)" for r
    using assms unfolding members_def by (simp add: distinct_map_filter)
  have whole: "sort (members parent ?xs (rep parent i)) = ?unit_of (paths ! i)" if "i < ?n" for i
  proof -
    have "rep parent j = rep parent i \<longleftrightarrow> linked paths edges (paths ! i) (paths ! j)" if "j < ?n" for j
      using rep [OF \<open>i < ?n\<close> that] by metis
    then have "set (members parent ?xs (rep parent i)) = {x \<in> set paths. linked paths edges (paths ! i) x}"
      unfolding set_eq_iff member by (auto simp: in_set_conv_nth [of _ paths])
    then show ?thesis using assms distinct_members by (intro sort_filter_set)
  qed
  have keys: "bt_values groups = map (members parent ?xs) (bt_keys groups)"
    "k \<in> set (bt_keys groups) \<longleftrightarrow> members parent ?xs k \<noteq> []" for k
    using get by (auto simp: bt_values_def bt_iter_def set_bt_keys domIff split: if_splits)
  have nonempty: "members parent ?xs k \<noteq> [] \<longleftrightarrow> (\<exists>i < ?n. rep parent i = k)" for k
  proof -
    have "members parent ?xs k \<noteq> [] \<longleftrightarrow> (\<exists>p. p \<in> set (members parent ?xs k))"
      by (cases "members parent ?xs k") auto
    then show ?thesis unfolding member by auto
  qed
  let ?sorted = "map sort (bt_values groups)"
  have "set ?sorted = ?unit_of ` set paths"
  proof -
    have "set (bt_keys groups) = rep parent ` {i. i < ?n}"
      using keys(2) nonempty by (simp add: set_eq_iff image_iff) metis
    then have "set ?sorted = (\<lambda>i. sort (members parent ?xs (rep parent i))) ` {i. i < ?n}"
      by (simp add: keys(1) image_image)
    also have "\<dots> = (\<lambda>i. ?unit_of (paths ! i)) ` {i. i < ?n}" using whole by (intro image_cong) simp_all
    also have "\<dots> = ?unit_of ` set paths" by (auto simp: set_conv_nth)
    finally show ?thesis .
  qed
  moreover have "set (review_units paths edges) = ?unit_of ` set paths"
    by (rule units_classes)
  moreover have "distinct ?sorted"
  proof -
    have "inj_on (\<lambda>k. sort (members parent ?xs k)) (set (bt_keys groups))"
    proof (rule inj_onI)
      fix k l assume k: "k \<in> set (bt_keys groups)" and eq: "sort (members parent ?xs k) = sort (members parent ?xs l)"
      obtain i where i: "i < ?n" "rep parent i = k" using k keys(2) nonempty by blast
      then have "paths ! i \<in> set (members parent ?xs l)" using eq member by (metis set_sort)
      then show "k = l" using i member assms by (metis nth_eq_iff_index_eq)
    qed
    moreover have "distinct (bt_keys groups)" using bt_wf_distinct [OF groups(2)] by (simp add: bt_keys_def)
    ultimately show ?thesis by (simp add: keys(1) distinct_map o_def)
  qed
  ultimately have same: "mset ?sorted = mset (review_units paths edges)"
    using set_eq_iff_mset_eq_distinct units_sorted(2) [OF assms] by metis
  have "inj_on group_first (set ?sorted)"
    unfolding mset_eq_setD [OF same] by (rule units_sorted(3) [OF assms])
  from sort_key_inj_key_eq [OF same this units_sorted(1) [OF assms]]
  have "sort_key group_first ?sorted = review_units paths edges" .
  then show ?thesis by (simp add: group_paths_def parent(1) groups(1))
qed

section \<open>The edges\<close>

text \<open>How often a pair of paths occurs in the commits that are not sweeps.\<close>

definition co_count :: "log_commit list \<Rightarrow> string \<times> string \<Rightarrow> nat" where
  "co_count commits pair =
     sum_list (map (\<lambda>c. count_list (path_pairs (lc_paths c)) pair)
       (filter (\<lambda>c. length (lc_paths c) \<le> COCHANGE_COMMIT_FANOUT_CAP) commits))"

definition hit_count :: "pair_hits \<Rightarrow> string \<times> string \<Rightarrow> nat" where
  "hit_count pairs pair = (case bt_get pairs pair of Some hits \<Rightarrow> length hits | None \<Rightarrow> 0)"

lemma add_hits:
  "bt_wf pairs \<Longrightarrow> bt_wf (fold (add_hit c) ps pairs) \<and>
     hit_count (fold (add_hit c) ps pairs) pair = hit_count pairs pair + count_list ps pair"
proof (induction ps arbitrary: pairs)
  case (Cons p ps)
  have wf: "bt_wf (add_hit c p pairs)" using Cons.prems by (simp add: add_hit_def bt_wf_insert)
  have "hit_count (add_hit c p pairs) pair = hit_count pairs pair + (if p = pair then 1 else 0)"
    by (auto simp: hit_count_def add_hit_def split: option.splits)
  then show ?case using Cons.IH [OF wf] wf by simp
qed simp

lemma count_commits:
  assumes "bt_wf pairs"
  shows "bt_wf (fst (fold count_commit commits (pairs, wide))) \<and>
    hit_count (fst (fold count_commit commits (pairs, wide))) pair = hit_count pairs pair + co_count commits pair"
  using assms
proof (induction commits arbitrary: pairs wide)
  case (Cons c commits)
  show ?case
  proof (cases "length (lc_paths c) > COCHANGE_COMMIT_FANOUT_CAP")
    case True
    then show ?thesis using Cons.IH [OF Cons.prems] by (simp add: count_commit_def co_count_def)
  next
    case False
    let ?pairs = "fold (add_hit c) (path_pairs (lc_paths c)) pairs"
    note added = add_hits [OF Cons.prems, of c "path_pairs (lc_paths c)"]
    show ?thesis using Cons.IH [of ?pairs wide] added False by (simp add: count_commit_def co_count_def)
  qed
qed (simp add: co_count_def)

lemma edge_of_pair_Some:
  "edge_of_pair m ((a, b), hits) = Some e \<Longrightarrow> m \<le> length hits \<and> ce_left e = a \<and> ce_right e = b \<and> ce_co_commits e = length hits"
  "m \<le> length hits \<Longrightarrow> \<exists>e. edge_of_pair m ((a, b), hits) = Some e"
  by (auto simp: edge_of_pair_def Let_def split: if_splits)

lemma kept_edges:
  assumes "0 < m"
  shows "(\<exists>e \<in> set (fst (build_edges commits m)). ce_left e = l \<and> ce_right e = r \<and> ce_co_commits e = n) \<longleftrightarrow>
     n = co_count commits (l, r) \<and> m \<le> n"
proof -
  let ?pairs = "fst (fold count_commit commits ([], 0))"
  have wf: "bt_wf ?pairs" and count: "hit_count ?pairs (l, r) = co_count commits (l, r)"
    using count_commits [OF bt_wf_Nil, of commits 0 "(l, r)"] by (simp_all add: hit_count_def)
  have "set (fst (build_edges commits m)) = set (List.map_filter (edge_of_pair m) (bt_iter ?pairs))"
    by (simp add: build_edges_def case_prod_beta Let_def)
  also have "\<dots> = {e. \<exists>pair hits. bt_get ?pairs pair = Some hits \<and> edge_of_pair m (pair, hits) = Some e}"
    by (force simp: map_filter_def set_bt_iter)
  finally have edges: "set (fst (build_edges commits m)) =
      {e. \<exists>pair hits. bt_get ?pairs pair = Some hits \<and> edge_of_pair m (pair, hits) = Some e}" .
  have "(\<exists>e \<in> set (fst (build_edges commits m)). ce_left e = l \<and> ce_right e = r \<and> ce_co_commits e = n) \<longleftrightarrow>
      (\<exists>hits. bt_get ?pairs (l, r) = Some hits \<and> n = length hits \<and> m \<le> n)"
  proof
    assume "\<exists>e \<in> set (fst (build_edges commits m)). ce_left e = l \<and> ce_right e = r \<and> ce_co_commits e = n"
    then obtain e pair hits where e: "bt_get ?pairs pair = Some hits" "edge_of_pair m (pair, hits) = Some e"
      "ce_left e = l" "ce_right e = r" "ce_co_commits e = n"
      unfolding edges by blast
    obtain a b where pair: "pair = (a, b)" by (cases pair)
    note fields = edge_of_pair_Some(1) [OF e(2) [unfolded pair]]
    show "\<exists>hits. bt_get ?pairs (l, r) = Some hits \<and> n = length hits \<and> m \<le> n"
      by (rule exI [of _ hits]) (use fields e pair in simp)
  next
    assume "\<exists>hits. bt_get ?pairs (l, r) = Some hits \<and> n = length hits \<and> m \<le> n"
    then obtain hits where hits: "bt_get ?pairs (l, r) = Some hits" "n = length hits" "m \<le> length hits" by blast
    obtain e where e: "edge_of_pair m ((l, r), hits) = Some e" using edge_of_pair_Some(2) [OF hits(3)] by blast
    then show "\<exists>e \<in> set (fst (build_edges commits m)). ce_left e = l \<and> ce_right e = r \<and> ce_co_commits e = n"
      using edge_of_pair_Some(1) [OF e] hits unfolding edges by blast
  qed
  also have "\<dots> \<longleftrightarrow> n = hit_count ?pairs (l, r) \<and> m \<le> n"
    using assms by (auto simp: hit_count_def split: option.splits)
  finally show ?thesis unfolding count .
qed

lemma history_links:
  assumes "0 < m"
  shows "edge_links paths (fst (build_edges commits m)) = {(l, r). l \<in> set paths \<and> r \<in> set paths \<and> m \<le> co_count commits (l, r)}"
proof -
  have "(l, r) \<in> {(ce_left e, ce_right e) | e. e \<in> set (fst (build_edges commits m))} \<longleftrightarrow> m \<le> co_count commits (l, r)" for l r
  proof -
    have "(l, r) \<in> {(ce_left e, ce_right e) | e. e \<in> set (fst (build_edges commits m))} \<longleftrightarrow>
        (\<exists>n. \<exists>e \<in> set (fst (build_edges commits m)). ce_left e = l \<and> ce_right e = r \<and> ce_co_commits e = n)" by auto
    then show ?thesis unfolding kept_edges [OF assms] by blast
  qed
  then show ?thesis unfolding edge_links_def by auto
qed

section \<open>Properties\<close>

text \<open>C34: two changed files are in one review unit exactly when a chain of changed files joins them, each pair of neighbours
  listed in the same order by at least the required number of commits that are not sweeps.  The units are in order, each of its
  files too, every changed file is in one, and the grouping always returns: neither the order of the
  commits nor path halving matters.\<close>

theorem review_units_of_history:
  assumes "distinct paths" "0 < min_commits"
  shows "group_paths paths (fst (build_edges commits min_commits)) = Some (review_units paths (fst (build_edges commits min_commits))) \<and>
    (\<forall>p q. linked paths (fst (build_edges commits min_commits)) p q \<longleftrightarrow>
       (p, q) \<in> (let R = {(l, r). l \<in> set paths \<and> r \<in> set paths \<and> min_commits \<le> co_count commits (l, r)} in (R \<union> R\<inverse>)\<^sup>*))"
  using group_paths_units [OF assms(1)] history_links [OF assms(2)] by (simp add: linked_def Let_def)

definition demo_commit :: "string list \<Rightarrow> log_commit" where
  "demo_commit ps = \<lparr>lc_hash = ''h'', lc_timestamp = 0, lc_subject = [], lc_paths = ps\<rparr>"

definition demo_history :: "log_commit list" where
  "demo_history = [demo_commit [''b'', ''d''], demo_commit [''a'', ''b'', ''x''], demo_commit [''a'', ''b''], demo_commit [''b'', ''c'', ''d'']]"

lemma review_units_of_history_witness:
  "review_units [''d'', ''a'', ''c'', ''b''] (fst (build_edges demo_history 2)) = [[''a'', ''b'', ''d''], [''c'']] \<and>
   linked [''d'', ''a'', ''c'', ''b''] (fst (build_edges demo_history 2)) ''b'' ''d''"
proof -
  let ?paths = "[''d'', ''a'', ''c'', ''b'']"
  have distinct: "distinct ?paths" and two: "(0 :: nat) < 2" by simp_all
  note claim = review_units_of_history [OF distinct two, of demo_history]
  have "group_paths ?paths (fst (build_edges demo_history 2)) = Some [[''a'', ''b'', ''d''], [''c'']]" by code_simp
  moreover have "2 \<le> co_count demo_history (''b'', ''d'')" by code_simp
  ultimately show ?thesis using claim by (auto simp: Let_def)
qed

end
