(* ===== verification/Rust_Float.thy ===== *)
theory Rust_Float
  imports Complex_Main Json_Value
begin

text \<open>
  The values of \<open>f64\<close>: the rational number of a finite value, the infinities, and what is not a number; the two zeros
  have one value, as the comparisons of the language see them.  The conversion from an integer rounds to 53
  significant bits, ties to even.
\<close>

datatype f64 = Finite rat | Infinite bool | NaN

definition f64_of_bits :: "64 word \<Rightarrow> f64" where
  "f64_of_bits b =
     (let neg = bit b 63; e = unat (take_bit 11 (drop_bit 52 b)); frac = unat (take_bit 52 b) in
      if e = 2047 then if frac = 0 then Infinite neg else NaN
      else Finite ((if neg then - 1 else 1) *
        (of_nat (if e = 0 then frac else (2 ^ 52 + frac) * 2 ^ (e - 1)) / 2 ^ 1074)))"

fun halvings :: "nat \<Rightarrow> nat" where
  "halvings n = (if n < 2 ^ 53 then 0 else Suc (halvings (n div 2)))"

declare halvings.simps [simp del]

definition round_f64 :: "nat \<Rightarrow> nat" where
  "round_f64 n =
     (let s = halvings n; q = n div 2 ^ s; r = 2 * (n mod 2 ^ s) in
      (if r > 2 ^ s \<or> r = 2 ^ s \<and> odd q then q + 1 else q) * 2 ^ s)"

lemma round_f64_exact: "n < 2 ^ 53 \<Longrightarrow> round_f64 n = n"
  by (simp add: round_f64_def halvings.simps)

fun as_f64 :: "json \<Rightarrow> f64 option" where
  "as_f64 (JNum (PosInt n)) = Some (Finite (of_nat (round_f64 (unat n))))"
| "as_f64 (JNum (NegInt n)) = Some (Finite (- of_nat (round_f64 (nat (- sint n)))))"
| "as_f64 (JNum (Float b)) = Some (f64_of_bits b)"
| "as_f64 _ = None"

fun f64_less :: "f64 \<Rightarrow> f64 \<Rightarrow> bool" where
  "f64_less (Finite a) (Finite b) \<longleftrightarrow> a < b"
| "f64_less (Finite a) (Infinite neg) \<longleftrightarrow> \<not> neg"
| "f64_less (Infinite neg) (Finite b) \<longleftrightarrow> neg"
| "f64_less (Infinite neg) (Infinite neg') \<longleftrightarrow> neg \<and> \<not> neg'"
| "f64_less _ _ \<longleftrightarrow> False"

fun is_finite :: "f64 \<Rightarrow> bool" where
  "is_finite (Finite a) = True"
| "is_finite _ = False"

text \<open>\<open>fract() != 0.0\<close>; an infinity has the fraction \<open>NaN\<close>.\<close>

fun has_fract :: "f64 \<Rightarrow> bool" where
  "has_fract (Finite a) \<longleftrightarrow> of_int \<lfloor>a\<rfloor> \<noteq> a"
| "has_fract _ = True"

lemma as_f64_small: "unat n < 2 ^ 53 \<Longrightarrow> as_f64 (ju64 n) = Some (Finite (of_nat (unat n)))"
  by (simp add: ju64_def round_f64_exact)

lemma is_finite_iff: "is_finite x \<longleftrightarrow> (\<exists>a. x = Finite a)"
  by (cases x) auto

end
