(* ===== verification/Gate_Policy.thy ===== *)
theory Gate_Policy
  imports Rust_Float Content_Contract Json_Shape
begin

text \<open>
  The admission policy of the structural gate (crates/code-intel-cli/src/sentrux\_gate\_policy.rs) and the reader of
  its coupling rule (sentrux\_coupling\_policy.rs): a gate result is accepted only when its verdict, its diagnostics
  and its comparisons say the same.  The policy is the document orchestration/sentrux-gate-policy.v1.json that the program
  embeds; its digest, which the code asserts when it first reads it, is kept as the constant it is.
\<close>

section \<open>The coupling rule\<close>

definition first_part :: "char \<Rightarrow> string \<Rightarrow> string" where
  "first_part c s = hd (split_on c s)"

definition coupling_setting :: "string \<Rightarrow> bool option" where
  "coupling_setting line =
     (case split_once (CHR ''='') (str_trim line) of
        None \<Rightarrow> None
      | Some (key, rest) \<Rightarrow>
          if str_trim key = ''ignore_test_dependencies'' then Some (str_trim (first_part (CHR ''#'') rest) = ''true'') else None)"

definition ignore_test_dependencies :: "string \<Rightarrow> bool" where
  "ignore_test_dependencies rules =
     (case List.map_filter coupling_setting (str_lines rules) of [] \<Rightarrow> False | setting # _ \<Rightarrow> setting)"

definition is_test_path :: "string \<Rightarrow> bool" where
  "is_test_path relative =
     (let lower = map ascii_lower relative; leaf = last (split_on (CHR ''/'') lower) in
      starts_with lower ''test/'' \<or> starts_with lower ''tests/'' \<or> contains_str lower ''/test/'' \<or> contains_str lower ''/tests/'' \<or>
      contains_str lower ''/__tests__/'' \<or> starts_with leaf ''test_'' \<or> contains_str leaf ''.test.'' \<or> contains_str leaf ''.spec.'')"

section \<open>The policy\<close>

definition APPROVED_SHA256 :: string where
  "APPROVED_SHA256 = ''f97cfed77d80be09acda1331bf449bb21e09ee58d91e19255313bbc5815d11f0''"

definition GATE_RESULT_SCHEMA :: string where "GATE_RESULT_SCHEMA = ''code-intel-sentrux-gate-result.v1''"

definition RATCHETS :: "string list" where
  "RATCHETS = [''quality_degraded'', ''coupling_increased'', ''cycles_increased'', ''god_files_increased'']"

definition STATIC_RULES :: "string list" where
  "STATIC_RULES = [''max_cc'', ''no_god_files'', ''max_cycles'', ''max_coupling'', ''boundary_dependency'', ''layer_order'']"

definition gate_manifest :: json where
  "gate_manifest = jobj [(''schema'', JStr ''code-intel-sentrux-gate-policy.v1''), (''policyId'', JStr ''evidence-quality-admission''),
     (''policyVersion'', ju64 1),
     (''authority'', jobj [(''decisionRecord'', JStr ''DR-0016''),
        (''approval'', JStr ''https://github.com/2233admin/code-intel-pipeline/issues/427#issuecomment-6095655906'')]),
     (''measurement'', jobj [(''baselineSchema'', JStr ''code-intel-sentrux-baseline.v6''), (''engineId'', JStr ''sentrux-native''),
        (''engineVersion'', JStr ''3.0.0''),
        (''formulaVersion'', JStr ''sentrux-upstream@6f8ff3c14b0423e4b58f42d1813d4d5f7fdc1d11+max-floor-0.01''),
        (''providerVersion'', JStr ''code-intel-quality-signal.v1''), (''scope'', JStr ''.''),
        (''fileGateSchema'', JStr ''code-intel-file-gate.v1''),
        (''evidenceProfile'', JStr ''directory-communities-file-loc-duplicate-only.v1'')]),
     (''advisoryRules'', jstrs [''quality_degraded'']),
     (''blockingRules'', jstrs [''coupling_increased'', ''cycles_increased'', ''god_files_increased'', ''baseline_missing'',
        ''baseline_engine_mismatch'']),
     (''staticRules'', JStr ''unchanged_blocking''), (''unknownSemantics'', JStr ''blocked'')]"

definition gate_identity :: json where
  "gate_identity = jobj [(''policyId'', jidx gate_manifest ''policyId''), (''policyVersion'', jidx gate_manifest ''policyVersion''),
     (''sha256'', JStr APPROVED_SHA256)]"

definition measurement :: json where
  "measurement = jidx gate_manifest ''measurement''"

text \<open>\<open>value.as_object().is_none_or(|object| object.len() != n)\<close>, negated.\<close>

definition has_fields :: "json \<Rightarrow> nat \<Rightarrow> bool" where
  "has_fields value n \<longleftrightarrow> (case as_object value of Some object \<Rightarrow> length object = n | None \<Rightarrow> False)"

definition nonempty_text_value :: "json \<Rightarrow> bool" where
  "nonempty_text_value value \<longleftrightarrow> (case as_str value of Some s \<Rightarrow> s \<noteq> [] | None \<Rightarrow> False)"

definition validate_identity :: "json \<Rightarrow> string + unit" where
  "validate_identity value =
     ensure (\<not> (\<not> has_fields value 3 \<or> jidx value ''policyId'' \<noteq> jidx gate_manifest ''policyId'' \<or>
         jidx value ''policyVersion'' \<noteq> jidx gate_manifest ''policyVersion'' \<or> jidx value ''sha256'' \<noteq> JStr APPROVED_SHA256))
       ''missing or unapproved Sentrux gate policy identity''"

definition valid_path :: "string \<Rightarrow> bool" where
  "valid_path p \<longleftrightarrow> p \<noteq> [] \<and> CHR 0x5C \<notin> set p \<and> CHR '':'' \<notin> set p \<and>
     list_all (\<lambda>part. part \<noteq> [] \<and> part \<noteq> ''.'' \<and> part \<noteq> ''..'') (split_on (CHR ''/'') p)"

section \<open>Parts of a gate result\<close>

text \<open>The set of paths, in order; \<open>previous\<close> is its last element.\<close>

definition gate_path :: "json \<Rightarrow> string list \<Rightarrow> string + string list" where
  "gate_path entry' found =
     and_then (ok_or (as_str entry') ''god-file path must be a string'') (\<lambda>p.
     if \<not> valid_path p \<or> (found \<noteq> [] \<and> last found \<ge> p) then Err ''god-file paths must be canonical, sorted and unique''
     else Ok (found @ [p]))"

definition gate_paths :: "json \<Rightarrow> string + string list" where
  "gate_paths value =
     and_then (ok_or (as_array value) ''god-file comparison must contain path arrays'') (\<lambda>entries. try_fold gate_path entries [])"

definition violation_rule :: "json \<Rightarrow> string + string" where
  "violation_rule value =
     and_then (ok_or (as_object value) ''violation must be an object'') (\<lambda>object.
     and_then (ok_or (as_str (jidx value ''rule'')) ''violation rule missing'') (\<lambda>rule.
     if length object \<noteq> 3 \<or> \<not> nonempty_text_value (jidx value ''message'') \<or>
        \<not> (case as_array (jidx value ''targets'') of Some targets \<Rightarrow> list_all nonempty_text_value targets | None \<Rightarrow> False)
     then Err ''malformed violation'' else Ok rule))"

definition gate_metadata :: "json \<Rightarrow> bool \<Rightarrow> string + unit" where
  "gate_metadata value baseline =
     and_then (ensure (\<not> (\<not> has_fields value (if baseline then 4 else 2) \<or> jidx value ''scope'' \<noteq> JStr ''.'' \<or>
         \<not> nonempty_text_value (jidx value ''sourceCommit''))) ''gate result has invalid source or measurement scope'') (\<lambda>_.
     if baseline then
       let digest = (case as_str (jidx value ''sha256'') of Some s \<Rightarrow> s | None \<Rightarrow> '''') in
       ensure (\<not> (jidx value ''schema'' \<noteq> jidx measurement ''baselineSchema'' \<or> length digest \<noteq> 64 \<or>
           \<not> list_all (\<lambda>b. is_ascii_digit b \<or> CHR ''a'' \<le> b \<and> b \<le> CHR ''f'') digest))
         ''gate result has invalid baseline identity''
     else Ok ())"

definition coupling_inputs :: "json \<Rightarrow> string + f64 \<times> 64 word" where
  "coupling_inputs value =
     and_then (ok_or (if has_fields value 2 then Some () else None)
       ''coupling comparison must carry exactly couplingScore and importEdges'') (\<lambda>_.
     and_then (ok_or (case as_f64 (jidx value ''couplingScore'') of
           Some score \<Rightarrow> if is_finite score \<and> \<not> f64_less score (Finite 0) then Some score else None
         | None \<Rightarrow> None) ''coupling comparison couplingScore must be a non-negative number'') (\<lambda>score.
     and_then (ok_or (as_u64 (jidx value ''importEdges'')) ''coupling comparison importEdges must be a non-negative integer'') (\<lambda>edges.
     Ok (score, edges))))"

section \<open>Comparisons\<close>

definition ratchet_regressed :: "string \<Rightarrow> json \<Rightarrow> json \<Rightarrow> string + bool" where
  "ratchet_regressed rule before' after' =
     (if rule = ''god_files_increased'' then
        and_then (gate_paths before') (\<lambda>before_paths. and_then (gate_paths after') (\<lambda>after_paths.
        Ok (\<not> set after_paths \<subseteq> set before_paths)))
      else if rule = ''coupling_increased'' then
        and_then (coupling_inputs before') (\<lambda>(before_score, before_edges). and_then (coupling_inputs after') (\<lambda>(after_score, after_edges).
        Ok (f64_less before_score after_score \<and> after_edges > before_edges)))
      else
        and_then (ok_or (as_f64 before') ''comparison before must be numeric'') (\<lambda>x.
        and_then (ok_or (as_f64 after') ''comparison after must be numeric'') (\<lambda>y.
        if \<not> is_finite x \<or> \<not> is_finite y \<or> f64_less x (Finite 0) \<or> f64_less y (Finite 0) \<or>
           (rule = ''quality_degraded'' \<and> (f64_less (Finite 10000) x \<or> f64_less (Finite 10000) y \<or> has_fract x \<or> has_fract y)) \<or>
           (rule = ''cycles_increased'' \<and> (has_fract x \<or> has_fract y))
        then Err ''gate comparison has invalid numeric values''
        else Ok (if rule = ''quality_degraded'' then f64_less y x else f64_less x y))))"

definition static_regressed :: "string \<Rightarrow> json list \<Rightarrow> string \<Rightarrow> json \<Rightarrow> string + bool" where
  "static_regressed scope blocking rule comparison =
     (if scope \<noteq> ''static_and_ratchet'' \<or> jidx comparison ''before'' \<noteq> JNull
      then Err ''static comparison is not backed by a blocking violation''
      else and_then (violation_rule (jidx comparison ''after'')) (\<lambda>named.
        if named \<noteq> rule \<or> jidx comparison ''after'' \<notin> set blocking
        then Err ''static comparison is not backed by a blocking violation'' else Ok True))"

definition gate_comparison ::
    "string \<Rightarrow> json \<Rightarrow> json list \<Rightarrow> json \<Rightarrow> string list \<times> string list \<Rightarrow> string + string list \<times> string list" where
  "gate_comparison scope baseline blocking comparison acc =
     (case acc of (seen, failed) \<Rightarrow>
        and_then (ok_or (as_str (jidx comparison ''rule'')) ''comparison rule missing'') (\<lambda>rule.
        let is_ratchet = (rule \<in> set RATCHETS) in
        and_then (ensure (\<not> (\<not> has_fields comparison 5 \<or> jget comparison ''before'' = None \<or> (\<not> is_ratchet \<and> rule \<notin> set STATIC_RULES)))
          ''malformed or unknown gate comparison'') (\<lambda>_.
        and_then (ensure (\<not> (is_ratchet \<and> (rule \<in> set seen \<or> is_null baseline))) ''duplicate or ungrounded ratchet comparison'') (\<lambda>_.
        let seen = (if is_ratchet then rule # seen else seen);
            disposition = (if rule = ''quality_degraded'' then ''advisory'' else ''blocking'') in
        and_then (ensure (\<not> jidx comparison ''disposition'' \<noteq> JStr disposition)
          ''gate comparison disposition contradicts approved policy'') (\<lambda>_.
        and_then (if is_ratchet then ratchet_regressed rule (jidx comparison ''before'') (jidx comparison ''after'')
          else static_regressed scope blocking rule comparison) (\<lambda>regressed.
        and_then (ensure (\<not> jidx comparison ''verdict'' \<noteq> JStr (if regressed then ''fail'' else ''pass''))
          ''comparison verdict contradicts measured before/after'') (\<lambda>_.
        Ok (seen, if regressed then rule # failed else failed))))))))"

section \<open>The result\<close>

definition blocking_rule :: "json \<Rightarrow> string list \<Rightarrow> string + string list" where
  "blocking_rule violation rules =
     and_then (violation_rule violation) (\<lambda>rule.
     if rule \<notin> set (tl RATCHETS) \<and> rule \<notin> set STATIC_RULES \<and> rule \<noteq> ''baseline_missing'' \<and> rule \<noteq> ''baseline_engine_mismatch''
     then Err ''unknown or advisory rule in blocking violations'' else Ok (rule # rules))"

definition advisory_rule :: "json \<Rightarrow> unit \<Rightarrow> string + unit" where
  "advisory_rule advisory u =
     and_then (violation_rule advisory) (\<lambda>rule. ensure (\<not> rule \<noteq> ''quality_degraded'') ''non-Quality rule cannot be advisory'')"

definition ratchet_reported :: "string list \<Rightarrow> json list \<Rightarrow> string list \<Rightarrow> string \<Rightarrow> unit \<Rightarrow> string + unit" where
  "ratchet_reported blocking_rules advisories failed rule u =
     (let reported = (if rule = ''quality_degraded'' then advisories \<noteq> [] else rule \<in> set blocking_rules) in
      ensure (\<not> (rule \<in> set failed) \<noteq> reported) ''gate diagnostics contradict ratchet comparisons'')"

definition gate_verdict :: "json list \<Rightarrow> bool \<Rightarrow> string" where
  "gate_verdict blocking missing =
     (if blocking = [] then ''pass'' else if missing \<and> length blocking = 1 then ''unknown'' else ''fail'')"

definition validate_result :: "json \<Rightarrow> string + unit" where
  "validate_result value =
     and_then (ensure (\<not> (\<not> has_fields value 10 \<or> jidx value ''schema'' \<noteq> JStr GATE_RESULT_SCHEMA))
       ''unsupported Sentrux gate result schema'') (\<lambda>_.
     and_then (validate_identity (jidx value ''policy'')) (\<lambda>_.
     and_then (ensure (\<not> jidx value ''measurement'' \<noteq> measurement) ''Sentrux gate measurement identity mismatch'') (\<lambda>_.
     and_then (gate_metadata (jidx value ''current'') False) (\<lambda>_.
     and_then (ok_or (as_str (jidx value ''ruleScope'')) ''missing gate ruleScope'') (\<lambda>scope.
     and_then (ensure (scope \<in> {''baseline_ratchet'', ''static_and_ratchet''}) ''unsupported gate ruleScope'') (\<lambda>_.
     and_then (ok_or (jget value ''baseline'') ''missing baseline identity'') (\<lambda>baseline.
     and_then (if \<not> is_null baseline then gate_metadata baseline True else Ok ()) (\<lambda>_.
     and_then (ok_or (as_array (jidx value ''blockingViolations'')) ''missing blocking violations'') (\<lambda>blocking.
     and_then (ok_or (as_array (jidx value ''advisories'')) ''missing advisories'') (\<lambda>advisories.
     and_then (try_fold blocking_rule blocking []) (\<lambda>blocking_rules.
     and_then (try_fold advisory_rule advisories ()) (\<lambda>_.
     and_then (ensure (\<not> length advisories > 1) ''duplicate Quality advisory'') (\<lambda>_.
     and_then (ok_or (as_array (jidx value ''comparisons'')) ''missing gate comparisons'') (\<lambda>comparisons.
     and_then (try_fold (gate_comparison scope baseline blocking) comparisons ([], [])) (\<lambda>(seen, failed).
     and_then (ensure (\<not> (\<not> is_null baseline \<and> \<not> list_all (\<lambda>rule. rule \<in> set seen) RATCHETS))
       ''gate result omits a required ratchet comparison'') (\<lambda>_.
     and_then (try_fold (ratchet_reported blocking_rules advisories failed) RATCHETS ()) (\<lambda>_.
     and_then (ensure (list_all (\<lambda>rule. \<not> (rule \<in> set STATIC_RULES \<and> rule \<notin> set failed)) blocking_rules)
       ''blocking static violation lacks a comparison'') (\<lambda>_.
     let missing = ''baseline_missing'' \<in> set blocking_rules; mismatch = ''baseline_engine_mismatch'' \<in> set blocking_rules in
     and_then (ensure (\<not> (is_null baseline \<noteq> (missing \<or> mismatch) \<or> (missing \<and> mismatch)))
       ''baseline identity contradicts baseline diagnostics'') (\<lambda>_.
     ensure (\<not> jidx value ''verdict'' \<noteq> JStr (gate_verdict blocking missing))
       ''gate verdict contradicts blocking diagnostics'')))))))))))))))))))"

section \<open>Consumers\<close>

text \<open>The only match of an iterator: \<open>next\<close> gives one and then none.\<close>

definition only_kind :: "string \<Rightarrow> json list \<Rightarrow> json option" where
  "only_kind kind items = (case filter (\<lambda>item. jidx item ''kind'' = JStr kind) items of [item] \<Rightarrow> Some item | _ \<Rightarrow> None)"

definition kind_admitted :: "json \<Rightarrow> json list \<Rightarrow> json list \<Rightarrow> json list \<Rightarrow> string \<Rightarrow> bool" where
  "kind_admitted structural results rules advisories kind =
     (case (only_kind kind results, only_kind kind rules) of
        (Some entry', Some rule) \<Rightarrow>
          (let result = jidx entry' ''admission'' in
           \<not> (\<not> is_ok (validate_result result) \<or> jidx result ''policy'' \<noteq> jidx structural ''gatePolicy'' \<or>
              jidx (jidx result ''current'') ''sourceCommit'' \<noteq> jidx (jidx structural ''provenance'') ''sourceRevision'' \<or>
              (kind = ''sentrux_gate'' \<and> jidx result ''ruleScope'' \<noteq> JStr ''baseline_ratchet'') \<or>
              (kind = ''sentrux_check'' \<and> jidx result ''ruleScope'' \<noteq> JStr ''static_and_ratchet'') \<or>
              as_str (jidx result ''verdict'') \<notin> {Some ''pass'', Some ''fail''} \<or> jidx rule ''verdict'' \<noteq> jidx result ''verdict'') \<and>
           list_all (\<lambda>item. item \<in> set advisories) (the (as_array (jidx result ''advisories''))))
      | _ \<Rightarrow> False)"

definition current_structural_policy :: "json \<Rightarrow> json \<Rightarrow> bool" where
  "current_structural_policy structural snapshot =
     (if jidx structural ''schema'' \<noteq> JStr ''code-intel-structural-evidence-payload.v2'' \<or> \<not> nonempty_text_value snapshot \<or>
         jidx structural ''snapshotIdentity'' \<noteq> snapshot \<or> \<not> is_ok (validate_identity (jidx structural ''gatePolicy'')) then False
      else case (as_array (jidx structural ''gateResults''), as_array (jidx structural ''rules''), as_array (jidx structural ''advisories'')) of
        (Some results, Some rules, Some advisories) \<Rightarrow>
          length results = 2 \<and> list_all (kind_admitted structural results rules advisories) [''sentrux_gate'', ''sentrux_check''] \<and>
          distinct advisories \<and>
          list_all (\<lambda>advisory. list_ex (\<lambda>entry'. advisory \<in> set (the (as_array (jidx (jidx entry' ''admission'') ''advisories'')))) results)
            advisories
      | _ \<Rightarrow> False)"

definition current_capability :: "json \<Rightarrow> bool" where
  "current_capability payload \<longleftrightarrow>
     jidx payload ''schema'' = JStr ''code-intel-sentrux-capability-artifact.v2'' \<and> jidx payload ''contractVersion'' = ju64 2 \<and>
     is_ok (validate_identity (jidx payload ''gatePolicy'')) \<and> jidx (jidx payload ''freshness'') ''status'' = JStr ''current'' \<and>
     (case as_str (jidx payload ''snapshotIdentity'') of
        Some snapshot \<Rightarrow> snapshot \<noteq> [] \<and> jidx (jidx payload ''inputs'') ''snapshotIdentity'' = JStr snapshot \<and>
          jidx (jidx payload ''freshness'') ''consumedSnapshotIdentity'' = JStr snapshot
      | None \<Rightarrow> False) \<and>
     (let provider = jidx payload ''provider''; mode = as_str (jidx provider ''mode'') in
      if mode = Some ''builtin'' then
        jidx provider ''id'' = jidx measurement ''engineId'' \<and> jidx provider ''version'' = jidx measurement ''engineVersion''
      else if mode = Some ''external'' then
        jidx provider ''id'' = JStr ''sentrux.command-adapter'' \<and> jidx provider ''version'' = JStr ''1.0.0''
      else if mode = Some ''lite_fallback'' then
        jidx provider ''id'' = JStr ''sentrux.lite-capabilities'' \<and> jidx provider ''version'' = JStr ''1.0.0''
      else False)"

definition gate_admission :: "json \<Rightarrow> json option" where
  "gate_admission payload =
     (if \<not> current_capability payload \<or> jidx payload ''authority'' \<noteq> JStr ''authoritative'' then None
      else let command = jidx (jidx payload ''outputs'') ''command'' in
        (case jget command ''admission'' of
           None \<Rightarrow> None
         | Some result \<Rightarrow>
             if \<not> is_ok (validate_result result) then None
             else if jidx result ''policy'' \<noteq> jidx payload ''gatePolicy'' \<or>
               jidx command ''violations'' \<noteq> jidx result ''blockingViolations'' \<or> jidx command ''advisories'' \<noteq> jidx result ''advisories'' \<or>
               jidx (jidx payload ''outputs'') ''verdict'' \<noteq> jidx result ''verdict'' \<or>
               as_str (jidx payload ''status'') \<notin> {Some ''succeeded'', Some ''failed'', Some ''degraded''}
             then None else Some result))"

definition capability_admission :: "json \<Rightarrow> json" where
  "capability_admission payload =
     (case gate_admission payload of
        Some result \<Rightarrow> jobj [(''verdict'', jidx result ''verdict''), (''policy'', jidx result ''policy''),
          (''ruleScope'', jidx result ''ruleScope''), (''blockingViolations'', jidx result ''blockingViolations''),
          (''advisories'', jidx result ''advisories'')]
      | None \<Rightarrow> jobj [(''verdict'', JStr ''unknown''),
          (''reason'', JStr ''No authoritative current approved-policy typed gate result; command exit status and raw Quality are not admission.'')])"

end
