(* ===== verification/Gate_Props.thy ===== *)
theory Gate_Props
  imports Gate_Policy
begin

text \<open>
  What an accepted gate result says: its verdict is the one that the measured values before and after demand.
\<close>

section \<open>The specification\<close>

text \<open>A ratchet regresses: a new path, a higher score with more edges, a lower quality, a higher count.\<close>

definition regression :: "string \<Rightarrow> json \<Rightarrow> json \<Rightarrow> bool" where
  "regression rule before' after' \<longleftrightarrow>
     (if rule = ''god_files_increased'' then
        \<exists>p. JStr p \<in> set (the (as_array after')) \<and> JStr p \<notin> set (the (as_array before'))
      else if rule = ''coupling_increased'' then
        f64_less (the (as_f64 (jidx before' ''couplingScore''))) (the (as_f64 (jidx after' ''couplingScore''))) \<and>
        the (as_u64 (jidx before' ''importEdges'')) < the (as_u64 (jidx after' ''importEdges''))
      else if rule = ''quality_degraded'' then f64_less (the (as_f64 after')) (the (as_f64 before'))
      else f64_less (the (as_f64 before')) (the (as_f64 after')))"

definition compared :: "json list \<Rightarrow> string \<Rightarrow> bool \<Rightarrow> bool" where
  "compared comparisons rule r \<longleftrightarrow>
     (\<exists>c \<in> set comparisons. jidx c ''rule'' = JStr rule \<and> regression rule (jidx c ''before'') (jidx c ''after'') = r)"

section \<open>Comparisons\<close>

lemma gate_paths_set:
  assumes "gate_paths v = Inr ps"
  shows "JStr ` set ps = set (the (as_array v))"
proof -
  have all: "try_fold gate_path entries acc = Inr ps \<Longrightarrow> JStr ` set ps = set entries \<union> JStr ` set acc" for entries acc
  proof (induction entries arbitrary: acc)
    case (Cons v entries)
    then obtain acc' where step: "gate_path v acc = Inr acc'" "try_fold gate_path entries acc' = Inr ps"
      unfolding try_fold_Cons_Inr by blast
    from step(1) obtain p where "v = JStr p" "acc' = acc @ [p]"
      by (auto simp: gate_path_def and_then_eq_Inr as_str_eq split: if_splits)
    then show ?case using Cons.IH [OF step(2)] by auto
  qed simp
  obtain entries where "as_array v = Some entries" "try_fold gate_path entries [] = Inr ps"
    using assms unfolding gate_paths_def and_then_eq_Inr ok_or_eq_Inr by blast
  then show ?thesis using all by simp
qed

lemma coupling_inputs_Inr: "coupling_inputs v = Inr (score, edges) \<Longrightarrow>
    as_f64 (jidx v ''couplingScore'') = Some score \<and> as_u64 (jidx v ''importEdges'') = Some edges"
  unfolding coupling_inputs_def and_then_eq_Inr ok_or_eq_Inr by (auto split: option.splits if_splits)

lemma ratchet_regression:
  assumes "ratchet_regressed rule before' after' = Inr r"
  shows "r = regression rule before' after'"
proof (cases "rule = ''god_files_increased''")
  case True
  then obtain bs as where paths: "gate_paths before' = Inr bs" "gate_paths after' = Inr as" "r = (\<not> set as \<subseteq> set bs)"
    using assms by (auto simp: ratchet_regressed_def and_then_eq_Inr)
  have "regression rule before' after' \<longleftrightarrow> (\<exists>p. p \<in> set as \<and> p \<notin> set bs)"
    using True by (auto simp: regression_def gate_paths_set [OF paths(1), symmetric] gate_paths_set [OF paths(2), symmetric])
  then show ?thesis using paths(3) by blast
next
  case False
  then show ?thesis
    using assms unfolding ratchet_regressed_def regression_def
    by (cases "rule = ''coupling_increased''") (auto simp: and_then_eq_Inr dest!: coupling_inputs_Inr split: if_splits)
qed

lemma gate_comparison_Inr:
  assumes "gate_comparison scope baseline blocking c (seen, failed) = Inr acc"
  obtains rule r where "jidx c ''rule'' = JStr rule" "rule \<in> set RATCHETS \<or> rule \<in> set STATIC_RULES"
    "rule \<in> set RATCHETS \<longrightarrow> rule \<notin> set seen \<and> \<not> is_null baseline \<and> r = regression rule (jidx c ''before'') (jidx c ''after'')"
    "rule \<notin> set RATCHETS \<longrightarrow> r \<and> (\<exists>v \<in> set blocking. violation_rule v = Inr rule)"
    "acc = (if rule \<in> set RATCHETS then rule # seen else seen, if r then rule # failed else failed)"
proof -
  obtain rule r where c: "as_str (jidx c ''rule'') = Some rule"
    "\<not> (\<not> has_fields c 5 \<or> jget c ''before'' = None \<or> (rule \<notin> set RATCHETS \<and> rule \<notin> set STATIC_RULES))"
    "\<not> (rule \<in> set RATCHETS \<and> (rule \<in> set seen \<or> is_null baseline))"
    "(if rule \<in> set RATCHETS then ratchet_regressed rule (jidx c ''before'') (jidx c ''after'')
      else static_regressed scope blocking rule c) = Inr r"
    "acc = (if rule \<in> set RATCHETS then rule # seen else seen, if r then rule # failed else failed)"
    using assms unfolding gate_comparison_def prod.case Let_def and_then_eq_Inr ensure_eq_Inr ok_or_eq_Inr sum.inject by blast
  have static: "rule \<notin> set RATCHETS \<longrightarrow> r \<and> (\<exists>v \<in> set blocking. violation_rule v = Inr rule)"
    using c(4) by (auto simp: static_regressed_def and_then_eq_Inr split: if_splits)
  show thesis
    by (rule that [of rule r]) (use c static ratchet_regression in \<open>auto simp: as_str_eq split: if_splits\<close>)
qed

definition named :: "json list \<Rightarrow> string \<Rightarrow> bool" where
  "named comparisons rule \<longleftrightarrow> (\<exists>c \<in> set comparisons. jidx c ''rule'' = JStr rule)"

lemma named_Cons: "named (c # cs) rule \<longleftrightarrow> jidx c ''rule'' = JStr rule \<or> named cs rule"
  by (auto simp: named_def)

lemma compared_Cons: "compared (c # cs) rule r \<longleftrightarrow>
    jidx c ''rule'' = JStr rule \<and> regression rule (jidx c ''before'') (jidx c ''after'') = r \<or> compared cs rule r"
  by (auto simp: compared_def)

lemma compared_named: "compared cs rule r \<Longrightarrow> named cs rule"
  by (auto simp: compared_def named_def)

text \<open>What the loop over the comparisons leaves, from any state.\<close>

definition tallied :: "json \<Rightarrow> json list \<Rightarrow> json list \<Rightarrow> string list \<times> string list \<Rightarrow> string list \<times> string list \<Rightarrow> bool" where
  "tallied baseline blocking cs acc acc' \<longleftrightarrow>
     (\<forall>rule \<in> set RATCHETS.
        (rule \<in> set (fst acc') \<longleftrightarrow> rule \<in> set (fst acc) \<or> named cs rule) \<and>
        (rule \<in> set (snd acc') \<longleftrightarrow> rule \<in> set (snd acc) \<or> compared cs rule True) \<and>
        (named cs rule \<longrightarrow> rule \<notin> set (fst acc) \<and> \<not> is_null baseline) \<and>
        \<not> (compared cs rule True \<and> compared cs rule False)) \<and>
     (\<forall>rule. rule \<notin> set RATCHETS \<longrightarrow>
        (rule \<in> set (snd acc') \<longleftrightarrow> rule \<in> set (snd acc) \<or> named cs rule) \<and>
        (named cs rule \<longrightarrow> (\<exists>v \<in> set blocking. violation_rule v = Inr rule)))"

lemma comparisons_tallied:
  "try_fold (gate_comparison scope baseline blocking) cs acc = Inr acc' \<Longrightarrow> tallied baseline blocking cs acc acc'"
proof (induction cs arbitrary: acc)
  case (Cons c cs)
  then obtain next' where step: "gate_comparison scope baseline blocking c acc = Inr next'"
    "try_fold (gate_comparison scope baseline blocking) cs next' = Inr acc'"
    unfolding try_fold_Cons_Inr by blast
  obtain seen failed where acc: "acc = (seen, failed)" by (cases acc)
  obtain rule r where c: "jidx c ''rule'' = JStr rule" and "rule \<in> set RATCHETS \<or> rule \<in> set STATIC_RULES"
    and c': "rule \<in> set RATCHETS \<longrightarrow> rule \<notin> set seen \<and> \<not> is_null baseline \<and> r = regression rule (jidx c ''before'') (jidx c ''after'')"
    "rule \<notin> set RATCHETS \<longrightarrow> r \<and> (\<exists>v \<in> set blocking. violation_rule v = Inr rule)"
    "next' = (if rule \<in> set RATCHETS then rule # seen else seen, if r then rule # failed else failed)"
    by (rule gate_comparison_Inr [OF step(1) [unfolded acc]])
  note IH = Cons.IH [OF step(2), unfolded tallied_def]
  show ?case
    unfolding tallied_def
  proof (intro conjI ballI allI impI)
    fix x assume x: "x \<in> set RATCHETS"
    show "x \<in> set (fst acc') \<longleftrightarrow> x \<in> set (fst acc) \<or> named (c # cs) x"
      using IH x c c' acc by (auto simp: named_Cons)
    show "x \<in> set (snd acc') \<longleftrightarrow> x \<in> set (snd acc) \<or> compared (c # cs) x True"
      using IH x c c' acc by (auto simp: compared_Cons)
    show "\<not> (compared (c # cs) x True \<and> compared (c # cs) x False)"
    proof (cases "x = rule")
      case True
      then have "\<not> named cs x" using IH x c' by auto
      then have "\<not> compared cs x b" for b using compared_named by blast
      then show ?thesis by (auto simp: compared_Cons)
    next
      case False
      then show ?thesis using IH x c by (auto simp: compared_Cons)
    qed
    assume "named (c # cs) x"
    then show "x \<notin> set (fst acc)" "\<not> is_null baseline"
      using IH x c c' acc by (auto simp: named_Cons split: if_splits)
  next
    fix x assume x: "x \<notin> set RATCHETS"
    show "x \<in> set (snd acc') \<longleftrightarrow> x \<in> set (snd acc) \<or> named (c # cs) x"
      using IH x c c' acc by (auto simp: named_Cons)
    assume "named (c # cs) x"
    then show "\<exists>v \<in> set blocking. violation_rule v = Inr x"
      using IH x c c' by (auto simp: named_Cons)
  qed
qed (simp add: tallied_def named_def compared_def)

section \<open>Results\<close>

text \<open>A gate result passes on what it measured: there is a baseline, no static rule is violated, and none of the ratchets but
  quality regressed.\<close>

definition listed :: "json \<Rightarrow> string \<Rightarrow> json list" where
  "listed value key = the (as_array (jidx value key))"

definition measured_pass :: "json \<Rightarrow> bool" where
  "measured_pass result \<longleftrightarrow>
     jidx result ''baseline'' \<noteq> JNull \<and> (\<forall>rule \<in> set STATIC_RULES. \<not> named (listed result ''comparisons'') rule) \<and>
     (\<forall>rule \<in> {''coupling_increased'', ''cycles_increased'', ''god_files_increased''}.
        compared (listed result ''comparisons'') rule False \<and> \<not> compared (listed result ''comparisons'') rule True)"

lemma blocking_rules_Inr:
  assumes "try_fold blocking_rule blocking [] = Inr rules"
  shows "set rules = {rule. \<exists>v \<in> set blocking. violation_rule v = Inr rule}" "rules = [] \<longleftrightarrow> blocking = []"
    "set rules \<subseteq> set (tl RATCHETS) \<union> set STATIC_RULES \<union> {''baseline_missing'', ''baseline_engine_mismatch''}"
proof -
  have "try_fold blocking_rule vs acc = Inr rules \<Longrightarrow>
      set rules = {rule. \<exists>v \<in> set vs. violation_rule v = Inr rule} \<union> set acc \<and> length rules = length vs + length acc \<and>
      set rules \<subseteq> set (tl RATCHETS) \<union> set STATIC_RULES \<union> {''baseline_missing'', ''baseline_engine_mismatch''} \<union> set acc" for vs acc
  proof (induction vs arbitrary: acc)
    case (Cons v vs)
    then obtain acc' where step: "blocking_rule v acc = Inr acc'" "try_fold blocking_rule vs acc' = Inr rules"
      unfolding try_fold_Cons_Inr by blast
    from step(1) obtain rule where "violation_rule v = Inr rule" "acc' = rule # acc"
      "rule \<in> set (tl RATCHETS) \<union> set STATIC_RULES \<union> {''baseline_missing'', ''baseline_engine_mismatch''}"
      unfolding blocking_rule_def and_then_eq_Inr by (auto split: if_splits)
    then show ?case using Cons.IH [OF step(2)] by auto
  qed auto
  from this [OF assms] show "set rules = {rule. \<exists>v \<in> set blocking. violation_rule v = Inr rule}" "rules = [] \<longleftrightarrow> blocking = []"
    "set rules \<subseteq> set (tl RATCHETS) \<union> set STATIC_RULES \<union> {''baseline_missing'', ''baseline_engine_mismatch''}"
    by (auto simp del: length_0_conv simp: length_0_conv [symmetric])
qed

lemma reported_Inr:
  assumes "try_fold (ratchet_reported rules advisories failed) RATCHETS () = Inr u"
  shows "''quality_degraded'' \<in> set failed \<longleftrightarrow> advisories \<noteq> []"
    "rule \<in> {''coupling_increased'', ''cycles_increased'', ''god_files_increased''} \<Longrightarrow> rule \<in> set failed \<longleftrightarrow> rule \<in> set rules"
  using assms by (auto simp: RATCHETS_def ratchet_reported_def and_then_eq_Inr Let_def)

lemma validate_result_Inr:
  assumes "validate_result v = Inr u"
  obtains blocking advisories comparisons rules seen failed scope where
    "jget v ''baseline'' \<noteq> None" "as_array (jidx v ''blockingViolations'') = Some blocking" "as_array (jidx v ''advisories'') = Some advisories"
    "try_fold blocking_rule blocking [] = Inr rules" "as_array (jidx v ''comparisons'') = Some comparisons"
    "try_fold (gate_comparison scope (jidx v ''baseline'') blocking) comparisons ([], []) = Inr (seen, failed)"
    "jidx v ''baseline'' \<noteq> JNull \<Longrightarrow> set RATCHETS \<subseteq> set seen"
    "try_fold (ratchet_reported rules advisories failed) RATCHETS () = Inr ()"
    "\<forall>rule \<in> set rules. rule \<in> set STATIC_RULES \<longrightarrow> rule \<in> set failed"
    "jidx v ''baseline'' = JNull \<longleftrightarrow> ''baseline_missing'' \<in> set rules \<or> ''baseline_engine_mismatch'' \<in> set rules"
    "jidx v ''verdict'' = JStr (gate_verdict blocking (''baseline_missing'' \<in> set rules))"
proof -
  obtain scope baseline blocking advisories rules comparisons tally where
    r: "jget v ''baseline'' = Some baseline" "as_array (jidx v ''blockingViolations'') = Some blocking"
    "as_array (jidx v ''advisories'') = Some advisories" "try_fold blocking_rule blocking [] = Inr rules"
    "as_array (jidx v ''comparisons'') = Some comparisons" "try_fold (gate_comparison scope baseline blocking) comparisons ([], []) = Inr tally"
    and rest: "(case tally of (seen, failed) \<Rightarrow>
     and_then (ensure (\<not> (\<not> is_null baseline \<and> \<not> list_all (\<lambda>rule. rule \<in> set seen) RATCHETS))
       ''gate result omits a required ratchet comparison'') (\<lambda>_.
     and_then (try_fold (ratchet_reported rules advisories failed) RATCHETS ()) (\<lambda>_.
     and_then (ensure (list_all (\<lambda>rule. \<not> (rule \<in> set STATIC_RULES \<and> rule \<notin> set failed)) rules)
       ''blocking static violation lacks a comparison'') (\<lambda>_.
     and_then (ensure (\<not> (is_null baseline \<noteq> (''baseline_missing'' \<in> set rules \<or> ''baseline_engine_mismatch'' \<in> set rules) \<or>
          (''baseline_missing'' \<in> set rules \<and> ''baseline_engine_mismatch'' \<in> set rules)))
       ''baseline identity contradicts baseline diagnostics'') (\<lambda>_.
     ensure (\<not> jidx v ''verdict'' \<noteq> JStr (gate_verdict blocking (''baseline_missing'' \<in> set rules)))
       ''gate verdict contradicts blocking diagnostics''))))) = Inr u"
    using assms unfolding validate_result_def Let_def and_then_eq_Inr ok_or_eq_Inr by blast
  obtain seen failed where tally: "tally = (seen, failed)" by (cases tally)
  have baseline: "jidx v ''baseline'' = baseline" using r(1) by (simp add: jidx_def)
  have checks: "\<not> (\<not> is_null baseline \<and> \<not> list_all (\<lambda>rule. rule \<in> set seen) RATCHETS)"
    "\<exists>u. try_fold (ratchet_reported rules advisories failed) RATCHETS () = Inr u"
    "list_all (\<lambda>rule. \<not> (rule \<in> set STATIC_RULES \<and> rule \<notin> set failed)) rules"
    "\<not> (is_null baseline \<noteq> (''baseline_missing'' \<in> set rules \<or> ''baseline_engine_mismatch'' \<in> set rules) \<or>
          (''baseline_missing'' \<in> set rules \<and> ''baseline_engine_mismatch'' \<in> set rules))"
    "\<not> jidx v ''verdict'' \<noteq> JStr (gate_verdict blocking (''baseline_missing'' \<in> set rules))"
    using rest unfolding tally prod.case and_then_eq_Inr ensure_eq_Inr by blast+
  show thesis
    by (rule that [OF _ r(2-5) r(6) [folded baseline, unfolded tally]])
       (use r(1) checks baseline in \<open>auto simp: list_all_iff is_null_def subset_iff\<close>)
qed

lemma rule_lists:
  "set RATCHETS \<inter> set STATIC_RULES = {}" "''baseline_missing'' \<notin> set RATCHETS \<union> set STATIC_RULES"
  "''baseline_engine_mismatch'' \<notin> set RATCHETS \<union> set STATIC_RULES"
  "set (tl RATCHETS) = {''coupling_increased'', ''cycles_increased'', ''god_files_increased''}"
  "set RATCHETS = insert ''quality_degraded'' (set (tl RATCHETS))"
  by (simp_all add: RATCHETS_def STATIC_RULES_def)

text \<open>C11: an accepted gate result passes exactly when a baseline was there, no static rule was violated, and each of the
  blocking ratchets was compared once and did not regress by the values before and after, whatever happened to quality; it has
  an advisory exactly when quality fell; and it is unknown exactly when the missing baseline is its only violation.\<close>

theorem gate_verdict_measured:
  assumes "validate_result result = Inr u"
  shows "(jidx result ''verdict'' = JStr ''pass'' \<longleftrightarrow> measured_pass result) \<and>
    (listed result ''advisories'' \<noteq> [] \<longleftrightarrow> compared (listed result ''comparisons'') ''quality_degraded'' True) \<and>
    (jidx result ''verdict'' = JStr ''unknown'' \<longleftrightarrow>
       (\<exists>v. listed result ''blockingViolations'' = [v] \<and> violation_rule v = Inr ''baseline_missing''))"
proof -
  obtain blocking advisories comparisons rules seen failed scope where r:
    "as_array (jidx result ''blockingViolations'') = Some blocking" "as_array (jidx result ''advisories'') = Some advisories"
    "try_fold blocking_rule blocking [] = Inr rules" "as_array (jidx result ''comparisons'') = Some comparisons"
    "try_fold (gate_comparison scope (jidx result ''baseline'') blocking) comparisons ([], []) = Inr (seen, failed)"
    and seen: "jidx result ''baseline'' \<noteq> JNull \<longrightarrow> set RATCHETS \<subseteq> set seen"
    and reported: "try_fold (ratchet_reported rules advisories failed) RATCHETS () = Inr ()"
    and static: "\<forall>rule \<in> set rules. rule \<in> set STATIC_RULES \<longrightarrow> rule \<in> set failed"
    and baseline: "jidx result ''baseline'' = JNull \<longleftrightarrow> ''baseline_missing'' \<in> set rules \<or> ''baseline_engine_mismatch'' \<in> set rules"
    and verdict: "jidx result ''verdict'' = JStr (gate_verdict blocking (''baseline_missing'' \<in> set rules))"
    using validate_result_Inr [OF assms] by metis
  note rules = blocking_rules_Inr [OF r(3)]
  have tally: "tallied (jidx result ''baseline'') blocking comparisons ([], []) (seen, failed)"
    by (rule comparisons_tallied [OF r(5)])
  have ratchet: "rule \<in> set seen \<longleftrightarrow> named comparisons rule" "rule \<in> set failed \<longleftrightarrow> compared comparisons rule True"
    "named comparisons rule \<Longrightarrow> compared comparisons rule True \<longleftrightarrow> \<not> compared comparisons rule False"
    if "rule \<in> set RATCHETS" for rule
    using tally that by (auto simp: tallied_def compared_def named_def)
  have statics: "rule \<in> set failed \<longleftrightarrow> named comparisons rule" "named comparisons rule \<Longrightarrow> rule \<in> set rules"
    if "rule \<in> set STATIC_RULES" for rule
    using tally that rule_lists(1) by (auto simp: tallied_def rules(1))
  have blocked: "rule \<in> set rules \<longleftrightarrow> compared comparisons rule True" if "rule \<in> set (tl RATCHETS)" for rule
  proof -
    have "rule \<in> set RATCHETS" "rule \<in> {''coupling_increased'', ''cycles_increased'', ''god_files_increased''}"
      using that unfolding rule_lists(5) rule_lists(4) by simp_all
    then show ?thesis using reported_Inr(2) [OF reported, of rule] ratchet(2) [of rule] by blast
  qed
  have "blocking = [] \<longleftrightarrow> measured_pass result"
  proof
    assume none: "blocking = []"
    then have "rules = []" using rules(2) by simp
    moreover from this have has: "jidx result ''baseline'' \<noteq> JNull" using baseline by simp
    ultimately have ratchets: "compared comparisons rule False" "\<not> compared comparisons rule True" if "rule \<in> set (tl RATCHETS)" for rule
      using seen ratchet [of rule] blocked [OF that] that rule_lists(5) by auto
    have "\<not> named comparisons rule" if "rule \<in> set STATIC_RULES" for rule
      using statics(2) [OF that] \<open>rules = []\<close> by auto
    then show "measured_pass result"
      unfolding measured_pass_def listed_def r(4) option.sel rule_lists(4) [symmetric] using has ratchets by blast
  next
    assume pass: "measured_pass result"
    then have spec: "jidx result ''baseline'' \<noteq> JNull" "rule \<in> set STATIC_RULES \<Longrightarrow> \<not> named comparisons rule"
      "rule \<in> set (tl RATCHETS) \<Longrightarrow> \<not> compared comparisons rule True" for rule
      unfolding measured_pass_def listed_def r(4) option.sel rule_lists(4) by blast+
    have "rule \<notin> set rules" for rule
    proof
      assume rule: "rule \<in> set rules"
      then consider "rule \<in> set (tl RATCHETS)" | "rule \<in> set STATIC_RULES" | "rule = ''baseline_missing'' \<or> rule = ''baseline_engine_mismatch''"
        using rules(3) by auto
      then show False
        using rule spec baseline blocked [of rule] static statics(1) [of rule] by cases metis+
    qed
    then have "rules = []" by (cases rules) auto
    then show "blocking = []" using rules(2) by simp
  qed
  moreover have "''baseline_missing'' \<in> set rules \<and> length blocking = 1 \<longleftrightarrow>
      (\<exists>v. blocking = [v] \<and> violation_rule v = Inr ''baseline_missing'')"
    by (cases blocking) (auto simp: rules(1))
  moreover have "listed result ''advisories'' \<noteq> [] \<longleftrightarrow> compared comparisons ''quality_degraded'' True"
    using reported_Inr(1) [OF reported] ratchet(2) [of "''quality_degraded''"] by (simp add: listed_def r(2) rule_lists(5))
  ultimately show ?thesis
    unfolding listed_def r option.sel verdict by (auto simp: gate_verdict_def)
qed

definition demo_quality :: json where
  "demo_quality = jobj [(''rule'', JStr ''quality_degraded''), (''message'', JStr ''lower''), (''targets'', jstrs [])]"

definition ratchet_row :: "string \<Rightarrow> string \<Rightarrow> json \<Rightarrow> json \<Rightarrow> string \<Rightarrow> json" where
  "ratchet_row rule disposition before' after' verdict = jobj [(''rule'', JStr rule), (''disposition'', JStr disposition),
     (''before'', before'), (''after'', after'), (''verdict'', JStr verdict)]"

definition demo_coupling :: "64 word \<Rightarrow> 64 word \<Rightarrow> json" where
  "demo_coupling score edges = jobj [(''couplingScore'', ju64 score), (''importEdges'', ju64 edges)]"

text \<open>Quality fell and the coupling score rose without new edges: an advisory, and a pass.\<close>

definition demo_comparisons :: "json list" where
  "demo_comparisons = [ratchet_row ''quality_degraded'' ''advisory'' (ju64 9000) (ju64 8000) ''fail'',
     ratchet_row ''coupling_increased'' ''blocking'' (demo_coupling 1 7) (demo_coupling 2 7) ''pass'',
     ratchet_row ''cycles_increased'' ''blocking'' (ju64 2) (ju64 1) ''pass'',
     ratchet_row ''god_files_increased'' ''blocking'' (jstrs [''a.rs'', ''b.rs'']) (jstrs [''b.rs'']) ''pass'']"

definition demo_gate_result :: json where
  "demo_gate_result = jobj [(''schema'', JStr GATE_RESULT_SCHEMA), (''policy'', gate_identity), (''measurement'', measurement),
     (''current'', jobj [(''scope'', JStr ''.''), (''sourceCommit'', JStr ''c'')]), (''ruleScope'', JStr ''static_and_ratchet''),
     (''baseline'', jobj [(''scope'', JStr ''.''), (''sourceCommit'', JStr ''b''), (''schema'', jidx measurement ''baselineSchema''),
        (''sha256'', JStr (sha256_hex []))]),
     (''blockingViolations'', JArr []), (''advisories'', JArr [demo_quality]), (''comparisons'', JArr demo_comparisons),
     (''verdict'', JStr ''pass'')]"

lemma row_fields:
  "jidx (ratchet_row r d b a v) ''rule'' = JStr r" "jidx (ratchet_row r d b a v) ''disposition'' = JStr d"
  "jidx (ratchet_row r d b a v) ''before'' = b" "jidx (ratchet_row r d b a v) ''after'' = a"
  "jidx (ratchet_row r d b a v) ''verdict'' = JStr v" "jget (ratchet_row r d b a v) ''before'' = Some b"
  "has_fields (ratchet_row r d b a v) 5"
  by (simp_all add: ratchet_row_def jidx_jobj jget_jobj) (simp add: has_fields_def jobj_def bt_of_list_def)

lemma demo_ratchets:
  "ratchet_regressed ''quality_degraded'' (ju64 9000) (ju64 8000) = Inr True"
  "ratchet_regressed ''coupling_increased'' (demo_coupling 1 7) (demo_coupling 2 7) = Inr False"
  "ratchet_regressed ''cycles_increased'' (ju64 2) (ju64 1) = Inr False"
  "ratchet_regressed ''god_files_increased'' (jstrs [''a.rs'', ''b.rs'']) (jstrs [''b.rs'']) = Inr False"
proof -
  show "ratchet_regressed ''quality_degraded'' (ju64 9000) (ju64 8000) = Inr True"
    "ratchet_regressed ''cycles_increased'' (ju64 2) (ju64 1) = Inr False"
    by (simp_all add: ratchet_regressed_def as_f64_small)
  have "has_fields (demo_coupling s e) 2" for s e
    by (simp add: has_fields_def demo_coupling_def jobj_def bt_of_list_def)
  then show "ratchet_regressed ''coupling_increased'' (demo_coupling 1 7) (demo_coupling 2 7) = Inr False"
    by (simp add: ratchet_regressed_def coupling_inputs_def) (simp add: demo_coupling_def jidx_jobj as_f64_small)
  show "ratchet_regressed ''god_files_increased'' (jstrs [''a.rs'', ''b.rs'']) (jstrs [''b.rs'']) = Inr False"
    by code_simp
qed

lemma demo_tally: "try_fold (gate_comparison ''static_and_ratchet'' (JObj o') []) demo_comparisons ([], []) =
    Inr (rev RATCHETS, [''quality_degraded''])"
  by (simp add: demo_comparisons_def gate_comparison_def row_fields demo_ratchets RATCHETS_def Let_def is_null_def)

lemma demo_gate_get:
  "has_fields demo_gate_result 10" "jidx demo_gate_result ''schema'' = JStr GATE_RESULT_SCHEMA"
  "jidx demo_gate_result ''policy'' = gate_identity" "jidx demo_gate_result ''measurement'' = measurement"
  "jidx demo_gate_result ''current'' = jobj [(''scope'', JStr ''.''), (''sourceCommit'', JStr ''c'')]"
  "jidx demo_gate_result ''ruleScope'' = JStr ''static_and_ratchet''"
  "jget demo_gate_result ''baseline'' = Some (jobj [(''scope'', JStr ''.''), (''sourceCommit'', JStr ''b''),
     (''schema'', jidx measurement ''baselineSchema''), (''sha256'', JStr (sha256_hex []))])"
  "jidx demo_gate_result ''blockingViolations'' = JArr []" "jidx demo_gate_result ''advisories'' = JArr [demo_quality]"
  "jidx demo_gate_result ''comparisons'' = JArr demo_comparisons" "jidx demo_gate_result ''verdict'' = JStr ''pass''"
  by (simp add: has_fields_def demo_gate_result_def jobj_def bt_of_list_def) (simp_all add: demo_gate_result_def jidx_jobj jget_jobj)

lemma demo_gate_parts:
  "validate_identity gate_identity = Inr ()" "gate_metadata (jobj [(''scope'', JStr ''.''), (''sourceCommit'', JStr ''c'')]) False = Inr ()"
  "gate_metadata (jobj [(''scope'', JStr ''.''), (''sourceCommit'', JStr ''b''), (''schema'', schema), (''sha256'', JStr (sha256_hex []))]) True =
     ensure (\<not> (schema \<noteq> jidx measurement ''baselineSchema'')) ''gate result has invalid baseline identity''"
  "advisory_rule demo_quality () = Inr ()"
proof -
  have "has_fields gate_identity 3" by (simp add: has_fields_def gate_identity_def jobj_def bt_of_list_def)
  then show "validate_identity gate_identity = Inr ()"
    by (simp add: validate_identity_def) (simp add: gate_identity_def jidx_jobj)
  show "gate_metadata (jobj [(''scope'', JStr ''.''), (''sourceCommit'', JStr ''c'')]) False = Inr ()" by code_simp
  have "has_fields (jobj [(''scope'', a), (''sourceCommit'', b), (''schema'', c), (''sha256'', d)]) 4" for a b c d
    by (simp add: has_fields_def jobj_def bt_of_list_def)
  then show "gate_metadata (jobj [(''scope'', JStr ''.''), (''sourceCommit'', JStr ''b''), (''schema'', schema),
       (''sha256'', JStr (sha256_hex []))]) True =
     ensure (\<not> (schema \<noteq> jidx measurement ''baselineSchema'')) ''gate result has invalid baseline identity''"
    using sha256_hex_digest [of "[]"] by (simp add: gate_metadata_def jidx_jobj nonempty_text_value_def is_digest_def)
  show "advisory_rule demo_quality () = Inr ()" by code_simp
qed

lemma demo_gate_accepted: "validate_result demo_gate_result = Inr ()"
proof -
  obtain b where b: "jobj [(''scope'', JStr ''.''), (''sourceCommit'', JStr ''b''), (''schema'', jidx measurement ''baselineSchema''),
     (''sha256'', JStr (sha256_hex []))] = JObj b"
    by (simp add: jobj_def)
  note parts = demo_gate_parts(3) [of "jidx measurement ''baselineSchema''", unfolded b]
  have reported: "try_fold (ratchet_reported [] [demo_quality] [''quality_degraded'']) RATCHETS () = Inr ()"
    by (simp add: RATCHETS_def ratchet_reported_def)
  show ?thesis
    unfolding validate_result_def
    by (simp add: demo_gate_get b parts demo_gate_parts demo_tally reported is_null_def list_all_iff gate_verdict_def)
qed

lemma gate_verdict_measured_witness:
  "validate_result demo_gate_result = Inr () \<and> measured_pass demo_gate_result \<and>
   compared demo_comparisons ''quality_degraded'' True"
  using gate_verdict_measured [OF demo_gate_accepted] by (simp add: demo_gate_accepted demo_gate_get listed_def)

end
