(* ===== verification/Method_Select.thy ===== *)
theory Method_Select
  imports Admissibility_Props
begin

text \<open>
  Selection of methods (crates/code-intel-cli/src/method\_select.rs): a rule table over the cards of the method
  catalog, and the proposals it makes from facts that admitted evidence carries.  A \<open>BTreeSet\<close> of strings is
  its sorted list.  The catalog is the list of its cards, which method\_catalog.rs has validated (theory Method\_Catalog).
\<close>

definition MAX_RULE_BYTES :: nat where "MAX_RULE_BYTES = 256 * 1024"

record contra_rule =
  cr_signal_id :: string
  cr_card_text :: string

record method_rule =
  mr_method_id :: string
  mr_signal_ids :: "string list"
  mr_contraindications :: "contra_rule list"

record bound_fact =
  bf_signal_ids :: "string list"
  bf_evidence_kinds :: "string list"

section \<open>Shapes\<close>

definition select_allowed :: "json \<Rightarrow> string \<Rightarrow> string list \<Rightarrow> string list \<Rightarrow> string + unit" where
  "select_allowed value context required optional =
     and_then (ok_or (as_object value) (context @ '' must be an object'')) (\<lambda>object.
     ensure (\<not> (\<not> set required \<subseteq> set (bt_keys object) \<or> \<not> set (bt_keys object) \<subseteq> set required \<union> set optional))
       (context @ '' fields differ from v1 contract''))"

definition select_exact :: "json \<Rightarrow> string \<Rightarrow> string list \<Rightarrow> string + unit" where
  "select_exact value context required = select_allowed value context required []"

definition select_array :: "json \<Rightarrow> string \<Rightarrow> string + json list" where
  "select_array value context =
     (case as_array value of
        Some items \<Rightarrow> if items \<noteq> [] then Ok items else Err (context @ '' must be a non-empty array'')
      | None \<Rightarrow> Err (context @ '' must be a non-empty array''))"

definition select_string :: "json \<Rightarrow> string \<Rightarrow> string + string" where
  "select_string value context =
     (case as_str value of
        Some t \<Rightarrow> if \<not> is_blank t then Ok t else Err (context @ '' must be a non-empty string'')
      | None \<Rightarrow> Err (context @ '' must be a non-empty string''))"

definition string_set_item :: "string \<Rightarrow> json \<Rightarrow> string list \<Rightarrow> string + string list" where
  "string_set_item context item found =
     and_then (select_string item context) (\<lambda>t.
     if t \<in> set found then Err (context @ '' contains duplicate '' @ t) else Ok (insort t found))"

definition select_string_set :: "json \<Rightarrow> string \<Rightarrow> bool \<Rightarrow> string + string list" where
  "select_string_set value context nonempty =
     and_then (ok_or (as_array value) (context @ '' must be an array'')) (\<lambda>items.
     and_then (ensure (\<not> (nonempty \<and> items = [])) (context @ '' must not be empty'')) (\<lambda>_.
     try_fold (string_set_item context) items []))"

definition at_index :: "string \<Rightarrow> nat \<Rightarrow> string" where
  "at_index context index = context @ ''['' @ show_nat index @ '']''"

section \<open>The rule table\<close>

definition text_of :: "json \<Rightarrow> string" where
  "text_of value = the (as_str value)"

definition items_of :: "json \<Rightarrow> json list" where
  "items_of value = the (as_array value)"

definition cards_by_id :: "json list \<Rightarrow> (string, json) btree" where
  "cards_by_id cards = bt_of_list (map (\<lambda>mcard. (text_of (jidx mcard ''id''), mcard)) cards)"

definition contra_entry :: "string \<Rightarrow> string list \<Rightarrow> nat \<times> json \<Rightarrow> string list \<times> contra_rule list \<Rightarrow> string + string list \<times> contra_rule list" where
  "contra_entry context declared en acc =
     (case (en, acc) of ((position, contra), (seen, rules)) \<Rightarrow>
        let here = at_index (context @ ''.contraindications'') position in
        and_then (select_exact contra here [''signalId'', ''cardText'']) (\<lambda>_.
        and_then (select_string (jidx contra ''signalId'') (here @ ''.signalId'')) (\<lambda>signal_id.
        and_then (select_string (jidx contra ''cardText'') (here @ ''.cardText'')) (\<lambda>card_text.
        and_then (ensure (\<not> (signal_id \<in> set seen \<or> card_text \<notin> set declared))
          (here @ '' must uniquely reference a C01 contraindication'')) (\<lambda>_.
        Ok (signal_id # seen, rules @ [\<lparr>cr_signal_id = signal_id, cr_card_text = card_text\<rparr>]))))))"

definition rule_entry :: "(string, json) btree \<Rightarrow> nat \<times> json \<Rightarrow> string option \<times> method_rule list \<Rightarrow> string + string option \<times> method_rule list" where
  "rule_entry cards en acc =
     (case (en, acc) of ((index, entry'), (previous, rules)) \<Rightarrow>
        let context = at_index ''rules'' index in
        and_then (select_exact entry' context [''methodId'', ''signalIds'', ''contraindications'']) (\<lambda>_.
        and_then (select_string (jidx entry' ''methodId'') (context @ ''.methodId'')) (\<lambda>method_id.
        and_then (ensure (\<not> (case previous of Some prior \<Rightarrow> prior \<ge> method_id | None \<Rightarrow> False))
          ''method selection rules must be strictly sorted by methodId'') (\<lambda>_.
        and_then (ok_or (bt_get cards method_id) (''rule references unknown C01 method '' @ method_id)) (\<lambda>mcard.
        let declared_signals = map (\<lambda>item. text_of (jidx item ''id'')) (items_of (jidx mcard ''problemSignals'')) in
        and_then (select_string_set (jidx entry' ''signalIds'') (context @ ''.signalIds'') True) (\<lambda>signal_ids.
        and_then (ensure (\<not> list_ex (\<lambda>signal. signal \<notin> set declared_signals) signal_ids)
          (context @ '' positive signals must reference C01 problemSignals'')) (\<lambda>_.
        let declared = map text_of (items_of (jidx mcard ''contraindications'')) in
        and_then (ok_or (as_array (jidx entry' ''contraindications'')) (context @ ''.contraindications must be an array'')) (\<lambda>contras.
        and_then (try_fold (contra_entry context declared) (enumerate 0 contras) ([], [])) (\<lambda>(_, contraindications).
        Ok (Some method_id,
            rules @ [\<lparr>mr_method_id = method_id, mr_signal_ids = signal_ids, mr_contraindications = contraindications\<rparr>]))))))))))"

definition validate_rules :: "json \<Rightarrow> json list \<Rightarrow> string + method_rule list" where
  "validate_rules document cards =
     and_then (select_exact document ''rule table'' [''schema'', ''rules'']) (\<lambda>_.
     and_then (ensure (\<not> jidx document ''schema'' \<noteq> JStr ''code-intel-method-selection-rules.v1'')
       ''method selection rule schema is invalid'') (\<lambda>_.
     let by_id = cards_by_id cards in
     and_then (select_array (jidx document ''rules'') ''rule table.rules'') (\<lambda>entries.
     and_then (try_fold (rule_entry by_id) (enumerate 0 entries) (None, [])) (\<lambda>(_, rules).
     and_then (ensure (\<not> length rules \<noteq> length by_id)
       ''rule table must contain exactly one rule for every C01 method card'') (\<lambda>_.
     Ok rules)))))"

definition load_rule_table ::
    "json_lib \<Rightarrow> (string \<Rightarrow> 'f \<Rightarrow> string + bool \<times> nat) \<Rightarrow> (string \<Rightarrow> 'f \<Rightarrow> string + u8 list) \<Rightarrow> string \<Rightarrow> json list \<Rightarrow> 'f \<Rightarrow> string + method_rule list" where
  "load_rule_table lib metadata read p cards st =
     and_then (map_err (\<lambda>e. ''inspect method selection rules: '' @ e) (metadata p st)) (\<lambda>(is_file, len).
     and_then (ensure (\<not> (\<not> is_file \<or> len > MAX_RULE_BYTES)) ''method selection rules must be a bounded regular file'') (\<lambda>_.
     and_then (map_err (\<lambda>e. ''read method selection rules: '' @ e) (read p st)) (\<lambda>bytes.
     and_then (map_err (\<lambda>e. ''parse method selection rules: '' @ e) (from_slice lib bytes)) (\<lambda>document.
     validate_rules document cards))))"

section \<open>Requests, admissions and facts\<close>

definition validate_select_request :: "json \<Rightarrow> string + unit" where
  "validate_select_request request =
     and_then (select_exact request ''request'' [''schema'', ''snapshotIdentity'', ''evaluatedAt'', ''maxEvidenceAgeSeconds'', ''admissions'',
       ''facts'', ''evidenceGaps'']) (\<lambda>_.
     ensure (\<not> (jidx request ''schema'' \<noteq> JStr ''code-intel-method-selection-request.v1'' \<or>
         \<not> text_is is_digest (jidx request ''snapshotIdentity'') \<or> as_u64 (jidx request ''evaluatedAt'') = None \<or>
         \<not> (case as_u64 (jidx request ''maxEvidenceAgeSeconds'') of Some v \<Rightarrow> v > 0 | None \<Rightarrow> False) \<or>
         \<not> is_array (jidx request ''admissions'') \<or> \<not> is_array (jidx request ''facts'') \<or> \<not> is_array (jidx request ''evidenceGaps'')))
       ''method selection request is invalid'')"

definition payload_fact :: "string \<Rightarrow> nat \<times> json \<Rightarrow> (string, bound_fact) btree \<Rightarrow> string + (string, bound_fact) btree" where
  "payload_fact context en facts =
     (case en of (index, item) \<Rightarrow>
        let here = at_index (context @ ''.payload.methodSelectionFacts'') index in
        and_then (select_exact item here [''id'', ''signalIds'', ''evidenceKinds'']) (\<lambda>_.
        and_then (select_string (jidx item ''id'') (here @ ''.id'')) (\<lambda>fact_id.
        and_then (select_string_set (jidx item ''signalIds'') (here @ ''.signalIds'') True) (\<lambda>signal_ids.
        and_then (select_string_set (jidx item ''evidenceKinds'') (here @ ''.evidenceKinds'') True) (\<lambda>evidence_kinds.
        and_then (ensure (bt_get facts fact_id = None) (here @ '' duplicates payload fact '' @ fact_id)) (\<lambda>_.
        Ok (bt_insert fact_id \<lparr>bf_signal_ids = signal_ids, bf_evidence_kinds = evidence_kinds\<rparr> facts)))))))"

definition payload_facts :: "json \<Rightarrow> string \<Rightarrow> string + (string, bound_fact) btree" where
  "payload_facts payload context =
     and_then (ok_or (as_object (jidx payload ''data'')) (context @ '' A04 payload data is invalid'')) (\<lambda>data.
     and_then (ok_or (case bt_get data ''methodSelectionFacts'' of Some v \<Rightarrow> as_array v | None \<Rightarrow> None)
       (context @ '' A04 payload has no methodSelectionFacts evidence'')) (\<lambda>values.
     try_fold (payload_fact context) (enumerate 0 values) []))"

type_synonym admitted_facts = "(string, (string, bound_fact) btree) btree"

definition admit_envelope ::
    "'f artifact_env \<Rightarrow> (json \<Rightarrow> u8 list) \<Rightarrow> string \<Rightarrow> 64 word \<Rightarrow> 64 word \<Rightarrow> string \<Rightarrow> 'f \<Rightarrow> nat \<times> json \<Rightarrow> admitted_facts \<Rightarrow> string + admitted_facts" where
  "admit_envelope env to_vec snapshot evaluated_at max_age root st en admissions =
     (case en of (index, envelope) \<Rightarrow>
        let context = at_index ''admissions'' index; request = jidx envelope ''request'' in
        and_then (select_exact envelope context [''request'', ''result'']) (\<lambda>_.
        and_then (ensure (\<not> (jidx request ''expectedSnapshotIdentity'' \<noteq> JStr snapshot \<or>
            as_u64 (jidx (jidx request ''policy'') ''evaluatedAt'') \<noteq> Some evaluated_at \<or>
            as_u64 (jidx (jidx request ''policy'') ''maxAgeSeconds'') \<noteq> Some max_age))
          (context @ '' A04 request differs from the C02 snapshot/freshness policy'')) (\<lambda>_.
        and_then (map_err (\<lambda>m. context @ '' A04 validation failed: '' @ m) (validate_for_consumer env to_vec request root st)) (\<lambda>validated.
        and_then (ensure (\<not> vd_result validated \<noteq> jidx envelope ''result'')
          (context @ '' A04 result is forged or does not match runtime validation'')) (\<lambda>_.
        and_then (ensure (\<not> (jidx (vd_result validated) ''status'' \<noteq> JStr ''admitted'' \<or>
            jidx (vd_result validated) ''domainVerdict'' \<noteq> JStr ''observed''))
          (context @ '' is not admitted observed evidence'')) (\<lambda>_.
        let identity = text_of (jidx (vd_result validated) ''admissionIdentity'') in
        and_then (payload_facts (vd_payload validated) context) (\<lambda>facts.
        and_then (ensure (\<not> facts = []) (context @ '' is an unused admission'')) (\<lambda>_.
        and_then (ensure (bt_get admissions identity = None) (''duplicate admission identity '' @ identity)) (\<lambda>_.
        Ok (bt_insert identity facts admissions))))))))))"

definition validate_admissions ::
    "'f artifact_env \<Rightarrow> (json \<Rightarrow> u8 list) \<Rightarrow> json \<Rightarrow> string \<Rightarrow> 64 word \<Rightarrow> 64 word \<Rightarrow> string \<Rightarrow> 'f \<Rightarrow> string + admitted_facts" where
  "validate_admissions env to_vec value snapshot evaluated_at max_age root st =
     try_fold (admit_envelope env to_vec snapshot evaluated_at max_age root st) (enumerate 0 (items_of value)) []"

definition bind_admission ::
    "admitted_facts \<Rightarrow> string \<Rightarrow> string \<Rightarrow> string list \<Rightarrow> string list \<Rightarrow> string \<Rightarrow> string list \<Rightarrow> string + string list" where
  "bind_admission admissions context fact_id fact_signals fact_evidence admission used =
     and_then (ok_or (bt_get admissions admission) (context @ '' references unknown admission '' @ admission)) (\<lambda>admitted.
     and_then (ok_or (bt_get admitted fact_id)
       (context @ '' fact '' @ fact_id @ '' is not present in A04 admitted payload '' @ admission)) (\<lambda>bound.
     and_then (ensure (\<not> (bf_signal_ids bound \<noteq> fact_signals \<or> bf_evidence_kinds bound \<noteq> fact_evidence))
       (context @ '' signal/evidence labels differ from A04 admitted payload '' @ admission)) (\<lambda>_.
     Ok (insort_insert admission used))))"

record fact_sets =
  ft_ids :: "string list"
  ft_signals :: "string list"
  ft_evidence :: "string list"
  ft_used :: "string list"

definition select_fact :: "admitted_facts \<Rightarrow> nat \<times> json \<Rightarrow> fact_sets \<Rightarrow> string + fact_sets" where
  "select_fact admissions en acc =
     (case en of (index, item) \<Rightarrow>
        let context = at_index ''facts'' index in
        and_then (select_exact item context [''id'', ''signalIds'', ''evidenceKinds'', ''admissionIds'']) (\<lambda>_.
        and_then (select_string (jidx item ''id'') (context @ ''.id'')) (\<lambda>fact_id.
        and_then (ensure (fact_id \<notin> set (ft_ids acc)) (''duplicate fact id '' @ fact_id)) (\<lambda>_.
        and_then (select_string_set (jidx item ''signalIds'') (context @ ''.signalIds'') True) (\<lambda>fact_signals.
        and_then (select_string_set (jidx item ''evidenceKinds'') (context @ ''.evidenceKinds'') True) (\<lambda>fact_evidence.
        and_then (select_string_set (jidx item ''admissionIds'') (context @ ''.admissionIds'') True) (\<lambda>ids.
        and_then (try_fold (bind_admission admissions context fact_id fact_signals fact_evidence) ids (ft_used acc)) (\<lambda>used.
        Ok \<lparr>ft_ids = fact_id # ft_ids acc, ft_signals = fold insort_insert fact_signals (ft_signals acc),
            ft_evidence = fold insort_insert fact_evidence (ft_evidence acc), ft_used = used\<rparr>))))))))"

definition validate_facts :: "json \<Rightarrow> admitted_facts \<Rightarrow> string + string list \<times> string list \<times> string list" where
  "validate_facts value admissions =
     and_then (try_fold (select_fact admissions) (enumerate 0 (items_of value))
       \<lparr>ft_ids = [], ft_signals = [], ft_evidence = [], ft_used = []\<rparr>) (\<lambda>acc.
     and_then (ensure (\<not> ft_used acc \<noteq> bt_keys admissions)
       (''unused admission identities are not referenced by facts: '' @
         join '','' (filter (\<lambda>k. k \<notin> set (ft_used acc)) (bt_keys admissions)))) (\<lambda>_.
     Ok (ft_signals acc, ft_evidence acc, ft_used acc)))"

section \<open>Selection\<close>

definition missing_evidence :: "json \<Rightarrow> string list \<Rightarrow> string list \<Rightarrow> string list" where
  "missing_evidence mcard available gaps =
     filter (\<lambda>kind. kind \<notin> set available \<or> kind \<in> set gaps)
       (map (\<lambda>item. text_of (jidx item ''id'')) (items_of (jidx mcard ''requiredEvidence'')))"

definition triggered_texts :: "method_rule \<Rightarrow> string list \<Rightarrow> string list" where
  "triggered_texts rule signals = map cr_card_text (filter (\<lambda>c. cr_signal_id c \<in> set signals) (mr_contraindications rule))"

definition match_outcome :: "string list \<Rightarrow> string list \<Rightarrow> string" where
  "match_outcome triggered missing =
     (if triggered \<noteq> [] then ''none'' else if missing \<noteq> [] then ''unknown'' else ''proposal'')"

definition method_match :: "(string, json) btree \<Rightarrow> string list \<Rightarrow> string list \<Rightarrow> string list \<Rightarrow> method_rule \<Rightarrow> json option" where
  "method_match cards signals available gaps rule =
     (let matched = filter (\<lambda>s. s \<in> set signals) (mr_signal_ids rule) in
      if matched = [] then None
      else let mcard = the (bt_get cards (mr_method_id rule));
          missing = missing_evidence mcard available gaps;
          triggered = triggered_texts rule signals;
          outcome = match_outcome triggered missing;
          confidence = (if outcome \<noteq> ''proposal'' then ''unknown'' else if length matched > 1 then ''high'' else ''medium'') in
        Some (jobj [(''methodId'', JStr (mr_method_id rule)), (''outcome'', JStr outcome), (''matchedSignals'', jstrs matched),
          (''missingEvidence'', jstrs missing), (''cost'', jidx mcard ''cost''), (''triggeredContraindications'', jstrs triggered),
          (''declaredContraindications'', jidx mcard ''contraindications''), (''confidenceRules'', jidx mcard ''confidenceRules''),
          (''selectionConfidence'', JStr confidence), (''matchScore'', ju64 (of_nat (length matched)))]))"

definition has_outcome :: "string \<Rightarrow> json \<Rightarrow> bool" where
  "has_outcome wanted item \<longleftrightarrow> jidx item ''outcome'' = JStr wanted"

definition overall_outcome :: "json list \<Rightarrow> string" where
  "overall_outcome found =
     (if list_ex (has_outcome ''proposal'') found then ''proposal''
      else if list_ex (has_outcome ''unknown'') found then ''unknown'' else ''none'')"

definition is_tie :: "json list \<Rightarrow> bool" where
  "is_tie found =
     (let scores = List.map_filter (\<lambda>item. as_u64 (jidx item ''matchScore'')) (filter (has_outcome ''proposal'') found) in
      if scores = [] then False
      else let top = fold max scores (hd scores) in
        length (filter (\<lambda>item. has_outcome ''proposal'' item \<and> jidx item ''matchScore'' = ju64 top) found) > 1)"

definition selection_result :: "json list \<Rightarrow> string list \<Rightarrow> json" where
  "selection_result found used =
     jobj [(''schema'', JStr ''code-intel-method-selection-result.v1''), (''outcome'', JStr (overall_outcome found)),
       (''tie'', JBool (is_tie found)), (''matches'', JArr found), (''sourceAdmissionIds'', jstrs used),
       (''executionPolicy'', JStr ''advisory_proposal_only_no_execution_or_decision'')]"

definition select_methods ::
    "'f artifact_env \<Rightarrow> (json \<Rightarrow> u8 list) \<Rightarrow> json \<Rightarrow> string \<Rightarrow> json list \<Rightarrow> method_rule list \<Rightarrow> 'f \<Rightarrow> string + json" where
  "select_methods env to_vec request artifact_root cards rules st =
     and_then (validate_select_request request) (\<lambda>_.
     let snapshot = text_of (jidx request ''snapshotIdentity'');
         evaluated_at = the (as_u64 (jidx request ''evaluatedAt''));
         max_age = the (as_u64 (jidx request ''maxEvidenceAgeSeconds'')) in
     and_then (validate_admissions env to_vec (jidx request ''admissions'') snapshot evaluated_at max_age artifact_root st) (\<lambda>admissions.
     and_then (validate_facts (jidx request ''facts'') admissions) (\<lambda>(signals, available, source_admissions).
     and_then (select_string_set (jidx request ''evidenceGaps'') ''evidenceGaps'' False) (\<lambda>gaps.
     and_then (ensure (\<not> list_ex (\<lambda>kind. kind \<in> set gaps) available)
       ''an evidence kind cannot be both available and an evidence gap'') (\<lambda>_.
     Ok (selection_result (List.map_filter (method_match (cards_by_id cards) signals available gaps) rules) source_admissions))))))"

end
