(* ===== verification/Method_Catalog.thy ===== *)
theory Method_Catalog
  imports Method_Select Rust_Path Staged_Artifact
begin

text \<open>
  The method catalog (crates/code-intel-cli/src/method\_catalog.rs): an index of cards, the files of the cards, and the
  checks of both.  An error is its message; the message about differing fields, which prints lists in debug form, is kept
  as its parts.  Names of directory entries are byte strings: where one is not UTF-8 the code compares its lossy form, which
  differs from every registered path just as the bytes do.
\<close>

definition MAX_DOCUMENT_BYTES :: nat where "MAX_DOCUMENT_BYTES = 256 * 1024"

definition CARD_FIELDS :: "string list" where
  "CARD_FIELDS = [''schema'', ''id'', ''version'', ''name'', ''problemSignals'', ''requiredEvidence'', ''assumptions'',
     ''deterministicSteps'', ''outputs'', ''confidenceRules'', ''cost'', ''contraindications'', ''implementationPorts'', ''source'',
     ''applicabilityBoundary'', ''relatedMethodIds'', ''executionPolicy'']"

datatype catalog_error = CatalogError string | FieldsDiffer string "string list" "string list"

section \<open>Shapes\<close>

definition card_object :: "json \<Rightarrow> string \<Rightarrow> string list \<Rightarrow> catalog_error + unit" where
  "card_object value context expected =
     and_then (ok_or (as_object value) (CatalogError (context @ '' must be an object''))) (\<lambda>object.
     let actual = bt_keys object in
     ensure (set actual = set expected)
       (FieldsDiffer context (filter (\<lambda>k. k \<notin> set actual) (sort expected)) (filter (\<lambda>k. k \<notin> set expected) actual)))"

definition card_string :: "json \<Rightarrow> string \<Rightarrow> string \<Rightarrow> catalog_error + string" where
  "card_string value key context =
     ok_or (case as_str (jidx value key) of Some t \<Rightarrow> if is_blank t then None else Some t | None \<Rightarrow> None)
       (CatalogError (context @ ''.'' @ key @ '' must be a non-empty string''))"

definition card_exact_string :: "json \<Rightarrow> string \<Rightarrow> string \<Rightarrow> string \<Rightarrow> catalog_error + unit" where
  "card_exact_string value key expected context =
     and_then (card_string value key context) (\<lambda>actual.
     ensure (actual = expected) (CatalogError (context @ ''.'' @ key @ '' must equal '' @ expected)))"

definition portable_char :: "char \<Rightarrow> bool" where
  "portable_char b \<longleftrightarrow> is_ascii_lowercase b \<or> is_ascii_digit b \<or> b = CHR ''-''"

definition card_id :: "json \<Rightarrow> string \<Rightarrow> string \<Rightarrow> catalog_error + string" where
  "card_id value key context =
     and_then (card_string value key context) (\<lambda>i.
     if length i > 96 \<or> \<not> list_all portable_char i then Err (CatalogError (context @ ''.'' @ key @ '' is not a portable id'')) else Ok i)"

definition card_array :: "json \<Rightarrow> string \<Rightarrow> catalog_error + json list" where
  "card_array value context =
     ok_or (case as_array value of Some items \<Rightarrow> if items = [] then None else Some items | None \<Rightarrow> None)
       (CatalogError (context @ '' must be a non-empty array''))"

definition card_strings_item :: "string \<Rightarrow> json \<Rightarrow> string list \<Rightarrow> catalog_error + string list" where
  "card_strings_item context item found =
     and_then (ok_or (case as_str item of Some t \<Rightarrow> if is_blank t then None else Some t | None \<Rightarrow> None)
       (CatalogError (context @ '' must contain non-empty strings''))) (\<lambda>t.
     if t \<in> set found then Err (CatalogError (context @ '' contains duplicate value '' @ t)) else Ok (found @ [t]))"

definition card_strings :: "json \<Rightarrow> string \<Rightarrow> bool \<Rightarrow> catalog_error + string list" where
  "card_strings value context nonempty =
     and_then (ok_or (as_array value) (CatalogError (context @ '' must be an array''))) (\<lambda>items.
     and_then (ensure (\<not> (nonempty \<and> items = [])) (CatalogError (context @ '' must not be empty''))) (\<lambda>_.
     try_fold (card_strings_item context) items []))"

definition relative_card_path :: "string \<Rightarrow> catalog_error + unit" where
  "relative_card_path p =
     (let name = (case components p of [parent, file] \<Rightarrow> if parent = ''cards'' \<and> file \<noteq> ''..'' then Some file else None | _ \<Rightarrow> None);
          invalid = CatalogError (''invalid relative method card path '' @ p) in
      and_then (ok_or (case name of Some n \<Rightarrow> strip_suffix n ''.v1.json'' | None \<Rightarrow> None) invalid) (\<lambda>method_id.
      ensure (\<not> (method_id = [] \<or> length method_id > 96 \<or> \<not> list_all portable_char method_id)) invalid))"

section \<open>Cards\<close>

definition described_id :: "string \<Rightarrow> string \<Rightarrow> nat \<times> json \<Rightarrow> string list \<Rightarrow> catalog_error + string list" where
  "described_id method_id field en ids =
     (case en of (position, entry') \<Rightarrow>
        let context = at_index (method_id @ ''.'' @ field) position in
        and_then (card_object entry' context [''id'', ''description'']) (\<lambda>_.
        and_then (card_id entry' ''id'' context) (\<lambda>i.
        and_then (card_string entry' ''description'' context) (\<lambda>_.
        if i \<in> set ids then Err (CatalogError (''duplicate id '' @ i @ '' in '' @ method_id @ ''.'' @ field)) else Ok (i # ids)))))"

definition described_ids :: "json \<Rightarrow> string \<Rightarrow> string \<Rightarrow> catalog_error + string list" where
  "described_ids value method_id field =
     and_then (card_array value (method_id @ ''.'' @ field)) (\<lambda>entries.
     try_fold (described_id method_id field) (enumerate 0 entries) [])"

definition step_requirement :: "string \<Rightarrow> string list \<Rightarrow> string list \<Rightarrow> string \<Rightarrow> unit \<Rightarrow> catalog_error + unit" where
  "step_requirement context evidence prior requirement u =
     (case strip_prefix requirement ''evidence:'' of
        Some e \<Rightarrow> ensure (e \<in> set evidence) (CatalogError (context @ '' references unknown evidence '' @ e))
      | None \<Rightarrow>
          (case strip_prefix requirement ''step:'' of
             Some s \<Rightarrow> ensure (s \<in> set prior) (CatalogError (context @ '' references unknown or forward step '' @ s))
           | None \<Rightarrow> Err (CatalogError (context @ '' requirement must use evidence: or step:''))))"

definition step_output :: "string \<Rightarrow> string list \<Rightarrow> string \<Rightarrow> string list \<Rightarrow> catalog_error + string list" where
  "step_output context outputs produces produced =
     (if produces \<notin> set outputs then Err (CatalogError (context @ '' produces unknown output '' @ produces)) else Ok (produces # produced))"

definition card_step ::
    "string \<Rightarrow> string list \<Rightarrow> string list \<Rightarrow> nat \<times> json \<Rightarrow> string list \<times> string list \<Rightarrow> catalog_error + string list \<times> string list" where
  "card_step method_id evidence outputs en acc =
     (case (en, acc) of ((position, step), (prior, produced)) \<Rightarrow>
        let context = at_index (method_id @ ''.deterministicSteps'') position in
        and_then (card_object step context [''id'', ''action'', ''requires'', ''produces'']) (\<lambda>_.
        and_then (card_id step ''id'' context) (\<lambda>i.
        and_then (ensure (i \<notin> set prior) (CatalogError (''duplicate step id '' @ i @ '' in '' @ method_id))) (\<lambda>_.
        and_then (card_string step ''action'' context) (\<lambda>_.
        and_then (card_strings (jidx step ''requires'') (context @ ''.requires'') False) (\<lambda>requirements.
        and_then (try_fold (step_requirement context evidence prior) requirements ()) (\<lambda>_.
        and_then (card_strings (jidx step ''produces'') (context @ ''.produces'') True) (\<lambda>made.
        and_then (try_fold (step_output context outputs) made produced) (\<lambda>produced.
        Ok (i # prior, produced))))))))))"

definition validate_steps :: "json \<Rightarrow> string \<Rightarrow> string list \<Rightarrow> string list \<Rightarrow> catalog_error + unit" where
  "validate_steps mcard method_id evidence outputs =
     and_then (card_array (jidx mcard ''deterministicSteps'') (method_id @ ''.deterministicSteps'')) (\<lambda>steps.
     and_then (try_fold (card_step method_id evidence outputs) (enumerate 0 steps) ([], [])) (\<lambda>(_, produced).
     ensure (set produced = set outputs)
       (CatalogError (method_id @ '' deterministic steps must produce every declared output''))))"

definition confidence_rule :: "string \<Rightarrow> nat \<times> json \<Rightarrow> string list \<Rightarrow> catalog_error + string list" where
  "confidence_rule method_id en levels =
     (case en of (position, rule) \<Rightarrow>
        let context = at_index (method_id @ ''.confidenceRules'') position in
        and_then (card_object rule context [''level'', ''whenAll'']) (\<lambda>_.
        and_then (card_string rule ''level'' context) (\<lambda>level.
        and_then (ensure (\<not> (level \<notin> {''unknown'', ''low'', ''medium'', ''high''} \<or> level \<in> set levels))
          (CatalogError (''invalid or duplicate confidence level in '' @ context))) (\<lambda>_.
        and_then (card_strings (jidx rule ''whenAll'') (context @ ''.whenAll'') True) (\<lambda>_. Ok (level # levels))))))"

definition validate_confidence :: "json \<Rightarrow> string \<Rightarrow> catalog_error + unit" where
  "validate_confidence mcard method_id =
     and_then (card_array (jidx mcard ''confidenceRules'') (method_id @ ''.confidenceRules'')) (\<lambda>rules.
     and_then (try_fold (confidence_rule method_id) (enumerate 0 rules) []) (\<lambda>_. Ok ()))"

definition validate_cost :: "json \<Rightarrow> string \<Rightarrow> catalog_error + unit" where
  "validate_cost mcard method_id =
     (let cost = jidx mcard ''cost''; context = method_id @ ''.cost'' in
      and_then (card_object cost context [''relative'', ''drivers'']) (\<lambda>_.
      and_then (card_string cost ''relative'' context) (\<lambda>relative.
      and_then (ensure (relative \<in> {''low'', ''medium'', ''high''}) (CatalogError (context @ ''.relative is invalid''))) (\<lambda>_.
      and_then (card_strings (jidx cost ''drivers'') (context @ ''.drivers'') True) (\<lambda>_. Ok ())))))"

definition card_port :: "string \<Rightarrow> nat \<times> json \<Rightarrow> string list \<Rightarrow> catalog_error + string list" where
  "card_port method_id en ids =
     (case en of (position, port) \<Rightarrow>
        let context = at_index (method_id @ ''.implementationPorts'') position in
        and_then (card_object port context [''id'', ''kind'', ''contract'']) (\<lambda>_.
        and_then (card_id port ''id'' context) (\<lambda>i.
        and_then (ensure (i \<notin> set ids) (CatalogError (''duplicate implementation port '' @ i))) (\<lambda>_.
        and_then (card_string port ''kind'' context) (\<lambda>kind.
        and_then (ensure (kind \<in> {''manual'', ''deterministic_tool'', ''statistical_engine'', ''modeling_tool''})
          (CatalogError (''invalid implementation port kind in '' @ context))) (\<lambda>_.
        and_then (card_strings (jidx port ''contract'') (context @ ''.contract'') True) (\<lambda>_. Ok (i # ids))))))))"

definition validate_ports :: "json \<Rightarrow> string \<Rightarrow> catalog_error + unit" where
  "validate_ports mcard method_id =
     and_then (card_array (jidx mcard ''implementationPorts'') (method_id @ ''.implementationPorts'')) (\<lambda>ports.
     and_then (try_fold (card_port method_id) (enumerate 0 ports) []) (\<lambda>_. Ok ()))"

definition validate_card_source :: "json \<Rightarrow> string \<Rightarrow> catalog_error + unit" where
  "validate_card_source mcard method_id =
     (let source = jidx mcard ''source''; context = method_id @ ''.source'' in
      and_then (card_object source context [''title'', ''version'', ''reference'']) (\<lambda>_.
      try_fold (\<lambda>key _. and_then (card_string source key context) (\<lambda>_. Ok ())) [''title'', ''version'', ''reference''] ()))"

definition validate_boundary :: "json \<Rightarrow> string \<Rightarrow> catalog_error + unit" where
  "validate_boundary mcard method_id =
     (let boundary = jidx mcard ''applicabilityBoundary''; context = method_id @ ''.applicabilityBoundary'' in
      and_then (card_object boundary context [''inScope'', ''outOfScope'']) (\<lambda>_.
      and_then (card_strings (jidx boundary ''inScope'') (context @ ''.inScope'') True) (\<lambda>_.
      and_then (card_strings (jidx boundary ''outOfScope'') (context @ ''.outOfScope'') True) (\<lambda>_. Ok ()))))"

definition validate_card :: "json \<Rightarrow> catalog_error + unit" where
  "validate_card mcard =
     and_then (card_object mcard ''card'' CARD_FIELDS) (\<lambda>_.
     and_then (card_exact_string mcard ''schema'' ''code-intel-method-card.v1'' ''card'') (\<lambda>_.
     and_then (card_id mcard ''id'' ''card'') (\<lambda>method_id.
     and_then (card_string mcard ''version'' method_id) (\<lambda>_.
     and_then (card_string mcard ''name'' method_id) (\<lambda>_.
     and_then (card_exact_string mcard ''executionPolicy'' ''catalog_only_no_selection_or_execution'' method_id) (\<lambda>_.
     and_then (described_ids (jidx mcard ''requiredEvidence'') method_id ''requiredEvidence'') (\<lambda>evidence.
     and_then (described_ids (jidx mcard ''problemSignals'') method_id ''problemSignals'') (\<lambda>_.
     and_then (described_ids (jidx mcard ''outputs'') method_id ''outputs'') (\<lambda>outputs.
     and_then (card_strings (jidx mcard ''assumptions'') (method_id @ ''.assumptions'') True) (\<lambda>_.
     and_then (card_strings (jidx mcard ''contraindications'') (method_id @ ''.contraindications'') True) (\<lambda>_.
     and_then (validate_steps mcard method_id evidence outputs) (\<lambda>_.
     and_then (validate_confidence mcard method_id) (\<lambda>_.
     and_then (validate_cost mcard method_id) (\<lambda>_.
     and_then (validate_ports mcard method_id) (\<lambda>_.
     and_then (validate_card_source mcard method_id) (\<lambda>_.
     and_then (validate_boundary mcard method_id) (\<lambda>_.
     and_then (card_strings (jidx mcard ''relatedMethodIds'') (method_id @ ''.relatedMethodIds'') False) (\<lambda>_. Ok ()))))))))))))))))))"

section \<open>The catalog\<close>

definition catalog_entry ::
    "nat \<times> json \<Rightarrow> string option \<times> string list \<times> string list \<Rightarrow> catalog_error + string option \<times> string list \<times> string list" where
  "catalog_entry en acc =
     (case (en, acc) of ((position, entry'), (previous, ids, paths)) \<Rightarrow>
        let context = at_index ''catalog.cards'' position in
        and_then (card_object entry' context [''id'', ''path'']) (\<lambda>_.
        and_then (card_id entry' ''id'' context) (\<lambda>i.
        and_then (card_string entry' ''path'' context) (\<lambda>p.
        and_then (relative_card_path p) (\<lambda>_.
        and_then (ensure (p = ''cards/'' @ i @ ''.v1.json'')
          (CatalogError (context @ ''.path must be the versioned path for method id '' @ i))) (\<lambda>_.
        and_then (ensure (\<not> (case previous of Some prior \<Rightarrow> prior \<ge> i | None \<Rightarrow> False))
          (CatalogError ''catalog cards must be strictly sorted by stable id'')) (\<lambda>_.
        and_then (ensure (\<not> (i \<in> set ids \<or> p \<in> set paths)) (CatalogError (''duplicate catalog id or path at '' @ context))) (\<lambda>_.
        Ok (Some i, i # ids, p # paths)))))))))"

definition validate_catalog_index :: "json \<Rightarrow> catalog_error + unit" where
  "validate_catalog_index index =
     and_then (card_object index ''catalog'' [''schema'', ''catalogVersion'', ''selectionPolicy'', ''cards'']) (\<lambda>_.
     and_then (card_exact_string index ''schema'' ''code-intel-method-catalog.v1'' ''catalog'') (\<lambda>_.
     and_then (card_string index ''catalogVersion'' ''catalog'') (\<lambda>_.
     and_then (card_exact_string index ''selectionPolicy'' ''none_catalog_only'' ''catalog'') (\<lambda>_.
     and_then (card_array (jidx index ''cards'') ''catalog.cards'') (\<lambda>cards.
     and_then (try_fold catalog_entry (enumerate 0 cards) (None, [], [])) (\<lambda>_. Ok ()))))))"

definition loaded_path :: "string \<times> json \<Rightarrow> (string, json) btree \<Rightarrow> catalog_error + (string, json) btree" where
  "loaded_path document by_path =
     (case document of (p, mcard) \<Rightarrow>
        and_then (relative_card_path p) (\<lambda>_.
        if bt_get by_path p \<noteq> None then Err (CatalogError (''duplicate loaded card path '' @ p)) else Ok (bt_insert p mcard by_path)))"

definition catalog_card :: "(string, json) btree \<Rightarrow> json \<Rightarrow> json list \<times> string list \<Rightarrow> catalog_error + json list \<times> string list" where
  "catalog_card by_path entry' acc =
     (case acc of (cards, ids) \<Rightarrow>
        let p = text_of (jidx entry' ''path''); expected_id = text_of (jidx entry' ''id'') in
        and_then (ok_or (bt_get by_path p) (CatalogError (''catalog path '' @ p @ '' was not loaded''))) (\<lambda>mcard.
        and_then (validate_card mcard) (\<lambda>_.
        let actual_id = text_of (jidx mcard ''id'') in
        and_then (ensure (actual_id = expected_id)
          (CatalogError (''catalog id '' @ expected_id @ '' does not match card id '' @ actual_id))) (\<lambda>_.
        and_then (ensure (actual_id \<notin> set ids) (CatalogError (''duplicate method id '' @ actual_id))) (\<lambda>_.
        Ok (cards @ [mcard], actual_id # ids))))))"

definition related_method :: "string \<Rightarrow> string list \<Rightarrow> string \<Rightarrow> unit \<Rightarrow> catalog_error + unit" where
  "related_method i ids related u =
     ensure (\<not> (related = i \<or> related \<notin> set ids))
       (CatalogError (i @ ''.relatedMethodIds references unknown or self method '' @ related))"

definition card_relations :: "string list \<Rightarrow> json \<Rightarrow> unit \<Rightarrow> catalog_error + unit" where
  "card_relations ids mcard u =
     and_then (card_strings (jidx mcard ''relatedMethodIds'') ''relatedMethodIds'' False) (\<lambda>related.
     try_fold (related_method (text_of (jidx mcard ''id'')) ids) related ())"

definition validate_documents :: "json \<Rightarrow> (string \<times> json) list \<Rightarrow> catalog_error + json list" where
  "validate_documents index documents =
     and_then (validate_catalog_index index) (\<lambda>_.
     let entries = items_of (jidx index ''cards'') in
     and_then (ensure (length entries = length documents) (CatalogError ''catalog entry count differs from loaded card count'')) (\<lambda>_.
     and_then (try_fold loaded_path documents []) (\<lambda>by_path.
     and_then (try_fold (catalog_card by_path) entries ([], [])) (\<lambda>(cards, ids).
     and_then (try_fold (card_relations ids) cards ()) (\<lambda>_. Ok cards)))))"

section \<open>Files\<close>

text \<open>Metadata is whether the entry is a regular file, and its length; a directory is the list of its names, each with
  its file type, in the order of the system.\<close>

record 'f catalog_env =
  ce_lib :: json_lib
  ce_metadata :: "string \<Rightarrow> 'f \<Rightarrow> string + bool \<times> nat"
  ce_read :: "string \<Rightarrow> 'f \<Rightarrow> string + u8 list"
  ce_read_dir :: "string \<Rightarrow> 'f \<Rightarrow> string + (string + string \<times> (string + bool)) list"

definition read_card_json :: "'f catalog_env \<Rightarrow> string \<Rightarrow> 'f \<Rightarrow> catalog_error + json" where
  "read_card_json env p st =
     and_then (map_err (\<lambda>e. CatalogError (''inspect '' @ p @ '': '' @ e)) (ce_metadata env p st)) (\<lambda>(is_file, len).
     and_then (ensure (\<not> (\<not> is_file \<or> len > MAX_DOCUMENT_BYTES))
       (CatalogError (''method catalog document '' @ p @ '' is not a bounded regular file''))) (\<lambda>_.
     and_then (map_err (\<lambda>e. CatalogError (''read '' @ p @ '': '' @ e)) (ce_read env p st)) (\<lambda>bytes.
     map_err (\<lambda>e. CatalogError (''parse '' @ p @ '': '' @ e)) (from_slice (ce_lib env) bytes))))"

definition catalog_document :: "'f catalog_env \<Rightarrow> string \<Rightarrow> 'f \<Rightarrow> json \<Rightarrow> catalog_error + string \<times> json" where
  "catalog_document env root st entry' =
     (let relative = text_of (jidx entry' ''path'') in
      and_then (relative_card_path relative) (\<lambda>_.
      and_then (read_card_json env (path_push root relative) st) (\<lambda>document. Ok (relative, document))))"

definition has_json_extension :: "string \<Rightarrow> bool" where
  "has_json_extension name \<longleftrightarrow> (case rsplit_once (CHR ''.'') name of Some (stem, extension) \<Rightarrow> stem \<noteq> [] \<and> extension = ''json'' | None \<Rightarrow> False)"

definition card_file :: "string \<Rightarrow> string + string \<times> (string + bool) \<Rightarrow> string list \<Rightarrow> catalog_error + string list" where
  "card_file cards_dir listed actual =
     and_then (map_err (\<lambda>e. CatalogError (''read method card entry: '' @ e)) listed) (\<lambda>(name, file_type).
     and_then (map_err (\<lambda>e. CatalogError (''inspect method card entry: '' @ e)) file_type) (\<lambda>is_file.
     and_then (ensure (\<not> (\<not> is_file \<or> \<not> has_json_extension name))
       (CatalogError (''method card directory contains an unregistered non-card entry '' @ path_push cards_dir name))) (\<lambda>_.
     Ok (insort_insert (''cards/'' @ name) actual))))"

definition load_catalog :: "'f catalog_env \<Rightarrow> string \<Rightarrow> 'f \<Rightarrow> catalog_error + json list" where
  "load_catalog env root st =
     and_then (read_card_json env (path_push root ''catalog.v1.json'') st) (\<lambda>index.
     and_then (validate_catalog_index index) (\<lambda>_.
     and_then (try_map (catalog_document env root st) (items_of (jidx index ''cards''))) (\<lambda>documents.
     let expected = map fst documents; cards_dir = path_push root ''cards'' in
     and_then (map_err (\<lambda>e. CatalogError (''read method card directory '' @ cards_dir @ '': '' @ e)) (ce_read_dir env cards_dir st)) (\<lambda>entries.
     and_then (try_fold (card_file cards_dir) entries []) (\<lambda>actual.
     and_then (ensure (set actual = set expected)
       (CatalogError ''catalog card paths differ from checked-in JSON card files'')) (\<lambda>_.
     validate_documents index documents))))))"

end
