(* ===== verification/Method_Props.thy ===== *)
theory Method_Props
  imports Method_Select
begin

text \<open>
  What a proposal of a method rests on: evidence that was admitted for the snapshot and the instant of the
  request, for everything the card of the method requires, and no contraindication.
\<close>

section \<open>Facts of admitted payloads\<close>

text \<open>A fact of the payload of one of the admissions of a request.\<close>

definition admitted_fact ::
    "'f artifact_env \<Rightarrow> (json \<Rightarrow> u8 list) \<Rightarrow> string \<Rightarrow> 'f \<Rightarrow> json \<Rightarrow> string \<Rightarrow> bound_fact \<Rightarrow> bool" where
  "admitted_fact env to_vec root st request fact_id bf \<longleftrightarrow>
     (\<exists>envelope \<in> set (items_of (jidx request ''admissions'')). \<exists>validated context facts.
        validate_sealed env to_vec (jidx envelope ''request'') root st = Inr validated \<and>
        jidx (vd_result validated) ''domainVerdict'' = JStr ''observed'' \<and>
        jidx (jidx envelope ''request'') ''expectedSnapshotIdentity'' = jidx request ''snapshotIdentity'' \<and>
        as_u64 (jidx (jidx (jidx envelope ''request'') ''policy'') ''evaluatedAt'') = as_u64 (jidx request ''evaluatedAt'') \<and>
        as_u64 (jidx (jidx (jidx envelope ''request'') ''policy'') ''maxAgeSeconds'') = as_u64 (jidx request ''maxEvidenceAgeSeconds'') \<and>
        payload_facts (vd_payload validated) context = Inr facts \<and> bt_get facts fact_id = Some bf)"

lemma admit_envelope_Inr:
  "admit_envelope env to_vec snapshot evaluated_at max_age root st (index, envelope) admissions = Inr admissions' \<Longrightarrow>
     \<exists>validated facts key. validate_sealed env to_vec (jidx envelope ''request'') root st = Inr validated \<and>
       jidx (jidx envelope ''request'') ''expectedSnapshotIdentity'' = JStr snapshot \<and>
       as_u64 (jidx (jidx (jidx envelope ''request'') ''policy'') ''evaluatedAt'') = Some evaluated_at \<and>
       as_u64 (jidx (jidx (jidx envelope ''request'') ''policy'') ''maxAgeSeconds'') = Some max_age \<and>
       jidx (vd_result validated) ''domainVerdict'' = JStr ''observed'' \<and>
       payload_facts (vd_payload validated) (at_index ''admissions'' index) = Inr facts \<and>
       Inr (bt_insert key facts admissions) = (Inr admissions' :: string + admitted_facts)"
  unfolding admit_envelope_def prod.case Let_def and_then_eq_Inr ensure_eq_Inr map_err_eq_Inr validate_for_consumer_def
    de_Morgan_disj not_not
  by (elim exE conjE, intro exI conjI; assumption)

text \<open>The facts behind a table of admissions.\<close>

definition from_admissions ::
    "'f artifact_env \<Rightarrow> (json \<Rightarrow> u8 list) \<Rightarrow> string \<Rightarrow> 'f \<Rightarrow> json \<Rightarrow> admitted_facts \<Rightarrow> bool" where
  "from_admissions env to_vec root st request admissions \<longleftrightarrow>
     (\<forall>key facts fact_id bf. bt_get admissions key = Some facts \<longrightarrow> bt_get facts fact_id = Some bf \<longrightarrow>
        admitted_fact env to_vec root st request fact_id bf)"

lemma admissions_Inr:
  assumes "validate_admissions env to_vec (jidx request ''admissions'') snapshot evaluated_at max_age root st = Inr admissions"
    and "jidx request ''snapshotIdentity'' = JStr snapshot" "as_u64 (jidx request ''evaluatedAt'') = Some evaluated_at"
    "as_u64 (jidx request ''maxEvidenceAgeSeconds'') = Some max_age"
  shows "from_admissions env to_vec root st request admissions"
proof (rule try_fold_invariant [OF _ _ assms(1) [unfolded validate_admissions_def]])
  show "from_admissions env to_vec root st request []" by (simp add: from_admissions_def)
  fix en acc acc'
  assume en: "en \<in> set (enumerate 0 (items_of (jidx request ''admissions'')))" and acc: "from_admissions env to_vec root st request acc"
    and step: "admit_envelope env to_vec snapshot evaluated_at max_age root st en acc = Inr acc'"
  obtain index envelope where e: "en = (index, envelope)" by (cases en)
  have "envelope \<in> set (items_of (jidx request ''admissions''))"
    using en e by (auto simp: in_set_enumerate_eq)
  moreover obtain validated facts key where v: "validate_sealed env to_vec (jidx envelope ''request'') root st = Inr validated"
      "jidx (jidx envelope ''request'') ''expectedSnapshotIdentity'' = JStr snapshot"
      "as_u64 (jidx (jidx (jidx envelope ''request'') ''policy'') ''evaluatedAt'') = Some evaluated_at"
      "as_u64 (jidx (jidx (jidx envelope ''request'') ''policy'') ''maxAgeSeconds'') = Some max_age"
      "jidx (vd_result validated) ''domainVerdict'' = JStr ''observed''"
      "payload_facts (vd_payload validated) (at_index ''admissions'' index) = Inr facts" "acc' = bt_insert key facts acc"
    using admit_envelope_Inr [OF step [unfolded e]] by blast
  ultimately have "bt_get facts fact_id = Some bf \<Longrightarrow> admitted_fact env to_vec root st request fact_id bf" for fact_id bf
    unfolding admitted_fact_def assms(2-4) by blast
  then show "from_admissions env to_vec root st request acc'"
    using acc unfolding from_admissions_def v(7) by (simp split: if_splits)
qed

section \<open>Signals and evidence of a request\<close>

lemma string_set_nonempty: "select_string_set v context True = Inr ids \<Longrightarrow> ids \<noteq> []"
proof -
  have grow: "try_fold (string_set_item c) items acc = Inr ids \<Longrightarrow> length ids = length acc + length items" for c items acc
    by (induction items arbitrary: acc) (auto simp: string_set_item_def and_then_eq_Inr split: if_splits)
  assume "select_string_set v context True = Inr ids"
  then obtain items where "\<not> (True \<and> items = [])" "try_fold (string_set_item context) items [] = Inr ids"
    unfolding select_string_set_def and_then_eq_Inr ensure_eq_Inr by blast
  then show "ids \<noteq> []" using grow [of "context" items "[]"] by auto
qed

definition backed :: "admitted_facts \<Rightarrow> (bound_fact \<Rightarrow> string list) \<Rightarrow> string list \<Rightarrow> bool" where
  "backed admissions labels found \<longleftrightarrow>
     (\<forall>l \<in> set found. \<exists>key facts fact_id bf. bt_get admissions key = Some facts \<and> bt_get facts fact_id = Some bf \<and> l \<in> set (labels bf))"

lemma select_fact_Inr:
  assumes "select_fact admissions en acc = Inr acc'"
  shows "\<exists>key facts fact_id bf. bt_get admissions key = Some facts \<and> bt_get facts fact_id = Some bf \<and>
     ft_signals acc' = fold insort_insert (bf_signal_ids bf) (ft_signals acc) \<and>
     ft_evidence acc' = fold insort_insert (bf_evidence_kinds bf) (ft_evidence acc)"
proof -
  obtain index item where en: "en = (index, item)" by (cases en)
  obtain fact_id signals evidence ids used where step:
    "select_string_set (jidx item ''admissionIds'') (at_index ''facts'' index @ ''.admissionIds'') True = Inr ids"
    "try_fold (bind_admission admissions (at_index ''facts'' index) fact_id signals evidence) ids (ft_used acc) = Inr used"
    "acc' = \<lparr>ft_ids = fact_id # ft_ids acc, ft_signals = fold insort_insert signals (ft_signals acc),
            ft_evidence = fold insort_insert evidence (ft_evidence acc), ft_used = used\<rparr>"
    using assms unfolding select_fact_def en prod.case Let_def and_then_eq_Inr sum.inject by blast
  obtain key ids' where "ids = key # ids'" using string_set_nonempty [OF step(1)] by (cases ids) auto
  then obtain used' where "bind_admission admissions (at_index ''facts'' index) fact_id signals evidence key (ft_used acc) = Inr used'"
    using step(2) by (auto simp: and_then_eq_Inr)
  then obtain facts bf where "bt_get admissions key = Some facts" "bt_get facts fact_id = Some bf"
    "bf_signal_ids bf = signals" "bf_evidence_kinds bf = evidence"
    unfolding bind_admission_def and_then_eq_Inr ensure_eq_Inr ok_or_eq_Inr by blast
  then show ?thesis using step(3) by auto
qed

lemma set_labels_insort: "set (fold insort_insert xs ys) = set xs \<union> set ys"
  by (induction xs arbitrary: ys) (auto simp: set_insort_insert)

lemma validate_facts_Inr:
  assumes "validate_facts value' admissions = Inr (signals, evidence, used)"
  shows "backed admissions bf_signal_ids signals" "backed admissions bf_evidence_kinds evidence"
proof -
  let ?P = "\<lambda>acc. backed admissions bf_signal_ids (ft_signals acc) \<and> backed admissions bf_evidence_kinds (ft_evidence acc)"
  obtain acc where acc: "try_fold (select_fact admissions) (enumerate 0 (items_of value'))
       \<lparr>ft_ids = [], ft_signals = [], ft_evidence = [], ft_used = []\<rparr> = Inr acc" "signals = ft_signals acc" "evidence = ft_evidence acc"
    using assms unfolding validate_facts_def and_then_eq_Inr by auto
  have "?P acc"
  proof (rule try_fold_invariant [OF _ _ acc(1)])
    show "?P \<lparr>ft_ids = [], ft_signals = [], ft_evidence = [], ft_used = []\<rparr>" by (simp add: backed_def)
    fix en a a' assume a: "?P a" and step: "select_fact admissions en a = Inr a'"
    obtain key facts fact_id bf where "bt_get admissions key = Some facts" "bt_get facts fact_id = Some bf"
      "ft_signals a' = fold insort_insert (bf_signal_ids bf) (ft_signals a)"
      "ft_evidence a' = fold insort_insert (bf_evidence_kinds bf) (ft_evidence a)"
      using select_fact_Inr [OF step] by blast
    then show "?P a'" using a unfolding backed_def by (simp add: set_labels_insort) blast
  qed
  then show "backed admissions bf_signal_ids signals" "backed admissions bf_evidence_kinds evidence" using acc by simp_all
qed

section \<open>Proposals\<close>

lemma select_methods_Inr:
  assumes "select_methods env to_vec request root cards rules st = Inr result"
  obtains admissions signals available used gaps where "validate_select_request request = Inr ()"
    "validate_admissions env to_vec (jidx request ''admissions'') (text_of (jidx request ''snapshotIdentity''))
         (the (as_u64 (jidx request ''evaluatedAt''))) (the (as_u64 (jidx request ''maxEvidenceAgeSeconds''))) root st = Inr admissions"
    "validate_facts (jidx request ''facts'') admissions = Inr (signals, available, used)"
    "select_string_set (jidx request ''evidenceGaps'') ''evidenceGaps'' False = Inr gaps"
    "result = selection_result (List.map_filter (method_match (cards_by_id cards) signals available gaps) rules) used"
proof -
  obtain u admissions facts where shape: "validate_select_request request = Inr u"
    and adm: "validate_admissions env to_vec (jidx request ''admissions'') (text_of (jidx request ''snapshotIdentity''))
         (the (as_u64 (jidx request ''evaluatedAt''))) (the (as_u64 (jidx request ''maxEvidenceAgeSeconds''))) root st = Inr admissions"
    and facts: "validate_facts (jidx request ''facts'') admissions = Inr facts"
    and rest: "(case facts of (signals, available, used) \<Rightarrow>
       and_then (select_string_set (jidx request ''evidenceGaps'') ''evidenceGaps'' False) (\<lambda>gaps.
       and_then (ensure (\<not> list_ex (\<lambda>kind. kind \<in> set gaps) available)
         ''an evidence kind cannot be both available and an evidence gap'') (\<lambda>_.
       Ok (selection_result (List.map_filter (method_match (cards_by_id cards) signals available gaps) rules) used)))) = Inr result"
    using assms unfolding select_methods_def and_then_eq_Inr Let_def by blast
  obtain signals available used where f: "facts = (signals, available, used)" by (cases facts)
  obtain gaps where "select_string_set (jidx request ''evidenceGaps'') ''evidenceGaps'' False = Inr gaps"
    "result = selection_result (List.map_filter (method_match (cards_by_id cards) signals available gaps) rules) used"
    using rest unfolding f prod.case and_then_eq_Inr by auto
  then show thesis using that shape adm facts unfolding f by simp
qed

lemma select_request_Inr:
  assumes "validate_select_request request = Inr u"
  obtains snapshot evaluated_at max_age where "jidx request ''snapshotIdentity'' = JStr snapshot"
    "as_u64 (jidx request ''evaluatedAt'') = Some evaluated_at" "as_u64 (jidx request ''maxEvidenceAgeSeconds'') = Some max_age"
  using assms unfolding validate_select_request_def and_then_eq_Inr ensure_eq_Inr
  by (auto simp: text_is_def as_str_eq split: option.splits)

text \<open>The labels that the facts of a request name, and its evidence gaps.\<close>

definition request_label :: "json \<Rightarrow> string \<Rightarrow> string \<Rightarrow> bool" where
  "request_label request key l \<longleftrightarrow> (\<exists>item \<in> set (items_of (jidx request ''facts'')). JStr l \<in> set (items_of (jidx item key)))"

definition request_gap :: "json \<Rightarrow> string \<Rightarrow> bool" where
  "request_gap request kind \<longleftrightarrow> JStr kind \<in> set (items_of (jidx request ''evidenceGaps''))"

lemma string_set_Inr:
  assumes "select_string_set v label nonempty = Inr ids"
  shows "set ids = {s. JStr s \<in> set (items_of v)}"
proof -
  have all: "try_fold (string_set_item c) items acc = Inr ids' \<Longrightarrow> set ids' = {s. JStr s \<in> set items} \<union> set acc" for c items acc ids'
  proof (induction items arbitrary: acc)
    case (Cons item items)
    then obtain next' where step: "string_set_item c item acc = Inr next'" "try_fold (string_set_item c) items next' = Inr ids'"
      by (auto simp: and_then_eq_Inr)
    from step(1) obtain s where "item = JStr s" "next' = insort s acc"
      by (auto simp: and_then_eq_Inr string_set_item_def select_string_def as_str_eq split: option.splits if_splits)
    then show ?case using Cons.IH [OF step(2)] by (auto simp: set_insort_key)
  qed simp
  obtain items where "as_array v = Some items" "try_fold (string_set_item label) items [] = Inr ids"
    using assms unfolding select_string_set_def and_then_eq_Inr ok_or_eq_Inr by blast
  then show ?thesis using all [of label items "[]" ids] by (simp add: items_of_def)
qed

lemma select_fact_labels:
  assumes "select_fact admissions (index, item) acc = Inr acc'"
  shows "set (ft_signals acc') = {s. JStr s \<in> set (items_of (jidx item ''signalIds''))} \<union> set (ft_signals acc)"
    "set (ft_evidence acc') = {s. JStr s \<in> set (items_of (jidx item ''evidenceKinds''))} \<union> set (ft_evidence acc)"
proof -
  obtain fact_id signals evidence used where step:
    "select_string_set (jidx item ''signalIds'') (at_index ''facts'' index @ ''.signalIds'') True = Inr signals"
    "select_string_set (jidx item ''evidenceKinds'') (at_index ''facts'' index @ ''.evidenceKinds'') True = Inr evidence"
    "acc' = \<lparr>ft_ids = fact_id # ft_ids acc, ft_signals = fold insort_insert signals (ft_signals acc),
            ft_evidence = fold insort_insert evidence (ft_evidence acc), ft_used = used\<rparr>"
    using assms unfolding select_fact_def prod.case Let_def and_then_eq_Inr sum.inject by blast
  then show "set (ft_signals acc') = {s. JStr s \<in> set (items_of (jidx item ''signalIds''))} \<union> set (ft_signals acc)"
    "set (ft_evidence acc') = {s. JStr s \<in> set (items_of (jidx item ''evidenceKinds''))} \<union> set (ft_evidence acc)"
    using string_set_Inr [OF step(1)] string_set_Inr [OF step(2)] by (simp_all add: set_labels_insort)
qed

lemma fact_labels:
  assumes "validate_facts (jidx request ''facts'') admissions = Inr (signals, available, used)"
  shows "s \<in> set signals \<longleftrightarrow> request_label request ''signalIds'' s" "s \<in> set available \<longleftrightarrow> request_label request ''evidenceKinds'' s"
proof -
  have all: "try_fold (select_fact admissions) (enumerate n items) acc = Inr acc' \<Longrightarrow>
      set (ft_signals acc') = {s. \<exists>item \<in> set items. JStr s \<in> set (items_of (jidx item ''signalIds''))} \<union> set (ft_signals acc) \<and>
      set (ft_evidence acc') = {s. \<exists>item \<in> set items. JStr s \<in> set (items_of (jidx item ''evidenceKinds''))} \<union> set (ft_evidence acc)"
    for n items acc acc'
  proof (induction items arbitrary: n acc)
    case (Cons item items)
    then obtain next' where step: "select_fact admissions (n, item) acc = Inr next'"
      "try_fold (select_fact admissions) (enumerate (Suc n) items) next' = Inr acc'"
      by (auto simp: and_then_eq_Inr)
    show ?case using Cons.IH [OF step(2)] select_fact_labels [OF step(1)] by auto
  qed simp
  obtain acc where "try_fold (select_fact admissions) (enumerate 0 (items_of (jidx request ''facts'')))
       \<lparr>ft_ids = [], ft_signals = [], ft_evidence = [], ft_used = []\<rparr> = Inr acc" "signals = ft_signals acc" "available = ft_evidence acc"
    using assms unfolding validate_facts_def and_then_eq_Inr by auto
  then show "s \<in> set signals \<longleftrightarrow> request_label request ''signalIds'' s" "s \<in> set available \<longleftrightarrow> request_label request ''evidenceKinds'' s"
    using all by (auto simp: request_label_def)
qed

text \<open>When a rule makes a proposal: one of its signals is there, nothing that the card requires is missing or a
  gap, and no signal of a contraindication is there.\<close>

definition proposes :: "json list \<Rightarrow> json \<Rightarrow> method_rule \<Rightarrow> bool" where
  "proposes cards request rule \<longleftrightarrow>
     (\<exists>s \<in> set (mr_signal_ids rule). request_label request ''signalIds'' s) \<and>
     (\<forall>item \<in> set (items_of (jidx (the (bt_get (cards_by_id cards) (mr_method_id rule))) ''requiredEvidence'')).
        request_label request ''evidenceKinds'' (text_of (jidx item ''id'')) \<and> \<not> request_gap request (text_of (jidx item ''id''))) \<and>
     (\<forall>c \<in> set (mr_contraindications rule). \<not> request_label request ''signalIds'' (cr_signal_id c))"

lemma method_match_proposal:
  "(\<exists>item. method_match cards signals available gaps rule = Some item \<and> jidx item ''outcome'' = JStr ''proposal'' \<and>
      jidx item ''methodId'' = JStr m) \<longleftrightarrow>
   mr_method_id rule = m \<and> (\<exists>s \<in> set (mr_signal_ids rule). s \<in> set signals) \<and>
     missing_evidence (the (bt_get cards (mr_method_id rule))) available gaps = [] \<and> triggered_texts rule signals = []"
  by (auto simp: method_match_def Let_def jidx_jobj match_outcome_def filter_empty_conv)

lemma match_proposes:
  assumes "validate_facts (jidx request ''facts'') admissions = Inr (signals, available, used)"
    and "select_string_set (jidx request ''evidenceGaps'') ''evidenceGaps'' False = Inr gaps"
  shows "(\<exists>s \<in> set (mr_signal_ids rule). s \<in> set signals) \<and>
     missing_evidence (the (bt_get (cards_by_id cards) (mr_method_id rule))) available gaps = [] \<and> triggered_texts rule signals = [] \<longleftrightarrow>
     proposes cards request rule"
  unfolding proposes_def missing_evidence_def triggered_texts_def
  by (simp add: filter_empty_conv fact_labels [OF assms(1)] string_set_Inr [OF assms(2)] request_gap_def)

lemma backed_labels:
  assumes "validate_facts (jidx request ''facts'') admissions = Inr (signals, available, used)"
    and "from_admissions env to_vec root st request admissions"
  shows "request_label request ''signalIds'' l \<Longrightarrow>
      \<exists>fact_id bf. admitted_fact env to_vec root st request fact_id bf \<and> l \<in> set (bf_signal_ids bf)"
    "request_label request ''evidenceKinds'' l \<Longrightarrow>
      \<exists>fact_id bf. admitted_fact env to_vec root st request fact_id bf \<and> l \<in> set (bf_evidence_kinds bf)"
  using validate_facts_Inr [OF assms(1)] assms(2)
  unfolding backed_def from_admissions_def fact_labels [OF assms(1), symmetric] by meson+

text \<open>C35: a method is proposed exactly when its rule demands it: a signal of the rule is among the facts of the request,
  everything the card requires is too and is not declared a gap, and no signal of a contraindication
  is.  Every label of these facts is carried by the payload of evidence that was admitted, with the verdict
  \<open>observed\<close>, for the snapshot and under the freshness policy of the request.\<close>

theorem proposals_backed:
  assumes "select_methods env to_vec request root cards rules st = Inr result"
  shows "(\<exists>found. jidx result ''matches'' = JArr found \<and>
      (\<forall>m. (\<exists>item \<in> set found. jidx item ''outcome'' = JStr ''proposal'' \<and> jidx item ''methodId'' = JStr m) \<longleftrightarrow>
        (\<exists>rule \<in> set rules. mr_method_id rule = m \<and> proposes cards request rule))) \<and>
    (\<forall>l. request_label request ''signalIds'' l \<longrightarrow>
      (\<exists>fact_id bf. admitted_fact env to_vec root st request fact_id bf \<and> l \<in> set (bf_signal_ids bf))) \<and>
    (\<forall>l. request_label request ''evidenceKinds'' l \<longrightarrow>
      (\<exists>fact_id bf. admitted_fact env to_vec root st request fact_id bf \<and> l \<in> set (bf_evidence_kinds bf)))"
proof -
  obtain admissions signals available used gaps where sel: "validate_select_request request = Inr ()"
    "validate_admissions env to_vec (jidx request ''admissions'') (text_of (jidx request ''snapshotIdentity''))
         (the (as_u64 (jidx request ''evaluatedAt''))) (the (as_u64 (jidx request ''maxEvidenceAgeSeconds''))) root st = Inr admissions"
    "validate_facts (jidx request ''facts'') admissions = Inr (signals, available, used)"
    "select_string_set (jidx request ''evidenceGaps'') ''evidenceGaps'' False = Inr gaps"
    "result = selection_result (List.map_filter (method_match (cards_by_id cards) signals available gaps) rules) used"
    by (rule select_methods_Inr [OF assms])
  let ?found = "List.map_filter (method_match (cards_by_id cards) signals available gaps) rules"
  obtain snapshot evaluated_at max_age where r: "jidx request ''snapshotIdentity'' = JStr snapshot"
    "as_u64 (jidx request ''evaluatedAt'') = Some evaluated_at" "as_u64 (jidx request ''maxEvidenceAgeSeconds'') = Some max_age"
    by (rule select_request_Inr [OF sel(1)])
  have src: "from_admissions env to_vec root st request admissions"
    by (rule admissions_Inr [OF _ r]) (use sel(2) in \<open>simp add: r text_of_def\<close>)
  have "(\<exists>item \<in> set ?found. jidx item ''outcome'' = JStr ''proposal'' \<and> jidx item ''methodId'' = JStr m) \<longleftrightarrow>
      (\<exists>rule \<in> set rules. mr_method_id rule = m \<and> proposes cards request rule)" for m
  proof -
    have "(\<exists>item \<in> set ?found. jidx item ''outcome'' = JStr ''proposal'' \<and> jidx item ''methodId'' = JStr m) \<longleftrightarrow>
        (\<exists>rule \<in> set rules. \<exists>item. method_match (cards_by_id cards) signals available gaps rule = Some item \<and>
           jidx item ''outcome'' = JStr ''proposal'' \<and> jidx item ''methodId'' = JStr m)"
      by (force simp: map_filter_def)
    then show ?thesis unfolding method_match_proposal match_proposes [OF sel(3,4)] .
  qed
  moreover have "jidx result ''matches'' = JArr ?found" by (simp add: sel(5) selection_result_def jidx_jobj)
  ultimately have "\<exists>found. jidx result ''matches'' = JArr found \<and>
      (\<forall>m. (\<exists>item \<in> set found. jidx item ''outcome'' = JStr ''proposal'' \<and> jidx item ''methodId'' = JStr m) \<longleftrightarrow>
        (\<exists>rule \<in> set rules. mr_method_id rule = m \<and> proposes cards request rule))" by blast
  then show ?thesis using backed_labels [OF sel(3) src] by blast
qed

section \<open>A proposal\<close>

lemma digest_not_blank: "is_digest v \<Longrightarrow> \<not> is_blank v"
proof (cases v)
  case (Cons c s)
  assume "is_digest v"
  moreover have "CHR ''a'' \<le> c \<Longrightarrow> c \<le> CHR ''f'' \<Longrightarrow> c \<notin> hd ` set ws_chars \<and> c \<notin> last ` set ws_chars" for c
    by (auto simp: ws_chars_def less_eq_char_def)
  ultimately have "x \<notin> hd ` set ws_chars \<and> x \<notin> last ` set ws_chars" if "x \<in> set v" for x
    using that digit_not_ws by (fastforce simp: is_digest_def list_all_iff)
  then show ?thesis
    using trim_id [of c s] Cons last_in_set [of v] by (simp add: is_blank_def)
qed (simp add: is_digest_def)

definition demo_select :: "json \<Rightarrow> json" where
  "demo_select result = jobj [(''schema'', JStr ''code-intel-method-selection-request.v1''),
     (''snapshotIdentity'', JStr (sha256_hex [])), (''evaluatedAt'', JNum (PosInt 25)), (''maxEvidenceAgeSeconds'', JNum (PosInt 5)),
     (''admissions'', JArr [jobj [(''request'', demo_request), (''result'', result)]]),
     (''facts'', JArr [jobj [(''id'', JStr ''f''), (''signalIds'', jstrs [''s'']), (''evidenceKinds'', jstrs [''k'']),
        (''admissionIds'', jstrs [sha256_hex []])]]),
     (''evidenceGaps'', jstrs [])]"

definition demo_cards :: "json list" where
  "demo_cards = [jobj [(''id'', JStr ''m''), (''cost'', JNull), (''requiredEvidence'', JArr [jobj [(''id'', JStr ''k'')]]),
     (''contraindications'', jstrs []), (''confidenceRules'', jstrs [])]]"

definition demo_rules :: "method_rule list" where
  "demo_rules = [\<lparr>mr_method_id = ''m'', mr_signal_ids = [''s''], mr_contraindications = []\<rparr>]"

lemma demo_select_get:
  "jidx (demo_select r) ''snapshotIdentity'' = JStr (sha256_hex [])" "jidx (demo_select r) ''evaluatedAt'' = JNum (PosInt 25)"
  "jidx (demo_select r) ''maxEvidenceAgeSeconds'' = JNum (PosInt 5)"
  "jidx (demo_select r) ''admissions'' = JArr [jobj [(''request'', demo_request), (''result'', r)]]"
  "jidx (demo_select r) ''facts'' = JArr [jobj [(''id'', JStr ''f''), (''signalIds'', jstrs [''s'']), (''evidenceKinds'', jstrs [''k'']),
        (''admissionIds'', jstrs [sha256_hex []])]]"
  "jidx (demo_select r) ''evidenceGaps'' = jstrs []"
  by (simp_all add: demo_select_def jidx_jobj)

lemma demo_select_shape: "validate_select_request (demo_select r) = Inr ()"
proof -
  have "(0 :: 64 word) < 5" by simp
  then show ?thesis
    by (simp add: validate_select_request_def demo_select_get select_exact_def select_allowed_def text_is_def sha256_hex_digest is_array_def jstrs_def)
       (simp add: demo_select_def literal_object literal_keys jidx_jobj)
qed

lemma demo_sealed:
  obtains v where "validate_sealed evidence_env (\<lambda>_. []) demo_request root () = Inr v" "vd_payload v = demo_payload"
    "jidx (vd_result v) ''status'' = JStr ''admitted''" "jidx (vd_result v) ''domainVerdict'' = JStr ''observed''"
    "jidx (vd_result v) ''admissionIdentity'' = JStr (sha256_hex [])"
proof -
  obtain v where ok: "validate_sealed evidence_env (\<lambda>_. []) demo_request root () = Inr v"
    using demo_admitted by blast
  then obtain artifact where "v = \<lparr>vd_result = admission_result demo_observation ''observed'' (sha256_hex []) artifact demo_payload,
      vd_payload = demo_payload\<rparr>"
    using sealed_Inr [OF ok] by (auto simp: demo_request_get demo_observation_get parsed_payload_def evidence_env_def)
  then show thesis using that [OF ok] by (simp add: admission_result_def jidx_jobj)
qed

definition demo_bound :: "(string, bound_fact) btree" where
  "demo_bound = [(''f'', \<lparr>bf_signal_ids = [''s''], bf_evidence_kinds = [''k'']\<rparr>)]"

lemma select_string_plain: "select_string (JStr [c]) context = (if is_blank [c] then Inl (context @ '' must be a non-empty string'') else Inr [c])"
  by (simp add: select_string_def)

lemma demo_plain: "\<not> is_blank ''f''" "\<not> is_blank ''s''" "\<not> is_blank ''k''"
  by code_simp+

lemma demo_string_set:
  "select_string_set (jstrs [s]) context nonempty = (if is_blank s then Inl (context @ '' must be a non-empty string'') else Inr [s])"
  "select_string_set (jstrs []) context False = Inr []"
  by (simp_all add: select_string_set_def string_set_item_def select_string_def)

lemma demo_facts: "payload_facts demo_payload context = Inr demo_bound"
  by (simp add: payload_facts_def payload_fact_def demo_payload_def jidx_jobj literal_object literal_keys bt_get_of_list select_exact_def
      select_allowed_def demo_string_set demo_plain select_string_plain demo_bound_def Let_def)

lemma demo_fact:
  assumes "is_digest d"
  shows "select_fact [(d, demo_bound)] (0, jobj [(''id'', JStr ''f''), (''signalIds'', jstrs [''s'']), (''evidenceKinds'', jstrs [''k'']),
        (''admissionIds'', jstrs [d])]) \<lparr>ft_ids = [], ft_signals = [], ft_evidence = [], ft_used = []\<rparr>
      = Inr \<lparr>ft_ids = [''f''], ft_signals = [''s''], ft_evidence = [''k''], ft_used = [d]\<rparr>"
proof -
  have "bind_admission [(d, demo_bound)] context ''f'' [''s''] [''k''] d [] = Inr [d]" for "context"
    by (simp add: bind_admission_def demo_bound_def insort_insert_insort)
  then show ?thesis
    by (simp add: select_fact_def Let_def select_exact_def select_allowed_def literal_object literal_keys jidx_jobj demo_string_set
        demo_plain select_string_plain digest_not_blank [OF assms] insort_insert_insort)
qed

lemma demo_selected:
  assumes "validate_sealed evidence_env (\<lambda>_. []) demo_request root () = Inr v" "vd_payload v = demo_payload"
    "jidx (vd_result v) ''status'' = JStr ''admitted''" "jidx (vd_result v) ''domainVerdict'' = JStr ''observed''"
    "jidx (vd_result v) ''admissionIdentity'' = JStr (sha256_hex [])"
  shows "\<exists>result. select_methods evidence_env (\<lambda>_. []) (demo_select (vd_result v)) root demo_cards demo_rules () = Inr result"
proof -
  have "validate_admissions evidence_env (\<lambda>_. []) (jidx (demo_select (vd_result v)) ''admissions'') (sha256_hex []) 25 5 root ()
      = Inr [(sha256_hex [], demo_bound)]"
    using assms
    by (simp add: demo_select_get validate_admissions_def items_of_def admit_envelope_def Let_def select_exact_def select_allowed_def
        literal_object literal_keys jidx_jobj demo_request_get validate_for_consumer_def demo_facts text_of_def)
       (simp add: demo_bound_def)
  moreover have "validate_facts (jidx (demo_select (vd_result v)) ''facts'') [(sha256_hex [], demo_bound)]
      = Inr ([''s''], [''k''], [sha256_hex []])"
    using demo_fact [of "sha256_hex []"]
    by (simp add: demo_select_get validate_facts_def items_of_def sha256_hex_digest bt_keys_def)
  ultimately show ?thesis
    by (simp add: select_methods_def demo_select_shape demo_select_get(1-3,6) text_of_def demo_string_set Let_def)
qed

lemma demo_proposes: "proposes demo_cards (demo_select r) \<lparr>mr_method_id = ''m'', mr_signal_ids = [''s''], mr_contraindications = []\<rparr>"
  by (simp add: proposes_def demo_cards_def cards_by_id_def bt_of_list_def request_label_def request_gap_def demo_select_get items_of_def
      text_of_def jidx_jobj jstrs_def)

lemma proposals_backed_witness:
  "\<exists>r result found. select_methods evidence_env (\<lambda>_. []) (demo_select r) ''/run'' demo_cards demo_rules () = Inr result \<and>
     jidx result ''matches'' = JArr found \<and>
     (\<exists>item \<in> set found. jidx item ''outcome'' = JStr ''proposal'' \<and> jidx item ''methodId'' = JStr ''m'') \<and>
     (\<exists>fact_id bf. admitted_fact evidence_env (\<lambda>_. []) ''/run'' () (demo_select r) fact_id bf \<and> ''s'' \<in> set (bf_signal_ids bf))"
proof -
  obtain v where v: "validate_sealed evidence_env (\<lambda>_. []) demo_request ''/run'' () = Inr v" "vd_payload v = demo_payload"
    "jidx (vd_result v) ''status'' = JStr ''admitted''" "jidx (vd_result v) ''domainVerdict'' = JStr ''observed''"
    "jidx (vd_result v) ''admissionIdentity'' = JStr (sha256_hex [])"
    by (rule demo_sealed)
  obtain result where ok: "select_methods evidence_env (\<lambda>_. []) (demo_select (vd_result v)) ''/run'' demo_cards demo_rules () = Inr result"
    using demo_selected [OF v] by blast
  have "\<exists>rule \<in> set demo_rules. mr_method_id rule = ''m'' \<and> proposes demo_cards (demo_select (vd_result v)) rule"
    by (simp add: demo_rules_def demo_proposes)
  moreover have "request_label (demo_select (vd_result v)) ''signalIds'' ''s''"
    by (simp add: request_label_def demo_select_get items_of_def jidx_jobj jstrs_def)
  ultimately show ?thesis using ok proposals_backed [OF ok] by blast
qed

end
