(* ===== verification/Catalog_Props.thy ===== *)
theory Catalog_Props
  imports Method_Catalog Method_Props
begin

text \<open>
  What a loaded catalog promises: cards in the order of their identifiers whose steps can be carried out one after the other,
  and one rule for every card that names only what the card declares.
\<close>

section \<open>Lists of strings and of described identifiers\<close>

definition label :: "json \<Rightarrow> string" where
  "label value = text_of (jidx value ''id'')"

definition labels :: "json \<Rightarrow> string \<Rightarrow> string list" where
  "labels value key = map label (items_of (jidx value key))"

definition texts :: "json \<Rightarrow> string \<Rightarrow> string list" where
  "texts value key = map text_of (items_of (jidx value key))"

lemma card_string_Inr: "card_string v key context = Inr t \<Longrightarrow> jidx v key = JStr t \<and> \<not> is_blank t"
  unfolding card_string_def ok_or_eq_Inr by (auto simp: as_str_eq split: option.splits if_splits)

lemma card_id_Inr: "card_id v key context = Inr t \<Longrightarrow> jidx v key = JStr t"
  unfolding card_id_def and_then_eq_Inr by (auto dest: card_string_Inr split: if_splits)

lemma card_array_Inr: "card_array v context = Inr items \<longleftrightarrow> v = JArr items \<and> items \<noteq> []"
  unfolding card_array_def ok_or_eq_Inr by (auto simp: as_array_eq split: option.splits if_splits)

lemma card_strings_Inr:
  assumes "card_strings v context ne = Inr ts"
  shows "v = JArr (map JStr ts) \<and> distinct ts"
proof -
  have all: "try_fold (card_strings_item context) items acc = Inr ts \<Longrightarrow> distinct acc \<Longrightarrow>
      map JStr ts = map JStr acc @ items \<and> distinct ts" for items acc
  proof (induction items arbitrary: acc)
    case (Cons item items)
    from Cons.prems(1) obtain acc' where step: "card_strings_item context item acc = Inr acc'"
      "try_fold (card_strings_item context) items acc' = Inr ts" unfolding try_fold_Cons_Inr by blast
    from step(1) obtain t where "item = JStr t" "acc' = acc @ [t]" "t \<notin> set acc"
      unfolding card_strings_item_def and_then_eq_Inr ok_or_eq_Inr by (auto simp: as_str_eq split: option.splits if_splits)
    then show ?case using Cons.IH [OF step(2)] Cons.prems(2) by auto
  qed simp
  obtain items where "as_array v = Some items" "try_fold (card_strings_item context) items [] = Inr ts"
    using assms unfolding card_strings_def and_then_eq_Inr ok_or_eq_Inr by blast
  then show ?thesis using all by (fastforce simp: as_array_eq)
qed

lemma texts_strings: "jidx v key = JArr (map JStr ts) \<Longrightarrow> texts v key = ts"
  by (simp add: texts_def items_of_def text_of_def o_def)

lemma described_ids_Inr:
  assumes "described_ids (jidx v key) m field = Inr ids"
  shows "set ids = set (labels v key)"
proof -
  have all: "try_fold (described_id m field) (enumerate n items) acc = Inr ids \<Longrightarrow> set ids = label ` set items \<union> set acc" for n items acc
  proof (induction items arbitrary: n acc)
    case (Cons item items)
    then obtain acc' where step: "described_id m field (n, item) acc = Inr acc'"
      "try_fold (described_id m field) (enumerate (Suc n) items) acc' = Inr ids" unfolding enumerate_simps try_fold_Cons_Inr by blast
    obtain i where i: "card_id item ''id'' (at_index (m @ ''.'' @ field) n) = Inr i" and "acc' = i # acc"
      using step(1) unfolding described_id_def prod.case Let_def and_then_eq_Inr by (auto split: if_splits)
    moreover have "i = label item" using card_id_Inr [OF i] by (simp add: label_def text_of_def)
    ultimately show ?case using Cons.IH [OF step(2)] by auto
  qed simp
  obtain items where "jidx v key = JArr items" "try_fold (described_id m field) (enumerate 0 items) [] = Inr ids"
    using assms unfolding described_ids_def and_then_eq_Inr card_array_Inr by blast
  then show ?thesis using all [of 0 items "[]"] by (simp add: labels_def items_of_def)
qed

section \<open>Steps\<close>

text \<open>A requirement that is there: declared evidence, or a step that is done.\<close>

definition available_for :: "json \<Rightarrow> string list \<Rightarrow> string \<Rightarrow> bool" where
  "available_for mcard finished requirement \<longleftrightarrow>
     (\<exists>e \<in> set (labels mcard ''requiredEvidence''). requirement = ''evidence:'' @ e) \<or> (\<exists>s \<in> set finished. requirement = ''step:'' @ s)"

text \<open>The steps can be carried out in their order, and make all outputs and nothing else.\<close>

definition steps_in_order :: "json \<Rightarrow> bool" where
  "steps_in_order mcard \<longleftrightarrow>
     (let steps = items_of (jidx mcard ''deterministicSteps'') in
      distinct (map label steps) \<and>
      (\<forall>n < length steps. \<forall>r \<in> set (texts (steps ! n) ''requires''). available_for mcard (map label (take n steps)) r) \<and>
      (\<Union>step \<in> set steps. set (texts step ''produces'')) = set (labels mcard ''outputs''))"

lemma step_requirement_Inr:
  assumes "step_requirement context evidence prior r () = Inr u" "set evidence = set (labels mcard ''requiredEvidence'')"
  shows "available_for mcard prior r"
  using assms unfolding step_requirement_def available_for_def
  by (auto split: option.splits dest!: strip_prefix_Some [THEN iffD1])

lemma step_outputs_Inr:
  "try_fold (step_output context outputs) made produced = Inr produced' \<Longrightarrow>
     set made \<subseteq> set outputs \<and> set produced' = set made \<union> set produced"
proof (induction made arbitrary: produced)
  case (Cons p made)
  then obtain next' where step: "step_output context outputs p produced = Inr next'"
    "try_fold (step_output context outputs) made next' = Inr produced'" unfolding try_fold_Cons_Inr by blast
  show ?case using Cons.IH [OF step(2)] step(1) by (auto simp: step_output_def split: if_splits)
qed simp

lemma card_step_Inr:
  assumes "card_step m evidence outputs (n, step) (prior, produced) = Inr acc" "set evidence = set (labels mcard ''requiredEvidence'')"
  shows "label step \<notin> set prior" "\<forall>r \<in> set (texts step ''requires''). available_for mcard prior r"
    "set (texts step ''produces'') \<subseteq> set outputs"
    "fst acc = label step # prior" "set (snd acc) = set (texts step ''produces'') \<union> set produced"
proof -
  let ?c = "at_index (m @ ''.deterministicSteps'') n"
  obtain i rs u made produced' where s: "card_id step ''id'' ?c = Inr i" "i \<notin> set prior"
    "card_strings (jidx step ''requires'') (?c @ ''.requires'') False = Inr rs"
    "try_fold (step_requirement ?c evidence prior) rs () = Inr u"
    "card_strings (jidx step ''produces'') (?c @ ''.produces'') True = Inr made"
    "try_fold (step_output ?c outputs) made produced = Inr produced'" "acc = (i # prior, produced')"
    using assms(1) unfolding card_step_def prod.case Let_def and_then_eq_Inr ensure_eq_Inr sum.inject by blast
  have i: "i = label step" using card_id_Inr [OF s(1)] by (simp add: label_def text_of_def)
  have t: "texts step ''requires'' = rs" "texts step ''produces'' = made"
    using texts_strings card_strings_Inr [OF s(3)] card_strings_Inr [OF s(5)] by blast+
  have "step_requirement ?c evidence prior = (\<lambda>r _. step_requirement ?c evidence prior r ())"
    by (simp add: fun_eq_iff step_requirement_def)
  then have "\<forall>r \<in> set rs. step_requirement ?c evidence prior r () = Inr ()"
    using try_fold_checks [of "\<lambda>r. step_requirement ?c evidence prior r ()" rs] s(4) by auto
  then show "\<forall>r \<in> set (texts step ''requires''). available_for mcard prior r"
    using step_requirement_Inr [OF _ assms(2)] t(1) by blast
  show "label step \<notin> set prior" "set (texts step ''produces'') \<subseteq> set outputs" "fst acc = label step # prior"
    "set (snd acc) = set (texts step ''produces'') \<union> set produced"
    using s(2,7) i t(2) step_outputs_Inr [OF s(6)] by simp_all
qed

lemma steps_Inr:
  assumes "validate_steps mcard m evidence outputs = Inr u" "set evidence = set (labels mcard ''requiredEvidence'')"
    "set outputs = set (labels mcard ''outputs'')"
  shows "steps_in_order mcard"
proof -
  have all: "try_fold (card_step m evidence outputs) (enumerate k steps) (prior, produced) = Inr acc \<Longrightarrow> distinct prior \<Longrightarrow>
      distinct (map label steps @ prior) \<and>
      (\<forall>n < length steps. \<forall>r \<in> set (texts (steps ! n) ''requires''). available_for mcard (rev prior @ map label (take n steps)) r) \<and>
      set (snd acc) = (\<Union>step \<in> set steps. set (texts step ''produces'')) \<union> set produced" for k steps prior produced acc
  proof (induction steps arbitrary: k prior produced)
    case (Cons step steps)
    from Cons.prems(1) obtain next' where step: "card_step m evidence outputs (k, step) (prior, produced) = Inr next'"
      "try_fold (card_step m evidence outputs) (enumerate (Suc k) steps) next' = Inr acc"
      unfolding enumerate_simps try_fold_Cons_Inr by blast
    note s = card_step_Inr [OF step(1) assms(2)]
    obtain produced' where next': "next' = (label step # prior, produced')" using s(4) by (cases next') auto
    note IH = Cons.IH [OF step(2) [unfolded next']]
    have first: "\<forall>r \<in> set (texts step ''requires''). available_for mcard (rev prior) r"
      using s(2) by (simp add: available_for_def)
    show ?case
      using IH s(1,5) first Cons.prems(2) next' by (auto simp: less_Suc_eq_0_disj)
  qed auto
  obtain steps acc where steps: "jidx mcard ''deterministicSteps'' = JArr steps"
    "try_fold (card_step m evidence outputs) (enumerate 0 steps) ([], []) = Inr acc" "set (snd acc) = set outputs"
    using assms(1) unfolding validate_steps_def and_then_eq_Inr card_array_Inr by (auto simp: case_prod_beta)
  then show ?thesis using all [OF steps(2)] assms(3) by (simp add: steps_in_order_def items_of_def)
qed

section \<open>Cards of the catalog\<close>

lemma validate_card_Inr:
  assumes "validate_card mcard = Inr u"
  shows "steps_in_order mcard" "\<exists>i. jidx mcard ''id'' = JStr i" "jidx mcard ''relatedMethodIds'' = JArr (map JStr (texts mcard ''relatedMethodIds''))"
proof -
  obtain i evidence outputs u related where c: "card_id mcard ''id'' ''card'' = Inr i"
    "described_ids (jidx mcard ''requiredEvidence'') i ''requiredEvidence'' = Inr evidence"
    "described_ids (jidx mcard ''outputs'') i ''outputs'' = Inr outputs"
    "validate_steps mcard i evidence outputs = Inr u"
    "card_strings (jidx mcard ''relatedMethodIds'') (i @ ''.relatedMethodIds'') False = Inr related"
    using assms unfolding validate_card_def and_then_eq_Inr by blast
  show "steps_in_order mcard" by (rule steps_Inr [OF c(4) described_ids_Inr [OF c(2)] described_ids_Inr [OF c(3)]])
  show "\<exists>i. jidx mcard ''id'' = JStr i" using card_id_Inr [OF c(1)] by blast
  show "jidx mcard ''relatedMethodIds'' = JArr (map JStr (texts mcard ''relatedMethodIds''))"
    using card_strings_Inr [OF c(5)] texts_strings by metis
qed

lemma catalog_entries_sorted:
  assumes "try_fold catalog_entry (enumerate n items) (previous, ids, paths) = Inr acc"
  shows "sorted_wrt (<) ((case previous of Some i \<Rightarrow> [i] | None \<Rightarrow> []) @ map label items)"
  using assms
proof (induction items arbitrary: n previous ids paths)
  case (Cons item items)
  then obtain next' where step: "catalog_entry (n, item) (previous, ids, paths) = Inr next'"
    "try_fold catalog_entry (enumerate (Suc n) items) next' = Inr acc" unfolding enumerate_simps try_fold_Cons_Inr by blast
  let ?c = "at_index ''catalog.cards'' n"
  obtain i ids' paths' where i: "card_id item ''id'' ?c = Inr i"
    "\<not> (case previous of Some prior \<Rightarrow> prior \<ge> i | None \<Rightarrow> False)" "next' = (Some i, ids', paths')"
    using step(1) unfolding catalog_entry_def prod.case Let_def and_then_eq_Inr ensure_eq_Inr sum.inject by blast
  have "i = label item" using card_id_Inr [OF i(1)] by (simp add: label_def text_of_def)
  then show ?case
    using Cons.IH [OF step(2) [unfolded i(3)]] i(2) by (auto split: option.splits)
qed (simp split: option.splits)

lemma catalog_cards_Inr:
  assumes "try_fold (catalog_card by_path) entries ([], []) = Inr (cards, ids)"
  shows "map label cards = map label entries" "set ids = set (map label cards)" "\<forall>mcard \<in> set cards. validate_card mcard = Inr ()"
proof -
  have all: "try_fold (catalog_card by_path) entries (cs, js) = Inr (cards, ids) \<Longrightarrow>
      (\<exists>new. cards = cs @ new \<and> map label new = map label entries \<and> set ids = set (map label entries) \<union> set js \<and>
         (\<forall>mcard \<in> set new. validate_card mcard = Inr ()))" for cs js
  proof (induction entries arbitrary: cs js)
    case (Cons e entries)
    then obtain next' where step: "catalog_card by_path e (cs, js) = Inr next'" "try_fold (catalog_card by_path) entries next' = Inr (cards, ids)"
      unfolding try_fold_Cons_Inr by blast
    obtain mcard u where c: "validate_card mcard = Inr u" "label mcard = label e"
      "next' = (cs @ [mcard], label mcard # js)"
      using step(1) unfolding catalog_card_def label_def prod.case Let_def and_then_eq_Inr ensure_eq_Inr sum.inject by blast
    obtain new where "cards = (cs @ [mcard]) @ new" "map label new = map label entries"
      "set ids = set (map label entries) \<union> set (label mcard # js)" "\<forall>mcard \<in> set new. validate_card mcard = Inr ()"
      using Cons.IH [OF step(2) [unfolded c(3)]] by blast
    then show ?case using c by (intro exI [of _ "mcard # new"]) simp
  qed simp
  show "map label cards = map label entries" "set ids = set (map label cards)" "\<forall>mcard \<in> set cards. validate_card mcard = Inr ()"
    using all [OF assms] by (auto dest: map_eq_imp_length_eq arg_cong [where f = set])
qed

lemma documents_Inr:
  assumes "validate_documents index documents = Inr cards"
  shows "sorted_wrt (<) (map label cards)" "map label cards = labels index ''cards''" "\<forall>mcard \<in> set cards. validate_card mcard = Inr ()"
    "mcard \<in> set cards \<Longrightarrow> set (texts mcard ''relatedMethodIds'') \<subseteq> set (map label cards) - {label mcard}"
proof -
  obtain u by_path tally where d: "validate_catalog_index index = Inr u"
    "try_fold (catalog_card by_path) (items_of (jidx index ''cards'')) ([], []) = Inr tally"
    and rest: "(case tally of (cards, ids) \<Rightarrow> and_then (try_fold (card_relations ids) cards ()) (\<lambda>_. Ok cards)) = Inr cards"
    using assms unfolding validate_documents_def Let_def and_then_eq_Inr by blast
  obtain ids where tally: "tally = (cards, ids)" and relations: "try_fold (card_relations ids) cards () = Inr ()"
    using rest by (cases tally) (auto simp: and_then_eq_Inr)
  note cards = catalog_cards_Inr [OF d(2) [unfolded tally]]
  obtain items acc where "jidx index ''cards'' = JArr items" "try_fold catalog_entry (enumerate 0 items) (None, [], []) = Inr acc"
    using d(1) unfolding validate_catalog_index_def and_then_eq_Inr card_array_Inr by blast
  then have "sorted_wrt (<) (map label (items_of (jidx index ''cards'')))"
    using catalog_entries_sorted [of 0 items None "[]" "[]" acc] by (simp add: items_of_def)
  then show "sorted_wrt (<) (map label cards)" "map label cards = labels index ''cards''" "\<forall>mcard \<in> set cards. validate_card mcard = Inr ()"
    using cards by (simp_all add: labels_def)
  assume mcard: "mcard \<in> set cards"
  have "card_relations ids = (\<lambda>c _. card_relations ids c ())" by (simp add: fun_eq_iff card_relations_def)
  then have "card_relations ids mcard () = Inr ()"
    using try_fold_checks [of "\<lambda>c. card_relations ids c ()" cards] relations mcard by auto
  then obtain related where related: "card_strings (jidx mcard ''relatedMethodIds'') ''relatedMethodIds'' False = Inr related"
    "try_fold (related_method (label mcard) ids) related () = Inr ()"
    unfolding card_relations_def and_then_eq_Inr label_def by blast
  have "related_method (label mcard) ids = (\<lambda>r _. related_method (label mcard) ids r ())" by (simp add: fun_eq_iff related_method_def)
  then have "\<forall>r \<in> set related. related_method (label mcard) ids r () = Inr ()"
    using try_fold_checks [of "\<lambda>r. related_method (label mcard) ids r ()" related] related(2) by auto
  then show "set (texts mcard ''relatedMethodIds'') \<subseteq> set (map label cards) - {label mcard}"
    using texts_strings [OF card_strings_Inr [OF related(1), THEN conjunct1]] cards(2) by (auto simp: related_method_def)
qed

section \<open>Rules for the cards\<close>

text \<open>A rule names only what its card declares.\<close>

definition rule_for :: "json \<Rightarrow> method_rule \<Rightarrow> bool" where
  "rule_for mcard rule \<longleftrightarrow>
     mr_method_id rule = label mcard \<and> mr_signal_ids rule \<noteq> [] \<and> set (mr_signal_ids rule) \<subseteq> set (labels mcard ''problemSignals'') \<and>
     distinct (map cr_signal_id (mr_contraindications rule)) \<and>
     (\<forall>c \<in> set (mr_contraindications rule). cr_card_text c \<in> set (texts mcard ''contraindications''))"

lemma contras_Inr:
  assumes "try_fold (contra_entry context declared) (enumerate n items) (seen, rules) = Inr (seen', rules')"
    and "distinct (map cr_signal_id rules)" "set (map cr_signal_id rules) = set seen" "\<forall>c \<in> set rules. cr_card_text c \<in> set declared"
  shows "distinct (map cr_signal_id rules') \<and> (\<forall>c \<in> set rules'. cr_card_text c \<in> set declared)"
  using assms
proof (induction items arbitrary: n seen rules)
  case (Cons item items)
  from Cons.prems(1) obtain next' where step: "contra_entry context declared (n, item) (seen, rules) = Inr next'"
    "try_fold (contra_entry context declared) (enumerate (Suc n) items) next' = Inr (seen', rules')"
    unfolding enumerate_simps try_fold_Cons_Inr by blast
  obtain s t where st: "\<not> (s \<in> set seen \<or> t \<notin> set declared)" "next' = (s # seen, rules @ [\<lparr>cr_signal_id = s, cr_card_text = t\<rparr>])"
    using step(1) unfolding contra_entry_def prod.case Let_def and_then_eq_Inr ensure_eq_Inr sum.inject by blast
  show ?case
    by (rule Cons.IH [OF step(2) [unfolded st(2)]]) (use Cons.prems st(1) in auto)
qed simp

lemma cards_by_id_get:
  assumes "distinct (map label cards)"
  shows "bt_get (cards_by_id cards) i = Some c \<longleftrightarrow> c \<in> set cards \<and> label c = i"
    "length (cards_by_id cards) = length cards"
proof -
  have keys: "map fst (map (\<lambda>c. (label c, c)) cards) = map label cards" by (simp add: o_def)
  have by_id: "cards_by_id cards = bt_of_list (map (\<lambda>c. (label c, c)) cards)" by (simp add: cards_by_id_def label_def)
  have get: "bt_get (cards_by_id cards) = map_of (map (\<lambda>c. (label c, c)) cards)"
    unfolding by_id by (rule bt_get_of_list) (simp only: keys assms)
  have pairs: "distinct (map fst (map (\<lambda>c. (label c, c)) cards))" unfolding keys by (rule assms)
  show "bt_get (cards_by_id cards) i = Some c \<longleftrightarrow> c \<in> set cards \<and> label c = i"
    unfolding get map_of_eq_Some_iff [OF pairs] by auto
  have wf: "bt_wf (cards_by_id cards)" unfolding by_id by (rule bt_of_list_wf)
  have "dom (bt_get (cards_by_id cards)) = label ` set cards" by (simp add: get dom_map_of_conv_image_fst image_image)
  then have "set (map fst (cards_by_id cards)) = set (map label cards)" by (simp add: dom_map_of_conv_image_fst)
  then show "length (cards_by_id cards) = length cards"
    using distinct_card [OF bt_wf_distinct [OF wf]] distinct_card [OF assms] by simp
qed

lemma rule_entry_Inr:
  assumes "rule_entry (cards_by_id cards) (n, item) (previous, rules) = Inr acc" "distinct (map label cards)"
  obtains rule mcard where "acc = (Some (mr_method_id rule), rules @ [rule])" "mcard \<in> set cards" "rule_for mcard rule"
    "case previous of Some prior \<Rightarrow> prior < mr_method_id rule | None \<Rightarrow> True"
proof -
  let ?c = "at_index ''rules'' n"
  obtain i mcard signals contras tally where e: "\<not> (case previous of Some prior \<Rightarrow> prior \<ge> i | None \<Rightarrow> False)"
    "bt_get (cards_by_id cards) i = Some mcard"
    "select_string_set (jidx item ''signalIds'') (?c @ ''.signalIds'') True = Inr signals"
    "\<not> list_ex (\<lambda>signal. signal \<notin> set (labels mcard ''problemSignals'')) signals"
    "try_fold (contra_entry ?c (texts mcard ''contraindications'')) (enumerate 0 contras) ([], []) = Inr tally"
    and rest: "(case tally of (_, contraindications) \<Rightarrow> Ok (Some i,
       rules @ [\<lparr>mr_method_id = i, mr_signal_ids = signals, mr_contraindications = contraindications\<rparr>])) = (Inr acc :: string + _)"
    using assms(1) unfolding rule_entry_def prod.case Let_def and_then_eq_Inr ensure_eq_Inr ok_or_eq_Inr labels_def [unfolded label_def [abs_def], symmetric]
      texts_def [symmetric] by blast
  obtain seen contraindications where tally: "tally = (seen, contraindications)" by (cases tally)
  let ?rule = "\<lparr>mr_method_id = i, mr_signal_ids = signals, mr_contraindications = contraindications\<rparr>"
  have "rule_for mcard ?rule"
    using contras_Inr [OF e(5) [unfolded tally]] e(2,4) string_set_nonempty [OF e(3)] cards_by_id_get(1) [OF assms(2)]
    by (auto simp: rule_for_def list_ex_iff)
  then show thesis
    by (rule that [rotated 2]) (use rest e(1,2) tally cards_by_id_get(1) [OF assms(2)] in \<open>auto split: option.splits\<close>)
qed

lemma rules_Inr:
  assumes "try_fold (rule_entry (cards_by_id cards)) (enumerate n items) (previous, rules) = Inr acc" "distinct (map label cards)"
  shows "\<exists>new. snd acc = rules @ new \<and> sorted_wrt (<) ((case previous of Some i \<Rightarrow> [i] | None \<Rightarrow> []) @ map mr_method_id new) \<and>
    (\<forall>rule \<in> set new. \<exists>mcard \<in> set cards. rule_for mcard rule)"
  using assms(1)
proof (induction items arbitrary: n previous rules)
  case (Cons item items)
  then obtain next' where step: "rule_entry (cards_by_id cards) (n, item) (previous, rules) = Inr next'"
    "try_fold (rule_entry (cards_by_id cards)) (enumerate (Suc n) items) next' = Inr acc" unfolding enumerate_simps try_fold_Cons_Inr by blast
  obtain rule mcard where r: "next' = (Some (mr_method_id rule), rules @ [rule])" "mcard \<in> set cards" "rule_for mcard rule"
    "case previous of Some prior \<Rightarrow> prior < mr_method_id rule | None \<Rightarrow> True"
    by (rule rule_entry_Inr [OF step(1) assms(2)])
  obtain new where "snd acc = (rules @ [rule]) @ new" "sorted_wrt (<) (mr_method_id rule # map mr_method_id new)"
    "\<forall>rule \<in> set new. \<exists>mcard \<in> set cards. rule_for mcard rule"
    using Cons.IH [OF step(2) [unfolded r(1)]] by auto
  then show ?case
    using r by (intro exI [of _ "rule # new"]) (auto split: option.splits)
qed (auto split: option.splits)

section \<open>Properties\<close>

text \<open>C37: the cards of a loaded catalog are those of its index, in strictly increasing order; the steps of each can be carried
  out in their order, every requirement being declared evidence or an earlier step, and make exactly the declared outputs;
  and its related methods are other cards of the catalog.\<close>

theorem catalog_steps_in_order:
  assumes "validate_documents index documents = Inr cards"
  shows "map label cards = labels index ''cards'' \<and> sorted_wrt (<) (map label cards) \<and>
    (\<forall>mcard \<in> set cards. steps_in_order mcard \<and> set (texts mcard ''relatedMethodIds'') \<subseteq> set (map label cards) - {label mcard})"
  using documents_Inr [OF assms] validate_card_Inr(1) by blast

text \<open>C36: a rule table that is accepted has exactly one rule for each card of a loaded catalog, in the order of the cards; its signals
  are problem signals of the card, its contraindications are among those the card declares, each under one signal.\<close>

theorem rules_match_catalog:
  assumes "validate_documents index documents = Inr cards" "validate_rules document cards = Inr rules"
  shows "map mr_method_id rules = map label cards \<and> list_all2 rule_for cards rules"
proof -
  note sorted = documents_Inr(1) [OF assms(1)]
  have distinct: "distinct (map label cards)" using sorted strict_sorted_iff by blast
  obtain entries tally where "try_fold (rule_entry (cards_by_id cards)) (enumerate 0 entries) (None, []) = Inr tally"
    "length (snd tally) = length (cards_by_id cards)" "snd tally = rules"
    using assms(2) unfolding validate_rules_def Let_def and_then_eq_Inr by (auto simp: and_then_eq_Inr)
  then have r: "sorted_wrt (<) (map mr_method_id rules)" "\<forall>rule \<in> set rules. \<exists>mcard \<in> set cards. rule_for mcard rule"
    "length rules = length cards"
    using rules_Inr [OF _ distinct, of 0 entries None "[]" tally] cards_by_id_get(2) [OF distinct] by auto
  have sub: "set (map mr_method_id rules) \<subseteq> set (map label cards)" using r(2) by (auto simp: rule_for_def)
  have "card (set (map mr_method_id rules)) = card (set (map label cards))"
    using r(1,3) sorted strict_sorted_iff distinct_card by (metis length_map)
  then have "set (map mr_method_id rules) = set (map label cards)" using sub by (intro card_subset_eq) auto
  then have same: "map mr_method_id rules = map label cards" using strict_sorted_equal r(1) sorted by metis
  have "rule_for (cards ! n) (rules ! n)" if n: "n < length cards" for n
  proof -
    obtain mcard where m: "mcard \<in> set cards" "rule_for mcard (rules ! n)" using r(2,3) n by fastforce
    then have "label mcard = label (cards ! n)" using same n r(3) by (metis nth_map rule_for_def)
    then have "mcard = cards ! n" using distinct m(1) n by (meson distinct_map inj_onD nth_mem)
    then show ?thesis using m(2) by simp
  qed
  then show ?thesis using same r(3) by (simp add: list_all2_conv_all_nth)
qed

definition shop_step :: "string \<Rightarrow> string list \<Rightarrow> json" where
  "shop_step i requires = jobj [(''id'', JStr i), (''action'', JStr ''a''), (''requires'', jstrs requires), (''produces'', jstrs [''o''])]"

definition shop_described :: "string \<Rightarrow> json" where
  "shop_described i = JArr [jobj [(''id'', JStr i), (''description'', JStr ''d'')]]"

definition shop_card :: "string \<Rightarrow> string list \<Rightarrow> json" where
  "shop_card i related = jobj [(''schema'', JStr ''code-intel-method-card.v1''), (''id'', JStr i), (''version'', JStr ''1''), (''name'', JStr ''n''),
     (''problemSignals'', shop_described ''s''), (''requiredEvidence'', shop_described ''e''), (''assumptions'', jstrs [''x'']),
     (''deterministicSteps'', JArr [shop_step ''a'' [''evidence:e''], shop_step ''b'' [''step:a'', ''evidence:e'']]),
     (''outputs'', shop_described ''o''), (''confidenceRules'', JArr [jobj [(''level'', JStr ''low''), (''whenAll'', jstrs [''w''])]]),
     (''cost'', jobj [(''relative'', JStr ''low''), (''drivers'', jstrs [''d''])]), (''contraindications'', jstrs [''c'']),
     (''implementationPorts'', JArr [jobj [(''id'', JStr ''p''), (''kind'', JStr ''manual''), (''contract'', jstrs [''k''])]]),
     (''source'', jobj [(''title'', JStr ''t''), (''version'', JStr ''1''), (''reference'', JStr ''r'')]),
     (''applicabilityBoundary'', jobj [(''inScope'', jstrs [''i'']), (''outOfScope'', jstrs [''o''])]),
     (''relatedMethodIds'', jstrs related), (''executionPolicy'', JStr ''catalog_only_no_selection_or_execution'')]"

definition shop_index :: json where
  "shop_index = jobj [(''schema'', JStr ''code-intel-method-catalog.v1''), (''catalogVersion'', JStr ''1''),
     (''selectionPolicy'', JStr ''none_catalog_only''),
     (''cards'', JArr [jobj [(''id'', JStr ''m''), (''path'', JStr ''cards/m.v1.json'')], jobj [(''id'', JStr ''n''), (''path'', JStr ''cards/n.v1.json'')]])]"

definition shop_documents :: "(string \<times> json) list" where
  "shop_documents = [(''cards/n.v1.json'', shop_card ''n'' []), (''cards/m.v1.json'', shop_card ''m'' [''n''])]"

definition shop_rules :: json where
  "shop_rules = jobj [(''schema'', JStr ''code-intel-method-selection-rules.v1''),
     (''rules'', JArr (map (\<lambda>i. jobj [(''methodId'', JStr i), (''signalIds'', jstrs [''s'']),
        (''contraindications'', JArr [jobj [(''signalId'', JStr ''z''), (''cardText'', JStr ''c'')]])]) [''m'', ''n'']))]"

lemma shop_documents_ok: "validate_documents shop_index shop_documents = Inr [shop_card ''m'' [''n''], shop_card ''n'' []]"
  by code_simp

lemma shop_rules_ok: "validate_rules shop_rules [shop_card ''m'' [''n''], shop_card ''n'' []] =
    Inr [\<lparr>mr_method_id = ''m'', mr_signal_ids = [''s''], mr_contraindications = [\<lparr>cr_signal_id = ''z'', cr_card_text = ''c''\<rparr>]\<rparr>,
      \<lparr>mr_method_id = ''n'', mr_signal_ids = [''s''], mr_contraindications = [\<lparr>cr_signal_id = ''z'', cr_card_text = ''c''\<rparr>]\<rparr>]"
  by code_simp

lemma catalog_steps_in_order_witness:
  "steps_in_order (shop_card ''m'' [''n'']) \<and> set (texts (shop_card ''m'' [''n'']) ''relatedMethodIds'') = {''n''}"
proof -
  have "texts (shop_card ''m'' [''n'']) ''relatedMethodIds'' = [''n'']" by code_simp
  then show ?thesis using catalog_steps_in_order [OF shop_documents_ok] by simp
qed

lemma rules_match_catalog_witness:
  "\<exists>rules. validate_rules shop_rules [shop_card ''m'' [''n''], shop_card ''n'' []] = Inr rules \<and>
     list_all2 rule_for [shop_card ''m'' [''n''], shop_card ''n'' []] rules"
  using rules_match_catalog [OF shop_documents_ok shop_rules_ok] shop_rules_ok by blast

end
