(* ===== verification/Spec2Isabelle.thy ===== *)
theory Spec2Isabelle
  imports Budget_Run Authority_Props Decision_Claims Impact_Props Impact_Commands Git_Remote Span_Edit Evidence_Outcome Manifest_Props Marker_Rollback Admissibility_Props Execution_Policy Index_Write Review_Props Gate_Props Catalog_Props
begin

text \<open>
  A verification development for the code-intel pipeline, the Rust crate crates/code-intel-cli.  All
  source paths below are relative to src/crates/code-intel-cli/src/.

  The program.  A run executes a graph of capabilities on a snapshot of a repository.  The coordinator
  (dag\_coordinator.rs) validates the graph, hands out batches of ready nodes, records their outcomes,
  blocks what depends on a failure and ends with a run manifest; a budget (budget.rs, budget\_dispatch.rs)
  may refuse nodes or stop the run.  What the nodes produce are artifacts: bytes named by Artifact Refs
  with a SHA-256 digest (content\_contract.rs, artifact\_ref.rs).  They are staged
  (staged\_artifact.rs) and published with the manifest by a two-step commit whose last step is a
  completion marker (run\_commit.rs); the runs committed in this way are listed by the artifact index
  (artifact\_index.rs), the authority that queries start from.  Around this core stand protocols and adapters: authority
  transitions between kinds of artifacts, human decisions, the admission of observed evidence,
  completeness claims, the execution policy, the impact of a change, links to Git remotes, and edits
  of the repository addressed by spans.

  How the code is translated.  A struct is a record, an enum a datatype, \<open>Result\<close> the sum type with
  the error on the left, \<open>?\<close> the operator \<open>and_then\<close> (\<open>bind_act\<close> where a state is threaded,
  theory Effect); a loop that returns early is \<open>try_fold\<close>, \<open>try_map\<close> or a recursive function.
  \<open>u32\<close> and \<open>u64\<close> are words where arithmetic on them can overflow, lengths and indices are \<open>nat\<close>;
  a float is its 64 bits, and its value a rational (Rust\_Float).
  A Rust string is the list of its bytes, a \<open>BTreeMap\<close> a sorted association list, a \<open>BTreeSet\<close> a sorted
  list or a set, a JSON value the type \<open>json\<close>.  Panics are \<open>None\<close>.  Message texts are kept as in
  the code.  Library code and the operating system are parameters: records of functions
  (\<open>json_lib\<close>, \<open>artifact_env\<close>, \<open>platform\<close>, \<open>commit_env\<close>, \<open>repo_env\<close> and others) over an arbitrary type of
  file system states; a property that relies on their documented behaviour names it as a
  hypothesis and has a witness with a concrete instance.

  Theories.
  Shared: Prelude (results, early returns, ordered maps with the locale \<open>keyed_map\<close>), Rust\_Str and
  Rust\_Path (standard library), Json\_Value and Json\_Shape (JSON values, readers, literals), Effect
  (actions on a state).
  Contents: Sha256 (content\_contract/sha256.rs and the copy in authority.rs; locale \<open>streaming_hash\<close>),
  Content\_Contract and Json\_Scan (content\_contract.rs).
  Runs: Dag\_Spec and Dag\_Validate (specifications and their validation), Dag\_Coordinator (all operations of
  \<open>Coordinator\<close>), Dag\_Lifecycle (invariant and step relation), Dag\_Run, Dag\_Loop and Dag\_Results (the loop
  \<open>run_to_completion\<close>; locale \<open>work_loop\<close>), Dag\_Properties and Dag\_Resume (claims); Budget, Budget\_Dispatch,
  Budget\_Run (budget.rs, budget\_dispatch.rs); Execution\_Policy (execution\_policy.rs and
  execution\_policy/inputs.rs).
  Artifacts: Manifest\_Contract (\<open>validate_run_manifest\<close> in artifact\_ref.rs and in run\_commit.rs),
  Manifest\_Props (producers and consumers of manifests agree); Artifact\_Path, Artifact\_Payload,
  Artifact\_Ref, Artifact\_Props (artifact\_ref.rs); Staged\_Artifact and Staged\_Writer
  (staged\_artifact.rs); Run\_Commit and Run\_Publish, Commit\_Props, Publish\_Props, Marker\_Rollback
  (run\_commit.rs); Artifact\_Index, Index\_Props, Index\_Write (artifact\_index.rs).
  Protocols: Authority and Authority\_Props (authority.rs; locale \<open>single_use\<close>); Decision\_Port,
  Decision\_Cli, Decision\_Props, Decision\_Claims (decision\_port.rs; locale \<open>request_store\<close>);
  Evidence\_Outcome (evidence\_outcome.rs); Admissibility and Admissibility\_Props (admissibility.rs);
  Method\_Select and Method\_Props (method\_select.rs), which consume admitted evidence; Method\_Catalog and
  Catalog\_Props (method\_catalog.rs); Rust\_Float, Gate\_Policy and Gate\_Props (sentrux\_gate\_policy.rs and
  sentrux\_coupling\_policy.rs, with the policy document orchestration/sentrux-gate-policy.v1.json).
  Repositories: Impact\_Graph, Impact\_Props, Impact\_Commands (impact\_graph.rs); Git\_Remote
  (git\_remote\_registry/); Span\_Apply, Span\_Props, Span\_Edit (span\_apply.rs and the path rules of
  structured\_edit.rs); Review\_Units and Review\_Props (change\_agenda/cluster.rs and cochange.rs).

  What is shown.  Runs: validation admits exactly the acyclic well-formed graphs; the invariant of
  reachable coordinators, from which dispatch only after dependencies, final terminal states and root
  causes of blocked nodes follow; every run ends with a manifest that does not depend on the
  concurrency bound; what resumption keeps; the same for budgeted runs; and the manifests the
  consumers accept.  Artifacts: inputs and committed runs are bound to bytes by digests, a commit
  publishes exactly what was staged, a failed publication of the marker is taken back;
  the index lists exactly the last complete run of each repository with proven provenance, and writing it never
  loses the old one.
  Protocols: authority events are used once, decisions are answered once and by those asked, only fresh
  evidence is admitted, methods are proposed exactly when such evidence demands them,
  the steps of a method can be carried out in order and its rule names only what it declares, a gate result is accepted only with
  the verdict its measurements demand, an outcome is read from exactly the document that writes it, switches of the
  policy only narrow.  Repositories: impacted files are exactly those reachable through imports, review
  units are the classes of the closure of frequent co-changes,
  credentials of remotes do not reach the registry, an edit is made as a whole or not at all.
  Refuted expectations are theorems or lemmas too: a coordinator may refuse its own checkpoint, a
  stopped run may report running nodes, a second panic escapes, a budget estimate wraps, the manifest path
  of a marker may lead out of the run, the index may refuse what it wrote itself.

  Bounds and fuel.  The scanner of JSON text recurses to the depth of the code's own limit, and its loops
  consume their text; the claim \<open>scan_returns\<close> shows that it returns on every text.  The traversal of the import
  graph has as fuel the number of changed files and edges, which bounds the files it can visit.  The walk of the union-find
  (\<open>find_root\<close>) is a partial function; its claim shows that it returns.  The search for the name of
  a temporary marker ends after 1024 attempts as in the code.  The loop of a run
  has no fuel: it is a function that terminates because every batch leaves fewer unfinished nodes (locale
  \<open>work_loop\<close>).

  Not modelled.  Opening files beneath a directory without following links (stable\_artifact.rs), system
  calls of the platform modules, process execution and Git: they are parameters.  In artifact\_ref.rs the
  payload validators of the advisory, orientation and diagnosis families are the parameter
  \<open>ae_validator\<close>.  Adapters that run external analysers and rewrite their output (the other sentrux* files, codenexus*,
  repowise*, providers), snapshots of the working tree, the hospital and its scores, the change risk scores, audit reports
  and the command-line glue are not modelled; the manifest lists them with their reasons.
\<close>

end
